(* ===== verification/Prelude.thy ===== *)
theory Prelude
  imports Main "HOL-Library.Char_ord" "HOL-Library.List_Lexorder"
begin

text \<open>
  What every theory of the development shares: Rust's \<open>Result\<close> and its combinators,
  integer types with their checked and saturating operations, UTF-8 strings, lists that are
  searched and updated in place, and the two interfaces that the stateful components of the
  rules engine provide (\<open>transactional\<close> and \<open>conserving\<close>).
\<close>

named_theorems validators "definitions of the validate methods"
named_theorems operations "definitions of the state-changing operations"
named_theorems rust_arith "definitions of Rust's checked, saturating and wrapping arithmetic"

section \<open>Result\<close>

text \<open>\<open>Result<T, E>\<close>, with the source's constructors.\<close>

datatype ('e, 'a) result = Err 'e | Ok 'a

fun is_ok :: "('e, 'a) result \<Rightarrow> bool" where
  "is_ok (Ok _) = True"
| "is_ok (Err _) = False"

text \<open>The \<open>?\<close> operator on a pure computation: stop at the first error.\<close>

fun and_then :: "('e, 'a) result \<Rightarrow> ('a \<Rightarrow> ('e, 'b) result) \<Rightarrow> ('e, 'b) result" where
  "and_then (Err e) k = Err e"
| "and_then (Ok x) k = k x"

fun map_err :: "('e \<Rightarrow> 'f) \<Rightarrow> ('e, 'a) result \<Rightarrow> ('f, 'a) result" where
  "map_err f (Err e) = Err (f e)"
| "map_err f (Ok x) = Ok x"

text \<open>\<open>if bad { return Err(e) }\<close> and \<open>option.ok_or(e)\<close>.\<close>

definition ensure :: "bool \<Rightarrow> 'e \<Rightarrow> ('e, unit) result" where
  "ensure good e = (if good then Ok () else Err e)"

definition ok_or :: "'a option \<Rightarrow> 'e \<Rightarrow> ('e, 'a) result" where
  "ok_or o' e = (case o' of None \<Rightarrow> Err e | Some x \<Rightarrow> Ok x)"

text \<open>\<open>for x in xs { f(x)?; }\<close>\<close>

fun check_each :: "('a \<Rightarrow> ('e, unit) result) \<Rightarrow> 'a list \<Rightarrow> ('e, unit) result" where
  "check_each f [] = Ok ()"
| "check_each f (x # xs) = and_then (f x) (\<lambda>_. check_each f xs)"

text \<open>\<open>iter.try_fold(acc, f)\<close>\<close>

fun try_fold :: "('b \<Rightarrow> 'a \<Rightarrow> ('e, 'b) result) \<Rightarrow> 'b \<Rightarrow> 'a list \<Rightarrow> ('e, 'b) result" where
  "try_fold f acc [] = Ok acc"
| "try_fold f acc (x # xs) = and_then (f acc x) (\<lambda>acc'. try_fold f acc' xs)"

lemma and_then_Ok_iff [simp]: "and_then r k = Ok y \<longleftrightarrow> (\<exists>x. r = Ok x \<and> k x = Ok y)"
  by (cases r) auto

lemma and_then_Err_iff: "and_then r k = Err e \<longleftrightarrow> r = Err e \<or> (\<exists>x. r = Ok x \<and> k x = Err e)"
  by (cases r) auto

lemma and_then_assoc: "and_then (and_then r f) g = and_then r (\<lambda>x. and_then (f x) g)"
  by (cases r) auto

lemma map_err_Ok_iff [simp]: "map_err f r = Ok x \<longleftrightarrow> r = Ok x"
  by (cases r) auto

lemma ensure_Ok_iff [simp]: "ensure b e = Ok u \<longleftrightarrow> b"
  by (simp add: ensure_def)

lemma ensure_Err_iff [simp]: "ensure b e = Err e' \<longleftrightarrow> \<not> b \<and> e' = e"
  by (auto simp: ensure_def)

lemma ok_or_Ok_iff [simp]: "ok_or o' e = Ok x \<longleftrightarrow> o' = Some x"
  by (auto simp: ok_or_def split: option.splits)

lemma ok_or_Err_iff [simp]: "ok_or o' e = Err e' \<longleftrightarrow> o' = None \<and> e' = e"
  by (auto simp: ok_or_def split: option.splits)

lemma is_ok_iff: "is_ok r \<longleftrightarrow> (\<exists>x. r = Ok x)"
  by (cases r) auto

lemma check_each_Ok_iff [simp]: "check_each f xs = Ok u \<longleftrightarrow> (\<forall>x\<in>set xs. f x = Ok ())"
  by (induction xs) auto

text \<open>The \<open>?\<close> operator in a computation that also carries a state.\<close>

fun and_then_st ::
  "('e, 'a) result \<times> 's \<Rightarrow> ('a \<Rightarrow> 's \<Rightarrow> ('e, 'b) result \<times> 's) \<Rightarrow> ('e, 'b) result \<times> 's" where
  "and_then_st (Err e, s) k = (Err e, s)"
| "and_then_st (Ok x, s) k = k x s"

lemma and_then_st_Ok_iff [simp]:
  "and_then_st p k = (Ok y, s') \<longleftrightarrow> (\<exists>x s1. p = (Ok x, s1) \<and> k x s1 = (Ok y, s'))"
  by (cases "(p, k)" rule: and_then_st.cases) auto

lemma and_then_st_Err_iff:
  "and_then_st p k = (Err e, s') \<longleftrightarrow>
     p = (Err e, s') \<or> (\<exists>x s1. p = (Ok x, s1) \<and> k x s1 = (Err e, s'))"
  by (cases "(p, k)" rule: and_then_st.cases) auto

lemma and_then_st_rollback:
  assumes "\<And>e s1. p = (Err e, s1) \<Longrightarrow> s1 = s"
    and "\<And>x s1 e s2. p = (Ok x, s1) \<Longrightarrow> k x s1 = (Err e, s2) \<Longrightarrow> s2 = s"
    and "and_then_st p k = (Err e, s')"
  shows "s' = s"
  using assms by (auto simp: and_then_st_Err_iff)

lemma check_each_append: "check_each f (xs @ ys) = and_then (check_each f xs) (\<lambda>_. check_each f ys)"
  by (induction xs) (auto simp: and_then_assoc)

section \<open>Integers\<close>

text \<open>
  Unsigned integers are \<open>nat\<close> and signed ones \<open>int\<close>; the width shows in the operations.
  A \<open>checked_*\<close> operation is \<open>None\<close> outside the type's range, a \<open>saturating_*\<close>
  operation stops at its end, and a signed operator the code leaves unchecked wraps, which is
  what the release profile of the workspace does (no \<open>overflow-checks\<close> key in any manifest).
  A subtraction or addition written without one of these is guarded in the code; where that
  matters the guard is a lemma.
\<close>

type_synonym u8 = nat
type_synonym u16 = nat
type_synonym u32 = nat
type_synonym u64 = nat
type_synonym i8 = int
type_synonym i16 = int
type_synonym i32 = int

definition u8_max :: nat where "u8_max = 255"
definition u16_max :: nat where "u16_max = 65535"
definition u32_max :: nat where "u32_max = 4294967295"
definition u64_max :: nat where "u64_max = 18446744073709551615"
definition i16_max :: int where "i16_max = 32767"

definition checked_add :: "nat \<Rightarrow> nat \<Rightarrow> nat \<Rightarrow> nat option" where
  "checked_add m a b = (if a + b \<le> m then Some (a + b) else None)"

definition checked_mul :: "nat \<Rightarrow> nat \<Rightarrow> nat \<Rightarrow> nat option" where
  "checked_mul m a b = (if a * b \<le> m then Some (a * b) else None)"

definition checked_sub :: "nat \<Rightarrow> nat \<Rightarrow> nat option" where
  "checked_sub a b = (if b \<le> a then Some (a - b) else None)"

definition saturating_add :: "nat \<Rightarrow> nat \<Rightarrow> nat \<Rightarrow> nat" where
  "saturating_add m a b = min m (a + b)"

definition saturating_mul :: "nat \<Rightarrow> nat \<Rightarrow> nat \<Rightarrow> nat" where
  "saturating_mul m a b = min m (a * b)"

definition abs_diff :: "nat \<Rightarrow> nat \<Rightarrow> nat" where
  "abs_diff a b = (if a < b then b - a else a - b)"

definition checked_add_i16 :: "int \<Rightarrow> int \<Rightarrow> int option" where
  "checked_add_i16 a b = (if -32768 \<le> a + b \<and> a + b \<le> 32767 then Some (a + b) else None)"

definition checked_add_i32 :: "int \<Rightarrow> int \<Rightarrow> int option" where
  "checked_add_i32 a b =
     (if -2147483648 \<le> a + b \<and> a + b \<le> 2147483647 then Some (a + b) else None)"

definition checked_add_i64 :: "int \<Rightarrow> int \<Rightarrow> int option" where
  "checked_add_i64 a b =
     (if -9223372036854775808 \<le> a + b \<and> a + b \<le> 9223372036854775807 then Some (a + b) else None)"

definition wrap_i8 :: "int \<Rightarrow> int" where
  "wrap_i8 x = (x + 128) mod 256 - 128"

definition wrap_i32 :: "int \<Rightarrow> int" where
  "wrap_i32 x = (x + 2147483648) mod 4294967296 - 2147483648"

text \<open>The \<open>as\<close> casts that can lose bits.\<close>

definition as_u8 :: "nat \<Rightarrow> nat" where
  "as_u8 n = n mod 256"

definition as_u16 :: "nat \<Rightarrow> nat" where
  "as_u16 n = n mod 65536"

lemma as_u8_id [simp]: "n \<le> 255 \<Longrightarrow> as_u8 n = n"
  by (simp add: as_u8_def)

lemma as_u16_id [simp]: "n \<le> 65535 \<Longrightarrow> as_u16 n = n"
  by (simp add: as_u16_def)

lemmas [rust_arith] = checked_add_def checked_mul_def checked_sub_def saturating_add_def
  saturating_mul_def abs_diff_def checked_add_i16_def checked_add_i32_def checked_add_i64_def

lemma checked_add_Some_iff [simp]: "checked_add m a b = Some c \<longleftrightarrow> c = a + b \<and> a + b \<le> m"
  by (auto simp: checked_add_def)

lemma checked_add_None_iff [simp]: "checked_add m a b = None \<longleftrightarrow> m < a + b"
  by (auto simp: checked_add_def)

lemma checked_mul_None_iff [simp]: "checked_mul m a b = None \<longleftrightarrow> m < a * b"
  by (auto simp: checked_mul_def)

lemma checked_sub_None_iff [simp]: "checked_sub a b = None \<longleftrightarrow> a < b"
  by (auto simp: checked_sub_def)

lemma checked_mul_Some_iff [simp]: "checked_mul m a b = Some c \<longleftrightarrow> c = a * b \<and> a * b \<le> m"
  by (auto simp: checked_mul_def)

lemma checked_sub_Some_iff [simp]: "checked_sub a b = Some c \<longleftrightarrow> b \<le> a \<and> c = a - b"
  by (auto simp: checked_sub_def)

lemma wrap_i32_id [simp]: "-2147483648 \<le> x \<Longrightarrow> x \<le> 2147483647 \<Longrightarrow> wrap_i32 x = x"
  by (simp add: wrap_i32_def)

lemma wrap_i8_id [simp]: "-128 \<le> x \<Longrightarrow> x \<le> 127 \<Longrightarrow> wrap_i8 x = x"
  by (simp add: wrap_i8_def)

section \<open>Strings\<close>

text \<open>
  A \<open>String\<close> is the list of its UTF-8 bytes, so \<open>length\<close> is \<open>str::len\<close> and the order
  of the imported theories is \<open>str\<close>'s byte order. \<open>chars().count()\<close> counts the bytes that
  are not continuation bytes; \<open>trim().is_empty()\<close> holds of strings made of the encodings of
  Unicode's \<open>White_Space\<close> characters only.
\<close>

definition byte :: "char \<Rightarrow> nat" where
  "byte c = of_char c"

definition chars_count :: "string \<Rightarrow> nat" where
  "chars_count s = length (filter (\<lambda>c. \<not> (128 \<le> byte c \<and> byte c \<le> 191)) s)"

fun is_blank_bytes :: "nat list \<Rightarrow> bool" where
  "is_blank_bytes [] = True"
| "is_blank_bytes (a # bs) =
     (if a \<in> {9, 10, 11, 12, 13, 32} then is_blank_bytes bs
      else case bs of
        [] \<Rightarrow> False
      | b # cs \<Rightarrow>
          if a = 194 \<and> b \<in> {133, 160} then is_blank_bytes cs
          else (case cs of
              [] \<Rightarrow> False
            | c # ds \<Rightarrow>
                (a = 225 \<and> b = 154 \<and> c = 128 \<or>
                 a = 226 \<and> b = 128 \<and> (128 \<le> c \<and> c \<le> 138 \<or> c = 168 \<or> c = 169 \<or> c = 175) \<or>
                 a = 226 \<and> b = 129 \<and> c = 159 \<or>
                 a = 227 \<and> b = 128 \<and> c = 128) \<and> is_blank_bytes ds))"

definition is_blank :: "string \<Rightarrow> bool" where
  "is_blank s = is_blank_bytes (map byte s)"

definition ascii_digit :: "char \<Rightarrow> bool" where
  "ascii_digit c \<longleftrightarrow> 48 \<le> byte c \<and> byte c \<le> 57"

definition ascii_alphanumeric :: "char \<Rightarrow> bool" where
  "ascii_alphanumeric c \<longleftrightarrow>
     ascii_digit c \<or> 65 \<le> byte c \<and> byte c \<le> 90 \<or> 97 \<le> byte c \<and> byte c \<le> 122"

text \<open>
  For evaluation: a byte as a binary integer. Natural numbers evaluate in unary, so that the
  comparisons above would take as many steps as the byte is large.
\<close>

definition byte_int :: "char \<Rightarrow> int" where
  "byte_int c = int (byte c)"

lemma byte_int_Char [code]:
  "byte_int (Char b0 b1 b2 b3 b4 b5 b6 b7) =
     (if b0 then 1 else 0) + (if b1 then 2 else 0) + (if b2 then 4 else 0) + (if b3 then 8 else 0)
     + (if b4 then 16 else 0) + (if b5 then 32 else 0) + (if b6 then 64 else 0) + (if b7 then 128 else 0)"
  by (simp add: byte_int_def byte_def)

lemma ascii_digit_code [code]: "ascii_digit c \<longleftrightarrow> (let n = byte_int c in 48 \<le> n \<and> n \<le> 57)"
  by (simp add: ascii_digit_def byte_int_def)

lemma ascii_alphanumeric_code [code]:
  "ascii_alphanumeric c \<longleftrightarrow>
     (let n = byte_int c in 48 \<le> n \<and> n \<le> 57 \<or> 65 \<le> n \<and> n \<le> 90 \<or> 97 \<le> n \<and> n \<le> 122)"
  by (simp add: ascii_alphanumeric_def ascii_digit_def byte_int_def Let_def)

lemma chars_count_code [code]:
  "chars_count s = length (filter (\<lambda>c. let n = byte_int c in n < 128 \<or> 191 < n) s)"
  by (simp add: chars_count_def byte_int_def Let_def not_le)

text \<open>A string that starts with a visible ASCII character is decided at once.\<close>

lemma is_blank_code [code]:
  "is_blank s = (case s of [] \<Rightarrow> True
     | c # cs \<Rightarrow> (let n = byte_int c in
         if 33 \<le> n \<and> n \<le> 127 then False else is_blank_bytes (map byte s)))"
proof (cases s)
  case Nil
  then show ?thesis by (simp add: is_blank_def)
next
  case (Cons c cs)
  have "\<not> is_blank_bytes (byte c # bs)" if "33 \<le> byte c" "byte c \<le> 127" for bs
    using that by (subst is_blank_bytes.simps(2)) (auto split: list.split simp del: is_blank_bytes.simps)
  then show ?thesis by (simp add: Cons is_blank_def byte_int_def Let_def del: is_blank_bytes.simps)
qed

section \<open>Lists searched and updated in place\<close>

text \<open>\<open>iter_mut().find(p)\<close> followed by a write: the first match changes, the rest stay.\<close>

fun update_first :: "('a \<Rightarrow> bool) \<Rightarrow> ('a \<Rightarrow> 'a) \<Rightarrow> 'a list \<Rightarrow> 'a list" where
  "update_first p f [] = []"
| "update_first p f (x # xs) = (if p x then f x # xs else x # update_first p f xs)"

text \<open>\<open>windows(2).all(|w| w[0] < w[1])\<close>\<close>

fun strictly_sorted :: "'a::linorder list \<Rightarrow> bool" where
  "strictly_sorted [] = True"
| "strictly_sorted [_] = True"
| "strictly_sorted (x # y # zs) = (x < y \<and> strictly_sorted (y # zs))"

lemma strictly_sorted_iff: "strictly_sorted xs \<longleftrightarrow> sorted_wrt (<) xs"
  by (induction xs rule: strictly_sorted.induct) (auto intro: less_trans)

lemma strictly_sorted_distinct: "strictly_sorted xs \<Longrightarrow> distinct xs"
  by (simp add: strictly_sorted_iff strict_sorted_iff)

lemma update_first_map: "(\<And>x. g (f x) = g x) \<Longrightarrow> map g (update_first p f xs) = map g xs"
  by (induction xs) auto

lemma length_update_first [simp]: "length (update_first p f xs) = length xs"
  by (induction xs) auto

lemma set_update_first: "y \<in> set (update_first p f xs) \<Longrightarrow> y \<in> set xs \<or> (\<exists>x\<in>set xs. find p xs = Some x \<and> y = f x)"
  by (induction xs) (auto split: if_splits)

lemma find_SomeD: "find p xs = Some x \<Longrightarrow> x \<in> set xs \<and> p x"
  by (induction xs) (auto split: if_splits)

section \<open>Interfaces of the stateful components\<close>

text \<open>
  A \<open>&mut self\<close> operation with input \<open>i\<close> is a function from the state to its result and the
  state it leaves behind, on the error path too. \<open>run_steps\<close> performs a list of operations,
  as a caller that reports each failure and goes on.
\<close>

type_synonym ('i, 's, 'e, 'o) step = "'i \<Rightarrow> 's \<Rightarrow> ('e, 'o) result \<times> 's"

fun run_steps :: "('i, 's, 'e, 'o) step \<Rightarrow> 'i list \<Rightarrow> 's \<Rightarrow> 's" where
  "run_steps f [] s = s"
| "run_steps f (i # is) s = run_steps f is (snd (f i s))"

text \<open>The inputs of a run that the component accepted.\<close>

fun accepted :: "('i, 's, 'e, 'o) step \<Rightarrow> 'i list \<Rightarrow> 's \<Rightarrow> 'i list" where
  "accepted f [] s = []"
| "accepted f (i # is) s =
     (if is_ok (fst (f i s)) then i # accepted f is (snd (f i s)) else accepted f is (snd (f i s)))"

text \<open>The accepted inputs together with what the component answered.\<close>

fun outcomes :: "('i, 's, 'e, 'o) step \<Rightarrow> 'i list \<Rightarrow> 's \<Rightarrow> ('i \<times> 'o) list" where
  "outcomes f [] s = []"
| "outcomes f (i # is) s =
     (case f i s of
        (Ok x, s') \<Rightarrow> (i, x) # outcomes f is s'
      | (Err _, s') \<Rightarrow> outcomes f is s')"

lemma accepted_outcomes: "accepted f is s = map fst (outcomes f is s)"
  by (induction "is" arbitrary: s) (auto split: prod.splits result.splits)

lemma run_steps_append: "run_steps f (is @ js) s = run_steps f js (run_steps f is s)"
  by (induction "is" arbitrary: s) auto

text \<open>
  The contract of an operation of the rules engine: success keeps the component's validity,
  failure leaves the state as it was.
\<close>

locale transactional =
  fixes valid :: "'s \<Rightarrow> bool"
    and step :: "('i, 's, 'e, 'o) step"
  assumes step_valid: "valid s \<Longrightarrow> step i s = (Ok x, s') \<Longrightarrow> valid s'"
    and step_rollback: "step i s = (Err e, s') \<Longrightarrow> s' = s"
begin

lemma step_keeps: "valid s \<Longrightarrow> valid (snd (step i s))"
  using step_valid [of s i] step_rollback [of i s]
  by (cases "step i s"; cases "fst (step i s)") auto

lemma run_valid: "valid s \<Longrightarrow> valid (run_steps step is s)"
  by (induction "is" arbitrary: s) (auto simp: step_keeps)

text \<open>Rejected operations leave no trace: dropping them gives the same final state.\<close>

lemma run_accepted: "run_steps step (accepted step is s) s = run_steps step is s"
proof (induction "is" arbitrary: s)
  case Nil
  show ?case by simp
next
  case (Cons i "is")
  show ?case
  proof (cases "fst (step i s)")
    case (Err e)
    then have "snd (step i s) = s"
      using step_rollback by (metis prod.collapse)
    with Err Cons.IH show ?thesis by simp
  next
    case (Ok x)
    with Cons.IH show ?thesis by simp
  qed
qed

lemma accepted_idem: "accepted step (accepted step is s) s = accepted step is s"
proof (induction "is" arbitrary: s)
  case Nil
  show ?case by simp
next
  case (Cons i "is")
  show ?case
  proof (cases "fst (step i s)")
    case (Err e)
    then have "snd (step i s) = s"
      using step_rollback by (metis prod.collapse)
    with Err Cons.IH show ?thesis by simp
  next
    case (Ok x)
    with Cons.IH show ?thesis by simp
  qed
qed

end

text \<open>A component whose accepted operations keep some quantity of a valid state fixed.\<close>

locale conserving = transactional valid step
  for valid :: "'s \<Rightarrow> bool" and step :: "('i, 's, 'e, 'o) step" +
  fixes kept :: "'s \<Rightarrow> 'k"
  assumes step_kept: "valid s \<Longrightarrow> step i s = (Ok x, s') \<Longrightarrow> kept s' = kept s"
begin

lemma kept_step: "valid s \<Longrightarrow> kept (snd (step i s)) = kept s"
  using step_kept [of s i] step_rollback [of i s]
  by (cases "step i s"; cases "fst (step i s)") auto

lemma run_kept: "valid s \<Longrightarrow> kept (run_steps step is s) = kept s"
  by (induction "is" arbitrary: s) (auto simp: kept_step step_keeps)

end

text \<open>
  A component that pays for each accepted operation out of a budget: what was paid and what is
  left add up to what there was, so a run can never overspend.
\<close>

locale budgeted = transactional valid step
  for valid :: "'s \<Rightarrow> bool" and step :: "('i, 's, 'e, 'o) step" +
  fixes cost :: "'i \<Rightarrow> 'o \<Rightarrow> nat" and budget :: "'s \<Rightarrow> nat"
  assumes step_budget: "valid s \<Longrightarrow> step i s = (Ok x, s') \<Longrightarrow> budget s = cost i x + budget s'"
begin

lemma run_budget:
  "valid s \<Longrightarrow>
    (\<Sum>(i, x)\<leftarrow>outcomes step is s. cost i x) + budget (run_steps step is s) = budget s"
proof (induction "is" arbitrary: s)
  case Nil
  show ?case by simp
next
  case (Cons i "is")
  obtain r s' where st: "step i s = (r, s')" by (cases "step i s")
  show ?case
  proof (cases r)
    case (Err e)
    with st have "s' = s" using step_rollback by simp
    with st Err Cons show ?thesis by simp
  next
    case (Ok x)
    with st Cons.prems have "budget s = cost i x + budget s'" "valid s'"
      using step_budget step_valid by auto
    with st Ok Cons.IH [of s'] show ?thesis by simp
  qed
qed

lemma spent_le: "valid s \<Longrightarrow> (\<Sum>(i, x)\<leftarrow>outcomes step is s. cost i x) \<le> budget s"
  using run_budget [of s "is"] by linarith

end

end
