(* ===== verification/Core_Base.thy ===== *)
theory Core_Base
  imports Prelude
begin

text \<open>
  The leaf modules of \<open>crates/game-core\<close>: errors (\<open>error.rs\<close>), opaque identifiers
  (\<open>identifier.rs\<close>), SHA-256 digests (\<open>digest.rs\<close>), ability scores (\<open>ability.rs\<close>),
  proficiency (\<open>proficiency.rs\<close>) and the level table (\<open>progression.rs\<close>).
\<close>

section \<open>Errors\<close>

text \<open>The \<open>reason\<close> strings of the source, one constructor per string.\<close>

datatype d20_fault =
    DieValueRange          \<comment> \<open>die values must be between 1 and 20\<close>
  | NormalRollOneDie       \<comment> \<open>a normal roll must contain exactly one die\<close>
  | TwoDiceRequired        \<comment> \<open>advantage and disadvantage require two dice\<close>
  | SelectedDieMismatch    \<comment> \<open>selected die does not match the roll mode\<close>

datatype check_fault =
    AbilityModifierRange   \<comment> \<open>ability modifier is outside the supported ability-score range\<close>
  | ProficiencyUnattainable \<comment> \<open>proficiency modifier is not attainable\<close>
  | CheckTotalMismatch     \<comment> \<open>total does not match the recorded roll and modifiers\<close>
  | CheckSuccessMismatch   \<comment> \<open>success does not match the recorded total and DC\<close>

datatype award_fault =
    AwardTotalMismatch     \<comment> \<open>the awarded amount does not produce the reported XP total\<close>
  | AwardLevelMismatch     \<comment> \<open>reported levels do not match the XP totals\<close>
  | AwardLevelsGained      \<comment> \<open>levels gained do not match the crossed thresholds\<close>

datatype game_core_error =
    InvalidAbilityScore u8
  | InvalidLevel u8
  | InvalidDieRoll u16 u16
  | InvalidD20Roll d20_fault
  | EmptyCharacterField string
  | InvalidIdentifier string
  | InvalidMaximumHitPoints
  | CurrentHitPointsExceedMaximum u32 u32
  | LevelExperienceMismatch u8 u32 u8
  | ExperienceOverflow
  | InvalidExperienceAwardSummary award_fault
  | InvalidAbilityCheckResult check_fault
  | TextFieldTooLong string nat
  | InvalidSha256Digest
  | TurnResourceUnavailable string
  | InsufficientMovement u16 u16

section \<open>Opaque identifiers\<close>

definition max_opaque_id_len :: nat where
  "max_opaque_id_len = 128"

definition is_valid_opaque_id :: "string \<Rightarrow> bool" where
  "is_valid_opaque_id value' \<longleftrightarrow>
     value' \<noteq> [] \<and> length value' \<le> max_opaque_id_len \<and>
     list_all (\<lambda>b. ascii_alphanumeric b \<or> b \<in> {CHR ''-'', CHR ''_'', CHR '':'', CHR ''.''}) value'"

lemma valid_opaque_id_not_blank: "is_valid_opaque_id s \<Longrightarrow> \<not> is_blank s"
proof -
  assume valid: "is_valid_opaque_id s"
  then obtain c cs where s: "s = c # cs"
    by (cases s) (auto simp: is_valid_opaque_id_def)
  with valid have "byte c \<noteq> 32" "byte c \<notin> {9, 10, 11, 12, 13}" "byte c < 128"
    by (auto simp: is_valid_opaque_id_def ascii_alphanumeric_def ascii_digit_def byte_def)
  then show "\<not> is_blank s"
    by (auto simp: is_blank_def s split: list.splits)
qed

section \<open>Digests\<close>

text \<open>\<open>Sha256Digest\<close> is a string that \<open>new\<close> has checked.\<close>

datatype sha256_digest = Sha256Digest (digest_str: string)

definition lower_hex :: "char \<Rightarrow> bool" where
  "lower_hex c \<longleftrightarrow> ascii_digit c \<or> 97 \<le> byte c \<and> byte c \<le> 102"

definition digest_new :: "string \<Rightarrow> (game_core_error, sha256_digest) result" where
  "digest_new value' =
     (if take 7 value' \<noteq> ''sha256:'' then Err InvalidSha256Digest
      else let hex = drop 7 value' in
        if length hex \<noteq> 64 \<or> \<not> list_all lower_hex hex then Err InvalidSha256Digest
        else Ok (Sha256Digest value'))"

definition hex_digit :: "nat \<Rightarrow> char" where
  "hex_digit n = char_of (if n < 10 then 48 + n else 87 + n)"

text \<open>\<open>write!("{byte:02x}")\<close> for each of the 32 bytes.\<close>

definition digest_from_bytes :: "u8 list \<Rightarrow> sha256_digest" where
  "digest_from_bytes bytes =
     Sha256Digest (''sha256:'' @ concat (map (\<lambda>b. [hex_digit (b div 16), hex_digit (b mod 16)]) bytes))"

lemma lower_hex_hex_digit: "n < 16 \<Longrightarrow> lower_hex (hex_digit n)"
  by (auto simp: lower_hex_def hex_digit_def ascii_digit_def byte_def)

lemma digest_from_bytes_ok:
  assumes "length bytes = 32" "\<forall>b\<in>set bytes. b < 256"
  shows "digest_new (digest_str (digest_from_bytes bytes)) = Ok (digest_from_bytes bytes)"
proof -
  let ?hex = "concat (map (\<lambda>b. [hex_digit (b div 16), hex_digit (b mod 16)]) bytes)"
  have "length ?hex = 64"
  proof -
    have "length (concat (map (\<lambda>b. [hex_digit (b div 16), hex_digit (b mod 16)]) xs)) = 2 * length xs"
      for xs by (induction xs) auto
    with assms(1) show ?thesis by simp
  qed
  moreover have "list_all lower_hex ?hex"
    using assms(2) by (auto simp: list_all_iff intro!: lower_hex_hex_digit)
  ultimately show ?thesis
    by (simp add: digest_new_def digest_from_bytes_def Let_def)
qed

section \<open>Ability scores\<close>

datatype ability = Strength | Dexterity | Constitution | Intelligence | Wisdom | Charisma

definition ability_all :: "ability list" where
  "ability_all = [Strength, Dexterity, Constitution, Intelligence, Wisdom, Charisma]"

datatype ability_score = AbilityScore (score_value: u8)

definition score_new :: "u8 \<Rightarrow> (game_core_error, ability_score) result" where
  "score_new score =
     (if 1 \<le> score \<and> score \<le> 30 then Ok (AbilityScore score) else Err (InvalidAbilityScore score))"

text \<open>\<open>(i16::from(score) - 10).div_euclid(2) as i8\<close>\<close>

definition score_modifier :: "ability_score \<Rightarrow> i8" where
  "score_modifier s = wrap_i8 ((int (score_value s) - 10) div 2)"

record ability_scores =
  as_strength :: ability_score
  as_dexterity :: ability_score
  as_constitution :: ability_score
  as_intelligence :: ability_score
  as_wisdom :: ability_score
  as_charisma :: ability_score

definition scores_new ::
  "u8 \<Rightarrow> u8 \<Rightarrow> u8 \<Rightarrow> u8 \<Rightarrow> u8 \<Rightarrow> u8 \<Rightarrow> (game_core_error, ability_scores) result" where
  "scores_new str dex con int' wis cha =
     and_then (score_new str) (\<lambda>s. and_then (score_new dex) (\<lambda>d. and_then (score_new con) (\<lambda>c.
     and_then (score_new int') (\<lambda>i. and_then (score_new wis) (\<lambda>w. and_then (score_new cha) (\<lambda>h.
       Ok \<lparr>as_strength = s, as_dexterity = d, as_constitution = c, as_intelligence = i,
           as_wisdom = w, as_charisma = h\<rparr>))))))"

fun scores_get :: "ability_scores \<Rightarrow> ability \<Rightarrow> ability_score" where
  "scores_get a Strength = as_strength a"
| "scores_get a Dexterity = as_dexterity a"
| "scores_get a Constitution = as_constitution a"
| "scores_get a Intelligence = as_intelligence a"
| "scores_get a Wisdom = as_wisdom a"
| "scores_get a Charisma = as_charisma a"

definition scores_validate :: "ability_scores \<Rightarrow> (game_core_error, unit) result" where
  "scores_validate a =
     check_each (\<lambda>ab. and_then (score_new (score_value (scores_get a ab))) (\<lambda>_. Ok ())) ability_all"

definition score_ok :: "ability_score \<Rightarrow> bool" where
  "score_ok s \<longleftrightarrow> 1 \<le> score_value s \<and> score_value s \<le> 30"

lemma score_new_Ok_iff: "score_new n = Ok s \<longleftrightarrow> s = AbilityScore n \<and> 1 \<le> n \<and> n \<le> 30"
  by (auto simp: score_new_def)

lemma scores_validate_iff: "scores_validate a = Ok () \<longleftrightarrow> (\<forall>ab. score_ok (scores_get a ab))"
  by (auto simp: scores_validate_def ability_all_def score_new_Ok_iff score_ok_def
      intro: ability.induct)
     (metis ability.exhaust scores_get.simps)+

lemma scores_new_valid: "scores_new s d c i w h = Ok a \<Longrightarrow> scores_validate a = Ok ()"
  unfolding scores_validate_iff
  by (intro allI, case_tac ab) (auto simp: scores_new_def score_new_Ok_iff score_ok_def)

lemma score_modifier_eq: "score_ok s \<Longrightarrow> score_modifier s = (int (score_value s) - 10) div 2"
  unfolding score_modifier_def score_ok_def by (rule wrap_i8_id) linarith+

lemma score_modifier_bounds: "score_ok s \<Longrightarrow> -5 \<le> score_modifier s \<and> score_modifier s \<le> 10"
  by (simp add: score_modifier_eq) (simp add: score_ok_def, linarith)

section \<open>Proficiency\<close>

datatype proficiency = NoProficiency | Proficient | Expertise

fun prof_multiplier :: "proficiency \<Rightarrow> u8" where
  "prof_multiplier NoProficiency = 0"
| "prof_multiplier Proficient = 1"
| "prof_multiplier Expertise = 2"

definition prof_bonus :: "proficiency \<Rightarrow> u8 \<Rightarrow> u8" where
  "prof_bonus p bonus = (bonus * prof_multiplier p) mod 256"

section \<open>Levels\<close>

definition xp_thresholds :: "u32 list" where
  "xp_thresholds =
    [0, 300, 900, 2700, 6500, 14000, 23000, 34000, 48000, 64000, 85000, 100000, 120000,
     140000, 165000, 195000, 225000, 265000, 305000, 355000]"

datatype level = Level (level_value: u8)

definition level_new :: "u8 \<Rightarrow> (game_core_error, level) result" where
  "level_new v = (if 1 \<le> v \<and> v \<le> 20 then Ok (Level v) else Err (InvalidLevel v))"

definition level_ok :: "level \<Rightarrow> bool" where
  "level_ok l \<longleftrightarrow> 1 \<le> level_value l \<and> level_value l \<le> 20"

definition proficiency_bonus :: "level \<Rightarrow> u8" where
  "proficiency_bonus l = 2 + (level_value l - 1) div 4"

definition minimum_experience :: "level \<Rightarrow> u32" where
  "minimum_experience l = xp_thresholds ! (level_value l - 1)"

text \<open>\<open>partition_point\<close> of a partitioned slice: the number of leading matches.\<close>

definition level_from_experience :: "u32 \<Rightarrow> level" where
  "level_from_experience xp =
     Level (min (length (takeWhile (\<lambda>t. t \<le> xp) xp_thresholds)) 20)"

lemma level_new_Ok_iff: "level_new v = Ok l \<longleftrightarrow> l = Level v \<and> 1 \<le> v \<and> v \<le> 20"
  by (auto simp: level_new_def)

lemma length_xp_thresholds: "length xp_thresholds = 20"
  by (simp add: xp_thresholds_def)

lemma sorted_xp_thresholds: "sorted_wrt (<) xp_thresholds"
  by (simp add: xp_thresholds_def)

lemma takeWhile_le_nth:
  fixes xs :: "nat list"
  assumes "sorted_wrt (<) xs" "i < length xs"
  shows "i < length (takeWhile (\<lambda>t. t \<le> x) xs) \<longleftrightarrow> xs ! i \<le> x"
proof
  assume "i < length (takeWhile (\<lambda>t. t \<le> x) xs)"
  then show "xs ! i \<le> x"
    by (metis nth_mem set_takeWhileD takeWhile_nth)
next
  assume le: "xs ! i \<le> x"
  show "i < length (takeWhile (\<lambda>t. t \<le> x) xs)"
  proof (rule ccontr)
    let ?n = "length (takeWhile (\<lambda>t. t \<le> x) xs)"
    assume "\<not> i < ?n"
    then have n: "?n \<le> i" by simp
    with assms(2) have "?n < length xs" by simp
    then have "\<not> xs ! ?n \<le> x"
      by (rule nth_length_takeWhile)
    moreover have "xs ! ?n \<le> xs ! i"
      using n assms by (cases "?n = i") (auto simp: sorted_wrt_iff_nth_less intro: less_imp_le)
    ultimately show False using le by simp
  qed
qed

lemma level_from_experience_ok: "level_ok (level_from_experience xp)"
proof -
  have "0 < length (takeWhile (\<lambda>t. t \<le> xp) xp_thresholds)"
    by (simp add: xp_thresholds_def)
  then show ?thesis
    by (simp only: level_ok_def level_from_experience_def level.sel) (simp add: Suc_le_eq)
qed

text \<open>The level reached is the highest one whose threshold the total has passed.\<close>

lemma level_from_experience_iff:
  assumes "level_ok l"
  shows "level_value l \<le> level_value (level_from_experience xp) \<longleftrightarrow> minimum_experience l \<le> xp"
proof -
  let ?n = "length (takeWhile (\<lambda>t. t \<le> xp) xp_thresholds)"
  have n: "?n \<le> 20"
    using length_takeWhile_le [of _ xp_thresholds] by (simp add: length_xp_thresholds)
  have "level_value l - 1 < ?n \<longleftrightarrow> xp_thresholds ! (level_value l - 1) \<le> xp"
    using assms by (intro takeWhile_le_nth sorted_xp_thresholds)
      (auto simp: level_ok_def length_xp_thresholds)
  with n assms show ?thesis
    by (auto simp: level_from_experience_def minimum_experience_def level_ok_def)
qed

lemma level_from_experience_mono:
  assumes "a \<le> b"
  shows "level_value (level_from_experience a) \<le> level_value (level_from_experience b)"
proof -
  have "length (takeWhile (\<lambda>t. t \<le> a) xs) \<le> length (takeWhile (\<lambda>t. t \<le> b) xs)" for xs :: "nat list"
    using assms by (induction xs) auto
  then show ?thesis
    by (simp add: level_from_experience_def min.coboundedI1)
qed

section \<open>Properties\<close>

text \<open>The level of a character is decided by the threshold table alone: every total has a
  supported level, a level is reached exactly when the total has passed its threshold, and more
  experience never means a lower level.\<close>

theorem level_is_highest_threshold:
  "level_ok (level_from_experience xp) \<and>
   minimum_experience (level_from_experience xp) \<le> xp \<and>
   (\<forall>l. level_ok l \<and> minimum_experience l \<le> xp \<longrightarrow>
      level_value l \<le> level_value (level_from_experience xp)) \<and>
   (\<forall>more. level_value (level_from_experience xp) \<le> level_value (level_from_experience (xp + more)))"
  using level_from_experience_ok level_from_experience_iff [of _ xp] level_from_experience_mono
  by (metis le_add1 order.refl)

theorem level_is_highest_threshold_witness:
  "level_value (level_from_experience 2700) = 4 \<and> level_value (level_from_experience 2699) = 3"
proof -
  have four: "level_ok (Level 4)" "minimum_experience (Level 4) \<le> 2700" "level_ok (Level 3)"
    "minimum_experience (Level 3) \<le> 2699" "\<not> minimum_experience (Level 4) \<le> 2699"
    "\<not> minimum_experience (Level 5) \<le> 2700" "level_ok (Level 5)"
    by (simp_all add: level_ok_def minimum_experience_def xp_thresholds_def)
  have "4 \<le> level_value (level_from_experience 2700)" "3 \<le> level_value (level_from_experience 2699)"
    using four level_is_highest_threshold [of 2700] level_is_highest_threshold [of 2699]
    by (metis level.sel)+
  moreover have "\<not> 5 \<le> level_value (level_from_experience 2700)"
    "\<not> 4 \<le> level_value (level_from_experience 2699)"
    using four level_from_experience_iff [of "Level 5" 2700] level_from_experience_iff [of "Level 4" 2699]
    by simp_all
  ultimately show ?thesis by simp
qed

end
