(* ===== verification/Hero_Types.thy ===== *)
theory Hero_Types
  imports Core_Base
begin

text \<open>
  The content identifiers of \<open>hero.rs\<close> that the rules engine works with, the derived sheet it
  reads, and the structured refusal of mechanics outside the content matrix. Enumerations that
  derive \<open>Ord\<close> get the order of their constructors as an instance of \<open>linorder\<close>.
\<close>

section \<open>Classes, levels, skills\<close>

datatype hero_class = Fighter | Wizard

definition class_mechanic_id :: "hero_class \<Rightarrow> string" where
  "class_mechanic_id c =
     (case c of Fighter \<Rightarrow> ''srd-5.1-cc:class:fighter-levels-1-2''
              | Wizard \<Rightarrow> ''srd-5.1-cc:class:wizard-levels-1-2'')"

definition class_hit_die_sides :: "hero_class \<Rightarrow> u8" where
  "class_hit_die_sides c = (case c of Fighter \<Rightarrow> 10 | Wizard \<Rightarrow> 6)"

datatype supported_level = LevelOne | LevelTwo

fun supported_level_value :: "supported_level \<Rightarrow> u8" where
  "supported_level_value LevelOne = 1"
| "supported_level_value LevelTwo = 2"

datatype skill_id =
    Acrobatics | AnimalHandling | Arcana | Athletics | Deception | History | Insight
  | Intimidation | Investigation | Medicine | Nature | Perception | Performance | Persuasion
  | Religion | SleightOfHand | Stealth | Survival

fun skill_ability :: "skill_id \<Rightarrow> ability" where
  "skill_ability Athletics = Strength"
| "skill_ability Acrobatics = Dexterity"
| "skill_ability SleightOfHand = Dexterity"
| "skill_ability Stealth = Dexterity"
| "skill_ability Arcana = Intelligence"
| "skill_ability History = Intelligence"
| "skill_ability Investigation = Intelligence"
| "skill_ability Nature = Intelligence"
| "skill_ability Religion = Intelligence"
| "skill_ability AnimalHandling = Wisdom"
| "skill_ability Insight = Wisdom"
| "skill_ability Medicine = Wisdom"
| "skill_ability Perception = Wisdom"
| "skill_ability Survival = Wisdom"
| "skill_ability Deception = Charisma"
| "skill_ability Intimidation = Charisma"
| "skill_ability Performance = Charisma"
| "skill_ability Persuasion = Charisma"

section \<open>Equipment\<close>

datatype equipment_id =
    SimpleWeapons | LongswordItem | LightCrossbowItem | ShieldItem | ChainMail | LeatherArmor
  | ExplorersPack | ScholarsPack | Spellbook | ArcaneFocus

definition equipment_all :: "equipment_id list" where
  "equipment_all =
     [SimpleWeapons, LongswordItem, LightCrossbowItem, ShieldItem, ChainMail, LeatherArmor,
      ExplorersPack, ScholarsPack, Spellbook, ArcaneFocus]"

fun equipment_index :: "equipment_id \<Rightarrow> nat" where
  "equipment_index SimpleWeapons = 0"
| "equipment_index LongswordItem = 1"
| "equipment_index LightCrossbowItem = 2"
| "equipment_index ShieldItem = 3"
| "equipment_index ChainMail = 4"
| "equipment_index LeatherArmor = 5"
| "equipment_index ExplorersPack = 6"
| "equipment_index ScholarsPack = 7"
| "equipment_index Spellbook = 8"
| "equipment_index ArcaneFocus = 9"

lemma equipment_index_eq: "equipment_index x = equipment_index y \<longleftrightarrow> x = y"
  by (cases x; cases y) simp_all

instantiation equipment_id :: linorder
begin

definition less_eq_equipment_id :: "equipment_id \<Rightarrow> equipment_id \<Rightarrow> bool" where
  "less_eq_equipment_id x y \<longleftrightarrow> equipment_index x \<le> equipment_index y"

definition less_equipment_id :: "equipment_id \<Rightarrow> equipment_id \<Rightarrow> bool" where
  "less_equipment_id x y \<longleftrightarrow> equipment_index x < equipment_index y"

instance
  by standard (auto simp: less_eq_equipment_id_def less_equipment_id_def equipment_index_eq
      dest: equipment_index_eq [THEN iffD1, OF antisym])

end

datatype simple_weapon_id =
    Club | Dagger | Greatclub | Handaxe | Javelin | LightHammer | Mace | Quarterstaff | Sickle | Spear

fun wizard_allowed :: "simple_weapon_id \<Rightarrow> bool" where
  "wizard_allowed Dagger = True"
| "wizard_allowed Quarterstaff = True"
| "wizard_allowed _ = False"

fun is_two_handed :: "simple_weapon_id \<Rightarrow> bool" where
  "is_two_handed Greatclub = True"
| "is_two_handed _ = False"

datatype weapon_choice = SimpleWeapon simple_weapon_id | Longsword | LightCrossbow

record equipment_state =
  eq_carried :: "equipment_id list"
  eq_simple_weapon :: "simple_weapon_id option"
  eq_equipped_armor :: "equipment_id option"
  eq_shield_equipped :: bool
  eq_capacity_policy_id :: string

section \<open>Spells, conditions, damage\<close>

datatype spell_id = FireBolt | Light | MageHand | MagicMissile | ShieldSpell | Sleep

definition spell_cantrips :: "spell_id list" where
  "spell_cantrips = [FireBolt, Light, MageHand]"

definition spell_level_one :: "spell_id list" where
  "spell_level_one = [MagicMissile, ShieldSpell, Sleep]"

fun spell_index :: "spell_id \<Rightarrow> nat" where
  "spell_index FireBolt = 0"
| "spell_index Light = 1"
| "spell_index MageHand = 2"
| "spell_index MagicMissile = 3"
| "spell_index ShieldSpell = 4"
| "spell_index Sleep = 5"

lemma spell_index_eq: "spell_index x = spell_index y \<longleftrightarrow> x = y"
  by (cases x; cases y) simp_all

instantiation spell_id :: linorder
begin

definition less_eq_spell_id :: "spell_id \<Rightarrow> spell_id \<Rightarrow> bool" where
  "less_eq_spell_id x y \<longleftrightarrow> spell_index x \<le> spell_index y"

definition less_spell_id :: "spell_id \<Rightarrow> spell_id \<Rightarrow> bool" where
  "less_spell_id x y \<longleftrightarrow> spell_index x < spell_index y"

instance
  by standard (auto simp: less_eq_spell_id_def less_spell_id_def spell_index_eq
      dest: spell_index_eq [THEN iffD1, OF antisym])

end

fun spell_mechanic_id :: "spell_id \<Rightarrow> string" where
  "spell_mechanic_id FireBolt = ''srd-5.1-cc:spell:fire-bolt''"
| "spell_mechanic_id Light = ''srd-5.1-cc:spell:light''"
| "spell_mechanic_id MageHand = ''srd-5.1-cc:spell:mage-hand''"
| "spell_mechanic_id MagicMissile = ''srd-5.1-cc:spell:magic-missile''"
| "spell_mechanic_id ShieldSpell = ''srd-5.1-cc:spell:shield''"
| "spell_mechanic_id Sleep = ''srd-5.1-cc:spell:sleep''"

fun spell_level :: "spell_id \<Rightarrow> u8" where
  "spell_level FireBolt = 0"
| "spell_level Light = 0"
| "spell_level MageHand = 0"
| "spell_level MagicMissile = 1"
| "spell_level ShieldSpell = 1"
| "spell_level Sleep = 1"

text \<open>The derived \<open>Debug\<close> name, used in the identity of a condition's source.\<close>

fun spell_debug :: "spell_id \<Rightarrow> string" where
  "spell_debug FireBolt = ''FireBolt''"
| "spell_debug Light = ''Light''"
| "spell_debug MageHand = ''MageHand''"
| "spell_debug MagicMissile = ''MagicMissile''"
| "spell_debug ShieldSpell = ''Shield''"
| "spell_debug Sleep = ''Sleep''"

datatype condition_id = Prone | Restrained | Grappled | Incapacitated | Unconscious | Poisoned

datatype damage_type = Bludgeoning | Piercing | Slashing | Fire | Force

fun damage_type_index :: "damage_type \<Rightarrow> nat" where
  "damage_type_index Bludgeoning = 0"
| "damage_type_index Piercing = 1"
| "damage_type_index Slashing = 2"
| "damage_type_index Fire = 3"
| "damage_type_index Force = 4"

lemma damage_type_index_eq: "damage_type_index x = damage_type_index y \<longleftrightarrow> x = y"
  by (cases x; cases y) simp_all

instantiation damage_type :: linorder
begin

definition less_eq_damage_type :: "damage_type \<Rightarrow> damage_type \<Rightarrow> bool" where
  "less_eq_damage_type x y \<longleftrightarrow> damage_type_index x \<le> damage_type_index y"

definition less_damage_type :: "damage_type \<Rightarrow> damage_type \<Rightarrow> bool" where
  "less_damage_type x y \<longleftrightarrow> damage_type_index x < damage_type_index y"

instance
  by standard (auto simp: less_eq_damage_type_def less_damage_type_def damage_type_index_eq
      dest: damage_type_index_eq [THEN iffD1, OF antisym])

end

datatype damage_interaction = NormalDamage | Resistance | Vulnerability | Immunity

section \<open>Actions, resources, features\<close>

datatype action_capability =
    CapAttack | CapCastSupportedSpell | CapDash | CapDisengage | CapDodge | CapHelp | CapHide
  | CapReady | CapSearch | CapUseObject | CapSecondWind | CapActionSurge

fun capability_mechanic_id :: "action_capability \<Rightarrow> string" where
  "capability_mechanic_id CapAttack = ''action.attack''"
| "capability_mechanic_id CapCastSupportedSpell = ''action.cast-supported-spell''"
| "capability_mechanic_id CapDash = ''action.dash''"
| "capability_mechanic_id CapDisengage = ''action.disengage''"
| "capability_mechanic_id CapDodge = ''action.dodge''"
| "capability_mechanic_id CapHelp = ''action.help''"
| "capability_mechanic_id CapHide = ''action.hide''"
| "capability_mechanic_id CapReady = ''action.ready''"
| "capability_mechanic_id CapSearch = ''action.search''"
| "capability_mechanic_id CapUseObject = ''action.use-object''"
| "capability_mechanic_id CapSecondWind = ''action.fighter.second-wind''"
| "capability_mechanic_id CapActionSurge = ''action.fighter.action-surge''"

datatype rest_kind = ShortRest | LongRest

datatype resource_kind =
    HitDiceD6 | HitDiceD10 | SecondWindPool | ActionSurgePool | LevelOneSpellSlots | ArcaneRecoveryPool

record resource_pool =
  pool_resource :: resource_kind
  pool_current :: u8
  pool_maximum :: u8
  pool_recovers_on :: rest_kind

datatype feature_id =
    FightingStyleDefense | FightingStyleDueling | FeatureSecondWind | FeatureActionSurge
  | WizardSpellcasting | FeatureArcaneRecovery | EvocationTradition | SculptSpells

datatype feature_availability = FeatureActive | DormantNoQualifyingSupportedSpell

record feature_summary =
  fs_feature :: feature_id
  fs_availability :: feature_availability

section \<open>The derived sheet\<close>

record ability_modifiers =
  am_strength :: i8
  am_dexterity :: i8
  am_constitution :: i8
  am_intelligence :: i8
  am_wisdom :: i8
  am_charisma :: i8

definition modifiers_from_scores :: "ability_scores \<Rightarrow> ability_modifiers" where
  "modifiers_from_scores s =
     \<lparr>am_strength = score_modifier (scores_get s Strength),
      am_dexterity = score_modifier (scores_get s Dexterity),
      am_constitution = score_modifier (scores_get s Constitution),
      am_intelligence = score_modifier (scores_get s Intelligence),
      am_wisdom = score_modifier (scores_get s Wisdom),
      am_charisma = score_modifier (scores_get s Charisma)\<rparr>"

fun modifiers_get :: "ability_modifiers \<Rightarrow> ability \<Rightarrow> i8" where
  "modifiers_get m Strength = am_strength m"
| "modifiers_get m Dexterity = am_dexterity m"
| "modifiers_get m Constitution = am_constitution m"
| "modifiers_get m Intelligence = am_intelligence m"
| "modifiers_get m Wisdom = am_wisdom m"
| "modifiers_get m Charisma = am_charisma m"

record saving_throw_summary =
  st_ability :: ability
  st_proficient :: bool
  st_modifier :: i8

record skill_summary =
  sk_skill :: skill_id
  sk_proficient :: bool
  sk_modifier :: i8

record passive_values =
  pv_perception :: i8
  pv_investigation :: i8
  pv_insight :: i8

record damage_dice =
  dd_count :: u8
  dd_sides :: u8
  dd_constant :: i8

record attack_summary =
  at_attack_id :: string
  at_weapon :: weapon_choice
  at_ability :: ability
  at_attack_bonus :: i8
  at_damage :: damage_dice
  at_damage_type :: damage_type
  at_normal_range_feet :: u16
  at_long_range_feet :: "u16 option"
  at_versatile_damage_sides :: "u8 option"

datatype spell_action_kind = SpellAction | SpellReaction

datatype spell_target_kind =
    RangedSpellAttack | TouchedObject | UtilityHand | ChosenCreatures | SelfOnHitTrigger
  | PointAreaHitPointPool

datatype spell_duration = Instantaneous | OneRound | OneMinute | OneHour

record spell_effect_capability =
  sec_spell :: spell_id
  sec_action :: spell_action_kind
  sec_target :: spell_target_kind
  sec_range_feet :: u16
  sec_duration :: spell_duration
  sec_damage_type :: "damage_type option"
  sec_applies_condition :: "condition_id option"
  sec_spends_level_one_slot :: bool

record spellcasting_summary =
  ss_ability :: ability
  ss_spell_attack_bonus :: i8
  ss_spell_save_dc :: u8
  ss_cantrips :: "spell_id list"
  ss_spellbook :: "spell_id list"
  ss_prepared :: "spell_id list"
  ss_prepared_capacity :: u8
  ss_effects :: "spell_effect_capability list"

record derived_hero_sheet =
  sh_schema_version :: u16
  sh_derivation_id :: string
  sh_level :: supported_level
  sh_proficiency_bonus :: u8
  sh_base_scores :: ability_scores
  sh_ability_scores :: ability_scores
  sh_ability_modifiers :: ability_modifiers
  sh_armor_class :: u8
  sh_speed_feet :: u8
  sh_maximum_hit_points :: u16
  sh_current_hit_points :: u16
  sh_saving_throws :: "saving_throw_summary list"
  sh_skills :: "skill_summary list"
  sh_passive_values :: passive_values
  sh_attacks :: "attack_summary list"
  sh_resources :: "resource_pool list"
  sh_equipment :: equipment_state
  sh_spellcasting :: "spellcasting_summary option"
  sh_features :: "feature_summary list"
  sh_legal_action_capabilities :: "action_capability list"

section \<open>Unsupported mechanics\<close>

record authored_alternative =
  alt_action :: action_capability
  alt_label :: string

datatype unsupported_mechanic_code = OutsideMvpMatrix | NotAvailableForHero | DormantFeature

record unsupported_mechanic =
  um_schema_version :: u16
  um_code :: unsupported_mechanic_code
  um_requested_id :: string
  um_alternatives :: "authored_alternative list"

definition hero_unsupported_schema_version :: u16 where
  "hero_unsupported_schema_version = 1"

definition authored_action_alternatives :: "string \<Rightarrow> unsupported_mechanic" where
  "authored_action_alternatives requested_id =
     \<lparr>um_schema_version = hero_unsupported_schema_version, um_code = OutsideMvpMatrix,
      um_requested_id =
        (if is_valid_opaque_id requested_id then requested_id else ''invalid-requested-id''),
      um_alternatives =
        [\<lparr>alt_action = CapAttack, alt_label = ''Make a supported weapon attack''\<rparr>,
         \<lparr>alt_action = CapSearch, alt_label = ''Search the current scene''\<rparr>,
         \<lparr>alt_action = CapUseObject, alt_label = ''Use a supported carried object''\<rparr>]\<rparr>"

definition capability_all :: "action_capability list" where
  "capability_all =
     [CapAttack, CapCastSupportedSpell, CapDash, CapDisengage, CapDodge, CapHelp, CapHide,
      CapReady, CapSearch, CapUseObject, CapSecondWind, CapActionSurge]"

definition capability_from_mechanic_id ::
  "string \<Rightarrow> (unsupported_mechanic, action_capability) result" where
  "capability_from_mechanic_id value' =
     (case find (\<lambda>c. capability_mechanic_id c = value') capability_all of
        Some c \<Rightarrow> Ok c
      | None \<Rightarrow> Err (authored_action_alternatives value'))"

lemma capability_roundtrip: "capability_from_mechanic_id (capability_mechanic_id c) = Ok c"
  by (cases c) (simp_all add: capability_from_mechanic_id_def capability_all_def)

end
