(* ===== verification/Dice_Check.thy ===== *)
theory Dice_Check
  imports Core_Base
begin

text \<open>
  \<open>dice.rs\<close> and \<open>check.rs\<close>: d20 rolls under advantage and disadvantage, ability checks and
  attack rolls. A \<open>DiceSource\<close> is a function from the number of sides and the source's own
  state to a value and the next state; what it returns is checked by the code, not trusted.
\<close>

section \<open>Dice sources\<close>

type_synonym 's dice = "u16 \<Rightarrow> 's \<Rightarrow> u16 \<times> 's"

datatype roll_mode = NormalRoll | Advantage | Disadvantage

record roll_context =
  advantage_sources :: u8
  disadvantage_sources :: u8

definition rc_normal :: roll_context where
  "rc_normal = \<lparr>advantage_sources = 0, disadvantage_sources = 0\<rparr>"

definition rc_with_advantage :: roll_context where
  "rc_with_advantage = \<lparr>advantage_sources = 1, disadvantage_sources = 0\<rparr>"

definition rc_with_disadvantage :: roll_context where
  "rc_with_disadvantage = \<lparr>advantage_sources = 0, disadvantage_sources = 1\<rparr>"

definition effective_mode :: "roll_context \<Rightarrow> roll_mode" where
  "effective_mode c =
     (case (advantage_sources c > 0, disadvantage_sources c > 0) of
        (True, False) \<Rightarrow> Advantage
      | (False, True) \<Rightarrow> Disadvantage
      | _ \<Rightarrow> NormalRoll)"

record d20_roll =
  d20_mode :: roll_mode
  d20_first :: u8
  d20_second :: "u8 option"
  d20_selected :: u8

definition d20_validate :: "d20_roll \<Rightarrow> (game_core_error, unit) result" where
  "d20_validate r =
     (if \<not> (1 \<le> d20_first r \<and> d20_first r \<le> 20) \<or>
         (case d20_second r of None \<Rightarrow> False | Some v \<Rightarrow> \<not> (1 \<le> v \<and> v \<le> 20))
      then Err (InvalidD20Roll DieValueRange)
      else and_then
        (case (d20_mode r, d20_second r) of
           (NormalRoll, None) \<Rightarrow> Ok (d20_first r)
         | (Advantage, Some v) \<Rightarrow> Ok (max (d20_first r) v)
         | (Disadvantage, Some v) \<Rightarrow> Ok (min (d20_first r) v)
         | (NormalRoll, Some _) \<Rightarrow> Err (InvalidD20Roll NormalRollOneDie)
         | (_, None) \<Rightarrow> Err (InvalidD20Roll TwoDiceRequired))
        (\<lambda>expected. if d20_selected r \<noteq> expected then Err (InvalidD20Roll SelectedDieMismatch)
                    else Ok ()))"

definition roll_validated :: "'s dice \<Rightarrow> u16 \<Rightarrow> 's \<Rightarrow> (game_core_error, u16) result \<times> 's" where
  "roll_validated roll sides s =
     (let (v, s') = roll sides s in
       (if 1 \<le> v \<and> v \<le> sides then Ok v else Err (InvalidDieRoll sides v), s'))"

definition resolve_d20 ::
  "'s dice \<Rightarrow> roll_context \<Rightarrow> 's \<Rightarrow> (game_core_error, d20_roll) result \<times> 's" where
  "resolve_d20 roll context s =
     (let mode = effective_mode context in
      case roll_validated roll 20 s of
        (Err e, s1) \<Rightarrow> (Err e, s1)
      | (Ok f, s1) \<Rightarrow>
          (let first = as_u8 f in
           if mode = NormalRoll
           then (Ok \<lparr>d20_mode = mode, d20_first = first, d20_second = None, d20_selected = first\<rparr>, s1)
           else case roll_validated roll 20 s1 of
              (Err e, s2) \<Rightarrow> (Err e, s2)
            | (Ok v, s2) \<Rightarrow>
                (let other = as_u8 v in
                  (Ok \<lparr>d20_mode = mode, d20_first = first, d20_second = Some other,
                      d20_selected = (if mode = Advantage then max first other else min first other)\<rparr>,
                   s2))))"

lemma roll_validated_Ok: "roll_validated roll n s = (Ok v, s') \<Longrightarrow> 1 \<le> v \<and> v \<le> n"
  by (auto simp: roll_validated_def split: prod.splits if_splits)

lemma resolve_d20_Ok:
  assumes "resolve_d20 roll c s = (Ok r, s')"
  shows "d20_validate r = Ok ()" "d20_mode r = effective_mode c"
    "1 \<le> d20_selected r" "d20_selected r \<le> 20"
proof -
  have v: "d20_validate r = Ok () \<and> d20_mode r = effective_mode c \<and>
      1 \<le> d20_selected r \<and> d20_selected r \<le> 20"
    using assms
    by (cases "effective_mode c")
      (auto simp: resolve_d20_def d20_validate_def Let_def
        split: prod.splits result.splits dest!: roll_validated_Ok)
  then show "d20_validate r = Ok ()" "d20_mode r = effective_mode c"
    "1 \<le> d20_selected r" "d20_selected r \<le> 20" by auto
qed

lemma d20_validate_selected: "d20_validate r = Ok () \<Longrightarrow> 1 \<le> d20_selected r \<and> d20_selected r \<le> 20"
  by (auto simp: d20_validate_def split: option.splits roll_mode.splits if_splits)

section \<open>The dice source interface\<close>

text \<open>
  A source that never exceeds the number of sides; \<open>0\<close> is its way to report that it could not
  roll. The rules engine then fails with that zero and nothing else.
\<close>

locale bounded_dice =
  fixes roll :: "'s dice"
  assumes roll_le: "fst (roll n s) \<le> n"
begin

lemma roll_validated_cases:
  "fst (roll_validated roll n s) = Err (InvalidDieRoll n 0) \<or>
   (\<exists>v. fst (roll_validated roll n s) = Ok v \<and> 1 \<le> v \<and> v \<le> n)"
  using roll_le [of n s]
  by (cases "roll n s") (auto simp: roll_validated_def)

lemma roll_validated_Err: "roll_validated roll n s = (Err e, s') \<Longrightarrow> e = InvalidDieRoll n 0"
  using roll_validated_cases [of n s] by auto

lemma resolve_d20_Err: "resolve_d20 roll c s = (Err e, s') \<Longrightarrow> e = InvalidDieRoll 20 0"
  by (auto simp: resolve_d20_def Let_def split: prod.splits result.splits if_splits
      dest: roll_validated_Err)

end

section \<open>Ability checks\<close>

record ability_check =
  ck_ability :: ability
  ck_proficiency :: proficiency
  ck_difficulty_class :: u16
  ck_situational_modifier :: i16
  ck_roll_context :: roll_context

record ability_check_result =
  cr_roll :: d20_roll
  cr_ability :: ability
  cr_ability_modifier :: i8
  cr_proficiency_modifier :: u8
  cr_situational_modifier :: i16
  cr_total :: i32
  cr_difficulty_class :: u16
  cr_success :: bool

definition check_total :: "d20_roll \<Rightarrow> i8 \<Rightarrow> u8 \<Rightarrow> i16 \<Rightarrow> i32" where
  "check_total r am pm sm = int (d20_selected r) + am + int pm + sm"

definition attainable_proficiency :: "u8 \<Rightarrow> bool" where
  "attainable_proficiency p \<longleftrightarrow> p = 0 \<or> 2 \<le> p \<and> p \<le> 6 \<or> p = 8 \<or> p = 10 \<or> p = 12"

definition check_result_validate :: "ability_check_result \<Rightarrow> (game_core_error, unit) result" where
  "check_result_validate r = and_then (d20_validate (cr_roll r)) (\<lambda>_.
     if \<not> (-5 \<le> cr_ability_modifier r \<and> cr_ability_modifier r \<le> 10)
       then Err (InvalidAbilityCheckResult AbilityModifierRange)
     else if \<not> attainable_proficiency (cr_proficiency_modifier r)
       then Err (InvalidAbilityCheckResult ProficiencyUnattainable)
     else if cr_total r \<noteq> check_total (cr_roll r) (cr_ability_modifier r)
               (cr_proficiency_modifier r) (cr_situational_modifier r)
       then Err (InvalidAbilityCheckResult CheckTotalMismatch)
     else if cr_success r \<noteq> (int (cr_difficulty_class r) \<le> cr_total r)
       then Err (InvalidAbilityCheckResult CheckSuccessMismatch)
     else Ok ())"

definition ability_check_resolve ::
  "'s dice \<Rightarrow> ability_check \<Rightarrow> ability_scores \<Rightarrow> level \<Rightarrow> 's
    \<Rightarrow> (game_core_error, ability_check_result) result \<times> 's" where
  "ability_check_resolve roll c scores level s =
     (case resolve_d20 roll (ck_roll_context c) s of
        (Err e, s') \<Rightarrow> (Err e, s')
      | (Ok r, s') \<Rightarrow>
          (let am = score_modifier (scores_get scores (ck_ability c));
               pm = prof_bonus (ck_proficiency c) (proficiency_bonus level);
               total = check_total r am pm (ck_situational_modifier c);
               result = \<lparr>cr_roll = r, cr_ability = ck_ability c, cr_ability_modifier = am,
                         cr_proficiency_modifier = pm,
                         cr_situational_modifier = ck_situational_modifier c,
                         cr_total = total, cr_difficulty_class = ck_difficulty_class c,
                         cr_success = (int (ck_difficulty_class c) \<le> total)\<rparr>
           in (and_then (check_result_validate result) (\<lambda>_. Ok result), s')))"

lemma prof_bonus_attainable: "level_ok l \<Longrightarrow> attainable_proficiency (prof_bonus p (proficiency_bonus l))"
proof -
  assume "level_ok l"
  then have b: "2 \<le> proficiency_bonus l" "proficiency_bonus l \<le> 6"
    by (auto simp: level_ok_def proficiency_bonus_def)
  then have "proficiency_bonus l \<in> {2, 3, 4, 5, 6}" by auto
  then show ?thesis
    by (cases p) (auto simp: attainable_proficiency_def prof_bonus_def)
qed

text \<open>
  With rules-valid scores and level the self-check at the end of \<open>resolve\<close> never fails: the
  only error of an ability check is the dice source's.
\<close>

lemma ability_check_resolve_eq:
  assumes "scores_validate scores = Ok ()" "level_ok l"
  shows "ability_check_resolve roll c scores l s =
    (case resolve_d20 roll (ck_roll_context c) s of
       (Err e, s') \<Rightarrow> (Err e, s')
     | (Ok r, s') \<Rightarrow>
         (let am = score_modifier (scores_get scores (ck_ability c));
              pm = prof_bonus (ck_proficiency c) (proficiency_bonus l);
              total = check_total r am pm (ck_situational_modifier c)
          in (Ok \<lparr>cr_roll = r, cr_ability = ck_ability c, cr_ability_modifier = am,
                  cr_proficiency_modifier = pm,
                  cr_situational_modifier = ck_situational_modifier c,
                  cr_total = total, cr_difficulty_class = ck_difficulty_class c,
                  cr_success = (int (ck_difficulty_class c) \<le> total)\<rparr>, s')))"
  using assms score_modifier_bounds [of "scores_get scores (ck_ability c)"]
    prof_bonus_attainable [of l "ck_proficiency c"]
  by (auto simp: ability_check_resolve_def check_result_validate_def Let_def scores_validate_iff
      split: prod.splits result.splits dest: resolve_d20_Ok(1))

section \<open>Attack rolls\<close>

datatype attack_outcome = CriticalHit | Hit | Miss | AutomaticMiss

fun attack_is_hit :: "attack_outcome \<Rightarrow> bool" where
  "attack_is_hit CriticalHit = True"
| "attack_is_hit Hit = True"
| "attack_is_hit _ = False"

record attack_roll =
  ar_ability :: ability
  ar_proficiency :: proficiency
  ar_armor_class :: u16
  ar_situational_modifier :: i16
  ar_roll_context :: roll_context

record attack_roll_result =
  arr_roll :: d20_roll
  arr_ability :: ability
  arr_ability_modifier :: i8
  arr_proficiency_modifier :: u8
  arr_situational_modifier :: i16
  arr_total :: i32
  arr_armor_class :: u16
  arr_outcome :: attack_outcome

definition attack_roll_resolve ::
  "'s dice \<Rightarrow> attack_roll \<Rightarrow> ability_scores \<Rightarrow> level \<Rightarrow> 's
    \<Rightarrow> (game_core_error, attack_roll_result) result \<times> 's" where
  "attack_roll_resolve roll a scores level s =
     (case resolve_d20 roll (ar_roll_context a) s of
        (Err e, s') \<Rightarrow> (Err e, s')
      | (Ok r, s') \<Rightarrow>
          (let am = score_modifier (scores_get scores (ar_ability a));
               pm = prof_bonus (ar_proficiency a) (proficiency_bonus level);
               total = check_total r am pm (ar_situational_modifier a);
               outcome = (if d20_selected r = 20 then CriticalHit
                          else if d20_selected r = 1 then AutomaticMiss
                          else if int (ar_armor_class a) \<le> total then Hit
                          else Miss)
           in (Ok \<lparr>arr_roll = r, arr_ability = ar_ability a, arr_ability_modifier = am,
                   arr_proficiency_modifier = pm,
                   arr_situational_modifier = ar_situational_modifier a,
                   arr_total = total, arr_armor_class = ar_armor_class a,
                   arr_outcome = outcome\<rparr>, s')))"

end
