(* ===== verification/Economy.thy ===== *)
theory Economy
  imports Core_Base
begin

text \<open>
  \<open>action.rs\<close>, the resources of one combat turn, and \<open>action_points.rs\<close>, the policy of the
  custom-action point ledger.
\<close>

section \<open>The turn's action economy\<close>

datatype action_kind =
    KindAttack | KindCastSpell | KindDash | KindDisengage | KindDodge | KindHelp | KindHide
  | KindReady | KindSearch | KindUseObject | KindImprovised

datatype turn_resource = Action | BonusAction | Reaction | ObjectInteraction

fun resource_name :: "turn_resource \<Rightarrow> string" where
  "resource_name Action = ''action''"
| "resource_name BonusAction = ''bonus_action''"
| "resource_name Reaction = ''reaction''"
| "resource_name ObjectInteraction = ''object_interaction''"

record action_economy =
  action_available :: bool
  bonus_action_available :: bool
  reaction_available :: bool
  object_interaction_available :: bool
  movement_remaining_feet :: u16

definition economy_new :: "u16 \<Rightarrow> action_economy" where
  "economy_new speed_feet =
     \<lparr>action_available = True, bonus_action_available = False, reaction_available = True,
      object_interaction_available = True, movement_remaining_feet = speed_feet\<rparr>"

definition grant_bonus_action :: "action_economy \<Rightarrow> action_economy" where
  "grant_bonus_action e = e\<lparr>bonus_action_available := True\<rparr>"

fun resource_flag :: "turn_resource \<Rightarrow> action_economy \<Rightarrow> bool" where
  "resource_flag Action e = action_available e"
| "resource_flag BonusAction e = bonus_action_available e"
| "resource_flag Reaction e = reaction_available e"
| "resource_flag ObjectInteraction e = object_interaction_available e"

fun clear_resource :: "turn_resource \<Rightarrow> action_economy \<Rightarrow> action_economy" where
  "clear_resource Action e = e\<lparr>action_available := False\<rparr>"
| "clear_resource BonusAction e = e\<lparr>bonus_action_available := False\<rparr>"
| "clear_resource Reaction e = e\<lparr>reaction_available := False\<rparr>"
| "clear_resource ObjectInteraction e = e\<lparr>object_interaction_available := False\<rparr>"

definition economy_spend ::
  "turn_resource \<Rightarrow> action_economy \<Rightarrow> (game_core_error, unit) result \<times> action_economy" where
  "economy_spend r e =
     (if \<not> resource_flag r e then (Err (TurnResourceUnavailable (resource_name r)), e)
      else (Ok (), clear_resource r e))"

definition spend_movement ::
  "u16 \<Rightarrow> action_economy \<Rightarrow> (game_core_error, unit) result \<times> action_economy" where
  "spend_movement feet e =
     (if feet > movement_remaining_feet e
      then (Err (InsufficientMovement feet (movement_remaining_feet e)), e)
      else (Ok (), e\<lparr>movement_remaining_feet := movement_remaining_feet e - feet\<rparr>))"

definition reset_for_turn :: "u16 \<Rightarrow> action_economy \<Rightarrow> action_economy" where
  "reset_for_turn speed_feet e = economy_new speed_feet"

lemma resource_flag_clear [simp]:
  "resource_flag r (clear_resource q e) \<longleftrightarrow> resource_flag r e \<and> r \<noteq> q"
  by (cases r; cases q) auto

lemma movement_clear [simp]:
  "movement_remaining_feet (clear_resource q e) = movement_remaining_feet e"
  by (cases q) auto

lemma economy_spend_Ok_iff:
  "economy_spend r e = (Ok u, e') \<longleftrightarrow> resource_flag r e \<and> e' = clear_resource r e"
  by (auto simp: economy_spend_def)

lemma economy_spend_Err: "economy_spend r e = (Err x, e') \<Longrightarrow> e' = e"
  by (auto simp: economy_spend_def split: if_splits)

text \<open>What one turn can do with its economy between two resets.\<close>

datatype turn_spend = SpendResource turn_resource | SpendFeet u16

fun turn_step :: "(turn_spend, action_economy, game_core_error, unit) step" where
  "turn_step (SpendResource r) e = economy_spend r e"
| "turn_step (SpendFeet n) e = spend_movement n e"

fun feet_of :: "turn_spend \<Rightarrow> unit \<Rightarrow> nat" where
  "feet_of (SpendFeet n) _ = n"
| "feet_of (SpendResource _) _ = 0"

definition uses_of :: "turn_resource \<Rightarrow> turn_spend \<Rightarrow> unit \<Rightarrow> nat" where
  "uses_of r i u = (if i = SpendResource r then 1 else 0)"

definition left_of :: "turn_resource \<Rightarrow> action_economy \<Rightarrow> nat" where
  "left_of r e = (if resource_flag r e then 1 else 0)"

interpretation turn_feet: budgeted "\<lambda>_. True" turn_step feet_of movement_remaining_feet
proof unfold_locales
  fix s s' :: action_economy and i e
  show "turn_step i s = (Err e, s') \<Longrightarrow> s' = s"
    by (cases i) (auto simp: economy_spend_def spend_movement_def split: if_splits)
next
  fix s s' :: action_economy and i x
  show "turn_step i s = (Ok x, s') \<Longrightarrow>
      movement_remaining_feet s = feet_of i x + movement_remaining_feet s'"
    by (cases i) (auto simp: economy_spend_def spend_movement_def split: if_splits)
qed simp

lemma resource_flag_feet [simp]:
  "resource_flag r (e\<lparr>movement_remaining_feet := n\<rparr>) = resource_flag r e"
  by (cases r) auto

interpretation turn_uses: budgeted "\<lambda>_. True" turn_step "uses_of r" "left_of r"
  for r
proof unfold_locales
  fix s s' :: action_economy and i x
  show "turn_step i s = (Ok x, s') \<Longrightarrow> left_of r s = uses_of r i x + left_of r s'"
    by (cases i) (auto simp: economy_spend_def spend_movement_def uses_of_def left_of_def
        split: if_splits)
qed

section \<open>Custom-action points\<close>

definition initial_action_points :: i32 where "initial_action_points = 3"
definition cost_per_custom_action_default :: i32 where "cost_per_custom_action_default = 1"
definition max_action_point_balance :: i32 where "max_action_point_balance = 99"

datatype action_point_reason = InitialGrant | Earned | CustomActionSpent | AdministrativeRefund

fun reason_as_str :: "action_point_reason \<Rightarrow> string" where
  "reason_as_str InitialGrant = ''initial_grant''"
| "reason_as_str Earned = ''earned''"
| "reason_as_str CustomActionSpent = ''custom_action_spent''"
| "reason_as_str AdministrativeRefund = ''administrative_refund''"

definition reason_parse :: "string \<Rightarrow> action_point_reason option" where
  "reason_parse s =
     (if s = ''initial_grant'' then Some InitialGrant
      else if s = ''earned'' then Some Earned
      else if s = ''custom_action_spent'' then Some CustomActionSpent
      else if s = ''administrative_refund'' then Some AdministrativeRefund
      else None)"

text \<open>\<open>-amount\<close> wraps at \<open>i32::MIN\<close>.\<close>

fun reason_delta :: "action_point_reason \<Rightarrow> i32 \<Rightarrow> i32" where
  "reason_delta CustomActionSpent amount = wrap_i32 (- amount)"
| "reason_delta _ amount = amount"

record action_point_policy =
  initial_balance :: i32
  cost_per_custom_action :: i32
  max_balance :: i32
  earn_rate :: i32
  allow_refund_after_gm_cancel :: bool

definition policy_default :: action_point_policy where
  "policy_default =
     \<lparr>initial_balance = initial_action_points,
      cost_per_custom_action = cost_per_custom_action_default,
      max_balance = max_action_point_balance, earn_rate = 0,
      allow_refund_after_gm_cancel = True\<rparr>"

definition policy_apply ::
  "action_point_policy \<Rightarrow> i32 \<Rightarrow> action_point_reason \<Rightarrow> i32 \<Rightarrow> i32 option" where
  "policy_apply p current_balance reason amount =
     (let delta = reason_delta reason amount;
          new_balance = wrap_i32 (current_balance + delta)
      in if new_balance < 0 then None
         else if new_balance > max_balance p then None
         else Some new_balance)"

definition can_spend :: "action_point_policy \<Rightarrow> i32 \<Rightarrow> bool" where
  "can_spend p current_balance \<longleftrightarrow> cost_per_custom_action p \<le> current_balance"

definition is_i32 :: "int \<Rightarrow> bool" where
  "is_i32 x \<longleftrightarrow> -2147483648 \<le> x \<and> x \<le> 2147483647"

text \<open>The signed change without the wrap-around.\<close>

definition exact_delta :: "action_point_reason \<Rightarrow> int \<Rightarrow> int" where
  "exact_delta reason amount = (if reason = CustomActionSpent then - amount else amount)"

lemma reason_delta_exact:
  "is_i32 a \<Longrightarrow> a \<noteq> -2147483648 \<Longrightarrow> reason_delta r a = exact_delta r a"
  by (cases r) (simp_all add: exact_delta_def is_i32_def)

lemma reason_delta_min: "reason_delta CustomActionSpent (-2147483648) = -2147483648"
  by (simp add: wrap_i32_def)

lemma wrap_i32_low: "2147483647 < x \<Longrightarrow> x < 4294967296 \<Longrightarrow> wrap_i32 x < 0"
proof -
  assume a: "2147483647 < x" "x < 4294967296"
  have "(x + 2147483648) mod 4294967296 = x + 2147483648 - 4294967296"
    using a by (subst mod_pos_geq) (auto intro!: mod_pos_pos_trivial)
  with a show ?thesis by (simp add: wrap_i32_def)
qed

text \<open>
  On a balance of the ledger the wrap-around is harmless: an overflowing change is rejected like
  any other change that leaves the range.
\<close>

lemma policy_apply_exact:
  assumes "0 \<le> b" "b \<le> max_balance p" "is_i32 (max_balance p)" "is_i32 amount"
  shows "policy_apply p b r amount =
    (let n = b + exact_delta r amount in if 0 \<le> n \<and> n \<le> max_balance p then Some n else None)"
proof (cases "amount = -2147483648 \<and> r = CustomActionSpent")
  case True
  with assms show ?thesis
    by (simp add: policy_apply_def reason_delta_min exact_delta_def is_i32_def Let_def
        del: reason_delta.simps)
next
  case False
  then have d: "reason_delta r amount = exact_delta r amount"
    using assms(4) by (cases r) (auto simp: exact_delta_def is_i32_def)
  have bounds: "-2147483648 \<le> exact_delta r amount" "exact_delta r amount \<le> 2147483647"
    using assms(4) False by (auto simp: exact_delta_def is_i32_def)
  show ?thesis
  proof (cases "b + exact_delta r amount \<le> 2147483647")
    case True
    with bounds assms(1) have "wrap_i32 (b + exact_delta r amount) = b + exact_delta r amount"
      by (intro wrap_i32_id) linarith+
    then show ?thesis by (auto simp: policy_apply_def d Let_def)
  next
    case over: False
    then have "wrap_i32 (b + exact_delta r amount) < 0"
      using bounds assms(1-3) by (intro wrap_i32_low) (auto simp: is_i32_def)
    with over assms(3) show ?thesis by (auto simp: policy_apply_def d Let_def is_i32_def)
  qed
qed

section \<open>Properties\<close>

text \<open>Custom-action points cannot be gained or lost to wrap-around: on a balance within the policy's
  range the 32-bit arithmetic of \<open>apply\<close> gives exactly the balance plus or minus the amount, and refuses
  exactly the changes that leave the range, even where negating the amount wraps.\<close>

theorem action_points_exact:
  assumes "0 \<le> balance" "balance \<le> max_balance p" "is_i32 (max_balance p)" "is_i32 amount"
  shows "policy_apply p balance reason amount =
    (let n = balance + exact_delta reason amount
     in if 0 \<le> n \<and> n \<le> max_balance p then Some n else None)"
  using assms by (rule policy_apply_exact)

theorem action_points_exact_witness:
  "policy_apply policy_default 3 CustomActionSpent 1 = Some 2 \<and>
   policy_apply policy_default 3 CustomActionSpent (-2147483648) = None"
proof -
  have h: "0 \<le> (3::int)" "3 \<le> max_balance policy_default" "is_i32 (max_balance policy_default)"
    "is_i32 1" "is_i32 (-2147483648)"
    by (simp_all add: policy_default_def is_i32_def max_action_point_balance_def)
  from action_points_exact [OF h(1-4), of CustomActionSpent]
    action_points_exact [OF h(1-3,5), of CustomActionSpent]
  show ?thesis by (simp add: exact_delta_def policy_default_def max_action_point_balance_def)
qed

end
