(* ===== verification/Rules_Base.thy ===== *)
theory Rules_Base
  imports Hero_Types Dice_Check Economy
begin

text \<open>
  The errors of \<open>rules_matrix.rs\<close> and the guards all of its operations share. A \<open>reason\<close> string
  of the source is a constructor of the fault type of the component that raises it.
\<close>

section \<open>Faults\<close>

datatype d20_test_fault =
    TooManySituational           \<comment> \<open>too many situational modifiers\<close>
  | SituationalSourceInvalid     \<comment> \<open>situational modifier source is invalid\<close>
  | SituationalOutOfRange        \<comment> \<open>situational modifier is outside -30 through 30\<close>
  | SituationalDuplicate         \<comment> \<open>situational modifier sources must be unique\<close>
  | D20TestSchema                \<comment> \<open>d20 test schema version is unsupported\<close>
  | TargetNumberRange            \<comment> \<open>DC or AC must be between 1 and 60\<close>
  | SituationMismatch            \<comment> \<open>d20 target and condition situation do not match\<close>
  | ConditionsPreventAttack      \<comment> \<open>current conditions prevent the attack action\<close>
  | AutoFailureOutsideSave       \<comment> \<open>automatic failure appeared outside a saving throw\<close>
  | HighStakesUnconfirmed        \<comment> \<open>high-stakes check requires player confirmation\<close>
  | TrustedCheckSchema           \<comment> \<open>trusted check schema version is unsupported\<close>
  | SkillAbilityMismatch         \<comment> \<open>skill and ability do not match\<close>
  | TrustedCheckInconsistent     \<comment> \<open>trusted check resolution is inconsistent\<close>
  | TrustedTotalsInconsistent    \<comment> \<open>trusted check totals are inconsistent\<close>
  | PassiveModifierRange         \<comment> \<open>passive situational modifier is outside -30 through 30\<close>
  | SkillSummaryMissing          \<comment> \<open>derived sheet is missing a skill summary\<close>

datatype condition_fault =
    ConditionCasterInvalid | ConditionMechanicInvalid | ConditionDurationRange
  | ConditionActorInvalid | SleepDurationRange | SleepActorInvalid | SleepDurationReserved
  | ConditionSetShape | DuplicateConditionSource | ConditionSetFull | ConditionAlreadyActive
  | DurationEventActorInvalid

datatype turn_fault =
    SpeedOrPosition | MovementBounds | DestinationIncrement | SpeedIsZero | MovementCostExceeds
  | ActorNotProne | CannotStand | StandingCostExceeds
  | TurnActorInvalid | RoundMustBePositive | TurnSchemaOrRound | MovementViewsDisagree
  | NextTurnInvalid | TurnAlreadyEnded | HelpTargetInvalid | BlockedAction | FeatureHasOwnTransition

datatype health_fault =
    InteractionListsUnsorted | ImmunityOverlap | MaximumMustBePositive | HealthBounds
  | ActiveHealthShape | DyingHealthShape | StableHealthShape | DeadHealthShape
  | DamageMustBePositive | DeadCannotBeDamaged | HealthActorInvalid | HealingMustBePositive
  | TemporaryMustBePositive | OnlyDyingSaves | OnlyDyingStabilizes

datatype dice_fault =
    DamageDiceGrammar | DiceValueOverflow

datatype weapon_fault =
    AttackDistance | OutOfWeaponRange | AttackIdInvalid | AttackTargetInvalid
  | AttackBonusMismatch | DerivedDamageDice

datatype resource_fault =
    CounterOutOfRange | ClassResourceUnavailable | SheetResourcesMismatch | SheetResourceMissing
  | ResourceSchema | ResourceShape | SecondWindNeedsBonusAction | SecondWindUnavailable
  | SurgeNeedsSpentAction | HitDieKind | HitDieUnavailable | ConstitutionRange
  | ArcaneRecoveryUnavailable | ShortRestInvalid | LongRestNeedsActive

datatype inventory_fault =
    WalletBounds | WalletCannotCover | NoSupportedWeapon | InventoryShape | InventoryOrder
  | InventoryEquipState | SimpleWeaponDisagrees | HeldWeaponMissing | WeaponNotCarried
  | AttackNotReadied | TwoHandedWithShield | ItemNotCarried | ShieldNotCarried | TwoArmorsEquipped

datatype spell_fault =
    ComponentUnavailable | SpellcastingSchema | CasterInvalid | SpellcastingShape
  | MageHandShape | MageHandIdInvalid | MageHandCasterInvalid | NoMageHand | MageHandBlocked
  | MageHandObjectInvalid | MageHandLimits | MageHandIncrement
  | FireBoltTargetInvalid | FireBoltTargetShape | LightObjectInvalid | LightObjectShape
  | LightCarrierInvalid | LightCarrierModifier | MageHandTargetInvalid | MageHandOutOfRange
  | MissileTargetInvalid | MissileTargetShape | ShieldNotAHit | SleepShape | SleepTargetInvalid
  | SleepCandidateShape | SpellBlocked | NoSlotRemains

datatype scene_fault =
    ObjectiveIdInvalid | ObjectiveBounds | ObjectiveStatusDisagrees | ClockIdInvalid | ClockBounds
  | ClockAdvanceZero | NpcIdInvalid | SceneSchemaOrTurn | DuplicateObjective | DuplicateClock
  | DuplicateNpc | ObjectiveCommandIdInvalid | ObjectiveAdvanceZero | ObjectiveMissing
  | ObjectiveNotActive | ClockCommandIdInvalid | ClockMissing | NpcCommandIdInvalid | NpcMissing

datatype rules_fault =
    D20Fault d20_test_fault
  | ConditionFault condition_fault
  | TurnFault turn_fault
  | HealthFault health_fault
  | DiceFault dice_fault
  | WeaponFault weapon_fault
  | ResourceFault resource_fault
  | InventoryFault inventory_fault
  | SpellFault spell_fault
  | SceneFault scene_fault

datatype rules_matrix_error =
    InvalidState rules_fault
  | InvalidIntent rules_fault
  | ArithmeticOverflow
  | Unsupported unsupported_mechanic
  | CoreError game_core_error

type_synonym 'a rules_result = "(rules_matrix_error, 'a) result"

section \<open>Constants and guards\<close>

definition rules_matrix_schema_version :: u16 where "rules_matrix_schema_version = 1"
definition max_situational_modifiers :: nat where "max_situational_modifiers = 16"
definition max_active_conditions :: nat where "max_active_conditions = 32"
definition max_clock_segments :: u8 where "max_clock_segments = 12"
definition max_currency_pieces :: u32 where "max_currency_pieces = 1000000"
definition max_mvp_dashes_per_turn :: u16 where "max_mvp_dashes_per_turn = 2"

definition authored_capacity_policy_id :: string where
  "authored_capacity_policy_id = ''manchester-arcana:capacity:authored-starting-loadout-v1''"

definition unsupported_error :: "string \<Rightarrow> rules_matrix_error" where
  "unsupported_error requested_id =
     Unsupported
      \<lparr>um_schema_version = hero_unsupported_schema_version, um_code = OutsideMvpMatrix,
       um_requested_id =
         (if is_valid_opaque_id requested_id then requested_id else ''invalid-requested-id''),
       um_alternatives =
         [\<lparr>alt_action = CapAttack, alt_label = ''Make a supported weapon attack''\<rparr>,
          \<lparr>alt_action = CapSearch, alt_label = ''Search the current scene''\<rparr>,
          \<lparr>alt_action = CapUseObject, alt_label = ''Use a supported carried object''\<rparr>]\<rparr>"

definition require_id :: "string \<Rightarrow> rules_fault \<Rightarrow> unit rules_result" where
  "require_id value' reason =
     (if is_valid_opaque_id value' then Ok () else Err (InvalidIntent reason))"

definition require_supported_level :: "level \<Rightarrow> unit rules_result" where
  "require_supported_level l =
     (if level_value l = 1 \<or> level_value l = 2 then Ok ()
      else Err (unsupported_error ''level.outside-mvp-1-2''))"

definition lift_core :: "(game_core_error, 'a) result \<Rightarrow> 'a rules_result" where
  "lift_core r = map_err CoreError r"

lemma require_id_Ok_iff [simp]: "require_id s f = Ok u \<longleftrightarrow> is_valid_opaque_id s"
  by (simp add: require_id_def)

lemma require_supported_level_Ok_iff [simp]:
  "require_supported_level l = Ok u \<longleftrightarrow> level_value l = 1 \<or> level_value l = 2"
  by (simp add: require_supported_level_def)

lemma lift_core_Ok_iff [simp]: "lift_core r = Ok x \<longleftrightarrow> r = Ok x"
  by (simp add: lift_core_def)

definition combine_roll_context :: "roll_context \<Rightarrow> roll_context \<Rightarrow> roll_context" where
  "combine_roll_context base other =
     \<lparr>advantage_sources = saturating_add u8_max (advantage_sources base) (advantage_sources other),
      disadvantage_sources =
        saturating_add u8_max (disadvantage_sources base) (disadvantage_sources other)\<rparr>"

text \<open>Saturation never turns a source into none, so the effective mode is that of the exact sums.\<close>

lemma effective_mode_combine:
  "effective_mode (combine_roll_context a b) =
   effective_mode \<lparr>advantage_sources = advantage_sources a + advantage_sources b,
                   disadvantage_sources = disadvantage_sources a + disadvantage_sources b\<rparr>"
  by (simp add: effective_mode_def combine_roll_context_def saturating_add_def u8_max_def)

end
