(* ===== verification/Conditions.thy ===== *)
theory Conditions
  imports Rules_Base
begin

text \<open>
  Active conditions of \<open>rules_matrix.rs\<close>: their durations, the set of them an actor carries,
  the events that count durations down, and the effect of the set on rolls, movement and actions.
\<close>

section \<open>Data\<close>

datatype turn_boundary = BoundaryStart | BoundaryEnd

datatype effect_duration =
    Permanent
  | Rounds u16 turn_boundary string
  | UntilDamagedOrAwakened u16 string

datatype condition_source = SpellSource spell_id string | MechanicSource string

record active_condition =
  ac_condition :: condition_id
  ac_source :: condition_source
  ac_duration :: effect_duration

record condition_set =
  cs_schema_version :: u16
  cs_active :: "active_condition list"

fun source_validate :: "condition_source \<Rightarrow> unit rules_result" where
  "source_validate (SpellSource _ caster_id) = require_id caster_id (ConditionFault ConditionCasterInvalid)"
| "source_validate (MechanicSource mechanic_id) =
     require_id mechanic_id (ConditionFault ConditionMechanicInvalid)"

definition is_sleep_spell :: "condition_source \<Rightarrow> bool" where
  "is_sleep_spell src = (case src of SpellSource s _ \<Rightarrow> s = Sleep | MechanicSource _ \<Rightarrow> False)"

fun duration_validate :: "active_condition \<Rightarrow> effect_duration \<Rightarrow> unit rules_result" where
  "duration_validate c Permanent = Ok ()"
| "duration_validate c (Rounds remaining _ actor_id) =
     (if remaining = 0 \<or> remaining > 600
      then Err (InvalidState (ConditionFault ConditionDurationRange))
      else require_id actor_id (ConditionFault ConditionActorInvalid))"
| "duration_validate c (UntilDamagedOrAwakened remaining_rounds actor_id) =
     (if remaining_rounds = 0 \<or> remaining_rounds > 10
      then Err (InvalidState (ConditionFault SleepDurationRange))
      else and_then (require_id actor_id (ConditionFault SleepActorInvalid)) (\<lambda>_.
        if ac_condition c \<noteq> Unconscious \<or> \<not> is_sleep_spell (ac_source c)
        then Err (InvalidState (ConditionFault SleepDurationReserved))
        else Ok ()))"

definition active_condition_validate :: "active_condition \<Rightarrow> unit rules_result" where
  "active_condition_validate c =
     and_then (source_validate (ac_source c)) (\<lambda>_. duration_validate c (ac_duration c))"

definition condition_set_empty :: condition_set where
  "condition_set_empty = \<lparr>cs_schema_version = rules_matrix_schema_version, cs_active = []\<rparr>"

text \<open>The identity under which \<open>validate\<close> looks for duplicates is a formatted string.\<close>

fun source_key :: "condition_source \<Rightarrow> string" where
  "source_key (SpellSource spell caster_id) = ''spell:'' @ spell_debug spell @ '':'' @ caster_id"
| "source_key (MechanicSource mechanic_id) = ''mechanic:'' @ mechanic_id"

fun scan_conditions ::
  "(condition_id \<times> string) set \<Rightarrow> active_condition list \<Rightarrow> unit rules_result" where
  "scan_conditions identities [] = Ok ()"
| "scan_conditions identities (c # cs) =
     and_then (active_condition_validate c) (\<lambda>_.
       let key = (ac_condition c, source_key (ac_source c)) in
       if key \<in> identities then Err (InvalidState (ConditionFault DuplicateConditionSource))
       else scan_conditions (insert key identities) cs)"

definition condition_set_validate :: "condition_set \<Rightarrow> unit rules_result" where
  "condition_set_validate s =
     (if cs_schema_version s \<noteq> rules_matrix_schema_version
       \<or> length (cs_active s) > max_active_conditions
      then Err (InvalidState (ConditionFault ConditionSetShape))
      else scan_conditions {} (cs_active s))"

definition cs_contains :: "condition_set \<Rightarrow> condition_id \<Rightarrow> bool" where
  "cs_contains s c = list_ex (\<lambda>a. ac_condition a = c) (cs_active s)"

section \<open>Operations\<close>

definition condition_apply ::
  "active_condition \<Rightarrow> condition_set \<Rightarrow> unit rules_result \<times> condition_set" where
  "condition_apply c s =
     (case condition_set_validate s of
        Err e \<Rightarrow> (Err e, s)
      | Ok _ \<Rightarrow>
          (case active_condition_validate c of
             Err e \<Rightarrow> (Err e, s)
           | Ok _ \<Rightarrow>
               if length (cs_active s) = max_active_conditions
               then (Err (InvalidState (ConditionFault ConditionSetFull)), s)
               else if list_ex (\<lambda>a. ac_condition a = ac_condition c \<and> ac_source a = ac_source c)
                         (cs_active s)
               then (Err (InvalidIntent (ConditionFault ConditionAlreadyActive)), s)
               else let s' = s\<lparr>cs_active := cs_active s @ [c]\<rparr>
                    in (condition_set_validate s', s')))"

datatype duration_event =
    TurnBoundaryEvent string turn_boundary
  | DamagedEvent string
  | AwakenedByAction string

fun event_actor :: "duration_event \<Rightarrow> string" where
  "event_actor (TurnBoundaryEvent a _) = a"
| "event_actor (DamagedEvent a) = a"
| "event_actor (AwakenedByAction a) = a"

text \<open>One turn of the \<open>drain\<close> loop: is the condition removed, and with what duration.\<close>

fun tick_duration :: "duration_event \<Rightarrow> effect_duration \<Rightarrow> bool \<times> effect_duration" where
  "tick_duration (TurnBoundaryEvent ev_actor ev_boundary) (Rounds remaining boundary actor_id) =
     (if actor_id = ev_actor \<and> boundary = ev_boundary
      then (remaining - 1 = 0, Rounds (remaining - 1) boundary actor_id)
      else (False, Rounds remaining boundary actor_id))"
| "tick_duration (DamagedEvent ev_actor) (UntilDamagedOrAwakened n actor_id) =
     (actor_id = ev_actor, UntilDamagedOrAwakened n actor_id)"
| "tick_duration (AwakenedByAction ev_actor) (UntilDamagedOrAwakened n actor_id) =
     (actor_id = ev_actor, UntilDamagedOrAwakened n actor_id)"
| "tick_duration (TurnBoundaryEvent ev_actor BoundaryEnd) (UntilDamagedOrAwakened n actor_id) =
     (if actor_id = ev_actor then (n - 1 = 0, UntilDamagedOrAwakened (n - 1) actor_id)
      else (False, UntilDamagedOrAwakened n actor_id))"
| "tick_duration _ d = (False, d)"

fun sweep_conditions ::
  "duration_event \<Rightarrow> active_condition list \<Rightarrow> active_condition list \<times> active_condition list" where
  "sweep_conditions ev [] = ([], [])"
| "sweep_conditions ev (c # cs) =
     (let (remove, d) = tick_duration ev (ac_duration c);
          c' = c\<lparr>ac_duration := d\<rparr>;
          (expired, retained) = sweep_conditions ev cs
      in if remove then (c' # expired, retained) else (expired, c' # retained))"

definition process_durations ::
  "duration_event \<Rightarrow> condition_set \<Rightarrow> active_condition list rules_result \<times> condition_set" where
  "process_durations ev s =
     (case condition_set_validate s of
        Err e \<Rightarrow> (Err e, s)
      | Ok _ \<Rightarrow>
          (case require_id (event_actor ev) (ConditionFault DurationEventActorInvalid) of
             Err e \<Rightarrow> (Err e, s)
           | Ok _ \<Rightarrow>
               let (expired, retained) = sweep_conditions ev (cs_active s);
                   s' = s\<lparr>cs_active := retained\<rparr>
               in (and_then (condition_set_validate s') (\<lambda>_. Ok expired), s')))"

section \<open>Effects\<close>

datatype roll_situation =
    AbilityCheckSituation
  | SavingThrow ability
  | OwnAttack
  | IncomingAttack u16

record condition_effects =
  ce_roll_context :: roll_context
  ce_automatic_save_failure :: bool
  ce_speed_is_zero :: bool
  ce_actions_blocked :: bool
  ce_reactions_blocked :: bool
  ce_incoming_hit_is_critical :: bool

definition no_effects :: condition_effects where
  "no_effects =
     \<lparr>ce_roll_context = rc_normal, ce_automatic_save_failure = False, ce_speed_is_zero = False,
      ce_actions_blocked = False, ce_reactions_blocked = False,
      ce_incoming_hit_is_critical = False\<rparr>"

definition one_advantage :: "condition_effects \<Rightarrow> condition_effects" where
  "one_advantage e =
     e\<lparr>ce_roll_context := (ce_roll_context e)
         \<lparr>advantage_sources := saturating_add u8_max (advantage_sources (ce_roll_context e)) 1\<rparr>\<rparr>"

definition one_disadvantage :: "condition_effects \<Rightarrow> condition_effects" where
  "one_disadvantage e =
     e\<lparr>ce_roll_context := (ce_roll_context e)
         \<lparr>disadvantage_sources :=
            saturating_add u8_max (disadvantage_sources (ce_roll_context e)) 1\<rparr>\<rparr>"

definition effect_of :: "roll_situation \<Rightarrow> condition_effects \<Rightarrow> condition_id \<Rightarrow> condition_effects" where
  "effect_of situation e c =
     (case c of
        Prone \<Rightarrow>
          (case situation of
             OwnAttack \<Rightarrow> one_disadvantage e
           | IncomingAttack d \<Rightarrow> if d \<le> 5 then one_advantage e else one_disadvantage e
           | _ \<Rightarrow> e)
      | Restrained \<Rightarrow>
          (case situation of
             OwnAttack \<Rightarrow> one_disadvantage e
           | IncomingAttack _ \<Rightarrow> one_advantage e
           | SavingThrow a \<Rightarrow> if a = Dexterity then one_disadvantage e else e
           | _ \<Rightarrow> e)
      | Grappled \<Rightarrow> e\<lparr>ce_speed_is_zero := True\<rparr>
      | Incapacitated \<Rightarrow> e\<lparr>ce_actions_blocked := True, ce_reactions_blocked := True\<rparr>
      | Unconscious \<Rightarrow>
          (let e = e\<lparr>ce_actions_blocked := True, ce_reactions_blocked := True,
                     ce_speed_is_zero := True\<rparr>
           in case situation of
                SavingThrow a \<Rightarrow>
                  if a = Strength \<or> a = Dexterity then e\<lparr>ce_automatic_save_failure := True\<rparr> else e
              | IncomingAttack d \<Rightarrow>
                  (let e = one_advantage e
                   in if d \<le> 5 then e\<lparr>ce_incoming_hit_is_critical := True\<rparr> else e)
              | _ \<Rightarrow> e)
      | Poisoned \<Rightarrow>
          (case situation of
             AbilityCheckSituation \<Rightarrow> one_disadvantage e
           | OwnAttack \<Rightarrow> one_disadvantage e
           | _ \<Rightarrow> e))"

definition condition_effects_of ::
  "condition_set \<Rightarrow> roll_situation \<Rightarrow> condition_effects rules_result" where
  "condition_effects_of s situation =
     and_then (condition_set_validate s) (\<lambda>_.
       let e = foldl (\<lambda>e a. effect_of situation e (ac_condition a)) no_effects (cs_active s)
       in Ok (if cs_contains s Restrained then e\<lparr>ce_speed_is_zero := True\<rparr> else e))"

section \<open>The validator\<close>

text \<open>
  Debug names carry no colon, so two formatted identities are equal only when the sources are:
  the string comparison of \<open>validate\<close> decides the same as the structural one of \<open>apply\<close>.
\<close>

lemma source_key_inj: "source_key a = source_key b \<longleftrightarrow> a = b"
proof (cases a; cases b)
  fix s c s' c' assume "a = SpellSource s c" "b = SpellSource s' c'"
  then show ?thesis by (cases s; cases s') simp_all
qed simp_all

definition condition_identity :: "active_condition \<Rightarrow> condition_id \<times> condition_source" where
  "condition_identity c = (ac_condition c, ac_source c)"

lemma scan_conditions_Ok_iff:
  "scan_conditions ids cs = Ok () \<longleftrightarrow>
     (\<forall>c\<in>set cs. active_condition_validate c = Ok ()) \<and>
     distinct (map condition_identity cs) \<and>
     (\<forall>c\<in>set cs. (ac_condition c, source_key (ac_source c)) \<notin> ids)"
proof (induction cs arbitrary: ids)
  case Nil
  show ?case by simp
next
  case (Cons c cs)
  show ?case
    by (auto simp: Cons.IH Let_def condition_identity_def source_key_inj image_iff)
qed

definition condition_set_ok :: "condition_set \<Rightarrow> bool" where
  "condition_set_ok s \<longleftrightarrow>
     cs_schema_version s = rules_matrix_schema_version \<and>
     length (cs_active s) \<le> max_active_conditions \<and>
     list_all (\<lambda>c. active_condition_validate c = Ok ()) (cs_active s) \<and>
     distinct (map condition_identity (cs_active s))"

lemma condition_set_validate_iff [simp]: "condition_set_validate s = Ok u \<longleftrightarrow> condition_set_ok s"
  by (auto simp: condition_set_validate_def condition_set_ok_def scan_conditions_Ok_iff list_all_iff)

lemma condition_set_validate_result: "condition_set_ok s \<Longrightarrow> condition_set_validate s = Ok ()"
  by simp

lemma condition_set_empty_ok: "condition_set_ok condition_set_empty"
  by (simp add: condition_set_ok_def condition_set_empty_def)

section \<open>Applying a condition\<close>

lemma condition_apply_OkD:
  assumes "condition_apply c s = (Ok u, s')"
  shows "condition_set_ok s" "condition_set_ok s'" "active_condition_validate c = Ok ()"
    "cs_active s' = cs_active s @ [c]" "condition_identity c \<notin> condition_identity ` set (cs_active s)"
    "length (cs_active s) < max_active_conditions"
  using assms
  by (auto simp: condition_apply_def Let_def condition_set_ok_def list_ex_iff condition_identity_def
      split: result.splits if_splits)

text \<open>The closing \<open>validate\<close> of \<open>apply\<close> cannot fail once the guards before it passed.\<close>

lemma condition_apply_append_ok:
  assumes "condition_set_ok s" "active_condition_validate c = Ok ()"
    "length (cs_active s) \<noteq> max_active_conditions"
    "\<not> list_ex (\<lambda>a. ac_condition a = ac_condition c \<and> ac_source a = ac_source c) (cs_active s)"
  shows "condition_set_ok (s\<lparr>cs_active := cs_active s @ [c]\<rparr>)"
  using assms by (auto simp: condition_set_ok_def list_ex_iff condition_identity_def)

lemma condition_apply_Err: "condition_apply c s = (Err e, s') \<Longrightarrow> s' = s"
  using condition_apply_append_ok [of s c]
  by (auto simp: condition_apply_def Let_def condition_set_validate_result
      split: result.splits if_splits)

lemma condition_apply_Ok_iff:
  "fst (condition_apply c s) = Ok () \<longleftrightarrow>
     condition_set_ok s \<and> active_condition_validate c = Ok () \<and>
     length (cs_active s) < max_active_conditions \<and>
     condition_identity c \<notin> condition_identity ` set (cs_active s)"
proof
  assume "fst (condition_apply c s) = Ok ()"
  then obtain s' where "condition_apply c s = (Ok (), s')"
    by (cases "condition_apply c s") auto
  then show "condition_set_ok s \<and> active_condition_validate c = Ok () \<and>
     length (cs_active s) < max_active_conditions \<and>
     condition_identity c \<notin> condition_identity ` set (cs_active s)"
    by (simp add: condition_apply_OkD)
next
  assume a: "condition_set_ok s \<and> active_condition_validate c = Ok () \<and>
     length (cs_active s) < max_active_conditions \<and>
     condition_identity c \<notin> condition_identity ` set (cs_active s)"
  then have "\<not> list_ex (\<lambda>a. ac_condition a = ac_condition c \<and> ac_source a = ac_source c) (cs_active s)"
    by (auto simp: list_ex_iff condition_identity_def image_iff)
  with a condition_apply_append_ok [of s c]
  show "fst (condition_apply c s) = Ok ()"
    by (simp add: condition_apply_def condition_set_validate_result Let_def)
qed

section \<open>Counting durations down\<close>

lemma tick_duration_shape:
  "tick_duration ev d = (r, d') \<Longrightarrow>
     (d' = d \<or>
      (\<exists>n b a. d = Rounds n b a \<and> d' = Rounds (n - 1) b a \<and> (r \<longleftrightarrow> n - 1 = 0)) \<or>
      (\<exists>n a. d = UntilDamagedOrAwakened n a \<and> d' = UntilDamagedOrAwakened (n - 1) a \<and>
             (r \<longleftrightarrow> n - 1 = 0)))"
  by (induction ev d rule: tick_duration.induct) (auto split: if_splits)

lemma tick_keeps_valid:
  assumes "active_condition_validate c = Ok ()" "tick_duration ev (ac_duration c) = (False, d)"
  shows "active_condition_validate (c\<lparr>ac_duration := d\<rparr>) = Ok ()"
  using assms tick_duration_shape [OF assms(2)]
  by (auto simp: active_condition_validate_def split: if_splits)

lemma sweep_split:
  "sweep_conditions ev cs =
     (map (\<lambda>c. c\<lparr>ac_duration := snd (tick_duration ev (ac_duration c))\<rparr>)
          (filter (\<lambda>c. fst (tick_duration ev (ac_duration c))) cs),
      map (\<lambda>c. c\<lparr>ac_duration := snd (tick_duration ev (ac_duration c))\<rparr>)
          (filter (\<lambda>c. \<not> fst (tick_duration ev (ac_duration c))) cs))"
  by (induction cs) (auto split: prod.splits)

lemma distinct_map_filter: "distinct (map f xs) \<Longrightarrow> distinct (map f (filter p xs))"
  by (induction xs) auto

lemma sweep_retained_ok:
  assumes "condition_set_ok s"
  shows "condition_set_ok (s\<lparr>cs_active := snd (sweep_conditions ev (cs_active s))\<rparr>)"
proof -
  let ?t = "\<lambda>c. c\<lparr>ac_duration := snd (tick_duration ev (ac_duration c))\<rparr>"
  have id: "condition_identity (?t c) = condition_identity c" for c
    by (simp add: condition_identity_def)
  have "active_condition_validate (?t c) = Ok ()"
    if "c \<in> set (cs_active s)" "\<not> fst (tick_duration ev (ac_duration c))" for c
    using assms that tick_keeps_valid [of c ev "snd (tick_duration ev (ac_duration c))"]
    by (cases "tick_duration ev (ac_duration c)") (auto simp: condition_set_ok_def list_all_iff)
  moreover have "length (filter p (cs_active s)) \<le> max_active_conditions" for p
    using assms order_trans [OF length_filter_le] by (auto simp: condition_set_ok_def)
  ultimately show ?thesis
    using assms
    by (auto simp: condition_set_ok_def sweep_split list_all_iff o_def id distinct_map_filter)
qed

text \<open>On a valid set and a valid actor the countdown always succeeds.\<close>

lemma process_durations_eq:
  assumes "condition_set_ok s" "is_valid_opaque_id (event_actor ev)"
  shows "process_durations ev s =
    (Ok (fst (sweep_conditions ev (cs_active s))),
     s\<lparr>cs_active := snd (sweep_conditions ev (cs_active s))\<rparr>)"
  using assms sweep_retained_ok [OF assms(1), of ev]
  by (cases "sweep_conditions ev (cs_active s)")
     (simp add: process_durations_def condition_set_validate_result require_id_def)

lemma process_durations_OkD:
  assumes "process_durations ev s = (Ok xs, s')"
  shows "condition_set_ok s" "is_valid_opaque_id (event_actor ev)"
  using assms by (auto simp: process_durations_def require_id_def split: result.splits if_splits)

lemma process_durations_Err: "process_durations ev s = (Err e, s') \<Longrightarrow> s' = s"
proof -
  assume e: "process_durations ev s = (Err e, s')"
  show "s' = s"
  proof (cases "condition_set_ok s \<and> is_valid_opaque_id (event_actor ev)")
    case True
    with process_durations_eq [of s ev] e show ?thesis by simp
  next
    case False
    with e show ?thesis
      by (auto simp: process_durations_def require_id_def split: result.splits if_splits)
  qed
qed

datatype condition_input = ApplyInput active_condition | EventInput duration_event

fun condition_step ::
  "(condition_input, condition_set, rules_matrix_error, active_condition list) step" where
  "condition_step (ApplyInput c) s =
     (let (r, s') = condition_apply c s in (and_then r (\<lambda>_. Ok []), s'))"
| "condition_step (EventInput ev) s = process_durations ev s"

interpretation conditions: transactional condition_set_ok condition_step
proof
  fix i s x s'
  assume "condition_set_ok s" "condition_step i s = (Ok x, s')"
  then show "condition_set_ok s'"
  proof (cases i)
    case (ApplyInput c)
    with \<open>condition_step i s = (Ok x, s')\<close> show ?thesis
      by (auto simp: condition_apply_OkD(2) split: prod.splits)
  next
    case (EventInput ev)
    with \<open>condition_step i s = (Ok x, s')\<close> have p: "process_durations ev s = (Ok x, s')" by simp
    from process_durations_eq [OF process_durations_OkD [OF p]] p
      sweep_retained_ok [OF process_durations_OkD(1) [OF p], of ev]
    show ?thesis by simp
  qed
next
  fix i s e s'
  assume "condition_step i s = (Err e, s')"
  then show "s' = s"
    by (cases i) (auto simp: process_durations_Err and_then_Err_iff condition_apply_Err split: prod.splits)
qed

text \<open>
  The number of events of one actor and boundary a condition survives: a condition of \<open>n\<close>
  rounds is retained by the first \<open>n - 1\<close> matching boundaries and expires at the \<open>n\<close>-th.
\<close>

lemma rounds_retained:
  "1 < n \<Longrightarrow> tick_duration (TurnBoundaryEvent a b) (Rounds n b a) = (False, Rounds (n - 1) b a)"
  by simp

fun survives :: "duration_event list \<Rightarrow> effect_duration \<Rightarrow> bool" where
  "survives [] d = True"
| "survives (ev # evs) d =
     (\<not> fst (tick_duration ev d) \<and> survives evs (snd (tick_duration ev d)))"

fun matches_rounds :: "string \<Rightarrow> turn_boundary \<Rightarrow> duration_event \<Rightarrow> bool" where
  "matches_rounds a b (TurnBoundaryEvent a' b') = (a' = a \<and> b' = b)"
| "matches_rounds a b _ = False"

lemma tick_rounds:
  "tick_duration ev (Rounds n b a) =
     (if matches_rounds a b ev then (n - 1 = 0, Rounds (n - 1) b a) else (False, Rounds n b a))"
  by (cases ev) auto

lemma survives_rounds_iff:
  "0 < n \<Longrightarrow>
     survives evs (Rounds n b a) \<longleftrightarrow> length (filter (matches_rounds a b) evs) < n"
proof (induction evs arbitrary: n)
  case Nil
  then show ?case by simp
next
  case (Cons ev evs)
  show ?case
  proof (cases "matches_rounds a b ev \<and> 1 < n")
    case True
    with Cons.IH [of "n - 1"] show ?thesis by (auto simp: tick_rounds)
  next
    case False
    with Cons show ?thesis by (auto simp: tick_rounds)
  qed
qed

lemma set_after_events:
  assumes "condition_set_ok s" "\<forall>ev\<in>set evs. is_valid_opaque_id (event_actor ev)"
  shows "map condition_identity (cs_active (run_steps process_durations evs s)) =
    map condition_identity (filter (\<lambda>c. survives evs (ac_duration c)) (cs_active s))"
  using assms
proof (induction evs arbitrary: s)
  case Nil
  show ?case by simp
next
  case (Cons ev evs)
  let ?t = "\<lambda>c. c\<lparr>ac_duration := snd (tick_duration ev (ac_duration c))\<rparr>"
  have ok: "condition_set_ok (s\<lparr>cs_active := snd (sweep_conditions ev (cs_active s))\<rparr>)"
    using Cons.prems(1) by (rule sweep_retained_ok)
  have id: "condition_identity (?t c) = condition_identity c" for c
    by (simp add: condition_identity_def)
  have "map condition_identity (filter (\<lambda>c. survives evs (ac_duration c))
      (snd (sweep_conditions ev cs))) =
    map condition_identity (filter (\<lambda>c. survives (ev # evs) (ac_duration c)) cs)" for cs
    by (induction cs) (auto simp: condition_identity_def Let_def split: prod.splits)
  with Cons.IH [OF ok] Cons.prems process_durations_eq [of s ev] show ?case by simp
qed

section \<open>Effects in closed form\<close>

fun grants_advantage :: "roll_situation \<Rightarrow> condition_id \<Rightarrow> bool" where
  "grants_advantage (IncomingAttack d) Prone = (d \<le> 5)"
| "grants_advantage (IncomingAttack _) Restrained = True"
| "grants_advantage (IncomingAttack _) Unconscious = True"
| "grants_advantage _ _ = False"

fun grants_disadvantage :: "roll_situation \<Rightarrow> condition_id \<Rightarrow> bool" where
  "grants_disadvantage OwnAttack c = (c \<in> {Prone, Restrained, Poisoned})"
| "grants_disadvantage (IncomingAttack d) Prone = (5 < d)"
| "grants_disadvantage (SavingThrow Dexterity) Restrained = True"
| "grants_disadvantage AbilityCheckSituation Poisoned = True"
| "grants_disadvantage _ _ = False"

lemma no_effects_simps [simp]:
  "advantage_sources (ce_roll_context no_effects) = 0"
  "disadvantage_sources (ce_roll_context no_effects) = 0"
  "\<not> ce_automatic_save_failure no_effects" "\<not> ce_speed_is_zero no_effects"
  "\<not> ce_actions_blocked no_effects" "\<not> ce_reactions_blocked no_effects"
  "\<not> ce_incoming_hit_is_critical no_effects"
  by (simp_all add: no_effects_def rc_normal_def)

lemma one_advantage_simps [simp]:
  "advantage_sources (ce_roll_context (one_advantage e)) =
     min 255 (advantage_sources (ce_roll_context e) + 1)"
  "disadvantage_sources (ce_roll_context (one_advantage e)) =
     disadvantage_sources (ce_roll_context e)"
  "ce_automatic_save_failure (one_advantage e) = ce_automatic_save_failure e"
  "ce_speed_is_zero (one_advantage e) = ce_speed_is_zero e"
  "ce_actions_blocked (one_advantage e) = ce_actions_blocked e"
  "ce_reactions_blocked (one_advantage e) = ce_reactions_blocked e"
  "ce_incoming_hit_is_critical (one_advantage e) = ce_incoming_hit_is_critical e"
  by (simp_all add: one_advantage_def saturating_add_def u8_max_def)

lemma one_disadvantage_simps [simp]:
  "disadvantage_sources (ce_roll_context (one_disadvantage e)) =
     min 255 (disadvantage_sources (ce_roll_context e) + 1)"
  "advantage_sources (ce_roll_context (one_disadvantage e)) =
     advantage_sources (ce_roll_context e)"
  "ce_automatic_save_failure (one_disadvantage e) = ce_automatic_save_failure e"
  "ce_speed_is_zero (one_disadvantage e) = ce_speed_is_zero e"
  "ce_actions_blocked (one_disadvantage e) = ce_actions_blocked e"
  "ce_reactions_blocked (one_disadvantage e) = ce_reactions_blocked e"
  "ce_incoming_hit_is_critical (one_disadvantage e) = ce_incoming_hit_is_critical e"
  by (simp_all add: one_disadvantage_def saturating_add_def u8_max_def)

lemma grants_disadvantage_save:
  "grants_disadvantage (SavingThrow a) c \<longleftrightarrow> a = Dexterity \<and> c = Restrained"
  by (cases a; cases c) simp_all

lemma effect_of_advantage:
  "advantage_sources (ce_roll_context (effect_of st e c)) =
     (if grants_advantage st c then min 255 (advantage_sources (ce_roll_context e) + 1)
      else advantage_sources (ce_roll_context e))"
  by (cases c; cases st) (simp_all add: effect_of_def Let_def)

lemma effect_of_disadvantage:
  "disadvantage_sources (ce_roll_context (effect_of st e c)) =
     (if grants_disadvantage st c then min 255 (disadvantage_sources (ce_roll_context e) + 1)
      else disadvantage_sources (ce_roll_context e))"
  by (cases c; cases st) (simp_all add: effect_of_def Let_def grants_disadvantage_save)

lemma effect_of_flags:
  "ce_automatic_save_failure (effect_of st e c) \<longleftrightarrow> ce_automatic_save_failure e \<or>
     c = Unconscious \<and> st \<in> {SavingThrow Strength, SavingThrow Dexterity}"
  "ce_speed_is_zero (effect_of st e c) \<longleftrightarrow> ce_speed_is_zero e \<or> c \<in> {Grappled, Unconscious}"
  "ce_actions_blocked (effect_of st e c) \<longleftrightarrow>
     ce_actions_blocked e \<or> c \<in> {Incapacitated, Unconscious}"
  "ce_reactions_blocked (effect_of st e c) \<longleftrightarrow>
     ce_reactions_blocked e \<or> c \<in> {Incapacitated, Unconscious}"
  "ce_incoming_hit_is_critical (effect_of st e c) \<longleftrightarrow> ce_incoming_hit_is_critical e \<or>
     c = Unconscious \<and> (\<exists>d. st = IncomingAttack d \<and> d \<le> 5)"
  by (cases c; cases st; simp add: effect_of_def Let_def)+

definition effects_from :: "roll_situation \<Rightarrow> condition_effects \<Rightarrow> active_condition list \<Rightarrow> condition_effects" where
  "effects_from st e cs = foldl (\<lambda>e a. effect_of st e (ac_condition a)) e cs"

lemma effects_from_simps [simp]:
  "effects_from st e [] = e"
  "effects_from st e (c # cs) = effects_from st (effect_of st e (ac_condition c)) cs"
  by (simp_all add: effects_from_def)

lemma effects_from_sources:
  "advantage_sources (ce_roll_context e) + length cs \<le> 255 \<Longrightarrow>
   advantage_sources (ce_roll_context (effects_from st e cs)) =
     advantage_sources (ce_roll_context e) +
     length (filter (\<lambda>c. grants_advantage st (ac_condition c)) cs)"
  "disadvantage_sources (ce_roll_context e) + length cs \<le> 255 \<Longrightarrow>
   disadvantage_sources (ce_roll_context (effects_from st e cs)) =
     disadvantage_sources (ce_roll_context e) +
     length (filter (\<lambda>c. grants_disadvantage st (ac_condition c)) cs)"
  by (induction cs arbitrary: e) (simp_all add: effect_of_advantage effect_of_disadvantage)

lemma effects_from_flags:
  "ce_automatic_save_failure (effects_from st e cs) \<longleftrightarrow> ce_automatic_save_failure e \<or>
     (\<exists>c\<in>set cs. ac_condition c = Unconscious) \<and>
     st \<in> {SavingThrow Strength, SavingThrow Dexterity}"
  "ce_speed_is_zero (effects_from st e cs) \<longleftrightarrow> ce_speed_is_zero e \<or>
     (\<exists>c\<in>set cs. ac_condition c \<in> {Grappled, Unconscious})"
  "ce_actions_blocked (effects_from st e cs) \<longleftrightarrow> ce_actions_blocked e \<or>
     (\<exists>c\<in>set cs. ac_condition c \<in> {Incapacitated, Unconscious})"
  "ce_reactions_blocked (effects_from st e cs) \<longleftrightarrow> ce_reactions_blocked e \<or>
     (\<exists>c\<in>set cs. ac_condition c \<in> {Incapacitated, Unconscious})"
  "ce_incoming_hit_is_critical (effects_from st e cs) \<longleftrightarrow> ce_incoming_hit_is_critical e \<or>
     (\<exists>c\<in>set cs. ac_condition c = Unconscious) \<and> (\<exists>d. st = IncomingAttack d \<and> d \<le> 5)"
  by (induction cs arbitrary: e) (auto simp: effect_of_flags)

lemma cs_contains_iff: "cs_contains s c \<longleftrightarrow> (\<exists>a\<in>set (cs_active s). ac_condition a = c)"
  by (auto simp: cs_contains_def list_ex_iff)

lemma condition_effects_of_Ok_iff:
  "condition_effects_of s st = Ok e \<longleftrightarrow> condition_set_ok s \<and>
     e = (if cs_contains s Restrained
          then (effects_from st no_effects (cs_active s))\<lparr>ce_speed_is_zero := True\<rparr>
          else effects_from st no_effects (cs_active s))"
  by (auto simp: condition_effects_of_def effects_from_def Let_def simp del: no_effects_simps)

lemma condition_effects_flags:
  assumes "condition_effects_of s st = Ok e"
  shows "ce_automatic_save_failure e \<longleftrightarrow>
      cs_contains s Unconscious \<and> st \<in> {SavingThrow Strength, SavingThrow Dexterity}"
    and "ce_speed_is_zero e \<longleftrightarrow>
      cs_contains s Grappled \<or> cs_contains s Unconscious \<or> cs_contains s Restrained"
    and "ce_actions_blocked e \<longleftrightarrow> cs_contains s Incapacitated \<or> cs_contains s Unconscious"
    and "ce_reactions_blocked e \<longleftrightarrow> cs_contains s Incapacitated \<or> cs_contains s Unconscious"
    and "ce_incoming_hit_is_critical e \<longleftrightarrow>
      cs_contains s Unconscious \<and> (\<exists>d. st = IncomingAttack d \<and> d \<le> 5)"
  using assms
  by (auto simp: condition_effects_of_Ok_iff effects_from_flags cs_contains_iff split: if_splits)

lemma condition_effects_sources:
  assumes "condition_effects_of s st = Ok e"
  shows "advantage_sources (ce_roll_context e) =
      length (filter (\<lambda>c. grants_advantage st (ac_condition c)) (cs_active s))"
    and "disadvantage_sources (ce_roll_context e) =
      length (filter (\<lambda>c. grants_disadvantage st (ac_condition c)) (cs_active s))"
proof -
  from assms have "length (cs_active s) \<le> 32"
    by (simp add: condition_effects_of_Ok_iff condition_set_ok_def max_active_conditions_def)
  with assms show "advantage_sources (ce_roll_context e) =
      length (filter (\<lambda>c. grants_advantage st (ac_condition c)) (cs_active s))"
    and "disadvantage_sources (ce_roll_context e) =
      length (filter (\<lambda>c. grants_disadvantage st (ac_condition c)) (cs_active s))"
    by (auto simp: condition_effects_of_Ok_iff effects_from_sources)
qed

lemma condition_effects_total: "condition_set_ok s \<Longrightarrow> is_ok (condition_effects_of s st)"
  by (auto simp: is_ok_iff condition_effects_of_Ok_iff)

section \<open>Properties\<close>

text \<open>C24: A condition that lasts \<open>n\<close> rounds, counted at a boundary of an actor's turns, expires at
  exactly the \<open>n\<close>-th such boundary: after any sequence of duration events it is still active if and
  only if fewer than \<open>n\<close> matching boundaries have passed, whatever else was active.\<close>

theorem rounds_expire_exactly:
  assumes "condition_set_validate s = Ok ()" "c \<in> set (cs_active s)" "ac_duration c = Rounds n b a"
    and "\<forall>ev\<in>set evs. is_valid_opaque_id (event_actor ev)"
  shows "condition_identity c \<in> condition_identity ` set (cs_active (run_steps process_durations evs s))
    \<longleftrightarrow> length (filter (matches_rounds a b) evs) < n"
proof -
  have ok: "condition_set_ok s" using assms(1) by simp
  then have "active_condition_validate c = Ok ()"
    using assms(2) by (auto simp: condition_set_ok_def list_all_iff)
  then have "duration_validate c (Rounds n b a) = Ok ()"
    by (simp only: active_condition_validate_def and_then_Ok_iff assms(3)) blast
  then have "0 < n" by (auto split: if_splits)
  note survives_rounds_iff [OF this, of evs b a]
  moreover have "condition_identity ` set (cs_active (run_steps process_durations evs s)) =
      condition_identity ` {x \<in> set (cs_active s). survives evs (ac_duration x)}"
    using arg_cong [OF set_after_events [OF ok assms(4)], of set] by auto
  moreover have "inj_on condition_identity (set (cs_active s))"
    using ok by (auto simp: condition_set_ok_def distinct_map)
  ultimately show ?thesis
    using assms(2,3) by (auto dest: inj_onD)
qed

definition poison :: active_condition where
  "poison = \<lparr>ac_condition = Poisoned, ac_source = MechanicSource ''trap.needle'',
     ac_duration = Rounds 2 BoundaryEnd ''goblin-1''\<rparr>"

definition poisoned_set :: condition_set where
  "poisoned_set = condition_set_empty\<lparr>cs_active := [poison]\<rparr>"

theorem rounds_expire_exactly_witness:
  "cs_active (run_steps process_durations
     [TurnBoundaryEvent ''goblin-1'' BoundaryEnd, TurnBoundaryEvent ''goblin-1'' BoundaryStart,
      DamagedEvent ''hero-1''] poisoned_set) \<noteq> [] \<and>
   cs_active (run_steps process_durations
     [TurnBoundaryEvent ''goblin-1'' BoundaryEnd, TurnBoundaryEvent ''goblin-1'' BoundaryStart,
      TurnBoundaryEvent ''goblin-1'' BoundaryEnd] poisoned_set) = []"
proof
  let ?e = "[TurnBoundaryEvent ''goblin-1'' BoundaryEnd, TurnBoundaryEvent ''goblin-1'' BoundaryStart,
      DamagedEvent ''hero-1'']"
  have ok: "condition_set_validate poisoned_set = Ok ()" by code_simp
  have "\<forall>ev\<in>set ?e. is_valid_opaque_id (event_actor ev)" by code_simp
  from rounds_expire_exactly [OF ok _ _ this, of poison]
  show "cs_active (run_steps process_durations ?e poisoned_set) \<noteq> []"
    by (auto simp: poisoned_set_def poison_def)
qed code_simp

text \<open>What conditions do to a creature is decided by which are present, not by their order,
  number or source: speed is zero under Grappled, Restrained or Unconscious, actions and reactions are
  blocked under Incapacitated or Unconscious, Strength and Dexterity saves fail and hits from five feet
  are critical against the Unconscious, and every source of advantage and disadvantage is counted.\<close>

theorem condition_effects_decided:
  assumes "condition_set_validate s = Ok ()"
  shows "\<exists>e. condition_effects_of s st = Ok e \<and>
    (ce_speed_is_zero e \<longleftrightarrow>
       cs_contains s Grappled \<or> cs_contains s Unconscious \<or> cs_contains s Restrained) \<and>
    (ce_actions_blocked e \<longleftrightarrow> cs_contains s Incapacitated \<or> cs_contains s Unconscious) \<and>
    (ce_reactions_blocked e \<longleftrightarrow> cs_contains s Incapacitated \<or> cs_contains s Unconscious) \<and>
    (ce_automatic_save_failure e \<longleftrightarrow>
       cs_contains s Unconscious \<and> st \<in> {SavingThrow Strength, SavingThrow Dexterity}) \<and>
    (ce_incoming_hit_is_critical e \<longleftrightarrow>
       cs_contains s Unconscious \<and> (\<exists>d. st = IncomingAttack d \<and> d \<le> 5)) \<and>
    advantage_sources (ce_roll_context e) =
      length (filter (\<lambda>c. grants_advantage st (ac_condition c)) (cs_active s)) \<and>
    disadvantage_sources (ce_roll_context e) =
      length (filter (\<lambda>c. grants_disadvantage st (ac_condition c)) (cs_active s))"
proof -
  obtain e where e: "condition_effects_of s st = Ok e"
    using condition_effects_total [of s st] assms by (auto simp: is_ok_iff)
  show ?thesis
    using e condition_effects_flags [OF e] condition_effects_sources [OF e] by blast
qed

theorem condition_effects_decided_witness:
  "\<exists>e. condition_effects_of poisoned_set AbilityCheckSituation = Ok e \<and>
     \<not> ce_actions_blocked e \<and> disadvantage_sources (ce_roll_context e) = 1"
proof -
  have "condition_set_validate poisoned_set = Ok ()" by code_simp
  from condition_effects_decided [OF this, of AbilityCheckSituation] show ?thesis
    by (auto simp: poisoned_set_def poison_def condition_set_empty_def cs_contains_iff)
qed

text \<open>A condition set that passes \<open>validate\<close> passes it after any sequence of applications and
  duration events, accepted or refused; an application is accepted exactly when the condition is
  well formed, there is room, and the same condition from the same source is not already active.\<close>

theorem condition_sets_stay_valid:
  assumes "condition_set_validate s = Ok ()"
  shows "condition_set_validate (run_steps condition_step is s) = Ok () \<and>
    (fst (condition_apply c (run_steps condition_step is s)) = Ok () \<longleftrightarrow>
       active_condition_validate c = Ok () \<and>
       length (cs_active (run_steps condition_step is s)) < max_active_conditions \<and>
       condition_identity c \<notin>
         condition_identity ` set (cs_active (run_steps condition_step is s)))"
  using conditions.run_valid [of s "is"] assms by (simp add: condition_apply_Ok_iff)

theorem condition_sets_stay_valid_witness:
  "condition_set_validate (run_steps condition_step
     [ApplyInput poison, ApplyInput poison, EventInput (DamagedEvent [])] condition_set_empty) = Ok () \<and>
   fst (condition_apply poison (run_steps condition_step [ApplyInput poison] condition_set_empty))
     \<noteq> Ok ()"
proof
  have e: "condition_set_validate condition_set_empty = Ok ()" by code_simp
  show "condition_set_validate (run_steps condition_step
     [ApplyInput poison, ApplyInput poison, EventInput (DamagedEvent [])] condition_set_empty) = Ok ()"
    using condition_sets_stay_valid [OF e] by blast
qed code_simp

end
