(* ===== verification/D20_Tests.thy ===== *)
theory D20_Tests
  imports Conditions
begin

text \<open>
  The d20 path of \<open>rules_matrix.rs\<close>: situational modifiers, cover, the single resolver of
  checks, saves and attacks, its variant under conditions, weapon ranges, and the trusted
  checks whose difficulty comes from a closed band.
\<close>

section \<open>Requests\<close>

datatype cover = NoCover | HalfCover | ThreeQuartersCover

fun cover_ac_bonus :: "cover \<Rightarrow> u8" where
  "cover_ac_bonus NoCover = 0"
| "cover_ac_bonus HalfCover = 2"
| "cover_ac_bonus ThreeQuartersCover = 5"

record situational_modifier =
  sm_source_id :: string
  sm_value :: i8

fun scan_modifiers :: "string set \<Rightarrow> situational_modifier list \<Rightarrow> unit rules_result" where
  "scan_modifiers ids [] = Ok ()"
| "scan_modifiers ids (m # ms) =
     and_then (require_id (sm_source_id m) (D20Fault SituationalSourceInvalid)) (\<lambda>_.
       if \<not> (-30 \<le> sm_value m \<and> sm_value m \<le> 30)
       then Err (InvalidIntent (D20Fault SituationalOutOfRange))
       else if sm_source_id m \<in> ids
       then Err (InvalidIntent (D20Fault SituationalDuplicate))
       else scan_modifiers (insert (sm_source_id m) ids) ms)"

definition validate_modifiers :: "situational_modifier list \<Rightarrow> unit rules_result" where
  "validate_modifiers ms =
     (if length ms > max_situational_modifiers
      then Err (InvalidIntent (D20Fault TooManySituational))
      else scan_modifiers {} ms)"

datatype d20_target =
    CheckTarget u8
  | SaveTarget u8 cover
  | AttackTarget u8 cover

fun target_base :: "d20_target \<Rightarrow> u8" where
  "target_base (CheckTarget dc) = dc"
| "target_base (SaveTarget dc _) = dc"
| "target_base (AttackTarget ac _) = ac"

fun is_attack_target :: "d20_target \<Rightarrow> bool" where
  "is_attack_target (AttackTarget _ _) = True"
| "is_attack_target _ = False"

record d20_test_request =
  dq_schema_version :: u16
  dq_ability :: ability
  dq_proficiency :: proficiency
  dq_roll_context :: roll_context
  dq_situational_modifiers :: "situational_modifier list"
  dq_target :: d20_target

definition d20_request_validate :: "d20_test_request \<Rightarrow> unit rules_result" where
  "d20_request_validate q =
     (if dq_schema_version q \<noteq> rules_matrix_schema_version
      then Err (InvalidIntent (D20Fault D20TestSchema))
      else and_then (validate_modifiers (dq_situational_modifiers q)) (\<lambda>_.
        let target = target_base (dq_target q) in
        if target = 0 \<or> target > 60 then Err (InvalidIntent (D20Fault TargetNumberRange))
        else Ok ()))"

section \<open>Resolution\<close>

datatype d20_test_outcome = TestSuccess | TestFailure | TestCriticalHit | TestAutomaticMiss

fun outcome_succeeds :: "d20_test_outcome \<Rightarrow> bool" where
  "outcome_succeeds TestSuccess = True"
| "outcome_succeeds TestCriticalHit = True"
| "outcome_succeeds _ = False"

record d20_test_resolution =
  dr_schema_version :: u16
  dr_roll :: d20_roll
  dr_ability :: ability
  dr_ability_modifier :: i8
  dr_proficiency_modifier :: u8
  dr_situational_modifiers :: "situational_modifier list"
  dr_situational_total :: i16
  dr_total :: i16
  dr_target_number :: u8
  dr_cover_bonus :: u8
  dr_outcome :: d20_test_outcome

definition sum_modifiers :: "situational_modifier list \<Rightarrow> i16 rules_result" where
  "sum_modifiers ms =
     try_fold (\<lambda>sum m. ok_or (checked_add_i16 sum (sm_value m)) ArithmeticOverflow) 0 ms"

definition add_parts :: "u8 \<Rightarrow> i8 \<Rightarrow> u8 \<Rightarrow> i16 \<Rightarrow> i16 rules_result" where
  "add_parts selected am pm situational =
     ok_or (Option.bind (checked_add_i16 (int selected) am) (\<lambda>v.
            Option.bind (checked_add_i16 v (int pm)) (\<lambda>v.
            checked_add_i16 v situational))) ArithmeticOverflow"

fun target_cover :: "ability \<Rightarrow> d20_target \<Rightarrow> u8" where
  "target_cover a (CheckTarget _) = 0"
| "target_cover a (SaveTarget _ c) = (if a = Dexterity then cover_ac_bonus c else 0)"
| "target_cover a (AttackTarget _ c) = cover_ac_bonus c"

definition test_outcome :: "d20_target \<Rightarrow> u8 \<Rightarrow> i16 \<Rightarrow> u8 \<Rightarrow> d20_test_outcome" where
  "test_outcome target selected tot target_number =
     (if is_attack_target target \<and> selected = 20 then TestCriticalHit
      else if is_attack_target target \<and> selected = 1 then TestAutomaticMiss
      else if int target_number \<le> tot then TestSuccess
      else TestFailure)"

definition finish_d20_test ::
  "ability_scores \<Rightarrow> level \<Rightarrow> d20_test_request \<Rightarrow> d20_roll \<Rightarrow> d20_test_resolution rules_result" where
  "finish_d20_test scores level q r =
     (let am = score_modifier (scores_get scores (dq_ability q));
          pm = prof_bonus (dq_proficiency q) (proficiency_bonus level);
          cover = target_cover (dq_ability q) (dq_target q)
      in and_then (sum_modifiers (dq_situational_modifiers q)) (\<lambda>situational.
         and_then (ok_or (checked_add u8_max (target_base (dq_target q)) cover) ArithmeticOverflow)
           (\<lambda>target_number.
         and_then (add_parts (d20_selected r) am pm situational) (\<lambda>total.
           Ok \<lparr>dr_schema_version = rules_matrix_schema_version, dr_roll = r,
               dr_ability = dq_ability q, dr_ability_modifier = am,
               dr_proficiency_modifier = pm,
               dr_situational_modifiers = dq_situational_modifiers q,
               dr_situational_total = situational, dr_total = total,
               dr_target_number = target_number, dr_cover_bonus = cover,
               dr_outcome = test_outcome (dq_target q) (d20_selected r) total target_number\<rparr>))))"

definition resolve_d20_test ::
  "'s dice \<Rightarrow> ability_scores \<Rightarrow> level \<Rightarrow> d20_test_request \<Rightarrow> 's
    \<Rightarrow> d20_test_resolution rules_result \<times> 's" where
  "resolve_d20_test roll scores level q s =
     and_then_st (and_then (d20_request_validate q) (\<lambda>_.
                  and_then (lift_core (scores_validate scores)) (\<lambda>_.
                  require_supported_level level)), s) (\<lambda>_ s.
     and_then_st (apfst lift_core (resolve_d20 roll (dq_roll_context q) s)) (\<lambda>r s.
     (finish_d20_test scores level q r, s)))"

datatype conditioned_d20_resolution =
    Rolled d20_test_resolution
  | AutomaticSaveFailure ability u8

fun situation_matches :: "ability \<Rightarrow> d20_target \<Rightarrow> roll_situation \<Rightarrow> bool" where
  "situation_matches a (CheckTarget _) AbilityCheckSituation = True"
| "situation_matches a (AttackTarget _ _) OwnAttack = True"
| "situation_matches a (SaveTarget _ _) (SavingThrow b) = (b = a)"
| "situation_matches a _ _ = False"

definition resolve_conditioned_d20_test ::
  "'s dice \<Rightarrow> ability_scores \<Rightarrow> level \<Rightarrow> d20_test_request \<Rightarrow> condition_set \<Rightarrow> roll_situation
    \<Rightarrow> 's \<Rightarrow> conditioned_d20_resolution rules_result \<times> 's" where
  "resolve_conditioned_d20_test roll scores level q conditions situation s =
     (if \<not> situation_matches (dq_ability q) (dq_target q) situation
      then (Err (InvalidIntent (D20Fault SituationMismatch)), s)
      else and_then_st (condition_effects_of conditions situation, s) (\<lambda>effects s.
        if ce_actions_blocked effects \<and> is_attack_target (dq_target q)
        then (Err (InvalidIntent (D20Fault ConditionsPreventAttack)), s)
        else if ce_automatic_save_failure effects
        then (case dq_target q of
                SaveTarget dc _ \<Rightarrow> (Ok (AutomaticSaveFailure (dq_ability q) dc), s)
              | _ \<Rightarrow> (Err (InvalidState (D20Fault AutoFailureOutsideSave)), s))
        else and_then_st
          (resolve_d20_test roll scores level
            (q\<lparr>dq_roll_context :=
                combine_roll_context (dq_roll_context q) (ce_roll_context effects)\<rparr>) s)
          (\<lambda>r s. (Ok (Rolled r), s))))"

section \<open>Weapon ranges\<close>

datatype attack_mode = Melee | Ranged
datatype range_band = MeleeReach | NormalRange | LongRange

record range_resolution =
  rg_band :: range_band
  rg_disadvantage_sources :: u8

fun weapon_ranges :: "weapon_choice \<Rightarrow> attack_mode \<Rightarrow> (u16 \<times> u16 option) option" where
  "weapon_ranges Longsword Melee = Some (5, None)"
| "weapon_ranges (SimpleWeapon _) Melee = Some (5, None)"
| "weapon_ranges LightCrossbow Ranged = Some (80, Some 320)"
| "weapon_ranges (SimpleWeapon Dagger) Ranged = Some (20, Some 60)"
| "weapon_ranges (SimpleWeapon Handaxe) Ranged = Some (20, Some 60)"
| "weapon_ranges (SimpleWeapon LightHammer) Ranged = Some (20, Some 60)"
| "weapon_ranges (SimpleWeapon Javelin) Ranged = Some (30, Some 120)"
| "weapon_ranges (SimpleWeapon Spear) Ranged = Some (20, Some 60)"
| "weapon_ranges _ _ = None"

definition resolve_weapon_range ::
  "weapon_choice \<Rightarrow> attack_mode \<Rightarrow> u16 \<Rightarrow> bool \<Rightarrow> range_resolution rules_result" where
  "resolve_weapon_range weapon mode distance threatened =
     (if distance = 0 \<or> \<not> 5 dvd distance then Err (InvalidIntent (WeaponFault AttackDistance))
      else case weapon_ranges weapon mode of
        None \<Rightarrow> Err (unsupported_error ''attack.weapon-mode'')
      | Some (normal, long) \<Rightarrow>
          and_then
            (if distance \<le> normal
             then Ok (if mode = Melee then MeleeReach else NormalRange, 0)
             else if (case long of None \<Rightarrow> False | Some l \<Rightarrow> distance \<le> l)
             then Ok (LongRange, 1)
             else Err (InvalidIntent (WeaponFault OutOfWeaponRange)))
            (\<lambda>(band, sources).
              Ok \<lparr>rg_band = band,
                  rg_disadvantage_sources =
                    (if mode = Ranged \<and> threatened then saturating_add u8_max sources 1
                     else sources)\<rparr>))"

section \<open>Trusted checks\<close>

datatype check_difficulty = VeryEasy | Easy | Moderate | Hard | VeryHard | NearlyImpossible

fun baseline_dc :: "check_difficulty \<Rightarrow> u16" where
  "baseline_dc VeryEasy = 5"
| "baseline_dc Easy = 10"
| "baseline_dc Moderate = 15"
| "baseline_dc Hard = 20"
| "baseline_dc VeryHard = 25"
| "baseline_dc NearlyImpossible = 30"

datatype high_stakes_kind =
    NoStakes | DeathStakes | PermanentLoss | IrreversibleStoryCommitment
  | ConsentSensitiveInspiration | NonRenewableResource

definition requires_confirmation :: "high_stakes_kind \<Rightarrow> bool" where
  "requires_confirmation k \<longleftrightarrow> k \<noteq> NoStakes"

record trusted_difficulty =
  td_band :: check_difficulty
  td_difficulty_class :: u8
  td_stakes :: high_stakes_kind
  td_player_confirmed :: bool

definition map_trusted_difficulty ::
  "check_difficulty \<Rightarrow> high_stakes_kind \<Rightarrow> bool \<Rightarrow> trusted_difficulty rules_result" where
  "map_trusted_difficulty band stakes confirmed =
     (if requires_confirmation stakes \<and> \<not> confirmed
      then Err (InvalidIntent (D20Fault HighStakesUnconfirmed))
      else Ok \<lparr>td_band = band, td_difficulty_class = baseline_dc band, td_stakes = stakes,
               td_player_confirmed = confirmed\<rparr>)"

record trusted_check_request =
  tq_schema_version :: u16
  tq_ability :: ability
  tq_skill :: "skill_id option"
  tq_proficiency :: proficiency
  tq_difficulty :: check_difficulty
  tq_stakes :: high_stakes_kind
  tq_player_confirmed :: bool
  tq_roll_context :: roll_context
  tq_situational_modifiers :: "situational_modifier list"

record trusted_check_resolution =
  tc_difficulty :: trusted_difficulty
  tc_result :: d20_test_resolution

definition trusted_check_validate :: "trusted_check_resolution \<Rightarrow> unit rules_result" where
  "trusted_check_validate t =
     (let d = tc_difficulty t; r = tc_result t in
      and_then (map_trusted_difficulty (td_band d) (td_stakes d) (td_player_confirmed d))
        (\<lambda>expected.
      if d \<noteq> expected \<or> dr_schema_version r \<noteq> rules_matrix_schema_version
        \<or> dr_target_number r \<noteq> td_difficulty_class d \<or> dr_cover_bonus r \<noteq> 0
        \<or> dr_outcome r \<notin> {TestSuccess, TestFailure}
        \<or> \<not> (-5 \<le> dr_ability_modifier r \<and> dr_ability_modifier r \<le> 10)
        \<or> \<not> attainable_proficiency (dr_proficiency_modifier r)
      then Err (InvalidState (D20Fault TrustedCheckInconsistent))
      else and_then (lift_core (d20_validate (dr_roll r))) (\<lambda>_.
           and_then (validate_modifiers (dr_situational_modifiers r)) (\<lambda>_.
           and_then (sum_modifiers (dr_situational_modifiers r)) (\<lambda>situational.
           and_then (add_parts (d20_selected (dr_roll r)) (dr_ability_modifier r)
                      (dr_proficiency_modifier r) situational) (\<lambda>total.
           if dr_situational_total r \<noteq> situational \<or> dr_total r \<noteq> total
             \<or> dr_outcome r \<noteq> (if int (dr_target_number r) \<le> total then TestSuccess else TestFailure)
           then Err (InvalidState (D20Fault TrustedTotalsInconsistent))
           else Ok ()))))))"

definition resolve_trusted_check ::
  "'s dice \<Rightarrow> ability_scores \<Rightarrow> level \<Rightarrow> trusted_check_request \<Rightarrow> 's
    \<Rightarrow> trusted_check_resolution rules_result \<times> 's" where
  "resolve_trusted_check roll scores level q s =
     (if tq_schema_version q \<noteq> rules_matrix_schema_version
      then (Err (InvalidIntent (D20Fault TrustedCheckSchema)), s)
      else if (case tq_skill q of None \<Rightarrow> False | Some k \<Rightarrow> skill_ability k \<noteq> tq_ability q)
      then (Err (InvalidIntent (D20Fault SkillAbilityMismatch)), s)
      else and_then_st
        (map_trusted_difficulty (tq_difficulty q) (tq_stakes q) (tq_player_confirmed q), s)
        (\<lambda>d s.
      and_then_st
        (resolve_d20_test roll scores level
          \<lparr>dq_schema_version = rules_matrix_schema_version, dq_ability = tq_ability q,
           dq_proficiency = tq_proficiency q, dq_roll_context = tq_roll_context q,
           dq_situational_modifiers = tq_situational_modifiers q,
           dq_target = CheckTarget (td_difficulty_class d)\<rparr> s)
        (\<lambda>r s. (Ok \<lparr>tc_difficulty = d, tc_result = r\<rparr>, s))))"

definition passive_skill_value :: "derived_hero_sheet \<Rightarrow> skill_id \<Rightarrow> i8 \<Rightarrow> i16 rules_result" where
  "passive_skill_value sheet skill situational =
     (if \<not> (-30 \<le> situational \<and> situational \<le> 30)
      then Err (InvalidIntent (D20Fault PassiveModifierRange))
      else and_then
        (ok_or (find (\<lambda>k. sk_skill k = skill) (sh_skills sheet))
          (InvalidState (D20Fault SkillSummaryMissing)))
        (\<lambda>k. Ok (10 + sk_modifier k + situational)))"

section \<open>Modifiers cannot overflow\<close>

definition modifiers_ok :: "situational_modifier list \<Rightarrow> bool" where
  "modifiers_ok ms \<longleftrightarrow>
     length ms \<le> max_situational_modifiers \<and>
     list_all (\<lambda>m. is_valid_opaque_id (sm_source_id m) \<and> -30 \<le> sm_value m \<and> sm_value m \<le> 30) ms \<and>
     distinct (map sm_source_id ms)"

lemma scan_modifiers_Ok_iff:
  "scan_modifiers ids ms = Ok () \<longleftrightarrow>
     list_all (\<lambda>m. is_valid_opaque_id (sm_source_id m) \<and> -30 \<le> sm_value m \<and> sm_value m \<le> 30) ms \<and>
     distinct (map sm_source_id ms) \<and> (\<forall>m\<in>set ms. sm_source_id m \<notin> ids)"
  by (induction ms arbitrary: ids) (auto simp: image_iff)

lemma validate_modifiers_iff [simp]: "validate_modifiers ms = Ok u \<longleftrightarrow> modifiers_ok ms"
  by (auto simp: validate_modifiers_def modifiers_ok_def scan_modifiers_Ok_iff)

lemma sum_list_bound:
  assumes "list_all (\<lambda>m. -30 \<le> sm_value m \<and> sm_value m \<le> 30) ms"
  shows "\<bar>sum_list (map sm_value ms)\<bar> \<le> 30 * int (length ms)"
  using assms by (induction ms) auto

lemma try_fold_sum:
  assumes "list_all (\<lambda>m. -30 \<le> sm_value m \<and> sm_value m \<le> 30) ms"
    and "\<bar>a\<bar> + 30 * int (length ms) \<le> 32767"
  shows "try_fold (\<lambda>sum m. ok_or (checked_add_i16 sum (sm_value m)) ArithmeticOverflow) a ms =
    Ok (a + sum_list (map sm_value ms))"
  using assms
proof (induction ms arbitrary: a)
  case Nil
  show ?case by simp
next
  case (Cons m ms)
  then have "checked_add_i16 a (sm_value m) = Some (a + sm_value m)"
    "\<bar>a + sm_value m\<bar> + 30 * int (length ms) \<le> 32767"
    by (auto simp: checked_add_i16_def)
  with Cons show ?case by simp
qed

lemma modifiers_sum:
  assumes "modifiers_ok ms"
  shows "sum_modifiers ms = Ok (sum_list (map sm_value ms))"
    "\<bar>sum_list (map sm_value ms)\<bar> \<le> 480"
proof -
  have b: "list_all (\<lambda>m. -30 \<le> sm_value m \<and> sm_value m \<le> 30) ms" "length ms \<le> 16"
    using assms by (auto simp: modifiers_ok_def list_all_iff max_situational_modifiers_def)
  from try_fold_sum [OF b(1), of 0] b(2)
  show "sum_modifiers ms = Ok (sum_list (map sm_value ms))"
    by (simp add: sum_modifiers_def)
  from sum_list_bound [OF b(1)] b(2) show "\<bar>sum_list (map sm_value ms)\<bar> \<le> 480" by linarith
qed

lemma add_parts_exact:
  assumes "selected \<le> 255" "-5 \<le> am" "am \<le> 10" "pm \<le> 255" "\<bar>t\<bar> \<le> 480"
  shows "add_parts selected am pm t = Ok (int selected + am + int pm + t)"
proof -
  have "int selected \<le> 255" "int pm \<le> 255" using assms(1,4) by simp_all
  moreover have "0 \<le> int selected" "0 \<le> int pm" by simp_all
  moreover have "-480 \<le> t" "t \<le> 480" using assms(5) by simp_all
  ultimately show ?thesis using assms(2,3) by (simp add: add_parts_def checked_add_i16_def)
qed

definition d20_request_ok :: "d20_test_request \<Rightarrow> bool" where
  "d20_request_ok q \<longleftrightarrow>
     dq_schema_version q = rules_matrix_schema_version \<and>
     modifiers_ok (dq_situational_modifiers q) \<and>
     0 < target_base (dq_target q) \<and> target_base (dq_target q) \<le> 60"

lemma d20_request_validate_iff [simp]: "d20_request_validate q = Ok u \<longleftrightarrow> d20_request_ok q"
  by (auto simp: d20_request_validate_def d20_request_ok_def Let_def)

lemma d20_request_validate_result [simp]: "d20_request_ok q \<Longrightarrow> d20_request_validate q = Ok ()"
  by simp

lemma require_supported_level_result [simp]:
  "level_value l = 1 \<or> level_value l = 2 \<Longrightarrow> require_supported_level l = Ok ()"
  by simp

lemma supported_level_bonus: "level_value l = 1 \<or> level_value l = 2 \<Longrightarrow> proficiency_bonus l = 2"
  by (auto simp: proficiency_bonus_def)

lemma supported_level_ok: "level_value l = 1 \<or> level_value l = 2 \<Longrightarrow> level_ok l"
  by (auto simp: level_ok_def)

lemma prof_bonus_supported: "level_value l = 1 \<or> level_value l = 2 \<Longrightarrow> prof_bonus p (proficiency_bonus l) \<le> 4"
  by (cases p) (auto simp: supported_level_bonus prof_bonus_def)

lemma target_cover_le: "target_cover a t \<le> 5"
proof -
  have "cover_ac_bonus c \<le> 5" for c by (cases c) simp_all
  then show ?thesis by (cases t) simp_all
qed

definition exact_total :: "ability_scores \<Rightarrow> level \<Rightarrow> d20_test_request \<Rightarrow> d20_roll \<Rightarrow> int" where
  "exact_total scores l q r =
     int (d20_selected r) + score_modifier (scores_get scores (dq_ability q)) +
     int (prof_bonus (dq_proficiency q) (proficiency_bonus l)) +
     sum_list (map sm_value (dq_situational_modifiers q))"

lemma finish_d20_test_eq:
  assumes "d20_request_ok q" "scores_validate scores = Ok ()"
    "level_value l = 1 \<or> level_value l = 2" "d20_selected r \<le> 20"
  shows "finish_d20_test scores l q r =
    Ok \<lparr>dr_schema_version = rules_matrix_schema_version, dr_roll = r,
        dr_ability = dq_ability q,
        dr_ability_modifier = score_modifier (scores_get scores (dq_ability q)),
        dr_proficiency_modifier = prof_bonus (dq_proficiency q) (proficiency_bonus l),
        dr_situational_modifiers = dq_situational_modifiers q,
        dr_situational_total = sum_list (map sm_value (dq_situational_modifiers q)),
        dr_total = exact_total scores l q r,
        dr_target_number = target_base (dq_target q) + target_cover (dq_ability q) (dq_target q),
        dr_cover_bonus = target_cover (dq_ability q) (dq_target q),
        dr_outcome = test_outcome (dq_target q) (d20_selected r) (exact_total scores l q r)
          (target_base (dq_target q) + target_cover (dq_ability q) (dq_target q))\<rparr>"
proof -
  note m = modifiers_sum [of "dq_situational_modifiers q"]
  have ok: "modifiers_ok (dq_situational_modifiers q)" "target_base (dq_target q) \<le> 60"
    using assms(1) by (auto simp: d20_request_ok_def)
  have sc: "-5 \<le> score_modifier (scores_get scores (dq_ability q))"
    "score_modifier (scores_get scores (dq_ability q)) \<le> 10"
    using assms(2) score_modifier_bounds by (auto simp: scores_validate_iff)
  have a: "add_parts (d20_selected r) (score_modifier (scores_get scores (dq_ability q)))
      (prof_bonus (dq_proficiency q) (proficiency_bonus l))
      (sum_list (map sm_value (dq_situational_modifiers q))) = Ok (exact_total scores l q r)"
    using assms(4) sc prof_bonus_supported [OF assms(3), of "dq_proficiency q"] m(2) [OF ok(1)]
    by (simp add: add_parts_exact exact_total_def)
  have c: "checked_add u8_max (target_base (dq_target q)) (target_cover (dq_ability q) (dq_target q)) =
      Some (target_base (dq_target q) + target_cover (dq_ability q) (dq_target q))"
    using ok(2) target_cover_le [of "dq_ability q" "dq_target q"] by (simp add: u8_max_def)
  show ?thesis
    by (simp add: finish_d20_test_def Let_def m(1) [OF ok(1)] a c ok_or_def)
qed

text \<open>A well-formed request on a supported hero fails only when the dice do.\<close>

lemma resolve_d20_test_eq:
  assumes "d20_request_ok q" "scores_validate scores = Ok ()"
    "level_value l = 1 \<or> level_value l = 2"
  shows "resolve_d20_test roll scores l q s =
    (case resolve_d20 roll (dq_roll_context q) s of
       (Err e, s') \<Rightarrow> (Err (CoreError e), s')
     | (Ok r, s') \<Rightarrow> (finish_d20_test scores l q r, s'))"
  using assms by (simp add: resolve_d20_test_def lift_core_def split: prod.splits result.splits)

lemma resolve_d20_test_OkD:
  assumes "resolve_d20_test roll scores l q s = (Ok t, s')"
  shows "d20_request_ok q" "scores_validate scores = Ok ()"
    "level_value l = 1 \<or> level_value l = 2"
    "resolve_d20 roll (dq_roll_context q) s = (Ok (dr_roll t), s')"
    "finish_d20_test scores l q (dr_roll t) = Ok t"
proof -
  have q: "d20_request_ok q \<and> scores_validate scores = Ok () \<and>
      (level_value l = 1 \<or> level_value l = 2)"
    using assms by (auto simp: resolve_d20_test_def)
  then obtain r where r: "resolve_d20 roll (dq_roll_context q) s = (Ok r, s')"
    "finish_d20_test scores l q r = Ok t"
    using assms by (auto simp: resolve_d20_test_eq split: prod.splits result.splits)
  then have "dr_roll t = r"
    using q resolve_d20_Ok(4) [OF r(1)] by (auto simp: finish_d20_test_eq)
  with q r show "d20_request_ok q" "scores_validate scores = Ok ()"
    "level_value l = 1 \<or> level_value l = 2"
    "resolve_d20 roll (dq_roll_context q) s = (Ok (dr_roll t), s')"
    "finish_d20_test scores l q (dr_roll t) = Ok t"
    by auto
qed

section \<open>Conditioned tests\<close>

lemma conditioned_automatic_failure:
  assumes "dq_target q = SaveTarget dc c" "dq_ability q \<in> {Strength, Dexterity}"
    "condition_set_ok cs" "cs_contains cs Unconscious"
  shows "resolve_conditioned_d20_test roll scores l q cs (SavingThrow (dq_ability q)) s =
    (Ok (AutomaticSaveFailure (dq_ability q) dc), s)"
proof -
  obtain e where e: "condition_effects_of cs (SavingThrow (dq_ability q)) = Ok e"
    using condition_effects_total [OF assms(3)] by (auto simp: is_ok_iff)
  from condition_effects_flags(1) [OF e] assms have "ce_automatic_save_failure e" by auto
  with assms e show ?thesis by (simp add: resolve_conditioned_d20_test_def)
qed

text \<open>The branch for an automatic failure outside a saving throw is unreachable.\<close>

lemma automatic_failure_is_save:
  assumes "condition_effects_of cs st = Ok e" "situation_matches a t st"
    "ce_automatic_save_failure e"
  shows "\<exists>dc c. t = SaveTarget dc c"
  using assms condition_effects_flags(1) [OF assms(1)] by (cases t; cases st) auto

text \<open>Conditions enter a roll through the number of their sources only.\<close>

lemma conditioned_rolled:
  assumes "situation_matches (dq_ability q) (dq_target q) st"
    "condition_effects_of cs st = Ok e" "\<not> ce_automatic_save_failure e"
    "\<not> (ce_actions_blocked e \<and> is_attack_target (dq_target q))"
  shows "resolve_conditioned_d20_test roll scores l q cs st s =
    and_then_st (resolve_d20_test roll scores l
      (q\<lparr>dq_roll_context := combine_roll_context (dq_roll_context q) (ce_roll_context e)\<rparr>) s)
      (\<lambda>r s. (Ok (Rolled r), s))"
  using assms by (auto simp: resolve_conditioned_d20_test_def)

section \<open>Trusted checks are self-consistent\<close>

lemma map_trusted_difficulty_Ok:
  "map_trusted_difficulty b k c = Ok d \<longleftrightarrow>
     (requires_confirmation k \<longrightarrow> c) \<and>
     d = \<lparr>td_band = b, td_difficulty_class = baseline_dc b, td_stakes = k, td_player_confirmed = c\<rparr>"
  by (auto simp: map_trusted_difficulty_def)

lemma baseline_dc_bounds: "5 \<le> baseline_dc b \<and> baseline_dc b \<le> 30"
  by (cases b) simp_all

lemma trusted_check_self_consistent:
  assumes "resolve_trusted_check roll scores l q s = (Ok t, s')"
  shows "trusted_check_validate t = Ok ()"
proof -
  obtain d r where d: "map_trusted_difficulty (tq_difficulty q) (tq_stakes q) (tq_player_confirmed q) = Ok d"
    and t: "t = \<lparr>tc_difficulty = d, tc_result = r\<rparr>"
    and r: "resolve_d20_test roll scores l
          \<lparr>dq_schema_version = rules_matrix_schema_version, dq_ability = tq_ability q,
           dq_proficiency = tq_proficiency q, dq_roll_context = tq_roll_context q,
           dq_situational_modifiers = tq_situational_modifiers q,
           dq_target = CheckTarget (td_difficulty_class d)\<rparr> s = (Ok r, s')"
    using assms by (auto simp: resolve_trusted_check_def split: if_splits)
  define r0 where "r0 = dr_roll r"
  let ?tot = "int (d20_selected r0) + score_modifier (scores_get scores (tq_ability q)) +
          int (prof_bonus (tq_proficiency q) (proficiency_bonus l)) +
          sum_list (map sm_value (tq_situational_modifiers q))"
  note R = resolve_d20_test_OkD [OF r]
  note V = resolve_d20_Ok [OF R(4)]
  have fin: "r = \<lparr>dr_schema_version = rules_matrix_schema_version, dr_roll = r0,
        dr_ability = tq_ability q,
        dr_ability_modifier = score_modifier (scores_get scores (tq_ability q)),
        dr_proficiency_modifier = prof_bonus (tq_proficiency q) (proficiency_bonus l),
        dr_situational_modifiers = tq_situational_modifiers q,
        dr_situational_total = sum_list (map sm_value (tq_situational_modifiers q)),
        dr_total = ?tot, dr_target_number = td_difficulty_class d, dr_cover_bonus = 0,
        dr_outcome = (if int (td_difficulty_class d) \<le> ?tot then TestSuccess else TestFailure)\<rparr>"
    using R(5) finish_d20_test_eq [OF R(1,2,3) V(4)]
    by (simp add: exact_total_def test_outcome_def r0_def)
  have m: "modifiers_ok (tq_situational_modifiers q)"
    using R(1) by (simp add: d20_request_ok_def)
  have sc: "-5 \<le> score_modifier (scores_get scores (tq_ability q))"
    "score_modifier (scores_get scores (tq_ability q)) \<le> 10"
    using R(2) score_modifier_bounds by (auto simp: scores_validate_iff)
  have a: "add_parts (d20_selected r0) (score_modifier (scores_get scores (tq_ability q)))
      (prof_bonus (tq_proficiency q) (proficiency_bonus l))
      (sum_list (map sm_value (tq_situational_modifiers q))) = Ok ?tot"
    using V(4) sc prof_bonus_supported [OF R(3), of "tq_proficiency q"] modifiers_sum(2) [OF m]
    by (simp add: add_parts_exact r0_def)
  have p: "attainable_proficiency (prof_bonus (tq_proficiency q) (proficiency_bonus l))"
    using R(3) by (simp add: prof_bonus_attainable supported_level_ok)
  show ?thesis
    using d V(1) m sc p a
    by (auto simp: t fin trusted_check_validate_def map_trusted_difficulty_Ok modifiers_sum(1)
        lift_core_def Let_def r0_def [symmetric])
qed

section \<open>Properties\<close>

lemma finish_d20_test_fields:
  assumes "finish_d20_test scores l q r = Ok t" "d20_request_ok q" "scores_validate scores = Ok ()"
    "level_value l = 1 \<or> level_value l = 2" "d20_selected r \<le> 20"
  shows "dr_roll t = r" "dr_total t = exact_total scores l q r"
    "dr_target_number t = target_base (dq_target q) + target_cover (dq_ability q) (dq_target q)"
    "dr_outcome t = test_outcome (dq_target q) (d20_selected r) (dr_total t) (dr_target_number t)"
  using assms(1) finish_d20_test_eq [OF assms(2-5)] by auto

lemma resolve_d20_test_total:
  assumes "d20_request_ok q" "scores_validate scores = Ok ()" "level_value l = 1 \<or> level_value l = 2"
    and "resolve_d20 roll (dq_roll_context q) s = (Ok r, s')"
  shows "\<exists>t. resolve_d20_test roll scores l q s = (Ok t, s') \<and> dr_roll t = r"
  using assms(4) finish_d20_test_eq [OF assms(1-3) resolve_d20_Ok(4) [OF assms(4)]]
  by (simp add: resolve_d20_test_eq [OF assms(1-3)])

text \<open>C32: A well-formed test of a supported hero is decided by the dice alone and without overflow:
  it fails only with the dice source's own error, and otherwise the total is exactly the selected die
  plus ability modifier, proficiency and situational modifiers, an attack hits on a natural 20 or on
  any other roll but a natural 1 that reaches armor class plus cover, and a check or save succeeds when
  its total reaches the target number.\<close>

theorem d20_test_decides:
  assumes "d20_request_validate q = Ok ()" "scores_validate scores = Ok ()"
    and "level_value l = 1 \<or> level_value l = 2"
  shows "case resolve_d20_test roll scores l q s of
      (Err e, s') \<Rightarrow> \<exists>x. e = CoreError x \<and> resolve_d20 roll (dq_roll_context q) s = (Err x, s')
    | (Ok t, s') \<Rightarrow>
        resolve_d20 roll (dq_roll_context q) s = (Ok (dr_roll t), s') \<and>
        dr_total t = exact_total scores l q (dr_roll t) \<and>
        dr_target_number t = target_base (dq_target q) + target_cover (dq_ability q) (dq_target q) \<and>
        (outcome_succeeds (dr_outcome t) \<longleftrightarrow>
           (if is_attack_target (dq_target q) \<and> d20_selected (dr_roll t) = 20 then True
            else if is_attack_target (dq_target q) \<and> d20_selected (dr_roll t) = 1 then False
            else int (dr_target_number t) \<le> dr_total t)) \<and>
        (dr_outcome t = TestCriticalHit \<longleftrightarrow>
           is_attack_target (dq_target q) \<and> d20_selected (dr_roll t) = 20)"
proof -
  have q: "d20_request_ok q" using assms(1) by simp
  obtain x s' where p: "resolve_d20_test roll scores l q s = (x, s')"
    by (cases "resolve_d20_test roll scores l q s")
  show ?thesis
  proof (cases x)
    case (Err e)
    obtain y s1 where d: "resolve_d20 roll (dq_roll_context q) s = (y, s1)"
      by (cases "resolve_d20 roll (dq_roll_context q) s")
    with p Err resolve_d20_test_eq [OF q assms(2,3), of roll s]
      resolve_d20_test_total [OF q assms(2,3), of roll s _ s1]
    show ?thesis by (cases y) auto
  next
    case (Ok t)
    note D = resolve_d20_test_OkD [OF p [unfolded Ok]]
    note F = finish_d20_test_fields [OF D(5) q assms(2,3) resolve_d20_Ok(4) [OF D(4)]]
    show ?thesis
      using D(4) F(2-4) by (simp add: p Ok test_outcome_def)
  qed
qed

definition adept_scores :: ability_scores where
  "adept_scores =
     \<lparr>as_strength = AbilityScore 16, as_dexterity = AbilityScore 14, as_constitution = AbilityScore 12,
      as_intelligence = AbilityScore 10, as_wisdom = AbilityScore 8, as_charisma = AbilityScore 6\<rparr>"

definition covered_save :: "cover \<Rightarrow> d20_test_request" where
  "covered_save c =
     \<lparr>dq_schema_version = rules_matrix_schema_version, dq_ability = Dexterity,
      dq_proficiency = Proficient, dq_roll_context = \<lparr>advantage_sources = 2, disadvantage_sources = 1\<rparr>,
      dq_situational_modifiers = [\<lparr>sm_source_id = ''covering-fire'', sm_value = 1\<rparr>],
      dq_target = SaveTarget 15 c\<rparr>"

lemma covered_save_ok: "d20_request_validate (covered_save c) = Ok ()"
  by (rule d20_request_validate_result)
    (simp add: covered_save_def d20_request_ok_def modifiers_ok_def is_valid_opaque_id_def
      max_opaque_id_len_def ascii_alphanumeric_def ascii_digit_def byte_def
      max_situational_modifiers_def)

lemma adept_scores_ok: "scores_validate adept_scores = Ok ()"
  by (simp add: scores_validate_def ability_all_def adept_scores_def score_new_def)

definition shows_ten :: "unit dice" where
  "shows_ten sides d = (10, d)"

theorem d20_test_decides_witness:
  "\<exists>t. resolve_d20_test shows_ten adept_scores (Level 1) (covered_save NoCover) () = (Ok t, ()) \<and>
     dr_total t = 15 \<and> outcome_succeeds (dr_outcome t)"
proof -
  have l: "level_value (Level 1) = 1 \<or> level_value (Level 1) = 2" by simp
  have r: "resolve_d20 shows_ten (dq_roll_context (covered_save NoCover)) () =
      (Ok \<lparr>d20_mode = NormalRoll, d20_first = 10, d20_second = None, d20_selected = 10\<rparr>, ())"
    by code_simp
  have q: "d20_request_ok (covered_save NoCover)" using covered_save_ok by simp
  from resolve_d20_test_total [OF q adept_scores_ok l r] obtain t where
    t: "resolve_d20_test shows_ten adept_scores (Level 1) (covered_save NoCover) () = (Ok t, ())"
    by blast
  have "exact_total adept_scores (Level 1) (covered_save NoCover)
      \<lparr>d20_mode = NormalRoll, d20_first = 10, d20_second = None, d20_selected = 10\<rparr> = 15"
    by code_simp
  with d20_test_decides [OF covered_save_ok [of NoCover] adept_scores_ok l, of shows_ten "()"] t r
  show ?thesis by (auto simp: covered_save_def)
qed

text \<open>C38: Cover works against the creature behind it on Dexterity saves: the bonus that
  \<open>dexterity_save_bonus\<close> names is added to the number the save has to reach, not to the save, so the
  same total that saves in the open fails in cover.\<close>

theorem cover_hinders_dexterity_saves:
  assumes "resolve_d20_test roll scores l q s = (Ok t, s')"
    and "dq_target q = SaveTarget dc c" "dq_ability q = Dexterity"
  shows "dr_total t = exact_total scores l q (dr_roll t) \<and>
    (outcome_succeeds (dr_outcome t) \<longleftrightarrow> int dc + int (cover_ac_bonus c) \<le> dr_total t)"
proof -
  note D = resolve_d20_test_OkD [OF assms(1)]
  from finish_d20_test_fields(2-4) [OF D(5,1-3) resolve_d20_Ok(4) [OF D(4)]] assms(2,3)
  show ?thesis by (simp add: test_outcome_def)
qed

theorem cover_hinders_dexterity_saves_witness:
  "\<exists>t t'. resolve_d20_test shows_ten adept_scores (Level 1) (covered_save NoCover) () = (Ok t, ()) \<and>
     resolve_d20_test shows_ten adept_scores (Level 1) (covered_save HalfCover) () = (Ok t', ()) \<and>
     dr_total t = 15 \<and> dr_total t' = 15 \<and>
     outcome_succeeds (dr_outcome t) \<and> \<not> outcome_succeeds (dr_outcome t')"
proof -
  have l: "level_value (Level 1) = 1 \<or> level_value (Level 1) = 2" by simp
  have run: "\<exists>t. resolve_d20_test shows_ten adept_scores (Level 1) (covered_save c) () = (Ok t, ()) \<and>
      dr_total t = 15" for c
  proof -
    let ?r = "\<lparr>d20_mode = NormalRoll, d20_first = 10, d20_second = None, d20_selected = 10\<rparr>"
    have r: "resolve_d20 shows_ten (dq_roll_context (covered_save c)) () = (Ok ?r, ())"
      by (simp add: covered_save_def) code_simp
    have q: "d20_request_ok (covered_save c)" using covered_save_ok by simp
    have "exact_total adept_scores (Level 1) (covered_save c) ?r = 15"
      by (simp add: covered_save_def exact_total_def) code_simp
    with resolve_d20_test_total [OF q adept_scores_ok l r]
      finish_d20_test_fields(2) [OF resolve_d20_test_OkD(5) q adept_scores_ok l]
    show ?thesis by (metis order.refl resolve_d20_Ok(4) resolve_d20_test_OkD(4))
  qed
  obtain t t' where
    t: "resolve_d20_test shows_ten adept_scores (Level 1) (covered_save NoCover) () = (Ok t, ())"
      "dr_total t = 15" and
    t': "resolve_d20_test shows_ten adept_scores (Level 1) (covered_save HalfCover) () = (Ok t', ())"
      "dr_total t' = 15"
    using run by blast
  have c: "dq_target (covered_save x) = SaveTarget 15 x" "dq_ability (covered_save x) = Dexterity" for x
    by (simp_all add: covered_save_def)
  from cover_hinders_dexterity_saves [OF t(1) c] cover_hinders_dexterity_saves [OF t'(1) c] t t'
  show ?thesis by auto
qed

text \<open>Whatever \<open>resolve_trusted_check\<close> returns passes \<open>TrustedCheckResolution::validate\<close>: the
  difficulty is the one its band prescribes, confirmed where the stakes ask for it, and every total can
  be recomputed from the recorded parts.\<close>

theorem trusted_checks_validate:
  assumes "resolve_trusted_check roll scores l q s = (Ok t, s')"
  shows "trusted_check_validate t = Ok () \<and>
    td_difficulty_class (tc_difficulty t) = baseline_dc (tq_difficulty q) \<and>
    (requires_confirmation (tq_stakes q) \<longrightarrow> tq_player_confirmed q)"
  using trusted_check_self_consistent [OF assms] assms
  by (auto simp: resolve_trusted_check_def map_trusted_difficulty_Ok split: if_splits option.splits)

definition climb_check :: trusted_check_request where
  "climb_check =
     \<lparr>tq_schema_version = rules_matrix_schema_version, tq_ability = Strength, tq_skill = Some Athletics,
      tq_proficiency = Proficient, tq_difficulty = Moderate, tq_stakes = NoStakes,
      tq_player_confirmed = False, tq_roll_context = rc_normal, tq_situational_modifiers = []\<rparr>"

theorem trusted_checks_validate_witness:
  "\<exists>t. resolve_trusted_check shows_ten adept_scores (Level 2) climb_check () = (Ok t, ()) \<and>
     trusted_check_validate t = Ok () \<and> td_difficulty_class (tc_difficulty t) = 15"
proof -
  obtain t where "resolve_trusted_check shows_ten adept_scores (Level 2) climb_check () = (Ok t, ())"
    by atomize_elim
      (simp add: resolve_trusted_check_def climb_check_def map_trusted_difficulty_def
        resolve_d20_test_eq d20_request_ok_def modifiers_ok_def adept_scores_ok
        resolve_d20_def roll_validated_def shows_ten_def rc_normal_def effective_mode_def
        finish_d20_test_eq requires_confirmation_def)
  from trusted_checks_validate [OF this] this show ?thesis by (auto simp: climb_check_def)
qed

end
