(* ===== verification/Health.thy ===== *)
theory Health
  imports Conditions
begin

text \<open>
  Hit points of \<open>rules_matrix.rs\<close>: damage interactions, damage, healing, temporary hit points,
  death saves, stabilising, defeat recovery, and the condition changes these emit.
\<close>

section \<open>Damage interactions\<close>

record damage_profile =
  dp_resistances :: "damage_type list"
  dp_vulnerabilities :: "damage_type list"
  dp_immunities :: "damage_type list"

definition profile_validate :: "damage_profile \<Rightarrow> unit rules_result" where
  "profile_validate p =
     (if \<not> list_all strictly_sorted [dp_resistances p, dp_vulnerabilities p, dp_immunities p]
      then Err (InvalidState (HealthFault InteractionListsUnsorted))
      else if list_ex (\<lambda>k. k \<in> set (dp_resistances p) \<or> k \<in> set (dp_vulnerabilities p))
                (dp_immunities p)
      then Err (InvalidState (HealthFault ImmunityOverlap))
      else Ok ())"

definition profile_interaction :: "damage_profile \<Rightarrow> damage_type \<Rightarrow> damage_interaction rules_result" where
  "profile_interaction p t =
     and_then (profile_validate p) (\<lambda>_.
       Ok (if t \<in> set (dp_immunities p) then Immunity
           else case (t \<in> set (dp_resistances p), t \<in> set (dp_vulnerabilities p)) of
             (True, False) \<Rightarrow> Resistance
           | (False, True) \<Rightarrow> Vulnerability
           | _ \<Rightarrow> NormalDamage))"

fun interacted_damage :: "u16 \<Rightarrow> damage_interaction \<Rightarrow> u16 rules_result" where
  "interacted_damage n NormalDamage = Ok n"
| "interacted_damage n Resistance = Ok (n div 2)"
| "interacted_damage n Vulnerability = ok_or (checked_mul u16_max n 2) ArithmeticOverflow"
| "interacted_damage n Immunity = Ok 0"

section \<open>Health\<close>

record death_save_tally =
  ds_successes :: u8
  ds_failures :: u8

definition tally_default :: death_save_tally where
  "tally_default = \<lparr>ds_successes = 0, ds_failures = 0\<rparr>"

datatype vital_status = Active | Dying | Stable | Dead

record health_state =
  hs_schema_version :: u16
  hs_maximum :: u16
  hs_current :: u16
  hs_temporary :: u16
  hs_vital_status :: vital_status
  hs_death_saves :: death_save_tally

definition health_new :: "u16 \<Rightarrow> health_state rules_result" where
  "health_new maximum =
     (if maximum = 0 then Err (InvalidState (HealthFault MaximumMustBePositive))
      else Ok \<lparr>hs_schema_version = rules_matrix_schema_version, hs_maximum = maximum,
               hs_current = maximum, hs_temporary = 0, hs_vital_status = Active,
               hs_death_saves = tally_default\<rparr>)"

definition health_validate :: "health_state \<Rightarrow> unit rules_result" where
  "health_validate h =
     (if hs_schema_version h \<noteq> rules_matrix_schema_version \<or> hs_maximum h = 0
        \<or> hs_current h > hs_maximum h
        \<or> ds_successes (hs_death_saves h) > 3 \<or> ds_failures (hs_death_saves h) > 3
      then Err (InvalidState (HealthFault HealthBounds))
      else case hs_vital_status h of
        Active \<Rightarrow>
          if hs_current h = 0 \<or> hs_death_saves h \<noteq> tally_default
          then Err (InvalidState (HealthFault ActiveHealthShape)) else Ok ()
      | Dying \<Rightarrow>
          if hs_current h \<noteq> 0 \<or> ds_successes (hs_death_saves h) \<ge> 3
            \<or> ds_failures (hs_death_saves h) \<ge> 3
          then Err (InvalidState (HealthFault DyingHealthShape)) else Ok ()
      | Stable \<Rightarrow>
          if hs_current h \<noteq> 0 \<or> ds_successes (hs_death_saves h) \<noteq> 3
            \<or> ds_failures (hs_death_saves h) \<ge> 3
          then Err (InvalidState (HealthFault StableHealthShape)) else Ok ()
      | Dead \<Rightarrow>
          if hs_current h \<noteq> 0 \<or> ds_failures (hs_death_saves h) \<noteq> 3
          then Err (InvalidState (HealthFault DeadHealthShape)) else Ok ())"

datatype health_condition_change =
    ApplyZeroHitPointUnconscious
  | ApplyProne
  | RemoveZeroHitPointConditions
  | WakeFromSleep

section \<open>Damage\<close>

record damage_request =
  dmg_amount :: u16
  dmg_type :: damage_type
  dmg_critical_hit :: bool

record damage_resolution =
  dres_requested_damage :: u16
  dres_interaction :: damage_interaction
  dres_effective_damage :: u16
  dres_temporary_hit_points_lost :: u16
  dres_current_hit_points_lost :: u16
  dres_excess_damage :: u16
  dres_death_save_failures_added :: u8
  dres_condition_changes :: "health_condition_change list"
  dres_resulting_health :: health_state

text \<open>The status part of \<open>apply_damage\<close>, on the state whose hit points are already reduced.\<close>

definition damage_status ::
  "u16 \<Rightarrow> u16 \<Rightarrow> u16 \<Rightarrow> bool \<Rightarrow> health_state
    \<Rightarrow> health_state \<times> health_condition_change list \<times> u8" where
  "damage_status current_before effective excess critical h =
     (if current_before > 0 \<and> hs_current h = 0 then
        if excess \<ge> hs_maximum h
        then (h\<lparr>hs_vital_status := Dead,
                hs_death_saves := \<lparr>ds_successes = 0, ds_failures = 3\<rparr>\<rparr>, [], 0)
        else (h\<lparr>hs_vital_status := Dying, hs_death_saves := tally_default\<rparr>,
              [ApplyZeroHitPointUnconscious, ApplyProne], 0)
      else if current_before = 0 \<and> effective > 0 then
        (let h = (if hs_vital_status h = Stable
                  then h\<lparr>hs_vital_status := Dying, hs_death_saves := tally_default\<rparr> else h)
         in if hs_vital_status h = Dying
            then (let added = (if critical then 2 else 1);
                      failures = min (saturating_add u8_max (ds_failures (hs_death_saves h)) added) 3;
                      h = h\<lparr>hs_death_saves := (hs_death_saves h)\<lparr>ds_failures := failures\<rparr>\<rparr>
                  in (if failures = 3 then h\<lparr>hs_vital_status := Dead\<rparr> else h, [], added))
            else (h, [], 0))
      else (h, [], 0))"

definition apply_damage ::
  "damage_profile \<Rightarrow> damage_request \<Rightarrow> health_state \<Rightarrow> damage_resolution rules_result \<times> health_state" where
  "apply_damage profile q h =
     and_then_st
       (and_then (health_validate h) (\<lambda>_. and_then (profile_validate profile) (\<lambda>_.
          if dmg_amount q = 0 then Err (InvalidIntent (HealthFault DamageMustBePositive))
          else if hs_vital_status h = Dead then Err (InvalidIntent (HealthFault DeadCannotBeDamaged))
          else and_then (profile_interaction profile (dmg_type q)) (\<lambda>i.
               and_then (interacted_damage (dmg_amount q) i) (\<lambda>e. Ok (i, e))))), h)
       (\<lambda>(interaction, effective) h.
         let temporary_lost = min (hs_temporary h) effective;
             remaining = effective - temporary_lost;
             current_before = hs_current h;
             current_lost = min current_before remaining;
             excess = remaining - current_lost;
             h1 = h\<lparr>hs_temporary := hs_temporary h - temporary_lost,
                    hs_current := hs_current h - current_lost\<rparr>;
             (h', changes, added) =
               damage_status current_before effective excess (dmg_critical_hit q) h1
         in (and_then (health_validate h') (\<lambda>_.
               Ok \<lparr>dres_requested_damage = dmg_amount q, dres_interaction = interaction,
                   dres_effective_damage = effective,
                   dres_temporary_hit_points_lost = temporary_lost,
                   dres_current_hit_points_lost = current_lost, dres_excess_damage = excess,
                   dres_death_save_failures_added = added,
                   dres_condition_changes =
                     (if effective > 0 then [WakeFromSleep] else []) @ changes,
                   dres_resulting_health = h'\<rparr>), h'))"

section \<open>Healing, temporary hit points, defeat recovery\<close>

record healing_resolution =
  hres_requested_healing :: u16
  hres_effective_healing :: u16
  hres_condition_changes :: "health_condition_change list"
  hres_resulting_health :: health_state

definition apply_healing :: "u16 \<Rightarrow> health_state \<Rightarrow> healing_resolution rules_result \<times> health_state" where
  "apply_healing amount h =
     and_then_st
       (and_then (health_validate h) (\<lambda>_.
          if amount = 0 then Err (InvalidIntent (HealthFault HealingMustBePositive))
          else if hs_vital_status h = Dead then Err (unsupported_error ''health.restore-dead'')
          else Ok ()), h)
       (\<lambda>_ h.
         let missing = hs_maximum h - hs_current h;
             effective = min missing amount;
             h1 = h\<lparr>hs_current := hs_current h + effective\<rparr>;
             (h', changes) =
               (if effective > 0 \<and> hs_vital_status h1 \<noteq> Active
                then (h1\<lparr>hs_vital_status := Active, hs_death_saves := tally_default\<rparr>,
                      [RemoveZeroHitPointConditions])
                else (h1, []))
         in (and_then (health_validate h') (\<lambda>_.
               Ok \<lparr>hres_requested_healing = amount, hres_effective_healing = effective,
                   hres_condition_changes = changes, hres_resulting_health = h'\<rparr>), h'))"

datatype lethality_policy = StoryRecovery | RulesAsWritten

record defeat_recovery_resolution =
  dfr_policy :: lethality_policy
  dfr_story_recovery_applied :: bool
  dfr_condition_changes :: "health_condition_change list"
  dfr_resulting_health :: health_state

definition apply_defeat_recovery ::
  "lethality_policy \<Rightarrow> health_state \<Rightarrow> defeat_recovery_resolution rules_result \<times> health_state" where
  "apply_defeat_recovery policy h =
     and_then_st (health_validate h, h) (\<lambda>_ h.
       let applied = (policy = StoryRecovery \<and> hs_vital_status h \<noteq> Active);
           h' = (if applied
                 then h\<lparr>hs_current := 1, hs_vital_status := Active, hs_death_saves := tally_default\<rparr>
                 else h)
       in (and_then (health_validate h') (\<lambda>_.
             Ok \<lparr>dfr_policy = policy, dfr_story_recovery_applied = applied,
                 dfr_condition_changes = (if applied then [RemoveZeroHitPointConditions] else []),
                 dfr_resulting_health = h'\<rparr>), h'))"

definition grant_temporary_hit_points :: "u16 \<Rightarrow> health_state \<Rightarrow> u16 rules_result \<times> health_state" where
  "grant_temporary_hit_points offered h =
     and_then_st
       (and_then (health_validate h) (\<lambda>_.
          if offered = 0 then Err (InvalidIntent (HealthFault TemporaryMustBePositive))
          else Ok ()), h)
       (\<lambda>_ h.
         let previous = hs_temporary h;
             h' = (if offered > previous then h\<lparr>hs_temporary := offered\<rparr> else h)
         in (Ok (hs_temporary h' - previous), h'))"

section \<open>Death saves\<close>

datatype death_save_outcome =
    SaveSuccess | SaveFailure | SaveCriticalFailure | Revived | Stabilized | Died

record death_save_resolution =
  dsr_roll :: d20_roll
  dsr_outcome :: death_save_outcome
  dsr_condition_changes :: "health_condition_change list"
  dsr_resulting_health :: health_state

definition set_failures :: "u8 \<Rightarrow> health_state \<Rightarrow> health_state" where
  "set_failures n h = h\<lparr>hs_death_saves := (hs_death_saves h)\<lparr>ds_failures := n\<rparr>\<rparr>"

definition set_successes :: "u8 \<Rightarrow> health_state \<Rightarrow> health_state" where
  "set_successes n h = h\<lparr>hs_death_saves := (hs_death_saves h)\<lparr>ds_successes := n\<rparr>\<rparr>"

text \<open>The \<open>match\<close> on the selected die.\<close>

definition death_save_transition ::
  "u8 \<Rightarrow> health_state \<Rightarrow> health_state \<times> death_save_outcome \<times> health_condition_change list" where
  "death_save_transition selected h =
     (if selected = 20 then
        (h\<lparr>hs_current := 1, hs_vital_status := Active, hs_death_saves := tally_default\<rparr>,
         Revived, [RemoveZeroHitPointConditions])
      else if selected = 1 then
        (let failures = min (saturating_add u8_max (ds_failures (hs_death_saves h)) 2) 3;
             h = set_failures failures h
         in if failures = 3 then (h\<lparr>hs_vital_status := Dead\<rparr>, Died, [])
            else (h, SaveCriticalFailure, []))
      else if 10 \<le> selected \<and> selected \<le> 19 then
        (let successes = ds_successes (hs_death_saves h) + 1;
             h = set_successes successes h
         in if successes = 3 then (h\<lparr>hs_vital_status := Stable\<rparr>, Stabilized, [])
            else (h, SaveSuccess, []))
      else
        (let failures = ds_failures (hs_death_saves h) + 1;
             h = set_failures failures h
         in if failures = 3 then (h\<lparr>hs_vital_status := Dead\<rparr>, Died, [])
            else (h, SaveFailure, [])))"

text \<open>Both mutable references are returned: the health and the state of the dice.\<close>

definition resolve_death_save ::
  "'s dice \<Rightarrow> 's \<Rightarrow> health_state \<Rightarrow> death_save_resolution rules_result \<times> health_state \<times> 's" where
  "resolve_death_save roll d h =
     and_then_st
       (and_then (health_validate h) (\<lambda>_.
          if hs_vital_status h \<noteq> Dying then Err (InvalidIntent (HealthFault OnlyDyingSaves))
          else Ok ()), h, d)
       (\<lambda>_ (h, d).
         case resolve_d20 roll rc_normal d of
           (Err e, d) \<Rightarrow> (Err (CoreError e), h, d)
         | (Ok r, d) \<Rightarrow>
             (let (h', outcome, changes) = death_save_transition (d20_selected r) h
              in (and_then (health_validate h') (\<lambda>_.
                    Ok \<lparr>dsr_roll = r, dsr_outcome = outcome, dsr_condition_changes = changes,
                        dsr_resulting_health = h'\<rparr>), h', d)))"

definition stabilize :: "health_state \<Rightarrow> unit rules_result \<times> health_state" where
  "stabilize h =
     and_then_st
       (and_then (health_validate h) (\<lambda>_.
          if hs_vital_status h \<noteq> Dying then Err (InvalidIntent (HealthFault OnlyDyingStabilizes))
          else Ok ()), h)
       (\<lambda>_ h.
         let h' = h\<lparr>hs_vital_status := Stable,
                    hs_death_saves := \<lparr>ds_successes = 3,
                                       ds_failures = ds_failures (hs_death_saves h)\<rparr>\<rparr>
         in (health_validate h', h'))"

section \<open>Condition changes\<close>

definition zero_hp_mechanic :: string where
  "zero_hp_mechanic = ''health.zero-hit-points''"

definition zero_hp_condition :: "condition_id \<Rightarrow> active_condition" where
  "zero_hp_condition c =
     \<lparr>ac_condition = c, ac_source = MechanicSource zero_hp_mechanic, ac_duration = Permanent\<rparr>"

definition apply_zero_hp ::
  "condition_id \<Rightarrow> condition_set \<Rightarrow> unit rules_result \<times> condition_set" where
  "apply_zero_hp c s =
     (if list_ex (\<lambda>a. ac_condition a = c \<and> ac_source a = MechanicSource zero_hp_mechanic)
           (cs_active s)
      then (Ok (), s) else condition_apply (zero_hp_condition c) s)"

fun apply_health_change ::
  "string \<Rightarrow> health_condition_change \<Rightarrow> condition_set \<Rightarrow> unit rules_result \<times> condition_set" where
  "apply_health_change actor ApplyZeroHitPointUnconscious s = apply_zero_hp Unconscious s"
| "apply_health_change actor ApplyProne s = apply_zero_hp Prone s"
| "apply_health_change actor RemoveZeroHitPointConditions s =
     (Ok (), s\<lparr>cs_active :=
        filter (\<lambda>a. ac_source a \<noteq> MechanicSource zero_hp_mechanic) (cs_active s)\<rparr>)"
| "apply_health_change actor WakeFromSleep s =
     and_then_st (process_durations (DamagedEvent actor) s) (\<lambda>_ s. (Ok (), s))"

fun apply_health_changes_loop ::
  "string \<Rightarrow> health_condition_change list \<Rightarrow> condition_set \<Rightarrow> unit rules_result \<times> condition_set" where
  "apply_health_changes_loop actor [] s = (condition_set_validate s, s)"
| "apply_health_changes_loop actor (c # cs) s =
     and_then_st (apply_health_change actor c s) (\<lambda>_ s. apply_health_changes_loop actor cs s)"

definition apply_health_condition_changes ::
  "string \<Rightarrow> health_condition_change list \<Rightarrow> condition_set \<Rightarrow> unit rules_result \<times> condition_set" where
  "apply_health_condition_changes actor changes s =
     and_then_st
       (and_then (require_id actor (HealthFault HealthActorInvalid)) (\<lambda>_.
          condition_set_validate s), s)
       (\<lambda>_ s. apply_health_changes_loop actor changes s)"

section \<open>Validity\<close>

definition health_ok :: "health_state \<Rightarrow> bool" where
  "health_ok h \<longleftrightarrow>
     hs_schema_version h = rules_matrix_schema_version \<and> 0 < hs_maximum h \<and>
     hs_current h \<le> hs_maximum h \<and>
     ds_successes (hs_death_saves h) \<le> 3 \<and> ds_failures (hs_death_saves h) \<le> 3 \<and>
     (case hs_vital_status h of
        Active \<Rightarrow> 0 < hs_current h \<and> hs_death_saves h = tally_default
      | Dying \<Rightarrow> hs_current h = 0 \<and> ds_successes (hs_death_saves h) < 3 \<and>
                 ds_failures (hs_death_saves h) < 3
      | Stable \<Rightarrow> hs_current h = 0 \<and> ds_successes (hs_death_saves h) = 3 \<and>
                  ds_failures (hs_death_saves h) < 3
      | Dead \<Rightarrow> hs_current h = 0 \<and> ds_failures (hs_death_saves h) = 3)"

lemma health_validate_iff [simp]: "health_validate h = Ok u \<longleftrightarrow> health_ok h"
  by (auto simp: health_validate_def health_ok_def split: vital_status.splits)

lemma health_validate_result [simp]: "health_ok h \<Longrightarrow> health_validate h = Ok ()"
  by simp

lemma health_new_ok: "health_new n = Ok h \<Longrightarrow> health_ok h \<and> hs_maximum h = n"
  by (auto simp: health_new_def health_ok_def tally_default_def split: if_splits)

definition profile_ok :: "damage_profile \<Rightarrow> bool" where
  "profile_ok p \<longleftrightarrow>
     strictly_sorted (dp_resistances p) \<and> strictly_sorted (dp_vulnerabilities p) \<and>
     strictly_sorted (dp_immunities p) \<and>
     set (dp_immunities p) \<inter> (set (dp_resistances p) \<union> set (dp_vulnerabilities p)) = {}"

lemma profile_validate_iff [simp]: "profile_validate p = Ok u \<longleftrightarrow> profile_ok p"
  by (auto simp: profile_validate_def profile_ok_def list_ex_iff)

lemma profile_validate_result [simp]: "profile_ok p \<Longrightarrow> profile_validate p = Ok ()"
  by simp

definition interaction_of :: "damage_profile \<Rightarrow> damage_type \<Rightarrow> damage_interaction" where
  "interaction_of p t =
     (if t \<in> set (dp_immunities p) then Immunity
      else if t \<in> set (dp_resistances p) \<longleftrightarrow> t \<in> set (dp_vulnerabilities p) then NormalDamage
      else if t \<in> set (dp_resistances p) then Resistance else Vulnerability)"

lemma profile_interaction_eq:
  "profile_ok p \<Longrightarrow> profile_interaction p t = Ok (interaction_of p t)"
  by (auto simp: profile_interaction_def interaction_of_def)

definition effective_damage_spec :: "u16 \<Rightarrow> damage_interaction \<Rightarrow> nat" where
  "effective_damage_spec n i =
     (case i of NormalDamage \<Rightarrow> n | Resistance \<Rightarrow> n div 2 | Vulnerability \<Rightarrow> 2 * n | Immunity \<Rightarrow> 0)"

lemma interacted_damage_Ok_iff:
  "interacted_damage n i = Ok e \<longleftrightarrow>
     e = effective_damage_spec n i \<and> (i = Vulnerability \<longrightarrow> 2 * n \<le> u16_max)"
  by (cases i) (auto simp: effective_damage_spec_def mult.commute)

lemma damage_status_ok:
  assumes "health_ok h" "hs_vital_status h \<noteq> Dead"
    and "lost \<le> hs_current h" "damage_status (hs_current h) e x c
      (h\<lparr>hs_temporary := t, hs_current := hs_current h - lost\<rparr>) = (h', ch, a)"
  shows "health_ok h'" "hs_maximum h' = hs_maximum h" "hs_temporary h' = t"
    "hs_current h' = hs_current h - lost"
proof -
  let ?d = "damage_status (hs_current h) e x c (h\<lparr>hs_temporary := t, hs_current := hs_current h - lost\<rparr>)"
  have "hs_current h \<le> hs_maximum h" using assms(1) by (simp add: health_ok_def)
  then have "hs_current h - lost \<le> hs_maximum h" by simp
  with assms(1-3) have "health_ok (fst ?d)"
    by (cases "hs_vital_status h")
      (auto simp: damage_status_def health_ok_def Let_def tally_default_def saturating_add_def u8_max_def)
  moreover have "hs_maximum (fst ?d) = hs_maximum h" "hs_temporary (fst ?d) = t"
    "hs_current (fst ?d) = hs_current h - lost"
    by (simp_all add: damage_status_def Let_def)
  ultimately show "health_ok h'" "hs_maximum h' = hs_maximum h" "hs_temporary h' = t"
    "hs_current h' = hs_current h - lost"
    using assms(4) by simp_all
qed

lemma apply_damage_cases:
  assumes "apply_damage p q h = (r, h')"
  obtains (rejected) e where "r = Err e" "h' = h"
  | (applied) eff ch a where "health_ok h" "profile_ok p" "0 < dmg_amount q"
      "hs_vital_status h \<noteq> Dead" "interacted_damage (dmg_amount q) (interaction_of p (dmg_type q)) = Ok eff"
      "damage_status (hs_current h) eff
        (eff - min (hs_temporary h) eff - min (hs_current h) (eff - min (hs_temporary h) eff))
        (dmg_critical_hit q)
        (h\<lparr>hs_temporary := hs_temporary h - min (hs_temporary h) eff,
           hs_current := hs_current h - min (hs_current h) (eff - min (hs_temporary h) eff)\<rparr>) =
        (h', ch, a)"
      "health_ok h'" "hs_maximum h' = hs_maximum h"
      "hs_temporary h' = hs_temporary h - min (hs_temporary h) eff"
      "hs_current h' = hs_current h - min (hs_current h) (eff - min (hs_temporary h) eff)"
      "r = Ok \<lparr>dres_requested_damage = dmg_amount q,
               dres_interaction = interaction_of p (dmg_type q), dres_effective_damage = eff,
               dres_temporary_hit_points_lost = min (hs_temporary h) eff,
               dres_current_hit_points_lost = min (hs_current h) (eff - min (hs_temporary h) eff),
               dres_excess_damage =
                 eff - min (hs_temporary h) eff - min (hs_current h) (eff - min (hs_temporary h) eff),
               dres_death_save_failures_added = a,
               dres_condition_changes = (if eff > 0 then [WakeFromSleep] else []) @ ch,
               dres_resulting_health = h'\<rparr>"
proof -
  let ?pre = "and_then (health_validate h) (\<lambda>_. and_then (profile_validate p) (\<lambda>_.
          if dmg_amount q = 0 then Err (InvalidIntent (HealthFault DamageMustBePositive))
          else if hs_vital_status h = Dead then Err (InvalidIntent (HealthFault DeadCannotBeDamaged))
          else and_then (profile_interaction p (dmg_type q)) (\<lambda>i.
               and_then (interacted_damage (dmg_amount q) i) (\<lambda>e. Ok (i, e)))))"
  show ?thesis
  proof (cases ?pre)
    case (Err e)
    with assms have "r = Err e" "h' = h" by (simp_all add: apply_damage_def)
    then show ?thesis by (rule rejected)
  next
    case (Ok ie)
    obtain i eff where ie: "ie = (i, eff)" by (cases ie)
    from Ok ie have pre: "health_ok h" "profile_ok p" "0 < dmg_amount q" "hs_vital_status h \<noteq> Dead"
      "i = interaction_of p (dmg_type q)" "interacted_damage (dmg_amount q) i = Ok eff"
      by (auto simp: profile_interaction_eq split: if_splits)
    let ?x = "eff - min (hs_temporary h) eff - min (hs_current h) (eff - min (hs_temporary h) eff)"
    let ?h1 = "h\<lparr>hs_temporary := hs_temporary h - min (hs_temporary h) eff,
           hs_current := hs_current h - min (hs_current h) (eff - min (hs_temporary h) eff)\<rparr>"
    obtain h2 ch a where d:
      "damage_status (hs_current h) eff ?x (dmg_critical_hit q) ?h1 = (h2, ch, a)"
      by (cases "damage_status (hs_current h) eff ?x (dmg_critical_hit q) ?h1")
    note D = damage_status_ok [OF pre(1,4) min.cobounded1 d]
    note ok = D(1)
    have "(r, h') = (Ok \<lparr>dres_requested_damage = dmg_amount q,
               dres_interaction = i, dres_effective_damage = eff,
               dres_temporary_hit_points_lost = min (hs_temporary h) eff,
               dres_current_hit_points_lost = min (hs_current h) (eff - min (hs_temporary h) eff),
               dres_excess_damage = ?x, dres_death_save_failures_added = a,
               dres_condition_changes = (if eff > 0 then [WakeFromSleep] else []) @ ch,
               dres_resulting_health = h2\<rparr>, h2)"
      unfolding assms [symmetric] apply_damage_def Ok ie
      by (simp add: Let_def d ok del: diff_diff_left)
    then have r: "r = Ok \<lparr>dres_requested_damage = dmg_amount q,
               dres_interaction = interaction_of p (dmg_type q), dres_effective_damage = eff,
               dres_temporary_hit_points_lost = min (hs_temporary h) eff,
               dres_current_hit_points_lost = min (hs_current h) (eff - min (hs_temporary h) eff),
               dres_excess_damage = ?x, dres_death_save_failures_added = a,
               dres_condition_changes = (if eff > 0 then [WakeFromSleep] else []) @ ch,
               dres_resulting_health = h'\<rparr>" and h2: "h2 = h'"
      using pre(5) by simp_all
    show ?thesis
      by (rule applied [OF pre(1-4) pre(6) [unfolded pre(5)] d [unfolded h2] D [unfolded h2] r])
  qed
qed

section \<open>Damage accounting\<close>

lemma apply_damage_Err:
  assumes "apply_damage p q h = (Err e, h')"
  shows "h' = h"
  using assms
proof (cases rule: apply_damage_cases)
  case rejected
  then show ?thesis by simp
next
  case applied
  from applied(11) show ?thesis by simp
qed

text \<open>Arithmetic of a hit, for any pool of temporary and of current hit points.\<close>

lemma damage_split:
  fixes t c e :: nat
  defines "lt \<equiv> min t e" and "cl \<equiv> min c (e - min t e)"
  shows "t = (t - lt) + lt" "c = (c - cl) + cl" "e = lt + cl + (e - lt - cl)"
    "0 < e - lt - cl \<longrightarrow> t - lt = 0 \<and> c - cl = 0"
  by (auto simp: lt_def cl_def min_def)

lemma apply_damage_OkD:
  assumes "apply_damage p q h = (Ok x, h')"
  shows "health_ok h" "health_ok h'" "hs_maximum h' = hs_maximum h" "hs_vital_status h \<noteq> Dead"
    "dres_resulting_health x = h'"
    "dres_effective_damage x = effective_damage_spec (dmg_amount q) (interaction_of p (dmg_type q))"
    "hs_temporary h = hs_temporary h' + dres_temporary_hit_points_lost x"
    "hs_current h = hs_current h' + dres_current_hit_points_lost x"
    "dres_effective_damage x = dres_temporary_hit_points_lost x +
       dres_current_hit_points_lost x + dres_excess_damage x"
    "dres_excess_damage x > 0 \<longrightarrow> hs_temporary h' = 0 \<and> hs_current h' = 0"
proof -
  obtain eff ch a where D: "health_ok h" "health_ok h'" "hs_vital_status h \<noteq> Dead"
    "interacted_damage (dmg_amount q) (interaction_of p (dmg_type q)) = Ok eff"
    "hs_maximum h' = hs_maximum h"
    "hs_temporary h' = hs_temporary h - min (hs_temporary h) eff"
    "hs_current h' = hs_current h - min (hs_current h) (eff - min (hs_temporary h) eff)"
    "dres_resulting_health x = h'" "dres_effective_damage x = eff"
    "dres_temporary_hit_points_lost x = min (hs_temporary h) eff"
    "dres_current_hit_points_lost x = min (hs_current h) (eff - min (hs_temporary h) eff)"
    "dres_excess_damage x =
       eff - min (hs_temporary h) eff - min (hs_current h) (eff - min (hs_temporary h) eff)"
    using assms
  proof (cases rule: apply_damage_cases)
    case rejected
    then show ?thesis by simp
  next
    case (applied eff ch a)
    note x = applied(11) [unfolded result.inject]
    show ?thesis
      by (rule that [OF applied(1,7,4,5,8,9,10)]) (simp_all only: x damage_resolution.simps)
  qed
  show "health_ok h" "health_ok h'" "hs_maximum h' = hs_maximum h" "hs_vital_status h \<noteq> Dead"
    "dres_resulting_health x = h'"
    "dres_effective_damage x = effective_damage_spec (dmg_amount q) (interaction_of p (dmg_type q))"
    using D(1-5,8,9) by (simp_all add: interacted_damage_Ok_iff)
  show "hs_temporary h = hs_temporary h' + dres_temporary_hit_points_lost x"
    "hs_current h = hs_current h' + dres_current_hit_points_lost x"
    "dres_effective_damage x = dres_temporary_hit_points_lost x +
       dres_current_hit_points_lost x + dres_excess_damage x"
    "dres_excess_damage x > 0 \<longrightarrow> hs_temporary h' = 0 \<and> hs_current h' = 0"
    unfolding D(6-12) by (rule damage_split)+
qed

text \<open>Where a hit leaves the target, as a function of what it did to the hit points.\<close>

definition status_after_damage :: "health_state \<Rightarrow> nat \<Rightarrow> bool \<Rightarrow> vital_status" where
  "status_after_damage h effective critical =
     (let absorbed = hs_temporary h + hs_current h;
          failures = (if hs_vital_status h = Stable then 0 else ds_failures (hs_death_saves h)) in
      if hs_current h > 0 then
        if effective < absorbed then Active
        else if effective - absorbed \<ge> hs_maximum h then Dead else Dying
      else if effective = 0 then hs_vital_status h
      else if failures + (if critical then 2 else 1) \<ge> 3 then Dead else Dying)"

lemma apply_damage_status:
  assumes "apply_damage p q h = (Ok x, h')"
  shows "hs_vital_status h' = status_after_damage h (dres_effective_damage x) (dmg_critical_hit q)"
  using assms
proof (cases rule: apply_damage_cases)
  case rejected
  then show ?thesis by simp
next
  case (applied eff ch a)
  have ok: "health_ok h" by fact
  have x: "dres_effective_damage x = eff" using applied(11) by simp
  show ?thesis
    using applied(6) ok applied(4)
    by (cases "hs_vital_status h")
      (auto simp: x damage_status_def status_after_damage_def health_ok_def Let_def tally_default_def
        saturating_add_def u8_max_def split: if_splits)
qed

section \<open>Death saves\<close>

lemma death_save_transition_ok:
  assumes "health_ok h" "hs_vital_status h = Dying"
    and "death_save_transition n h = (h', out, ch)"
  shows "health_ok h'" "hs_maximum h' = hs_maximum h" "hs_temporary h' = hs_temporary h"
  using assms
  by (auto simp: death_save_transition_def health_ok_def set_failures_def set_successes_def
      tally_default_def saturating_add_def u8_max_def Let_def split: if_splits)

lemma resolve_death_save_eq:
  assumes "health_ok h" "hs_vital_status h = Dying"
  shows "resolve_death_save roll d h =
    (case resolve_d20 roll rc_normal d of
       (Err e, d') \<Rightarrow> (Err (CoreError e), h, d')
     | (Ok r, d') \<Rightarrow>
         (case death_save_transition (d20_selected r) h of
            (h', out, ch) \<Rightarrow>
              (Ok \<lparr>dsr_roll = r, dsr_outcome = out, dsr_condition_changes = ch,
                   dsr_resulting_health = h'\<rparr>, h', d')))"
  using assms death_save_transition_ok(1) [OF assms]
  by (auto simp: resolve_death_save_def split: prod.splits result.splits)

lemma resolve_death_save_OkD:
  assumes "resolve_death_save roll d h = (Ok x, h', d')"
  shows "health_ok h" "hs_vital_status h = Dying"
    "death_save_transition (d20_selected (dsr_roll x)) h = (h', dsr_outcome x, dsr_condition_changes x)"
    "health_ok h'" "hs_maximum h' = hs_maximum h"
    "resolve_d20 roll rc_normal d = (Ok (dsr_roll x), d')"
proof -
  have ok: "health_ok h" "hs_vital_status h = Dying"
    using assms by (auto simp: resolve_death_save_def split: if_splits)
  with assms show "health_ok h" "hs_vital_status h = Dying"
    and t: "death_save_transition (d20_selected (dsr_roll x)) h =
      (h', dsr_outcome x, dsr_condition_changes x)"
    and "resolve_d20 roll rc_normal d = (Ok (dsr_roll x), d')"
    by (auto simp: resolve_death_save_eq split: prod.splits result.splits)
  from death_save_transition_ok [OF ok t] show "health_ok h'" "hs_maximum h' = hs_maximum h"
    by auto
qed

lemma resolve_death_save_Err: "resolve_death_save roll d h = (Err e, h', d') \<Longrightarrow> h' = h"
proof -
  assume r: "resolve_death_save roll d h = (Err e, h', d')"
  show "h' = h"
  proof (cases "health_ok h \<and> hs_vital_status h = Dying")
    case True
    with r show ?thesis
      by (auto simp: resolve_death_save_eq split: prod.splits result.splits)
  next
    case False
    with r show ?thesis
      by (cases "health_validate h") (auto simp: resolve_death_save_def split: if_splits)
  qed
qed

text \<open>Every save of a hero who stays dying moves the tally; four is the most it can hold.\<close>

definition tally_sum :: "health_state \<Rightarrow> nat" where
  "tally_sum h = ds_successes (hs_death_saves h) + ds_failures (hs_death_saves h)"

lemma death_save_progress:
  assumes "health_ok h" "hs_vital_status h = Dying"
    and "death_save_transition n h = (h', out, ch)" "hs_vital_status h' = Dying"
  shows "tally_sum h < tally_sum h'" "tally_sum h' \<le> 4"
  using assms
  by (auto simp: death_save_transition_def health_ok_def set_failures_def set_successes_def
      tally_default_def tally_sum_def saturating_add_def u8_max_def Let_def split: if_splits)

text \<open>A caller that rolls saves while the hero is dying, at most \<open>n\<close> of them.\<close>

fun save_until_settled ::
  "nat \<Rightarrow> 's dice \<Rightarrow> 's \<Rightarrow> health_state \<Rightarrow> unit rules_result \<times> health_state \<times> 's" where
  "save_until_settled 0 roll d h = (Ok (), h, d)"
| "save_until_settled (Suc n) roll d h =
     (if hs_vital_status h \<noteq> Dying then (Ok (), h, d)
      else and_then_st (resolve_death_save roll d h) (\<lambda>_ (h, d). save_until_settled n roll d h))"

lemma save_until_settled_bound:
  assumes "health_ok h" "save_until_settled n roll d h = (Ok u, h', d')"
    and "hs_vital_status h = Dying \<longrightarrow> 5 \<le> n + tally_sum h"
  shows "health_ok h' \<and> hs_vital_status h' \<noteq> Dying"
  using assms
proof (induction n arbitrary: h d)
  case 0
  have "hs_vital_status h = Dying \<Longrightarrow> tally_sum h \<le> 4"
    using "0.prems"(1) by (auto simp: health_ok_def tally_sum_def)
  with 0 show ?case by auto
next
  case (Suc n)
  show ?case
  proof (cases "hs_vital_status h = Dying")
    case False
    with Suc.prems show ?thesis by auto
  next
    case True
    with Suc.prems obtain x h1 d1 where s: "resolve_death_save roll d h = (Ok x, h1, d1)"
      "save_until_settled n roll d1 h1 = (Ok u, h', d')"
      by auto
    note D = resolve_death_save_OkD [OF s(1)]
    have "hs_vital_status h1 = Dying \<longrightarrow> 5 \<le> n + tally_sum h1"
      using death_save_progress(1) [OF D(1-3)] Suc.prems(3) True by auto
    with Suc.IH [OF D(4) s(2)] show ?thesis .
  qed
qed

section \<open>The other operations\<close>

text \<open>Healing leaves the target active with the sum of its hit points, capped at the maximum.\<close>

definition healed :: "u16 \<Rightarrow> health_state \<Rightarrow> health_state" where
  "healed n h =
     h\<lparr>hs_current := min (hs_maximum h) (hs_current h + n), hs_vital_status := Active,
       hs_death_saves := tally_default\<rparr>"

lemma healed_ok: "health_ok h \<Longrightarrow> 0 < n \<Longrightarrow> health_ok (healed n h)"
  by (simp add: healed_def health_ok_def tally_default_def)

lemma apply_healing_eq:
  assumes "health_ok h" "0 < n" "hs_vital_status h \<noteq> Dead"
  shows "apply_healing n h =
    (Ok \<lparr>hres_requested_healing = n, hres_effective_healing = min (hs_maximum h - hs_current h) n,
         hres_condition_changes =
           (if hs_vital_status h = Active then [] else [RemoveZeroHitPointConditions]),
         hres_resulting_health = healed n h\<rparr>, healed n h)"
proof -
  have le: "hs_current h \<le> hs_maximum h" using assms(1) by (simp add: health_ok_def)
  then have cur: "hs_current h + min (hs_maximum h - hs_current h) n =
      min (hs_maximum h) (hs_current h + n)"
    by linarith
  note ok = healed_ok [OF assms(1,2)]
  show ?thesis
  proof (cases "hs_vital_status h = Active")
    case True
    then have "healed n h = h\<lparr>hs_current := min (hs_maximum h) (hs_current h + n)\<rparr>"
      using assms(1) by (cases h) (simp add: healed_def health_ok_def)
    with True assms ok show ?thesis
      by (simp add: apply_healing_def Let_def cur del: min_less_iff_conj)
  next
    case False
    then have "hs_current h = 0" "0 < hs_maximum h"
      using assms by (auto simp: health_ok_def split: vital_status.splits)
    with False assms ok show ?thesis
      by (simp add: apply_healing_def Let_def healed_def)
  qed
qed

lemma apply_healing_OkD:
  assumes "apply_healing n h = (Ok x, h')"
  shows "health_ok h" "0 < n" "hs_vital_status h \<noteq> Dead" "h' = healed n h" "health_ok h'"
    "hres_resulting_health x = h'"
    "hres_condition_changes x =
       (if hs_vital_status h = Active then [] else [RemoveZeroHitPointConditions])"
proof -
  have pre: "health_ok h \<and> 0 < n \<and> hs_vital_status h \<noteq> Dead"
    using assms by (auto simp: apply_healing_def split: if_splits)
  then have "(Ok x, h') = (Ok \<lparr>hres_requested_healing = n,
      hres_effective_healing = min (hs_maximum h - hs_current h) n,
      hres_condition_changes =
        (if hs_vital_status h = Active then [] else [RemoveZeroHitPointConditions]),
      hres_resulting_health = healed n h\<rparr>, healed n h)"
    using apply_healing_eq [of h n] assms by simp
  with pre healed_ok [of h n] show "health_ok h" "0 < n" "hs_vital_status h \<noteq> Dead"
    "h' = healed n h" "health_ok h'" "hres_resulting_health x = h'"
    "hres_condition_changes x =
       (if hs_vital_status h = Active then [] else [RemoveZeroHitPointConditions])"
    by simp_all
qed

lemma apply_healing_Err:
  assumes "apply_healing n h = (Err e, h')"
  shows "h' = h"
proof (cases "health_ok h \<and> 0 < n \<and> hs_vital_status h \<noteq> Dead")
  case True
  with apply_healing_eq [of h n] assms show ?thesis by simp
next
  case False
  with assms show ?thesis
    by (cases "health_validate h") (auto simp: apply_healing_def split: if_splits)
qed

lemma apply_defeat_recovery_OkD:
  assumes "apply_defeat_recovery pol h = (Ok x, h')"
  shows "health_ok h" "health_ok h'" "hs_maximum h' = hs_maximum h"
    "hs_temporary h' = hs_temporary h" "dfr_resulting_health x = h'"
    "if pol = StoryRecovery \<and> hs_vital_status h \<noteq> Active
     then hs_current h' = 1 \<and> hs_vital_status h' = Active \<and>
          dfr_condition_changes x = [RemoveZeroHitPointConditions]
     else h' = h \<and> dfr_condition_changes x = []"
  using assms
  by (auto simp: apply_defeat_recovery_def health_ok_def Let_def tally_default_def split: if_splits)

lemma apply_defeat_recovery_total: "health_ok h \<Longrightarrow> is_ok (fst (apply_defeat_recovery pol h))"
  by (auto simp: apply_defeat_recovery_def health_ok_def Let_def tally_default_def is_ok_iff)

lemma apply_defeat_recovery_Err: "apply_defeat_recovery pol h = (Err e, h') \<Longrightarrow> h' = h"
  using apply_defeat_recovery_total [of h pol]
  by (cases "health_validate h") (auto simp: apply_defeat_recovery_def)

lemma grant_temporary_OkD:
  assumes "grant_temporary_hit_points n h = (Ok x, h')"
  shows "health_ok h" "health_ok h'" "h' = h\<lparr>hs_temporary := max n (hs_temporary h)\<rparr>"
    "hs_temporary h' = hs_temporary h + x"
  using assms
  by (auto simp: grant_temporary_hit_points_def health_ok_def Let_def max_def
      split: if_splits vital_status.splits)

lemma grant_temporary_Err: "grant_temporary_hit_points n h = (Err e, h') \<Longrightarrow> h' = h"
  by (auto simp: grant_temporary_hit_points_def and_then_st_Err_iff and_then_Err_iff Let_def)

lemma stabilize_OkD:
  assumes "stabilize h = (Ok x, h')"
  shows "health_ok h" "health_ok h'" "hs_maximum h' = hs_maximum h"
    "hs_vital_status h = Dying" "hs_vital_status h' = Stable"
    "hs_current h' = hs_current h" "hs_temporary h' = hs_temporary h"
  using assms by (auto simp: stabilize_def Let_def split: if_splits)

lemma stabilize_total: "health_ok h \<Longrightarrow> hs_vital_status h = Dying \<Longrightarrow> is_ok (fst (stabilize h))"
  by (auto simp: stabilize_def health_ok_def Let_def is_ok_iff)

lemma stabilize_Err: "stabilize h = (Err e, h') \<Longrightarrow> h' = h"
  using stabilize_total [of h]
  by (cases "health_validate h") (auto simp: stabilize_def split: if_splits)

section \<open>Health as a component\<close>

text \<open>The operations on a health state; the answer is the list of condition changes.\<close>

datatype 's health_input =
    DamageInput damage_profile damage_request
  | HealInput u16
  | RecoverInput lethality_policy
  | TemporaryInput u16
  | DeathSaveInput "'s dice" 's
  | StabilizeInput

fun health_step ::
  "('s health_input, health_state, rules_matrix_error, health_condition_change list) step" where
  "health_step (DamageInput p q) h =
     and_then_st (apply_damage p q h) (\<lambda>x h. (Ok (dres_condition_changes x), h))"
| "health_step (HealInput n) h =
     and_then_st (apply_healing n h) (\<lambda>x h. (Ok (hres_condition_changes x), h))"
| "health_step (RecoverInput pol) h =
     and_then_st (apply_defeat_recovery pol h) (\<lambda>x h. (Ok (dfr_condition_changes x), h))"
| "health_step (TemporaryInput n) h =
     and_then_st (grant_temporary_hit_points n h) (\<lambda>x h. (Ok [], h))"
| "health_step (DeathSaveInput roll d) h =
     (case resolve_death_save roll d h of
        (Ok x, h', _) \<Rightarrow> (Ok (dsr_condition_changes x), h')
      | (Err e, h', _) \<Rightarrow> (Err e, h'))"
| "health_step StabilizeInput h = and_then_st (stabilize h) (\<lambda>_ h. (Ok [], h))"

lemma health_step_OkD:
  assumes "health_step i h = (Ok ch, h')"
  shows "health_ok h' \<and> hs_maximum h' = hs_maximum h"
proof (cases i)
  case (DamageInput p q)
  with assms obtain x where "apply_damage p q h = (Ok x, h')" by auto
  from apply_damage_OkD(2,3) [OF this] show ?thesis by simp
next
  case (HealInput n)
  with assms obtain x where "apply_healing n h = (Ok x, h')" by auto
  from apply_healing_OkD(4,5) [OF this] show ?thesis by (simp add: healed_def)
next
  case (RecoverInput pol)
  with assms obtain x where "apply_defeat_recovery pol h = (Ok x, h')" by auto
  from apply_defeat_recovery_OkD(2,3) [OF this] show ?thesis by simp
next
  case (TemporaryInput n)
  with assms obtain x where "grant_temporary_hit_points n h = (Ok x, h')" by auto
  from grant_temporary_OkD(2,3) [OF this] show ?thesis by simp
next
  case (DeathSaveInput roll d)
  with assms obtain x d' where "resolve_death_save roll d h = (Ok x, h', d')"
    by (auto split: prod.splits result.splits)
  from resolve_death_save_OkD(4,5) [OF this] show ?thesis by simp
next
  case StabilizeInput
  with assms obtain x where "stabilize h = (Ok x, h')" by auto
  from stabilize_OkD(2,3) [OF this] show ?thesis by simp
qed

lemma health_step_Err:
  assumes "health_step i h = (Err e, h')"
  shows "h' = h"
  using assms apply_damage_Err apply_healing_Err apply_defeat_recovery_Err grant_temporary_Err
    stabilize_Err resolve_death_save_Err
  by (cases i) (auto simp: and_then_st_Err_iff split: prod.splits result.splits)

interpretation health: conserving health_ok health_step hs_maximum
  by unfold_locales (auto dest: health_step_OkD health_step_Err)

text \<open>Death is final for every operation but the story-recovery policy.\<close>

lemma dead_step:
  assumes "hs_vital_status h = Dead" "i \<noteq> RecoverInput StoryRecovery"
  shows "hs_vital_status (snd (health_step i h)) = Dead"
proof (cases "health_step i h")
  case (Pair r h')
  show ?thesis
  proof (cases r)
    case (Err e)
    with Pair assms(1) health_step_Err show ?thesis by fastforce
  next
    case (Ok ch)
    with Pair have ok: "health_step i h = (Ok ch, h')" by simp
    show ?thesis
    proof (cases i)
      case (RecoverInput pol)
      with assms(2) have "pol \<noteq> StoryRecovery" by simp
      moreover from ok RecoverInput obtain x where "apply_defeat_recovery pol h = (Ok x, h')" by auto
      ultimately show ?thesis using apply_defeat_recovery_OkD(6) assms(1) Pair by fastforce
    next
      case (TemporaryInput n)
      with ok obtain x where "grant_temporary_hit_points n h = (Ok x, h')" by auto
      from grant_temporary_OkD(3) [OF this] assms(1) Pair show ?thesis by simp
    next
      case (DeathSaveInput roll d)
      with ok obtain x d' where "resolve_death_save roll d h = (Ok x, h', d')"
        by (auto split: prod.splits result.splits)
      from resolve_death_save_OkD(2) [OF this] assms(1) show ?thesis by simp
    qed (use ok assms(1) in \<open>auto dest: apply_damage_OkD(4) apply_healing_OkD(3) stabilize_OkD(4)\<close>)
  qed
qed

lemma dead_run:
  assumes "hs_vital_status h = Dead" "RecoverInput StoryRecovery \<notin> set is"
  shows "hs_vital_status (run_steps health_step is h) = Dead"
  using assms by (induction "is" arbitrary: h) (auto simp: dead_step)

section \<open>Hit points and conditions agree\<close>

text \<open>The conditions an actor carries because its hit points are zero.\<close>

definition zero_hp_conditions :: "condition_set \<Rightarrow> condition_id set" where
  "zero_hp_conditions s =
     ac_condition ` {a \<in> set (cs_active s). ac_source a = MechanicSource zero_hp_mechanic}"

fun zero_hp_after :: "health_condition_change \<Rightarrow> condition_id set \<Rightarrow> condition_id set" where
  "zero_hp_after ApplyZeroHitPointUnconscious Z = insert Unconscious Z"
| "zero_hp_after ApplyProne Z = insert Prone Z"
| "zero_hp_after RemoveZeroHitPointConditions Z = {}"
| "zero_hp_after WakeFromSleep Z = Z"

lemma apply_zero_hp_Ok:
  assumes "apply_zero_hp c s = (Ok (), s')"
  shows "zero_hp_conditions s' = insert c (zero_hp_conditions s)"
    "condition_set_ok s \<Longrightarrow> condition_set_ok s'"
proof -
  show "zero_hp_conditions s' = insert c (zero_hp_conditions s)"
  proof (cases "list_ex (\<lambda>a. ac_condition a = c \<and> ac_source a = MechanicSource zero_hp_mechanic)
           (cs_active s)")
    case True
    with assms show ?thesis
      by (auto simp: apply_zero_hp_def zero_hp_conditions_def list_ex_iff)
  next
    case False
    with assms have "condition_apply (zero_hp_condition c) s = (Ok (), s')"
      by (simp add: apply_zero_hp_def)
    from condition_apply_OkD(4) [OF this] show ?thesis
      by (force simp: zero_hp_conditions_def zero_hp_condition_def)
  qed
  show "condition_set_ok s'" if "condition_set_ok s"
    using assms that condition_apply_OkD(2) [of "zero_hp_condition c" s "()" s']
    by (auto simp: apply_zero_hp_def split: if_splits)
qed

text \<open>Waking removes sleep only: a zero-hit-point condition never has a sleeper's duration.\<close>

lemma wake_keeps_zero_hp:
  assumes "process_durations (DamagedEvent actor) s = (Ok xs, s')"
  shows "zero_hp_conditions s' = zero_hp_conditions s"
proof -
  have ok: "condition_set_ok s" using process_durations_OkD(1) [OF assms] .
  have keep: "\<not> fst (tick_duration (DamagedEvent actor) (ac_duration c))"
    if "c \<in> set (cs_active s)" "ac_source c = MechanicSource zero_hp_mechanic" for c
    using that ok
    by (cases "ac_duration c")
      (auto simp: condition_set_ok_def list_all_iff active_condition_validate_def is_sleep_spell_def
        split: if_splits dest!: bspec)
  have "s' = s\<lparr>cs_active := snd (sweep_conditions (DamagedEvent actor) (cs_active s))\<rparr>"
    using process_durations_eq [OF process_durations_OkD [OF assms]] assms by simp
  then have act: "set (cs_active s') =
      (\<lambda>c. c\<lparr>ac_duration := snd (tick_duration (DamagedEvent actor) (ac_duration c))\<rparr>) `
        {c \<in> set (cs_active s). \<not> fst (tick_duration (DamagedEvent actor) (ac_duration c))}"
    by (simp add: sweep_split)
  show ?thesis
    unfolding zero_hp_conditions_def act using keep by (force simp: image_iff)
qed

lemma apply_health_change_Ok:
  assumes "apply_health_change actor c s = (Ok (), s')" "condition_set_ok s"
  shows "zero_hp_conditions s' = zero_hp_after c (zero_hp_conditions s)" "condition_set_ok s'"
proof -
  have "zero_hp_conditions s' = zero_hp_after c (zero_hp_conditions s) \<and> condition_set_ok s'"
  proof (cases c)
    case RemoveZeroHitPointConditions
    with assms show ?thesis
      using order_trans [OF length_filter_le]
      by (auto simp: zero_hp_conditions_def condition_set_ok_def list_all_iff distinct_map_filter)
  next
    case WakeFromSleep
    with assms obtain xs where p: "process_durations (DamagedEvent actor) s = (Ok xs, s')" by auto
    from wake_keeps_zero_hp [OF p] conditions.step_valid [OF assms(2), of "EventInput (DamagedEvent actor)"] p WakeFromSleep
    show ?thesis by simp
  qed (use assms apply_zero_hp_Ok in auto)
  then show "zero_hp_conditions s' = zero_hp_after c (zero_hp_conditions s)" "condition_set_ok s'"
    by auto
qed

lemma apply_changes_zero_hp:
  assumes "apply_health_condition_changes actor ch s = (Ok (), s')"
  shows "zero_hp_conditions s' = fold zero_hp_after ch (zero_hp_conditions s)"
    "condition_set_ok s" "condition_set_ok s'"
proof -
  have loop: "zero_hp_conditions s' = fold zero_hp_after ch (zero_hp_conditions s) \<and> condition_set_ok s'"
    if "condition_set_ok s" "apply_health_changes_loop actor ch s = (Ok (), s')" for ch s
    using that
  proof (induction ch arbitrary: s)
    case Nil
    then show ?case by simp
  next
    case (Cons c ch)
    then obtain s1 where "apply_health_change actor c s = (Ok (), s1)"
      "apply_health_changes_loop actor ch s1 = (Ok (), s')" by auto
    with Cons apply_health_change_Ok [of actor c s s1] show ?case by simp
  qed
  from assms have "condition_set_ok s" "apply_health_changes_loop actor ch s = (Ok (), s')"
    by (auto simp: apply_health_condition_changes_def)
  with loop show "zero_hp_conditions s' = fold zero_hp_after ch (zero_hp_conditions s)"
    "condition_set_ok s" "condition_set_ok s'" by auto
qed

definition hp_agrees :: "health_state \<Rightarrow> condition_set \<Rightarrow> bool" where
  "hp_agrees h s \<longleftrightarrow>
     (case hs_vital_status h of
        Active \<Rightarrow> zero_hp_conditions s = {}
      | Dead \<Rightarrow> True
      | _ \<Rightarrow> Unconscious \<in> zero_hp_conditions s)"

lemma damage_changes:
  assumes "apply_damage p q h = (Ok x, h')"
  shows "dres_condition_changes x = (if dres_effective_damage x > 0 then [WakeFromSleep] else []) @
    (if hs_vital_status h = Active \<and> hs_vital_status h' = Dying
     then [ApplyZeroHitPointUnconscious, ApplyProne] else [])"
  using assms
proof (cases rule: apply_damage_cases)
  case rejected
  then show ?thesis by simp
next
  case (applied eff ch a)
  note x = applied(11) [unfolded result.inject]
  have "ch = (if hs_vital_status h = Active \<and> hs_vital_status h' = Dying
     then [ApplyZeroHitPointUnconscious, ApplyProne] else [])"
    using applied(6) applied(1,4)
    by (cases "hs_vital_status h")
      (auto simp: damage_status_def health_ok_def Let_def split: if_splits)
  then show ?thesis by (simp only: x damage_resolution.simps)
qed

lemma death_save_changes:
  assumes "health_ok h" "hs_vital_status h = Dying" "death_save_transition n h = (h', out, ch)"
  shows "ch = (if hs_vital_status h' = Active then [RemoveZeroHitPointConditions] else [])"
  using assms
  by (auto simp: death_save_transition_def set_failures_def set_successes_def Let_def
      split: if_splits)

lemma not_active_until_healed:
  assumes "apply_damage p q h = (Ok x, h')" "hs_vital_status h' = Active"
  shows "hs_vital_status h = Active"
  using apply_damage_OkD(1,2,8) [OF assms(1)] assms(2)
  by (auto simp: health_ok_def split: vital_status.splits)

lemma damage_not_stable:
  assumes "apply_damage p q h = (Ok x, h')" "hs_vital_status h' = Stable"
  shows "hs_vital_status h = Stable"
  using apply_damage_OkD(1) [OF assms(1)] apply_damage_status [OF assms(1)] assms(2)
  by (auto simp: health_ok_def status_after_damage_def Let_def split: vital_status.splits if_splits)

lemma health_step_agrees:
  assumes "hp_agrees h s" "health_step i h = (Ok ch, h')"
    "apply_health_condition_changes actor ch s = (Ok (), s')"
  shows "hp_agrees h' s'"
proof -
  note Z = apply_changes_zero_hp(1) [OF assms(3)]
  show ?thesis
  proof (cases i)
    case (DamageInput p q)
    with assms obtain x where x: "apply_damage p q h = (Ok x, h')" "ch = dres_condition_changes x"
      by auto
    from apply_damage_OkD(4) [OF x(1)] damage_not_stable [OF x(1)] not_active_until_healed [OF x(1)] assms(1) show ?thesis
      by (auto simp: hp_agrees_def Z x(2) damage_changes [OF x(1)] split: vital_status.splits)
  next
    case (HealInput n)
    with assms obtain x where x: "apply_healing n h = (Ok x, h')" "ch = hres_condition_changes x"
      by auto
    from apply_healing_OkD(4,7) [OF x(1)] x(2) assms(1) show ?thesis
      by (auto simp: hp_agrees_def healed_def Z)
  next
    case (RecoverInput pol)
    with assms obtain x where x: "apply_defeat_recovery pol h = (Ok x, h')"
      "ch = dfr_condition_changes x" by auto
    from apply_defeat_recovery_OkD(6) [OF x(1)] x(2) assms(1) show ?thesis
      by (auto simp: hp_agrees_def Z split: if_splits vital_status.splits)
  next
    case (TemporaryInput n)
    with assms obtain x where x: "grant_temporary_hit_points n h = (Ok x, h')" "ch = []" by auto
    from grant_temporary_OkD(3) [OF x(1)] x(2) assms(1) Z show ?thesis
      by (simp add: hp_agrees_def split: vital_status.splits)
  next
    case (DeathSaveInput roll d)
    with assms obtain x d' where x: "resolve_death_save roll d h = (Ok x, h', d')"
      "ch = dsr_condition_changes x"
      by (auto split: prod.splits result.splits)
    note D = resolve_death_save_OkD [OF x(1)]
    from death_save_changes [OF D(1-3)] D(2) x(2) assms(1) show ?thesis
      by (auto simp: hp_agrees_def Z split: vital_status.splits)
  next
    case StabilizeInput
    with assms obtain u where u: "stabilize h = (Ok u, h')" "ch = []" by auto
    from stabilize_OkD(4,5) [OF u(1)] u(2) assms(1) Z show ?thesis
      by (simp add: hp_agrees_def)
  qed
qed

section \<open>Properties\<close>

text \<open>C6: Over any history of damage, healing, temporary hit points, death saves, stabilising and
  defeat recovery, accepted or refused, a health state that passes \<open>validate\<close> keeps passing it and
  keeps its hit-point maximum.\<close>

theorem health_history_valid:
  assumes "health_validate h = Ok ()"
  shows "health_validate (run_steps health_step is h) = Ok () \<and>
    hs_maximum (run_steps health_step is h) = hs_maximum h"
  using assms health.run_valid [of h "is"] health.run_kept [of h "is"] by simp

definition hurt_hero :: health_state where
  "hurt_hero =
     \<lparr>hs_schema_version = rules_matrix_schema_version, hs_maximum = 12, hs_current = 4,
      hs_temporary = 3, hs_vital_status = Active, hs_death_saves = tally_default\<rparr>"

definition plain_profile :: damage_profile where
  "plain_profile = \<lparr>dp_resistances = [], dp_vulnerabilities = [Fire], dp_immunities = []\<rparr>"

definition bad_day :: "nat health_input list" where
  "bad_day =
     [DamageInput plain_profile \<lparr>dmg_amount = 5, dmg_type = Fire, dmg_critical_hit = False\<rparr>,
      DeathSaveInput (\<lambda>sides d. (11, d)) 0, HealInput 0, StabilizeInput, HealInput 6]"

theorem health_history_valid_witness:
  "health_validate (run_steps health_step bad_day hurt_hero) = Ok () \<and>
   hs_maximum (run_steps health_step bad_day hurt_hero) = 12"
proof -
  have "health_validate hurt_hero = Ok ()" "hs_maximum hurt_hero = 12" by code_simp+
  with health_history_valid [OF this(1), of bad_day] show ?thesis by metis
qed

text \<open>C18: A hit that \<open>apply_damage\<close> accepts is accounted for to the last point: the damage after
  resistance, vulnerability and immunity is split into temporary hit points (taken first), current
  hit points and excess, the state loses exactly what is reported, excess remains only at zero hit
  points, and the resulting vital status is the one the rules give.\<close>

theorem damage_accounting:
  assumes "apply_damage p q h = (Ok x, h')"
  shows "health_validate h' = Ok () \<and> hs_maximum h' = hs_maximum h \<and>
    hs_vital_status h \<noteq> Dead \<and>
    dres_effective_damage x = effective_damage_spec (dmg_amount q) (interaction_of p (dmg_type q)) \<and>
    dres_effective_damage x = dres_temporary_hit_points_lost x + dres_current_hit_points_lost x
      + dres_excess_damage x \<and>
    hs_temporary h = hs_temporary h' + dres_temporary_hit_points_lost x \<and>
    hs_current h = hs_current h' + dres_current_hit_points_lost x \<and>
    (dres_current_hit_points_lost x > 0 \<longrightarrow> hs_temporary h' = 0) \<and>
    (dres_excess_damage x > 0 \<longrightarrow> hs_temporary h' = 0 \<and> hs_current h' = 0) \<and>
    hs_vital_status h' = status_after_damage h (dres_effective_damage x) (dmg_critical_hit q)"
proof -
  have "dres_current_hit_points_lost x > 0 \<longrightarrow> hs_temporary h' = 0"
    using assms by (cases rule: apply_damage_cases) auto
  with apply_damage_OkD [OF assms] apply_damage_status [OF assms] show ?thesis by simp
qed

theorem damage_accounting_witness:
  "\<exists>x h'. apply_damage plain_profile
      \<lparr>dmg_amount = 5, dmg_type = Fire, dmg_critical_hit = False\<rparr> hurt_hero = (Ok x, h') \<and>
    dres_effective_damage x = 10 \<and> dres_excess_damage x = 3 \<and>
    hs_vital_status h' = status_after_damage hurt_hero 10 False \<and> hs_current h' = 0"
proof -
  let ?q = "\<lparr>dmg_amount = 5, dmg_type = Fire, dmg_critical_hit = False\<rparr>"
  note hit = apply_damage_def profile_interaction_def plain_profile_def hurt_hero_def
    profile_ok_def health_ok_def tally_default_def u16_max_def damage_status_def
  obtain x h' where a: "apply_damage plain_profile ?q hurt_hero = (Ok x, h')"
    and "dres_effective_damage x = 10" "dres_excess_damage x = 3"
    by (simp add: hit Let_def)
  with damage_accounting [OF a] show ?thesis by auto
qed

text \<open>C33: Death is final: no sequence of damage, healing, temporary hit points, death saves,
  stabilising and recovery under the rules-as-written policy brings a dead hero back; only the
  story-recovery policy does.\<close>

theorem death_is_final:
  assumes "hs_vital_status h = Dead" "RecoverInput StoryRecovery \<notin> set is"
  shows "hs_vital_status (run_steps health_step is h) = Dead"
  using dead_run [OF assms] .

definition dead_hero :: health_state where
  "dead_hero = hurt_hero\<lparr>hs_current := 0, hs_temporary := 0, hs_vital_status := Dead,
     hs_death_saves := \<lparr>ds_successes = 1, ds_failures = 3\<rparr>\<rparr>"

theorem death_is_final_witness:
  "hs_vital_status (run_steps health_step
     [HealInput 9, RecoverInput RulesAsWritten, DeathSaveInput (\<lambda>sides d. (20, d)) 0, StabilizeInput]
     dead_hero) = Dead \<and>
   hs_vital_status (run_steps health_step [RecoverInput StoryRecovery :: nat health_input] dead_hero)
     = Active"
proof
  show "hs_vital_status (run_steps health_step [RecoverInput StoryRecovery :: nat health_input]
      dead_hero) = Active" by code_simp
qed (rule death_is_final; simp add: dead_hero_def)

text \<open>C26: A dying hero is settled by five death saves at most: with dice that show a face of the
  d20, rolling until the hero is no longer dying always ends, without an error, within five rolls.\<close>

theorem five_death_saves_settle:
  assumes "health_validate h = Ok ()"
    and faces: "\<forall>d. 1 \<le> fst (roll 20 d) \<and> fst (roll 20 d) \<le> 20"
  shows "\<exists>h' d'. save_until_settled 5 roll d h = (Ok (), h', d') \<and> health_validate h' = Ok () \<and>
    hs_vital_status h' \<noteq> Dying"
proof -
  have total: "\<exists>u h' d'. save_until_settled n roll d h = (Ok u, h', d')" if "health_ok h" for n d h
    using that
  proof (induction n arbitrary: d h)
    case 0
    show ?case by simp
  next
    case (Suc n)
    show ?case
    proof (cases "hs_vital_status h = Dying")
      case False
      then show ?thesis by simp
    next
      case dying: True
      obtain r d1 where r: "resolve_d20 roll rc_normal d = (Ok r, d1)"
        using faces [rule_format, of d]
        by (cases "roll 20 d")
          (auto simp: resolve_d20_def roll_validated_def rc_normal_def effective_mode_def Let_def)
      obtain h1 out ch where t: "death_save_transition (d20_selected r) h = (h1, out, ch)"
        by (cases "death_save_transition (d20_selected r) h")
      have "health_ok h1"
        using death_save_transition_ok(1) [OF Suc.prems dying t] .
      with Suc.IH [of h1 d1] resolve_death_save_eq [OF Suc.prems dying, of roll d] r t dying
      show ?thesis by simp
    qed
  qed
  obtain u h' d' where s: "save_until_settled 5 roll d h = (Ok u, h', d')"
    using total [of h 5 d] assms(1) by auto
  with save_until_settled_bound [OF _ s] assms(1) show ?thesis by auto
qed

definition alternating_saves :: "bool dice" where
  "alternating_saves sides d = (if d then 12 else 5, \<not> d)"

definition dying_hero :: health_state where
  "dying_hero = hurt_hero\<lparr>hs_current := 0, hs_temporary := 0, hs_vital_status := Dying\<rparr>"

theorem five_death_saves_settle_witness:
  "hs_vital_status (fst (snd (save_until_settled 4 alternating_saves True dying_hero))) = Dying \<and>
   hs_vital_status (fst (snd (save_until_settled 5 alternating_saves True dying_hero))) \<noteq> Dying"
proof
  show "hs_vital_status (fst (snd (save_until_settled 4 alternating_saves True dying_hero))) = Dying"
    by code_simp
  have "health_validate dying_hero = Ok ()" by code_simp
  moreover have "\<forall>d. 1 \<le> fst (alternating_saves 20 d) \<and> fst (alternating_saves 20 d) \<le> 20"
    by (auto simp: alternating_saves_def)
  ultimately show
    "hs_vital_status (fst (snd (save_until_settled 5 alternating_saves True dying_hero))) \<noteq> Dying"
    using five_death_saves_settle [of dying_hero alternating_saves True] by auto
qed

text \<open>C37: Hit points and conditions never drift apart: when an actor's conditions agree with its
  vital status (no zero-hit-point condition while active, Unconscious from zero hit points while
  dying or stable) and a health operation's condition changes are applied, they agree afterwards.\<close>

theorem conditions_track_hit_points:
  assumes "hp_agrees h s" "health_step i h = (Ok changes, h')"
    and "apply_health_condition_changes actor changes s = (Ok (), s')"
  shows "hp_agrees h' s' \<and> condition_set_validate s' = Ok ()"
  using health_step_agrees [OF assms] apply_changes_zero_hp(3) [OF assms(3)] by simp

theorem conditions_track_hit_points_witness:
  "\<exists>changes h' s'.
     health_step (DamageInput plain_profile
       \<lparr>dmg_amount = 4, dmg_type = Fire, dmg_critical_hit = False\<rparr> :: nat health_input) hurt_hero
       = (Ok changes, h') \<and>
     apply_health_condition_changes ''hero-1'' changes condition_set_empty = (Ok (), s') \<and>
     hp_agrees h' s' \<and> hs_vital_status h' = Dying \<and> cs_contains s' Unconscious"
proof -
  note hit = apply_damage_def profile_interaction_def plain_profile_def hurt_hero_def
    profile_ok_def health_ok_def tally_default_def u16_max_def damage_status_def
  let ?i = "DamageInput plain_profile \<lparr>dmg_amount = 4, dmg_type = Fire, dmg_critical_hit = False\<rparr>
    :: nat health_input"
  let ?ch = "[WakeFromSleep, ApplyZeroHitPointUnconscious, ApplyProne]"
  let ?s = "snd (apply_health_condition_changes ''hero-1'' ?ch condition_set_empty)"
  have i: "health_step ?i hurt_hero = (Ok ?ch, dying_hero)"
    by (simp add: hit dying_hero_def Let_def)
  have c: "fst (apply_health_condition_changes ''hero-1'' ?ch condition_set_empty) = Ok ()"
    by code_simp
  then have s: "apply_health_condition_changes ''hero-1'' ?ch condition_set_empty = (Ok (), ?s)"
    by (metis prod.collapse)
  have u: "cs_contains ?s Unconscious" by code_simp
  have "hp_agrees hurt_hero condition_set_empty"
    by (simp add: hp_agrees_def hurt_hero_def zero_hp_conditions_def condition_set_empty_def)
  from conditions_track_hit_points [OF this i s] i s u show ?thesis
    by (auto simp: dying_hero_def)
qed

end
