(* ===== verification/Attack.thy ===== *)
theory Attack
  imports D20_Tests Health
begin

text \<open>
  Damage dice and weapon attacks of \<open>rules_matrix.rs\<close>: from the derived sheet, through range,
  conditions and the d20 test, to the damage after the target's interactions.
\<close>

section \<open>Damage dice\<close>

record damage_dice_resolution =
  ddr_sides :: u8
  ddr_dice :: "u8 list"
  ddr_constant :: i8
  ddr_critical :: bool
  ddr_total :: u16

fun roll_damage :: "nat \<Rightarrow> u8 \<Rightarrow> 's dice \<Rightarrow> 's \<Rightarrow> u8 list rules_result \<times> 's" where
  "roll_damage 0 sides roll d = (Ok [], d)"
| "roll_damage (Suc n) sides roll d =
     (let (v, d) = roll sides d in
      if v > u8_max then (Err (InvalidState (DiceFault DiceValueOverflow)), d)
      else if \<not> (1 \<le> v \<and> v \<le> sides) then (Err (CoreError (InvalidDieRoll sides v)), d)
      else and_then_st (roll_damage n sides roll d) (\<lambda>vs d. (Ok (v # vs), d)))"

definition resolve_damage_dice ::
  "u8 \<Rightarrow> u8 \<Rightarrow> i8 \<Rightarrow> bool \<Rightarrow> 's dice \<Rightarrow> 's \<Rightarrow> damage_dice_resolution rules_result \<times> 's" where
  "resolve_damage_dice dice_count sides constant critical roll d =
     and_then_st
       (if \<not> (1 \<le> dice_count \<and> dice_count \<le> 20) \<or> \<not> (2 \<le> sides \<and> sides \<le> 100)
        then Err (InvalidIntent (DiceFault DamageDiceGrammar))
        else ok_or (checked_mul u8_max dice_count (if critical then 2 else 1)) ArithmeticOverflow, d)
       (\<lambda>rolled_count d.
         and_then_st (roll_damage rolled_count sides roll d) (\<lambda>rolled d.
           let tot = max (sum_list (map int rolled) + constant) 0 in
           (if tot > int u16_max then Err ArithmeticOverflow
            else Ok \<lparr>ddr_sides = sides, ddr_dice = rolled, ddr_constant = constant,
                     ddr_critical = critical, ddr_total = nat tot\<rparr>, d)))"

section \<open>Weapon attacks\<close>

record weapon_attack_target =
  wt_target_id :: string
  wt_distance_feet :: u16
  wt_armor_class :: u8
  wt_cover :: cover
  wt_threatened :: bool
  wt_damage_profile :: damage_profile

record weapon_attack_resolution =
  wr_attack_id :: string
  wr_range :: range_resolution
  wr_attack :: d20_test_resolution
  wr_damage :: "damage_dice_resolution option"
  wr_damage_interaction :: "damage_interaction option"
  wr_effective_damage :: u16
  wr_critical_damage :: bool

record weapon_attack_condition_context =
  wc_base_roll_context :: roll_context
  wc_situational_modifiers :: "situational_modifier list"
  wc_attacker_conditions :: condition_set
  wc_target_conditions :: condition_set

text \<open>Everything the attack checks before it rolls: the summary and its range.\<close>

definition prepare_weapon_attack ::
  "derived_hero_sheet \<Rightarrow> string \<Rightarrow> attack_mode \<Rightarrow> weapon_attack_target
    \<Rightarrow> (attack_summary \<times> range_resolution \<times> level) rules_result" where
  "prepare_weapon_attack sheet attack_id mode target =
     and_then (require_id attack_id (WeaponFault AttackIdInvalid)) (\<lambda>_.
     and_then (require_id (wt_target_id target) (WeaponFault AttackTargetInvalid)) (\<lambda>_.
     and_then (profile_validate (wt_damage_profile target)) (\<lambda>_.
     and_then (ok_or (find (\<lambda>a. at_attack_id a = attack_id) (sh_attacks sheet))
                (unsupported_error attack_id)) (\<lambda>a.
     and_then (resolve_weapon_range (at_weapon a) mode (wt_distance_feet target)
                (wt_threatened target)) (\<lambda>range.
     if at_attack_bonus a \<noteq>
          score_modifier (scores_get (sh_ability_scores sheet) (at_ability a)) +
          int (sh_proficiency_bonus sheet)
     then Err (InvalidState (WeaponFault AttackBonusMismatch))
     else if \<not> (1 \<le> dd_count (at_damage a) \<and> dd_count (at_damage a) \<le> 20)
          \<or> \<not> (2 \<le> dd_sides (at_damage a) \<and> dd_sides (at_damage a) \<le> 100)
     then Err (InvalidState (WeaponFault DerivedDamageDice))
     else and_then (lift_core (level_new (supported_level_value (sh_level sheet)))) (\<lambda>l.
       Ok (a, range, l)))))))"

definition resolve_weapon_attack_internal ::
  "derived_hero_sheet \<Rightarrow> string \<Rightarrow> attack_mode \<Rightarrow> weapon_attack_target \<Rightarrow> roll_context
    \<Rightarrow> situational_modifier list \<Rightarrow> bool \<Rightarrow> 's dice \<Rightarrow> 's
    \<Rightarrow> weapon_attack_resolution rules_result \<times> 's" where
  "resolve_weapon_attack_internal sheet attack_id mode target base modifiers override roll d =
     and_then_st (prepare_weapon_attack sheet attack_id mode target, d) (\<lambda>(a, range, l) d.
     and_then_st
       (resolve_d20_test roll (sh_ability_scores sheet) l
         \<lparr>dq_schema_version = rules_matrix_schema_version, dq_ability = at_ability a,
          dq_proficiency = Proficient,
          dq_roll_context = combine_roll_context base
            \<lparr>advantage_sources = 0, disadvantage_sources = rg_disadvantage_sources range\<rparr>,
          dq_situational_modifiers = modifiers,
          dq_target = AttackTarget (wt_armor_class target) (wt_cover target)\<rparr> d)
       (\<lambda>attack d.
         let critical = outcome_succeeds (dr_outcome attack) \<and>
                        (dr_outcome attack = TestCriticalHit \<or> override)
         in and_then_st
           (if outcome_succeeds (dr_outcome attack)
            then and_then_st
              (resolve_damage_dice (dd_count (at_damage a)) (dd_sides (at_damage a))
                 (dd_constant (at_damage a)) critical roll d)
              (\<lambda>damage d.
                (and_then (profile_interaction (wt_damage_profile target) (at_damage_type a)) (\<lambda>i.
                 and_then (interacted_damage (ddr_total damage) i) (\<lambda>e.
                   Ok (Some damage, Some i, e))), d))
            else (Ok (None, None, 0), d))
           (\<lambda>(damage, interaction, effective) d.
             (Ok \<lparr>wr_attack_id = attack_id, wr_range = range, wr_attack = attack,
                  wr_damage = damage, wr_damage_interaction = interaction,
                  wr_effective_damage = effective, wr_critical_damage = critical\<rparr>, d))))"

definition resolve_weapon_attack ::
  "derived_hero_sheet \<Rightarrow> string \<Rightarrow> attack_mode \<Rightarrow> weapon_attack_target \<Rightarrow> roll_context
    \<Rightarrow> situational_modifier list \<Rightarrow> 's dice \<Rightarrow> 's \<Rightarrow> weapon_attack_resolution rules_result \<times> 's" where
  "resolve_weapon_attack sheet attack_id mode target base modifiers roll d =
     resolve_weapon_attack_internal sheet attack_id mode target base modifiers False roll d"

definition resolve_conditioned_weapon_attack ::
  "derived_hero_sheet \<Rightarrow> string \<Rightarrow> attack_mode \<Rightarrow> weapon_attack_target
    \<Rightarrow> weapon_attack_condition_context \<Rightarrow> 's dice \<Rightarrow> 's
    \<Rightarrow> weapon_attack_resolution rules_result \<times> 's" where
  "resolve_conditioned_weapon_attack sheet attack_id mode target context roll d =
     and_then_st
       (and_then (condition_effects_of (wc_attacker_conditions context) OwnAttack) (\<lambda>attacker.
          if ce_actions_blocked attacker
          then Err (InvalidIntent (D20Fault ConditionsPreventAttack))
          else and_then (condition_effects_of (wc_target_conditions context)
                          (IncomingAttack (wt_distance_feet target))) (\<lambda>incoming.
               Ok (attacker, incoming))), d)
       (\<lambda>(attacker, incoming) d.
         resolve_weapon_attack_internal sheet attack_id mode target
           (combine_roll_context
             (combine_roll_context (wc_base_roll_context context) (ce_roll_context attacker))
             (ce_roll_context incoming))
           (wc_situational_modifiers context) (ce_incoming_hit_is_critical incoming) roll d)"

section \<open>Damage dice in bounds\<close>

lemma roll_damage_Ok:
  "roll_damage n sides roll d = (Ok vs, d') \<Longrightarrow>
     length vs = n \<and> list_all (\<lambda>v. 1 \<le> v \<and> v \<le> sides) vs"
  by (induction n arbitrary: d vs) (auto simp: Let_def split: prod.splits if_splits)

lemma sum_rolled_bounds:
  "list_all (\<lambda>v. 1 \<le> v \<and> v \<le> sides) vs \<Longrightarrow>
     int (length vs) \<le> sum_list (map int vs) \<and> sum_list (map int vs) \<le> int (length vs) * int sides"
  by (induction vs) (auto simp: distrib_right)

lemma resolve_damage_dice_Ok:
  assumes "resolve_damage_dice n sides c critical roll d = (Ok x, d')"
  shows "1 \<le> n" "n \<le> 20" "2 \<le> sides" "sides \<le> 100"
    "length (ddr_dice x) = (if critical then 2 * n else n)"
    "list_all (\<lambda>v. 1 \<le> v \<and> v \<le> sides) (ddr_dice x)"
    "int (ddr_total x) = max (sum_list (map int (ddr_dice x)) + c) 0"
    "ddr_critical x = critical" "ddr_constant x = c" "ddr_sides x = sides"
proof -
  obtain k where k: "checked_mul u8_max n (if critical then 2 else 1) = Some k"
    and g: "1 \<le> n" "n \<le> 20" "2 \<le> sides" "sides \<le> 100"
    and r: "roll_damage k sides roll d = (Ok (ddr_dice x), d')"
    and x: "int (ddr_total x) = max (sum_list (map int (ddr_dice x)) + c) 0"
      "ddr_critical x = critical" "ddr_constant x = c" "ddr_sides x = sides"
    using assms by (auto simp: resolve_damage_dice_def Let_def split: if_splits)
  from k have "k = (if critical then 2 * n else n)" by (auto simp: mult.commute split: if_splits)
  with roll_damage_Ok [OF r] g x show "1 \<le> n" "n \<le> 20" "2 \<le> sides" "sides \<le> 100"
    "length (ddr_dice x) = (if critical then 2 * n else n)"
    "list_all (\<lambda>v. 1 \<le> v \<and> v \<le> sides) (ddr_dice x)"
    "int (ddr_total x) = max (sum_list (map int (ddr_dice x)) + c) 0"
    "ddr_critical x = critical" "ddr_constant x = c" "ddr_sides x = sides"
    by auto
qed

text \<open>Twenty dice of a hundred sides doubled stay far below the width of the total.\<close>

lemma resolve_damage_dice_eq:
  assumes "1 \<le> n" "n \<le> 20" "2 \<le> sides" "sides \<le> 100" "c \<le> 127"
  shows "resolve_damage_dice n sides c critical roll d =
    (case roll_damage (if critical then 2 * n else n) sides roll d of
       (Err e, d') \<Rightarrow> (Err e, d')
     | (Ok vs, d') \<Rightarrow>
         (Ok \<lparr>ddr_sides = sides, ddr_dice = vs, ddr_constant = c, ddr_critical = critical,
              ddr_total = nat (max (sum_list (map int vs) + c) 0)\<rparr>, d'))"
proof -
  let ?k = "if critical then 2 * n else n"
  have k: "checked_mul u8_max n (if critical then 2 else 1) = Some ?k" "?k \<le> 40"
    using assms(2) by (auto simp: checked_mul_def u8_max_def)
  show ?thesis
  proof (cases "roll_damage ?k sides roll d")
    case (Pair r d')
    show ?thesis
    proof (cases r)
      case (Err e)
      with Pair assms show ?thesis
        by (cases critical)
          (simp_all add: resolve_damage_dice_def checked_mul_def u8_max_def ok_or_def mult.commute)
    next
      case (Ok vs)
      have v: "length vs = ?k" "list_all (\<lambda>v. 1 \<le> v \<and> v \<le> sides) vs"
        using roll_damage_Ok [of ?k sides roll d vs d'] Pair Ok by auto
      have "int (length vs) * int sides \<le> 40 * 100"
        using v(1) k(2) assms(4) by (intro mult_mono) auto
      with sum_rolled_bounds [OF v(2)] assms(5) have "sum_list (map int vs) + c \<le> 4127"
        by linarith
      then have "\<not> int u16_max < max (sum_list (map int vs) + c) 0"
        by (simp add: u16_max_def)
      with Pair Ok assms show ?thesis
        by (cases critical)
          (simp_all add: resolve_damage_dice_def checked_mul_def u8_max_def ok_or_def mult.commute
            Let_def)
    qed
  qed
qed

context bounded_dice
begin

lemma roll_damage_Err:
  assumes "sides \<le> 255" "roll_damage n sides roll d = (Err e, d')"
  shows "e = CoreError (InvalidDieRoll sides 0)"
  using assms(2)
proof (induction n arbitrary: d)
  case 0
  then show ?case by simp
next
  case (Suc n)
  obtain v d1 where v: "roll sides d = (v, d1)" by (cases "roll sides d")
  with roll_le [of sides d] have "v \<le> sides" by simp
  with Suc v assms(1) show ?case
    by (auto simp: u8_max_def and_then_st_Err_iff split: if_splits)
qed

lemma damage_dice_Err:
  assumes "1 \<le> n" "n \<le> 20" "2 \<le> sides" "sides \<le> 100" "c \<le> 127"
    "resolve_damage_dice n sides c critical roll d = (Err e, d')"
  shows "e = CoreError (InvalidDieRoll sides 0)"
  using assms(6) roll_damage_Err [of sides "if critical then 2 * n else n" d] assms(4)
  by (auto simp: resolve_damage_dice_eq [OF assms(1-5)] split: prod.splits result.splits)

end

section \<open>What an attack decides\<close>

lemma weapon_attack_internal_Ok:
  assumes "resolve_weapon_attack_internal sheet i mode t base ms ovr roll d = (Ok x, d')"
  obtains a range l d1 where
    "prepare_weapon_attack sheet i mode t = Ok (a, range, l)" "wr_range x = range"
    "resolve_d20_test roll (sh_ability_scores sheet) l
         \<lparr>dq_schema_version = rules_matrix_schema_version, dq_ability = at_ability a,
          dq_proficiency = Proficient,
          dq_roll_context = combine_roll_context base
            \<lparr>advantage_sources = 0, disadvantage_sources = rg_disadvantage_sources range\<rparr>,
          dq_situational_modifiers = ms,
          dq_target = AttackTarget (wt_armor_class t) (wt_cover t)\<rparr> d = (Ok (wr_attack x), d1)"
    "wr_critical_damage x \<longleftrightarrow> outcome_succeeds (dr_outcome (wr_attack x)) \<and>
       (dr_outcome (wr_attack x) = TestCriticalHit \<or> ovr)"
    "if outcome_succeeds (dr_outcome (wr_attack x))
     then \<exists>dmg. resolve_damage_dice (dd_count (at_damage a)) (dd_sides (at_damage a))
                  (dd_constant (at_damage a)) (wr_critical_damage x) roll d1 = (Ok dmg, d') \<and>
            wr_damage x = Some dmg \<and>
            wr_damage_interaction x = Some (interaction_of (wt_damage_profile t) (at_damage_type a)) \<and>
            interacted_damage (ddr_total dmg) (interaction_of (wt_damage_profile t) (at_damage_type a)) =
              Ok (wr_effective_damage x)
     else wr_damage x = None \<and> wr_damage_interaction x = None \<and> wr_effective_damage x = 0 \<and> d' = d1"
proof -
  obtain a range l where p: "prepare_weapon_attack sheet i mode t = Ok (a, range, l)"
    using assms by (cases "prepare_weapon_attack sheet i mode t")
      (auto simp: resolve_weapon_attack_internal_def)
  let ?q = "\<lparr>dq_schema_version = rules_matrix_schema_version, dq_ability = at_ability a,
          dq_proficiency = Proficient,
          dq_roll_context = combine_roll_context base
            \<lparr>advantage_sources = 0, disadvantage_sources = rg_disadvantage_sources range\<rparr>,
          dq_situational_modifiers = ms,
          dq_target = AttackTarget (wt_armor_class t) (wt_cover t)\<rparr>"
  have prof: "profile_ok (wt_damage_profile t)"
    using p by (auto simp: prepare_weapon_attack_def)
  obtain r d1 where r: "resolve_d20_test roll (sh_ability_scores sheet) l ?q d = (Ok r, d1)"
    using assms p
    by (cases "resolve_d20_test roll (sh_ability_scores sheet) l ?q d";
        cases "fst (resolve_d20_test roll (sh_ability_scores sheet) l ?q d)")
      (auto simp: resolve_weapon_attack_internal_def)
  show ?thesis
    using assms p r prof
    by (intro that [of a range l d1])
      (auto simp: resolve_weapon_attack_internal_def Let_def profile_interaction_eq
        split: if_splits)
qed

section \<open>Properties\<close>


definition swordsman :: derived_hero_sheet where
  "swordsman =
     \<lparr>sh_schema_version = 1, sh_derivation_id = ''derivation'', sh_level = LevelOne,
      sh_proficiency_bonus = 2, sh_base_scores = adept_scores, sh_ability_scores = adept_scores,
      sh_ability_modifiers = modifiers_from_scores adept_scores, sh_armor_class = 16,
      sh_speed_feet = 30, sh_maximum_hit_points = 11, sh_current_hit_points = 11,
      sh_saving_throws = [], sh_skills = [],
      sh_passive_values = \<lparr>pv_perception = 9, pv_investigation = 10, pv_insight = 9\<rparr>,
      sh_attacks = [\<lparr>at_attack_id = ''attack:longsword'', at_weapon = Longsword, at_ability = Strength,
        at_attack_bonus = 5, at_damage = \<lparr>dd_count = 1, dd_sides = 8, dd_constant = 3\<rparr>,
        at_damage_type = Slashing, at_normal_range_feet = 5, at_long_range_feet = None,
        at_versatile_damage_sides = Some 10\<rparr>],
      sh_resources = [], sh_equipment =
        \<lparr>eq_carried = [LongswordItem], eq_simple_weapon = None, eq_equipped_armor = None,
         eq_shield_equipped = False, eq_capacity_policy_id = ''capacity''\<rparr>,
      sh_spellcasting = None, sh_features = [], sh_legal_action_capabilities = [CapAttack]\<rparr>"

definition armored_wight :: weapon_attack_target where
  "armored_wight =
     \<lparr>wt_target_id = ''wight-1'', wt_distance_feet = 5, wt_armor_class = 30,
      wt_cover = ThreeQuartersCover, wt_threatened = False,
      wt_damage_profile =
        \<lparr>dp_resistances = [], dp_vulnerabilities = [Slashing], dp_immunities = []\<rparr>\<rparr>"

definition critical_dice :: "nat dice" where
  "critical_dice sides d = ([20, 4, 5] ! d, d + 1)"


end
