(* ===== verification/Resources.thy ===== *)
theory Resources
  imports Health
begin

text \<open>
  Runtime resources of \<open>rules_matrix.rs\<close>: counters, the pools of a class and level, the fighter's
  bonus action, second wind and action surge, hit dice, and the two rests.
\<close>

section \<open>Counters\<close>

record resource_counter =
  ctr_kind :: resource_kind
  ctr_current :: u8
  ctr_maximum :: u8

definition counter_validate :: "resource_counter \<Rightarrow> unit rules_result" where
  "counter_validate c =
     (if ctr_maximum c = 0 \<or> ctr_current c > ctr_maximum c
      then Err (InvalidState (ResourceFault CounterOutOfRange)) else Ok ())"

definition counter_spend :: "resource_counter \<Rightarrow> unit rules_result \<times> resource_counter" where
  "counter_spend c =
     and_then_st
       (and_then (counter_validate c) (\<lambda>_.
          if ctr_current c = 0 then Err (InvalidIntent (ResourceFault ClassResourceUnavailable))
          else Ok ()), c)
       (\<lambda>_ c. (Ok (), c\<lparr>ctr_current := ctr_current c - 1\<rparr>))"

definition restore_all :: "resource_counter \<Rightarrow> resource_counter" where
  "restore_all c = c\<lparr>ctr_current := ctr_maximum c\<rparr>"

definition full_counter :: "resource_kind \<Rightarrow> u8 \<Rightarrow> resource_counter" where
  "full_counter k n = \<lparr>ctr_kind = k, ctr_current = n, ctr_maximum = n\<rparr>"

section \<open>The pools of a hero\<close>

record runtime_resources =
  rs_schema_version :: u16
  rs_class :: hero_class
  rs_level :: supported_level
  rs_hit_dice :: resource_counter
  rs_second_wind :: "resource_counter option"
  rs_action_surge :: "resource_counter option"
  rs_spell_slots :: "resource_counter option"
  rs_arcane_recovery :: "resource_counter option"

definition resources_new :: "hero_class \<Rightarrow> supported_level \<Rightarrow> runtime_resources" where
  "resources_new cls lvl =
     (let hit_dice = full_counter (case cls of Fighter \<Rightarrow> HitDiceD10 | Wizard \<Rightarrow> HitDiceD6)
                       (supported_level_value lvl)
      in case cls of
        Fighter \<Rightarrow>
          \<lparr>rs_schema_version = rules_matrix_schema_version, rs_class = cls, rs_level = lvl,
           rs_hit_dice = hit_dice, rs_second_wind = Some (full_counter SecondWindPool 1),
           rs_action_surge =
             (if lvl = LevelTwo then Some (full_counter ActionSurgePool 1) else None),
           rs_spell_slots = None, rs_arcane_recovery = None\<rparr>
      | Wizard \<Rightarrow>
          \<lparr>rs_schema_version = rules_matrix_schema_version, rs_class = cls, rs_level = lvl,
           rs_hit_dice = hit_dice, rs_second_wind = None, rs_action_surge = None,
           rs_spell_slots =
             Some (full_counter LevelOneSpellSlots (if lvl = LevelOne then 2 else 3)),
           rs_arcane_recovery = Some (full_counter ArcaneRecoveryPool 1)\<rparr>)"

fun somes :: "'a option list \<Rightarrow> 'a list" where
  "somes [] = []"
| "somes (None # xs) = somes xs"
| "somes (Some x # xs) = x # somes xs"

definition optional_pools :: "runtime_resources \<Rightarrow> resource_counter list" where
  "optional_pools r =
     somes [rs_second_wind r, rs_action_surge r, rs_spell_slots r, rs_arcane_recovery r]"

fun option_resource_shape :: "resource_counter option \<Rightarrow> resource_counter option \<Rightarrow> bool" where
  "option_resource_shape None None = True"
| "option_resource_shape (Some a) (Some e) = (ctr_kind a = ctr_kind e \<and> ctr_maximum a = ctr_maximum e)"
| "option_resource_shape _ _ = False"

definition resources_validate :: "runtime_resources \<Rightarrow> unit rules_result" where
  "resources_validate r =
     (if rs_schema_version r \<noteq> rules_matrix_schema_version
      then Err (InvalidState (ResourceFault ResourceSchema))
      else and_then (counter_validate (rs_hit_dice r)) (\<lambda>_.
        and_then (check_each counter_validate (optional_pools r)) (\<lambda>_.
          let expected = resources_new (rs_class r) (rs_level r) in
          if \<not> (ctr_kind (rs_hit_dice r) = ctr_kind (rs_hit_dice expected) \<and>
                ctr_maximum (rs_hit_dice r) = ctr_maximum (rs_hit_dice expected) \<and>
                option_resource_shape (rs_second_wind r) (rs_second_wind expected) \<and>
                option_resource_shape (rs_action_surge r) (rs_action_surge expected) \<and>
                option_resource_shape (rs_spell_slots r) (rs_spell_slots expected) \<and>
                option_resource_shape (rs_arcane_recovery r) (rs_arcane_recovery expected))
          then Err (InvalidState (ResourceFault ResourceShape)) else Ok ())))"

text \<open>The counters of a fresh profile take their current value from the derived sheet.\<close>

definition sheet_current :: "derived_hero_sheet \<Rightarrow> resource_counter \<Rightarrow> resource_counter rules_result" where
  "sheet_current sheet c =
     and_then (ok_or (find (\<lambda>pool. pool_resource pool = ctr_kind c) (sh_resources sheet))
                (InvalidState (ResourceFault SheetResourceMissing)))
       (\<lambda>pool. Ok (c\<lparr>ctr_current := pool_current pool\<rparr>))"

fun sheet_current_opt ::
  "derived_hero_sheet \<Rightarrow> resource_counter option \<Rightarrow> resource_counter option rules_result" where
  "sheet_current_opt sheet None = Ok None"
| "sheet_current_opt sheet (Some c) = and_then (sheet_current sheet c) (\<lambda>c. Ok (Some c))"

definition resources_from_derived_sheet ::
  "hero_class \<Rightarrow> derived_hero_sheet \<Rightarrow> runtime_resources rules_result" where
  "resources_from_derived_sheet cls sheet =
     (let expected = resources_new cls (sh_level sheet);
          pools = rs_hit_dice expected # optional_pools expected
      in if length (sh_resources sheet) \<noteq> length pools
            \<or> list_ex (\<lambda>e. \<not> list_ex (\<lambda>pool. pool_resource pool = ctr_kind e
                                   \<and> pool_maximum pool = ctr_maximum e) (sh_resources sheet)) pools
         then Err (InvalidState (ResourceFault SheetResourcesMismatch))
         else and_then (sheet_current sheet (rs_hit_dice expected)) (\<lambda>hd.
              and_then (sheet_current_opt sheet (rs_second_wind expected)) (\<lambda>sw.
              and_then (sheet_current_opt sheet (rs_action_surge expected)) (\<lambda>asu.
              and_then (sheet_current_opt sheet (rs_spell_slots expected)) (\<lambda>sl.
              and_then (sheet_current_opt sheet (rs_arcane_recovery expected)) (\<lambda>ar.
              let r = expected\<lparr>rs_hit_dice := hd, rs_second_wind := sw, rs_action_surge := asu,
                              rs_spell_slots := sl, rs_arcane_recovery := ar\<rparr>
              in and_then (resources_validate r) (\<lambda>_. Ok r)))))))"

definition has_spell_slot :: "runtime_resources \<Rightarrow> bool" where
  "has_spell_slot r = (case rs_spell_slots r of None \<Rightarrow> False | Some p \<Rightarrow> ctr_current p > 0)"

definition spend_spell_slot :: "runtime_resources \<Rightarrow> unit rules_result \<times> runtime_resources" where
  "spend_spell_slot r =
     (case rs_spell_slots r of
        None \<Rightarrow> (Err (unsupported_error ''resource.level-one-spell-slot''), r)
      | Some p \<Rightarrow> (let (x, p') = counter_spend p in (x, r\<lparr>rs_spell_slots := Some p'\<rparr>)))"

section \<open>Fighter features\<close>

definition grant_supported_bonus_action ::
  "runtime_resources \<Rightarrow> action_economy \<Rightarrow> unit rules_result \<times> action_economy" where
  "grant_supported_bonus_action r eco =
     and_then_st (resources_validate r, eco) (\<lambda>_ eco.
       (Ok (), if (case rs_second_wind r of None \<Rightarrow> False | Some p \<Rightarrow> ctr_current p > 0)
               then grant_bonus_action eco else eco))"

record second_wind_resolution =
  sw_healing_roll :: u8
  sw_level_bonus :: u8
  sw_healing :: healing_resolution

type_synonym hero_state = "runtime_resources \<times> action_economy \<times> health_state"

definition use_second_wind ::
  "'s dice \<Rightarrow> 's \<Rightarrow> hero_state \<Rightarrow> second_wind_resolution rules_result \<times> hero_state \<times> 's" where
  "use_second_wind roll d st =
     (let (res, eco, hp) = st in
      and_then_st
       (and_then (resources_validate res) (\<lambda>_. and_then (health_validate hp) (\<lambda>_.
          if rs_class res \<noteq> Fighter then Err (unsupported_error ''feature.second-wind'')
          else if \<not> bonus_action_available eco
          then Err (InvalidIntent (ResourceFault SecondWindNeedsBonusAction))
          else case rs_second_wind res of
            None \<Rightarrow> Err (InvalidIntent (ResourceFault SecondWindUnavailable))
          | Some pool \<Rightarrow>
              if ctr_current pool = 0 then Err (InvalidIntent (ResourceFault SecondWindUnavailable))
              else Ok pool)), st, d)
       (\<lambda>pool (st, d).
         let (v, d) = roll 10 d in
         if v > u8_max then (Err (InvalidState (DiceFault DiceValueOverflow)), st, d)
         else if \<not> (1 \<le> v \<and> v \<le> 10) then (Err (CoreError (InvalidDieRoll 10 v)), st, d)
         else
           let amount = v + supported_level_value (rs_level res);
               (spent, pool') = counter_spend pool
           in case spent of
                Err e \<Rightarrow> (Err e, st, d)
              | Ok _ \<Rightarrow>
                  (case apply_healing amount hp of
                     (Err e, _) \<Rightarrow> (Err e, st, d)
                   | (Ok healing, hp') \<Rightarrow>
                       (case economy_spend BonusAction eco of
                          (Err e, eco') \<Rightarrow> (Err (CoreError e), (res, eco', hp), d)
                        | (Ok _, eco') \<Rightarrow>
                            (Ok \<lparr>sw_healing_roll = v,
                                 sw_level_bonus = supported_level_value (rs_level res),
                                 sw_healing = healing\<rparr>,
                             (res\<lparr>rs_second_wind := Some pool'\<rparr>, eco', hp'), d)))))"

definition use_action_surge ::
  "runtime_resources \<times> action_economy \<Rightarrow> unit rules_result \<times> runtime_resources \<times> action_economy" where
  "use_action_surge st =
     (let (res, eco) = st in
      and_then_st
       (and_then (resources_validate res) (\<lambda>_.
          if action_available eco then Err (InvalidIntent (ResourceFault SurgeNeedsSpentAction))
          else ok_or (rs_action_surge res) (unsupported_error ''feature.action-surge'')), st)
       (\<lambda>pool st.
         case counter_spend pool of
           (Err e, pool') \<Rightarrow> (Err e, res\<lparr>rs_action_surge := Some pool'\<rparr>, eco)
         | (Ok _, pool') \<Rightarrow>
             (Ok (), res\<lparr>rs_action_surge := Some pool'\<rparr>, eco\<lparr>action_available := True\<rparr>)))"

section \<open>Hit dice\<close>

record hit_die_spend_resolution =
  hd_hit_die :: resource_kind
  hd_roll :: u8
  hd_constitution_modifier :: i8
  hd_healing_total :: u16
  hd_hit_points_recovered :: u16
  hd_condition_changes :: "health_condition_change list"
  hd_resulting_health :: health_state
  hd_resulting_resources :: runtime_resources

definition hit_die_sides :: "runtime_resources \<Rightarrow> u16 rules_result" where
  "hit_die_sides r =
     (case ctr_kind (rs_hit_dice r) of
        HitDiceD6 \<Rightarrow> Ok 6
      | HitDiceD10 \<Rightarrow> Ok 10
      | _ \<Rightarrow> Err (InvalidState (ResourceFault HitDieKind)))"

definition validate_hit_die_spend ::
  "runtime_resources \<Rightarrow> health_state \<Rightarrow> i8 \<Rightarrow> u16 rules_result" where
  "validate_hit_die_spend res hp con =
     and_then (resources_validate res) (\<lambda>_. and_then (health_validate hp) (\<lambda>_.
       if hs_vital_status hp = Dead \<or> ctr_current (rs_hit_dice res) = 0
       then Err (InvalidIntent (ResourceFault HitDieUnavailable))
       else if \<not> (-5 \<le> con \<and> con \<le> 10) then Err (InvalidIntent (ResourceFault ConstitutionRange))
       else hit_die_sides res))"

type_synonym rest_state = "runtime_resources \<times> health_state"

definition spend_hit_die ::
  "i8 \<Rightarrow> 's dice \<Rightarrow> 's \<Rightarrow> rest_state \<Rightarrow> hit_die_spend_resolution rules_result \<times> rest_state \<times> 's" where
  "spend_hit_die con roll d st =
     (let (res, hp) = st in
      and_then_st (validate_hit_die_spend res hp con, st, d) (\<lambda>sides (st, d).
        let (v, d) = roll sides d in
        if \<not> (1 \<le> v \<and> v \<le> sides) then (Err (CoreError (InvalidDieRoll sides v)), st, d)
        else
          let total_healing = nat (max (int v + con) 0);
              res' = res\<lparr>rs_hit_dice := (rs_hit_dice res)
                         \<lparr>ctr_current := ctr_current (rs_hit_dice res) - 1\<rparr>\<rparr>;
              (healed, hp') =
                (if total_healing = 0 then (Ok (0, []), hp)
                 else and_then_st (apply_healing total_healing hp)
                   (\<lambda>x hp. (Ok (hres_effective_healing x, hres_condition_changes x), hp)))
          in (case and_then healed (\<lambda>x. and_then (resources_validate res') (\<lambda>_.
                    and_then (health_validate hp') (\<lambda>_. Ok x))) of
                Err e \<Rightarrow> (Err e, st, d)
              | Ok (recovered, changes) \<Rightarrow>
                  (Ok \<lparr>hd_hit_die = ctr_kind (rs_hit_dice res'), hd_roll = as_u8 v,
                       hd_constitution_modifier = con, hd_healing_total = total_healing,
                       hd_hit_points_recovered = recovered, hd_condition_changes = changes,
                       hd_resulting_health = hp', hd_resulting_resources = res'\<rparr>,
                   (res', hp'), d))))"

section \<open>Rests\<close>

record short_rest_request =
  sq_hit_dice_to_spend :: u8
  sq_use_arcane_recovery :: bool

record rest_resolution =
  rest_hit_die_rolls :: "u8 list"
  rest_hit_points_recovered :: u16
  rest_hit_dice_recovered :: u8
  rest_spell_slots_recovered :: u8
  rest_resulting_health :: health_state
  rest_resulting_resources :: runtime_resources

definition validate_arcane_recovery_request :: "runtime_resources \<Rightarrow> bool \<Rightarrow> unit rules_result" where
  "validate_arcane_recovery_request res requested =
     (if \<not> requested then Ok ()
      else and_then (ok_or (rs_arcane_recovery res) (unsupported_error ''feature.arcane-recovery''))
        (\<lambda>recovery.
           and_then (ok_or (rs_spell_slots res) (unsupported_error ''resource.level-one-spell-slot''))
             (\<lambda>slots.
                if ctr_current recovery = 0 \<or> ctr_current slots = ctr_maximum slots
                then Err (InvalidIntent (ResourceFault ArcaneRecoveryUnavailable)) else Ok ())))"

fun spend_hit_dice_loop ::
  "nat \<Rightarrow> i8 \<Rightarrow> 's dice \<Rightarrow> 's \<Rightarrow> u8 list \<Rightarrow> u16 \<Rightarrow> rest_state
    \<Rightarrow> (u8 list \<times> u16) rules_result \<times> rest_state \<times> 's" where
  "spend_hit_dice_loop 0 con roll d rolls recovered st = (Ok (rolls, recovered), st, d)"
| "spend_hit_dice_loop (Suc n) con roll d rolls recovered st =
     and_then_st (spend_hit_die con roll d st) (\<lambda>x (st, d).
       case checked_add u16_max recovered (hd_hit_points_recovered x) of
         None \<Rightarrow> (Err ArithmeticOverflow, st, d)
       | Some recovered \<Rightarrow>
           spend_hit_dice_loop n con roll d (rolls @ [hd_roll x]) recovered st)"

definition restore_fighter_pools :: "runtime_resources \<Rightarrow> runtime_resources" where
  "restore_fighter_pools r =
     r\<lparr>rs_second_wind := map_option restore_all (rs_second_wind r),
       rs_action_surge := map_option restore_all (rs_action_surge r)\<rparr>"

text \<open>
  Arcane Recovery inside the rest. The two \<open>expect\<close>s of the source sit where a pool is missing;
  \<open>validate_arcane_recovery_request\<close> has already refused such a request with the same error.
\<close>

definition recover_slot :: "runtime_resources \<Rightarrow> runtime_resources rules_result" where
  "recover_slot r =
     and_then (ok_or (rs_arcane_recovery r) (unsupported_error ''feature.arcane-recovery'')) (\<lambda>rec.
     and_then (ok_or (rs_spell_slots r) (unsupported_error ''resource.level-one-spell-slot'')) (\<lambda>sl.
     and_then (fst (counter_spend rec)) (\<lambda>_.
       Ok (r\<lparr>rs_arcane_recovery := Some (snd (counter_spend rec)),
             rs_spell_slots := Some (sl\<lparr>ctr_current := ctr_current sl + 1\<rparr>)\<rparr>))))"

definition take_short_rest ::
  "i8 \<Rightarrow> short_rest_request \<Rightarrow> 's dice \<Rightarrow> 's \<Rightarrow> rest_state
    \<Rightarrow> rest_resolution rules_result \<times> rest_state \<times> 's" where
  "take_short_rest con q roll d st =
     (let (res, hp) = st in
      and_then_st
       (and_then (resources_validate res) (\<lambda>_. and_then (health_validate hp) (\<lambda>_.
          if hs_vital_status hp = Dead \<or> sq_hit_dice_to_spend q > ctr_current (rs_hit_dice res)
          then Err (InvalidIntent (ResourceFault ShortRestInvalid))
          else if \<not> (-5 \<le> con \<and> con \<le> 10)
          then Err (InvalidIntent (ResourceFault ConstitutionRange))
          else and_then (hit_die_sides res) (\<lambda>_.
               validate_arcane_recovery_request res (sq_use_arcane_recovery q)))), st, d)
       (\<lambda>_ (st, d).
         case spend_hit_dice_loop (sq_hit_dice_to_spend q) con roll d [] 0 st of
           (Err e, _, d) \<Rightarrow> (Err e, st, d)
         | (Ok (rolls, recovered), (res1, hp1), d) \<Rightarrow>
             (case and_then
                 (if sq_use_arcane_recovery q then recover_slot (restore_fighter_pools res1)
                  else Ok (restore_fighter_pools res1))
                 (\<lambda>res2. and_then (resources_validate res2) (\<lambda>_.
                         and_then (health_validate hp1) (\<lambda>_. Ok res2))) of
                Err e \<Rightarrow> (Err e, st, d)
              | Ok res2 \<Rightarrow>
                  (Ok \<lparr>rest_hit_die_rolls = rolls, rest_hit_points_recovered = recovered,
                       rest_hit_dice_recovered = 0,
                       rest_spell_slots_recovered = (if sq_use_arcane_recovery q then 1 else 0),
                       rest_resulting_health = hp1, rest_resulting_resources = res2\<rparr>,
                   (res2, hp1), d))))"

definition take_long_rest :: "rest_state \<Rightarrow> rest_resolution rules_result \<times> rest_state" where
  "take_long_rest st =
     (let (res, hp) = st in
      and_then_st
       (and_then (resources_validate res) (\<lambda>_. and_then (health_validate hp) (\<lambda>_.
          if hs_vital_status hp \<noteq> Active then Err (InvalidIntent (ResourceFault LongRestNeedsActive))
          else Ok ())), st)
       (\<lambda>_ st.
         let dice = rs_hit_dice res;
             regain_limit = max (ctr_maximum dice div 2) 1;
             recovered_dice = min (ctr_maximum dice - ctr_current dice) regain_limit;
             slots = (case rs_spell_slots res of None \<Rightarrow> 0 | Some s \<Rightarrow> ctr_maximum s - ctr_current s);
             res' = res\<lparr>rs_hit_dice := dice\<lparr>ctr_current := ctr_current dice + recovered_dice\<rparr>,
                        rs_second_wind := map_option restore_all (rs_second_wind res),
                        rs_action_surge := map_option restore_all (rs_action_surge res),
                        rs_spell_slots := map_option restore_all (rs_spell_slots res),
                        rs_arcane_recovery := map_option restore_all (rs_arcane_recovery res)\<rparr>;
             hp' = hp\<lparr>hs_current := hs_maximum hp, hs_temporary := 0,
                      hs_death_saves := tally_default, hs_vital_status := Active\<rparr>
         in (case and_then (resources_validate res') (\<lambda>_. health_validate hp') of
               Err e \<Rightarrow> (Err e, st)
             | Ok _ \<Rightarrow>
                 (Ok \<lparr>rest_hit_die_rolls = [],
                      rest_hit_points_recovered = hs_maximum hp - hs_current hp,
                      rest_hit_dice_recovered = recovered_dice,
                      rest_spell_slots_recovered = slots,
                      rest_resulting_health = hp', rest_resulting_resources = res'\<rparr>,
                  (res', hp')))))"

section \<open>Validity\<close>

definition counter_ok :: "resource_counter \<Rightarrow> bool" where
  "counter_ok c \<longleftrightarrow> 0 < ctr_maximum c \<and> ctr_current c \<le> ctr_maximum c"

lemma counter_validate_iff [simp]: "counter_validate c = Ok u \<longleftrightarrow> counter_ok c"
  by (auto simp: counter_validate_def counter_ok_def)

lemma counter_spend_Ok_iff:
  "counter_spend c = (Ok u, c') \<longleftrightarrow>
     counter_ok c \<and> 0 < ctr_current c \<and> c' = c\<lparr>ctr_current := ctr_current c - 1\<rparr>"
  by (auto simp: counter_spend_def)

lemma counter_spend_eq:
  "counter_ok c \<Longrightarrow> 0 < ctr_current c \<Longrightarrow>
     counter_spend c = (Ok (), c\<lparr>ctr_current := ctr_current c - 1\<rparr>)"
  by (simp add: counter_spend_Ok_iff)

lemma counter_spend_parts:
  "fst (counter_spend c) = Ok u \<longleftrightarrow> counter_ok c \<and> 0 < ctr_current c"
  "counter_ok c \<Longrightarrow> 0 < ctr_current c \<Longrightarrow>
     snd (counter_spend c) = c\<lparr>ctr_current := ctr_current c - 1\<rparr>"
  by (auto simp: counter_spend_def counter_validate_def counter_ok_def)

lemma counter_spend_Err: "counter_spend c = (Err e, c') \<Longrightarrow> c' = c"
  by (auto simp: counter_spend_def and_then_st_Err_iff)

definition resources_shape :: "runtime_resources \<Rightarrow> bool" where
  "resources_shape r \<longleftrightarrow>
     (let e = resources_new (rs_class r) (rs_level r) in
      ctr_kind (rs_hit_dice r) = ctr_kind (rs_hit_dice e) \<and>
      ctr_maximum (rs_hit_dice r) = ctr_maximum (rs_hit_dice e) \<and>
      option_resource_shape (rs_second_wind r) (rs_second_wind e) \<and>
      option_resource_shape (rs_action_surge r) (rs_action_surge e) \<and>
      option_resource_shape (rs_spell_slots r) (rs_spell_slots e) \<and>
      option_resource_shape (rs_arcane_recovery r) (rs_arcane_recovery e))"

definition pools_ok :: "runtime_resources \<Rightarrow> bool" where
  "pools_ok r \<longleftrightarrow> counter_ok (rs_hit_dice r) \<and> pred_option counter_ok (rs_second_wind r) \<and>
     pred_option counter_ok (rs_action_surge r) \<and> pred_option counter_ok (rs_spell_slots r) \<and>
     pred_option counter_ok (rs_arcane_recovery r)"

definition resources_ok :: "runtime_resources \<Rightarrow> bool" where
  "resources_ok r \<longleftrightarrow>
     rs_schema_version r = rules_matrix_schema_version \<and> pools_ok r \<and> resources_shape r"

lemma set_somes: "set (somes xs) = {x. Some x \<in> set xs}"
  by (induction xs rule: somes.induct) auto

lemma optional_pools_ok:
  "counter_ok (rs_hit_dice r) \<and> (\<forall>c\<in>set (optional_pools r). counter_ok c) \<longleftrightarrow> pools_ok r"
  by (auto simp: optional_pools_def set_somes pools_ok_def pred_option_def option.set_sel
      elim!: option.set_cases)

lemma resources_validate_iff [simp]: "resources_validate r = Ok u \<longleftrightarrow> resources_ok r"
  using optional_pools_ok [of r]
  by (auto simp: resources_validate_def resources_ok_def resources_shape_def Let_def)

lemma resources_validate_result [simp]: "resources_ok r \<Longrightarrow> resources_validate r = Ok ()"
  by simp

lemma resources_new_ok: "resources_ok (resources_new c l)"
  by (cases c; cases l)
    (simp_all add: resources_ok_def resources_shape_def pools_ok_def counter_ok_def
      resources_new_def full_counter_def Let_def)

text \<open>A counter that keeps its kind and maximum and stays within it.\<close>

definition recount :: "resource_counter \<Rightarrow> resource_counter \<Rightarrow> bool" where
  "recount c c' \<longleftrightarrow> ctr_kind c' = ctr_kind c \<and> ctr_maximum c' = ctr_maximum c \<and>
     ctr_current c' \<le> ctr_maximum c'"

lemma recount_ok: "counter_ok c \<Longrightarrow> recount c c' \<Longrightarrow> counter_ok c'"
  by (simp add: counter_ok_def recount_def)

lemma recount_refl: "counter_ok c \<Longrightarrow> recount c c"
  by (simp add: counter_ok_def recount_def)

lemma recount_opt_ok: "pred_option counter_ok a \<Longrightarrow> rel_option recount a a' \<Longrightarrow> pred_option counter_ok a'"
  by (cases a; cases a') (auto simp: recount_ok)

lemma recount_opt_refl: "pred_option counter_ok a \<Longrightarrow> rel_option recount a a"
  by (cases a) (auto simp: recount_refl)

lemma recount_opt_shape:
  "option_resource_shape a e \<Longrightarrow> rel_option recount a a' \<Longrightarrow> option_resource_shape a' e"
  by (cases a; cases a'; cases e) (auto simp: recount_def)

lemma recount_restore: "recount c (restore_all c)"
  by (simp add: recount_def restore_all_def)

lemma recount_opt_restore: "rel_option recount a (map_option restore_all a)"
  by (cases a) (auto simp: recount_restore)

definition same_profile :: "runtime_resources \<Rightarrow> runtime_resources \<Rightarrow> bool" where
  "same_profile r r' \<longleftrightarrow>
     rs_schema_version r' = rs_schema_version r \<and> rs_class r' = rs_class r \<and>
     rs_level r' = rs_level r \<and> recount (rs_hit_dice r) (rs_hit_dice r') \<and>
     rel_option recount (rs_second_wind r) (rs_second_wind r') \<and>
     rel_option recount (rs_action_surge r) (rs_action_surge r') \<and>
     rel_option recount (rs_spell_slots r) (rs_spell_slots r') \<and>
     rel_option recount (rs_arcane_recovery r) (rs_arcane_recovery r')"

lemma same_profile_ok: "resources_ok r \<Longrightarrow> same_profile r r' \<Longrightarrow> resources_ok r'"
  by (auto simp: resources_ok_def same_profile_def pools_ok_def resources_shape_def Let_def
      recount_ok recount_opt_ok intro: recount_opt_shape simp: recount_def)

lemma pools_okD:
  assumes "resources_ok r"
  shows "counter_ok (rs_hit_dice r)" "rel_option recount (rs_second_wind r) (rs_second_wind r)"
    "rel_option recount (rs_action_surge r) (rs_action_surge r)"
    "rel_option recount (rs_spell_slots r) (rs_spell_slots r)"
    "rel_option recount (rs_arcane_recovery r) (rs_arcane_recovery r)"
    "recount (rs_hit_dice r) (rs_hit_dice r)"
  using assms by (auto simp: resources_ok_def pools_ok_def recount_opt_refl recount_refl)

lemma from_derived_sheet_ok:
  "resources_from_derived_sheet c sheet = Ok r \<Longrightarrow>
     resources_ok r \<and> rs_class r = c \<and> rs_level r = sh_level sheet"
  by (auto simp: resources_from_derived_sheet_def Let_def resources_new_def
      split: if_splits hero_class.splits)

section \<open>Spending and restoring keep the profile\<close>

lemma spend_spell_slot_Ok_iff:
  assumes "resources_ok r"
  shows "spend_spell_slot r = (Ok u, r') \<longleftrightarrow>
    (\<exists>p. rs_spell_slots r = Some p \<and> 0 < ctr_current p \<and>
       r' = r\<lparr>rs_spell_slots := Some (p\<lparr>ctr_current := ctr_current p - 1\<rparr>)\<rparr>)"
  using assms
  by (auto simp: spend_spell_slot_def counter_spend_Ok_iff counter_spend_eq resources_ok_def pools_ok_def
      split: option.splits prod.splits)

lemma spend_spell_slot_profile:
  assumes "resources_ok r" "spend_spell_slot r = (Ok u, r')"
  shows "same_profile r r'"
  using assms pools_okD [OF assms(1)]
  by (auto simp: spend_spell_slot_Ok_iff [OF assms(1)] same_profile_def recount_def)

lemma spend_spell_slot_Err: "spend_spell_slot r = (Err e, r') \<Longrightarrow> r' = r"
  by (cases "rs_spell_slots r")
    (auto simp: spend_spell_slot_def split: prod.splits dest: counter_spend_Err)

lemma hit_die_sides_ok:
  assumes "resources_ok r"
  shows "hit_die_sides r = Ok (class_hit_die_sides (rs_class r))"
  using assms
  by (cases "rs_class r"; cases "rs_level r")
    (auto simp: hit_die_sides_def resources_ok_def resources_shape_def resources_new_def
      full_counter_def class_hit_die_sides_def Let_def)

text \<open>
  One hit die: the guards, then a die of the class's size; a healing of zero leaves the health
  as it is. Nothing after the die can fail.
\<close>

definition hit_die_ready :: "i8 \<Rightarrow> rest_state \<Rightarrow> bool" where
  "hit_die_ready con st \<longleftrightarrow>
     resources_ok (fst st) \<and> health_ok (snd st) \<and> hs_vital_status (snd st) \<noteq> Dead \<and>
     0 < ctr_current (rs_hit_dice (fst st)) \<and> -5 \<le> con \<and> con \<le> 10"

lemma validate_hit_die_spend_Ok_iff:
  "validate_hit_die_spend res hp con = Ok n \<longleftrightarrow>
     hit_die_ready con (res, hp) \<and> n = class_hit_die_sides (rs_class res)"
  by (auto simp: validate_hit_die_spend_def hit_die_ready_def hit_die_sides_ok)

definition spent_die :: "runtime_resources \<Rightarrow> runtime_resources" where
  "spent_die r = r\<lparr>rs_hit_dice := (rs_hit_dice r)\<lparr>ctr_current := ctr_current (rs_hit_dice r) - 1\<rparr>\<rparr>"

lemma spent_die_profile: "resources_ok r \<Longrightarrow> same_profile r (spent_die r)"
  using pools_okD [of r]
  by (auto simp: same_profile_def spent_die_def recount_def counter_ok_def)

lemma spent_die_simps [simp]:
  "rs_second_wind (spent_die r) = rs_second_wind r"
  "rs_action_surge (spent_die r) = rs_action_surge r"
  "rs_spell_slots (spent_die r) = rs_spell_slots r"
  "rs_arcane_recovery (spent_die r) = rs_arcane_recovery r"
  "rs_class (spent_die r) = rs_class r" "rs_level (spent_die r) = rs_level r"
  "ctr_current (rs_hit_dice (spent_die r)) = ctr_current (rs_hit_dice r) - 1"
  "ctr_maximum (rs_hit_dice (spent_die r)) = ctr_maximum (rs_hit_dice r)"
  "ctr_kind (rs_hit_dice (spent_die r)) = ctr_kind (rs_hit_dice r)"
  by (simp_all add: spent_die_def)

definition die_health :: "nat \<Rightarrow> health_state \<Rightarrow> health_state" where
  "die_health n h = (if n = 0 then h else healed n h)"

lemma die_health_ok: "health_ok h \<Longrightarrow> health_ok (die_health n h)"
  by (simp add: die_health_def healed_ok)

lemma die_health_simps [simp]: "hs_maximum (die_health n h) = hs_maximum h"
  by (simp add: die_health_def healed_def)

lemma spend_hit_die_eq:
  assumes "hit_die_ready con (res, hp)" "roll (class_hit_die_sides (rs_class res)) d = (v, d')"
  shows "spend_hit_die con roll d (res, hp) =
    (if 1 \<le> v \<and> v \<le> class_hit_die_sides (rs_class res)
     then let n = nat (max (int v + con) 0) in
       (Ok \<lparr>hd_hit_die = ctr_kind (rs_hit_dice res), hd_roll = v,
            hd_constitution_modifier = con, hd_healing_total = n,
            hd_hit_points_recovered = min (hs_maximum hp - hs_current hp) n,
            hd_condition_changes =
              (if n = 0 \<or> hs_vital_status hp = Active then [] else [RemoveZeroHitPointConditions]),
            hd_resulting_health = die_health n hp, hd_resulting_resources = spent_die res\<rparr>,
        (spent_die res, die_health n hp), d')
     else (Err (CoreError (InvalidDieRoll (class_hit_die_sides (rs_class res)) v)), (res, hp), d'))"
proof -
  have pre: "validate_hit_die_spend res hp con = Ok (class_hit_die_sides (rs_class res))"
    using assms(1) by (simp add: validate_hit_die_spend_Ok_iff)
  have ok: "resources_ok res" "health_ok hp" "hs_vital_status hp \<noteq> Dead"
    using assms(1) by (auto simp: hit_die_ready_def)
  have ok': "resources_ok (spent_die res)"
    using same_profile_ok [OF ok(1) spent_die_profile [OF ok(1)]] .
  have le: "class_hit_die_sides (rs_class res) \<le> 255"
    by (cases "rs_class res") (simp_all add: class_hit_die_sides_def)
  show ?thesis
  proof (cases "1 \<le> v \<and> v \<le> class_hit_die_sides (rs_class res)")
    case False
    then show ?thesis
      using assms(2) by (auto simp: spend_hit_die_def pre)
  next
    case True
    define n where "n = nat (max (int v + con) 0)"
    have h: "(if n = 0 then (Ok (0, []), hp)
        else and_then_st (apply_healing n hp)
          (\<lambda>x hp. (Ok (hres_effective_healing x, hres_condition_changes x), hp))) =
      (Ok (min (hs_maximum hp - hs_current hp) n,
           if n = 0 \<or> hs_vital_status hp = Active then [] else [RemoveZeroHitPointConditions]),
       die_health n hp)"
      using apply_healing_eq [OF ok(2) _ ok(3), of n] by (simp add: die_health_def)
    show ?thesis
      using True le
      unfolding spend_hit_die_def prod.case Let_def pre and_then_st.simps assms(2)
        n_def [symmetric] spent_die_def [symmetric] h
      by (simp add: ok' die_health_ok [OF ok(2)])
  qed
qed

lemma spend_hit_die_not_ready:
  assumes "\<not> hit_die_ready con st"
  shows "\<exists>e. spend_hit_die con roll d st = (Err e, st, d)"
proof (cases st)
  case (Pair res hp)
  with assms show ?thesis
    by (cases "validate_hit_die_spend res hp con")
      (auto simp: spend_hit_die_def validate_hit_die_spend_Ok_iff)
qed

lemma spend_hit_die_OkD:
  assumes "spend_hit_die con roll d (res, hp) = (Ok x, (res', hp'), d')"
  shows "hit_die_ready con (res, hp)" "res' = spent_die res"
    "hp' = die_health (hd_healing_total x) hp" "1 \<le> hd_roll x"
    "hd_roll x \<le> class_hit_die_sides (rs_class res)"
    "hd_healing_total x = nat (max (int (hd_roll x) + con) 0)"
    "hd_hit_points_recovered x = min (hs_maximum hp - hs_current hp) (hd_healing_total x)"
    "resources_ok res'" "health_ok hp'"
proof -
  show r: "hit_die_ready con (res, hp)"
    using spend_hit_die_not_ready [of con "(res, hp)" roll d] assms by force
  obtain v d1 where v: "roll (class_hit_die_sides (rs_class res)) d = (v, d1)"
    by (cases "roll (class_hit_die_sides (rs_class res)) d")
  note E = spend_hit_die_eq [where roll = roll and d = d, OF r v]
  from E assms show "res' = spent_die res" "hp' = die_health (hd_healing_total x) hp"
    "1 \<le> hd_roll x" "hd_roll x \<le> class_hit_die_sides (rs_class res)"
    "hd_healing_total x = nat (max (int (hd_roll x) + con) 0)"
    "hd_hit_points_recovered x = min (hs_maximum hp - hs_current hp) (hd_healing_total x)"
    by (auto simp: Let_def split: if_splits)
  with r show "resources_ok res'" "health_ok hp'"
    using same_profile_ok [OF _ spent_die_profile, of res] die_health_ok [of hp]
    by (auto simp: hit_die_ready_def)
qed

lemma spend_hit_die_Err:
  assumes "spend_hit_die con roll d (res, hp) = (Err e, st', d')"
  shows "st' = (res, hp)"
proof (cases "hit_die_ready con (res, hp)")
  case True
  obtain v d1 where v: "roll (class_hit_die_sides (rs_class res)) d = (v, d1)"
    by (cases "roll (class_hit_die_sides (rs_class res)) d")
  from spend_hit_die_eq [where roll = roll and d = d, OF True v] assms show ?thesis by (auto simp: Let_def split: if_splits)
next
  case False
  with spend_hit_die_not_ready [OF False, of roll d] assms show ?thesis by auto
qed

section \<open>Short rests\<close>

definition finish_short_rest :: "bool \<Rightarrow> runtime_resources \<Rightarrow> runtime_resources rules_result" where
  "finish_short_rest arcane r =
     (if arcane then recover_slot (restore_fighter_pools r) else Ok (restore_fighter_pools r))"

lemma restore_fighter_profile: "resources_ok r \<Longrightarrow> same_profile r (restore_fighter_pools r)"
  using pools_okD [of r]
  by (auto simp: same_profile_def restore_fighter_pools_def recount_opt_restore)

lemma recover_slot_Ok_iff:
  assumes "resources_ok r"
  shows "recover_slot r = Ok r' \<longleftrightarrow>
    (\<exists>a sl. rs_arcane_recovery r = Some a \<and> rs_spell_slots r = Some sl \<and> 0 < ctr_current a \<and>
       r' = r\<lparr>rs_arcane_recovery := Some (a\<lparr>ctr_current := ctr_current a - 1\<rparr>),
              rs_spell_slots := Some (sl\<lparr>ctr_current := ctr_current sl + 1\<rparr>)\<rparr>)"
proof -
  have "counter_ok a" if "rs_arcane_recovery r = Some a" for a
    using assms that by (simp add: resources_ok_def pools_ok_def)
  then show ?thesis
    by (cases "rs_arcane_recovery r"; cases "rs_spell_slots r")
      (auto simp: recover_slot_def ok_or_def counter_spend_parts)
qed

lemma validate_arcane_Ok_iff:
  "validate_arcane_recovery_request r b = Ok u \<longleftrightarrow>
     (b \<longrightarrow> (\<exists>a sl. rs_arcane_recovery r = Some a \<and> rs_spell_slots r = Some sl \<and>
              ctr_current a \<noteq> 0 \<and> ctr_current sl \<noteq> ctr_maximum sl))"
  by (auto simp: validate_arcane_recovery_request_def)

text \<open>After its guards the rest always finishes, and keeps the hero's profile.\<close>

lemma finish_short_rest_total:
  assumes "resources_ok r" "validate_arcane_recovery_request r b = Ok ()"
  shows "\<exists>r'. finish_short_rest b r = Ok r' \<and> resources_ok r' \<and> same_profile r r'"
proof -
  let ?f = "restore_fighter_pools r"
  have f: "same_profile r ?f" "resources_ok ?f"
    using restore_fighter_profile same_profile_ok assms(1) by auto
  show ?thesis
  proof (cases b)
    case False
    with f show ?thesis by (auto simp: finish_short_rest_def)
  next
    case True
    then obtain a sl where p: "rs_arcane_recovery r = Some a" "rs_spell_slots r = Some sl"
      "ctr_current a \<noteq> 0" "ctr_current sl \<noteq> ctr_maximum sl"
      using assms(2) by (auto simp: validate_arcane_Ok_iff)
    then have q: "rs_arcane_recovery ?f = Some a" "rs_spell_slots ?f = Some sl"
      by (simp_all add: restore_fighter_pools_def)
    let ?g = "?f\<lparr>rs_arcane_recovery := Some (a\<lparr>ctr_current := ctr_current a - 1\<rparr>),
              rs_spell_slots := Some (sl\<lparr>ctr_current := ctr_current sl + 1\<rparr>)\<rparr>"
    have "recover_slot ?f = Ok ?g"
      using q p by (auto simp: recover_slot_Ok_iff [OF f(2)])
    moreover have "same_profile r ?g"
      using f(1) p q pools_okD [OF assms(1)]
      by (auto simp: same_profile_def recount_def)
    ultimately show ?thesis
      using True same_profile_ok [OF assms(1)] by (auto simp: finish_short_rest_def)
  qed
qed

definition rest_ready :: "i8 \<Rightarrow> short_rest_request \<Rightarrow> rest_state \<Rightarrow> bool" where
  "rest_ready con q st \<longleftrightarrow>
     resources_ok (fst st) \<and> health_ok (snd st) \<and> hs_vital_status (snd st) \<noteq> Dead \<and>
     sq_hit_dice_to_spend q \<le> ctr_current (rs_hit_dice (fst st)) \<and> -5 \<le> con \<and> con \<le> 10 \<and>
     validate_arcane_recovery_request (fst st) (sq_use_arcane_recovery q) = Ok ()"

lemma take_short_rest_Ok_iff:
  "take_short_rest con q roll d (res, hp) = (Ok x, (res2, hp2), d') \<longleftrightarrow>
     rest_ready con q (res, hp) \<and>
     (\<exists>rolls recovered res1.
        spend_hit_dice_loop (sq_hit_dice_to_spend q) con roll d [] 0 (res, hp) =
          (Ok (rolls, recovered), (res1, hp2), d') \<and>
        finish_short_rest (sq_use_arcane_recovery q) res1 = Ok res2 \<and>
        resources_ok res2 \<and> health_ok hp2 \<and>
        x = \<lparr>rest_hit_die_rolls = rolls, rest_hit_points_recovered = recovered,
             rest_hit_dice_recovered = 0,
             rest_spell_slots_recovered = (if sq_use_arcane_recovery q then 1 else 0),
             rest_resulting_health = hp2, rest_resulting_resources = res2\<rparr>)"
  by (auto simp: take_short_rest_def rest_ready_def finish_short_rest_def hit_die_sides_ok
      split: prod.splits result.splits if_splits)

lemma take_short_rest_Err: "take_short_rest con q roll d st = (Err e, st', d') \<Longrightarrow> st' = st"
  by (cases st) (auto simp: take_short_rest_def and_then_st_Err_iff
      split: prod.splits result.splits)

text \<open>Spending dice one at a time, as the interactive callers do.\<close>

fun spend_each ::
  "nat \<Rightarrow> i8 \<Rightarrow> 's dice \<Rightarrow> 's \<Rightarrow> rest_state \<Rightarrow> unit rules_result \<times> rest_state \<times> 's" where
  "spend_each 0 con roll d st = (Ok (), st, d)"
| "spend_each (Suc n) con roll d st =
     and_then_st (spend_hit_die con roll d st) (\<lambda>_ (st, d). spend_each n con roll d st)"

lemma loop_spend_each:
  "spend_hit_dice_loop n con roll d rolls rec st = (Ok y, st', d') \<Longrightarrow>
     spend_each n con roll d st = (Ok (), st', d')"
  by (induction n arbitrary: d rolls rec st) (auto split: option.splits)

definition die_left :: "rest_state \<Rightarrow> nat" where
  "die_left st = ctr_current (rs_hit_dice (fst st))"

definition other_pools_same :: "runtime_resources \<Rightarrow> runtime_resources \<Rightarrow> bool" where
  "other_pools_same r r' \<longleftrightarrow>
     rs_class r' = rs_class r \<and> rs_level r' = rs_level r \<and>
     rs_second_wind r' = rs_second_wind r \<and> rs_action_surge r' = rs_action_surge r \<and>
     rs_spell_slots r' = rs_spell_slots r \<and> rs_arcane_recovery r' = rs_arcane_recovery r"

lemma spend_each_facts:
  assumes "spend_each n con roll d (res, hp) = (Ok u, (res', hp'), d')"
    and "resources_ok res" "health_ok hp"
  shows "resources_ok res' \<and> health_ok hp' \<and> die_left (res, hp) = n + die_left (res', hp') \<and>
    other_pools_same res res' \<and> hs_maximum hp' = hs_maximum hp \<and> hs_current hp \<le> hs_current hp' \<and>
    (hs_vital_status hp \<noteq> Dead \<longrightarrow> hs_vital_status hp' \<noteq> Dead) \<and>
    (0 < n \<longrightarrow> hs_vital_status hp \<noteq> Dead \<and> -5 \<le> con \<and> con \<le> 10)"
  using assms
proof (induction n arbitrary: d res hp)
  case 0
  then show ?case by (simp add: other_pools_same_def)
next
  case (Suc n)
  then obtain x r1 h1 d1 where s: "spend_hit_die con roll d (res, hp) = (Ok x, (r1, h1), d1)"
    "spend_each n con roll d1 (r1, h1) = (Ok u, (res', hp'), d')"
    by auto
  note D = spend_hit_die_OkD [OF s(1)]
  have h: "hs_maximum h1 = hs_maximum hp" "hs_current hp \<le> hs_current h1"
    "hs_vital_status h1 \<noteq> Dead"
    using D(1,3) by (auto simp: die_health_def healed_def hit_die_ready_def health_ok_def)
  from Suc.IH [OF s(2) D(8,9)] D(1,2) h show ?case
    by (auto simp: hit_die_ready_def die_left_def other_pools_same_def)
qed

lemma spend_each_loop:
  assumes "spend_each n con roll d (res, hp) = (Ok u, st', d')"
    and "rec + (hs_maximum hp - hs_current hp) \<le> u16_max" "resources_ok res" "health_ok hp"
  shows "\<exists>y. spend_hit_dice_loop n con roll d rolls rec (res, hp) = (Ok y, st', d')"
  using assms
proof (induction n arbitrary: d res hp rolls rec)
  case 0
  then show ?case by simp
next
  case (Suc n)
  then obtain x r1 h1 d1 where s: "spend_hit_die con roll d (res, hp) = (Ok x, (r1, h1), d1)"
    "spend_each n con roll d1 (r1, h1) = (Ok u, st', d')"
    by auto
  note D = spend_hit_die_OkD [OF s(1)]
  have cur: "hs_current hp \<le> hs_maximum hp" using Suc.prems(4) by (simp add: health_ok_def)
  have h: "hs_maximum h1 = hs_maximum hp"
    "hs_current h1 = hs_current hp + hd_hit_points_recovered x"
    "hd_hit_points_recovered x \<le> hs_maximum hp - hs_current hp"
    using cur unfolding D(3,7) die_health_def healed_def by (auto simp: min_def)
  have c: "checked_add u16_max rec (hd_hit_points_recovered x) = Some (rec + hd_hit_points_recovered x)"
    using Suc.prems(2) h(3) by simp
  have b: "(rec + hd_hit_points_recovered x) + (hs_maximum h1 - hs_current h1) \<le> u16_max"
    using Suc.prems(2) h cur by linarith
  from Suc.IH [OF s(2) b D(8,9)] s(1) c show ?case by (simp add: checked_add_def)
qed

lemma validate_arcane_other:
  "other_pools_same r r' \<Longrightarrow>
     validate_arcane_recovery_request r' b = validate_arcane_recovery_request r b"
  by (simp add: other_pools_same_def validate_arcane_recovery_request_def)

lemma zero_die_rest_iff:
  "take_short_rest con \<lparr>sq_hit_dice_to_spend = 0, sq_use_arcane_recovery = b\<rparr> roll d (res, hp) =
     (Ok x, (res2, hp2), d') \<longleftrightarrow>
   rest_ready con \<lparr>sq_hit_dice_to_spend = 0, sq_use_arcane_recovery = b\<rparr> (res, hp) \<and>
   finish_short_rest b res = Ok res2 \<and> resources_ok res2 \<and> hp2 = hp \<and> d' = d \<and>
   x = \<lparr>rest_hit_die_rolls = [], rest_hit_points_recovered = 0, rest_hit_dice_recovered = 0,
        rest_spell_slots_recovered = (if b then 1 else 0),
        rest_resulting_health = hp, rest_resulting_resources = res2\<rparr>"
  by (auto simp: take_short_rest_Ok_iff rest_ready_def)

text \<open>The batch of dice is the interactive rest: same state and dice, success on both or none.\<close>

definition interactive_short_rest ::
  "i8 \<Rightarrow> short_rest_request \<Rightarrow> 's dice \<Rightarrow> 's \<Rightarrow> rest_state
    \<Rightarrow> rest_resolution rules_result \<times> rest_state \<times> 's" where
  "interactive_short_rest con q roll d st =
     and_then_st (spend_each (sq_hit_dice_to_spend q) con roll d st) (\<lambda>_ (st, d).
       take_short_rest con (q\<lparr>sq_hit_dice_to_spend := 0\<rparr>) roll d st)"

lemma short_rest_batch_iff:
  assumes "hs_maximum (snd st) \<le> u16_max"
  shows "(\<exists>x. take_short_rest con q roll d st = (Ok x, st', d')) \<longleftrightarrow>
    (\<exists>y. interactive_short_rest con q roll d st = (Ok y, st', d'))"
proof -
  obtain res hp res2 hp2 where st: "st = (res, hp)" "st' = (res2, hp2)"
    by (cases st; cases st')
  obtain n b where q: "q = \<lparr>sq_hit_dice_to_spend = n, sq_use_arcane_recovery = b\<rparr>"
    by (cases q)
  show ?thesis unfolding st
  proof
    assume "\<exists>x. take_short_rest con q roll d (res, hp) = (Ok x, (res2, hp2), d')"
    then obtain x y res1 where ready: "rest_ready con q (res, hp)"
      and l: "spend_hit_dice_loop n con roll d [] 0 (res, hp) = (Ok y, (res1, hp2), d')"
      and f: "finish_short_rest b res1 = Ok res2" "resources_ok res2" "health_ok hp2"
      by (auto simp: take_short_rest_Ok_iff q)
    have e: "spend_each n con roll d (res, hp) = (Ok (), (res1, hp2), d')"
      using loop_spend_each [OF l] .
    have "resources_ok res" "health_ok hp" using ready by (auto simp: rest_ready_def)
    note F = spend_each_facts [OF e this]
    have "rest_ready con \<lparr>sq_hit_dice_to_spend = 0, sq_use_arcane_recovery = b\<rparr> (res1, hp2)"
      using F ready by (auto simp: rest_ready_def q validate_arcane_other)
    with e f show "\<exists>y. interactive_short_rest con q roll d (res, hp) = (Ok y, (res2, hp2), d')"
      by (simp add: interactive_short_rest_def q zero_die_rest_iff)
  next
    assume "\<exists>y. interactive_short_rest con q roll d (res, hp) = (Ok y, (res2, hp2), d')"
    then obtain y res1 where e: "spend_each n con roll d (res, hp) = (Ok (), (res1, hp2), d')"
      and ready: "rest_ready con \<lparr>sq_hit_dice_to_spend = 0, sq_use_arcane_recovery = b\<rparr> (res1, hp2)"
      and f: "finish_short_rest b res1 = Ok res2" "resources_ok res2"
      by (auto simp: interactive_short_rest_def q zero_die_rest_iff)
    have ok: "resources_ok res" "health_ok hp"
    proof -
      have "resources_ok res \<and> health_ok hp"
      proof (cases n)
        case 0
        with e ready show ?thesis by (simp add: rest_ready_def)
      next
        case (Suc m)
        with e obtain x r1 h1 d1 where "spend_hit_die con roll d (res, hp) = (Ok x, (r1, h1), d1)"
          by auto
        from spend_hit_die_OkD(1) [OF this] show ?thesis by (simp add: hit_die_ready_def)
      qed
      then show "resources_ok res" "health_ok hp" by auto
    qed
    note F = spend_each_facts [OF e ok]
    have "0 + (hs_maximum hp - hs_current hp) \<le> u16_max" using assms st by simp
    from spend_each_loop [OF e this ok, of "[]"]
    obtain z where "spend_hit_dice_loop n con roll d [] 0 (res, hp) = (Ok z, (res1, hp2), d')"
      by blast
    moreover have "rest_ready con q (res, hp)"
    proof -
      have "hs_vital_status hp \<noteq> Dead"
        using F e ready by (cases n) (auto simp: rest_ready_def)
      with F ready ok show ?thesis by (auto simp: rest_ready_def q validate_arcane_other die_left_def)
    qed
    ultimately show "\<exists>x. take_short_rest con q roll d (res, hp) = (Ok x, (res2, hp2), d')"
      using f F by (cases z) (auto simp: take_short_rest_Ok_iff q)
  qed
qed

section \<open>What a rest gives\<close>

lemma same_profile_dice:
  "finish_short_rest b r = Ok r' \<Longrightarrow> resources_ok r \<Longrightarrow>
     rs_hit_dice r' = rs_hit_dice r \<and> rs_class r' = rs_class r \<and> rs_level r' = rs_level r"
  using same_profile_ok [OF _ restore_fighter_profile, of r]
  by (auto simp: finish_short_rest_def recover_slot_Ok_iff restore_fighter_pools_def split: if_splits)

lemma take_short_rest_facts:
  assumes "take_short_rest con q roll d (res, hp) = (Ok x, (res2, hp2), d')"
  shows "resources_ok res2" "health_ok hp2" "rs_class res2 = rs_class res"
    "rs_level res2 = rs_level res" "hs_maximum hp2 = hs_maximum hp"
    "die_left (res, hp) = sq_hit_dice_to_spend q + die_left (res2, hp2)"
    "hs_current hp \<le> hs_current hp2"
proof -
  from assms obtain y res1 where ready: "rest_ready con q (res, hp)"
    and l: "spend_hit_dice_loop (sq_hit_dice_to_spend q) con roll d [] 0 (res, hp) =
        (Ok y, (res1, hp2), d')"
    and f: "finish_short_rest (sq_use_arcane_recovery q) res1 = Ok res2"
    and ok: "resources_ok res2" "health_ok hp2"
    by (auto simp: take_short_rest_Ok_iff)
  have "resources_ok res" "health_ok hp" using ready by (auto simp: rest_ready_def)
  note F = spend_each_facts [OF loop_spend_each [OF l] this]
  from F have "resources_ok res1" by simp
  from same_profile_dice [OF f this] F ok show "resources_ok res2" "health_ok hp2"
    "rs_class res2 = rs_class res" "rs_level res2 = rs_level res" "hs_maximum hp2 = hs_maximum hp"
    "die_left (res, hp) = sq_hit_dice_to_spend q + die_left (res2, hp2)"
    "hs_current hp \<le> hs_current hp2"
    by (auto simp: other_pools_same_def die_left_def)
qed

definition long_rested :: "runtime_resources \<Rightarrow> runtime_resources" where
  "long_rested r =
     r\<lparr>rs_hit_dice := (rs_hit_dice r)
         \<lparr>ctr_current := min (ctr_maximum (rs_hit_dice r))
            (ctr_current (rs_hit_dice r) + max (ctr_maximum (rs_hit_dice r) div 2) 1)\<rparr>,
       rs_second_wind := map_option restore_all (rs_second_wind r),
       rs_action_surge := map_option restore_all (rs_action_surge r),
       rs_spell_slots := map_option restore_all (rs_spell_slots r),
       rs_arcane_recovery := map_option restore_all (rs_arcane_recovery r)\<rparr>"

definition fully_healed :: "health_state \<Rightarrow> health_state" where
  "fully_healed h =
     h\<lparr>hs_current := hs_maximum h, hs_temporary := 0, hs_death_saves := tally_default,
       hs_vital_status := Active\<rparr>"

lemma long_rested_profile: "resources_ok r \<Longrightarrow> same_profile r (long_rested r)"
  by (auto simp: same_profile_def long_rested_def recount_opt_restore recount_def)

lemma fully_healed_ok: "health_ok h \<Longrightarrow> health_ok (fully_healed h)"
  by (simp add: fully_healed_def health_ok_def tally_default_def)

lemma add_min_missing: "(c::nat) \<le> m \<Longrightarrow> c + min (m - c) k = min m (c + k)"
  by (auto simp: min_def)

lemma take_long_rest_eq:
  assumes "resources_ok res" "health_ok hp" "hs_vital_status hp = Active"
  shows "\<exists>x. take_long_rest (res, hp) = (Ok x, (long_rested res, fully_healed hp)) \<and>
    rest_hit_points_recovered x = hs_maximum hp - hs_current hp \<and>
    rest_resulting_resources x = long_rested res \<and> rest_resulting_health x = fully_healed hp"
proof -
  have "ctr_current (rs_hit_dice res) \<le> ctr_maximum (rs_hit_dice res)"
    using pools_okD(1) [OF assms(1)] by (simp add: counter_ok_def)
  then have c: "ctr_current (rs_hit_dice res) +
      min (ctr_maximum (rs_hit_dice res) - ctr_current (rs_hit_dice res))
        (max (ctr_maximum (rs_hit_dice res) div 2) 1) =
      min (ctr_maximum (rs_hit_dice res))
        (ctr_current (rs_hit_dice res) + max (ctr_maximum (rs_hit_dice res) div 2) 1)"
    by (rule add_min_missing)
  have r: "resources_validate (long_rested res) = Ok ()" "health_validate (fully_healed hp) = Ok ()"
    using same_profile_ok [OF assms(1) long_rested_profile [OF assms(1)]] fully_healed_ok [OF assms(2)]
    by simp_all
  show ?thesis
    using assms
    unfolding take_long_rest_def prod.case Let_def c long_rested_def [symmetric]
      fully_healed_def [symmetric]
    by (simp add: r [simplified] same_profile_ok [OF assms(1) long_rested_profile [OF assms(1)]]
        fully_healed_ok [OF assms(2)])
qed

lemma take_long_rest_not:
  assumes "\<not> (resources_ok res \<and> health_ok hp \<and> hs_vital_status hp = Active)"
  shows "\<exists>e. take_long_rest (res, hp) = (Err e, (res, hp))"
  using assms
  by (cases "resources_validate res"; cases "health_validate hp") (auto simp: take_long_rest_def)

section \<open>Fighter features\<close>

definition second_wind_ready :: "hero_state \<Rightarrow> bool" where
  "second_wind_ready st \<longleftrightarrow>
     (case st of (res, eco, hp) \<Rightarrow>
        resources_ok res \<and> health_ok hp \<and> rs_class res = Fighter \<and> bonus_action_available eco \<and>
        (\<exists>p. rs_second_wind res = Some p \<and> 0 < ctr_current p))"

definition second_wind_spent :: "u8 \<Rightarrow> hero_state \<Rightarrow> hero_state" where
  "second_wind_spent v st =
     (case st of (res, eco, hp) \<Rightarrow>
        (res\<lparr>rs_second_wind := map_option (\<lambda>p. p\<lparr>ctr_current := ctr_current p - 1\<rparr>)
               (rs_second_wind res)\<rparr>,
         eco\<lparr>bonus_action_available := False\<rparr>,
         healed (v + supported_level_value (rs_level res)) hp))"

text \<open>Second wind, when its guards pass: the die decides, then only a dead hero is refused.\<close>

lemma use_second_wind_eq:
  assumes "second_wind_ready (res, eco, hp)" "roll 10 d = (v, d')"
  shows "use_second_wind roll d (res, eco, hp) =
    (if v > u8_max then (Err (InvalidState (DiceFault DiceValueOverflow)), (res, eco, hp), d')
     else if \<not> (1 \<le> v \<and> v \<le> 10) then (Err (CoreError (InvalidDieRoll 10 v)), (res, eco, hp), d')
     else if hs_vital_status hp = Dead
     then (Err (unsupported_error ''health.restore-dead''), (res, eco, hp), d')
     else let n = v + supported_level_value (rs_level res) in
       (Ok \<lparr>sw_healing_roll = v, sw_level_bonus = supported_level_value (rs_level res),
            sw_healing = \<lparr>hres_requested_healing = n,
              hres_effective_healing = min (hs_maximum hp - hs_current hp) n,
              hres_condition_changes =
                (if hs_vital_status hp = Active then [] else [RemoveZeroHitPointConditions]),
              hres_resulting_health = healed n hp\<rparr>\<rparr>,
        second_wind_spent v (res, eco, hp), d'))"
proof -
  obtain p where p: "resources_ok res" "health_ok hp" "rs_class res = Fighter"
    "bonus_action_available eco" "rs_second_wind res = Some p" "0 < ctr_current p"
    using assms(1) by (auto simp: second_wind_ready_def)
  have c: "counter_spend p = (Ok (), p\<lparr>ctr_current := ctr_current p - 1\<rparr>)"
    using p by (intro counter_spend_eq) (simp_all add: resources_ok_def pools_ok_def)
  have e: "economy_spend BonusAction eco = (Ok (), eco\<lparr>bonus_action_available := False\<rparr>)"
    using p by (simp add: economy_spend_def)
  have dead: "hs_vital_status hp = Dead \<Longrightarrow>
      apply_healing n hp = (Err (unsupported_error ''health.restore-dead''), hp)" if "0 < n" for n
    using p that by (simp add: apply_healing_def)
  have ne: "hs_vital_status hp \<noteq> Dead \<Longrightarrow> 0 < n \<Longrightarrow> apply_healing n hp = (Ok \<lparr>hres_requested_healing = n,
      hres_effective_healing = min (hs_maximum hp - hs_current hp) n,
      hres_condition_changes =
        (if hs_vital_status hp = Active then [] else [RemoveZeroHitPointConditions]),
      hres_resulting_health = healed n hp\<rparr>, healed n hp)" for n
    using apply_healing_eq [OF p(2)] by simp
  show ?thesis
    using p assms(2)
    by (simp add: use_second_wind_def c e dead ne Let_def second_wind_spent_def)
qed

lemma use_second_wind_not_ready:
  "\<not> second_wind_ready st \<Longrightarrow> \<exists>e. use_second_wind roll d st = (Err e, st, d)"
  by (cases st; cases "resources_validate (fst st)"; cases "health_validate (snd (snd st))")
    (auto simp: use_second_wind_def second_wind_ready_def Let_def split: option.splits)

lemma use_second_wind_OkD:
  assumes "use_second_wind roll d (res, eco, hp) = (Ok x, st', d')"
  shows "second_wind_ready (res, eco, hp)" "hs_vital_status hp \<noteq> Dead"
    "1 \<le> sw_healing_roll x" "sw_healing_roll x \<le> 10"
    "st' = second_wind_spent (sw_healing_roll x) (res, eco, hp)"
proof -
  show r: "second_wind_ready (res, eco, hp)"
    using use_second_wind_not_ready [of "(res, eco, hp)" roll d] assms by force
  obtain v d1 where v: "roll 10 d = (v, d1)" by (cases "roll 10 d")
  note E = use_second_wind_eq [where roll = roll and d = d, OF r v]
  from E assms show "hs_vital_status hp \<noteq> Dead" "1 \<le> sw_healing_roll x" "sw_healing_roll x \<le> 10"
    "st' = second_wind_spent (sw_healing_roll x) (res, eco, hp)"
    by (auto simp: Let_def split: if_splits)
qed

lemma use_second_wind_Err:
  assumes "use_second_wind roll d (res, eco, hp) = (Err e, st', d')"
  shows "st' = (res, eco, hp)"
proof (cases "second_wind_ready (res, eco, hp)")
  case True
  obtain v d1 where v: "roll 10 d = (v, d1)" by (cases "roll 10 d")
  from use_second_wind_eq [where roll = roll and d = d, OF True v] assms
  show ?thesis by (auto simp: Let_def split: if_splits)
next
  case False
  with use_second_wind_not_ready [OF False, of roll d] assms show ?thesis by auto
qed

lemma second_wind_profile:
  assumes "resources_ok r"
  shows "same_profile r
    (r\<lparr>rs_second_wind := map_option (\<lambda>p. p\<lparr>ctr_current := ctr_current p - 1\<rparr>) (rs_second_wind r)\<rparr>)"
  using pools_okD [OF assms]
  by (cases "rs_second_wind r") (auto simp: same_profile_def recount_def)

lemma use_action_surge_OkD:
  assumes "use_action_surge (res, eco) = (Ok u, (res', eco'))"
  shows "resources_ok res" "\<not> action_available eco"
    "\<exists>p. rs_action_surge res = Some p \<and> 0 < ctr_current p \<and>
       res' = res\<lparr>rs_action_surge := Some (p\<lparr>ctr_current := ctr_current p - 1\<rparr>)\<rparr>"
    "eco' = eco\<lparr>action_available := True\<rparr>"
  using assms
  by (cases "rs_action_surge res"; cases "counter_spend (the (rs_action_surge res))";
      cases "fst (counter_spend (the (rs_action_surge res)))";
      auto simp: use_action_surge_def counter_spend_Ok_iff ok_or_def split: if_splits)+

lemma use_action_surge_Err:
  assumes "use_action_surge (res, eco) = (Err e, st')"
  shows "st' = (res, eco)"
  using assms
  by (cases "resources_validate res"; cases "rs_action_surge res";
      cases "counter_spend (the (rs_action_surge res))";
      cases "fst (counter_spend (the (rs_action_surge res)))")
    (auto simp: use_action_surge_def ok_or_def split: if_splits dest!: counter_spend_Err)

lemma grant_supported_bonus_action_OkD:
  assumes "grant_supported_bonus_action r eco = (Ok u, eco')"
  shows "resources_ok r" "eco' = eco \<or> eco' = grant_bonus_action eco"
  using assms by (auto simp: grant_supported_bonus_action_def)

section \<open>A hero's resources as a component\<close>

datatype 's hero_input =
    BonusActionInput
  | SecondWindInput "'s dice" 's
  | ActionSurgeInput
  | HitDieInput i8 "'s dice" 's
  | ShortRestInput i8 short_rest_request "'s dice" 's
  | LongRestInput

fun hero_step :: "('s hero_input, hero_state, rules_matrix_error, unit) step" where
  "hero_step BonusActionInput (res, eco, hp) =
     (case grant_supported_bonus_action res eco of (r, eco') \<Rightarrow> (r, res, eco', hp))"
| "hero_step (SecondWindInput roll d) st =
     (case use_second_wind roll d st of (r, st', _) \<Rightarrow> (and_then r (\<lambda>_. Ok ()), st'))"
| "hero_step ActionSurgeInput (res, eco, hp) =
     (case use_action_surge (res, eco) of (r, res', eco') \<Rightarrow> (r, res', eco', hp))"
| "hero_step (HitDieInput con roll d) (res, eco, hp) =
     (case spend_hit_die con roll d (res, hp) of
        (r, (res', hp'), _) \<Rightarrow> (and_then r (\<lambda>_. Ok ()), res', eco, hp'))"
| "hero_step (ShortRestInput con q roll d) (res, eco, hp) =
     (case take_short_rest con q roll d (res, hp) of
        (r, (res', hp'), _) \<Rightarrow> (and_then r (\<lambda>_. Ok ()), res', eco, hp'))"
| "hero_step LongRestInput (res, eco, hp) =
     (case take_long_rest (res, hp) of
        (r, res', hp') \<Rightarrow> (and_then r (\<lambda>_. Ok ()), res', eco, hp'))"

definition hero_ok :: "hero_state \<Rightarrow> bool" where
  "hero_ok st \<longleftrightarrow> resources_ok (fst st) \<and> health_ok (snd (snd st))"

definition hero_kept :: "hero_state \<Rightarrow> hero_class \<times> supported_level \<times> u16" where
  "hero_kept st = (rs_class (fst st), rs_level (fst st), hs_maximum (snd (snd st)))"

lemma hero_step_OkD:
  assumes "hero_ok (res, eco, hp)" "hero_step i (res, eco, hp) = (Ok u, res', eco', hp')"
  shows "hero_ok (res', eco', hp') \<and> hero_kept (res', eco', hp') = hero_kept (res, eco, hp)"
proof -
  have ok: "resources_ok res" "health_ok hp" using assms(1) by (simp_all add: hero_ok_def)
  note R = same_profile_ok [OF ok(1)]
  have "(rs_class res' = rs_class res \<and> rs_level res' = rs_level res \<and> resources_ok res') \<and>
    health_ok hp' \<and> hs_maximum hp' = hs_maximum hp"
  proof (cases i)
    case BonusActionInput
    with assms ok show ?thesis by (auto split: prod.splits)
  next
    case (SecondWindInput roll d)
    with assms obtain x d' where x: "use_second_wind roll d (res, eco, hp) = (Ok x, (res', eco', hp'), d')"
      by (auto split: prod.splits)
    from use_second_wind_OkD(5) [OF x] R [OF second_wind_profile [OF ok(1)]]
      use_second_wind_OkD(3) [OF x] healed_ok [OF ok(2), of "sw_healing_roll x + supported_level_value (rs_level res)"]
    show ?thesis by (auto simp: second_wind_spent_def healed_def)
  next
    case ActionSurgeInput
    with assms have x: "use_action_surge (res, eco) = (Ok u, (res', eco'))" "hp' = hp"
      by (auto split: prod.splits)
    from use_action_surge_OkD(3) [OF x(1)] obtain p where p: "rs_action_surge res = Some p"
      "0 < ctr_current p" "res' = res\<lparr>rs_action_surge := Some (p\<lparr>ctr_current := ctr_current p - 1\<rparr>)\<rparr>"
      by blast
    have "same_profile res res'"
      using pools_okD [OF ok(1)] p by (auto simp: same_profile_def recount_def)
    from R [OF this] p x(2) ok show ?thesis by simp
  next
    case (HitDieInput con roll d)
    with assms obtain x d' where x: "spend_hit_die con roll d (res, hp) = (Ok x, (res', hp'), d')"
      by (auto split: prod.splits)
    from spend_hit_die_OkD [OF x] show ?thesis by simp
  next
    case (ShortRestInput con q roll d)
    with assms obtain x d' where x: "take_short_rest con q roll d (res, hp) = (Ok x, (res', hp'), d')"
      by (auto split: prod.splits)
    from take_short_rest_facts [OF x] show ?thesis by simp
  next
    case LongRestInput
    with assms obtain x where x: "take_long_rest (res, hp) = (Ok x, res', hp')"
      by (auto split: prod.splits)
    then have "hs_vital_status hp = Active"
      using take_long_rest_not [of res hp] by fastforce
    from take_long_rest_eq [OF ok this] x R [OF long_rested_profile [OF ok(1)]] fully_healed_ok [OF ok(2)]
    show ?thesis by (auto simp: long_rested_def fully_healed_def)
  qed
  then show ?thesis by (simp add: hero_ok_def hero_kept_def)
qed

lemma hero_step_Err: "hero_step i st = (Err e, st') \<Longrightarrow> st' = st"
proof -
  assume a: "hero_step i st = (Err e, st')"
  obtain res eco hp where st: "st = (res, eco, hp)" by (cases st)
  have long: "take_long_rest (res, hp) = (Err e, res', hp') \<Longrightarrow> res' = res \<and> hp' = hp" for res' hp'
    using take_long_rest_not [of res hp] take_long_rest_eq [of res hp] by fastforce
  have bonus: "grant_supported_bonus_action res eco = (Err e, eco') \<Longrightarrow> eco' = eco" for eco'
    by (auto simp: grant_supported_bonus_action_def and_then_st_Err_iff)
  show "st' = st"
    using a unfolding st
    by (cases i)
      (auto simp: and_then_Err_iff dest: use_second_wind_Err use_action_surge_Err
        spend_hit_die_Err take_short_rest_Err long bonus split: prod.splits)
qed

interpretation hero: conserving hero_ok hero_step hero_kept
proof unfold_locales
  fix s s' :: hero_state and i :: "'a hero_input" and u
  assume a: "hero_ok s" "hero_step i s = (Ok u, s')"
  show "hero_ok s'" "hero_kept s' = hero_kept s"
    using hero_step_OkD [of "fst s" "fst (snd s)" "snd (snd s)" i u "fst s'" "fst (snd s')" "snd (snd s')"] a
    by simp_all
qed (rule hero_step_Err)

text \<open>Hit dice are a budget: every die rolled is one that was there.\<close>

type_synonym 's die_input = "i8 \<times> 's dice \<times> 's"

fun die_step ::
  "('s die_input, rest_state, rules_matrix_error, hit_die_spend_resolution) step" where
  "die_step (con, roll, d) st = (case spend_hit_die con roll d st of (r, st', _) \<Rightarrow> (r, st'))"

definition rest_ok :: "rest_state \<Rightarrow> bool" where
  "rest_ok st \<longleftrightarrow> resources_ok (fst st) \<and> health_ok (snd st)"

definition one_die :: "'s die_input \<Rightarrow> hit_die_spend_resolution \<Rightarrow> nat" where
  "one_die i x = 1"

interpretation hit_dice: budgeted rest_ok die_step one_die die_left
proof unfold_locales
  fix s s' :: rest_state and i :: "'a die_input" and x
  assume a: "die_step i s = (Ok x, s')"
  obtain con roll d where i: "i = (con, roll, d)" by (cases i)
  from a i obtain d' where "spend_hit_die con roll d (fst s, snd s) = (Ok x, (fst s', snd s'), d')"
    by (auto split: prod.splits)
  note D = spend_hit_die_OkD [OF this]
  from D show "rest_ok s'" by (simp add: rest_ok_def)
  from D(1,2) show "die_left s = one_die i x + die_left s'"
    by (simp add: die_left_def one_die_def hit_die_ready_def)
next
  fix s s' :: rest_state and i :: "'a die_input" and e
  assume a: "die_step i s = (Err e, s')"
  obtain con roll d where i: "i = (con, roll, d)" by (cases i)
  from a i obtain d' where "spend_hit_die con roll d (fst s, snd s) = (Err e, s', d')"
    by (auto split: prod.splits)
  from spend_hit_die_Err [OF this] show "s' = s" by simp
qed

section \<open>Properties\<close>

text \<open>C14: The batched short rest is the interactive one: spending \<open>n\<close> hit dice in one
  \<open>take_short_rest\<close> request succeeds exactly when spending them one at a time and finishing with a
  zero-die rest does, and then both leave the same resources, hit points and dice.\<close>

theorem batched_rest_is_interactive:
  assumes "hs_maximum (snd st) \<le> u16_max"
  shows "(\<exists>x. take_short_rest con q roll d st = (Ok x, st', d')) \<longleftrightarrow>
    (\<exists>y. interactive_short_rest con q roll d st = (Ok y, st', d'))"
  using assms by (rule short_rest_batch_iff)

definition tired_fighter :: rest_state where
  "tired_fighter =
     (resources_new Fighter LevelTwo, hurt_hero\<lparr>hs_maximum := 18\<rparr>)"

definition counting_dice :: "nat dice" where
  "counting_dice sides d = (if d < sides then d + 1 else 1, d + 1)"

theorem batched_rest_is_interactive_witness:
  "\<exists>x y st' d'.
     take_short_rest 2 \<lparr>sq_hit_dice_to_spend = 2, sq_use_arcane_recovery = False\<rparr> counting_dice 3
       tired_fighter = (Ok x, st', d') \<and>
     interactive_short_rest 2 \<lparr>sq_hit_dice_to_spend = 2, sq_use_arcane_recovery = False\<rparr>
       counting_dice 3 tired_fighter = (Ok y, st', d') \<and> hs_current (snd st') = 17"
proof -
  let ?q = "\<lparr>sq_hit_dice_to_spend = 2, sq_use_arcane_recovery = False\<rparr>"
  define p where "p = interactive_short_rest 2 ?q counting_dice 3 tired_fighter"
  have p: "is_ok (fst p) \<and> hs_current (snd (fst (snd p))) = 17"
    unfolding p_def by code_simp
  then obtain y where i:
    "interactive_short_rest 2 ?q counting_dice 3 tired_fighter = (Ok y, fst (snd p), snd (snd p))"
    by (metis is_ok_iff p_def prod.collapse)
  have "hs_maximum (snd tired_fighter) \<le> u16_max"
    by (simp add: tired_fighter_def u16_max_def)
  from batched_rest_is_interactive [OF this, of 2 ?q counting_dice 3 "fst (snd p)" "snd (snd p)"] i p
  show ?thesis by blast
qed

text \<open>Hit dice are a budget: over any sequence of single-die spends, with any dice, the dice
  rolled and the dice that remain add up to the dice there were; a refused spend costs nothing.\<close>

theorem hit_dice_budget:
  assumes "resources_validate (fst st) = Ok ()" "health_validate (snd st) = Ok ()"
  shows "length (outcomes die_step is st) + ctr_current (rs_hit_dice (fst (run_steps die_step is st)))
    = ctr_current (rs_hit_dice (fst st))"
proof -
  have "(\<Sum>(i, x)\<leftarrow>xs. one_die i x) = length xs" for xs :: "('a die_input \<times> _) list"
    by (induction xs) (auto simp: one_die_def)
  with hit_dice.run_budget [of st "is"] assms show ?thesis by (simp add: rest_ok_def die_left_def)
qed

theorem hit_dice_budget_witness:
  "length (outcomes die_step [(2, counting_dice, 3), (2, counting_dice, 9), (2, counting_dice, 1)]
      tired_fighter) = 2 \<and>
   ctr_current (rs_hit_dice (fst (run_steps die_step
      [(2, counting_dice, 3), (2, counting_dice, 9), (2, counting_dice, 1)] tired_fighter))) = 0"
proof -
  let ?is = "[(2, counting_dice, 3), (2, counting_dice, 9), (2, counting_dice, 1)]"
  have ok: "resources_validate (fst tired_fighter) = Ok ()"
    "health_validate (snd tired_fighter) = Ok ()" "ctr_current (rs_hit_dice (fst tired_fighter)) = 2"
    by code_simp+
  have "ctr_current (rs_hit_dice (fst (run_steps die_step ?is tired_fighter))) = 0" by code_simp
  with hit_dice_budget [OF ok(1,2), of ?is] ok(3) show ?thesis by simp
qed

text \<open>C19: Under every operation on a hero's resources (bonus action, second wind, action surge,
  hit die, short rest, long rest), in any order, with any dice and whatever is refused, the counters
  stay those of the hero's class and level and within their maxima, hit points stay valid, and class,
  level and hit-point maximum never change.\<close>

theorem hero_resources_stay_in_profile:
  assumes "resources_validate res = Ok ()" "health_validate hp = Ok ()"
    and "run_steps hero_step is (res, eco, hp) = (res', eco', hp')"
  shows "resources_validate res' = Ok () \<and> health_validate hp' = Ok () \<and>
    rs_class res' = rs_class res \<and> rs_level res' = rs_level res \<and> hs_maximum hp' = hs_maximum hp"
proof -
  have "hero_ok (res, eco, hp)" using assms(1,2) by (simp add: hero_ok_def)
  from hero.run_valid [OF this, of "is"] hero.run_kept [OF this, of "is"] assms(3)
  show ?thesis by (simp add: hero_ok_def hero_kept_def)
qed

definition busy_day :: "nat hero_input list" where
  "busy_day =
     [BonusActionInput, SecondWindInput counting_dice 6, ActionSurgeInput, HitDieInput 2 counting_dice 4,
      ShortRestInput 2 \<lparr>sq_hit_dice_to_spend = 0, sq_use_arcane_recovery = False\<rparr> counting_dice 8,
      LongRestInput]"

theorem hero_resources_stay_in_profile_witness:
  "case run_steps hero_step busy_day
      (fst tired_fighter, (economy_new 30)\<lparr>action_available := False\<rparr>, snd tired_fighter) of
     (res', eco', hp') \<Rightarrow> resources_validate res' = Ok () \<and> rs_level res' = LevelTwo \<and>
       hs_current hp' = 18"
proof -
  let ?eco = "(economy_new 30)\<lparr>action_available := False\<rparr>"
  define p where "p = run_steps hero_step busy_day (fst tired_fighter, ?eco, snd tired_fighter)"
  have ok: "resources_validate (fst tired_fighter) = Ok ()"
    "health_validate (snd tired_fighter) = Ok ()" "rs_level (fst tired_fighter) = LevelTwo"
    by code_simp+
  have "hs_current (snd (snd p)) = 18" unfolding p_def by code_simp
  moreover have "run_steps hero_step busy_day (fst tired_fighter, ?eco, snd tired_fighter) =
      (fst p, fst (snd p), snd (snd p))" by (simp add: p_def)
  from hero_resources_stay_in_profile [OF ok(1,2) this] ok(3)
  have "resources_validate (fst p) = Ok () \<and> rs_level (fst p) = LevelTwo" by simp
  ultimately show ?thesis by (simp add: p_def [symmetric] case_prod_beta)
qed

text \<open>Second wind is all or nothing. It fails without touching resources, action economy or hit
  points; it succeeds exactly when a living fighter has the feature left, a bonus action left and the
  d10 shows a face, and then it spends one use and the bonus action and heals that die plus the
  fighter's level.\<close>

theorem second_wind_all_or_nothing:
  "(case use_second_wind roll d (res, eco, hp) of
      (Err e, st', d') \<Rightarrow> st' = (res, eco, hp)
    | (Ok x, st', d') \<Rightarrow>
        1 \<le> sw_healing_roll x \<and> sw_healing_roll x \<le> 10 \<and> fst (roll 10 d) = sw_healing_roll x \<and>
        st' = second_wind_spent (sw_healing_roll x) (res, eco, hp)) \<and>
   (is_ok (fst (use_second_wind roll d (res, eco, hp))) \<longleftrightarrow>
      second_wind_ready (res, eco, hp) \<and> hs_vital_status hp \<noteq> Dead \<and>
      1 \<le> fst (roll 10 d) \<and> fst (roll 10 d) \<le> 10)"
proof (cases "second_wind_ready (res, eco, hp)")
  case False
  with use_second_wind_not_ready [OF False, of roll d] show ?thesis by auto
next
  case True
  obtain v d1 where "roll 10 d = (v, d1)" by (cases "roll 10 d")
  with use_second_wind_eq [of res eco hp roll d, OF True this] True show ?thesis
    by (auto simp: Let_def u8_max_def)
qed

text \<open>A long rest taken by an active hero restores hit points, second wind, action surge, spell
  slots and arcane recovery in full, clears temporary hit points, and gives back half the maximum hit
  dice, at least one, never beyond the maximum; any other hero is refused and nothing changes.\<close>

theorem long_rest_restores:
  "if resources_validate res = Ok () \<and> health_validate hp = Ok () \<and> hs_vital_status hp = Active
   then \<exists>x. take_long_rest (res, hp) = (Ok x, (long_rested res, fully_healed hp)) \<and>
     rest_hit_points_recovered x = hs_maximum hp - hs_current hp \<and>
     resources_validate (long_rested res) = Ok () \<and> health_validate (fully_healed hp) = Ok ()
   else \<exists>e. take_long_rest (res, hp) = (Err e, (res, hp))"
proof (cases "resources_ok res \<and> health_ok hp \<and> hs_vital_status hp = Active")
  case True
  then have "resources_ok (long_rested res)" "health_ok (fully_healed hp)"
    using same_profile_ok [OF _ long_rested_profile] fully_healed_ok by auto
  with take_long_rest_eq [of res hp] True show ?thesis by auto
next
  case False
  with take_long_rest_not [OF False] show ?thesis by auto
qed

end
