(* ===== verification/Turn_Flow.thy ===== *)
theory Turn_Flow
  imports Resources
begin

text \<open>
  A combat turn of \<open>rules_matrix.rs\<close>: movement in five-foot steps, standing up, the turn state
  with its two boundaries, the availability of an action and the core actions themselves.
\<close>

section \<open>Movement\<close>

record movement_state =
  mv_base_speed_feet :: u16
  mv_remaining_feet :: u16
  mv_position_feet :: u16

definition movement_new :: "u16 \<Rightarrow> u16 \<Rightarrow> movement_state rules_result" where
  "movement_new speed position =
     (if speed = 0 \<or> \<not> 5 dvd speed \<or> \<not> 5 dvd position
      then Err (InvalidState (TurnFault SpeedOrPosition))
      else Ok \<lparr>mv_base_speed_feet = speed, mv_remaining_feet = speed, mv_position_feet = position\<rparr>)"

definition movement_validate :: "movement_state \<Rightarrow> unit rules_result" where
  "movement_validate m =
     (if mv_base_speed_feet m = 0 \<or> \<not> 5 dvd mv_base_speed_feet m
        \<or> \<not> 5 dvd mv_remaining_feet m \<or> \<not> 5 dvd mv_position_feet m
        \<or> mv_remaining_feet m >
            saturating_mul u16_max (mv_base_speed_feet m) (1 + max_mvp_dashes_per_turn)
      then Err (InvalidState (TurnFault MovementBounds)) else Ok ())"

definition movement_reset :: "movement_state \<Rightarrow> movement_state" where
  "movement_reset m = m\<lparr>mv_remaining_feet := mv_base_speed_feet m\<rparr>"

record movement_context =
  mc_difficult_terrain :: bool
  mc_crawling :: bool

definition movement_multiplier :: "movement_context \<Rightarrow> u16 rules_result" where
  "movement_multiplier c =
     ok_or (Option.bind (checked_add u16_max 1 (of_bool (mc_difficult_terrain c)))
              (\<lambda>v. checked_add u16_max v (of_bool (mc_crawling c)))) ArithmeticOverflow"

definition move_to ::
  "u16 \<Rightarrow> movement_context \<Rightarrow> condition_set \<Rightarrow> movement_state \<Rightarrow> u16 rules_result \<times> movement_state" where
  "move_to destination context conditions m =
     and_then_st
       (and_then (movement_validate m) (\<lambda>_.
          if \<not> 5 dvd destination then Err (InvalidIntent (TurnFault DestinationIncrement))
          else and_then (condition_effects_of conditions AbilityCheckSituation) (\<lambda>effects.
            if ce_speed_is_zero effects then Err (InvalidIntent (TurnFault SpeedIsZero))
            else let distance = abs_diff (mv_position_feet m) destination in
              and_then (movement_multiplier context) (\<lambda>multiplier.
              and_then (ok_or (checked_mul u16_max distance multiplier) ArithmeticOverflow) (\<lambda>cost.
                if cost > mv_remaining_feet m
                then Err (InvalidIntent (TurnFault MovementCostExceeds)) else Ok cost)))), m)
       (\<lambda>cost m. (Ok cost, m\<lparr>mv_remaining_feet := mv_remaining_feet m - cost,
                             mv_position_feet := destination\<rparr>))"

definition stand_from_prone ::
  "movement_state \<times> condition_set \<Rightarrow> u16 rules_result \<times> movement_state \<times> condition_set" where
  "stand_from_prone st =
     (let (m, conditions) = st in
      and_then_st
       (and_then (movement_validate m) (\<lambda>_. and_then (condition_set_validate conditions) (\<lambda>_.
          if \<not> cs_contains conditions Prone then Err (InvalidIntent (TurnFault ActorNotProne))
          else and_then (condition_effects_of conditions AbilityCheckSituation) (\<lambda>effects.
            if ce_speed_is_zero effects then Err (InvalidIntent (TurnFault CannotStand))
            else let cost = mv_base_speed_feet m div 2 in
              if mv_remaining_feet m < cost
              then Err (InvalidIntent (TurnFault StandingCostExceeds)) else Ok cost))), st)
       (\<lambda>cost st.
         (Ok cost, m\<lparr>mv_remaining_feet := mv_remaining_feet m - cost\<rparr>,
          conditions\<lparr>cs_active := filter (\<lambda>c. ac_condition c \<noteq> Prone) (cs_active conditions)\<rparr>)))"

section \<open>The turn state\<close>

record runtime_turn_state =
  rt_schema_version :: u16
  rt_actor_id :: string
  rt_round :: u32
  rt_active :: bool
  rt_action_economy :: action_economy
  rt_movement :: movement_state
  rt_conditions :: condition_set

definition turn_validate :: "runtime_turn_state \<Rightarrow> unit rules_result" where
  "turn_validate t =
     (if rt_schema_version t \<noteq> rules_matrix_schema_version \<or> rt_round t = 0
      then Err (InvalidState (TurnFault TurnSchemaOrRound))
      else and_then (require_id (rt_actor_id t) (TurnFault TurnActorInvalid)) (\<lambda>_.
        and_then (condition_set_validate (rt_conditions t)) (\<lambda>_.
        and_then (movement_validate (rt_movement t)) (\<lambda>_.
          if mv_remaining_feet (rt_movement t) \<noteq> movement_remaining_feet (rt_action_economy t)
          then Err (InvalidState (TurnFault MovementViewsDisagree)) else Ok ()))))"

definition turn_new ::
  "string \<Rightarrow> u32 \<Rightarrow> u16 \<Rightarrow> u16 \<Rightarrow> condition_set \<Rightarrow> runtime_turn_state rules_result" where
  "turn_new actor round speed position conditions =
     and_then (require_id actor (TurnFault TurnActorInvalid)) (\<lambda>_.
       if round = 0 then Err (InvalidState (TurnFault RoundMustBePositive))
       else and_then (condition_set_validate conditions) (\<lambda>_.
         and_then (movement_new speed position) (\<lambda>m.
           let t = \<lparr>rt_schema_version = rules_matrix_schema_version, rt_actor_id = actor,
                    rt_round = round, rt_active = True, rt_action_economy = economy_new speed,
                    rt_movement = m, rt_conditions = conditions\<rparr>
           in and_then (turn_validate t) (\<lambda>_. Ok t))))"

definition synchronize_movement :: "runtime_turn_state \<Rightarrow> runtime_turn_state" where
  "synchronize_movement t =
     t\<lparr>rt_action_economy := (rt_action_economy t)
         \<lparr>movement_remaining_feet := mv_remaining_feet (rt_movement t)\<rparr>\<rparr>"

definition begin_next_turn ::
  "u32 \<Rightarrow> runtime_resources \<Rightarrow> runtime_turn_state
    \<Rightarrow> active_condition list rules_result \<times> runtime_turn_state" where
  "begin_next_turn round resources t =
     (case and_then (turn_validate t) (\<lambda>_.
             if rt_active t \<or> round < rt_round t
               \<or> round > saturating_add u32_max (rt_round t) 1
             then Err (InvalidIntent (TurnFault NextTurnInvalid))
             else and_then (resources_validate resources) (\<lambda>_.
               case process_durations (TurnBoundaryEvent (rt_actor_id t) BoundaryStart) (rt_conditions t) of
                 (Err e, _) \<Rightarrow> Err e
               | (Ok expired, conditions) \<Rightarrow>
                   let movement = movement_reset (rt_movement t);
                       economy = reset_for_turn (mv_base_speed_feet (rt_movement t)) (rt_action_economy t)
                   in (case grant_supported_bonus_action resources economy of
                         (Err e, _) \<Rightarrow> Err e
                       | (Ok _, economy) \<Rightarrow>
                           let next' = t\<lparr>rt_conditions := conditions, rt_round := round,
                                        rt_active := True, rt_action_economy := economy,
                                        rt_movement := movement\<rparr>
                           in and_then (turn_validate next') (\<lambda>_. Ok (expired, next'))))) of
        Err e \<Rightarrow> (Err e, t)
      | Ok (expired, next') \<Rightarrow> (Ok expired, next'))"

definition end_turn ::
  "runtime_turn_state \<Rightarrow> active_condition list rules_result \<times> runtime_turn_state" where
  "end_turn t =
     (case and_then (turn_validate t) (\<lambda>_.
             if \<not> rt_active t then Err (InvalidIntent (TurnFault TurnAlreadyEnded))
             else case process_durations (TurnBoundaryEvent (rt_actor_id t) BoundaryEnd) (rt_conditions t) of
                 (Err e, _) \<Rightarrow> Err e
               | (Ok expired, conditions) \<Rightarrow>
                   let next' = t\<lparr>rt_conditions := conditions, rt_active := False\<rparr>
                   in and_then (turn_validate next') (\<lambda>_. Ok (expired, next'))) of
        Err e \<Rightarrow> (Err e, t)
      | Ok (expired, next') \<Rightarrow> (Ok expired, next'))"

section \<open>Availability of actions\<close>

datatype ready_trigger = CreatureEntersReach | CreatureEntersNormalRange | DoorOpens

datatype action_context =
    AttackContext bool bool                 \<comment> \<open>target valid, in range\<close>
  | CastContext spell_id bool bool bool     \<comment> \<open>target valid, prepared, slot available\<close>
  | DashContext
  | DisengageContext
  | DodgeContext
  | HelpContext string bool bool            \<comment> \<open>target valid, within five feet\<close>
  | HideContext bool                        \<comment> \<open>obscured from observers\<close>
  | ReadyContext ready_trigger bool         \<comment> \<open>reaction available\<close>
  | SearchContext
  | UseObjectContext equipment_id bool bool \<comment> \<open>carried, authored use available\<close>
  | SecondWindContext bool
  | ActionSurgeContext bool

fun context_capability :: "action_context \<Rightarrow> action_capability" where
  "context_capability (AttackContext _ _) = CapAttack"
| "context_capability (CastContext _ _ _ _) = CapCastSupportedSpell"
| "context_capability DashContext = CapDash"
| "context_capability DisengageContext = CapDisengage"
| "context_capability DodgeContext = CapDodge"
| "context_capability (HelpContext _ _ _) = CapHelp"
| "context_capability (HideContext _) = CapHide"
| "context_capability (ReadyContext _ _) = CapReady"
| "context_capability SearchContext = CapSearch"
| "context_capability (UseObjectContext _ _ _) = CapUseObject"
| "context_capability (SecondWindContext _) = CapSecondWind"
| "context_capability (ActionSurgeContext _) = CapActionSurge"

datatype action_blocker =
    BlockIncapacitated | BlockActionSpent | BlockBonusActionUnavailable | BlockReactionUnavailable
  | BlockInvalidTarget | BlockOutOfRange | BlockSpellNotPrepared | BlockSpellSlotUnavailable
  | BlockNotObscured | BlockNoAuthoredObjectUse | BlockResourceUnavailable

fun blocker_index :: "action_blocker \<Rightarrow> nat" where
  "blocker_index BlockIncapacitated = 0"
| "blocker_index BlockActionSpent = 1"
| "blocker_index BlockBonusActionUnavailable = 2"
| "blocker_index BlockReactionUnavailable = 3"
| "blocker_index BlockInvalidTarget = 4"
| "blocker_index BlockOutOfRange = 5"
| "blocker_index BlockSpellNotPrepared = 6"
| "blocker_index BlockSpellSlotUnavailable = 7"
| "blocker_index BlockNotObscured = 8"
| "blocker_index BlockNoAuthoredObjectUse = 9"
| "blocker_index BlockResourceUnavailable = 10"

record action_availability =
  av_capability :: action_capability
  av_resource :: "turn_resource option"
  av_blockers :: "action_blocker list"

definition is_available :: "action_availability \<Rightarrow> bool" where
  "is_available a \<longleftrightarrow> av_blockers a = []"

fun context_resource :: "action_context \<Rightarrow> turn_resource option" where
  "context_resource (SecondWindContext _) = Some BonusAction"
| "context_resource (ActionSurgeContext _) = None"
| "context_resource (CastContext spell _ _ _) = (if spell = ShieldSpell then Some Reaction else Some Action)"
| "context_resource _ = Some Action"

definition block_unless :: "bool \<Rightarrow> action_blocker \<Rightarrow> action_blocker list" where
  "block_unless ok b = (if ok then [] else [b])"

definition resource_blockers ::
  "turn_resource option \<Rightarrow> action_economy \<Rightarrow> condition_effects \<Rightarrow> action_blocker list" where
  "resource_blockers r eco effects =
     (case r of
        Some Action \<Rightarrow> block_unless (action_available eco) BlockActionSpent
      | Some BonusAction \<Rightarrow> block_unless (bonus_action_available eco) BlockBonusActionUnavailable
      | Some Reaction \<Rightarrow>
          block_unless (reaction_available eco \<and> \<not> ce_reactions_blocked effects) BlockReactionUnavailable
      | _ \<Rightarrow> [])"

fun context_blockers :: "action_context \<Rightarrow> action_blocker list rules_result" where
  "context_blockers (AttackContext target_valid in_range) =
     Ok (block_unless target_valid BlockInvalidTarget @ block_unless in_range BlockOutOfRange)"
| "context_blockers (CastContext spell target_valid prepared slot) =
     Ok (block_unless target_valid BlockInvalidTarget @
         block_unless (spell_level spell \<noteq> 1 \<or> prepared) BlockSpellNotPrepared @
         block_unless (spell_level spell \<noteq> 1 \<or> slot) BlockSpellSlotUnavailable)"
| "context_blockers (HelpContext target_id target_valid near) =
     and_then (require_id target_id (TurnFault HelpTargetInvalid)) (\<lambda>_.
       Ok (block_unless target_valid BlockInvalidTarget @ block_unless near BlockOutOfRange))"
| "context_blockers (HideContext obscured) = Ok (block_unless obscured BlockNotObscured)"
| "context_blockers (ReadyContext _ reaction) = Ok (block_unless reaction BlockReactionUnavailable)"
| "context_blockers (UseObjectContext _ carried authored) =
     Ok (block_unless carried BlockInvalidTarget @ block_unless authored BlockNoAuthoredObjectUse)"
| "context_blockers (SecondWindContext available) = Ok (block_unless available BlockResourceUnavailable)"
| "context_blockers (ActionSurgeContext available) = Ok (block_unless available BlockResourceUnavailable)"
| "context_blockers _ = Ok []"

definition action_availability_of ::
  "action_economy \<Rightarrow> condition_set \<Rightarrow> action_context \<Rightarrow> action_availability rules_result" where
  "action_availability_of eco conditions context =
     and_then (condition_set_validate conditions) (\<lambda>_.
     and_then (condition_effects_of conditions AbilityCheckSituation) (\<lambda>effects.
     let resource = context_resource context in
     and_then (context_blockers context) (\<lambda>more.
       Ok \<lparr>av_capability = context_capability context, av_resource = resource,
           av_blockers = remdups_adj (sort_key blocker_index
             (block_unless (\<not> ce_actions_blocked effects) BlockIncapacitated @
              resource_blockers resource eco effects @ more))\<rparr>)))"

definition spend_action ::
  "action_availability \<Rightarrow> action_economy \<Rightarrow> unit rules_result \<times> action_economy" where
  "spend_action availability eco =
     (if \<not> is_available availability then (Err (InvalidIntent (TurnFault BlockedAction)), eco)
      else case av_resource availability of
        None \<Rightarrow> (Ok (), eco)
      | Some r \<Rightarrow> (case economy_spend r eco of (x, eco') \<Rightarrow> (lift_core x, eco')))"

section \<open>Core actions\<close>

datatype core_action_effect =
    AttackCommitted
  | SpellCastCommitted spell_id
  | Dashed u16
  | DisengagedUntilTurnEnd
  | DodgingUntilNextTurn bool
  | HelpGranted string
  | HideCheckRequested
  | Readied ready_trigger
  | SearchCheckRequested
  | ObjectUsed equipment_id

type_synonym turn_pools = "action_economy \<times> movement_state"

definition is_class_feature :: "action_context \<Rightarrow> bool" where
  "is_class_feature c =
     (case c of SecondWindContext _ \<Rightarrow> True | ActionSurgeContext _ \<Rightarrow> True | _ \<Rightarrow> False)"

text \<open>The \<open>match\<close> of \<open>apply_core_action\<close>; class features have returned before it.\<close>

fun core_effect ::
  "action_context \<Rightarrow> condition_effects \<Rightarrow> turn_pools \<Rightarrow> (core_action_effect \<times> turn_pools) rules_result" where
  "core_effect (AttackContext _ _) effects st = Ok (AttackCommitted, st)"
| "core_effect (CastContext spell _ _ _) effects st = Ok (SpellCastCommitted spell, st)"
| "core_effect DashContext effects (eco, m) =
     (let gained = (if ce_speed_is_zero effects then 0 else mv_base_speed_feet m) in
      and_then (ok_or (checked_add u16_max (mv_remaining_feet m) gained) ArithmeticOverflow) (\<lambda>r.
        Ok (Dashed gained, eco\<lparr>movement_remaining_feet := r\<rparr>, m\<lparr>mv_remaining_feet := r\<rparr>)))"
| "core_effect DisengageContext effects st = Ok (DisengagedUntilTurnEnd, st)"
| "core_effect DodgeContext effects st = Ok (DodgingUntilNextTurn (\<not> ce_speed_is_zero effects), st)"
| "core_effect (HelpContext target_id _ _) effects st = Ok (HelpGranted target_id, st)"
| "core_effect (HideContext _) effects st = Ok (HideCheckRequested, st)"
| "core_effect (ReadyContext trigger _) effects st = Ok (Readied trigger, st)"
| "core_effect SearchContext effects st = Ok (SearchCheckRequested, st)"
| "core_effect (UseObjectContext item _ _) effects st = Ok (ObjectUsed item, st)"
| "core_effect (SecondWindContext _) effects st =
     Err (InvalidIntent (TurnFault FeatureHasOwnTransition))"
| "core_effect (ActionSurgeContext _) effects st =
     Err (InvalidIntent (TurnFault FeatureHasOwnTransition))"

definition apply_core_action ::
  "condition_set \<Rightarrow> action_context \<Rightarrow> turn_pools \<Rightarrow> core_action_effect rules_result \<times> turn_pools" where
  "apply_core_action conditions context st =
     (let (eco, m) = st in
      case and_then (action_availability_of eco conditions context) (\<lambda>availability.
             if is_class_feature context
             then Err (InvalidIntent (TurnFault FeatureHasOwnTransition))
             else and_then (movement_validate m) (\<lambda>_.
               and_then (condition_effects_of conditions AbilityCheckSituation) (\<lambda>effects.
               case spend_action availability eco of
                 (Err e, _) \<Rightarrow> Err e
               | (Ok _, eco') \<Rightarrow>
                   and_then (core_effect context effects (eco', m)) (\<lambda>(effect, next').
                     and_then (movement_validate (snd next')) (\<lambda>_. Ok (effect, next')))))) of
        Err e \<Rightarrow> (Err e, st)
      | Ok (effect, next') \<Rightarrow> (Ok effect, next'))"

section \<open>Movement keeps to its grid and budget\<close>

definition movement_ok :: "movement_state \<Rightarrow> bool" where
  "movement_ok m \<longleftrightarrow>
     0 < mv_base_speed_feet m \<and> 5 dvd mv_base_speed_feet m \<and> 5 dvd mv_remaining_feet m \<and>
     5 dvd mv_position_feet m \<and>
     mv_remaining_feet m \<le> min u16_max (3 * mv_base_speed_feet m)"

lemma movement_validate_iff [simp]: "movement_validate m = Ok u \<longleftrightarrow> movement_ok m"
  by (auto simp: movement_validate_def movement_ok_def saturating_mul_def max_mvp_dashes_per_turn_def
      mult.commute)

lemma movement_validate_result [simp]: "movement_ok m \<Longrightarrow> movement_validate m = Ok ()"
  by simp

definition step_cost :: "movement_context \<Rightarrow> nat" where
  "step_cost c = 1 + of_bool (mc_difficult_terrain c) + of_bool (mc_crawling c)"

lemma movement_multiplier_eq: "movement_multiplier c = Ok (step_cost c)"
  by (simp add: movement_multiplier_def step_cost_def u16_max_def checked_add_def)

lemma abs_diff_dvd: "(k::nat) dvd a \<Longrightarrow> k dvd b \<Longrightarrow> k dvd abs_diff a b"
  by (simp add: abs_diff_def)

lemma move_to_Ok_iff:
  "move_to dest c s m = (Ok cost, m') \<longleftrightarrow>
     movement_ok m \<and> 5 dvd dest \<and> condition_set_ok s \<and>
     \<not> (cs_contains s Grappled \<or> cs_contains s Unconscious \<or> cs_contains s Restrained) \<and>
     cost = abs_diff (mv_position_feet m) dest * step_cost c \<and> cost \<le> u16_max \<and>
     cost \<le> mv_remaining_feet m \<and>
     m' = m\<lparr>mv_remaining_feet := mv_remaining_feet m - cost, mv_position_feet := dest\<rparr>"
proof (cases "condition_effects_of s AbilityCheckSituation")
  case (Err e)
  then have "\<not> condition_set_ok s" using condition_effects_total [of s AbilityCheckSituation] by auto
  with Err show ?thesis by (auto simp: move_to_def)
next
  case (Ok e)
  then have "condition_set_ok s" by (simp add: condition_effects_of_Ok_iff)
  with Ok condition_effects_flags(2) [OF Ok] show ?thesis
    by (auto simp: move_to_def movement_multiplier_eq Let_def split: if_splits)
qed

lemma move_to_OkD:
  assumes "move_to dest c s m = (Ok cost, m')"
  shows "movement_ok m'" "mv_remaining_feet m = cost + mv_remaining_feet m'"
    "mv_base_speed_feet m' = mv_base_speed_feet m" "mv_position_feet m' = dest"
    "abs_diff (mv_position_feet m) dest \<le> cost"
proof -
  note M = assms [unfolded move_to_Ok_iff]
  have "5 dvd cost"
    using M by (auto simp: movement_ok_def intro!: dvd_mult2 abs_diff_dvd)
  with M show "movement_ok m'" by (auto simp: movement_ok_def intro!: dvd_diff_nat)
  from M show "mv_remaining_feet m = cost + mv_remaining_feet m'"
    "mv_base_speed_feet m' = mv_base_speed_feet m" "mv_position_feet m' = dest" by simp_all
  from M show "abs_diff (mv_position_feet m) dest \<le> cost" by (simp add: step_cost_def)
qed

lemma move_to_Err: "move_to dest c s m = (Err e, m') \<Longrightarrow> m' = m"
  by (auto simp: move_to_def and_then_st_Err_iff)

lemma stand_Ok_iff:
  "stand_from_prone (m, s) = (Ok cost, (m', s')) \<longleftrightarrow>
     movement_ok m \<and> condition_set_ok s \<and> cs_contains s Prone \<and>
     \<not> (cs_contains s Grappled \<or> cs_contains s Unconscious \<or> cs_contains s Restrained) \<and>
     cost = mv_base_speed_feet m div 2 \<and> cost \<le> mv_remaining_feet m \<and>
     m' = m\<lparr>mv_remaining_feet := mv_remaining_feet m - cost\<rparr> \<and>
     s' = s\<lparr>cs_active := filter (\<lambda>c. ac_condition c \<noteq> Prone) (cs_active s)\<rparr>"
proof (cases "condition_effects_of s AbilityCheckSituation")
  case (Err e)
  then have "\<not> condition_set_ok s" using condition_effects_total [of s AbilityCheckSituation] by auto
  with Err show ?thesis by (auto simp: stand_from_prone_def)
next
  case (Ok e)
  then have "condition_set_ok s" by (simp add: condition_effects_of_Ok_iff)
  with Ok condition_effects_flags(2) [OF Ok] show ?thesis
    by (auto simp: stand_from_prone_def Let_def split: if_splits)
qed

lemma filter_conditions_ok:
  "condition_set_ok s \<Longrightarrow> condition_set_ok (s\<lparr>cs_active := filter p (cs_active s)\<rparr>)"
  using order_trans [OF length_filter_le]
  by (auto simp: condition_set_ok_def list_all_iff distinct_map_filter)

lemma stand_OkD:
  assumes "stand_from_prone (m, s) = (Ok cost, (m', s'))"
  shows "condition_set_ok s'" "\<not> cs_contains s' Prone"
    "10 dvd mv_base_speed_feet m \<Longrightarrow> movement_ok m'"
proof -
  note S = assms [unfolded stand_Ok_iff]
  from S filter_conditions_ok show "condition_set_ok s'" by simp
  from S show "\<not> cs_contains s' Prone" by (auto simp: cs_contains_iff)
  assume "10 dvd mv_base_speed_feet m"
  then have "5 dvd mv_base_speed_feet m div 2" by (auto elim!: dvdE)
  with S show "movement_ok m'" by (auto simp: movement_ok_def intro!: dvd_diff_nat)
qed

lemma stand_Err: "stand_from_prone st = (Err e, st') \<Longrightarrow> st' = st"
  by (cases st) (auto simp: stand_from_prone_def and_then_st_Err_iff)

type_synonym move_input = "u16 \<times> movement_context \<times> condition_set"

fun move_step :: "(move_input, movement_state, rules_matrix_error, u16) step" where
  "move_step (dest, c, s) m = move_to dest c s m"

definition feet_paid :: "move_input \<Rightarrow> u16 \<Rightarrow> nat" where
  "feet_paid i cost = cost"

interpretation movement: budgeted movement_ok move_step feet_paid mv_remaining_feet
  by unfold_locales (auto simp: feet_paid_def dest: move_to_OkD move_to_Err)

text \<open>The distance of a walk, measured where it really went.\<close>

fun walked :: "move_input list \<Rightarrow> movement_state \<Rightarrow> nat" where
  "walked [] m = 0"
| "walked (i # is) m =
     abs_diff (mv_position_feet m) (mv_position_feet (snd (move_step i m))) +
     walked is (snd (move_step i m))"

lemma abs_diff_self [simp]: "abs_diff a a = 0"
  by (simp add: abs_diff_def)

lemma walked_le_cost:
  "movement_ok m \<Longrightarrow> walked is m \<le> (\<Sum>(i, x)\<leftarrow>outcomes move_step is m. feet_paid i x)"
proof (induction "is" arbitrary: m)
  case Nil
  show ?case by simp
next
  case (Cons i "is")
  obtain dest c s where i: "i = (dest, c, s)" by (cases i)
  obtain r m' where st: "move_to dest c s m = (r, m')" by (cases "move_to dest c s m")
  show ?case
  proof (cases r)
    case (Err e)
    with st have "m' = m" using move_to_Err by simp
    with Err st i Cons show ?thesis by simp
  next
    case (Ok cost)
    with st have ok: "move_to dest c s m = (Ok cost, m')" by simp
    from move_to_OkD [OF ok] Cons.IH [of m'] ok i show ?thesis
      by (simp add: feet_paid_def)
  qed
qed

section \<open>Turn boundaries\<close>

definition turn_ok :: "runtime_turn_state \<Rightarrow> bool" where
  "turn_ok t \<longleftrightarrow>
     rt_schema_version t = rules_matrix_schema_version \<and> 0 < rt_round t \<and>
     is_valid_opaque_id (rt_actor_id t) \<and> condition_set_ok (rt_conditions t) \<and>
     movement_ok (rt_movement t) \<and>
     mv_remaining_feet (rt_movement t) = movement_remaining_feet (rt_action_economy t)"

lemma turn_validate_iff [simp]: "turn_validate t = Ok u \<longleftrightarrow> turn_ok t"
  by (auto simp: turn_validate_def turn_ok_def)

lemma turn_validate_result [simp]: "turn_ok t \<Longrightarrow> turn_validate t = Ok ()"
  by simp

definition conditions_after :: "duration_event \<Rightarrow> condition_set \<Rightarrow> condition_set" where
  "conditions_after ev s = s\<lparr>cs_active := snd (sweep_conditions ev (cs_active s))\<rparr>"

definition conditions_expired :: "duration_event \<Rightarrow> condition_set \<Rightarrow> active_condition list" where
  "conditions_expired ev s = fst (sweep_conditions ev (cs_active s))"

lemma process_durations_eq':
  "condition_set_ok s \<Longrightarrow> is_valid_opaque_id (event_actor ev) \<Longrightarrow>
     process_durations ev s = (Ok (conditions_expired ev s), conditions_after ev s)"
  by (simp add: process_durations_eq conditions_expired_def conditions_after_def)

lemma conditions_after_ok: "condition_set_ok s \<Longrightarrow> condition_set_ok (conditions_after ev s)"
  by (simp add: conditions_after_def sweep_retained_ok)

definition ended :: "runtime_turn_state \<Rightarrow> runtime_turn_state" where
  "ended t =
     t\<lparr>rt_conditions := conditions_after (TurnBoundaryEvent (rt_actor_id t) BoundaryEnd) (rt_conditions t),
       rt_active := False\<rparr>"

lemma ended_ok: "turn_ok t \<Longrightarrow> turn_ok (ended t)"
  by (simp add: turn_ok_def ended_def conditions_after_ok)

lemma end_turn_eq:
  assumes "turn_ok t" "rt_active t"
  shows "end_turn t =
    (Ok (conditions_expired (TurnBoundaryEvent (rt_actor_id t) BoundaryEnd) (rt_conditions t)), ended t)"
proof -
  have c: "condition_set_ok (rt_conditions t)" "is_valid_opaque_id (rt_actor_id t)"
    using assms(1) by (simp_all add: turn_ok_def)
  show ?thesis
    using assms c ended_ok [OF assms(1)]
    by (simp add: end_turn_def process_durations_eq' Let_def ended_def)
qed

lemma end_turn_not: "\<not> (turn_ok t \<and> rt_active t) \<Longrightarrow> \<exists>e. end_turn t = (Err e, t)"
  by (cases "turn_validate t") (auto simp: end_turn_def)

definition fresh_economy :: "u16 \<Rightarrow> runtime_resources \<Rightarrow> action_economy" where
  "fresh_economy speed r =
     (economy_new speed)\<lparr>bonus_action_available :=
        (case rs_second_wind r of None \<Rightarrow> False | Some p \<Rightarrow> 0 < ctr_current p)\<rparr>"

lemma grant_bonus_fresh:
  "resources_ok r \<Longrightarrow>
     grant_supported_bonus_action r (reset_for_turn speed eco) = (Ok (), fresh_economy speed r)"
  by (auto simp: grant_supported_bonus_action_def fresh_economy_def reset_for_turn_def
      grant_bonus_action_def economy_new_def split: option.splits)

definition begun :: "u32 \<Rightarrow> runtime_resources \<Rightarrow> runtime_turn_state \<Rightarrow> runtime_turn_state" where
  "begun round r t =
     t\<lparr>rt_conditions := conditions_after (TurnBoundaryEvent (rt_actor_id t) BoundaryStart) (rt_conditions t),
       rt_round := round, rt_active := True,
       rt_action_economy := fresh_economy (mv_base_speed_feet (rt_movement t)) r,
       rt_movement := movement_reset (rt_movement t)\<rparr>"

lemma movement_reset_ok:
  "movement_ok m \<Longrightarrow> mv_base_speed_feet m \<le> u16_max \<Longrightarrow> movement_ok (movement_reset m)"
  by (simp add: movement_ok_def movement_reset_def)

lemma begun_ok:
  "turn_ok t \<Longrightarrow> 0 < round \<Longrightarrow> mv_base_speed_feet (rt_movement t) \<le> u16_max \<Longrightarrow>
     turn_ok (begun round r t)"
  by (simp add: turn_ok_def begun_def conditions_after_ok movement_reset_ok)
    (simp add: movement_reset_def fresh_economy_def economy_new_def)

definition begin_ready :: "u32 \<Rightarrow> runtime_resources \<Rightarrow> runtime_turn_state \<Rightarrow> bool" where
  "begin_ready round r t \<longleftrightarrow>
     turn_ok t \<and> resources_ok r \<and> \<not> rt_active t \<and> rt_round t \<le> round \<and>
     round \<le> min u32_max (rt_round t + 1)"

lemma begin_next_turn_eq:
  assumes "begin_ready round r t" "mv_base_speed_feet (rt_movement t) \<le> u16_max"
  shows "begin_next_turn round r t =
    (Ok (conditions_expired (TurnBoundaryEvent (rt_actor_id t) BoundaryStart) (rt_conditions t)),
     begun round r t)"
proof -
  have c: "turn_ok t" "condition_set_ok (rt_conditions t)" "is_valid_opaque_id (rt_actor_id t)"
    "resources_ok r" "0 < rt_round t" "rt_round t \<le> round" "\<not> rt_active t"
    "\<not> round > saturating_add u32_max (rt_round t) 1"
    using assms(1) by (auto simp: begin_ready_def turn_ok_def saturating_add_def)
  have b: "turn_ok (begun round r t)"
    using begun_ok [OF c(1) _ assms(2), of round r] c(5,6) by simp
  show ?thesis
    using c b
    by (simp add: begin_next_turn_def process_durations_eq' grant_bonus_fresh Let_def begun_def not_less)
qed

lemma begin_next_turn_not:
  "\<not> begin_ready round r t \<Longrightarrow> \<exists>e. begin_next_turn round r t = (Err e, t)"
  by (cases "turn_validate t"; cases "resources_validate r")
    (auto simp: begin_next_turn_def begin_ready_def saturating_add_def)

section \<open>Availability and core actions\<close>

fun context_allows :: "action_context \<Rightarrow> bool" where
  "context_allows (AttackContext valid in_range) = (valid \<and> in_range)"
| "context_allows (CastContext spell valid prepared slot) =
     (valid \<and> (spell_level spell = 1 \<longrightarrow> prepared \<and> slot))"
| "context_allows (HelpContext _ valid near) = (valid \<and> near)"
| "context_allows (HideContext obscured) = obscured"
| "context_allows (ReadyContext _ reaction) = reaction"
| "context_allows (UseObjectContext _ carried authored) = (carried \<and> authored)"
| "context_allows (SecondWindContext available) = available"
| "context_allows (ActionSurgeContext available) = available"
| "context_allows _ = True"

lemma context_blockers_empty: "context_blockers c = Ok bs \<Longrightarrow> bs = [] \<longleftrightarrow> context_allows c"
  by (cases c) (auto simp: block_unless_def split: if_splits)

definition incapacitated :: "condition_set \<Rightarrow> bool" where
  "incapacitated s \<longleftrightarrow> cs_contains s Incapacitated \<or> cs_contains s Unconscious"

definition immobile :: "condition_set \<Rightarrow> bool" where
  "immobile s \<longleftrightarrow> cs_contains s Grappled \<or> cs_contains s Unconscious \<or> cs_contains s Restrained"

definition resource_allows :: "turn_resource option \<Rightarrow> action_economy \<Rightarrow> bool" where
  "resource_allows r eco \<longleftrightarrow> (case r of None \<Rightarrow> True | Some r \<Rightarrow> resource_flag r eco)"

lemma availability_Ok:
  assumes "action_availability_of eco s c = Ok a"
  shows "condition_set_ok s" "av_resource a = context_resource c"
    "av_capability a = context_capability c"
    "is_available a \<longleftrightarrow>
       \<not> incapacitated s \<and> resource_allows (context_resource c) eco \<and> context_allows c"
proof -
  show ok: "condition_set_ok s" using assms by (auto simp: action_availability_of_def)
  obtain e where e: "condition_effects_of s AbilityCheckSituation = Ok e"
    using condition_effects_total [OF ok] by (auto simp: is_ok_iff)
  obtain bs where bs: "context_blockers c = Ok bs"
    using assms e ok by (auto simp: action_availability_of_def Let_def)
  have a: "a = \<lparr>av_capability = context_capability c, av_resource = context_resource c,
           av_blockers = remdups_adj (sort_key blocker_index
             (block_unless (\<not> ce_actions_blocked e) BlockIncapacitated @
              resource_blockers (context_resource c) eco e @ bs))\<rparr>"
    using assms e bs ok by (simp add: action_availability_of_def Let_def)
  from a show "av_resource a = context_resource c" "av_capability a = context_capability c"
    by simp_all
  have nil: "sort_key blocker_index xs = [] \<longleftrightarrow> xs = []" for xs
    by (metis length_0_conv length_sort)
  have r: "resource_blockers (context_resource c) eco e = [] \<longleftrightarrow>
      resource_allows (context_resource c) eco \<and> \<not> (context_resource c = Some Reaction \<and> incapacitated s)"
    using condition_effects_flags(4) [OF e]
    by (auto simp: resource_blockers_def resource_allows_def block_unless_def incapacitated_def
        split: option.splits turn_resource.splits)
      (cases c; auto split: if_splits)+
  show "is_available a \<longleftrightarrow>
       \<not> incapacitated s \<and> resource_allows (context_resource c) eco \<and> context_allows c"
    using r context_blockers_empty [OF bs] condition_effects_flags(3) [OF e]
    by (auto simp: a is_available_def nil block_unless_def incapacitated_def)
qed

lemma availability_total:
  "condition_set_ok s \<Longrightarrow> (\<forall>t v n. c = HelpContext t v n \<longrightarrow> is_valid_opaque_id t) \<Longrightarrow>
     is_ok (action_availability_of eco s c)"
  using condition_effects_total [of s AbilityCheckSituation]
  by (cases c) (auto simp: action_availability_of_def is_ok_iff Let_def require_id_def)

text \<open>What a committed action leaves: its resource is spent, a dash adds the speed.\<close>

definition spent_resource :: "turn_resource option \<Rightarrow> action_economy \<Rightarrow> action_economy" where
  "spent_resource r eco = (case r of None \<Rightarrow> eco | Some r \<Rightarrow> clear_resource r eco)"

definition dash_gain :: "condition_set \<Rightarrow> action_context \<Rightarrow> movement_state \<Rightarrow> nat" where
  "dash_gain s c m = (if c = DashContext \<and> \<not> immobile s then mv_base_speed_feet m else 0)"

lemma core_effect_state:
  assumes "core_effect c e (eco, m) = Ok (eff, (eco', m'))"
    "condition_effects_of s AbilityCheckSituation = Ok e"
  shows "m' = m\<lparr>mv_remaining_feet := mv_remaining_feet m + dash_gain s c m\<rparr>"
    "eco' = (if c = DashContext
             then eco\<lparr>movement_remaining_feet := mv_remaining_feet m + dash_gain s c m\<rparr> else eco)"
    "\<not> is_class_feature c"
  using assms(1) condition_effects_flags(2) [OF assms(2)]
  by (cases c; auto simp: dash_gain_def immobile_def is_class_feature_def Let_def split: if_splits)+

lemma apply_core_action_OkD:
  assumes "apply_core_action s c (eco, m) = (Ok eff, (eco', m'))"
  shows "condition_set_ok s" "movement_ok m" "movement_ok m'" "\<not> is_class_feature c"
    "\<not> incapacitated s" "context_allows c" "resource_allows (context_resource c) eco"
    "m' = m\<lparr>mv_remaining_feet := mv_remaining_feet m + dash_gain s c m\<rparr>"
    "eco' = (if c = DashContext
       then (spent_resource (context_resource c) eco)
              \<lparr>movement_remaining_feet := mv_remaining_feet m + dash_gain s c m\<rparr>
       else spent_resource (context_resource c) eco)"
proof -
  obtain a where a0: "action_availability_of eco s c = Ok a"
    using assms by (cases "action_availability_of eco s c") (auto simp: apply_core_action_def)
  obtain x eco1 where sp: "spend_action a eco = (x, eco1)" by (cases "spend_action a eco")
  obtain e where a: "action_availability_of eco s c = Ok a" "\<not> is_class_feature c"
    "movement_ok m" "condition_effects_of s AbilityCheckSituation = Ok e"
    "spend_action a eco = (Ok (), eco1)" "core_effect c e (eco1, m) = Ok (eff, (eco', m'))"
    "movement_ok m'"
    using assms a0 sp
    by (cases x) (auto simp: apply_core_action_def split: result.splits if_splits)
  note A = availability_Ok [OF a(1)]
  have av: "is_available a" using a(5) by (auto simp: spend_action_def split: if_splits)
  have eco1: "eco1 = spent_resource (context_resource c) eco"
    using a(5) av by (auto simp: spend_action_def spent_resource_def A(2) economy_spend_Ok_iff
        split: option.splits prod.splits)
  from a A av core_effect_state [OF a(6,4)] eco1
  show "condition_set_ok s" "movement_ok m" "movement_ok m'" "\<not> is_class_feature c"
    "\<not> incapacitated s" "context_allows c" "resource_allows (context_resource c) eco"
    "m' = m\<lparr>mv_remaining_feet := mv_remaining_feet m + dash_gain s c m\<rparr>"
    "eco' = (if c = DashContext
       then (spent_resource (context_resource c) eco)
              \<lparr>movement_remaining_feet := mv_remaining_feet m + dash_gain s c m\<rparr>
       else spent_resource (context_resource c) eco)"
    by auto
qed

lemma apply_core_action_Err: "apply_core_action s c st = (Err e, st') \<Longrightarrow> st' = st"
  by (cases st) (auto simp: apply_core_action_def split: result.splits prod.splits)

type_synonym core_input = "condition_set \<times> action_context"

fun core_step :: "(core_input, turn_pools, rules_matrix_error, core_action_effect) step" where
  "core_step (s, c) st = apply_core_action s c st"

definition actions_used :: "core_input \<Rightarrow> core_action_effect \<Rightarrow> nat" where
  "actions_used i eff = of_bool (context_resource (snd i) = Some Action)"

definition actions_left :: "turn_pools \<Rightarrow> nat" where
  "actions_left st = of_bool (action_available (fst st))"

definition pools_in_step :: "turn_pools \<Rightarrow> bool" where
  "pools_in_step st \<longleftrightarrow>
     movement_ok (snd st) \<and> mv_remaining_feet (snd st) = movement_remaining_feet (fst st)"

lemma core_step_pools:
  assumes "pools_in_step (eco, m)" "apply_core_action s c (eco, m) = (Ok eff, (eco', m'))"
  shows "pools_in_step (eco', m')"
    "actions_left (eco, m) = actions_used (s, c) eff + actions_left (eco', m')"
proof -
  note D = apply_core_action_OkD [OF assms(2)]
  have base: "mv_base_speed_feet m' = mv_base_speed_feet m" by (simp add: D(8))
  have mov: "movement_remaining_feet (spent_resource r eco) = movement_remaining_feet eco" for r
    by (simp add: spent_resource_def split: option.splits)
  show "pools_in_step (eco', m')"
    using assms(1) D(3,8,9) mov by (auto simp: pools_in_step_def dash_gain_def)
  show "actions_left (eco, m) = actions_used (s, c) eff + actions_left (eco', m')"
    using D(4,7,9)
    by (cases "context_resource c"; cases "the (context_resource c)")
      (auto simp: actions_left_def actions_used_def spent_resource_def resource_allows_def
        split: if_splits)
qed

interpretation core_actions: budgeted pools_in_step core_step actions_used actions_left
proof unfold_locales
  fix st st' :: turn_pools and i eff
  assume "pools_in_step st" "core_step i st = (Ok eff, st')"
  then show "pools_in_step st'" "actions_left st = actions_used i eff + actions_left st'"
    using core_step_pools [of "fst st" "snd st" "fst i" "snd i" eff "fst st'" "snd st'"]
    by (cases i; simp)+
next
  fix st st' :: turn_pools and i e
  show "core_step i st = (Err e, st') \<Longrightarrow> st' = st"
    by (cases i) (auto dest: apply_core_action_Err)
qed

section \<open>A hero's turns\<close>

text \<open>
  The turn state together with the resources, under the operations the encounter drives: a core
  action, a move or standing up followed by \<open>synchronize_movement\<close>, action surge, and the two
  boundaries.
\<close>

type_synonym table_state = "runtime_turn_state \<times> runtime_resources"

datatype turn_input =
    CoreInput action_context
  | MoveInput u16 movement_context
  | StandInput
  | SurgeInput
  | EndInput
  | BeginInput u32

fun table_step :: "(turn_input, table_state, rules_matrix_error, unit) step" where
  "table_step (CoreInput c) (t, r) =
     (case apply_core_action (rt_conditions t) c (rt_action_economy t, rt_movement t) of
        (x, eco, m) \<Rightarrow>
          (and_then x (\<lambda>_. Ok ()), t\<lparr>rt_action_economy := eco, rt_movement := m\<rparr>, r))"
| "table_step (MoveInput dest c) (t, r) =
     (case move_to dest c (rt_conditions t) (rt_movement t) of
        (Err e, m) \<Rightarrow> (Err e, t\<lparr>rt_movement := m\<rparr>, r)
      | (Ok _, m) \<Rightarrow> (Ok (), synchronize_movement (t\<lparr>rt_movement := m\<rparr>), r))"
| "table_step StandInput (t, r) =
     (case stand_from_prone (rt_movement t, rt_conditions t) of
        (Err e, m, s) \<Rightarrow> (Err e, t\<lparr>rt_movement := m, rt_conditions := s\<rparr>, r)
      | (Ok _, m, s) \<Rightarrow>
          (Ok (), synchronize_movement (t\<lparr>rt_movement := m, rt_conditions := s\<rparr>), r))"
| "table_step SurgeInput (t, r) =
     (case use_action_surge (r, rt_action_economy t) of
        (x, r', eco) \<Rightarrow> (x, t\<lparr>rt_action_economy := eco\<rparr>, r'))"
| "table_step EndInput (t, r) =
     (case end_turn t of (x, t') \<Rightarrow> (and_then x (\<lambda>_. Ok ()), t', r))"
| "table_step (BeginInput round) (t, r) =
     (case begin_next_turn round r t of (x, t') \<Rightarrow> (and_then x (\<lambda>_. Ok ()), t', r))"

text \<open>
  The dashes still to come: the unspent action and the unspent surges. Together with the feet
  that remain they never exceed three times the speed, the bound of \<open>MovementState::validate\<close>.
\<close>

definition dashes_left :: "table_state \<Rightarrow> nat" where
  "dashes_left st =
     of_bool (action_available (rt_action_economy (fst st))) +
     (case rs_action_surge (snd st) of None \<Rightarrow> 0 | Some p \<Rightarrow> ctr_current p)"

definition speed_of :: "table_state \<Rightarrow> nat" where
  "speed_of st = mv_base_speed_feet (rt_movement (fst st))"

definition table_ok :: "table_state \<Rightarrow> bool" where
  "table_ok st \<longleftrightarrow>
     turn_ok (fst st) \<and> resources_ok (snd st) \<and> 10 dvd speed_of st \<and> 3 * speed_of st \<le> u16_max \<and>
     mv_remaining_feet (rt_movement (fst st)) + speed_of st * dashes_left st \<le> 3 * speed_of st"

lemma surge_at_most_one:
  assumes "resources_ok r"
  shows "(case rs_action_surge r of None \<Rightarrow> 0 | Some p \<Rightarrow> ctr_current p) \<le> 1"
  using assms
  by (cases "rs_class r"; cases "rs_level r"; cases "rs_action_surge r")
    (auto simp: resources_ok_def resources_shape_def resources_new_def full_counter_def Let_def
      pools_ok_def counter_ok_def)

lemma dashes_left_le: "resources_ok (snd st) \<Longrightarrow> dashes_left st \<le> 2"
  using surge_at_most_one [of "snd st"] by (simp add: dashes_left_def)

lemma table_core:
  assumes ok: "table_ok (t, r)"
    and a: "apply_core_action (rt_conditions t) c (rt_action_economy t, rt_movement t) = (Ok eff, (eco, m))"
  shows "table_ok (t\<lparr>rt_action_economy := eco, rt_movement := m\<rparr>, r)"
proof -
  note D = apply_core_action_OkD [OF a]
  let ?t = "t\<lparr>rt_action_economy := eco, rt_movement := m\<rparr>"
  have ps: "pools_in_step (eco, m)"
    "actions_left (rt_action_economy t, rt_movement t) = actions_used (rt_conditions t, c) eff + actions_left (eco, m)"
    using core_step_pools [OF _ a] ok by (auto simp: pools_in_step_def table_ok_def turn_ok_def)
  have sp: "speed_of (?t, r) = speed_of (t, r)" by (simp add: speed_of_def D(8))
  have d: "dashes_left (t, r) = actions_used (rt_conditions t, c) eff + dashes_left (?t, r)"
    using ps(2) by (simp add: dashes_left_def actions_left_def)
  have g: "dash_gain (rt_conditions t) c (rt_movement t) \<le> speed_of (t, r) * actions_used (rt_conditions t, c) eff"
    by (auto simp: dash_gain_def speed_of_def actions_used_def)
  have "mv_remaining_feet m + speed_of (t, r) * dashes_left (?t, r) \<le>
      mv_remaining_feet (rt_movement t) + speed_of (t, r) * dashes_left (t, r)"
    using g by (simp add: D(8) d distrib_left)
  with ok have "mv_remaining_feet m + speed_of (?t, r) * dashes_left (?t, r) \<le> 3 * speed_of (?t, r)"
    by (simp add: table_ok_def sp)
  with ok ps(1) sp show ?thesis by (simp add: table_ok_def turn_ok_def pools_in_step_def)
qed

lemma table_less_movement:
  assumes "table_ok (t, r)" "movement_ok m" "mv_base_speed_feet m = mv_base_speed_feet (rt_movement t)"
    "mv_remaining_feet m \<le> mv_remaining_feet (rt_movement t)" "condition_set_ok s"
  shows "table_ok (synchronize_movement (t\<lparr>rt_movement := m, rt_conditions := s\<rparr>), r)"
  using assms by (auto simp: table_ok_def turn_ok_def synchronize_movement_def speed_of_def dashes_left_def)

lemma table_surge:
  assumes "table_ok (t, r)" "use_action_surge (r, rt_action_economy t) = (Ok u, (r', eco))"
  shows "table_ok (t\<lparr>rt_action_economy := eco\<rparr>, r')"
proof -
  note D = use_action_surge_OkD [OF assms(2)]
  then obtain p where p: "rs_action_surge r = Some p" "0 < ctr_current p"
    "r' = r\<lparr>rs_action_surge := Some (p\<lparr>ctr_current := ctr_current p - 1\<rparr>)\<rparr>"
    by blast
  have "same_profile r r'"
    using pools_okD [OF D(1)] p by (auto simp: same_profile_def recount_def)
  from same_profile_ok [OF D(1) this] have "resources_ok r'" .
  with assms(1) p D(2,4) show ?thesis
    by (auto simp: table_ok_def turn_ok_def speed_of_def dashes_left_def)
qed

lemma table_begun:
  assumes "table_ok (t, r)" "begin_ready round r t"
  shows "table_ok (begun round r t, r)"
proof -
  have s: "mv_base_speed_feet (rt_movement t) \<le> u16_max" using assms(1) by (simp add: table_ok_def speed_of_def)
  have "0 < round" using assms(2) by (auto simp: begin_ready_def turn_ok_def)
  from begun_ok [OF _ this s, of r] assms have t: "turn_ok (begun round r t)"
    by (simp add: table_ok_def)
  have r: "resources_ok r" using assms(1) by (simp add: table_ok_def)
  have "dashes_left (begun round r t, r) \<le> 2" using dashes_left_le [of "(begun round r t, r)"] r by simp
  then have "mv_base_speed_feet (rt_movement t) * dashes_left (begun round r t, r) \<le>
      mv_base_speed_feet (rt_movement t) * 2" by (rule mult_le_mono2)
  with t assms(1) show ?thesis
    by (simp add: table_ok_def speed_of_def begun_def movement_reset_def)
qed

lemma table_step_OkD:
  assumes ok: "table_ok (t, r)" and st: "table_step i (t, r) = (Ok u, (t', r'))"
  shows "table_ok (t', r') \<and> speed_of (t', r') = speed_of (t, r) \<and> rt_actor_id t' = rt_actor_id t"
proof (cases i)
  case (CoreInput c)
  with st obtain eff eco m where
    a: "apply_core_action (rt_conditions t) c (rt_action_economy t, rt_movement t) = (Ok eff, (eco, m))"
    and t': "t' = t\<lparr>rt_action_economy := eco, rt_movement := m\<rparr>" "r' = r"
    by (auto split: prod.splits)
  from table_core [OF ok a] apply_core_action_OkD(8) [OF a] t' show ?thesis
    by (simp add: speed_of_def)
next
  case (MoveInput dest c)
  with st obtain cost m where m: "move_to dest c (rt_conditions t) (rt_movement t) = (Ok cost, m)"
    and t': "t' = synchronize_movement (t\<lparr>rt_movement := m\<rparr>)" "r' = r"
    by (auto split: prod.splits result.splits)
  have "t\<lparr>rt_movement := m, rt_conditions := rt_conditions t\<rparr> = t\<lparr>rt_movement := m\<rparr>" by simp
  with table_less_movement [OF ok move_to_OkD(1,3) [OF m], of "rt_conditions t"] move_to_OkD(2,3) [OF m] ok t'
  show ?thesis by (simp add: table_ok_def turn_ok_def speed_of_def synchronize_movement_def)
next
  case StandInput
  with st obtain cost m s where m: "stand_from_prone (rt_movement t, rt_conditions t) = (Ok cost, (m, s))"
    and t': "t' = synchronize_movement (t\<lparr>rt_movement := m, rt_conditions := s\<rparr>)" "r' = r"
    by (auto split: prod.splits result.splits)
  have "movement_ok m" using stand_OkD(3) [OF m] ok by (simp add: table_ok_def speed_of_def)
  from table_less_movement [OF ok this _ _ stand_OkD(1) [OF m]] m t'
  show ?thesis by (auto simp: stand_Ok_iff speed_of_def synchronize_movement_def)
next
  case SurgeInput
  with st obtain eco where "use_action_surge (r, rt_action_economy t) = (Ok u, (r', eco))"
    "t' = t\<lparr>rt_action_economy := eco\<rparr>"
    by (auto split: prod.splits)
  with table_surge [OF ok] show ?thesis by (simp add: speed_of_def)
next
  case EndInput
  with st end_turn_not [of t] have "turn_ok t \<and> rt_active t"
    by (cases "turn_ok t \<and> rt_active t") auto
  with EndInput st end_turn_eq [of t] have "t' = ended t" "r' = r" by auto
  with ok ended_ok [of t] show ?thesis
    by (auto simp: table_ok_def ended_def speed_of_def dashes_left_def)
next
  case (BeginInput round)
  with st begin_next_turn_not [of round r t] have b: "begin_ready round r t"
    by (cases "begin_ready round r t") auto
  have "mv_base_speed_feet (rt_movement t) \<le> u16_max" using ok by (simp add: table_ok_def speed_of_def)
  with BeginInput st begin_next_turn_eq [OF b] have "t' = begun round r t" "r' = r" by auto
  with table_begun [OF ok b] show ?thesis
    by (simp add: speed_of_def begun_def movement_reset_def)
qed

lemma table_step_Err:
  assumes "table_step i (t, r) = (Err e, st')"
  shows "st' = (t, r)"
proof (cases i)
  case (CoreInput c)
  with assms obtain x eco m where "apply_core_action (rt_conditions t) c (rt_action_economy t, rt_movement t) = (Err x, (eco, m))"
    "st' = (t\<lparr>rt_action_economy := eco, rt_movement := m\<rparr>, r)"
    by (auto simp: and_then_Err_iff split: prod.splits)
  with apply_core_action_Err show ?thesis by fastforce
next
  case (MoveInput dest c)
  with assms obtain x m where "move_to dest c (rt_conditions t) (rt_movement t) = (Err x, m)"
    "st' = (t\<lparr>rt_movement := m\<rparr>, r)"
    by (auto split: prod.splits result.splits)
  with move_to_Err show ?thesis by fastforce
next
  case StandInput
  with assms obtain x m s where "stand_from_prone (rt_movement t, rt_conditions t) = (Err x, (m, s))"
    "st' = (t\<lparr>rt_movement := m, rt_conditions := s\<rparr>, r)"
    by (auto split: prod.splits result.splits)
  with stand_Err show ?thesis by fastforce
next
  case SurgeInput
  with assms obtain r' eco where "use_action_surge (r, rt_action_economy t) = (Err e, (r', eco))"
    "st' = (t\<lparr>rt_action_economy := eco\<rparr>, r')"
    by (auto split: prod.splits)
  with use_action_surge_Err show ?thesis by fastforce
next
  case EndInput
  with assms obtain x t' where "end_turn t = (Err x, t')" "st' = (t', r)"
    by (auto simp: and_then_Err_iff split: prod.splits)
  with end_turn_not [of t] end_turn_eq [of t] show ?thesis
    by (cases "turn_ok t \<and> rt_active t") auto
next
  case (BeginInput round)
  with assms obtain x t' where "begin_next_turn round r t = (Err x, t')" "st' = (t', r)"
    by (auto simp: and_then_Err_iff split: prod.splits)
  then show ?thesis
    by (auto simp: begin_next_turn_def split: result.splits prod.splits)
qed

interpretation table: conserving table_ok table_step "\<lambda>st. (speed_of st, rt_actor_id (fst st))"
proof unfold_locales
  fix s s' :: table_state and i u
  assume a: "table_ok s" "table_step i s = (Ok u, s')"
  show "table_ok s'" "(speed_of s', rt_actor_id (fst s')) = (speed_of s, rt_actor_id (fst s))"
    using table_step_OkD [of "fst s" "snd s" i u "fst s'" "snd s'"] a by simp_all
next
  fix s s' :: table_state and i e
  show "table_step i s = (Err e, s') \<Longrightarrow> s' = s"
    using table_step_Err [of i "fst s" "snd s" e s'] by simp
qed

text \<open>So a dash that the rules offer is never refused for its movement bound.\<close>

lemma dash_never_refused:
  assumes "table_ok (t, r)"
    and "action_availability_of (rt_action_economy t) (rt_conditions t) DashContext = Ok a" "is_available a"
  shows "is_ok (fst (table_step (CoreInput DashContext) (t, r)))"
proof -
  let ?s = "rt_conditions t" and ?m = "rt_movement t" and ?eco = "rt_action_economy t"
  note A = availability_Ok [OF assms(2)]
  have flag: "action_available ?eco" using A(4) assms(3) by (simp add: resource_allows_def)
  have m: "movement_ok ?m" using assms(1) by (simp add: table_ok_def turn_ok_def)
  have room: "mv_remaining_feet ?m + mv_base_speed_feet ?m \<le> 3 * mv_base_speed_feet ?m"
    "3 * mv_base_speed_feet ?m \<le> u16_max"
  proof -
    have "mv_base_speed_feet ?m * 1 \<le> mv_base_speed_feet ?m * dashes_left (t, r)"
      by (rule mult_le_mono2) (simp add: dashes_left_def flag)
    moreover have "mv_remaining_feet ?m + mv_base_speed_feet ?m * dashes_left (t, r)
        \<le> 3 * mv_base_speed_feet ?m"
      using assms(1) by (simp add: table_ok_def speed_of_def)
    ultimately show "mv_remaining_feet ?m + mv_base_speed_feet ?m \<le> 3 * mv_base_speed_feet ?m"
      by linarith
    show "3 * mv_base_speed_feet ?m \<le> u16_max"
      using assms(1) by (simp add: table_ok_def speed_of_def)
  qed
  obtain e where e: "condition_effects_of ?s AbilityCheckSituation = Ok e"
    using condition_effects_total [OF A(1)] by (auto simp: is_ok_iff)
  have sp: "spend_action a ?eco = (Ok (), clear_resource Action ?eco)"
    using assms(3) A(2) flag by (simp add: spend_action_def economy_spend_def lift_core_def)
  define g where "g = (if ce_speed_is_zero e then 0 else mv_base_speed_feet ?m)"
  have g: "mv_remaining_feet ?m + g \<le> min u16_max (3 * mv_base_speed_feet ?m)" "5 dvd g"
    using room m by (auto simp: g_def movement_ok_def)
  have ok': "movement_ok (?m\<lparr>mv_remaining_feet := mv_remaining_feet ?m + g\<rparr>)"
    using g m by (auto simp: movement_ok_def)
  have c: "checked_add u16_max (mv_remaining_feet ?m) g = Some (mv_remaining_feet ?m + g)"
    using g(1) by (simp add: checked_add_def)
  have "\<exists>eff st. apply_core_action ?s DashContext (?eco, ?m) = (Ok eff, st)"
    using assms(2) m e sp ok'
    by (simp add: apply_core_action_def is_class_feature_def Let_def g_def [symmetric] c ok_or_def)
  then show ?thesis by (auto simp: is_ok_iff split: prod.splits)
qed

text \<open>
  Standing up with a speed that is no multiple of ten leaves the grid: the operation succeeds and
  its result is a movement state that \<open>validate\<close> refuses from then on.
\<close>

lemma stand_leaves_grid:
  assumes "stand_from_prone (m, s) = (Ok cost, (m', s'))" "\<not> 10 dvd mv_base_speed_feet m"
  shows "\<not> movement_ok m'"
proof
  note S = assms(1) [unfolded stand_Ok_iff]
  assume "movement_ok m'"
  with S have "5 dvd mv_remaining_feet m - mv_base_speed_feet m div 2" by (simp add: movement_ok_def)
  moreover have "5 dvd mv_remaining_feet m" "mv_base_speed_feet m div 2 \<le> mv_remaining_feet m"
    "5 dvd mv_base_speed_feet m"
    using S by (auto simp: movement_ok_def)
  ultimately have h: "5 dvd mv_base_speed_feet m div 2" "5 dvd mv_base_speed_feet m"
    by (metis dvd_diff_nat diff_diff_cancel, simp)
  then show False using assms(2) by presburger
qed

section \<open>Properties\<close>

lemma turn_new_table_ok:
  assumes "turn_new actor round speed position conditions = Ok t" "resources_validate r = Ok ()"
    "10 dvd speed" "3 * speed \<le> u16_max"
  shows "table_ok (t, r) \<and> speed_of (t, r) = speed \<and> rt_actor_id t = actor"
proof -
  have t: "turn_ok t" "mv_base_speed_feet (rt_movement t) = speed"
    "mv_remaining_feet (rt_movement t) = speed" "rt_actor_id t = actor"
    using assms(1)
    by (auto simp: turn_new_def movement_new_def Let_def split: if_splits)
  have "dashes_left (t, r) \<le> 2" using dashes_left_le [of "(t, r)"] assms(2) by simp
  then have "speed + speed * dashes_left (t, r) \<le> 3 * speed"
    using mult_le_mono2 [of "dashes_left (t, r)" 2 speed] by linarith
  with t assms(2-4) show ?thesis by (simp add: table_ok_def speed_of_def)
qed

text \<open>C9: From a freshly built turn and validated resources, with a speed that is a multiple of ten
  and fits three times in a \<open>u16\<close>, every sequence of core actions, moves, standing up, action surges
  and turn boundaries, accepted or refused, leaves a turn state and resources that pass \<open>validate\<close>:
  the two views of the movement agree, the feet stay on the grid and within three times the speed, and
  the speed and the actor never change.\<close>

theorem turn_history_valid:
  assumes "turn_new actor round speed position conditions = Ok t" "resources_validate r = Ok ()"
    and "10 dvd speed" "3 * speed \<le> u16_max" "run_steps table_step is (t, r) = (t', r')"
  shows "turn_validate t' = Ok () \<and> resources_validate r' = Ok () \<and>
    mv_remaining_feet (rt_movement t') = movement_remaining_feet (rt_action_economy t') \<and>
    mv_base_speed_feet (rt_movement t') = speed \<and> rt_actor_id t' = actor"
proof -
  note T = turn_new_table_ok [OF assms(1-4)]
  from T table.run_valid [of "(t, r)" "is"] table.run_kept [of "(t, r)" "is"] assms(5)
  show ?thesis by (auto simp: table_ok_def turn_ok_def speed_of_def)
qed

definition fighter_turn :: "runtime_turn_state rules_result" where
  "fighter_turn = turn_new ''hero-1'' 1 30 0 condition_set_empty"

definition open_ground :: movement_context where
  "open_ground = \<lparr>mc_difficult_terrain = False, mc_crawling = False\<rparr>"

theorem turn_history_valid_witness:
  "\<exists>t t' r'. fighter_turn = Ok t \<and>
     run_steps table_step [CoreInput DashContext, MoveInput 45 open_ground, SurgeInput,
       CoreInput DashContext, CoreInput DashContext, EndInput, BeginInput 2]
       (t, resources_new Fighter LevelTwo) = (t', r') \<and>
     turn_validate t' = Ok () \<and> mv_base_speed_feet (rt_movement t') = 30"
proof -
  obtain t where t: "fighter_turn = Ok t"
    by (auto simp: fighter_turn_def turn_new_def movement_new_def Let_def turn_ok_def movement_ok_def
        economy_new_def condition_set_empty_ok u16_max_def is_valid_opaque_id_def
        max_opaque_id_len_def ascii_alphanumeric_def ascii_digit_def byte_def)
  have r: "resources_validate (resources_new Fighter LevelTwo) = Ok ()"
    using resources_new_ok by simp
  have "3 * 30 \<le> u16_max" "10 dvd (30::nat)" by (simp_all add: u16_max_def)
  from turn_history_valid [OF t [unfolded fighter_turn_def] r this(2,1)] t show ?thesis
    by (metis prod.exhaust)
qed

text \<open>C22: A dash is never offered in vain: whenever, from such a turn and after any history, the
  availability report says Dash can be taken, taking it succeeds. The movement bound of \<open>validate\<close>
  (the speed and two dashes) is exactly enough for the action and the one action surge.\<close>

theorem offered_dash_succeeds:
  assumes "turn_new actor round speed position conditions = Ok t" "resources_validate r = Ok ()"
    and "10 dvd speed" "3 * speed \<le> u16_max" "run_steps table_step is (t, r) = (t', r')"
    and "action_availability_of (rt_action_economy t') (rt_conditions t') DashContext = Ok a"
    and "is_available a"
  shows "is_ok (fst (table_step (CoreInput DashContext) (t', r')))"
proof -
  from turn_new_table_ok [OF assms(1-4)] table.run_valid [of "(t, r)" "is"] assms(5)
  have "table_ok (t', r')" by simp
  from dash_never_refused [OF this assms(6,7)] show ?thesis .
qed

theorem offered_dash_succeeds_witness:
  "\<exists>t t' r'. fighter_turn = Ok t \<and>
     run_steps table_step [CoreInput DashContext, SurgeInput] (t, resources_new Fighter LevelTwo) =
       (t', r') \<and> is_ok (fst (table_step (CoreInput DashContext) (t', r'))) \<and>
     movement_remaining_feet (rt_action_economy t') = 60"
proof -
  let ?r = "resources_new Fighter LevelTwo"
  let ?is = "[CoreInput DashContext, SurgeInput]"
  let ?m = "\<lparr>mv_base_speed_feet = 30, mv_remaining_feet = 30, mv_position_feet = 0\<rparr>"
  define t where "t = \<lparr>rt_schema_version = rules_matrix_schema_version, rt_actor_id = ''hero-1'',
    rt_round = 1, rt_active = True, rt_action_economy = economy_new 30, rt_movement = ?m,
    rt_conditions = condition_set_empty\<rparr>"
  have t: "fighter_turn = Ok t"
    by (simp add: fighter_turn_def t_def turn_new_def movement_new_def Let_def turn_ok_def
        movement_ok_def economy_new_def condition_set_empty_ok u16_max_def is_valid_opaque_id_def
        max_opaque_id_len_def ascii_alphanumeric_def ascii_digit_def byte_def)
  define p where "p = run_steps table_step ?is (t, ?r)"
  have ok: "turn_ok t"
    using t by (auto simp: fighter_turn_def turn_new_def movement_new_def Let_def split: if_splits)
  have ce: "condition_effects_of condition_set_empty st = Ok no_effects" for st
    by (simp add: condition_effects_of_Ok_iff condition_set_empty_ok)
      (simp add: condition_set_empty_def cs_contains_iff)
  have v: "condition_set_validate condition_set_empty = Ok ()"
    by (rule condition_set_validate_result [OF condition_set_empty_ok])
  have d: "table_step (CoreInput DashContext) (t, ?r) =
      (Ok (), t\<lparr>rt_action_economy := (economy_new 30)\<lparr>action_available := False,
          movement_remaining_feet := 60\<rparr>, rt_movement := ?m\<lparr>mv_remaining_feet := 60\<rparr>\<rparr>, ?r)"
    by (simp add: t_def apply_core_action_def action_availability_of_def ce is_class_feature_def
        movement_ok_def u16_max_def economy_new_def Let_def is_available_def resource_blockers_def
        spend_action_def economy_spend_def lift_core_def ok_or_def checked_add_def
        block_unless_def v)
  have p: "p = (t\<lparr>rt_action_economy := (economy_new 30)\<lparr>movement_remaining_feet := 60\<rparr>,
        rt_movement := ?m\<lparr>mv_remaining_feet := 60\<rparr>\<rparr>,
      ?r\<lparr>rs_action_surge := Some (full_counter ActionSurgePool 1\<lparr>ctr_current := 0\<rparr>)\<rparr>)"
    unfolding p_def run_steps.simps d snd_conv
    using resources_validate_result [OF resources_new_ok [of Fighter LevelTwo]]
    by (simp add: use_action_surge_def economy_new_def resources_new_def full_counter_def
        counter_spend_def counter_validate_def ok_or_def Let_def t_def)
  obtain a where a: "action_availability_of (rt_action_economy (fst p)) (rt_conditions (fst p))
      DashContext = Ok a" "is_available a"
    by (simp add: p t_def action_availability_of_def ce economy_new_def is_available_def
        resource_blockers_def block_unless_def v)
  have "3 * 30 \<le> u16_max" "10 dvd (30::nat)" by (simp_all add: u16_max_def)
  moreover have r: "resources_validate ?r = Ok ()" using resources_new_ok by simp
  moreover have "run_steps table_step ?is (t, ?r) = (fst p, snd p)" by (simp add: p_def)
  ultimately have "is_ok (fst (table_step (CoreInput DashContext) (fst p, snd p)))"
    using offered_dash_succeeds [OF t [unfolded fighter_turn_def] r, of ?is "fst p" "snd p" a] a
    by blast
  moreover have "movement_remaining_feet (rt_action_economy (fst p)) = 60" by (simp add: p)
  ultimately show ?thesis using t p_def by (metis prod.collapse)
qed

text \<open>C31: One action a turn: without an action surge, at most one of the actions that cost the
  action is accepted in any sequence of core actions, none once it is spent, whatever conditions come
  and go in between.\<close>

theorem one_action_per_turn:
  assumes "movement_validate m = Ok ()" "mv_remaining_feet m = movement_remaining_feet eco"
  shows "length (filter (\<lambda>i. context_resource (snd i) = Some Action) (accepted core_step is (eco, m)))
    + of_bool (action_available (fst (run_steps core_step is (eco, m)))) = of_bool (action_available eco)"
proof -
  have "(\<Sum>(i, x)\<leftarrow>xs. actions_used i x) =
      length (filter (\<lambda>i. context_resource (snd i) = Some Action) (map fst xs))" for xs
    by (induction xs) (auto simp: actions_used_def)
  with core_actions.run_budget [of "(eco, m)" "is"] assms show ?thesis
    by (simp add: accepted_outcomes pools_in_step_def actions_left_def)
qed

theorem one_action_per_turn_witness:
  "length (filter (\<lambda>i. context_resource (snd i) = Some Action) (accepted core_step
     [(condition_set_empty, DodgeContext), (condition_set_empty, DashContext)]
     (economy_new 30, \<lparr>mv_base_speed_feet = 30, mv_remaining_feet = 30, mv_position_feet = 0\<rparr>))) \<le> 1"
proof -
  let ?m = "\<lparr>mv_base_speed_feet = 30, mv_remaining_feet = 30, mv_position_feet = 0\<rparr>"
  have "movement_validate ?m = Ok ()" "mv_remaining_feet ?m = movement_remaining_feet (economy_new 30)"
    by (simp_all add: movement_ok_def u16_max_def economy_new_def)
  from one_action_per_turn [OF this, of "[(condition_set_empty, DodgeContext),
      (condition_set_empty, DashContext)]"] show ?thesis
    by (simp add: economy_new_def)
qed

text \<open>C35: Nobody outruns their movement: over any sequence of moves, across any terrain, crawling or
  not, under any conditions, the distance really walked plus the feet left never exceeds the feet there
  were, and the movement state stays valid.\<close>

theorem walk_within_budget:
  assumes "movement_validate m = Ok ()"
  shows "movement_validate (run_steps move_step is m) = Ok () \<and>
    walked is m + mv_remaining_feet (run_steps move_step is m) \<le> mv_remaining_feet m"
  using assms movement.run_valid [of m "is"] movement.run_budget [of m "is"] walked_le_cost [of m "is"]
  by simp

theorem walk_within_budget_witness:
  "walked [(20, open_ground, condition_set_empty), (5, open_ground, condition_set_empty),
     (10, open_ground, condition_set_empty)]
     \<lparr>mv_base_speed_feet = 30, mv_remaining_feet = 30, mv_position_feet = 0\<rparr> \<le> 30"
proof -
  let ?m = "\<lparr>mv_base_speed_feet = 30, mv_remaining_feet = 30, mv_position_feet = 0\<rparr>"
  have "movement_validate ?m = Ok ()" by (simp add: movement_ok_def u16_max_def)
  from walk_within_budget [OF this, of "[(20, open_ground, condition_set_empty),
      (5, open_ground, condition_set_empty), (10, open_ground, condition_set_empty)]"]
  show ?thesis by simp
qed

text \<open>C40: Standing up with a speed that is no multiple of ten breaks the movement state: the
  operation reports success, and the state it leaves is refused by \<open>validate\<close>, hence by every later
  move of the turn, because half the speed is not on the five-foot grid.\<close>

theorem standing_up_breaks_odd_speeds:
  assumes "stand_from_prone (m, s) = (Ok cost, (m', s'))" "\<not> 10 dvd mv_base_speed_feet m"
  shows "movement_validate m' \<noteq> Ok () \<and>
    (\<forall>dest c s''. \<exists>e. move_to dest c s'' m' = (Err e, m'))"
proof -
  have n: "\<not> movement_ok m'" by (rule stand_leaves_grid [OF assms])
  have e: "\<exists>e. move_to dest c s'' m' = (Err e, m')" for dest c s''
  proof (cases "fst (move_to dest c s'' m')")
    case (Ok cost)
    with n move_to_Ok_iff [of dest c s'' m' cost "snd (move_to dest c s'' m')"] show ?thesis
      by (metis prod.collapse)
  next
    case (Err e)
    with move_to_Err [of dest c s'' m' e "snd (move_to dest c s'' m')"] show ?thesis
      by (metis prod.collapse)
  qed
  from n e show ?thesis by simp
qed

theorem standing_up_breaks_odd_speeds_witness:
  "\<exists>m' s'. stand_from_prone
      (\<lparr>mv_base_speed_feet = 25, mv_remaining_feet = 25, mv_position_feet = 0\<rparr>,
       condition_set_empty\<lparr>cs_active :=
         [\<lparr>ac_condition = Prone, ac_source = MechanicSource ''trip'', ac_duration = Permanent\<rparr>]\<rparr>)
      = (Ok 12, (m', s')) \<and> mv_remaining_feet m' = 13 \<and> movement_validate m' \<noteq> Ok ()"
proof -
  let ?m = "\<lparr>mv_base_speed_feet = 25, mv_remaining_feet = 25, mv_position_feet = 0\<rparr>"
  let ?s = "condition_set_empty\<lparr>cs_active :=
    [\<lparr>ac_condition = Prone, ac_source = MechanicSource ''trip'', ac_duration = Permanent\<rparr>]\<rparr>"
  have "condition_set_ok ?s"
  proof -
    have "condition_set_validate ?s = Ok ()" by code_simp
    then show ?thesis by simp
  qed
  then have s: "stand_from_prone (?m, ?s) =
      (Ok 12, (?m\<lparr>mv_remaining_feet := 13\<rparr>, ?s\<lparr>cs_active := []\<rparr>))"
    by (simp add: stand_Ok_iff movement_ok_def u16_max_def cs_contains_iff condition_set_empty_def)
  from standing_up_breaks_odd_speeds [OF this] s show ?thesis by auto
qed

end
