(* ===== verification/Inventory.thy ===== *)
theory Inventory
  imports Rules_Base
begin

text \<open>
  The wallet and the inventory of \<open>rules_matrix.rs\<close>: currency in three denominations, carried and
  equipped items, the readied weapon, and the armor class they give.
\<close>

section \<open>Currency\<close>

record currency =
  cur_copper :: u32
  cur_silver :: u32
  cur_gold :: u32

definition currency_default :: currency where
  "currency_default = \<lparr>cur_copper = 0, cur_silver = 0, cur_gold = 0\<rparr>"

definition total_copper :: "currency \<Rightarrow> u64 rules_result" where
  "total_copper c =
     ok_or (Option.bind (checked_mul u64_max (cur_gold c) 100)
       (\<lambda>v. Option.bind (checked_add u64_max v (cur_silver c * 10))
       (\<lambda>v. checked_add u64_max v (cur_copper c)))) ArithmeticOverflow"

definition currency_validate :: "currency \<Rightarrow> unit rules_result" where
  "currency_validate c =
     (if list_ex (\<lambda>p. p > max_currency_pieces) [cur_copper c, cur_silver c, cur_gold c]
      then Err (InvalidState (InventoryFault WalletBounds))
      else and_then (total_copper c) (\<lambda>_. Ok ()))"

definition as_u32 :: "u64 \<Rightarrow> u32 rules_result" where
  "as_u32 n = (if n \<le> u32_max then Ok n else Err ArithmeticOverflow)"

definition from_total_copper :: "u64 \<Rightarrow> currency rules_result" where
  "from_total_copper n =
     and_then (as_u32 (n div 100)) (\<lambda>gold.
     and_then (as_u32 (n mod 100 div 10)) (\<lambda>silver.
     and_then (as_u32 (n mod 10)) (\<lambda>copper.
       let c = \<lparr>cur_copper = copper, cur_silver = silver, cur_gold = gold\<rparr>
       in and_then (currency_validate c) (\<lambda>_. Ok c))))"

definition currency_credit :: "currency \<Rightarrow> currency \<Rightarrow> unit rules_result \<times> currency" where
  "currency_credit amount c =
     and_then_st
       (and_then (currency_validate c) (\<lambda>_. and_then (currency_validate amount) (\<lambda>_.
        and_then (total_copper c) (\<lambda>a. and_then (total_copper amount) (\<lambda>b.
        and_then (ok_or (checked_add u64_max a b) ArithmeticOverflow) from_total_copper)))), c)
       (\<lambda>c' _. (Ok (), c'))"

definition currency_debit :: "currency \<Rightarrow> currency \<Rightarrow> unit rules_result \<times> currency" where
  "currency_debit amount c =
     and_then_st
       (and_then (currency_validate c) (\<lambda>_. and_then (currency_validate amount) (\<lambda>_.
        and_then (total_copper c) (\<lambda>a. and_then (total_copper amount) (\<lambda>b.
        and_then (ok_or (checked_sub a b) (InvalidIntent (InventoryFault WalletCannotCover)))
          from_total_copper)))), c)
       (\<lambda>c' _. (Ok (), c'))"

section \<open>The wallet's value\<close>

definition copper_value :: "currency \<Rightarrow> nat" where
  "copper_value c = 100 * cur_gold c + 10 * cur_silver c + cur_copper c"

definition currency_ok :: "currency \<Rightarrow> bool" where
  "currency_ok c \<longleftrightarrow>
     cur_copper c \<le> max_currency_pieces \<and> cur_silver c \<le> max_currency_pieces \<and>
     cur_gold c \<le> max_currency_pieces"

text \<open>The wallet never overflows \<open>u64\<close>: its largest value is 111,000,000 copper.\<close>

lemma total_copper_eq: "currency_ok c \<Longrightarrow> total_copper c = Ok (copper_value c)"
  by (simp add: total_copper_def currency_ok_def copper_value_def max_currency_pieces_def u64_max_def
      checked_mul_def checked_add_def ok_or_def mult.commute)

lemma currency_validate_iff [simp]: "currency_validate c = Ok u \<longleftrightarrow> currency_ok c"
  using total_copper_eq [of c]
  by (auto simp: currency_validate_def currency_ok_def)

lemma copper_value_bound: "currency_ok c \<Longrightarrow> copper_value c \<le> 111000000"
  by (simp add: currency_ok_def copper_value_def max_currency_pieces_def)

definition canonical :: "nat \<Rightarrow> currency" where
  "canonical n = \<lparr>cur_copper = n mod 10, cur_silver = n mod 100 div 10, cur_gold = n div 100\<rparr>"

lemma copper_value_canonical [simp]: "copper_value (canonical n) = n"
proof -
  have a: "100 * (n div 100) + n mod 100 = n" by simp
  have b: "10 * (n mod 100 div 10) + n mod 100 mod 10 = n mod 100" by simp
  have c: "n mod 100 mod 10 = n mod 10" by (simp add: mod_mod_cancel)
  show ?thesis
    unfolding copper_value_def canonical_def currency.simps using a b c by linarith
qed

lemma from_total_copper_Ok_iff:
  assumes "n \<le> 222000000"
  shows "from_total_copper n = Ok c \<longleftrightarrow> c = canonical n \<and> n < 100000100"
proof -
  have "n div 100 \<le> u32_max" "n mod 100 div 10 \<le> u32_max" "n mod 10 \<le> u32_max"
    using assms by (simp_all add: u32_max_def)
  moreover have "currency_ok (canonical n) \<longleftrightarrow> n < 100000100"
    unfolding currency_ok_def canonical_def max_currency_pieces_def by auto
  ultimately show ?thesis
    by (auto simp: from_total_copper_def as_u32_def Let_def canonical_def)
qed

lemma canonical_ok: "n < 100000100 \<Longrightarrow> currency_ok (canonical n)"
  unfolding currency_ok_def canonical_def max_currency_pieces_def by auto

lemma currency_credit_Ok_iff:
  "currency_credit a c = (Ok u, c') \<longleftrightarrow>
     currency_ok c \<and> currency_ok a \<and> copper_value c + copper_value a < 100000100 \<and>
     c' = canonical (copper_value c + copper_value a)"
proof (cases "currency_ok c \<and> currency_ok a")
  case True
  then have b: "copper_value c + copper_value a \<le> 222000000"
    using copper_value_bound [of c] copper_value_bound [of a] by simp
  then have "checked_add u64_max (copper_value c) (copper_value a) = Some (copper_value c + copper_value a)"
    by (simp add: u64_max_def)
  with True show ?thesis
    by (auto simp: currency_credit_def total_copper_eq from_total_copper_Ok_iff [OF b])
next
  case False
  then show ?thesis by (auto simp: currency_credit_def)
qed

lemma currency_debit_Ok_iff:
  "currency_debit a c = (Ok u, c') \<longleftrightarrow>
     currency_ok c \<and> currency_ok a \<and> copper_value a \<le> copper_value c \<and>
     copper_value c - copper_value a < 100000100 \<and>
     c' = canonical (copper_value c - copper_value a)"
proof (cases "currency_ok c \<and> currency_ok a")
  case True
  then have b: "copper_value c - copper_value a \<le> 222000000"
    using copper_value_bound [of c] by simp
  with True show ?thesis
    by (auto simp: currency_debit_def total_copper_eq from_total_copper_Ok_iff [OF b])
next
  case False
  then show ?thesis by (auto simp: currency_debit_def)
qed

lemma currency_credit_Err: "currency_credit a c = (Err e, c') \<Longrightarrow> c' = c"
  by (auto simp: currency_credit_def and_then_st_Err_iff)

lemma currency_debit_Err: "currency_debit a c = (Err e, c') \<Longrightarrow> c' = c"
  by (auto simp: currency_debit_def and_then_st_Err_iff)

datatype wallet_input = CreditInput currency | DebitInput currency

fun wallet_step :: "(wallet_input, currency, rules_matrix_error, unit) step" where
  "wallet_step (CreditInput a) c = currency_credit a c"
| "wallet_step (DebitInput a) c = currency_debit a c"

interpretation wallet: transactional currency_ok wallet_step
proof unfold_locales
  fix s s' i x
  show "currency_ok s \<Longrightarrow> wallet_step i s = (Ok x, s') \<Longrightarrow> currency_ok s'"
    by (cases i) (auto simp: currency_credit_Ok_iff currency_debit_Ok_iff canonical_ok)
next
  fix s s' i e
  show "wallet_step i s = (Err e, s') \<Longrightarrow> s' = s"
    by (cases i) (auto dest: currency_credit_Err currency_debit_Err)
qed

fun wallet_delta :: "wallet_input \<Rightarrow> int" where
  "wallet_delta (CreditInput a) = int (copper_value a)"
| "wallet_delta (DebitInput a) = - int (copper_value a)"

text \<open>The ledger law: what the accepted credits and debits add up to is what the wallet moved.\<close>

lemma wallet_ledger:
  "currency_ok c \<Longrightarrow>
     int (copper_value (run_steps wallet_step is c)) =
       int (copper_value c) + sum_list (map wallet_delta (accepted wallet_step is c))"
proof (induction "is" arbitrary: c)
  case Nil
  show ?case by simp
next
  case (Cons i "is")
  obtain r c' where st: "wallet_step i c = (r, c')" by (cases "wallet_step i c")
  show ?case
  proof (cases r)
    case (Err e)
    with st have "c' = c" using wallet.step_rollback by simp
    with st Err Cons show ?thesis by simp
  next
    case (Ok x)
    with st Cons.prems have "currency_ok c'" using wallet.step_valid by simp
    moreover have "int (copper_value c') = int (copper_value c) + wallet_delta i"
      using st Ok by (cases i) (auto simp: currency_credit_Ok_iff currency_debit_Ok_iff)
    ultimately show ?thesis using st Ok Cons.IH [of c'] by simp
  qed
qed

text \<open>
  A wallet in the normal form that every operation leaves can always be debited by what it
  covers; one that is not, need not be.
\<close>

definition normalised :: "currency \<Rightarrow> bool" where
  "normalised c \<longleftrightarrow> currency_ok c \<and> cur_copper c < 10 \<and> cur_silver c < 10"

lemma normalised_canonical: "n < 100000100 \<Longrightarrow> normalised (canonical n)"
  using canonical_ok [of n] by (auto simp: normalised_def) (auto simp: canonical_def)

lemma normalised_debit:
  assumes "normalised c" "currency_ok a"
  shows "is_ok (fst (currency_debit a c)) \<longleftrightarrow> copper_value a \<le> copper_value c"
proof -
  have "copper_value c < 100000100"
    using assms(1) by (simp add: normalised_def currency_ok_def copper_value_def max_currency_pieces_def)
  then have "currency_debit a c = (Ok (), canonical (copper_value c - copper_value a))"
    if "copper_value a \<le> copper_value c"
    using that assms by (simp add: currency_debit_Ok_iff normalised_def)
  moreover have "copper_value a \<le> copper_value c" if "fst (currency_debit a c) = Ok ()"
    using that currency_debit_Ok_iff [of a c "()" "snd (currency_debit a c)"]
    by (cases "currency_debit a c") auto
  ultimately show ?thesis by (auto simp: is_ok_iff)
qed

lemma accepted_normalises:
  "wallet_step i c = (Ok u, c') \<Longrightarrow> normalised c'"
  by (cases i) (auto simp: currency_credit_Ok_iff currency_debit_Ok_iff normalised_canonical)

section \<open>Inventory\<close>

record inventory_entry =
  ie_item :: equipment_id
  ie_quantity :: u8
  ie_equipped :: bool

record inventory_state =
  inv_schema_version :: u16
  inv_capacity_policy_id :: string
  inv_entries :: "inventory_entry list"
  inv_simple_weapon :: "simple_weapon_id option"
  inv_held_weapon :: weapon_choice
  inv_currency :: currency

definition carries :: "inventory_state \<Rightarrow> equipment_id \<Rightarrow> bool" where
  "carries bag item = list_ex (\<lambda>e. ie_item e = item) (inv_entries bag)"

fun weapon_is_carried :: "inventory_state \<Rightarrow> weapon_choice \<Rightarrow> bool" where
  "weapon_is_carried bag (SimpleWeapon kind) =
     (inv_simple_weapon bag = Some kind \<and> carries bag SimpleWeapons)"
| "weapon_is_carried bag Longsword = carries bag LongswordItem"
| "weapon_is_carried bag LightCrossbow = carries bag LightCrossbowItem"

definition is_armor :: "equipment_id \<Rightarrow> bool" where
  "is_armor i \<longleftrightarrow> i = ChainMail \<or> i = LeatherArmor"

definition is_equippable :: "equipment_id \<Rightarrow> bool" where
  "is_equippable i \<longleftrightarrow> i = ChainMail \<or> i = LeatherArmor \<or> i = ShieldItem"

fun scan_entries :: "equipment_id option \<Rightarrow> inventory_entry list \<Rightarrow> unit rules_result" where
  "scan_entries previous [] = Ok ()"
| "scan_entries previous (e # es) =
     (if ie_quantity e \<noteq> 1 \<or> (case previous of None \<Rightarrow> False | Some i \<Rightarrow> i \<ge> ie_item e)
      then Err (InvalidState (InventoryFault InventoryOrder))
      else if ie_equipped e \<and> \<not> is_equippable (ie_item e)
      then Err (InvalidState (InventoryFault InventoryEquipState))
      else scan_entries (Some (ie_item e)) es)"

definition inventory_validate :: "inventory_state \<Rightarrow> unit rules_result" where
  "inventory_validate bag =
     (if inv_schema_version bag \<noteq> rules_matrix_schema_version
        \<or> inv_capacity_policy_id bag \<noteq> authored_capacity_policy_id
        \<or> inv_entries bag = [] \<or> length (inv_entries bag) > length equipment_all
      then Err (InvalidState (InventoryFault InventoryShape))
      else and_then (currency_validate (inv_currency bag)) (\<lambda>_.
        and_then (scan_entries None (inv_entries bag)) (\<lambda>_.
          if carries bag SimpleWeapons \<noteq> (inv_simple_weapon bag \<noteq> None)
          then Err (InvalidState (InventoryFault SimpleWeaponDisagrees))
          else if \<not> weapon_is_carried bag (inv_held_weapon bag)
          then Err (InvalidState (InventoryFault HeldWeaponMissing))
          else Ok ())))"

definition inventory_from_equipment :: "equipment_state \<Rightarrow> inventory_state rules_result" where
  "inventory_from_equipment eq =
     (if eq_capacity_policy_id eq \<noteq> authored_capacity_policy_id
      then Err (unsupported_error ''capacity.policy'')
      else and_then
        (if LongswordItem \<in> set (eq_carried eq) then Ok Longsword
         else case eq_simple_weapon eq of
           Some kind \<Rightarrow> Ok (SimpleWeapon kind)
         | None \<Rightarrow>
             if LightCrossbowItem \<in> set (eq_carried eq) then Ok LightCrossbow
             else Err (InvalidState (InventoryFault NoSupportedWeapon)))
        (\<lambda>held.
          let bag = \<lparr>inv_schema_version = rules_matrix_schema_version,
                     inv_capacity_policy_id = eq_capacity_policy_id eq,
                     inv_entries = map (\<lambda>item.
                       \<lparr>ie_item = item, ie_quantity = 1,
                        ie_equipped = (eq_equipped_armor eq = Some item \<or>
                                       item = ShieldItem \<and> eq_shield_equipped eq)\<rparr>) (eq_carried eq),
                     inv_simple_weapon = eq_simple_weapon eq, inv_held_weapon = held,
                     inv_currency = currency_default\<rparr>
          in and_then (inventory_validate bag) (\<lambda>_. Ok bag)))"

definition ready_weapon ::
  "weapon_choice \<Rightarrow> inventory_state \<times> action_economy
    \<Rightarrow> unit rules_result \<times> inventory_state \<times> action_economy" where
  "ready_weapon weapon st =
     (let (bag, eco) = st in
      and_then_st
       (and_then (inventory_validate bag) (\<lambda>_.
          if \<not> weapon_is_carried bag weapon
          then Err (InvalidIntent (InventoryFault WeaponNotCarried))
          else lift_core (fst (economy_spend ObjectInteraction eco))), st)
       (\<lambda>_ _.
         let bag' = bag\<lparr>inv_held_weapon := weapon\<rparr>
         in (inventory_validate bag', bag', snd (economy_spend ObjectInteraction eco))))"

definition shield_is_equipped :: "inventory_state \<Rightarrow> bool" where
  "shield_is_equipped bag = list_ex (\<lambda>e. ie_item e = ShieldItem \<and> ie_equipped e) (inv_entries bag)"

fun needs_two_hands :: "weapon_choice \<Rightarrow> bool" where
  "needs_two_hands LightCrossbow = True"
| "needs_two_hands (SimpleWeapon kind) = (kind = Greatclub)"
| "needs_two_hands Longsword = False"

definition validate_readied_attack :: "inventory_state \<Rightarrow> weapon_choice \<Rightarrow> unit rules_result" where
  "validate_readied_attack bag weapon =
     and_then (inventory_validate bag) (\<lambda>_.
       if inv_held_weapon bag \<noteq> weapon then Err (InvalidIntent (InventoryFault AttackNotReadied))
       else if shield_is_equipped bag \<and> needs_two_hands weapon
       then Err (InvalidIntent (InventoryFault TwoHandedWithShield))
       else Ok ())"

text \<open>\<open>self.entries[index].equipped = equipped\<close> at the first entry of the item.\<close>

definition set_equipped_between_scenes ::
  "equipment_id \<Rightarrow> bool \<Rightarrow> inventory_state \<Rightarrow> unit rules_result \<times> inventory_state" where
  "set_equipped_between_scenes item equipped bag =
     and_then_st
       (and_then (inventory_validate bag) (\<lambda>_.
          if \<not> is_equippable item then Err (unsupported_error ''inventory.equip-item'')
          else if \<not> carries bag item then Err (InvalidIntent (InventoryFault ItemNotCarried))
          else Ok ()), bag)
       (\<lambda>_ bag.
         let cleared = (if equipped \<and> is_armor item
                        then map (\<lambda>e. if is_armor (ie_item e) then e\<lparr>ie_equipped := False\<rparr> else e)
                               (inv_entries bag)
                        else inv_entries bag);
             bag' = bag\<lparr>inv_entries :=
                      update_first (\<lambda>e. ie_item e = item) (\<lambda>e. e\<lparr>ie_equipped := equipped\<rparr>) cleared\<rparr>
         in (inventory_validate bag', bag'))"

definition change_shield ::
  "bool \<Rightarrow> inventory_state \<times> action_economy \<Rightarrow> unit rules_result \<times> inventory_state \<times> action_economy" where
  "change_shield equipped st =
     (let (bag, eco) = st in
      case and_then (inventory_validate bag) (\<lambda>_.
             if \<not> carries bag ShieldItem then Err (InvalidIntent (InventoryFault ShieldNotCarried))
             else and_then (lift_core (fst (economy_spend Action eco))) (\<lambda>_.
               case set_equipped_between_scenes ShieldItem equipped bag of
                 (Err e, _) \<Rightarrow> Err e
               | (Ok _, bag') \<Rightarrow> Ok (bag', snd (economy_spend Action eco)))) of
        Err e \<Rightarrow> (Err e, st)
      | Ok next' \<Rightarrow> (Ok (), next'))"

definition use_consumable :: "string \<Rightarrow> inventory_state \<Rightarrow> unit rules_result \<times> inventory_state" where
  "use_consumable requested_id bag = (Err (unsupported_error requested_id), bag)"

definition has_defense_style :: "derived_hero_sheet \<Rightarrow> bool" where
  "has_defense_style sheet =
     list_ex (\<lambda>f. fs_feature f = FightingStyleDefense \<and> fs_availability f = FeatureActive)
       (sh_features sheet)"

definition equipped_armor :: "inventory_state \<Rightarrow> equipment_id list" where
  "equipped_armor bag =
     map ie_item (filter (\<lambda>e. ie_equipped e \<and> is_armor (ie_item e)) (inv_entries bag))"

text \<open>The filter lets armor through only, so the last branch is the leather of the source.\<close>

definition runtime_armor_class :: "derived_hero_sheet \<Rightarrow> inventory_state \<Rightarrow> u8 rules_result" where
  "runtime_armor_class sheet bag =
     and_then (inventory_validate bag) (\<lambda>_.
       let armor = equipped_armor bag in
       if length armor > 1 then Err (InvalidState (InventoryFault TwoArmorsEquipped))
       else
         let dexterity = score_modifier (scores_get (sh_ability_scores sheet) Dexterity);
             base = (case armor of
                       [] \<Rightarrow> 10 + dexterity
                     | a # _ \<Rightarrow> if a = ChainMail then 16 else 11 + dexterity);
             with_shield = (if shield_is_equipped bag then base + 2 else base);
             ac = (if armor \<noteq> [] \<and> has_defense_style sheet then with_shield + 1 else with_shield)
         in if 0 \<le> ac \<and> ac \<le> 255 then Ok (nat ac) else Err ArithmeticOverflow)"

section \<open>The inventory's invariant\<close>

definition entries_ok :: "inventory_entry list \<Rightarrow> bool" where
  "entries_ok es \<longleftrightarrow>
     strictly_sorted (map ie_item es) \<and>
     list_all (\<lambda>e. ie_quantity e = 1 \<and> (ie_equipped e \<longrightarrow> is_equippable (ie_item e))) es"

lemma scan_entries_Ok_iff:
  "scan_entries prev es = Ok () \<longleftrightarrow>
     entries_ok es \<and> (case prev of None \<Rightarrow> True | Some i \<Rightarrow> \<forall>e\<in>set es. i < ie_item e)"
proof (induction es arbitrary: prev)
  case Nil
  show ?case by (simp add: entries_ok_def split: option.splits)
next
  case (Cons e es)
  show ?case
    by (auto simp: Cons.IH entries_ok_def strictly_sorted_iff not_le
        split: option.splits dest: less_trans)
qed

definition inventory_ok :: "inventory_state \<Rightarrow> bool" where
  "inventory_ok bag \<longleftrightarrow>
     inv_schema_version bag = rules_matrix_schema_version \<and>
     inv_capacity_policy_id bag = authored_capacity_policy_id \<and>
     inv_entries bag \<noteq> [] \<and> length (inv_entries bag) \<le> 10 \<and>
     currency_ok (inv_currency bag) \<and> entries_ok (inv_entries bag) \<and>
     (carries bag SimpleWeapons \<longleftrightarrow> inv_simple_weapon bag \<noteq> None) \<and>
     weapon_is_carried bag (inv_held_weapon bag)"

lemma inventory_validate_iff [simp]: "inventory_validate bag = Ok u \<longleftrightarrow> inventory_ok bag"
  by (auto simp: inventory_validate_def inventory_ok_def scan_entries_Ok_iff equipment_all_def)

lemma inventory_validate_result [simp]: "inventory_ok bag \<Longrightarrow> inventory_validate bag = Ok ()"
  by simp

lemma from_equipment_ok: "inventory_from_equipment eq = Ok bag \<Longrightarrow> inventory_ok bag"
  by (auto simp: inventory_from_equipment_def Let_def split: if_splits option.splits)

lemma weapon_is_carried_cong:
  assumes "map ie_item (inv_entries bag') = map ie_item (inv_entries bag)"
    "inv_simple_weapon bag' = inv_simple_weapon bag"
  shows "weapon_is_carried bag' w = weapon_is_carried bag w"
    "carries bag' i = carries bag i"
proof -
  have c: "carries bag' i = carries bag i" for i
    using arg_cong [OF assms(1), of set] by (auto simp: carries_def list_ex_iff) (metis imageE image_eqI)+
  then show "weapon_is_carried bag' w = weapon_is_carried bag w" "carries bag' i = carries bag i"
    using assms(2) by (cases w; simp)+
qed

lemma ready_weapon_Ok_iff:
  "ready_weapon w (bag, eco) = (Ok u, (bag', eco')) \<longleftrightarrow>
     inventory_ok bag \<and> weapon_is_carried bag w \<and> object_interaction_available eco \<and>
     bag' = bag\<lparr>inv_held_weapon := w\<rparr> \<and> eco' = eco\<lparr>object_interaction_available := False\<rparr>"
proof -
  have "weapon_is_carried bag w \<Longrightarrow> inventory_ok bag \<Longrightarrow> inventory_ok (bag\<lparr>inv_held_weapon := w\<rparr>)"
    using weapon_is_carried_cong [of "bag\<lparr>inv_held_weapon := w\<rparr>" bag]
    by (simp add: inventory_ok_def)
  then show ?thesis
    by (auto simp: ready_weapon_def economy_spend_def lift_core_def split: if_splits)
qed

lemma ready_weapon_Err:
  assumes "ready_weapon w (bag, eco) = (Err e, st')"
  shows "st' = (bag, eco)"
proof (cases "inventory_ok bag \<and> weapon_is_carried bag w \<and> object_interaction_available eco")
  case True
  then have "ready_weapon w (bag, eco) =
    (Ok (), (bag\<lparr>inv_held_weapon := w\<rparr>, eco\<lparr>object_interaction_available := False\<rparr>))"
    by (simp add: ready_weapon_Ok_iff)
  with assms show ?thesis by simp
next
  case False
  with assms show ?thesis
    by (cases "inventory_validate bag")
      (auto simp: ready_weapon_def economy_spend_def lift_core_def split: if_splits)
qed

lemma map_item_update [simp]:
  "map ie_item (update_first p (\<lambda>e. e\<lparr>ie_equipped := b\<rparr>) es) = map ie_item es"
  by (rule update_first_map) simp

definition cleared_entries :: "equipment_id \<Rightarrow> bool \<Rightarrow> inventory_entry list \<Rightarrow> inventory_entry list" where
  "cleared_entries item equipped es =
     (if equipped \<and> is_armor item
      then map (\<lambda>e. if is_armor (ie_item e) then e\<lparr>ie_equipped := False\<rparr> else e) es else es)"

definition equip_entries :: "equipment_id \<Rightarrow> bool \<Rightarrow> inventory_entry list \<Rightarrow> inventory_entry list" where
  "equip_entries item equipped es =
     update_first (\<lambda>e. ie_item e = item) (\<lambda>e. e\<lparr>ie_equipped := equipped\<rparr>) (cleared_entries item equipped es)"

lemma equip_entries_items [simp]: "map ie_item (equip_entries item b es) = map ie_item es"
  by (auto simp: equip_entries_def cleared_entries_def o_def)

lemma equip_entries_ok:
  assumes "entries_ok es" "is_equippable item"
  shows "entries_ok (equip_entries item b es)"
proof -
  have c: "list_all (\<lambda>e. ie_quantity e = 1 \<and> (ie_equipped e \<longrightarrow> is_equippable (ie_item e)))
      (cleared_entries item b es)"
    using assms(1) by (auto simp: entries_ok_def cleared_entries_def list_all_iff)
  have "list_all (\<lambda>e. ie_quantity e = 1 \<and> (ie_equipped e \<longrightarrow> is_equippable (ie_item e)))
      (equip_entries item b es)"
    unfolding list_all_iff
  proof
    fix y assume "y \<in> set (equip_entries item b es)"
    then have "y \<in> set (cleared_entries item b es) \<or>
      (\<exists>x\<in>set (cleared_entries item b es).
        find (\<lambda>e. ie_item e = item) (cleared_entries item b es) = Some x \<and> y = x\<lparr>ie_equipped := b\<rparr>)"
      unfolding equip_entries_def by (rule set_update_first)
    then show "ie_quantity y = 1 \<and> (ie_equipped y \<longrightarrow> is_equippable (ie_item y))"
      using c assms(2) by (auto simp: list_all_iff dest: find_SomeD)
  qed
  with assms(1) show ?thesis by (simp add: entries_ok_def)
qed

lemma set_equipped_eq:
  assumes "inventory_ok bag" "is_equippable item" "carries bag item"
  shows "set_equipped_between_scenes item b bag =
    (Ok (), bag\<lparr>inv_entries := equip_entries item b (inv_entries bag)\<rparr>)"
    "inventory_ok (bag\<lparr>inv_entries := equip_entries item b (inv_entries bag)\<rparr>)"
proof -
  let ?bag = "bag\<lparr>inv_entries := equip_entries item b (inv_entries bag)\<rparr>"
  have l: "length (equip_entries item b (inv_entries bag)) = length (inv_entries bag)"
    using arg_cong [OF equip_entries_items [of item b "inv_entries bag"], of length]
    unfolding length_map .
  then have ne: "equip_entries item b (inv_entries bag) \<noteq> []"
    using assms(1) by (auto simp: inventory_ok_def)
  have c: "weapon_is_carried ?bag w = weapon_is_carried bag w" "carries ?bag i = carries bag i" for w i
    using weapon_is_carried_cong [of ?bag bag] by simp_all
  show ok: "inventory_ok ?bag"
    using assms ne l c equip_entries_ok [of "inv_entries bag" item b] by (simp add: inventory_ok_def)
  show "set_equipped_between_scenes item b bag = (Ok (), ?bag)"
    using assms ok
    by (simp add: set_equipped_between_scenes_def Let_def equip_entries_def cleared_entries_def)
qed

lemma set_equipped_not:
  assumes "\<not> (inventory_ok bag \<and> is_equippable item \<and> carries bag item)"
  shows "\<exists>e. set_equipped_between_scenes item b bag = (Err e, bag)"
  using assms
  by (cases "inventory_validate bag") (auto simp: set_equipped_between_scenes_def)

definition change_ready :: "inventory_state \<times> action_economy \<Rightarrow> bool" where
  "change_ready st \<longleftrightarrow> inventory_ok (fst st) \<and> carries (fst st) ShieldItem \<and> action_available (snd st)"

lemma change_shield_eq:
  "change_ready (bag, eco) \<Longrightarrow> change_shield b (bag, eco) =
     (Ok (), (bag\<lparr>inv_entries := equip_entries ShieldItem b (inv_entries bag)\<rparr>,
              eco\<lparr>action_available := False\<rparr>))"
  using set_equipped_eq(1) [of bag ShieldItem b]
  by (simp add: change_shield_def change_ready_def economy_spend_def lift_core_def is_equippable_def)

lemma change_shield_not: "\<not> change_ready st \<Longrightarrow> \<exists>e. change_shield b st = (Err e, st)"
  by (cases st; cases "inventory_validate (fst st)")
    (auto simp: change_shield_def change_ready_def economy_spend_def lift_core_def)

datatype gear_input =
    ReadyInput weapon_choice
  | EquipInput equipment_id bool
  | ShieldInput bool
  | ConsumeInput string

type_synonym gear_state = "inventory_state \<times> action_economy"

fun gear_step :: "(gear_input, gear_state, rules_matrix_error, unit) step" where
  "gear_step (ReadyInput w) st = ready_weapon w st"
| "gear_step (EquipInput item b) (bag, eco) =
     (case set_equipped_between_scenes item b bag of (r, bag') \<Rightarrow> (r, bag', eco))"
| "gear_step (ShieldInput b) st = change_shield b st"
| "gear_step (ConsumeInput i) (bag, eco) =
     (case use_consumable i bag of (r, bag') \<Rightarrow> (r, bag', eco))"

text \<open>At most one armor is worn, in every inventory reached from one where that holds.\<close>

definition worn_armor :: "inventory_entry list \<Rightarrow> nat" where
  "worn_armor es = length (filter (\<lambda>e. ie_equipped e \<and> is_armor (ie_item e)) es)"

definition gear_ok :: "gear_state \<Rightarrow> bool" where
  "gear_ok st \<longleftrightarrow> inventory_ok (fst st) \<and> worn_armor (inv_entries (fst st)) \<le> 1"

lemma worn_armor_update_le:
  "worn_armor (update_first p (\<lambda>e. e\<lparr>ie_equipped := b\<rparr>) es) \<le> Suc (worn_armor es)"
  by (induction es) (auto simp: worn_armor_def)

lemma worn_armor_unequip:
  "worn_armor (update_first p (\<lambda>e. e\<lparr>ie_equipped := False\<rparr>) es) \<le> worn_armor es"
  by (induction es) (auto simp: worn_armor_def)

lemma worn_armor_shield:
  "worn_armor (update_first (\<lambda>e. ie_item e = ShieldItem) (\<lambda>e. e\<lparr>ie_equipped := b\<rparr>) es) = worn_armor es"
  by (induction es) (auto simp: worn_armor_def is_armor_def)

lemma worn_armor_cleared:
  "worn_armor (map (\<lambda>e. if is_armor (ie_item e) then e\<lparr>ie_equipped := False\<rparr> else e) es) = 0"
  by (auto simp: worn_armor_def filter_empty_conv)

lemma worn_armor_equip:
  assumes "is_equippable item" "worn_armor es \<le> 1"
  shows "worn_armor (equip_entries item b es) \<le> 1"
proof (cases "item = ShieldItem")
  case True
  with assms show ?thesis
    by (simp add: equip_entries_def cleared_entries_def is_armor_def worn_armor_shield)
next
  case False
  with assms(1) have a: "is_armor item" by (auto simp: is_equippable_def is_armor_def)
  show ?thesis
  proof (cases b)
    case True
    with a worn_armor_update_le [of "\<lambda>e. ie_item e = item" True
        "map (\<lambda>e. if is_armor (ie_item e) then e\<lparr>ie_equipped := False\<rparr> else e) es"]
    show ?thesis by (simp add: equip_entries_def cleared_entries_def worn_armor_cleared)
  next
    case False
    with assms(2) order_trans [OF worn_armor_unequip] show ?thesis
      by (simp add: equip_entries_def cleared_entries_def)
  qed
qed

lemma gear_step_OkD:
  assumes "gear_ok (bag, eco)" "gear_step i (bag, eco) = (Ok u, (bag', eco'))"
  shows "gear_ok (bag', eco') \<and> inv_currency bag' = inv_currency bag \<and>
    map ie_item (inv_entries bag') = map ie_item (inv_entries bag)"
proof (cases i)
  case (ReadyInput w)
  with assms have r: "ready_weapon w (bag, eco) = (Ok (), (bag', eco'))" by simp
  have "inventory_ok (bag\<lparr>inv_held_weapon := w\<rparr>)"
    using r weapon_is_carried_cong [of "bag\<lparr>inv_held_weapon := w\<rparr>" bag]
    by (auto simp: ready_weapon_Ok_iff inventory_ok_def)
  with r assms(1) show ?thesis by (auto simp: ready_weapon_Ok_iff gear_ok_def)
next
  case (EquipInput item b)
  with assms(2) have s: "set_equipped_between_scenes item b bag = (Ok (), bag')"
    by (auto split: prod.splits)
  then have c: "inventory_ok bag" "is_equippable item" "carries bag item"
    using set_equipped_not [of bag item b] by auto
  from set_equipped_eq [OF c, of b] s assms(1) worn_armor_equip [OF c(2), of "inv_entries bag" b]
  show ?thesis by (auto simp: gear_ok_def)
next
  case (ShieldInput b)
  with assms(2) have s: "change_shield b (bag, eco) = (Ok (), (bag', eco'))" by simp
  then have c: "change_ready (bag, eco)" using change_shield_not [of "(bag, eco)" b] by auto
  then have d: "inventory_ok bag" "is_equippable ShieldItem" "carries bag ShieldItem"
    by (simp_all add: change_ready_def is_equippable_def)
  from change_shield_eq [OF c, of b] s set_equipped_eq(2) [OF d, of b] assms(1)
    worn_armor_equip [OF d(2), of "inv_entries bag" b]
  show ?thesis by (auto simp: gear_ok_def)
next
  case (ConsumeInput x)
  with assms(2) show ?thesis by (simp add: use_consumable_def)
qed

lemma gear_step_Err:
  assumes "gear_step i (bag, eco) = (Err e, st')"
  shows "st' = (bag, eco)"
proof (cases i)
  case (ReadyInput w)
  with assms ready_weapon_Err show ?thesis by simp
next
  case (EquipInput item b)
  with assms set_equipped_not [of bag item b] set_equipped_eq(1) [of bag item b] show ?thesis
    by (cases "inventory_ok bag \<and> is_equippable item \<and> carries bag item") auto
next
  case (ShieldInput b)
  with assms change_shield_not [of "(bag, eco)" b] change_shield_eq [of bag eco b] show ?thesis
    by (cases "change_ready (bag, eco)") auto
next
  case (ConsumeInput x)
  with assms show ?thesis by (simp add: use_consumable_def)
qed

interpretation gear: conserving gear_ok gear_step
  "\<lambda>st. (inv_currency (fst st), map ie_item (inv_entries (fst st)))"
proof unfold_locales
  fix s s' :: gear_state and i u
  assume "gear_ok s" "gear_step i s = (Ok u, s')"
  then show "gear_ok s'"
    "(inv_currency (fst s'), map ie_item (inv_entries (fst s'))) =
     (inv_currency (fst s), map ie_item (inv_entries (fst s)))"
    using gear_step_OkD [of "fst s" "snd s" i u "fst s'" "snd s'"] by simp_all
next
  fix s s' :: gear_state and i e
  show "gear_step i s = (Err e, s') \<Longrightarrow> s' = s"
    using gear_step_Err [of i "fst s" "snd s" e s'] by simp
qed

text \<open>Worn armor is at most one, so the armor class of a kept inventory is always defined.\<close>

lemma armor_class_Ok:
  assumes "gear_ok (bag, eco)" "scores_validate (sh_ability_scores sheet) = Ok ()"
  shows "\<exists>ac. runtime_armor_class sheet bag = Ok ac \<and> 5 \<le> ac \<and> ac \<le> 24"
proof -
  let ?d = "score_modifier (scores_get (sh_ability_scores sheet) Dexterity)"
  have d: "-5 \<le> ?d" "?d \<le> 10"
    using assms(2) score_modifier_bounds [of "scores_get (sh_ability_scores sheet) Dexterity"]
    by (auto simp: scores_validate_iff simp del: scores_get.simps)
  have one: "\<not> length (equipped_armor bag) > 1"
    using assms(1) by (simp add: gear_ok_def worn_armor_def equipped_armor_def)
  have ok: "inventory_ok bag" using assms(1) by (simp add: gear_ok_def)
  show ?thesis
    using d one ok
    by (auto simp: runtime_armor_class_def Let_def split: list.splits)
qed

section \<open>Properties\<close>

text \<open>C25: The wallet is a ledger: over any sequence of credits and debits, what the wallet is worth in
  copper afterwards is what it was worth before plus the accepted credits minus the accepted debits,
  refused operations move nothing, and every wallet reached passes \<open>validate\<close>.\<close>

theorem wallet_is_a_ledger:
  assumes "currency_validate c = Ok ()"
  shows "currency_validate (run_steps wallet_step is c) = Ok () \<and>
    int (copper_value (run_steps wallet_step is c)) =
      int (copper_value c) + sum_list (map wallet_delta (accepted wallet_step is c))"
  using assms wallet.run_valid [of c "is"] wallet_ledger [of c "is"] by simp

definition coins :: "nat \<Rightarrow> nat \<Rightarrow> nat \<Rightarrow> currency" where
  "coins g s c = \<lparr>cur_copper = c, cur_silver = s, cur_gold = g\<rparr>"

theorem wallet_is_a_ledger_witness:
  "copper_value (run_steps wallet_step
     [CreditInput (coins 0 3 0), DebitInput (coins 1 0 5), DebitInput (coins 1 0 0)] (coins 1 0 0)) = 25"
proof -
  let ?is = "[CreditInput (coins 0 3 0), DebitInput (coins 1 0 5), DebitInput (coins 1 0 0)]"
  have v: "currency_validate (coins 1 0 0) = Ok ()"
    by (simp add: currency_ok_def coins_def max_currency_pieces_def)
  have "copper_value (coins 1 0 0) = 100" by (simp add: copper_value_def coins_def)
  moreover have "accepted wallet_step ?is (coins 1 0 0) = [CreditInput (coins 0 3 0), DebitInput (coins 1 0 5)]"
  proof -
    have credit: "currency_credit (coins 0 3 0) (coins 1 0 0) = (Ok (), canonical 130)"
      by (simp add: currency_credit_Ok_iff currency_ok_def copper_value_def coins_def max_currency_pieces_def)
    have c: "canonical 130 = coins 1 3 0" "canonical 25 = coins 0 2 5"
      by (simp_all add: canonical_def coins_def)
    have debit: "currency_debit (coins 1 0 5) (coins 1 3 0) = (Ok (), canonical 25)"
      by (simp add: currency_debit_Ok_iff currency_ok_def copper_value_def coins_def max_currency_pieces_def)
    have "fst (currency_debit (coins 1 0 0) (coins 0 2 5)) \<noteq> Ok ()"
      using currency_debit_Ok_iff [of "coins 1 0 0" "coins 0 2 5" "()"
          "snd (currency_debit (coins 1 0 0) (coins 0 2 5))"]
      by (cases "currency_debit (coins 1 0 0) (coins 0 2 5)") (auto simp: copper_value_def coins_def)
    then have "\<not> is_ok (fst (currency_debit (coins 1 0 0) (coins 0 2 5)))"
      by (auto simp: is_ok_iff)
    then show ?thesis
      using credit debit by (simp add: c)
  qed
  moreover have "wallet_delta (CreditInput (coins 0 3 0)) = 30"
    "wallet_delta (DebitInput (coins 1 0 5)) = - 105"
    by (simp_all add: copper_value_def coins_def)
  ultimately show ?thesis using wallet_is_a_ledger [OF v, of ?is] by simp
qed

text \<open>C39: A wallet that passes \<open>validate\<close> can be unable to pay what it covers: holding one million gold
  and one million silver pieces, each at the bound, it is worth 110,000,000 copper, yet paying a single
  copper is refused, because the change is rewritten into more than a million gold pieces. A wallet that
  an operation has already normalised always pays what it covers.\<close>

theorem covered_debit_refused:
  "currency_validate (coins 1000000 1000000 0) = Ok () \<and>
   currency_validate (coins 0 0 1) = Ok () \<and>
   copper_value (coins 0 0 1) \<le> copper_value (coins 1000000 1000000 0) \<and>
   (\<exists>e. currency_debit (coins 0 0 1) (coins 1000000 1000000 0) = (Err e, coins 1000000 1000000 0)) \<and>
   (\<forall>c a. normalised c \<and> currency_validate a = Ok () \<longrightarrow>
     (is_ok (fst (currency_debit a c)) \<longleftrightarrow> copper_value a \<le> copper_value c))"
proof (intro conjI)
  let ?c = "coins 1000000 1000000 0" and ?a = "coins 0 0 1"
  obtain r c' where d: "currency_debit ?a ?c = (r, c')" by (cases "currency_debit ?a ?c")
  have "r \<noteq> Ok ()"
    using d currency_debit_Ok_iff [of ?a ?c "()" c'] by (auto simp: copper_value_def coins_def)
  then obtain e where "r = Err e" by (cases r) auto
  with d currency_debit_Err show "\<exists>e. currency_debit ?a ?c = (Err e, ?c)" by metis
qed (auto simp: currency_ok_def coins_def max_currency_pieces_def copper_value_def normalised_debit)

theorem covered_debit_refused_witness:
  "is_ok (fst (currency_debit (coins 0 0 1) (coins 2 0 0)))"
proof -
  have "normalised (coins 2 0 0)" "currency_validate (coins 0 0 1) = Ok ()"
    by (simp_all add: normalised_def currency_ok_def coins_def max_currency_pieces_def)
  then show ?thesis using covered_debit_refused by (auto simp: copper_value_def coins_def)
qed

text \<open>C36: Whatever a hero readies, equips, takes off or tries to consume, and whatever is refused, the
  inventory stays valid, at most one suit of armor is worn, no item and no coin is created or lost, and
  the armor class computed from it lies between 5 and 24.\<close>

theorem gear_keeps_its_bounds:
  assumes "inventory_validate bag = Ok ()" "worn_armor (inv_entries bag) \<le> 1"
    and "scores_validate (sh_ability_scores sheet) = Ok ()"
    and "run_steps gear_step is (bag, eco) = (bag', eco')"
  shows "inventory_validate bag' = Ok () \<and> worn_armor (inv_entries bag') \<le> 1 \<and>
    inv_currency bag' = inv_currency bag \<and>
    map ie_item (inv_entries bag') = map ie_item (inv_entries bag) \<and>
    (\<exists>ac. runtime_armor_class sheet bag' = Ok ac \<and> 5 \<le> ac \<and> ac \<le> 24)"
proof -
  have g: "gear_ok (bag, eco)" using assms(1,2) by (simp add: gear_ok_def)
  from gear.run_valid [OF g, of "is"] gear.run_kept [OF g, of "is"] assms(4)
  have "gear_ok (bag', eco')" "inv_currency bag' = inv_currency bag"
    "map ie_item (inv_entries bag') = map ie_item (inv_entries bag)" by auto
  with armor_class_Ok [OF this(1) assms(3)] show ?thesis by (simp add: gear_ok_def)
qed

definition soldier_bag :: inventory_state where
  "soldier_bag =
     \<lparr>inv_schema_version = rules_matrix_schema_version,
      inv_capacity_policy_id = authored_capacity_policy_id,
      inv_entries =
        [\<lparr>ie_item = LongswordItem, ie_quantity = 1, ie_equipped = False\<rparr>,
         \<lparr>ie_item = ShieldItem, ie_quantity = 1, ie_equipped = True\<rparr>,
         \<lparr>ie_item = ChainMail, ie_quantity = 1, ie_equipped = False\<rparr>,
         \<lparr>ie_item = LeatherArmor, ie_quantity = 1, ie_equipped = True\<rparr>],
      inv_simple_weapon = None, inv_held_weapon = Longsword, inv_currency = coins 3 0 0\<rparr>"

definition soldier_sheet :: derived_hero_sheet where
  "soldier_sheet =
     (let scores = \<lparr>as_strength = AbilityScore 16, as_dexterity = AbilityScore 14,
        as_constitution = AbilityScore 12, as_intelligence = AbilityScore 10,
        as_wisdom = AbilityScore 8, as_charisma = AbilityScore 6\<rparr>
      in \<lparr>sh_schema_version = 1, sh_derivation_id = ''derivation'', sh_level = LevelOne,
      sh_proficiency_bonus = 2, sh_base_scores = scores, sh_ability_scores = scores,
      sh_ability_modifiers = modifiers_from_scores scores, sh_armor_class = 16,
      sh_speed_feet = 30, sh_maximum_hit_points = 11, sh_current_hit_points = 11,
      sh_saving_throws = [], sh_skills = [],
      sh_passive_values = \<lparr>pv_perception = 9, pv_investigation = 10, pv_insight = 9\<rparr>,
      sh_attacks = [], sh_resources = [],
      sh_equipment = \<lparr>eq_carried = [], eq_simple_weapon = None, eq_equipped_armor = None,
         eq_shield_equipped = False, eq_capacity_policy_id = ''capacity''\<rparr>,
      sh_spellcasting = None, sh_features = [], sh_legal_action_capabilities = []\<rparr>)"

lemma soldier_bag_ok: "inventory_validate soldier_bag = Ok ()"
proof -
  have "(LongswordItem::equipment_id) < ShieldItem" "(ShieldItem::equipment_id) < ChainMail"
    "(ChainMail::equipment_id) < LeatherArmor" by code_simp+
  then show ?thesis
    by (simp add: inventory_validate_def soldier_bag_def equipment_all_def coins_def is_equippable_def
        currency_ok_def max_currency_pieces_def carries_def not_le)
qed

theorem gear_keeps_its_bounds_witness:
  "\<exists>bag' eco' ac. run_steps gear_step
      [EquipInput ChainMail True, ReadyInput LightCrossbow, ShieldInput False]
      (soldier_bag, economy_new 30) = (bag', eco') \<and>
     runtime_armor_class soldier_sheet bag' = Ok ac \<and> ac \<le> 24 \<and> inv_currency bag' = coins 3 0 0"
proof -
  have w: "worn_armor (inv_entries soldier_bag) \<le> 1"
    by (simp add: worn_armor_def soldier_bag_def is_armor_def)
  have s: "scores_validate (sh_ability_scores soldier_sheet) = Ok ()"
    by (simp add: soldier_sheet_def Let_def scores_validate_def ability_all_def score_new_def)
  obtain bag' eco' where r: "run_steps gear_step
      [EquipInput ChainMail True, ReadyInput LightCrossbow, ShieldInput False]
      (soldier_bag, economy_new 30) = (bag', eco')" by (rule prod.exhaust)
  from gear_keeps_its_bounds [OF soldier_bag_ok w s r] r show ?thesis
    by (auto simp: soldier_bag_def)
qed

end
