(* ===== verification/Scene.thy ===== *)
theory Scene
  imports Rules_Base
begin

text \<open>
  Exploration and social scenes of \<open>rules_matrix.rs\<close>: objectives, clocks, the attitude of
  characters, and the single command function that changes them.
\<close>

section \<open>Data\<close>

datatype progress_status = ObjectiveActive | ObjectiveCompleted | ObjectiveFailed

record objective_progress =
  ob_objective_id :: string
  ob_progress :: u8
  ob_target :: u8
  ob_status :: progress_status

definition objective_validate :: "objective_progress \<Rightarrow> unit rules_result" where
  "objective_validate x =
     and_then (require_id (ob_objective_id x) (SceneFault ObjectiveIdInvalid)) (\<lambda>_.
       if ob_target x = 0 \<or> ob_target x > max_clock_segments \<or> ob_progress x > ob_target x
       then Err (InvalidState (SceneFault ObjectiveBounds))
       else if (ob_progress x = ob_target x) \<noteq> (ob_status x = ObjectiveCompleted)
       then Err (InvalidState (SceneFault ObjectiveStatusDisagrees))
       else Ok ())"

datatype clock_kind = ProgressClock | ThreatClock

record scene_clock =
  ck_clock_id :: string
  ck_kind :: clock_kind
  ck_filled :: u8
  ck_segments :: u8

definition clock_validate :: "scene_clock \<Rightarrow> unit rules_result" where
  "clock_validate c =
     and_then (require_id (ck_clock_id c) (SceneFault ClockIdInvalid)) (\<lambda>_.
       if ck_segments c = 0 \<or> ck_segments c > max_clock_segments \<or> ck_filled c > ck_segments c
       then Err (InvalidState (SceneFault ClockBounds)) else Ok ())"

definition clock_advance :: "u8 \<Rightarrow> scene_clock \<Rightarrow> u8 rules_result \<times> scene_clock" where
  "clock_advance segments c =
     and_then_st
       (and_then (clock_validate c) (\<lambda>_.
          if segments = 0 then Err (InvalidIntent (SceneFault ClockAdvanceZero)) else Ok ()), c)
       (\<lambda>_ c. let applied = min segments (ck_segments c - ck_filled c)
              in (Ok applied, c\<lparr>ck_filled := ck_filled c + applied\<rparr>))"

datatype npc_attitude = Hostile | Indifferent | Friendly
datatype attitude_shift = OneStepWorse | NoChange | OneStepBetter

record npc_social_state =
  npc_id :: string
  npc_attitude :: npc_attitude

fun shifted :: "npc_attitude \<Rightarrow> attitude_shift \<Rightarrow> npc_attitude" where
  "shifted Hostile OneStepBetter = Indifferent"
| "shifted Indifferent OneStepBetter = Friendly"
| "shifted Friendly OneStepWorse = Indifferent"
| "shifted Indifferent OneStepWorse = Hostile"
| "shifted attitude _ = attitude"

definition npc_apply_shift ::
  "attitude_shift \<Rightarrow> npc_social_state \<Rightarrow> npc_attitude rules_result \<times> npc_social_state" where
  "npc_apply_shift shift n =
     and_then_st (require_id (npc_id n) (SceneFault NpcIdInvalid), n) (\<lambda>_ n.
       let a = shifted (npc_attitude n) shift in (Ok a, n\<lparr>npc_attitude := a\<rparr>))"

record exploration_social_state =
  es_schema_version :: u16
  es_turn :: u32
  es_objectives :: "objective_progress list"
  es_clocks :: "scene_clock list"
  es_npcs :: "npc_social_state list"

text \<open>
  One pass of \<open>validate\<close> over a list: check the element, then insert its formatted identity into
  the set shared by the three passes.
\<close>

fun scan_scene ::
  "('a \<Rightarrow> unit rules_result) \<Rightarrow> ('a \<Rightarrow> string) \<Rightarrow> scene_fault \<Rightarrow> string set \<Rightarrow> 'a list
    \<Rightarrow> string set rules_result" where
  "scan_scene check key dup ids [] = Ok ids"
| "scan_scene check key dup ids (x # xs) =
     and_then (check x) (\<lambda>_.
       if key x \<in> ids then Err (InvalidState (SceneFault dup))
       else scan_scene check key dup (insert (key x) ids) xs)"

definition objective_key :: "objective_progress \<Rightarrow> string" where
  "objective_key x = ''objective:'' @ ob_objective_id x"

definition clock_key :: "scene_clock \<Rightarrow> string" where
  "clock_key x = ''clock:'' @ ck_clock_id x"

definition npc_key :: "npc_social_state \<Rightarrow> string" where
  "npc_key x = ''npc:'' @ npc_id x"

definition npc_validate :: "npc_social_state \<Rightarrow> unit rules_result" where
  "npc_validate n = require_id (npc_id n) (SceneFault NpcIdInvalid)"

definition scene_validate :: "exploration_social_state \<Rightarrow> unit rules_result" where
  "scene_validate s =
     (if es_schema_version s \<noteq> rules_matrix_schema_version \<or> es_turn s = 0
      then Err (InvalidState (SceneFault SceneSchemaOrTurn))
      else and_then (scan_scene objective_validate objective_key DuplicateObjective {} (es_objectives s))
        (\<lambda>ids. and_then (scan_scene clock_validate clock_key DuplicateClock ids (es_clocks s))
        (\<lambda>ids. and_then (scan_scene npc_validate npc_key DuplicateNpc ids (es_npcs s))
        (\<lambda>_. Ok ()))))"

section \<open>Commands\<close>

datatype exploration_social_command =
    AdvanceObjective string u8
  | FailObjective string
  | AdvanceClock string u8
  | ShiftNpcAttitude string attitude_shift
  | EndTurn

datatype exploration_social_fact =
    ObjectiveAdvanced string u8 bool
  | ObjectiveFailedFact string
  | ClockAdvanced string u8 bool
  | NpcAttitudeChanged string npc_attitude
  | TurnEnded u32

definition advance_objective :: "u8 \<Rightarrow> objective_progress \<Rightarrow> objective_progress" where
  "advance_objective amount x =
     (let x = x\<lparr>ob_progress := ob_progress x + min amount (ob_target x - ob_progress x)\<rparr>
      in if ob_progress x = ob_target x then x\<lparr>ob_status := ObjectiveCompleted\<rparr> else x)"

definition apply_to_clone ::
  "exploration_social_command \<Rightarrow> exploration_social_state
    \<Rightarrow> (exploration_social_fact \<times> exploration_social_state) rules_result" where
  "apply_to_clone command s =
     (case command of
        AdvanceObjective i amount \<Rightarrow>
          and_then (require_id i (SceneFault ObjectiveCommandIdInvalid)) (\<lambda>_.
            if amount = 0 then Err (InvalidIntent (SceneFault ObjectiveAdvanceZero))
            else and_then (ok_or (find (\<lambda>x. ob_objective_id x = i) (es_objectives s))
                   (InvalidIntent (SceneFault ObjectiveMissing))) (\<lambda>x.
              if ob_status x \<noteq> ObjectiveActive
              then Err (InvalidIntent (SceneFault ObjectiveNotActive))
              else Ok (ObjectiveAdvanced i (min amount (ob_target x - ob_progress x))
                         (ob_status (advance_objective amount x) = ObjectiveCompleted),
                       s\<lparr>es_objectives := update_first (\<lambda>x. ob_objective_id x = i)
                           (advance_objective amount) (es_objectives s)\<rparr>)))
      | FailObjective i \<Rightarrow>
          and_then (require_id i (SceneFault ObjectiveCommandIdInvalid)) (\<lambda>_.
            and_then (ok_or (find (\<lambda>x. ob_objective_id x = i) (es_objectives s))
                   (InvalidIntent (SceneFault ObjectiveMissing))) (\<lambda>x.
              if ob_status x \<noteq> ObjectiveActive
              then Err (InvalidIntent (SceneFault ObjectiveNotActive))
              else Ok (ObjectiveFailedFact i,
                       s\<lparr>es_objectives := update_first (\<lambda>x. ob_objective_id x = i)
                           (\<lambda>x. x\<lparr>ob_status := ObjectiveFailed\<rparr>) (es_objectives s)\<rparr>)))
      | AdvanceClock i amount \<Rightarrow>
          and_then (require_id i (SceneFault ClockCommandIdInvalid)) (\<lambda>_.
            and_then (ok_or (find (\<lambda>x. ck_clock_id x = i) (es_clocks s))
                   (InvalidIntent (SceneFault ClockMissing))) (\<lambda>c.
              and_then (fst (clock_advance amount c)) (\<lambda>applied.
                Ok (ClockAdvanced i applied
                      (ck_filled (snd (clock_advance amount c)) = ck_segments c),
                    s\<lparr>es_clocks := update_first (\<lambda>x. ck_clock_id x = i)
                        (\<lambda>c. snd (clock_advance amount c)) (es_clocks s)\<rparr>))))
      | ShiftNpcAttitude i shift \<Rightarrow>
          and_then (require_id i (SceneFault NpcCommandIdInvalid)) (\<lambda>_.
            and_then (ok_or (find (\<lambda>x. npc_id x = i) (es_npcs s))
                   (InvalidIntent (SceneFault NpcMissing))) (\<lambda>n.
              and_then (fst (npc_apply_shift shift n)) (\<lambda>a.
                Ok (NpcAttitudeChanged i a,
                    s\<lparr>es_npcs := update_first (\<lambda>x. npc_id x = i)
                        (\<lambda>n. snd (npc_apply_shift shift n)) (es_npcs s)\<rparr>))))
      | EndTurn \<Rightarrow>
          and_then (ok_or (checked_add u32_max (es_turn s) 1) ArithmeticOverflow) (\<lambda>t.
            Ok (TurnEnded t, s\<lparr>es_turn := t\<rparr>)))"

definition apply_exploration_social_command ::
  "exploration_social_command \<Rightarrow> exploration_social_state
    \<Rightarrow> exploration_social_fact rules_result \<times> exploration_social_state" where
  "apply_exploration_social_command command s =
     (case and_then (scene_validate s) (\<lambda>_.
             and_then (apply_to_clone command s) (\<lambda>(fct, next').
               and_then (scene_validate next') (\<lambda>_. Ok (fct, next')))) of
        Err e \<Rightarrow> (Err e, s)
      | Ok (fct, next') \<Rightarrow> (Ok fct, next'))"

section \<open>The invariant of a scene\<close>

definition objective_ok :: "objective_progress \<Rightarrow> bool" where
  "objective_ok x \<longleftrightarrow>
     is_valid_opaque_id (ob_objective_id x) \<and> 0 < ob_target x \<and> ob_target x \<le> max_clock_segments \<and>
     ob_progress x \<le> ob_target x \<and> (ob_progress x = ob_target x \<longleftrightarrow> ob_status x = ObjectiveCompleted)"

definition clock_ok :: "scene_clock \<Rightarrow> bool" where
  "clock_ok c \<longleftrightarrow>
     is_valid_opaque_id (ck_clock_id c) \<and> 0 < ck_segments c \<and> ck_segments c \<le> max_clock_segments \<and>
     ck_filled c \<le> ck_segments c"

definition npc_ok :: "npc_social_state \<Rightarrow> bool" where
  "npc_ok n \<longleftrightarrow> is_valid_opaque_id (npc_id n)"

lemma objective_validate_iff [simp]: "objective_validate x = Ok u \<longleftrightarrow> objective_ok x"
  by (auto simp: objective_validate_def objective_ok_def)

lemma clock_validate_iff [simp]: "clock_validate c = Ok u \<longleftrightarrow> clock_ok c"
  by (auto simp: clock_validate_def clock_ok_def)

lemma npc_validate_iff [simp]: "npc_validate n = Ok u \<longleftrightarrow> npc_ok n"
  by (simp add: npc_validate_def npc_ok_def)

lemma scan_scene_Ok_iff:
  "scan_scene check key dup ids xs = Ok ids' \<longleftrightarrow>
     (\<forall>x\<in>set xs. check x = Ok ()) \<and> distinct (map key xs) \<and> key ` set xs \<inter> ids = {} \<and>
     ids' = ids \<union> key ` set xs"
  by (induction xs arbitrary: ids) auto

definition scene_ok :: "exploration_social_state \<Rightarrow> bool" where
  "scene_ok s \<longleftrightarrow>
     es_schema_version s = rules_matrix_schema_version \<and> 0 < es_turn s \<and>
     list_all objective_ok (es_objectives s) \<and> distinct (map ob_objective_id (es_objectives s)) \<and>
     list_all clock_ok (es_clocks s) \<and> distinct (map ck_clock_id (es_clocks s)) \<and>
     list_all npc_ok (es_npcs s) \<and> distinct (map npc_id (es_npcs s))"

lemma distinct_key:
  assumes "\<And>x y. key x = key y \<longleftrightarrow> f x = f y"
  shows "distinct (map key xs) \<longleftrightarrow> distinct (map f xs)"
  by (induction xs) (auto simp: image_iff assms)

text \<open>The prefixes keep the three kinds apart, so only equal IDs of one kind are duplicates.\<close>

lemma scene_validate_iff [simp]: "scene_validate s = Ok u \<longleftrightarrow> scene_ok s"
proof -
  have d: "distinct (map objective_key xs) \<longleftrightarrow> distinct (map ob_objective_id xs)"
    "distinct (map clock_key ys) \<longleftrightarrow> distinct (map ck_clock_id ys)"
    "distinct (map npc_key zs) \<longleftrightarrow> distinct (map npc_id zs)" for xs ys zs
    by (rule distinct_key, simp add: objective_key_def clock_key_def npc_key_def)+
  have k: "objective_key x \<noteq> clock_key y" "objective_key x \<noteq> npc_key z" "clock_key y \<noteq> npc_key z" for x y z
    by (simp_all add: objective_key_def clock_key_def npc_key_def)
  have i: "clock_key ` B \<inter> objective_key ` A = {}"
    "npc_key ` C \<inter> (objective_key ` A \<union> clock_key ` B) = {}" for A B C
    using k by (auto, metis+)
  show ?thesis
    using i by (auto simp: scene_validate_def scan_scene_Ok_iff scene_ok_def d list_all_iff)
qed

lemma scene_validate_result [simp]: "scene_ok s \<Longrightarrow> scene_validate s = Ok ()"
  by simp

lemma advance_objective_ok:
  assumes "objective_ok x" "ob_status x = ObjectiveActive"
  shows "objective_ok (advance_objective n x)" "ob_objective_id (advance_objective n x) = ob_objective_id x"
    "ob_target (advance_objective n x) = ob_target x"
    "ob_progress (advance_objective n x) = min (ob_target x) (ob_progress x + n)"
  using assms by (auto simp: advance_objective_def objective_ok_def Let_def min_def)

lemma clock_advance_Ok_iff:
  "clock_advance n c = (Ok a, c') \<longleftrightarrow>
     clock_ok c \<and> 0 < n \<and> a = min n (ck_segments c - ck_filled c) \<and>
     c' = c\<lparr>ck_filled := ck_filled c + a\<rparr>"
  by (auto simp: clock_advance_def Let_def)

lemma clock_advance_state:
  "snd (clock_advance n c) =
     (if clock_ok c \<and> 0 < n
      then c\<lparr>ck_filled := ck_filled c + min n (ck_segments c - ck_filled c)\<rparr> else c)"
  by (auto simp: clock_advance_def clock_validate_def clock_ok_def require_id_def Let_def)

lemma clock_advance_ok: "clock_ok c \<Longrightarrow> clock_ok (snd (clock_advance n c))"
  by (auto simp: clock_advance_state clock_ok_def min_def)

lemma clock_advance_id [simp]: "ck_clock_id (snd (clock_advance n c)) = ck_clock_id c"
  by (simp add: clock_advance_state)

lemma npc_shift_id [simp]: "npc_id (snd (npc_apply_shift s n)) = npc_id n"
  by (simp add: npc_apply_shift_def require_id_def Let_def)

lemma list_all_update_first:
  assumes "list_all P xs" "\<And>x. find p xs = Some x \<Longrightarrow> P (f x)"
  shows "list_all P (update_first p f xs)"
  unfolding list_all_iff
proof
  fix y assume "y \<in> set (update_first p f xs)"
  from set_update_first [OF this] assms show "P y" by (auto simp: list_all_iff)
qed

lemma update_first_map_at:
  assumes "\<And>x. find p xs = Some x \<Longrightarrow> g (f x) = g x"
  shows "map g (update_first p f xs) = map g xs"
  using assms by (induction xs) (auto split: if_splits)

text \<open>A command on a valid scene yields a valid scene: its closing \<open>validate\<close> cannot fail.\<close>

lemma apply_to_clone_ok:
  assumes "scene_ok s" "apply_to_clone c s = Ok (fct, s')"
  shows "scene_ok s'"
proof (cases c)
  case (AdvanceObjective i n)
  with assms obtain x where x: "find (\<lambda>x. ob_objective_id x = i) (es_objectives s) = Some x"
    "ob_status x = ObjectiveActive" and s': "s' = s\<lparr>es_objectives :=
      update_first (\<lambda>x. ob_objective_id x = i) (advance_objective n) (es_objectives s)\<rparr>"
    by (auto simp: apply_to_clone_def split: if_splits)
  have "objective_ok x" using assms(1) find_SomeD [OF x(1)] by (simp add: scene_ok_def list_all_iff)
  note A = advance_objective_ok [OF this x(2), of n]
  have "list_all objective_ok (update_first (\<lambda>x. ob_objective_id x = i) (advance_objective n) (es_objectives s))"
    using assms(1) A x(1) by (intro list_all_update_first) (auto simp: scene_ok_def)
  moreover have "map ob_objective_id (update_first (\<lambda>x. ob_objective_id x = i) (advance_objective n) (es_objectives s)) =
      map ob_objective_id (es_objectives s)"
    using A x(1) by (intro update_first_map_at) auto
  ultimately show ?thesis using assms(1) by (simp add: s' scene_ok_def)
next
  case (FailObjective i)
  with assms obtain x where x: "find (\<lambda>x. ob_objective_id x = i) (es_objectives s) = Some x"
    "ob_status x = ObjectiveActive" and s': "s' = s\<lparr>es_objectives :=
      update_first (\<lambda>x. ob_objective_id x = i) (\<lambda>x. x\<lparr>ob_status := ObjectiveFailed\<rparr>) (es_objectives s)\<rparr>"
    by (auto simp: apply_to_clone_def split: if_splits)
  have o: "objective_ok x" using assms(1) find_SomeD [OF x(1)] by (simp add: scene_ok_def list_all_iff)
  then have "objective_ok (x\<lparr>ob_status := ObjectiveFailed\<rparr>)"
    using x(2) by (auto simp: objective_ok_def)
  then have "list_all objective_ok (update_first (\<lambda>x. ob_objective_id x = i)
      (\<lambda>x. x\<lparr>ob_status := ObjectiveFailed\<rparr>) (es_objectives s))"
    using assms(1) x(1) by (intro list_all_update_first) (auto simp: scene_ok_def)
  moreover have "map ob_objective_id (update_first (\<lambda>x. ob_objective_id x = i)
      (\<lambda>x. x\<lparr>ob_status := ObjectiveFailed\<rparr>) (es_objectives s)) = map ob_objective_id (es_objectives s)"
    by (rule update_first_map) simp
  ultimately show ?thesis using assms(1) by (simp add: s' scene_ok_def)
next
  case (AdvanceClock i n)
  with assms have s': "s' = s\<lparr>es_clocks :=
      update_first (\<lambda>x. ck_clock_id x = i) (\<lambda>c. snd (clock_advance n c)) (es_clocks s)\<rparr>"
    by (auto simp: apply_to_clone_def)
  have "list_all clock_ok (update_first (\<lambda>x. ck_clock_id x = i) (\<lambda>c. snd (clock_advance n c)) (es_clocks s))"
    using assms(1) find_SomeD clock_advance_ok
    by (intro list_all_update_first) (fastforce simp: scene_ok_def list_all_iff)+
  moreover have "map ck_clock_id (update_first (\<lambda>x. ck_clock_id x = i) (\<lambda>c. snd (clock_advance n c)) (es_clocks s)) =
      map ck_clock_id (es_clocks s)"
    by (rule update_first_map) simp
  ultimately show ?thesis using assms(1) by (simp add: s' scene_ok_def)
next
  case (ShiftNpcAttitude i sh)
  with assms have s': "s' = s\<lparr>es_npcs :=
      update_first (\<lambda>x. npc_id x = i) (\<lambda>n. snd (npc_apply_shift sh n)) (es_npcs s)\<rparr>"
    by (auto simp: apply_to_clone_def)
  have "list_all npc_ok (update_first (\<lambda>x. npc_id x = i) (\<lambda>n. snd (npc_apply_shift sh n)) (es_npcs s))"
    using assms(1) find_SomeD
    by (intro list_all_update_first) (fastforce simp: scene_ok_def list_all_iff npc_ok_def)+
  moreover have "map npc_id (update_first (\<lambda>x. npc_id x = i) (\<lambda>n. snd (npc_apply_shift sh n)) (es_npcs s)) =
      map npc_id (es_npcs s)"
    by (rule update_first_map) simp
  ultimately show ?thesis using assms(1) by (simp add: s' scene_ok_def)
next
  case EndTurn
  with assms show ?thesis by (auto simp: apply_to_clone_def scene_ok_def)
qed

lemma apply_command_eq:
  assumes "scene_ok s"
  shows "apply_exploration_social_command c s =
    (case apply_to_clone c s of Err e \<Rightarrow> (Err e, s) | Ok (fct, s') \<Rightarrow> (Ok fct, s'))"
  using assms apply_to_clone_ok [OF assms, of c]
  by (auto simp: apply_exploration_social_command_def split: result.splits prod.splits)

interpretation scene: transactional scene_ok apply_exploration_social_command
proof unfold_locales
  fix s s' c fct
  show "scene_ok s \<Longrightarrow> apply_exploration_social_command c s = (Ok fct, s') \<Longrightarrow> scene_ok s'"
    by (auto simp: apply_command_eq dest: apply_to_clone_ok split: result.splits prod.splits)
next
  fix s s' c e
  show "apply_exploration_social_command c s = (Err e, s') \<Longrightarrow> s' = s"
    by (auto simp: apply_exploration_social_command_def split: result.splits prod.splits)
qed

text \<open>Objectives only ever move forward, and a settled one stays as it is.\<close>

definition objective_le :: "objective_progress \<Rightarrow> objective_progress \<Rightarrow> bool" where
  "objective_le x y \<longleftrightarrow>
     ob_objective_id y = ob_objective_id x \<and> ob_target y = ob_target x \<and>
     ob_progress x \<le> ob_progress y \<and> (ob_status x \<noteq> ObjectiveActive \<longrightarrow> y = x)"

definition clock_le :: "scene_clock \<Rightarrow> scene_clock \<Rightarrow> bool" where
  "clock_le c d \<longleftrightarrow> ck_clock_id d = ck_clock_id c \<and> ck_segments d = ck_segments c \<and> ck_filled c \<le> ck_filled d"

lemma objective_le_refl [simp]: "objective_le x x"
  by (simp add: objective_le_def)

lemma objective_le_trans: "objective_le x y \<Longrightarrow> objective_le y z \<Longrightarrow> objective_le x z"
  by (cases "ob_status x = ObjectiveActive") (auto simp: objective_le_def)

lemma clock_le_refl [simp]: "clock_le x x"
  by (simp add: clock_le_def)

lemma clock_le_trans: "clock_le x y \<Longrightarrow> clock_le y z \<Longrightarrow> clock_le x z"
  by (auto simp: clock_le_def)

lemma list_all2_update_first:
  assumes "\<And>x. R x x" "\<And>x. find p xs = Some x \<Longrightarrow> R x (f x)"
  shows "list_all2 R xs (update_first p f xs)"
  using assms(2) by (induction xs) (auto simp: assms(1) list_all2_same split: if_splits)

lemma clock_advance_le: "clock_le c (snd (clock_advance n c))"
  by (simp add: clock_advance_state clock_le_def)

lemma command_forward:
  assumes "scene_ok s"
  shows "list_all2 objective_le (es_objectives s)
      (es_objectives (snd (apply_exploration_social_command c s)))"
    "list_all2 clock_le (es_clocks s) (es_clocks (snd (apply_exploration_social_command c s)))"
proof -
  have "list_all2 objective_le (es_objectives s) (es_objectives s') \<and>
      list_all2 clock_le (es_clocks s) (es_clocks s')"
    if a: "apply_to_clone c s = Ok (fct, s')" for fct s'
  proof (cases c)
    case (AdvanceObjective i n)
    with a obtain x where x: "find (\<lambda>x. ob_objective_id x = i) (es_objectives s) = Some x"
      "ob_status x = ObjectiveActive" and s': "s' = s\<lparr>es_objectives :=
        update_first (\<lambda>x. ob_objective_id x = i) (advance_objective n) (es_objectives s)\<rparr>"
      by (auto simp: apply_to_clone_def split: if_splits)
    have "objective_ok x" using assms find_SomeD [OF x(1)] by (simp add: scene_ok_def list_all_iff)
    from advance_objective_ok [OF this x(2), of n] this x(2) have "objective_le x (advance_objective n x)"
      by (simp add: objective_le_def objective_ok_def)
    with x(1) s' show ?thesis by (auto simp: list_all2_same intro!: list_all2_update_first)
  next
    case (FailObjective i)
    with a obtain x where x: "find (\<lambda>x. ob_objective_id x = i) (es_objectives s) = Some x"
      "ob_status x = ObjectiveActive" and s': "s' = s\<lparr>es_objectives :=
        update_first (\<lambda>x. ob_objective_id x = i) (\<lambda>x. x\<lparr>ob_status := ObjectiveFailed\<rparr>) (es_objectives s)\<rparr>"
      by (auto simp: apply_to_clone_def split: if_splits)
    have "objective_le x (x\<lparr>ob_status := ObjectiveFailed\<rparr>)" using x(2) by (simp add: objective_le_def)
    with x(1) s' show ?thesis by (auto simp: list_all2_same intro!: list_all2_update_first)
  next
    case (AdvanceClock i n)
    with a have "s' = s\<lparr>es_clocks :=
        update_first (\<lambda>x. ck_clock_id x = i) (\<lambda>c. snd (clock_advance n c)) (es_clocks s)\<rparr>"
      by (auto simp: apply_to_clone_def)
    then show ?thesis
      by (auto simp: list_all2_same clock_advance_le intro!: list_all2_update_first)
  next
    case (ShiftNpcAttitude i sh)
    with a show ?thesis by (auto simp: apply_to_clone_def list_all2_same)
  next
    case EndTurn
    with a show ?thesis by (auto simp: apply_to_clone_def list_all2_same)
  qed
  then show "list_all2 objective_le (es_objectives s)
      (es_objectives (snd (apply_exploration_social_command c s)))"
    "list_all2 clock_le (es_clocks s) (es_clocks (snd (apply_exploration_social_command c s)))"
    by (auto simp: apply_command_eq [OF assms] list_all2_same split: result.splits prod.splits)
qed

lemma run_forward:
  "scene_ok s \<Longrightarrow>
     list_all2 objective_le (es_objectives s)
       (es_objectives (run_steps apply_exploration_social_command cs s)) \<and>
     list_all2 clock_le (es_clocks s)
       (es_clocks (run_steps apply_exploration_social_command cs s))"
proof (induction cs arbitrary: s)
  case Nil
  show ?case by (simp add: list_all2_same)
next
  case (Cons c cs)
  let ?s1 = "snd (apply_exploration_social_command c s)"
  have "scene_ok ?s1" using Cons.prems by (rule scene.step_keeps)
  from Cons.IH [OF this] command_forward [OF Cons.prems, of c] show ?case
    by (auto intro: list_all2_trans [OF objective_le_trans] list_all2_trans [OF clock_le_trans])
qed

section \<open>Properties\<close>

text \<open>C29: A scene only moves forward: under any sequence of commands, accepted or refused, it stays
  valid, no objective or clock appears, disappears or changes its target, progress and filled segments
  never shrink or pass their bound, and an objective that is completed or failed never changes again.\<close>

theorem scene_moves_forward:
  assumes "scene_validate s = Ok ()"
  shows "scene_validate (run_steps apply_exploration_social_command cs s) = Ok () \<and>
    list_all2 objective_le (es_objectives s)
      (es_objectives (run_steps apply_exploration_social_command cs s)) \<and>
    list_all2 clock_le (es_clocks s)
      (es_clocks (run_steps apply_exploration_social_command cs s))"
  using assms scene.run_valid [of s cs] run_forward [of s cs] by simp

definition bridge_scene :: exploration_social_state where
  "bridge_scene =
     \<lparr>es_schema_version = rules_matrix_schema_version, es_turn = 1,
      es_objectives = [\<lparr>ob_objective_id = ''cross'', ob_progress = 0, ob_target = 2,
        ob_status = ObjectiveActive\<rparr>],
      es_clocks = [\<lparr>ck_clock_id = ''flood'', ck_kind = ThreatClock, ck_filled = 0, ck_segments = 4\<rparr>],
      es_npcs = [\<lparr>npc_id = ''ferryman'', npc_attitude = Indifferent\<rparr>]\<rparr>"

theorem scene_moves_forward_witness:
  "scene_validate (run_steps apply_exploration_social_command
     [AdvanceObjective ''cross'' 5, FailObjective ''cross'', AdvanceClock ''flood'' 9, EndTurn]
     bridge_scene) = Ok () \<and>
   map ob_status (es_objectives (run_steps apply_exploration_social_command
     [AdvanceObjective ''cross'' 5, FailObjective ''cross'', AdvanceClock ''flood'' 9] bridge_scene))
     = [ObjectiveCompleted]"
proof
  have "scene_validate bridge_scene = Ok ()" by code_simp
  from scene_moves_forward [OF this, of "[AdvanceObjective ''cross'' 5, FailObjective ''cross'',
      AdvanceClock ''flood'' 9, EndTurn]"]
  show "scene_validate (run_steps apply_exploration_social_command
     [AdvanceObjective ''cross'' 5, FailObjective ''cross'', AdvanceClock ''flood'' 9, EndTurn]
     bridge_scene) = Ok ()" by blast
qed code_simp

end
