(* ===== verification/Spells.thy ===== *)
theory Spells
  imports Attack Resources "HOL-Library.Product_Lexorder"
begin

text \<open>
  The supported spells of \<open>rules_matrix.rs\<close>: what a caster knows and prepares, the intents and
  their limits, the mage hand that outlives its casting, and the resolution of a spell with the
  slot and the action it spends.
\<close>

section \<open>Casters and components\<close>

record spellcasting_state =
  sp_schema_version :: u16
  sp_caster_id :: string
  sp_spell_attack_bonus :: i8
  sp_spell_save_dc :: u8
  sp_cantrips :: "spell_id list"
  sp_prepared :: "spell_id list"

record spell_component_access =
  sca_verbal_available :: bool
  sca_somatic_available :: bool
  sca_material_focus_available :: bool

definition components_validate_for :: "spell_component_access \<Rightarrow> spell_id \<Rightarrow> unit rules_result" where
  "components_validate_for c spell =
     (let needs_somatic = (spell \<noteq> Light);
          needs_material = (spell = Light \<or> spell = Sleep)
      in if \<not> sca_verbal_available c \<or> (needs_somatic \<and> \<not> sca_somatic_available c)
            \<or> (needs_material \<and> \<not> sca_material_focus_available c)
         then Err (InvalidIntent (SpellFault ComponentUnavailable)) else Ok ())"

definition spellcasting_validate :: "spellcasting_state \<Rightarrow> unit rules_result" where
  "spellcasting_validate s =
     (if sp_schema_version s \<noteq> rules_matrix_schema_version
      then Err (InvalidState (SpellFault SpellcastingSchema))
      else and_then (require_id (sp_caster_id s) (SpellFault CasterInvalid)) (\<lambda>_.
        if \<not> (-3 \<le> sp_spell_attack_bonus s \<and> sp_spell_attack_bonus s \<le> 12)
          \<or> \<not> (5 \<le> sp_spell_save_dc s \<and> sp_spell_save_dc s \<le> 30)
          \<or> sp_cantrips s \<noteq> spell_cantrips \<or> sp_prepared s = []
          \<or> length (sp_prepared s) > length spell_level_one
          \<or> \<not> strictly_sorted (sp_prepared s)
          \<or> list_ex (\<lambda>x. x \<notin> set spell_level_one) (sp_prepared s)
        then Err (InvalidState (SpellFault SpellcastingShape)) else Ok ()))"

definition spellcasting_from_derived_sheet ::
  "string \<Rightarrow> derived_hero_sheet \<Rightarrow> spellcasting_state rules_result" where
  "spellcasting_from_derived_sheet caster_id sheet =
     and_then (ok_or (sh_spellcasting sheet) (unsupported_error ''feature.wizard-spellcasting''))
       (\<lambda>x. let s = \<lparr>sp_schema_version = rules_matrix_schema_version, sp_caster_id = caster_id,
                     sp_spell_attack_bonus = ss_spell_attack_bonus x,
                     sp_spell_save_dc = ss_spell_save_dc x, sp_cantrips = ss_cantrips x,
                     sp_prepared = ss_prepared x\<rparr>
            in and_then (spellcasting_validate s) (\<lambda>_. Ok s))"

definition can_cast :: "spellcasting_state \<Rightarrow> spell_id \<Rightarrow> bool" where
  "can_cast s spell =
     (if spell_level spell = 0 then spell \<in> set (sp_cantrips s) else spell \<in> set (sp_prepared s))"

section \<open>Mage hand\<close>

datatype mage_hand_operation =
    ManipulateObject | OpenUnlockedDoorOrContainer | StowObject | RetrieveObject | PourContents

record mage_hand_state =
  mh_schema_version :: u16
  mh_hand_id :: string
  mh_caster_id :: string
  mh_distance_from_caster_feet :: u16
  mh_remaining_rounds :: u16

definition mage_hand_validate :: "mage_hand_state \<Rightarrow> unit rules_result" where
  "mage_hand_validate h =
     (if mh_schema_version h \<noteq> rules_matrix_schema_version \<or> mh_distance_from_caster_feet h > 30
        \<or> \<not> 5 dvd mh_distance_from_caster_feet h
        \<or> \<not> (1 \<le> mh_remaining_rounds h \<and> mh_remaining_rounds h \<le> 10)
      then Err (InvalidState (SpellFault MageHandShape))
      else and_then (require_id (mh_hand_id h) (SpellFault MageHandIdInvalid)) (\<lambda>_.
           require_id (mh_caster_id h) (SpellFault MageHandCasterInvalid)))"

record mage_hand_control_target =
  mt_object_id :: string
  mt_hand_movement_feet :: u16
  mt_resulting_distance_feet :: u16
  mt_object_weight_pounds :: u8
  mt_is_magic_item :: bool
  mt_operation :: mage_hand_operation

datatype mage_hand_action_intent = ControlHand mage_hand_control_target | DismissHand

record mage_hand_controlled =
  mhc_hand_id :: string
  mhc_object_id :: string
  mhc_operation :: mage_hand_operation
  mhc_previous_distance_feet :: u16
  mhc_hand_movement_feet :: u16
  mhc_resulting_distance_feet :: u16

datatype mage_hand_action_effect = HandControlled mage_hand_controlled | HandDismissed string

record mage_hand_action_resolution =
  mha_effect :: mage_hand_action_effect
  mha_resulting_hand :: "mage_hand_state option"
  mha_resulting_action_economy :: action_economy

definition resolve_mage_hand_action ::
  "condition_set \<Rightarrow> mage_hand_action_intent \<Rightarrow> mage_hand_state option \<times> action_economy
    \<Rightarrow> mage_hand_action_resolution rules_result \<times> mage_hand_state option \<times> action_economy" where
  "resolve_mage_hand_action conditions intent st =
     (let (hand, eco) = st in
      case and_then (ok_or hand (InvalidIntent (SpellFault NoMageHand))) (\<lambda>current.
           and_then (mage_hand_validate current) (\<lambda>_.
           and_then (condition_set_validate conditions) (\<lambda>_.
           and_then (condition_effects_of conditions AbilityCheckSituation) (\<lambda>effects.
             if ce_actions_blocked effects then Err (InvalidIntent (SpellFault MageHandBlocked))
             else and_then (lift_core (fst (economy_spend Action eco))) (\<lambda>_.
               case intent of
                 ControlHand t \<Rightarrow>
                   and_then (require_id (mt_object_id t) (SpellFault MageHandObjectInvalid)) (\<lambda>_.
                     if mt_hand_movement_feet t > 30 \<or> \<not> 5 dvd mt_hand_movement_feet t
                       \<or> mt_resulting_distance_feet t > 30 \<or> \<not> 5 dvd mt_resulting_distance_feet t
                       \<or> mt_object_weight_pounds t > 10 \<or> mt_is_magic_item t
                       \<or> mt_hand_movement_feet t <
                          abs_diff (mh_distance_from_caster_feet current) (mt_resulting_distance_feet t)
                     then Err (InvalidIntent (SpellFault MageHandLimits))
                     else let moved = current\<lparr>mh_distance_from_caster_feet := mt_resulting_distance_feet t\<rparr>
                       in and_then (mage_hand_validate moved) (\<lambda>_.
                         Ok (HandControlled
                               \<lparr>mhc_hand_id = mh_hand_id moved, mhc_object_id = mt_object_id t,
                                mhc_operation = mt_operation t,
                                mhc_previous_distance_feet = mh_distance_from_caster_feet current,
                                mhc_hand_movement_feet = mt_hand_movement_feet t,
                                mhc_resulting_distance_feet = mt_resulting_distance_feet t\<rparr>,
                             Some moved)))
               | DismissHand \<Rightarrow> Ok (HandDismissed (mh_hand_id current), None)))))) of
        Err e \<Rightarrow> (Err e, st)
      | Ok (effect, hand') \<Rightarrow>
          (let eco' = snd (economy_spend Action eco)
           in (Ok \<lparr>mha_effect = effect, mha_resulting_hand = hand', mha_resulting_action_economy = eco'\<rparr>,
               hand', eco')))"

definition advance_mage_hand_duration ::
  "mage_hand_state option \<Rightarrow> bool rules_result \<times> mage_hand_state option" where
  "advance_mage_hand_duration hand =
     and_then_st
       (and_then (ok_or hand (InvalidIntent (SpellFault NoMageHand))) (\<lambda>h.
          and_then (mage_hand_validate h) (\<lambda>_. Ok h)), hand)
       (\<lambda>h hand.
         if mh_remaining_rounds h = 1 then (Ok True, None)
         else let h' = h\<lparr>mh_remaining_rounds := mh_remaining_rounds h - 1\<rparr>
              in and_then_st (mage_hand_validate h', hand) (\<lambda>_ _. (Ok False, Some h')))"

definition reconcile_mage_hand_distance ::
  "u16 \<Rightarrow> mage_hand_state option \<Rightarrow> bool rules_result \<times> mage_hand_state option" where
  "reconcile_mage_hand_distance distance hand =
     and_then_st
       (and_then (ok_or hand (InvalidIntent (SpellFault NoMageHand))) (\<lambda>h.
          and_then (mage_hand_validate h) (\<lambda>_.
            if \<not> 5 dvd distance then Err (InvalidIntent (SpellFault MageHandIncrement)) else Ok h)), hand)
       (\<lambda>h hand.
         if distance > 30 then (Ok True, None)
         else let h' = h\<lparr>mh_distance_from_caster_feet := distance\<rparr>
              in and_then_st (mage_hand_validate h', hand) (\<lambda>_ _. (Ok False, Some h')))"

section \<open>Intents\<close>

datatype fire_bolt_target_kind = CreatureTarget | UnattendedFlammableObject

record fire_bolt_target =
  fb_target_id :: string
  fb_distance_feet :: u16
  fb_visible :: bool
  fb_armor_class :: u8
  fb_cover :: cover
  fb_threatened :: bool
  fb_damage_profile :: damage_profile
  fb_target_kind :: fire_bolt_target_kind
  fb_conditions :: condition_set

record light_carrier_save =
  lc_carrier_id :: string
  lc_dexterity_save_modifier :: i8
  lc_roll_context :: roll_context

record light_target =
  lt_object_id :: string
  lt_distance_feet :: u16
  lt_object_maximum_dimension_feet :: u8
  lt_hostile_carrier :: "light_carrier_save option"

record mage_hand_target =
  mg_hand_id :: string
  mg_distance_feet :: u16

record magic_missile_target =
  mm_target_id :: string
  mm_distance_feet :: u16
  mm_visible :: bool
  mm_shielded :: bool
  mm_damage_profile :: damage_profile

datatype shield_trigger = AttackHit u8 i16 u8 | MagicMissileTrigger

record sleep_candidate =
  sl_target_id :: string
  sl_distance_from_point_feet :: u16
  sl_current_hit_points :: u16
  sl_already_unconscious :: bool
  sl_immune_to_magical_sleep :: bool

datatype supported_spell_intent =
    CastFireBolt fire_bolt_target roll_context
  | CastLight light_target
  | CastMageHand mage_hand_target
  | CastMagicMissile magic_missile_target magic_missile_target magic_missile_target
  | CastShield shield_trigger
  | CastSleep u16 "sleep_candidate list"

fun intent_spell :: "supported_spell_intent \<Rightarrow> spell_id" where
  "intent_spell (CastFireBolt _ _) = FireBolt"
| "intent_spell (CastLight _) = Light"
| "intent_spell (CastMageHand _) = MageHand"
| "intent_spell (CastMagicMissile _ _ _) = MagicMissile"
| "intent_spell (CastShield _) = ShieldSpell"
| "intent_spell (CastSleep _ _) = Sleep"

definition dart_validate :: "magic_missile_target \<Rightarrow> unit rules_result" where
  "dart_validate t =
     and_then (require_id (mm_target_id t) (SpellFault MissileTargetInvalid)) (\<lambda>_.
     and_then (profile_validate (mm_damage_profile t)) (\<lambda>_.
       if \<not> mm_visible t \<or> mm_distance_feet t > 120 \<or> \<not> 5 dvd mm_distance_feet t
       then Err (InvalidIntent (SpellFault MissileTargetShape)) else Ok ()))"

fun scan_candidates :: "string set \<Rightarrow> sleep_candidate list \<Rightarrow> unit rules_result" where
  "scan_candidates ids [] = Ok ()"
| "scan_candidates ids (c # cs) =
     and_then (require_id (sl_target_id c) (SpellFault SleepTargetInvalid)) (\<lambda>_.
       if sl_target_id c \<in> ids \<or> sl_distance_from_point_feet c > 20
         \<or> \<not> 5 dvd sl_distance_from_point_feet c \<or> sl_current_hit_points c = 0
       then Err (InvalidIntent (SpellFault SleepCandidateShape))
       else scan_candidates (insert (sl_target_id c) ids) cs)"

fun intent_validate :: "supported_spell_intent \<Rightarrow> unit rules_result" where
  "intent_validate (CastFireBolt t _) =
     and_then (require_id (fb_target_id t) (SpellFault FireBoltTargetInvalid)) (\<lambda>_.
     and_then (profile_validate (fb_damage_profile t)) (\<lambda>_.
     and_then (condition_set_validate (fb_conditions t)) (\<lambda>_.
       if \<not> fb_visible t \<or> fb_distance_feet t > 120 \<or> \<not> 5 dvd fb_distance_feet t
         \<or> fb_armor_class t = 0
       then Err (InvalidIntent (SpellFault FireBoltTargetShape)) else Ok ())))"
| "intent_validate (CastLight t) =
     and_then (require_id (lt_object_id t) (SpellFault LightObjectInvalid)) (\<lambda>_.
       if lt_distance_feet t > 5 \<or> \<not> 5 dvd lt_distance_feet t
         \<or> lt_object_maximum_dimension_feet t = 0 \<or> lt_object_maximum_dimension_feet t > 10
       then Err (InvalidIntent (SpellFault LightObjectShape))
       else case lt_hostile_carrier t of
         None \<Rightarrow> Ok ()
       | Some c \<Rightarrow>
           and_then (require_id (lc_carrier_id c) (SpellFault LightCarrierInvalid)) (\<lambda>_.
             if \<not> (-5 \<le> lc_dexterity_save_modifier c \<and> lc_dexterity_save_modifier c \<le> 15)
             then Err (InvalidIntent (SpellFault LightCarrierModifier)) else Ok ()))"
| "intent_validate (CastMageHand t) =
     and_then (require_id (mg_hand_id t) (SpellFault MageHandTargetInvalid)) (\<lambda>_.
       if mg_distance_feet t > 30 \<or> \<not> 5 dvd mg_distance_feet t
       then Err (InvalidIntent (SpellFault MageHandOutOfRange)) else Ok ())"
| "intent_validate (CastMagicMissile a b c) = check_each dart_validate [a, b, c]"
| "intent_validate (CastShield trigger) =
     (case trigger of
        MagicMissileTrigger \<Rightarrow> Ok ()
      | AttackHit natural attack_total ac \<Rightarrow>
          if \<not> (1 \<le> ac \<and> ac \<le> 30) \<or> \<not> (1 \<le> natural \<and> natural \<le> 20) \<or> natural = 1
            \<or> (natural \<noteq> 20 \<and> attack_total < int ac)
          then Err (InvalidIntent (SpellFault ShieldNotAHit)) else Ok ())"
| "intent_validate (CastSleep center candidates) =
     (if center > 90 \<or> \<not> 5 dvd center \<or> length candidates > 32
      then Err (InvalidIntent (SpellFault SleepShape)) else scan_candidates {} candidates)"

section \<open>Effects\<close>

record spell_attack_resolution =
  sar_roll :: d20_roll
  sar_spell_attack_bonus :: i8
  sar_total :: i16
  sar_target_armor_class :: u8
  sar_outcome :: d20_test_outcome

record direct_save_resolution =
  dsv_roll :: d20_roll
  dsv_modifier :: i8
  dsv_total :: i16
  dsv_difficulty_class :: u8
  dsv_success :: bool

record spell_damage =
  sd_target_id :: string
  sd_damage_type :: damage_type
  sd_rolled_damage :: u16
  sd_interaction :: damage_interaction
  sd_effective_damage :: u16

record illumination =
  il_caster_id :: string
  il_object_id :: string
  il_bright_light_feet :: u16
  il_dim_light_feet :: u16
  il_duration_rounds :: u16

record shield_ward =
  sw_armor_class_bonus :: u8
  sw_negates_triggering_attack :: bool
  sw_immune_to_magic_missile :: bool
  sw_until_start_of_caster_turn :: bool

datatype spell_effect =
    DamageEffect spell_damage
  | IgniteUnattendedFlammableObject string
  | IlluminateObject illumination
  | CreateMageHand mage_hand_state
  | MagicMissileNegated string
  | ShieldWard shield_ward
  | ApplyCondition string active_condition

text \<open>The five local variables that the \<open>match\<close> on the intent fills.\<close>

record spell_outcome =
  so_attack :: "spell_attack_resolution option"
  so_saving_throw :: "direct_save_resolution option"
  so_damage_rolls :: "damage_dice_resolution list"
  so_sleep_hit_point_pool :: "u16 option"
  so_effects :: "spell_effect list"

definition no_outcome :: spell_outcome where
  "no_outcome =
     \<lparr>so_attack = None, so_saving_throw = None, so_damage_rolls = [],
      so_sleep_hit_point_pool = None, so_effects = []\<rparr>"

record spell_cast_resolution =
  scr_schema_version :: u16
  scr_spell :: spell_id
  scr_outcome :: spell_outcome
  scr_resulting_resources :: runtime_resources
  scr_resulting_action_economy :: action_economy

definition damage_effect ::
  "string \<Rightarrow> damage_type \<Rightarrow> damage_profile \<Rightarrow> damage_dice_resolution \<Rightarrow> spell_effect rules_result" where
  "damage_effect target_id kind profile damage =
     and_then (profile_interaction profile kind) (\<lambda>i.
     and_then (interacted_damage (ddr_total damage) i) (\<lambda>e.
       Ok (DamageEffect \<lparr>sd_target_id = target_id, sd_damage_type = kind,
             sd_rolled_damage = ddr_total damage, sd_interaction = i, sd_effective_damage = e\<rparr>)))"

definition cast_fire_bolt ::
  "spellcasting_state \<Rightarrow> condition_effects \<Rightarrow> fire_bolt_target \<Rightarrow> roll_context \<Rightarrow> 's dice \<Rightarrow> 's
    \<Rightarrow> spell_outcome rules_result \<times> 's" where
  "cast_fire_bolt sc caster_effects t context roll d =
     and_then_st (condition_effects_of (fb_conditions t) (IncomingAttack (fb_distance_feet t)), d)
       (\<lambda>target_effects d.
     and_then_st (apfst lift_core (resolve_d20 roll
         (combine_roll_context
           (combine_roll_context context
             \<lparr>advantage_sources = 0, disadvantage_sources = of_bool (fb_threatened t)\<rparr>)
           (combine_roll_context (ce_roll_context caster_effects) (ce_roll_context target_effects))) d))
       (\<lambda>r d.
     and_then_st (ok_or (checked_add u8_max (fb_armor_class t) (cover_ac_bonus (fb_cover t)))
                    ArithmeticOverflow, d) (\<lambda>ac d.
       let tot = int (d20_selected r) + sp_spell_attack_bonus sc;
           outcome = (if d20_selected r = 20 then TestCriticalHit
                      else if d20_selected r = 1 then TestAutomaticMiss
                      else if int ac \<le> tot then TestSuccess else TestFailure);
           attack = \<lparr>sar_roll = r, sar_spell_attack_bonus = sp_spell_attack_bonus sc,
                     sar_total = tot, sar_target_armor_class = ac, sar_outcome = outcome\<rparr>
       in if outcome_succeeds outcome
          then and_then_st
            (resolve_damage_dice 1 10 0
              (outcome = TestCriticalHit \<or> ce_incoming_hit_is_critical target_effects) roll d)
            (\<lambda>damage d.
              (and_then (damage_effect (fb_target_id t) Fire (fb_damage_profile t) damage) (\<lambda>e.
                 Ok (no_outcome\<lparr>so_attack := Some attack, so_damage_rolls := [damage],
                       so_effects :=
                         e # (if fb_target_kind t = UnattendedFlammableObject
                              then [IgniteUnattendedFlammableObject (fb_target_id t)] else [])\<rparr>)), d))
          else (Ok (no_outcome\<lparr>so_attack := Some attack\<rparr>), d))))"

definition cast_light ::
  "spellcasting_state \<Rightarrow> light_target \<Rightarrow> 's dice \<Rightarrow> 's \<Rightarrow> spell_outcome rules_result \<times> 's" where
  "cast_light sc t roll d =
     (let lit = [IlluminateObject \<lparr>il_caster_id = sp_caster_id sc, il_object_id = lt_object_id t,
                   il_bright_light_feet = 20, il_dim_light_feet = 20, il_duration_rounds = 600\<rparr>]
      in case lt_hostile_carrier t of
        None \<Rightarrow> (Ok (no_outcome\<lparr>so_effects := lit\<rparr>), d)
      | Some c \<Rightarrow>
          and_then_st (apfst lift_core (resolve_d20 roll (lc_roll_context c) d)) (\<lambda>r d.
            let tot = int (d20_selected r) + lc_dexterity_save_modifier c;
                success = (int (sp_spell_save_dc sc) \<le> tot);
                save = \<lparr>dsv_roll = r, dsv_modifier = lc_dexterity_save_modifier c, dsv_total = tot,
                        dsv_difficulty_class = sp_spell_save_dc sc, dsv_success = success\<rparr>
            in (Ok (no_outcome\<lparr>so_saving_throw := Some save,
                      so_effects := (if success then [] else lit)\<rparr>), d)))"

fun cast_darts ::
  "magic_missile_target list \<Rightarrow> 's dice \<Rightarrow> 's
    \<Rightarrow> (damage_dice_resolution list \<times> spell_effect list) rules_result \<times> 's" where
  "cast_darts [] roll d = (Ok ([], []), d)"
| "cast_darts (t # ts) roll d =
     and_then_st (resolve_damage_dice 1 4 1 False roll d) (\<lambda>damage d.
     and_then_st
       ((if mm_shielded t then Ok (MagicMissileNegated (mm_target_id t))
         else damage_effect (mm_target_id t) Force (mm_damage_profile t) damage), d) (\<lambda>e d.
     and_then_st (cast_darts ts roll d) (\<lambda>(rolls, effects) d.
       (Ok (damage # rolls, e # effects), d))))"

definition shield_negates :: "shield_trigger \<Rightarrow> bool" where
  "shield_negates trigger =
     (case trigger of
        AttackHit natural attack_total ac \<Rightarrow>
          natural \<noteq> 20 \<and> attack_total < int (saturating_add u8_max ac 5)
      | MagicMissileTrigger \<Rightarrow> True)"

definition sleep_unconscious :: "string \<Rightarrow> string \<Rightarrow> active_condition" where
  "sleep_unconscious caster target =
     \<lparr>ac_condition = Unconscious, ac_source = SpellSource Sleep caster,
      ac_duration = UntilDamagedOrAwakened 10 target\<rparr>"

definition sleep_prone :: "string \<Rightarrow> active_condition" where
  "sleep_prone caster =
     \<lparr>ac_condition = Prone, ac_source = SpellSource Sleep caster, ac_duration = Permanent\<rparr>"

text \<open>The candidates that fall asleep, in order, until one has more hit points than remain.\<close>

fun sleep_affected :: "u16 \<Rightarrow> sleep_candidate list \<Rightarrow> sleep_candidate list" where
  "sleep_affected remaining [] = []"
| "sleep_affected remaining (c # cs) =
     (if sl_current_hit_points c > remaining then []
      else c # sleep_affected (remaining - sl_current_hit_points c) cs)"

definition sleep_eligible :: "sleep_candidate \<Rightarrow> bool" where
  "sleep_eligible c \<longleftrightarrow> \<not> sl_already_unconscious c \<and> \<not> sl_immune_to_magical_sleep c"

definition sleep_order :: "sleep_candidate list \<Rightarrow> sleep_candidate list" where
  "sleep_order cs =
     sort_key (\<lambda>c. (sl_current_hit_points c, sl_target_id c)) (filter sleep_eligible cs)"

definition cast_sleep ::
  "spellcasting_state \<Rightarrow> sleep_candidate list \<Rightarrow> 's dice \<Rightarrow> 's \<Rightarrow> spell_outcome rules_result \<times> 's" where
  "cast_sleep sc candidates roll d =
     and_then_st (resolve_damage_dice 5 8 0 False roll d) (\<lambda>pool d.
       (Ok (no_outcome
         \<lparr>so_damage_rolls := [pool], so_sleep_hit_point_pool := Some (ddr_total pool),
          so_effects := concat (map (\<lambda>c.
            [ApplyCondition (sl_target_id c) (sleep_unconscious (sp_caster_id sc) (sl_target_id c)),
             ApplyCondition (sl_target_id c) (sleep_prone (sp_caster_id sc))])
            (sleep_affected (ddr_total pool) (sleep_order candidates)))\<rparr>), d))"

fun cast_effects ::
  "spellcasting_state \<Rightarrow> condition_effects \<Rightarrow> supported_spell_intent \<Rightarrow> 's dice \<Rightarrow> 's
    \<Rightarrow> spell_outcome rules_result \<times> 's" where
  "cast_effects sc effects (CastFireBolt t context) roll d = cast_fire_bolt sc effects t context roll d"
| "cast_effects sc effects (CastLight t) roll d = cast_light sc t roll d"
| "cast_effects sc effects (CastMageHand t) roll d =
     (Ok (no_outcome\<lparr>so_effects := [CreateMageHand
        \<lparr>mh_schema_version = rules_matrix_schema_version, mh_hand_id = mg_hand_id t,
         mh_caster_id = sp_caster_id sc, mh_distance_from_caster_feet = mg_distance_feet t,
         mh_remaining_rounds = 10\<rparr>]\<rparr>), d)"
| "cast_effects sc effects (CastMagicMissile a b c) roll d =
     and_then_st (cast_darts [a, b, c] roll d) (\<lambda>(rolls, es) d.
       (Ok (no_outcome\<lparr>so_damage_rolls := rolls, so_effects := es\<rparr>), d))"
| "cast_effects sc effects (CastShield trigger) roll d =
     (Ok (no_outcome\<lparr>so_effects := [ShieldWard
        \<lparr>sw_armor_class_bonus = 5, sw_negates_triggering_attack = shield_negates trigger,
         sw_immune_to_magic_missile = True, sw_until_start_of_caster_turn = True\<rparr>]\<rparr>), d)"
| "cast_effects sc effects (CastSleep _ candidates) roll d = cast_sleep sc candidates roll d"

section \<open>Casting\<close>

type_synonym caster_state = "runtime_resources \<times> action_economy"

definition spell_resource :: "spell_id \<Rightarrow> turn_resource" where
  "spell_resource spell = (if spell = ShieldSpell then Reaction else Action)"

definition spend_spell_action_and_slot ::
  "spell_id \<Rightarrow> caster_state \<Rightarrow> unit rules_result \<times> caster_state" where
  "spend_spell_action_and_slot spell st =
     (let (res, eco) = st in
      case economy_spend (spell_resource spell) eco of
        (Err e, eco') \<Rightarrow> (Err (CoreError e), res, eco')
      | (Ok _, eco') \<Rightarrow>
          if spell_level spell = 1
          then (case spend_spell_slot res of (x, res') \<Rightarrow> (x, res', eco'))
          else (Ok (), res, eco'))"

text \<open>Everything up to the dice, on clones of the resources and the economy.\<close>

definition prepare_spell ::
  "spellcasting_state \<Rightarrow> condition_set \<Rightarrow> spell_component_access \<Rightarrow> supported_spell_intent
    \<Rightarrow> caster_state \<Rightarrow> (condition_effects \<times> caster_state) rules_result" where
  "prepare_spell sc conditions components intent st =
     (let (res, eco) = st; spell = intent_spell intent in
      and_then (spellcasting_validate sc) (\<lambda>_. and_then (resources_validate res) (\<lambda>_.
      and_then (condition_set_validate conditions) (\<lambda>_. and_then (intent_validate intent) (\<lambda>_.
      if rs_class res \<noteq> Wizard then Err (unsupported_error ''action.cast-supported-spell'')
      else and_then (components_validate_for components spell) (\<lambda>_.
        and_then (condition_effects_of conditions
                    (if spell = FireBolt then OwnAttack else AbilityCheckSituation)) (\<lambda>effects.
        if ce_actions_blocked effects \<or> (spell = ShieldSpell \<and> ce_reactions_blocked effects)
        then Err (InvalidIntent (SpellFault SpellBlocked))
        else if \<not> can_cast sc spell
        then Err (Unsupported
          \<lparr>um_schema_version = hero_unsupported_schema_version, um_code = NotAvailableForHero,
           um_requested_id = spell_mechanic_id spell,
           um_alternatives =
             [\<lparr>alt_action = CapAttack, alt_label = ''Make a supported weapon attack''\<rparr>]\<rparr>)
        else if spell_level spell = 1 \<and> \<not> has_spell_slot res
        then Err (InvalidIntent (SpellFault NoSlotRemains))
        else case spend_spell_action_and_slot spell st of
          (Err e, _) \<Rightarrow> Err e
        | (Ok _, st') \<Rightarrow> Ok (effects, st'))))))))"

definition resolve_supported_spell ::
  "spellcasting_state \<Rightarrow> condition_set \<Rightarrow> spell_component_access \<Rightarrow> supported_spell_intent
    \<Rightarrow> 's dice \<Rightarrow> 's \<Rightarrow> caster_state \<Rightarrow> spell_cast_resolution rules_result \<times> caster_state \<times> 's" where
  "resolve_supported_spell sc conditions components intent roll d st =
     and_then_st (prepare_spell sc conditions components intent st, st, d) (\<lambda>(effects, st') (st, d).
       case cast_effects sc effects intent roll d of
         (Err e, d) \<Rightarrow> (Err e, st, d)
       | (Ok outcome, d) \<Rightarrow>
           and_then_st (resources_validate (fst st'), st, d) (\<lambda>_ (st, d).
             (Ok \<lparr>scr_schema_version = rules_matrix_schema_version, scr_spell = intent_spell intent,
                  scr_outcome = outcome, scr_resulting_resources = fst st',
                  scr_resulting_action_economy = snd st'\<rparr>, st', d)))"

section \<open>Sleep takes the weakest first, and as many as the pool covers\<close>

lemma sleep_affected_prefix: "\<exists>k. sleep_affected r cs = take k cs"
proof (induction cs arbitrary: r)
  case Nil
  show ?case by simp
next
  case (Cons c cs)
  from Cons.IH [of "r - sl_current_hit_points c"] obtain k where
    k: "sleep_affected (r - sl_current_hit_points c) cs = take k cs" by blast
  show ?case
  proof (cases "sl_current_hit_points c > r")
    case True
    then show ?thesis by (auto intro: exI [of _ 0])
  next
    case False
    with k show ?thesis by (auto intro: exI [of _ "Suc k"])
  qed
qed

definition hit_point_sum :: "sleep_candidate list \<Rightarrow> nat" where
  "hit_point_sum cs = sum_list (map sl_current_hit_points cs)"

lemma sleep_affected_sum: "hit_point_sum (sleep_affected r cs) \<le> r"
proof (induction cs arbitrary: r)
  case Nil
  show ?case by (simp add: hit_point_sum_def)
next
  case (Cons c cs)
  from Cons.IH [of "r - sl_current_hit_points c"] show ?case by (auto simp: hit_point_sum_def)
qed

lemma sleep_affected_maximal:
  assumes "sorted (map sl_current_hit_points cs)" "c \<in> set cs" "c \<notin> set (sleep_affected r cs)"
  shows "r < hit_point_sum (sleep_affected r cs) + sl_current_hit_points c"
  using assms
proof (induction cs arbitrary: r)
  case Nil
  then show ?case by simp
next
  case (Cons x cs)
  show ?case
  proof (cases "sl_current_hit_points x > r")
    case True
    from Cons.prems have "sl_current_hit_points x \<le> sl_current_hit_points c" by auto
    with True show ?thesis by (simp add: hit_point_sum_def)
  next
    case False
    with Cons.prems have "c \<in> set cs" "c \<notin> set (sleep_affected (r - sl_current_hit_points x) cs)"
      by auto
    with Cons have "r - sl_current_hit_points x <
        hit_point_sum (sleep_affected (r - sl_current_hit_points x) cs) + sl_current_hit_points c"
      by simp
    with False show ?thesis by (simp add: hit_point_sum_def)
  qed
qed

lemma sleep_order_sorted: "sorted (map sl_current_hit_points (sleep_order cs))"
proof -
  have "sorted (map (\<lambda>c. (sl_current_hit_points c, sl_target_id c)) (sleep_order cs))"
    by (simp add: sleep_order_def)
  then show ?thesis
    by (simp add: sorted_map sorted_wrt_iff_nth_less less_eq_prod_def) (metis order.strict_implies_order)
qed

lemma set_sleep_order: "set (sleep_order cs) = {c \<in> set cs. sleep_eligible c}"
  by (simp add: sleep_order_def)

lemma scan_candidates_Ok_iff:
  "scan_candidates ids cs = Ok () \<longleftrightarrow>
     list_all (\<lambda>c. is_valid_opaque_id (sl_target_id c) \<and> sl_distance_from_point_feet c \<le> 20 \<and>
                   5 dvd sl_distance_from_point_feet c \<and> 0 < sl_current_hit_points c) cs \<and>
     distinct (map sl_target_id cs) \<and> (\<forall>c\<in>set cs. sl_target_id c \<notin> ids)"
  by (induction cs arbitrary: ids) (auto simp: image_iff)

lemma sleep_conditions_valid:
  assumes "is_valid_opaque_id caster" "is_valid_opaque_id target"
  shows "active_condition_validate (sleep_unconscious caster target) = Ok ()"
    "active_condition_validate (sleep_prone caster) = Ok ()"
  using assms
  by (simp_all add: active_condition_validate_def sleep_unconscious_def sleep_prone_def is_sleep_spell_def
      require_id_def)

section \<open>The life of a mage hand\<close>

definition mage_hand_ok :: "mage_hand_state \<Rightarrow> bool" where
  "mage_hand_ok h \<longleftrightarrow>
     mh_schema_version h = rules_matrix_schema_version \<and> mh_distance_from_caster_feet h \<le> 30 \<and>
     5 dvd mh_distance_from_caster_feet h \<and> 1 \<le> mh_remaining_rounds h \<and> mh_remaining_rounds h \<le> 10 \<and>
     is_valid_opaque_id (mh_hand_id h) \<and> is_valid_opaque_id (mh_caster_id h)"

lemma mage_hand_validate_iff [simp]: "mage_hand_validate h = Ok u \<longleftrightarrow> mage_hand_ok h"
  by (auto simp: mage_hand_validate_def mage_hand_ok_def)

lemma mage_hand_validate_result [simp]: "mage_hand_ok h \<Longrightarrow> mage_hand_validate h = Ok ()"
  by simp

type_synonym hand_state = "mage_hand_state option \<times> action_economy"

datatype hand_input =
    HandAction condition_set mage_hand_action_intent
  | HandRound
  | HandDistance u16

fun hand_step :: "(hand_input, hand_state, rules_matrix_error, unit) step" where
  "hand_step (HandAction s intent) st =
     (case resolve_mage_hand_action s intent st of (r, st') \<Rightarrow> (and_then r (\<lambda>_. Ok ()), st'))"
| "hand_step HandRound (hand, eco) =
     (case advance_mage_hand_duration hand of (r, hand') \<Rightarrow> (and_then r (\<lambda>_. Ok ()), hand', eco))"
| "hand_step (HandDistance n) (hand, eco) =
     (case reconcile_mage_hand_distance n hand of (r, hand') \<Rightarrow> (and_then r (\<lambda>_. Ok ()), hand', eco))"

definition hand_ok :: "hand_state \<Rightarrow> bool" where
  "hand_ok st \<longleftrightarrow> pred_option mage_hand_ok (fst st)"

definition hand_rounds :: "hand_state \<Rightarrow> nat" where
  "hand_rounds st = (case fst st of None \<Rightarrow> 0 | Some h \<Rightarrow> mh_remaining_rounds h)"

lemma mage_hand_action_OkD:
  assumes "resolve_mage_hand_action s intent (hand, eco) = (Ok x, (hand', eco'))"
  shows "\<exists>h. hand = Some h \<and> mage_hand_ok h \<and>
    (hand' = None \<or> (\<exists>n. hand' = Some (h\<lparr>mh_distance_from_caster_feet := n\<rparr>) \<and>
       mage_hand_ok (h\<lparr>mh_distance_from_caster_feet := n\<rparr>)))"
  using assms
  by (auto simp: resolve_mage_hand_action_def Let_def
      split: result.splits prod.splits if_splits mage_hand_action_intent.splits)

lemma advance_hand_eq:
  "mage_hand_ok h \<Longrightarrow> advance_mage_hand_duration (Some h) =
     (Ok (mh_remaining_rounds h = 1),
      if mh_remaining_rounds h = 1 then None
      else Some (h\<lparr>mh_remaining_rounds := mh_remaining_rounds h - 1\<rparr>))"
proof -
  assume h: "mage_hand_ok h"
  have "mh_remaining_rounds h \<noteq> 1 \<Longrightarrow> mage_hand_ok (h\<lparr>mh_remaining_rounds := mh_remaining_rounds h - 1\<rparr>)"
    using h by (auto simp: mage_hand_ok_def)
  with h show ?thesis by (simp add: advance_mage_hand_duration_def ok_or_def Let_def)
qed

lemma reconcile_hand_eq:
  "mage_hand_ok h \<Longrightarrow> 5 dvd n \<Longrightarrow> reconcile_mage_hand_distance n (Some h) =
     (Ok (n > 30), if n > 30 then None else Some (h\<lparr>mh_distance_from_caster_feet := n\<rparr>))"
proof -
  assume h: "mage_hand_ok h" "5 dvd n"
  have "\<not> n > 30 \<Longrightarrow> mage_hand_ok (h\<lparr>mh_distance_from_caster_feet := n\<rparr>)"
    using h by (auto simp: mage_hand_ok_def)
  with h show ?thesis by (simp add: reconcile_mage_hand_distance_def ok_or_def Let_def)
qed

lemma advance_hand_not:
  "\<not> (\<exists>h. hand = Some h \<and> mage_hand_ok h) \<Longrightarrow> \<exists>e. advance_mage_hand_duration hand = (Err e, hand)"
  by (cases hand; cases "mage_hand_validate (the hand)")
    (auto simp: advance_mage_hand_duration_def ok_or_def)

lemma reconcile_hand_not:
  "\<not> (\<exists>h. hand = Some h \<and> mage_hand_ok h \<and> 5 dvd n) \<Longrightarrow>
     \<exists>e. reconcile_mage_hand_distance n hand = (Err e, hand)"
  by (cases hand; cases "mage_hand_validate (the hand)")
    (auto simp: reconcile_mage_hand_distance_def ok_or_def)

lemma hand_step_cases:
  assumes "hand_ok (hand, eco)" "hand_step i (hand, eco) = (Ok u, (hand', eco'))"
  shows "hand_ok (hand', eco') \<and>
    hand_rounds (hand', eco') \<le> hand_rounds (hand, eco) - of_bool (i = HandRound)"
proof (cases i)
  case (HandAction s intent)
  with assms obtain x where "resolve_mage_hand_action s intent (hand, eco) = (Ok x, (hand', eco'))"
    by (auto split: prod.splits)
  from mage_hand_action_OkD [OF this] HandAction show ?thesis
    by (auto simp: hand_ok_def hand_rounds_def)
next
  case HandRound
  with assms(2) obtain b where b: "advance_mage_hand_duration hand = (Ok b, hand')"
    by (auto split: prod.splits)
  then obtain h where h: "hand = Some h" "mage_hand_ok h"
    using advance_hand_not [of hand] by auto
  from advance_hand_eq [OF h(2)] b h HandRound show ?thesis
    by (auto simp: hand_ok_def hand_rounds_def mage_hand_ok_def)
next
  case (HandDistance n)
  with assms(2) obtain b where b: "reconcile_mage_hand_distance n hand = (Ok b, hand')"
    by (auto split: prod.splits)
  then obtain h where h: "hand = Some h" "mage_hand_ok h" "5 dvd n"
    using reconcile_hand_not [of hand n] by auto
  from reconcile_hand_eq [OF h(2,3)] b h HandDistance show ?thesis
    by (auto simp: hand_ok_def hand_rounds_def mage_hand_ok_def split: if_splits)
qed

lemma hand_step_Err:
  assumes "hand_step i (hand, eco) = (Err e, st')"
  shows "st' = (hand, eco)"
proof (cases i)
  case (HandAction s intent)
  with assms show ?thesis
    by (auto simp: resolve_mage_hand_action_def and_then_Err_iff Let_def
        split: prod.splits result.splits)
next
  case HandRound
  with assms advance_hand_not [of hand] show ?thesis
    by (cases "\<exists>h. hand = Some h \<and> mage_hand_ok h") (auto simp: advance_hand_eq)
next
  case (HandDistance n)
  with assms reconcile_hand_not [of hand n] show ?thesis
    by (cases "\<exists>h. hand = Some h \<and> mage_hand_ok h \<and> 5 dvd n") (auto simp: reconcile_hand_eq)
qed

interpretation hand: transactional hand_ok hand_step
proof unfold_locales
  fix s s' :: hand_state and i u
  show "hand_ok s \<Longrightarrow> hand_step i s = (Ok u, s') \<Longrightarrow> hand_ok s'"
    using hand_step_cases [of "fst s" "snd s" i u "fst s'" "snd s'"] by simp
next
  fix s s' :: hand_state and i e
  show "hand_step i s = (Err e, s') \<Longrightarrow> s' = s"
    using hand_step_Err [of i "fst s" "snd s" e s'] by simp
qed

lemma hand_rounds_step:
  assumes "hand_ok st"
  shows "hand_rounds (snd (hand_step i st)) \<le> hand_rounds st - of_bool (i = HandRound)"
proof -
  obtain hand eco where st: "st = (hand, eco)" by (cases st)
  obtain r hand' eco' where s: "hand_step i (hand, eco) = (r, (hand', eco'))"
    by (cases "hand_step i (hand, eco)") auto
  show ?thesis
  proof (cases r)
    case (Ok u)
    with hand_step_cases [of hand eco i u hand' eco'] assms s st show ?thesis by simp
  next
    case (Err e)
    with s have "hand_step i (hand, eco) = (Err e, (hand', eco'))" by simp
    from hand_step_Err [OF this] have same: "(hand', eco') = (hand, eco)" .
    have "hand_rounds (hand, eco) = 0" if "i = HandRound"
    proof (cases hand)
      case None
      then show ?thesis by (simp add: hand_rounds_def)
    next
      case (Some h)
      with assms st have "mage_hand_ok h" by (simp add: hand_ok_def)
      with that Some s Err advance_hand_eq [of h] show ?thesis by simp
    qed
    with same s st show ?thesis by simp
  qed
qed

text \<open>A hand lives ten rounds at most, whatever else is done with it in between.\<close>

lemma hand_rounds_run:
  "hand_ok st \<Longrightarrow>
     hand_rounds (run_steps hand_step is st) \<le> hand_rounds st - length (filter ((=) HandRound) is)"
proof (induction "is" arbitrary: st)
  case Nil
  show ?case by simp
next
  case (Cons i "is")
  from Cons.IH [OF hand.step_keeps [OF Cons.prems, of i]] hand_rounds_step [OF Cons.prems, of i]
  show ?case by auto
qed

section \<open>What casting costs\<close>

definition slots_left :: "runtime_resources \<Rightarrow> nat" where
  "slots_left r = (case rs_spell_slots r of None \<Rightarrow> 0 | Some p \<Rightarrow> ctr_current p)"

lemma spend_spell_OkD:
  assumes "resources_ok res" "spend_spell_action_and_slot spell (res, eco) = (Ok u, (res', eco'))"
  shows "resource_flag (spell_resource spell) eco" "eco' = clear_resource (spell_resource spell) eco"
    "same_profile res res'" "slots_left res = of_bool (spell_level spell = 1) + slots_left res'"
    "if spell_level spell = 1
     then \<exists>p. rs_spell_slots res = Some p \<and> 0 < ctr_current p \<and>
       res' = res\<lparr>rs_spell_slots := Some (p\<lparr>ctr_current := ctr_current p - 1\<rparr>)\<rparr>
     else res' = res"
proof -
  show flag: "resource_flag (spell_resource spell) eco"
    using assms(2) by (auto simp: spend_spell_action_and_slot_def economy_spend_def split: if_splits)
  show "eco' = clear_resource (spell_resource spell) eco"
    using flag assms(2)
    by (auto simp: spend_spell_action_and_slot_def economy_spend_def split: if_splits prod.splits)
  have s: "if spell_level spell = 1 then spend_spell_slot res = (Ok (), res') else res' = res"
    using flag assms(2)
    by (auto simp: spend_spell_action_and_slot_def economy_spend_def split: if_splits prod.splits)
  show r: "if spell_level spell = 1
     then \<exists>p. rs_spell_slots res = Some p \<and> 0 < ctr_current p \<and>
       res' = res\<lparr>rs_spell_slots := Some (p\<lparr>ctr_current := ctr_current p - 1\<rparr>)\<rparr>
     else res' = res"
    using s spend_spell_slot_Ok_iff [OF assms(1), of "()" res']
    by (cases "spell_level spell = 1") simp_all
  show "same_profile res res'"
    using s spend_spell_slot_profile [OF assms(1), of "()" res'] pools_okD [OF assms(1)]
    by (cases "spell_level spell = 1") (simp_all add: same_profile_def)
  show "slots_left res = of_bool (spell_level spell = 1) + slots_left res'"
    using r by (auto simp: slots_left_def split: if_splits)
qed

lemma prepare_spell_OkD:
  assumes "prepare_spell sc conds comps intent (res, eco) = Ok (effects, st')"
  shows "spellcasting_validate sc = Ok ()" "resources_ok res" "condition_set_ok conds"
    "intent_validate intent = Ok ()" "rs_class res = Wizard" "can_cast sc (intent_spell intent)"
    "\<not> ce_actions_blocked effects"
    "spend_spell_action_and_slot (intent_spell intent) (res, eco) = (Ok (), st')"
proof -
  have *: "spellcasting_validate sc = Ok () \<and> resources_ok res \<and> condition_set_ok conds \<and>
    intent_validate intent = Ok () \<and> rs_class res = Wizard \<and> can_cast sc (intent_spell intent) \<and>
    \<not> ce_actions_blocked effects \<and>
    spend_spell_action_and_slot (intent_spell intent) (res, eco) = (Ok (), st')"
    using assms
    by (cases "spend_spell_action_and_slot (intent_spell intent) (res, eco)";
        cases "fst (spend_spell_action_and_slot (intent_spell intent) (res, eco))")
      (auto simp: prepare_spell_def Let_def split: if_splits)
  then show "spellcasting_validate sc = Ok ()" "resources_ok res" "condition_set_ok conds"
    "intent_validate intent = Ok ()" "rs_class res = Wizard" "can_cast sc (intent_spell intent)"
    "\<not> ce_actions_blocked effects"
    "spend_spell_action_and_slot (intent_spell intent) (res, eco) = (Ok (), st')"
    by blast+
qed

lemma resolve_spell_OkD:
  assumes "resolve_supported_spell sc conds comps intent roll d (res, eco) = (Ok x, ((res', eco'), d'))"
  shows "\<exists>effects. prepare_spell sc conds comps intent (res, eco) = Ok (effects, (res', eco')) \<and>
    cast_effects sc effects intent roll d = (Ok (scr_outcome x), d') \<and> resources_ok res' \<and>
    scr_spell x = intent_spell intent \<and> scr_resulting_resources x = res' \<and>
    scr_resulting_action_economy x = eco'"
proof -
  obtain effects st1 where p: "prepare_spell sc conds comps intent (res, eco) = Ok (effects, st1)"
    using assms by (cases "prepare_spell sc conds comps intent (res, eco)")
      (auto simp: resolve_supported_spell_def)
  obtain r d1 where c: "cast_effects sc effects intent roll d = (r, d1)"
    by (cases "cast_effects sc effects intent roll d")
  show ?thesis
    using assms p c by (cases r) (auto simp: resolve_supported_spell_def)
qed

lemma resolve_spell_Err:
  assumes "resolve_supported_spell sc conds comps intent roll d st = (Err e, (st', d'))"
  shows "st' = st"
proof (cases "prepare_spell sc conds comps intent st")
  case (Err x)
  with assms show ?thesis by (simp add: resolve_supported_spell_def)
next
  case (Ok y)
  obtain effects st1 where y: "y = (effects, st1)" by (cases y)
  obtain r d1 where c: "cast_effects sc effects intent roll d = (r, d1)"
    by (cases "cast_effects sc effects intent roll d")
  show ?thesis
    using assms Ok y c
    by (cases r) (auto simp: resolve_supported_spell_def and_then_st_Err_iff)
qed

text \<open>Once the guards pass and the dice give an effect, nothing can undo the cast.\<close>

lemma resolve_spell_eq:
  assumes "prepare_spell sc conds comps intent (res, eco) = Ok (effects, st')"
    "cast_effects sc effects intent roll d = (Ok out, d')"
  shows "resolve_supported_spell sc conds comps intent roll d (res, eco) =
    (Ok \<lparr>scr_schema_version = rules_matrix_schema_version, scr_spell = intent_spell intent,
         scr_outcome = out, scr_resulting_resources = fst st',
         scr_resulting_action_economy = snd st'\<rparr>, st', d')"
proof -
  note P = prepare_spell_OkD [OF assms(1)]
  have "same_profile res (fst st')"
    using spend_spell_OkD(3) [OF P(2), of "intent_spell intent" eco "()" "fst st'" "snd st'"] P(8)
    by simp
  from same_profile_ok [OF P(2) this] assms show ?thesis
    by (simp add: resolve_supported_spell_def)
qed

type_synonym 's spell_input =
  "spellcasting_state \<times> condition_set \<times> spell_component_access \<times> supported_spell_intent \<times> 's dice \<times> 's"

fun spell_step ::
  "('s spell_input, caster_state, rules_matrix_error, spell_cast_resolution) step" where
  "spell_step (sc, conds, comps, intent, roll, d) st =
     (case resolve_supported_spell sc conds comps intent roll d st of (r, st', _) \<Rightarrow> (r, st'))"

definition caster_ok :: "caster_state \<Rightarrow> bool" where
  "caster_ok st \<longleftrightarrow> resources_ok (fst st)"

definition slots_paid :: "'s spell_input \<Rightarrow> spell_cast_resolution \<Rightarrow> nat" where
  "slots_paid i x = of_bool (spell_level (scr_spell x) = 1)"

interpretation spells: budgeted caster_ok spell_step slots_paid "\<lambda>st. slots_left (fst st)"
proof unfold_locales
  fix s s' :: caster_state and i :: "'a spell_input" and x
  assume "caster_ok s" "spell_step i s = (Ok x, s')"
  moreover obtain sc conds comps intent roll d where i: "i = (sc, conds, comps, intent, roll, d)"
    by (cases i)
  ultimately obtain d' where
    r: "resolve_supported_spell sc conds comps intent roll d (fst s, snd s) =
      (Ok x, ((fst s', snd s'), d'))"
    by (auto split: prod.splits)
  from resolve_spell_OkD [OF r] obtain effects where
    p: "prepare_spell sc conds comps intent (fst s, snd s) = Ok (effects, (fst s', snd s'))"
    and ok: "resources_ok (fst s')" "scr_spell x = intent_spell intent" by blast
  show "caster_ok s'" using ok by (simp add: caster_ok_def)
  show "slots_left (fst s) = slots_paid i x + slots_left (fst s')"
    using spend_spell_OkD(4) [OF prepare_spell_OkD(2,8) [OF p]] ok by (simp add: slots_paid_def)
next
  fix s s' :: caster_state and i :: "'a spell_input" and e
  assume "spell_step i s = (Err e, s')"
  then show "s' = s"
    by (cases i) (auto split: prod.splits dest: resolve_spell_Err)
qed

section \<open>Properties\<close>

text \<open>C17: Sleep takes the weakest first and as many as it can: the creatures put to sleep are, in
  ascending order of hit points, a prefix of those that can be affected; together they have no more hit
  points than the five d8 rolled; and any creature left awake had more hit points than remained.\<close>

theorem sleep_takes_the_weakest:
  assumes "cast_sleep sc candidates roll d = (Ok out, d')"
  shows "\<exists>pool. so_sleep_hit_point_pool out = Some pool \<and> 5 \<le> pool \<and> pool \<le> 40 \<and>
    (let asleep = sleep_affected pool (sleep_order candidates) in
      so_effects out = concat (map (\<lambda>c.
        [ApplyCondition (sl_target_id c) (sleep_unconscious (sp_caster_id sc) (sl_target_id c)),
         ApplyCondition (sl_target_id c) (sleep_prone (sp_caster_id sc))]) asleep) \<and>
      hit_point_sum asleep \<le> pool \<and>
      (\<exists>k. asleep = take k (sleep_order candidates)) \<and>
      (\<forall>c\<in>set candidates. sleep_eligible c \<and> c \<notin> set asleep \<longrightarrow>
         pool < hit_point_sum asleep + sl_current_hit_points c \<and>
         (\<forall>a\<in>set asleep. sl_current_hit_points a \<le> sl_current_hit_points c)))"
proof -
  obtain pool where p: "resolve_damage_dice 5 8 0 False roll d = (Ok pool, d')"
    and out: "so_sleep_hit_point_pool out = Some (ddr_total pool)"
      "so_effects out = concat (map (\<lambda>c.
        [ApplyCondition (sl_target_id c) (sleep_unconscious (sp_caster_id sc) (sl_target_id c)),
         ApplyCondition (sl_target_id c) (sleep_prone (sp_caster_id sc))])
        (sleep_affected (ddr_total pool) (sleep_order candidates)))"
    using assms by (auto simp: cast_sleep_def)
  note R = resolve_damage_dice_Ok(5-7) [OF p]
  have "5 \<le> ddr_total pool" "ddr_total pool \<le> 40"
    using R sum_rolled_bounds [OF R(2)] by auto
  moreover have "ddr_total pool < hit_point_sum (sleep_affected (ddr_total pool) (sleep_order candidates))
        + sl_current_hit_points c \<and>
      (\<forall>a\<in>set (sleep_affected (ddr_total pool) (sleep_order candidates)).
         sl_current_hit_points a \<le> sl_current_hit_points c)"
    if "c \<in> set candidates" "sleep_eligible c"
      "c \<notin> set (sleep_affected (ddr_total pool) (sleep_order candidates))" for c
  proof
    have c: "c \<in> set (sleep_order candidates)" using that by (simp add: set_sleep_order)
    from sleep_affected_maximal [OF sleep_order_sorted c that(3)]
    show "ddr_total pool < hit_point_sum (sleep_affected (ddr_total pool) (sleep_order candidates))
        + sl_current_hit_points c" .
    obtain k where k: "sleep_affected (ddr_total pool) (sleep_order candidates) = take k (sleep_order candidates)"
      using sleep_affected_prefix by blast
    with c that(3) have "c \<in> set (drop k (sleep_order candidates))"
      by (metis Un_iff append_take_drop_id set_append)
    moreover have "sorted (map sl_current_hit_points (take k (sleep_order candidates) @ drop k (sleep_order candidates)))"
      using sleep_order_sorted by (metis append_take_drop_id)
    ultimately show "\<forall>a\<in>set (sleep_affected (ddr_total pool) (sleep_order candidates)).
         sl_current_hit_points a \<le> sl_current_hit_points c"
      by (auto simp: k sorted_append simp del: append_take_drop_id)
  qed
  ultimately show ?thesis
    using out sleep_affected_sum sleep_affected_prefix by (auto simp: Let_def)
qed

definition wizard_caster :: spellcasting_state where
  "wizard_caster =
     \<lparr>sp_schema_version = rules_matrix_schema_version, sp_caster_id = ''wizard-1'',
      sp_spell_attack_bonus = 5, sp_spell_save_dc = 13, sp_cantrips = [FireBolt],
      sp_prepared = [Sleep]\<rparr>"

definition sleeper :: "string \<Rightarrow> nat \<Rightarrow> sleep_candidate" where
  "sleeper i n =
     \<lparr>sl_target_id = i, sl_distance_from_point_feet = 5, sl_current_hit_points = n,
      sl_already_unconscious = False, sl_immune_to_magical_sleep = False\<rparr>"

definition all_fours :: "unit dice" where
  "all_fours sides d = (4, d)"

theorem sleep_takes_the_weakest_witness:
  "\<exists>out. cast_sleep wizard_caster [sleeper ''ogre'' 30, sleeper ''rat'' 2, sleeper ''goblin'' 7]
      all_fours () = (Ok out, ()) \<and> so_sleep_hit_point_pool out = Some 20 \<and>
     length (so_effects out) = 4"
proof -
  let ?cs = "[sleeper ''ogre'' 30, sleeper ''rat'' 2, sleeper ''goblin'' 7]"
  have r: "resolve_damage_dice 5 8 0 False all_fours () =
      (Ok \<lparr>ddr_sides = 8, ddr_dice = [4, 4, 4, 4, 4], ddr_constant = 0, ddr_critical = False,
           ddr_total = 20\<rparr>, ())"
    by (simp add: resolve_damage_dice_eq all_fours_def u8_max_def numeral_eq_Suc)
  then obtain out where out: "cast_sleep wizard_caster ?cs all_fours () = (Ok out, ())"
      "so_sleep_hit_point_pool out = Some 20"
    by (simp add: cast_sleep_def)
  have o: "sleep_affected 20 (sleep_order ?cs) = [sleeper ''rat'' 2, sleeper ''goblin'' 7]"
    by code_simp
  from sleep_takes_the_weakest [OF out(1)] out(2) have "length (so_effects out) = 4"
    by (simp add: o Let_def)
  with out show ?thesis by blast
qed

text \<open>C30: Spell slots are a budget and casting is all or nothing: over any sequence of casts, with any
  dice, the level-one spells that resolved and the slots that remain add up to the slots there were, the
  resources stay valid, and a cast that fails leaves resources and action economy as they were.\<close>

theorem spell_slots_budget:
  assumes "resources_validate res = Ok ()"
  shows "resources_validate (fst (run_steps spell_step is (res, eco))) = Ok () \<and>
    length (filter (\<lambda>(i, x). spell_level (scr_spell x) = 1) (outcomes spell_step is (res, eco)))
      + slots_left (fst (run_steps spell_step is (res, eco))) = slots_left res \<and>
    (\<forall>i e st'. spell_step i (res, eco) = (Err e, st') \<longrightarrow> st' = (res, eco))"
proof -
  have ok: "caster_ok (res, eco)" using assms by (simp add: caster_ok_def)
  have "(\<Sum>(i, x)\<leftarrow>xs. slots_paid i x) =
      length (filter (\<lambda>(i, x). spell_level (scr_spell x) = 1) xs)" for xs :: "('a spell_input \<times> _) list"
    by (induction xs) (auto simp: slots_paid_def)
  with spells.run_budget [OF ok, of "is"] spells.run_valid [OF ok, of "is"]
  have "resources_validate (fst (run_steps spell_step is (res, eco))) = Ok ()"
    "length (filter (\<lambda>(i, x). spell_level (scr_spell x) = 1) (outcomes spell_step is (res, eco)))
      + slots_left (fst (run_steps spell_step is (res, eco))) = slots_left res"
    by (simp_all add: caster_ok_def)
  moreover have "st' = (res, eco)" if "spell_step i (res, eco) = (Err e, st')" for i e st'
    using that by (rule spells.step_rollback)
  ultimately show ?thesis by blast
qed

definition free_hands :: spell_component_access where
  "free_hands = \<lparr>sca_verbal_available = True, sca_somatic_available = True,
     sca_material_focus_available = True\<rparr>"

theorem spell_slots_budget_witness:
  "slots_left (fst (run_steps spell_step
      [(wizard_caster, condition_set_empty, free_hands, CastSleep 30 [sleeper ''rat'' 2], all_fours, ()),
       (wizard_caster, condition_set_empty, free_hands, CastSleep 30 [sleeper ''rat'' 2], all_fours, ())]
      (resources_new Wizard LevelOne, economy_new 30))) +
    length (filter (\<lambda>(i, x). spell_level (scr_spell x) = 1) (outcomes spell_step
      [(wizard_caster, condition_set_empty, free_hands, CastSleep 30 [sleeper ''rat'' 2], all_fours, ()),
       (wizard_caster, condition_set_empty, free_hands, CastSleep 30 [sleeper ''rat'' 2], all_fours, ())]
      (resources_new Wizard LevelOne, economy_new 30))) = 2"
proof -
  have "resources_validate (resources_new Wizard LevelOne) = Ok ()" using resources_new_ok by simp
  moreover have "slots_left (resources_new Wizard LevelOne) = 2" by code_simp
  ultimately show ?thesis using spell_slots_budget [of "resources_new Wizard LevelOne"] by (metis add.commute)
qed

text \<open>A mage hand does not outlive its minute: whatever is done with it, after ten rounds it is
  gone, it is never further than thirty feet from its caster, and it never comes back by itself.\<close>

theorem mage_hand_lasts_ten_rounds:
  assumes "pred_option (\<lambda>h. mage_hand_validate h = Ok ()) hand"
    and "10 \<le> length (filter ((=) HandRound) is)"
  shows "fst (run_steps hand_step is (hand, eco)) = None"
proof -
  have ok: "hand_ok (hand, eco)"
    using assms(1) by (cases hand) (simp_all add: hand_ok_def)
  then have "hand_rounds (hand, eco) \<le> 10"
    by (cases hand) (simp_all add: hand_ok_def hand_rounds_def mage_hand_ok_def)
  with hand_rounds_run [OF ok, of "is"] assms(2) have z: "hand_rounds (run_steps hand_step is (hand, eco)) = 0"
    by linarith
  with hand.run_valid [OF ok, of "is"] show ?thesis
    by (cases "fst (run_steps hand_step is (hand, eco))")
      (simp_all add: hand_ok_def hand_rounds_def mage_hand_ok_def)
qed

definition conjured_hand :: mage_hand_state where
  "conjured_hand =
     \<lparr>mh_schema_version = rules_matrix_schema_version, mh_hand_id = ''hand-1'',
      mh_caster_id = ''wizard-1'', mh_distance_from_caster_feet = 10, mh_remaining_rounds = 10\<rparr>"

theorem mage_hand_lasts_ten_rounds_witness:
  "fst (run_steps hand_step (HandDistance 20 # replicate 10 HandRound) (Some conjured_hand, economy_new 30))
     = None \<and>
   fst (run_steps hand_step (HandDistance 20 # replicate 9 HandRound) (Some conjured_hand, economy_new 30))
     \<noteq> None"
proof
  have "pred_option (\<lambda>h. mage_hand_validate h = Ok ()) (Some conjured_hand)"
    by (simp add: conjured_hand_def mage_hand_ok_def is_valid_opaque_id_def
      max_opaque_id_len_def ascii_alphanumeric_def ascii_digit_def byte_def)
  moreover have "10 \<le> length (filter ((=) HandRound) (HandDistance 20 # replicate 10 HandRound))"
    by simp
  ultimately show "fst (run_steps hand_step (HandDistance 20 # replicate 10 HandRound)
      (Some conjured_hand, economy_new 30)) = None"
    by (rule mage_hand_lasts_ten_rounds)
qed code_simp

end
