(* ===== verification/Character_Xp.thy ===== *)
theory Character_Xp
  imports Core_Base
begin

text \<open>
  \<open>character.rs\<close>: the character record, its validation, and the experience award that moves
  it along the level table.
\<close>

section \<open>Drafts and characters\<close>

definition max_character_text_chars :: nat where
  "max_character_text_chars = 200"

definition validate_text_field :: "string \<Rightarrow> string \<Rightarrow> nat \<Rightarrow> (game_core_error, unit) result" where
  "validate_text_field field value' maximum =
     (if is_blank value' then Err (EmptyCharacterField field)
      else if chars_count value' > maximum then Err (TextFieldTooLong field maximum)
      else Ok ())"

definition validate_identifier :: "string \<Rightarrow> string \<Rightarrow> (game_core_error, unit) result" where
  "validate_identifier field value' =
     (if is_valid_opaque_id value' then Ok () else Err (InvalidIdentifier field))"

definition validate_hit_points :: "u32 \<Rightarrow> u32 \<Rightarrow> (game_core_error, unit) result" where
  "validate_hit_points current maximum =
     (if maximum = 0 then Err InvalidMaximumHitPoints
      else if current > maximum then Err (CurrentHitPointsExceedMaximum current maximum)
      else Ok ())"

record character_draft =
  dr_id :: string
  dr_name :: string
  dr_theme :: string
  dr_ability_scores :: ability_scores
  dr_experience_points :: u32
  dr_current_hit_points :: u32
  dr_maximum_hit_points :: u32

record character =
  ch_id :: string
  ch_name :: string
  ch_theme :: string
  ch_ability_scores :: ability_scores
  ch_experience_points :: u32
  ch_level :: level
  ch_current_hit_points :: u32
  ch_maximum_hit_points :: u32

definition draft_validate :: "character_draft \<Rightarrow> (game_core_error, unit) result" where
  "draft_validate d =
     and_then (validate_identifier ''id'' (dr_id d)) (\<lambda>_.
     and_then (validate_text_field ''name'' (dr_name d) max_character_text_chars) (\<lambda>_.
     and_then (validate_text_field ''theme'' (dr_theme d) max_character_text_chars) (\<lambda>_.
     and_then (scores_validate (dr_ability_scores d)) (\<lambda>_.
       validate_hit_points (dr_current_hit_points d) (dr_maximum_hit_points d)))))"

definition draft_build :: "character_draft \<Rightarrow> (game_core_error, character) result" where
  "draft_build d =
     and_then (draft_validate d) (\<lambda>_.
       Ok \<lparr>ch_id = dr_id d, ch_name = dr_name d, ch_theme = dr_theme d,
           ch_ability_scores = dr_ability_scores d,
           ch_experience_points = dr_experience_points d,
           ch_level = level_from_experience (dr_experience_points d),
           ch_current_hit_points = dr_current_hit_points d,
           ch_maximum_hit_points = dr_maximum_hit_points d\<rparr>)"

definition character_validate :: "character \<Rightarrow> (game_core_error, unit) result" where
  "character_validate c =
     and_then (validate_identifier ''id'' (ch_id c)) (\<lambda>_.
     and_then (validate_text_field ''name'' (ch_name c) max_character_text_chars) (\<lambda>_.
     and_then (validate_text_field ''theme'' (ch_theme c) max_character_text_chars) (\<lambda>_.
     and_then (scores_validate (ch_ability_scores c)) (\<lambda>_.
     and_then (validate_hit_points (ch_current_hit_points c) (ch_maximum_hit_points c)) (\<lambda>_.
       let expected_level = level_from_experience (ch_experience_points c) in
       if ch_level c \<noteq> expected_level
       then Err (LevelExperienceMismatch (level_value (ch_level c)) (ch_experience_points c)
                   (level_value expected_level))
       else Ok ())))))"

abbreviation character_valid :: "character \<Rightarrow> bool" where
  "character_valid c \<equiv> character_validate c = Ok ()"

lemma draft_build_valid: "draft_build d = Ok c \<Longrightarrow> character_valid c"
  by (auto simp: draft_build_def draft_validate_def character_validate_def Let_def)

section \<open>Experience awards\<close>

record experience_award_summary =
  aw_awarded :: u32
  aw_previous_experience_points :: u32
  aw_experience_points :: u32
  aw_previous_level :: level
  aw_level :: level
  aw_levels_gained :: "level list"

text \<open>\<open>((a + 1)..=b).map(Level::new).collect()\<close>\<close>

definition levels_between :: "level \<Rightarrow> level \<Rightarrow> level list" where
  "levels_between a b = map Level [level_value a + 1..<level_value b + 1]"

lemma levels_between_append:
  assumes "level_value a \<le> level_value b" "level_value b \<le> level_value c"
  shows "levels_between a b @ levels_between b c = levels_between a c"
proof -
  have "[level_value a + 1..<level_value b + 1] @ [level_value b + 1..<level_value c + 1]
      = [level_value a + 1..<level_value c + 1]"
    using assms upt_add_eq_append [of "level_value a + 1" "level_value b + 1"
      "level_value c - level_value b"] by simp
  then show ?thesis
    by (metis levels_between_def map_append)
qed

definition leveled_up :: "experience_award_summary \<Rightarrow> bool" where
  "leveled_up w \<longleftrightarrow> aw_levels_gained w \<noteq> []"

definition award_experience ::
  "u32 \<Rightarrow> character \<Rightarrow> (game_core_error, experience_award_summary) result \<times> character" where
  "award_experience amount c =
     (case character_validate c of
        Err e \<Rightarrow> (Err e, c)
      | Ok _ \<Rightarrow>
          (case checked_add u32_max (ch_experience_points c) amount of
             None \<Rightarrow> (Err ExperienceOverflow, c)
           | Some xp \<Rightarrow>
               (let level = level_from_experience xp;
                    gained = levels_between (ch_level c) level
                in (Ok \<lparr>aw_awarded = amount,
                        aw_previous_experience_points = ch_experience_points c,
                        aw_experience_points = xp, aw_previous_level = ch_level c,
                        aw_level = level, aw_levels_gained = gained\<rparr>,
                    c\<lparr>ch_experience_points := xp, ch_level := level\<rparr>))))"

definition award_validate :: "experience_award_summary \<Rightarrow> (game_core_error, unit) result" where
  "award_validate w =
     (if checked_add u32_max (aw_previous_experience_points w) (aw_awarded w)
           \<noteq> Some (aw_experience_points w)
        then Err (InvalidExperienceAwardSummary AwardTotalMismatch)
      else if aw_previous_level w \<noteq> level_from_experience (aw_previous_experience_points w)
           \<or> aw_level w \<noteq> level_from_experience (aw_experience_points w)
        then Err (InvalidExperienceAwardSummary AwardLevelMismatch)
      else if aw_levels_gained w \<noteq> levels_between (aw_previous_level w) (aw_level w)
        then Err (InvalidExperienceAwardSummary AwardLevelsGained)
      else Ok ())"

lemma award_experience_Ok_iff:
  "award_experience n c = (Ok w, c') \<longleftrightarrow>
    character_valid c \<and> ch_experience_points c + n \<le> u32_max \<and>
    w = \<lparr>aw_awarded = n, aw_previous_experience_points = ch_experience_points c,
         aw_experience_points = ch_experience_points c + n, aw_previous_level = ch_level c,
         aw_level = level_from_experience (ch_experience_points c + n),
         aw_levels_gained = levels_between (ch_level c)
           (level_from_experience (ch_experience_points c + n))\<rparr> \<and>
    c' = c\<lparr>ch_experience_points := ch_experience_points c + n,
           ch_level := level_from_experience (ch_experience_points c + n)\<rparr>"
  by (auto simp: award_experience_def Let_def split: result.splits option.splits)

lemma award_experience_Err: "award_experience n c = (Err e, c') \<Longrightarrow> c' = c"
  by (auto simp: award_experience_def Let_def split: result.splits option.splits)

lemma character_valid_award:
  "character_valid c \<Longrightarrow>
    character_valid (c\<lparr>ch_experience_points := xp, ch_level := level_from_experience xp\<rparr>)"
  by (auto simp: character_validate_def Let_def)

interpretation awards: conserving character_valid award_experience
  "\<lambda>c. (ch_id c, ch_name c, ch_theme c, ch_ability_scores c,
        ch_current_hit_points c, ch_maximum_hit_points c)"
  by unfold_locales
    (auto simp: award_experience_Ok_iff character_valid_award dest: award_experience_Err)

lemma award_experience_summary_valid:
  "award_experience n c = (Ok w, c') \<Longrightarrow> award_validate w = Ok ()"
proof -
  assume "award_experience n c = (Ok w, c')"
  moreover from this have "ch_level c = level_from_experience (ch_experience_points c)"
    by (auto simp: award_experience_Ok_iff character_validate_def Let_def split: if_splits)
  ultimately show ?thesis
    by (auto simp: award_experience_Ok_iff award_validate_def)
qed

text \<open>Two awards in a row leave the character as one award of their sum.\<close>

lemma award_experience_add:
  assumes "award_experience a c = (Ok w1, c1)" "award_experience b c1 = (Ok w2, c2)"
  shows "snd (award_experience (a + b) c) = c2"
    and "aw_levels_gained w1 @ aw_levels_gained w2 =
      levels_between (ch_level c) (ch_level c2)"
proof -
  let ?x = "ch_experience_points c"
  have lv: "ch_level c = level_from_experience ?x"
    using assms(1)
    by (auto simp: award_experience_Ok_iff character_validate_def Let_def split: if_splits)
  from assms have
    w1: "aw_levels_gained w1 = levels_between (ch_level c) (level_from_experience (?x + a))" and
    w2: "aw_levels_gained w2 =
      levels_between (level_from_experience (?x + a)) (level_from_experience (?x + a + b))" and
    c2: "ch_level c2 = level_from_experience (?x + a + b)"
    by (auto simp: award_experience_Ok_iff)
  from assms have "award_experience (a + b) c = (Ok (w1\<lparr>aw_awarded := a + b,
      aw_experience_points := ?x + (a + b), aw_level := level_from_experience (?x + (a + b)),
      aw_levels_gained := levels_between (ch_level c) (level_from_experience (?x + (a + b)))\<rparr>), c2)"
    by (auto simp: award_experience_Ok_iff add.assoc)
  then show "snd (award_experience (a + b) c) = c2" by simp
  have le: "level_value (level_from_experience ?x) \<le> level_value (level_from_experience (?x + a))"
    "level_value (level_from_experience (?x + a)) \<le> level_value (level_from_experience (?x + a + b))"
    by (simp_all add: level_from_experience_mono)
  then show "aw_levels_gained w1 @ aw_levels_gained w2 = levels_between (ch_level c) (ch_level c2)"
    by (simp add: w1 w2 c2 lv levels_between_append)
qed

section \<open>Properties\<close>

text \<open>Experience composes: two awards in a row leave the character that one award of their sum
  leaves, the levels gained along the way are the levels gained at once, each award's summary passes
  \<open>validate\<close>, and nothing but experience and level changes.\<close>

theorem awards_compose:
  assumes "award_experience a c = (Ok w1, c1)" "award_experience b c1 = (Ok w2, c2)"
  shows "\<exists>w. award_experience (a + b) c = (Ok w, c2) \<and>
      aw_levels_gained w = aw_levels_gained w1 @ aw_levels_gained w2 \<and> award_validate w = Ok () \<and>
      character_validate c2 = Ok () \<and> ch_name c2 = ch_name c \<and>
      ch_current_hit_points c2 = ch_current_hit_points c"
proof -
  have "ch_experience_points c + (a + b) \<le> u32_max" "character_valid c"
    using assms by (auto simp: award_experience_Ok_iff)
  then obtain w c' where w: "award_experience (a + b) c = (Ok w, c')"
    by (simp add: award_experience_Ok_iff)
  moreover have "c' = c2" using award_experience_add(1) [OF assms] w by simp
  moreover have "aw_levels_gained w = levels_between (ch_level c) (ch_level c2)"
    using w \<open>c' = c2\<close> by (auto simp: award_experience_Ok_iff)
  moreover have "character_validate c2 = Ok () \<and> ch_name c2 = ch_name c \<and>
      ch_current_hit_points c2 = ch_current_hit_points c"
    using assms by (auto simp: award_experience_Ok_iff intro: character_valid_award)
  ultimately show ?thesis
    using award_experience_add(2) [OF assms] award_experience_summary_valid by auto
qed

definition novice :: character where
  "novice =
     \<lparr>ch_id = ''hero-1'', ch_name = ''Ada'', ch_theme = ''classic'',
      ch_ability_scores = \<lparr>as_strength = AbilityScore 16, as_dexterity = AbilityScore 14,
        as_constitution = AbilityScore 12, as_intelligence = AbilityScore 10,
        as_wisdom = AbilityScore 8, as_charisma = AbilityScore 6\<rparr>,
      ch_experience_points = 100, ch_level = Level 1, ch_current_hit_points = 9,
      ch_maximum_hit_points = 11\<rparr>"

lemma novice_valid: "character_valid novice"
proof -
  have "is_valid_opaque_id ''hero-1''" "\<not> is_blank ''Ada''" "\<not> is_blank ''classic''"
    "chars_count ''Ada'' = 3" "chars_count ''classic'' = 7" by code_simp+
  moreover have "level_from_experience 100 = Level 1"
    by (simp add: level_from_experience_def xp_thresholds_def)
  ultimately show ?thesis
    by (simp add: character_validate_def validate_identifier_def validate_text_field_def
        validate_hit_points_def novice_def max_character_text_chars_def scores_validate_def
        ability_all_def score_new_def)
qed

theorem awards_compose_witness:
  "\<exists>w c2. award_experience 1000 novice = (Ok w, c2) \<and> aw_levels_gained w = [Level 2, Level 3]"
proof -
  note v = novice_valid
  have lv: "levels_between (Level (Suc 0)) (Level 2) = [Level 2]" "levels_between (Level 2) (Level 3) = [Level 3]"
    by code_simp+
  have x: "level_from_experience 350 = Level 2" "level_from_experience 1100 = Level 3"
    by (simp_all add: level_from_experience_def xp_thresholds_def)
  obtain w1 c1 where a: "award_experience 250 novice = (Ok w1, c1)" "ch_experience_points c1 = 350"
    "aw_levels_gained w1 = [Level 2]" "character_valid c1" "ch_level c1 = Level 2"
    using v character_valid_award [OF v, of 350]
    by (simp add: award_experience_Ok_iff)
      (simp add: novice_def u32_max_def x lv)
  obtain w2 c2 where b: "award_experience 750 c1 = (Ok w2, c2)" "aw_levels_gained w2 = [Level 3]"
    using a(2,4,5)
    by (simp add: award_experience_Ok_iff)
      (simp add: u32_max_def x lv)
  from awards_compose [OF a(1) b(1)] a(3) b(2) show ?thesis by auto
qed

end
