(* ===== verification/Dice_Notation.thy ===== *)
theory Dice_Notation
  imports Core_Base
begin

text \<open>
  Dice notation of \<open>roll.rs\<close>: the bounded expression \<open>NdS+C\<close>, its parser and its printer,
  with the round trip between them.
\<close>

section \<open>Errors and bounds\<close>

text \<open>The \<open>reason\<close> strings of \<open>InvalidRollRecord\<close>.\<close>

datatype record_fault =
    RollIdInvalid | PurposeInvalid | ActorIdInvalid | SeedReferenceInvalid | TargetIdInvalid
  | TooManyModifiers | ModifierNameInvalid | ModifierNamesUnsorted | ModifierTotalOverflow
  | ModifiersDifferFromConstant | NormalRollShape | TwoD20Shape | KeptD20Mismatch
  | RolledDieOutsideSides | RecordTotalOverflow | RecordTotalMismatch | RecordTotalRange
  | CursorBackwards | CursorSpanTooShort | DieTooWideForRecord

datatype roll_error =
    NonAsciiExpression
  | ExpressionTooLong nat
  | InvalidExpressionSyntax
  | ExpressionArithmeticOverflow
  | DiceCountOutOfRange u64 u16
  | DieSidesOutOfRange u64 u32
  | DiceConstantOutOfRange u64 u32
  | RollTotalOutOfRange int
  | UnsupportedRollMode
  | CursorExhausted
  | InvalidRollRecord record_fault

definition max_dice_expression_len :: nat where "max_dice_expression_len = 64"
definition max_dice_count :: u16 where "max_dice_count = 100"
definition max_die_sides :: u32 where "max_die_sides = 10000"
definition max_dice_constant_abs :: u32 where "max_dice_constant_abs = 100000"
definition max_roll_absolute_total :: int where "max_roll_absolute_total = 1000000"
definition max_modifier_components :: nat where "max_modifier_components = 16"

section \<open>Expressions\<close>

record dice_expression =
  de_count :: u16
  de_sides :: u32
  de_constant :: i32

definition validate_expression_parts :: "u64 \<Rightarrow> u64 \<Rightarrow> int \<Rightarrow> (roll_error, unit) result" where
  "validate_expression_parts count sides constant =
     (if \<not> (1 \<le> count \<and> count \<le> max_dice_count)
        then Err (DiceCountOutOfRange count max_dice_count)
      else if \<not> (1 \<le> sides \<and> sides \<le> max_die_sides)
        then Err (DieSidesOutOfRange sides max_die_sides)
      else let magnitude = nat \<bar>constant\<bar> in
        if magnitude > max_dice_constant_abs
          then Err (DiceConstantOutOfRange magnitude max_dice_constant_abs)
        else case checked_mul u64_max count sides of
            None \<Rightarrow> Err ExpressionArithmeticOverflow
          | Some maximum_dice \<Rightarrow>
              (let minimum_total = int count + constant;
                   maximum_total = int maximum_dice + constant;
                   bound = max_roll_absolute_total
               in if minimum_total < - bound \<or> maximum_total > bound
                  then Err (RollTotalOutOfRange max_roll_absolute_total)
                  else Ok ()))"

definition expression_new :: "u16 \<Rightarrow> u32 \<Rightarrow> i32 \<Rightarrow> (roll_error, dice_expression) result" where
  "expression_new count sides constant =
     and_then (validate_expression_parts count sides constant) (\<lambda>_.
       Ok \<lparr>de_count = count, de_sides = sides, de_constant = constant\<rparr>)"

definition expression_valid :: "dice_expression \<Rightarrow> bool" where
  "expression_valid e \<longleftrightarrow>
     validate_expression_parts (de_count e) (de_sides e) (de_constant e) = Ok ()"

lemma validate_expression_parts_iff:
  "validate_expression_parts n s c = Ok () \<longleftrightarrow>
     1 \<le> n \<and> n \<le> 100 \<and> 1 \<le> s \<and> s \<le> 10000 \<and> -100000 \<le> c \<and> c \<le> 100000 \<and>
     -1000000 \<le> int n + c \<and> int (n * s) + c \<le> 1000000"
proof -
  have "n * s \<le> u64_max" if "n \<le> 100" "s \<le> 10000"
    using mult_le_mono [OF that] by (simp add: u64_max_def)
  then show ?thesis
    by (auto simp: validate_expression_parts_def Let_def max_dice_count_def max_die_sides_def
        max_dice_constant_abs_def max_roll_absolute_total_def not_less not_le
        split: option.splits)
qed

section \<open>Parsing\<close>

text \<open>\<open>bytes.iter().try_fold(0, |v, b| v.checked_mul(10)?.checked_add(b - b'0'))\<close>\<close>

definition push_digit :: "u64 \<Rightarrow> char \<Rightarrow> (roll_error, u64) result" where
  "push_digit v b =
     ok_or (Option.bind (checked_mul u64_max v 10) (\<lambda>w. checked_add u64_max w (byte b - 48)))
       ExpressionArithmeticOverflow"

definition parse_ascii_u64 :: "string \<Rightarrow> (roll_error, u64) result" where
  "parse_ascii_u64 bytes =
     (if bytes = [] \<or> \<not> list_all ascii_digit bytes then Err InvalidExpressionSyntax
      else try_fold push_digit 0 bytes)"

definition i64_max :: nat where "i64_max = 9223372036854775807"

text \<open>
  The tail after the \<open>d\<close>: the sides, then an optional signed constant. A magnitude that fits
  \<open>i64\<close> is never \<open>i64::MIN\<close>, so \<open>checked_neg\<close> succeeds on it.
\<close>

definition parse_tail :: "string \<Rightarrow> (roll_error, string \<times> int) result" where
  "parse_tail tail =
     (let sides = takeWhile (\<lambda>b. b \<noteq> CHR ''+'' \<and> b \<noteq> CHR ''-'') tail;
          signed = drop (length sides) tail
      in case signed of
           [] \<Rightarrow> Ok (tail, 0)
         | sign # digits \<Rightarrow>
             if sides = [] \<or> digits = [] then Err InvalidExpressionSyntax
             else and_then (parse_ascii_u64 digits) (\<lambda>magnitude.
               if magnitude > i64_max then Err ExpressionArithmeticOverflow
               else Ok (sides, if sign = CHR ''-'' then - int magnitude else int magnitude)))"

definition expression_from_str :: "string \<Rightarrow> (roll_error, dice_expression) result" where
  "expression_from_str value' =
     (if \<not> list_all (\<lambda>b. byte b < 128) value' then Err NonAsciiExpression
      else if length value' > max_dice_expression_len
        then Err (ExpressionTooLong max_dice_expression_len)
      else let count_bytes = takeWhile (\<lambda>b. b \<noteq> CHR ''d'') value' in
        case drop (length count_bytes) value' of
          [] \<Rightarrow> Err InvalidExpressionSyntax
        | _ # tail \<Rightarrow>
            if count_bytes = [] \<or> tail = [] then Err InvalidExpressionSyntax
            else and_then (parse_tail tail) (\<lambda>(sides_bytes, constant).
              and_then (parse_ascii_u64 count_bytes) (\<lambda>count.
              and_then (parse_ascii_u64 sides_bytes) (\<lambda>sides.
              and_then (validate_expression_parts count sides constant) (\<lambda>_.
                Ok \<lparr>de_count = as_u16 count, de_sides = sides mod 4294967296,
                    de_constant = wrap_i32 constant\<rparr>)))))"

section \<open>Printing\<close>

text \<open>Rust's decimal \<open>Display\<close> of an unsigned integer.\<close>

fun show_nat :: "nat \<Rightarrow> string" where
  "show_nat n = (if n < 10 then [char_of (48 + n)] else show_nat (n div 10) @ [char_of (48 + n mod 10)])"

declare show_nat.simps [simp del]

definition expression_display :: "dice_expression \<Rightarrow> string" where
  "expression_display e =
     show_nat (de_count e) @ ''d'' @ show_nat (de_sides e) @
     (if de_constant e > 0 then ''+'' @ show_nat (nat (de_constant e))
      else if de_constant e < 0 then ''-'' @ show_nat (nat \<bar>de_constant e\<bar>)
      else [])"

subsection \<open>Decimal digits\<close>

lemma byte_char_of [simp]: "(n::nat) < 256 \<Longrightarrow> byte (char_of n) = n"
  by (simp add: byte_def)

lemma digit_char: "(n::nat) < 10 \<Longrightarrow> ascii_digit (char_of (48 + n))"
  by (simp add: ascii_digit_def)

lemma show_nat_digits: "list_all ascii_digit (show_nat n)"
proof (induction n rule: show_nat.induct)
  case (1 n)
  then show ?case
    by (subst show_nat.simps) (auto intro: digit_char)
qed

lemma show_nat_nonempty [simp]: "show_nat n \<noteq> []"
  by (subst show_nat.simps) simp

lemma length_show_nat: "n < 10 ^ k \<Longrightarrow> 0 < k \<Longrightarrow> length (show_nat n) \<le> k"
proof (induction n arbitrary: k rule: show_nat.induct)
  case (1 n)
  show ?case
  proof (cases "n < 10")
    case True
    with 1 show ?thesis by (subst show_nat.simps) simp
  next
    case False
    with "1.prems" obtain j where k: "k = Suc j" "0 < j"
      by (cases k; cases "k - 1") auto
    with "1.prems" have "n div 10 < 10 ^ j"
      by (simp add: less_mult_imp_div_less mult.commute)
    with "1.IH" [OF False] k have "length (show_nat (n div 10)) \<le> j" by blast
    with False k show ?thesis by (subst show_nat.simps) simp
  qed
qed

lemma try_fold_append:
  "try_fold f a (xs @ ys) = and_then (try_fold f a xs) (\<lambda>b. try_fold f b ys)"
  by (induction xs arbitrary: a) (auto simp: and_then_assoc)

lemma push_digit_ok:
  "n < 10 \<Longrightarrow> v * 10 + n \<le> u64_max \<Longrightarrow> push_digit v (char_of (48 + n)) = Ok (v * 10 + n)"
  by (simp add: push_digit_def checked_mul_def checked_add_def)

lemma fold_show_nat: "n \<le> u64_max \<Longrightarrow> try_fold push_digit 0 (show_nat n) = Ok n"
proof (induction n rule: show_nat.induct)
  case (1 n)
  show ?case
  proof (cases "n < 10")
    case True
    with push_digit_ok [of n 0] "1.prems" show ?thesis
      by (subst show_nat.simps) simp
  next
    case False
    have eq: "n div 10 * 10 + n mod 10 = n" by simp
    from "1.prems" have "n div 10 \<le> u64_max"
      by (rule order_trans [OF div_le_dividend])
    with "1.IH" [OF False] have "try_fold push_digit 0 (show_nat (n div 10)) = Ok (n div 10)" .
    moreover have "push_digit (n div 10) (char_of (48 + n mod 10)) = Ok n"
      using push_digit_ok [of "n mod 10" "n div 10"] "1.prems" eq by simp
    ultimately show ?thesis
      using False by (subst show_nat.simps) (simp add: try_fold_append)
  qed
qed

lemma parse_show_nat: "n \<le> u64_max \<Longrightarrow> parse_ascii_u64 (show_nat n) = Ok n"
  using show_nat_digits [of n] by (simp add: parse_ascii_u64_def fold_show_nat)

subsection \<open>The round trip\<close>

lemma digit_not_mark: "ascii_digit b \<Longrightarrow> b \<noteq> CHR ''d'' \<and> b \<noteq> CHR ''+'' \<and> b \<noteq> CHR ''-''"
  by (auto simp: ascii_digit_def byte_def)

lemma takeWhile_show_nat:
  "(\<And>b. ascii_digit b \<Longrightarrow> p b) \<Longrightarrow> \<not> p c \<Longrightarrow> takeWhile p (show_nat n @ c # cs) = show_nat n"
  using show_nat_digits [of n] by (auto simp: list_all_iff takeWhile_eq_all_conv takeWhile_tail
      intro: takeWhile_append2 [THEN trans])

lemma takeWhile_show_nat_all:
  "(\<And>b. ascii_digit b \<Longrightarrow> p b) \<Longrightarrow> takeWhile p (show_nat n) = show_nat n"
  using show_nat_digits [of n] by (simp add: list_all_iff takeWhile_eq_all_conv)

lemma parse_tail_plain: "parse_tail (show_nat s) = Ok (show_nat s, 0)"
  using digit_not_mark by (simp add: parse_tail_def Let_def takeWhile_show_nat_all)

lemma parse_tail_signed:
  assumes "m \<le> 100000" "sign \<in> {CHR ''+'', CHR ''-''}"
  shows "parse_tail (show_nat s @ sign # show_nat m) =
    Ok (show_nat s, if sign = CHR ''-'' then - int m else int m)"
proof -
  have "takeWhile (\<lambda>b. b \<noteq> CHR ''+'' \<and> b \<noteq> CHR ''-'') (show_nat s @ sign # show_nat m) = show_nat s"
    using assms(2) digit_not_mark by (intro takeWhile_show_nat) auto
  moreover have "parse_ascii_u64 (show_nat m) = Ok m"
    using assms(1) by (intro parse_show_nat) (simp add: u64_max_def)
  ultimately show ?thesis
    using assms by (auto simp: parse_tail_def Let_def i64_max_def)
qed

lemma ascii_digit_ascii: "ascii_digit b \<Longrightarrow> byte b < 128"
  by (simp add: ascii_digit_def)

lemma display_ascii: "list_all (\<lambda>b. byte b < 128) (expression_display e)"
proof -
  have digits: "list_all (\<lambda>b. byte b < 128) (show_nat n)" for n
    using show_nat_digits by (auto simp: list_all_iff dest: ascii_digit_ascii)
  then show ?thesis
    by (auto simp: expression_display_def byte_def)
qed

lemma display_length:
  assumes "expression_valid e"
  shows "length (expression_display e) \<le> 16"
proof -
  from assms have b: "de_count e < 10 ^ 3" "de_sides e < 10 ^ 5" "nat \<bar>de_constant e\<bar> < 10 ^ 6"
    by (auto simp: expression_valid_def validate_expression_parts_iff)
  have "length (show_nat (de_count e)) \<le> 3" "length (show_nat (de_sides e)) \<le> 5"
    "length (show_nat (nat \<bar>de_constant e\<bar>)) \<le> 6"
    by (rule length_show_nat, fact b, simp)+
  then show ?thesis
    by (auto simp: expression_display_def)
qed

lemma parse_tail_display:
  assumes "-100000 \<le> c" "c \<le> (100000::int)"
  shows "parse_tail (show_nat s @
      (if c > 0 then ''+'' @ show_nat (nat c) else if c < 0 then ''-'' @ show_nat (nat \<bar>c\<bar>) else []))
    = Ok (show_nat s, c)"
  using assms parse_tail_signed [of "nat c" "CHR ''+''" s]
    parse_tail_signed [of "nat \<bar>c\<bar>" "CHR ''-''" s] parse_tail_plain [of s]
  by auto

lemma from_str_display:
  assumes "expression_valid e"
  shows "expression_from_str (expression_display e) = Ok e"
proof -
  let ?tail = "show_nat (de_sides e) @
     (if de_constant e > 0 then ''+'' @ show_nat (nat (de_constant e))
      else if de_constant e < 0 then ''-'' @ show_nat (nat \<bar>de_constant e\<bar>)
      else [])"
  have disp: "expression_display e = show_nat (de_count e) @ CHR ''d'' # ?tail"
    by (simp add: expression_display_def)
  have tw: "takeWhile (\<lambda>b. b \<noteq> CHR ''d'') (expression_display e) = show_nat (de_count e)"
    unfolding disp by (rule takeWhile_show_nat) (auto dest: digit_not_mark)
  from assms have v: "validate_expression_parts (de_count e) (de_sides e) (de_constant e) = Ok ()"
    by (simp add: expression_valid_def)
  then have b: "de_count e \<le> 100" "de_sides e \<le> 10000"
    "-100000 \<le> de_constant e" "de_constant e \<le> 100000"
    by (auto simp: validate_expression_parts_iff)
  have p: "parse_ascii_u64 (show_nat (de_count e)) = Ok (de_count e)"
    "parse_ascii_u64 (show_nat (de_sides e)) = Ok (de_sides e)"
    using b by (auto intro!: parse_show_nat simp: u64_max_def)
  have len: "\<not> max_dice_expression_len < length (expression_display e)"
    using display_length [OF assms] by (simp add: max_dice_expression_len_def)
  have tail: "parse_tail ?tail = Ok (show_nat (de_sides e), de_constant e)"
    by (rule parse_tail_display) (use b in auto)
  have dr: "drop (length (show_nat (de_count e))) (expression_display e) = CHR ''d'' # ?tail"
    unfolding disp by simp
  show ?thesis
    unfolding expression_from_str_def Let_def tw dr
    using display_ascii [of e] len tail p v b by simp
qed

lemma from_str_valid: "expression_from_str s = Ok e \<Longrightarrow> expression_valid e"
  by (auto simp: expression_from_str_def expression_valid_def Let_def validate_expression_parts_iff
      split: if_splits list.splits prod.splits)

section \<open>Properties\<close>

text \<open>C28: Dice notation round trips: an expression within the rules' bounds is printed as ASCII text
  that parses back to it, and whatever text the parser accepts, leading zeros included, denotes an
  expression within the bounds, so printing and parsing again changes nothing.\<close>

theorem notation_round_trip:
  "(expression_valid e \<longrightarrow>
      expression_from_str (expression_display e) = Ok e \<and>
      list_all (\<lambda>b. byte b < 128) (expression_display e) \<and> length (expression_display e) \<le> 16) \<and>
   (\<forall>s d. expression_from_str s = Ok d \<longrightarrow>
      expression_valid d \<and> expression_from_str (expression_display d) = Ok d)"
  using from_str_display display_ascii display_length from_str_valid by blast

theorem notation_round_trip_witness:
  "expression_display \<lparr>de_count = 2, de_sides = 6, de_constant = -3\<rparr> = ''2d6-3'' \<and>
   expression_from_str ''2d6-3'' = Ok \<lparr>de_count = 2, de_sides = 6, de_constant = -3\<rparr>"
proof -
  let ?e = "\<lparr>de_count = 2, de_sides = 6, de_constant = -3\<rparr>"
  have d: "expression_display ?e = ''2d6-3''" by code_simp
  have "expression_valid ?e" by (simp add: expression_valid_def validate_expression_parts_iff)
  with notation_round_trip [of ?e] d show ?thesis by simp
qed

end
