(* ===== verification/Rng.thy ===== *)
theory Rng
  imports Dice_Notation Dice_Check "HOL-Library.Word"
begin

text \<open>
  \<open>DeterministicRng\<close> of \<open>roll.rs\<close> and the two roll sources the server builds on it
  (\<open>application.rs\<close>). The ChaCha20 stream is third-party code and so a parameter: a function
  from the word position to a 32-bit word, which is what \<open>from_seed\<close>, \<open>set_word_pos\<close> and
  \<open>next_u32\<close> of \<open>rand_chacha\<close> document.
\<close>

section \<open>The generator\<close>

type_synonym stream = "u64 \<Rightarrow> 32 word"

record deterministic_rng =
  inner :: stream
  cursor :: u64

definition rng_at_cursor :: "('seed \<Rightarrow> stream) \<Rightarrow> 'seed \<Rightarrow> u64 \<Rightarrow> deterministic_rng" where
  "rng_at_cursor chacha seed c = \<lparr>inner = chacha seed, cursor = c\<rparr>"

definition rng_new :: "('seed \<Rightarrow> stream) \<Rightarrow> 'seed \<Rightarrow> deterministic_rng" where
  "rng_new chacha seed = rng_at_cursor chacha seed 0"

definition next_word :: "deterministic_rng \<Rightarrow> (roll_error, 32 word) result \<times> deterministic_rng" where
  "next_word r =
     (case checked_add u64_max (cursor r) 1 of
        None \<Rightarrow> (Err CursorExhausted, r)
      | Some next_cursor \<Rightarrow> (Ok (inner r (cursor r)), r\<lparr>cursor := next_cursor\<rparr>))"

definition acceptance_limit :: "u32 \<Rightarrow> nat" where
  "acceptance_limit sides = 4294967296 - 4294967296 mod sides"

text \<open>
  Rejection sampling. The loop ends because every turn moves the cursor, and the cursor runs out.
\<close>

function roll_die_inner ::
  "u32 \<Rightarrow> deterministic_rng \<Rightarrow> (roll_error, u32) result \<times> deterministic_rng" where
  "roll_die_inner sides r =
     (case next_word r of
        (Err e, r') \<Rightarrow> (Err e, r')
      | (Ok w, r') \<Rightarrow>
          (let sample = unat w in
           if sample < acceptance_limit sides then (Ok (sample mod sides + 1), r')
           else roll_die_inner sides r'))"
  by pat_completeness auto
termination
  by (relation "measure (\<lambda>(sides, r). u64_max - cursor r)")
    (auto simp: next_word_def split: option.splits)

declare roll_die_inner.simps [simp del]

definition roll_die ::
  "u32 \<Rightarrow> deterministic_rng \<Rightarrow> (roll_error, u32) result \<times> deterministic_rng" where
  "roll_die sides r =
     (if \<not> (1 \<le> sides \<and> sides \<le> max_die_sides)
      then (Err (DieSidesOutOfRange sides max_die_sides), r)
      else case roll_die_inner sides r of
          (Ok v, r') \<Rightarrow> (Ok v, r')
        | (Err e, _) \<Rightarrow> (Err e, r))"

record dice_roll =
  dl_expression :: dice_expression
  dl_rolled_dice :: "u32 list"
  dl_kept_dice :: "u32 list"
  dl_total :: i32
  dl_roll_mode :: roll_mode
  dl_cursor_before :: u64
  dl_cursor_after :: u64

text \<open>\<open>for _ in 0..count { rolled.push(self.roll_die_inner(sides)?) }\<close>\<close>

fun roll_dice ::
  "nat \<Rightarrow> u32 \<Rightarrow> deterministic_rng \<Rightarrow> (roll_error, u32 list) result \<times> deterministic_rng" where
  "roll_dice 0 sides r = (Ok [], r)"
| "roll_dice (Suc n) sides r =
     (case roll_die_inner sides r of
        (Err e, r') \<Rightarrow> (Err e, r')
      | (Ok v, r') \<Rightarrow>
          (case roll_dice n sides r' of
             (Err e, r'') \<Rightarrow> (Err e, r'')
           | (Ok vs, r'') \<Rightarrow> (Ok (v # vs), r'')))"

definition sum_dice :: "int \<Rightarrow> u32 list \<Rightarrow> (roll_error, int) result" where
  "sum_dice start dice =
     try_fold (\<lambda>total die. ok_or (checked_add_i64 total (int die)) ExpressionArithmeticOverflow)
       start dice"

definition roll_inner ::
  "dice_expression \<Rightarrow> roll_mode \<Rightarrow> deterministic_rng
    \<Rightarrow> (roll_error, dice_roll) result \<times> deterministic_rng" where
  "roll_inner e mode r =
     (let drawn =
        (if mode = NormalRoll
         then (case roll_dice (de_count e) (de_sides e) r of
                 (Err x, r') \<Rightarrow> (Err x, r')
               | (Ok rolled, r') \<Rightarrow> (Ok (rolled, rolled), r'))
         else (case roll_dice 2 20 r of
                 (Err x, r') \<Rightarrow> (Err x, r')
               | (Ok rolled, r') \<Rightarrow>
                   (let first = rolled ! 0; second = rolled ! 1 in
                     (Ok (rolled, [if mode = Advantage then max first second else min first second]),
                      r'))))
      in case drawn of
           (Err x, r') \<Rightarrow> (Err x, r')
         | (Ok (rolled, kept), r') \<Rightarrow>
             (and_then (sum_dice (de_constant e) kept) (\<lambda>total.
                if \<not> (-2147483648 \<le> total \<and> total \<le> 2147483647)
                then Err (RollTotalOutOfRange max_roll_absolute_total)
                else Ok \<lparr>dl_expression = e, dl_rolled_dice = rolled, dl_kept_dice = kept,
                         dl_total = total, dl_roll_mode = mode,
                         dl_cursor_before = cursor r, dl_cursor_after = cursor r'\<rparr>), r'))"

definition rng_roll ::
  "dice_expression \<Rightarrow> roll_context \<Rightarrow> deterministic_rng
    \<Rightarrow> (roll_error, dice_roll) result \<times> deterministic_rng" where
  "rng_roll e context r =
     (let mode = effective_mode context in
      if mode \<noteq> NormalRoll \<and> (de_count e \<noteq> 1 \<or> de_sides e \<noteq> 20) then (Err UnsupportedRollMode, r)
      else case roll_inner e mode r of
          (Err x, _) \<Rightarrow> (Err x, r)
        | (Ok d, r') \<Rightarrow> (Ok d, r'))"

subsection \<open>One die\<close>

lemma next_word_Ok_iff:
  "next_word r = (Ok w, r') \<longleftrightarrow>
     cursor r < u64_max \<and> w = inner r (cursor r) \<and> r' = r\<lparr>cursor := cursor r + 1\<rparr>"
  by (auto simp: next_word_def split: option.splits)

lemma next_word_Err_iff: "next_word r = (Err e, r') \<longleftrightarrow> u64_max \<le> cursor r \<and> e = CursorExhausted \<and> r' = r"
  by (auto simp: next_word_def split: option.splits)

text \<open>What a completed draw says: the words it skipped were rejected, the last one was taken.\<close>

lemma roll_die_inner_Ok:
  "roll_die_inner sides r = (Ok v, r') \<Longrightarrow>
     cursor r < cursor r' \<and> cursor r' \<le> u64_max \<and> inner r' = inner r \<and>
     unat (inner r (cursor r' - 1)) < acceptance_limit sides \<and>
     v = unat (inner r (cursor r' - 1)) mod sides + 1 \<and>
     (\<forall>i. cursor r \<le> i \<and> i + 1 < cursor r' \<longrightarrow> acceptance_limit sides \<le> unat (inner r i))"
proof (induction sides r rule: roll_die_inner.induct)
  case (1 sides r)
  from "1.prems" obtain w r1 where nw: "next_word r = (Ok w, r1)"
    by (cases "next_word r"; cases "fst (next_word r)") (auto simp: roll_die_inner.simps [of sides r])
  then have c: "cursor r < u64_max" "w = inner r (cursor r)" "r1 = r\<lparr>cursor := cursor r + 1\<rparr>"
    by (auto simp: next_word_Ok_iff)
  show ?case
  proof (cases "unat w < acceptance_limit sides")
    case True
    with "1.prems" nw c show ?thesis
      by (auto simp: roll_die_inner.simps [of sides r])
  next
    case False
    with "1.prems" nw have "roll_die_inner sides r1 = (Ok v, r')"
      by (simp add: roll_die_inner.simps [of sides r])
    from "1.IH" [OF nw [symmetric] _ refl False this] c False show ?thesis
      by (auto simp: not_less Suc_le_eq) (metis Suc_leI le_neq_implies_less)
  qed
qed

lemma roll_die_inner_range:
  "roll_die_inner sides r = (Ok v, r') \<Longrightarrow> 0 < sides \<Longrightarrow> 1 \<le> v \<and> v \<le> sides"
  by (auto dest!: roll_die_inner_Ok simp: Suc_le_eq)

text \<open>The other ending of the loop: the cursor ran out.\<close>

lemma roll_die_inner_Err:
  "roll_die_inner sides r = (Err e, r') \<Longrightarrow> e = CursorExhausted \<and> inner r' = inner r"
proof (induction sides r rule: roll_die_inner.induct)
  case (1 sides r)
  show ?case
  proof (cases "next_word r")
    case (Pair x r1)
    show ?thesis
    proof (cases x)
      case (Err e')
      with "1.prems" Pair show ?thesis
        by (auto simp: roll_die_inner.simps [of sides r] next_word_Err_iff)
    next
      case (Ok w)
      with "1.prems" Pair have no: "\<not> unat w < acceptance_limit sides"
        and rec: "roll_die_inner sides r1 = (Err e, r')"
        by (auto simp: roll_die_inner.simps [of sides r] Let_def split: if_splits)
      from Pair Ok have "inner r1 = inner r" by (auto simp: next_word_Ok_iff)
      with "1.IH" [OF Pair [symmetric] Ok refl no rec] show ?thesis by simp
    qed
  qed
qed

text \<open>
  Replay: two streams that agree on the words between the cursors give the same die and the same
  final cursor. This is what makes a stored cursor span reproducible.
\<close>

lemma roll_die_inner_cong:
  "roll_die_inner sides r = (Ok v, r') \<Longrightarrow> cursor q = cursor r \<Longrightarrow>
   (\<forall>i. cursor r \<le> i \<and> i < cursor r' \<longrightarrow> inner q i = inner r i) \<Longrightarrow>
   roll_die_inner sides q = (Ok v, q\<lparr>cursor := cursor r'\<rparr>)"
proof (induction sides r arbitrary: q rule: roll_die_inner.induct)
  case (1 sides r)
  from "1.prems"(1) have lt: "cursor r < cursor r'" by (auto dest: roll_die_inner_Ok)
  from "1.prems"(1) obtain w r1 where nw: "next_word r = (Ok w, r1)"
    by (cases "next_word r"; cases "fst (next_word r)") (auto simp: roll_die_inner.simps [of sides r])
  then have c: "cursor r < u64_max" "w = inner r (cursor r)" "r1 = r\<lparr>cursor := cursor r + 1\<rparr>"
    by (auto simp: next_word_Ok_iff)
  have nq: "next_word q = (Ok w, q\<lparr>cursor := cursor r + 1\<rparr>)"
    using "1.prems"(2,3) c lt by (auto simp: next_word_Ok_iff)
  show ?case
  proof (cases "unat w < acceptance_limit sides")
    case True
    with "1.prems"(1) nw nq c show ?thesis
      by (auto simp: roll_die_inner.simps [of sides r] roll_die_inner.simps [of sides q])
  next
    case False
    with "1.prems"(1) nw have rec: "roll_die_inner sides r1 = (Ok v, r')"
      by (simp add: roll_die_inner.simps [of sides r])
    have "roll_die_inner sides (q\<lparr>cursor := cursor r + 1\<rparr>) =
        (Ok v, q\<lparr>cursor := cursor r + 1\<rparr>\<lparr>cursor := cursor r'\<rparr>)"
      using "1.prems"(3) c
      by (intro "1.IH" [OF nw [symmetric] _ refl False rec]) auto
    with False nq show ?thesis
      by (simp add: roll_die_inner.simps [of sides q])
  qed
qed

subsection \<open>Unbiased faces\<close>

text \<open>
  Over the accepted words every face has the same number of preimages, so a uniform word gives a
  uniform die. The number of accepted words is a multiple of the sides.
\<close>

lemma acceptance_limit_dvd: "0 < sides \<Longrightarrow> acceptance_limit sides = sides * (4294967296 div sides)"
  by (simp add: acceptance_limit_def minus_mod_eq_mult_div [symmetric] mult.commute)

lemma card_residue_class:
  assumes "f < (n::nat)"
  shows "card {w. w < n * m \<and> w mod n = f} = m"
proof -
  have "{w. w < n * m \<and> w mod n = f} = (\<lambda>k. n * k + f) ` {..<m}"
  proof (intro equalityI subsetI)
    fix w assume w: "w \<in> {w. w < n * m \<and> w mod n = f}"
    then have "w = n * (w div n) + f" using mult_div_mod_eq [of n w] by simp
    moreover have "w div n < m" using w by (simp add: less_mult_imp_div_less mult.commute)
    ultimately show "w \<in> (\<lambda>k. n * k + f) ` {..<m}" by blast
  next
    fix w assume "w \<in> (\<lambda>k. n * k + f) ` {..<m}"
    then obtain k where k: "k < m" "w = n * k + f" by auto
    have "n * k + f < n * Suc k" using assms by simp
    also have "\<dots> \<le> n * m" using k(1) by (intro mult_le_mono2) simp
    finally show "w \<in> {w. w < n * m \<and> w mod n = f}" using k assms by simp
  qed
  moreover have "inj_on (\<lambda>k. n * k + f) {..<m}"
    using assms by (auto simp: inj_on_def)
  ultimately show ?thesis by (simp add: card_image)
qed

lemma card_accepted_words:
  assumes "1 \<le> face" "face \<le> sides"
  shows "card {w :: 32 word. unat w < acceptance_limit sides \<and> unat w mod sides + 1 = face} =
    4294967296 div sides"
proof -
  let ?N = "{n. n < sides * (4294967296 div sides) \<and> n mod sides = face - 1}"
  let ?W = "{w :: 32 word. unat w < acceptance_limit sides \<and> unat w mod sides + 1 = face}"
  have lim: "acceptance_limit sides = sides * (4294967296 div sides)"
    using assms by (simp add: acceptance_limit_dvd)
  have "unat ` ?W = ?N"
  proof (intro equalityI subsetI)
    fix n assume n: "n \<in> ?N"
    have "sides * (4294967296 div sides) \<le> 4294967296" by (rule times_div_less_eq_dividend)
    with n have "n < 4294967296" by (auto intro: less_le_trans)
    then have "unat (word_of_nat n :: 32 word) = n"
      by (simp add: unsigned_of_nat take_bit_nat_eq_self)
    moreover from n assms(1) have "n mod sides + 1 = face" by simp
    ultimately show "n \<in> unat ` ?W"
      using n by (intro image_eqI [of _ _ "word_of_nat n"]) (simp_all add: lim)
  next
    fix n assume "n \<in> unat ` ?W"
    then obtain w :: "32 word" where w: "n = unat w" "unat w < acceptance_limit sides" "unat w mod sides + 1 = face"
      by blast
    then have "n mod sides = face - 1" by simp
    with w(1,2) show "n \<in> ?N" unfolding lim by simp
  qed
  then have "card ?N = card (unat ` ?W)" by (simp only:)
  also have "\<dots> = card ?W"
    by (rule card_image) (rule inj_on_subset [OF inj_unsigned], simp)
  finally have "card ?W = card ?N" ..
  also have "\<dots> = 4294967296 div sides"
    using assms by (intro card_residue_class) simp
  finally show ?thesis .
qed

subsection \<open>Several dice\<close>

lemma roll_dice_cursor:
  "roll_dice n sides r = (Ok vs, r') \<Longrightarrow>
     length vs = n \<and> cursor r + n \<le> cursor r' \<and> inner r' = inner r \<and>
     (cursor r \<le> u64_max \<longrightarrow> cursor r' \<le> u64_max)"
proof (induction n arbitrary: r vs)
  case 0
  then show ?case by simp
next
  case (Suc n)
  from Suc.prems obtain v r1 ws where
    one: "roll_die_inner sides r = (Ok v, r1)" and
    rest: "roll_dice n sides r1 = (Ok ws, r')" and vs: "vs = v # ws"
    by (auto split: prod.splits result.splits)
  from Suc.IH [OF rest] roll_die_inner_Ok [OF one] show ?case
    by (auto simp: vs)
qed

lemma roll_dice_range:
  "roll_dice n sides r = (Ok vs, r') \<Longrightarrow> 0 < sides \<Longrightarrow> \<forall>v\<in>set vs. 1 \<le> v \<and> v \<le> sides"
  by (induction n arbitrary: r vs)
    (auto split: prod.splits result.splits simp flip: One_nat_def dest: roll_die_inner_range)

lemma roll_dice_cong:
  "roll_dice n sides r = (Ok vs, r') \<Longrightarrow> cursor q = cursor r \<Longrightarrow>
   (\<forall>i. cursor r \<le> i \<and> i < cursor r' \<longrightarrow> inner q i = inner r i) \<Longrightarrow>
   roll_dice n sides q = (Ok vs, q\<lparr>cursor := cursor r'\<rparr>)"
proof (induction n arbitrary: r q vs)
  case 0
  then show ?case by auto
next
  case (Suc n)
  from Suc.prems(1) obtain v r1 ws where
    one: "roll_die_inner sides r = (Ok v, r1)" and
    rest: "roll_dice n sides r1 = (Ok ws, r')" and vs: "vs = v # ws"
    by (auto split: prod.splits result.splits)
  have lt: "cursor r < cursor r1" and in1: "inner r1 = inner r"
    using roll_die_inner_Ok [OF one] by auto
  have le: "cursor r1 \<le> cursor r'"
    using roll_dice_cursor [OF rest] by simp
  have "roll_die_inner sides q = (Ok v, q\<lparr>cursor := cursor r1\<rparr>)"
    using Suc.prems(2,3) le by (intro roll_die_inner_cong [OF one]) auto
  moreover have "roll_dice n sides (q\<lparr>cursor := cursor r1\<rparr>) =
      (Ok ws, q\<lparr>cursor := cursor r1\<rparr>\<lparr>cursor := cursor r'\<rparr>)"
    using Suc.prems(3) lt in1 by (intro Suc.IH [OF rest]) auto
  ultimately show ?case by (simp add: vs)
qed

lemma roll_dice_Err: "roll_dice n sides r = (Err e, r') \<Longrightarrow> e = CursorExhausted"
  by (induction n arbitrary: r) (auto split: prod.splits result.splits dest: roll_die_inner_Err)

lemma sum_dice_eq:
  assumes "-1000000 \<le> c" "c + int (sum_list vs) \<le> 1000000"
  shows "sum_dice c vs = Ok (c + int (sum_list vs))"
  using assms
proof (induction vs arbitrary: c)
  case Nil
  then show ?case by (simp add: sum_dice_def)
next
  case (Cons v vs)
  then have "checked_add_i64 c (int v) = Some (c + int v)"
    by (auto simp: checked_add_i64_def)
  with Cons.IH [of "c + int v"] Cons.prems show ?case
    by (simp add: sum_dice_def add.assoc)
qed

lemma sum_list_le: "\<forall>v\<in>set vs. v \<le> (m::nat) \<Longrightarrow> sum_list vs \<le> length vs * m"
  by (induction vs) auto

lemma sum_list_ge: "\<forall>v\<in>set vs. 1 \<le> (v::nat) \<Longrightarrow> length vs \<le> sum_list vs"
  by (induction vs) auto

text \<open>The dice kept under a roll mode, and what a completed roll says of them.\<close>

fun kept_under :: "roll_mode \<Rightarrow> u32 list \<Rightarrow> u32 list" where
  "kept_under NormalRoll vs = vs"
| "kept_under Advantage vs = [max (vs ! 0) (vs ! 1)]"
| "kept_under Disadvantage vs = [min (vs ! 0) (vs ! 1)]"

definition words_spent :: "dice_expression \<Rightarrow> roll_mode \<Rightarrow> nat" where
  "words_spent e mode = (if mode = NormalRoll then de_count e else 2)"

lemma kept_sum_bounds:
  assumes "expression_valid e" "mode = NormalRoll \<or> de_count e = 1 \<and> de_sides e = 20"
    "length vs = words_spent e mode" "\<forall>v\<in>set vs. 1 \<le> v \<and> v \<le> de_sides e"
  shows "-1000000 \<le> de_constant e + int (sum_list (kept_under mode vs))"
    "de_constant e + int (sum_list (kept_under mode vs)) \<le> 1000000"
proof -
  from assms(1) have b: "1 \<le> de_count e" "-1000000 \<le> int (de_count e) + de_constant e"
    "int (de_count e * de_sides e) + de_constant e \<le> 1000000"
    by (auto simp: expression_valid_def validate_expression_parts_iff)
  have "de_count e \<le> sum_list (kept_under mode vs) \<and>
      sum_list (kept_under mode vs) \<le> de_count e * de_sides e"
  proof (cases mode)
    case NormalRoll
    with assms(3,4) sum_list_le [of vs "de_sides e"] sum_list_ge [of vs] show ?thesis
      by (auto simp: words_spent_def)
  next
    case Advantage
    with assms(2-4) show ?thesis by (auto simp: words_spent_def le_max_iff_disj)
  next
    case Disadvantage
    with assms(2-4) show ?thesis by (auto simp: words_spent_def min_le_iff_disj)
  qed
  then have "int (de_count e) \<le> int (sum_list (kept_under mode vs))"
    "int (sum_list (kept_under mode vs)) \<le> int (de_count e * de_sides e)"
    by (simp_all only: of_nat_le_iff)
  with b show "-1000000 \<le> de_constant e + int (sum_list (kept_under mode vs))"
    "de_constant e + int (sum_list (kept_under mode vs)) \<le> 1000000" by linarith+
qed

section \<open>Whole rolls\<close>

text \<open>The dice a roll draws, under either mode.\<close>

definition drawn_dice ::
  "dice_expression \<Rightarrow> roll_mode \<Rightarrow> deterministic_rng
    \<Rightarrow> (roll_error, u32 list) result \<times> deterministic_rng" where
  "drawn_dice e mode r =
     (if mode = NormalRoll then roll_dice (de_count e) (de_sides e) r else roll_dice 2 20 r)"

lemma drawn_dice_cursor:
  "drawn_dice e mode r = (Ok vs, r') \<Longrightarrow>
     length vs = words_spent e mode \<and> cursor r + words_spent e mode \<le> cursor r' \<and>
     inner r' = inner r \<and> (cursor r \<le> u64_max \<longrightarrow> cursor r' \<le> u64_max)"
  unfolding drawn_dice_def words_spent_def
  by (cases "mode = NormalRoll") (use roll_dice_cursor in \<open>fastforce split: if_splits\<close>)+

lemma roll_inner_eq:
  "roll_inner e mode r =
     (case drawn_dice e mode r of
        (Err x, r') \<Rightarrow> (Err x, r')
      | (Ok vs, r') \<Rightarrow>
          (let kept = kept_under mode vs in
            (and_then (sum_dice (de_constant e) kept) (\<lambda>total.
                if \<not> (-2147483648 \<le> total \<and> total \<le> 2147483647)
                then Err (RollTotalOutOfRange max_roll_absolute_total)
                else Ok \<lparr>dl_expression = e, dl_rolled_dice = vs, dl_kept_dice = kept,
                         dl_total = total, dl_roll_mode = mode,
                         dl_cursor_before = cursor r, dl_cursor_after = cursor r'\<rparr>), r')))"
  by (cases mode) (auto simp: roll_inner_def drawn_dice_def Let_def split: prod.splits result.splits)

lemma rng_roll_OkE:
  assumes "rng_roll e c r = (Ok d, r')"
  obtains vs where "drawn_dice e (effective_mode c) r = (Ok vs, r')"
    "dl_expression d = e" "dl_rolled_dice d = vs"
    "dl_kept_dice d = kept_under (effective_mode c) vs" "dl_roll_mode d = effective_mode c"
    "dl_cursor_before d = cursor r" "dl_cursor_after d = cursor r'"
    "sum_dice (de_constant e) (kept_under (effective_mode c) vs) = Ok (dl_total d)"
    "effective_mode c = NormalRoll \<or> de_count e = 1 \<and> de_sides e = 20"
  using assms
  by (auto simp: rng_roll_def roll_inner_eq Let_def split: prod.splits result.splits if_splits)

lemma rng_roll_Err: "rng_roll e c r = (Err x, r') \<Longrightarrow> r' = r"
  by (auto simp: rng_roll_def Let_def split: prod.splits result.splits if_splits)

lemma rng_roll_cursor:
  assumes "rng_roll e c r = (Ok d, r')"
  shows "inner r' = inner r" "dl_cursor_before d = cursor r" "dl_cursor_after d = cursor r'"
    "cursor r + words_spent e (effective_mode c) \<le> cursor r'"
    "cursor r \<le> u64_max \<Longrightarrow> cursor r' \<le> u64_max"
proof -
  obtain vs where d: "drawn_dice e (effective_mode c) r = (Ok vs, r')"
    "dl_cursor_before d = cursor r" "dl_cursor_after d = cursor r'"
    using assms by (rule rng_roll_OkE) blast
  from d(2,3) drawn_dice_cursor [OF d(1)]
  show "inner r' = inner r" "dl_cursor_before d = cursor r" "dl_cursor_after d = cursor r'"
    "cursor r + words_spent e (effective_mode c) \<le> cursor r'"
    "cursor r \<le> u64_max \<Longrightarrow> cursor r' \<le> u64_max" by auto
qed

lemma rng_roll_facts:
  assumes "rng_roll e c r = (Ok d, r')" "expression_valid e"
  shows "dl_expression d = e" "dl_roll_mode d = effective_mode c"
    "length (dl_rolled_dice d) = words_spent e (effective_mode c)"
    "\<forall>v\<in>set (dl_rolled_dice d). 1 \<le> v \<and> v \<le> de_sides e"
    "dl_kept_dice d = kept_under (effective_mode c) (dl_rolled_dice d)"
    "dl_total d = de_constant e + int (sum_list (dl_kept_dice d))"
    "-1000000 \<le> dl_total d \<and> dl_total d \<le> 1000000"
    "effective_mode c = NormalRoll \<or> de_count e = 1 \<and> de_sides e = 20"
proof -
  obtain vs where vs: "drawn_dice e (effective_mode c) r = (Ok vs, r')"
    and d: "dl_expression d = e" "dl_rolled_dice d = vs"
    "dl_kept_dice d = kept_under (effective_mode c) vs" "dl_roll_mode d = effective_mode c"
    "dl_cursor_before d = cursor r" "dl_cursor_after d = cursor r'"
    and sum: "sum_dice (de_constant e) (kept_under (effective_mode c) vs) = Ok (dl_total d)"
    and mode: "effective_mode c = NormalRoll \<or> de_count e = 1 \<and> de_sides e = 20"
    using assms(1) by (rule rng_roll_OkE)
  have sides: "0 < de_sides e"
    using assms(2) by (auto simp: expression_valid_def validate_expression_parts_iff)
  have len: "length vs = words_spent e (effective_mode c)"
    using vs by (blast dest: drawn_dice_cursor)
  have range: "\<forall>v\<in>set vs. 1 \<le> v \<and> v \<le> de_sides e"
    using vs sides mode by (auto simp: drawn_dice_def split: if_splits dest: roll_dice_range)
  note b = kept_sum_bounds [OF assms(2) mode len range]
  have c: "-1000000 \<le> de_constant e"
    using assms(2) by (auto simp: expression_valid_def validate_expression_parts_iff)
  have total: "dl_total d = de_constant e + int (sum_list (kept_under (effective_mode c) vs))"
    using sum sum_dice_eq [OF c b(2)] by simp
  from d show "dl_expression d = e" "dl_roll_mode d = effective_mode c"
    "length (dl_rolled_dice d) = words_spent e (effective_mode c)"
    "\<forall>v\<in>set (dl_rolled_dice d). 1 \<le> v \<and> v \<le> de_sides e"
    "dl_kept_dice d = kept_under (effective_mode c) (dl_rolled_dice d)"
    using len range by auto
  from d show "dl_total d = de_constant e + int (sum_list (dl_kept_dice d))"
    by (simp add: total)
  show "-1000000 \<le> dl_total d \<and> dl_total d \<le> 1000000"
    using b total by simp
  show "effective_mode c = NormalRoll \<or> de_count e = 1 \<and> de_sides e = 20" by (fact mode)
qed

text \<open>A supported roll of a valid expression can only fail by exhausting the cursor.\<close>

lemma rng_roll_only_exhaustion:
  assumes "rng_roll e c r = (Err x, r')" "expression_valid e"
    "effective_mode c = NormalRoll \<or> de_count e = 1 \<and> de_sides e = 20"
  shows "x = CursorExhausted"
proof (cases "drawn_dice e (effective_mode c) r")
  case (Pair y r1)
  have sides: "0 < de_sides e" and c: "-1000000 \<le> de_constant e"
    using assms(2) by (auto simp: expression_valid_def validate_expression_parts_iff)
  show ?thesis
  proof (cases y)
    case (Err z)
    with Pair have "z = CursorExhausted"
      by (auto simp: drawn_dice_def split: if_splits dest: roll_dice_Err)
    with assms(1,3) Pair Err show ?thesis
      by (auto simp: rng_roll_def roll_inner_eq Let_def split: if_splits)
  next
    case (Ok vs)
    have len: "length vs = words_spent e (effective_mode c)"
      using Pair Ok by (blast dest: drawn_dice_cursor)
    have range: "\<forall>v\<in>set vs. 1 \<le> v \<and> v \<le> de_sides e"
      using Pair Ok sides assms(3) by (auto simp: drawn_dice_def split: if_splits dest: roll_dice_range)
    note b = kept_sum_bounds [OF assms(2,3) len range]
    from b have "\<not> (de_constant e + int (sum_list (kept_under (effective_mode c) vs)) < -2147483648)"
      "\<not> (2147483647 < de_constant e + int (sum_list (kept_under (effective_mode c) vs)))"
      by linarith+
    with assms(1,3) Pair Ok sum_dice_eq [OF c b(2)] b show ?thesis
      by (auto simp: rng_roll_def roll_inner_eq Let_def split: if_splits)
  qed
qed

text \<open>Replaying a stored span.\<close>

lemma rng_roll_cong:
  assumes "rng_roll e c r = (Ok d, r')" "cursor q = cursor r"
    "\<forall>i. cursor r \<le> i \<and> i < cursor r' \<longrightarrow> inner q i = inner r i"
  shows "rng_roll e c q = (Ok d, q\<lparr>cursor := cursor r'\<rparr>)"
proof -
  obtain vs where vs: "drawn_dice e (effective_mode c) r = (Ok vs, r')"
    and mode: "effective_mode c = NormalRoll \<or> de_count e = 1 \<and> de_sides e = 20"
    using assms(1) by (rule rng_roll_OkE)
  have "drawn_dice e (effective_mode c) q = (Ok vs, q\<lparr>cursor := cursor r'\<rparr>)"
    using vs assms(2,3) by (auto simp: drawn_dice_def split: if_splits intro!: roll_dice_cong)
  with assms(1,2) vs mode show ?thesis
    by (auto simp: rng_roll_def roll_inner_eq Let_def split: result.splits if_splits)
qed

text \<open>
  The generator is a budgeted component: every accepted roll pays for its cursor span out of the
  words that are left, and the stream itself never changes.
\<close>

fun rng_step :: "(dice_expression \<times> roll_context, deterministic_rng, roll_error, dice_roll) step" where
  "rng_step (e, c) r = rng_roll e c r"

definition cursor_ok :: "deterministic_rng \<Rightarrow> bool" where
  "cursor_ok r \<longleftrightarrow> cursor r \<le> u64_max"

definition span_of :: "dice_expression \<times> roll_context \<Rightarrow> dice_roll \<Rightarrow> nat" where
  "span_of i d = dl_cursor_after d - dl_cursor_before d"

definition words_left :: "deterministic_rng \<Rightarrow> nat" where
  "words_left r = u64_max - cursor r"

interpretation rng: budgeted cursor_ok rng_step span_of words_left
proof unfold_locales
  fix s s' :: deterministic_rng and i x
  assume "cursor_ok s" "rng_step i s = (Ok x, s')"
  with rng_roll_cursor [of "fst i" "snd i" s x s'] show "cursor_ok s'"
    by (cases i) (simp add: cursor_ok_def)
next
  fix s s' :: deterministic_rng and i e
  show "rng_step i s = (Err e, s') \<Longrightarrow> s' = s"
    by (cases i) (auto dest: rng_roll_Err)
next
  fix s s' :: deterministic_rng and i x
  assume "cursor_ok s" "rng_step i s = (Ok x, s')"
  with rng_roll_cursor [of "fst i" "snd i" s x s']
  show "words_left s = span_of i x + words_left s'"
    by (cases i) (simp add: cursor_ok_def words_left_def span_of_def)
qed

interpretation rng_stream: conserving cursor_ok rng_step inner
proof unfold_locales
  fix s s' :: deterministic_rng and i x
  assume "cursor_ok s" "rng_step i s = (Ok x, s')"
  with rng_roll_cursor [of "fst i" "snd i" s x s'] show "inner s' = inner s"
    by (cases i) simp
qed

section \<open>Properties\<close>

text \<open>C34: The die is fair: of the 32-bit words the rejection sampling accepts, exactly the same number
  falls on each face, and the face returned is that of the first accepted word, the ones before it
  having been rejected.\<close>

theorem die_is_fair:
  assumes "1 \<le> face" "face \<le> sides"
  shows "card {w :: 32 word. unat w < acceptance_limit sides \<and> unat w mod sides + 1 = face} =
      4294967296 div sides \<and>
    (\<forall>r v r'. roll_die_inner sides r = (Ok v, r') \<longrightarrow>
       unat (inner r (cursor r' - 1)) < acceptance_limit sides \<and>
       v = unat (inner r (cursor r' - 1)) mod sides + 1 \<and>
       (\<forall>i. cursor r \<le> i \<and> i + 1 < cursor r' \<longrightarrow> acceptance_limit sides \<le> unat (inner r i)))"
  using card_accepted_words [OF assms] roll_die_inner_Ok [of sides] by blast

theorem die_is_fair_witness:
  "card {w :: 32 word. unat w < acceptance_limit 6 \<and> unat w mod 6 + 1 = 3} = 715827882"
  using die_is_fair [of 3 6] by simp

text \<open>C16: A roll can be replayed from its cursor span: another generator at the same cursor whose
  stream agrees on the words the roll consumed, whatever comes before or after, gives the same roll and
  ends at the same cursor.\<close>

theorem roll_replays_from_its_span:
  assumes "rng_roll e c r = (Ok d, r')" "cursor q = dl_cursor_before d"
    and "\<forall>i. dl_cursor_before d \<le> i \<and> i < dl_cursor_after d \<longrightarrow> inner q i = inner r i"
  shows "rng_roll e c q = (Ok d, q\<lparr>cursor := dl_cursor_after d\<rparr>) \<and>
    dl_cursor_before d = cursor r \<and> dl_cursor_after d = cursor r' \<and> inner r' = inner r"
proof -
  note C = rng_roll_cursor [OF assms(1)]
  have "rng_roll e c q = (Ok d, q\<lparr>cursor := cursor r'\<rparr>)"
    using assms(2,3) C(2,3) by (intro rng_roll_cong [OF assms(1)]) simp_all
  with C show ?thesis by simp
qed

definition ramp :: deterministic_rng where
  "ramp = \<lparr>inner = (\<lambda>i. of_nat (10 * i)), cursor = 5\<rparr>"

definition two_d6 :: dice_expression where
  "two_d6 = \<lparr>de_count = 2, de_sides = 6, de_constant = 1\<rparr>"

theorem roll_replays_from_its_span_witness:
  "\<exists>d. rng_roll two_d6 rc_normal ramp = (Ok d, ramp\<lparr>cursor := 7\<rparr>) \<and>
     rng_roll two_d6 rc_normal (ramp\<lparr>inner := (inner ramp)(9 := 77)\<rparr>) =
       (Ok d, ramp\<lparr>inner := (inner ramp)(9 := 77), cursor := 7\<rparr>) \<and> dl_rolled_dice d = [3, 1]"
proof -
  have l: "acceptance_limit 6 = 4294967292" by (simp add: acceptance_limit_def)
  have w: "next_word (ramp\<lparr>cursor := n\<rparr>) = (Ok (of_nat (10 * n)), ramp\<lparr>cursor := Suc n\<rparr>)"
    if "n < 10" for n
    using that by (simp add: next_word_def ramp_def u64_max_def checked_add_def)
  have d5: "roll_die_inner 6 ramp = (Ok 3, ramp\<lparr>cursor := 6\<rparr>)"
    using w [of 5] by (subst roll_die_inner.simps) (simp add: l ramp_def)
  have d6: "roll_die_inner 6 (ramp\<lparr>cursor := 6\<rparr>) = (Ok 1, ramp\<lparr>cursor := 7\<rparr>)"
    using w [of 6] by (subst roll_die_inner.simps) (simp add: l ramp_def)
  obtain d where d: "rng_roll two_d6 rc_normal ramp = (Ok d, ramp\<lparr>cursor := 7\<rparr>)"
    "dl_rolled_dice d = [3, 1]" "dl_cursor_before d = 5" "dl_cursor_after d = 7"
    using d5 d6
    by (simp add: rng_roll_def roll_inner_def two_d6_def rc_normal_def effective_mode_def
        numeral_2_eq_2 sum_dice_def checked_add_i64_def ok_or_def max_roll_absolute_total_def
        ramp_def Let_def)
  let ?q = "ramp\<lparr>inner := (inner ramp)(9 := 77)\<rparr>"
  have q: "cursor ?q = dl_cursor_before d" using d(3) by (simp add: ramp_def)
  have s: "\<forall>i. dl_cursor_before d \<le> i \<and> i < dl_cursor_after d \<longrightarrow> inner ?q i = inner ramp i"
    using d(3,4) by simp
  from roll_replays_from_its_span [OF d(1) q s] d show ?thesis by simp
qed

text \<open>A roll of a valid expression in a mode it supports fails only when the cursor is exhausted,
  and then the generator is as it was; when it succeeds every die shows one of its faces, the dice kept
  are those the mode keeps, and the total is exactly their sum plus the constant, within the bounds.\<close>

theorem rolls_are_exact:
  assumes "expression_valid e" "effective_mode c = NormalRoll \<or> de_count e = 1 \<and> de_sides e = 20"
  shows "case rng_roll e c r of
      (Err x, r') \<Rightarrow> x = CursorExhausted \<and> r' = r
    | (Ok d, r') \<Rightarrow>
        length (dl_rolled_dice d) = words_spent e (effective_mode c) \<and>
        (\<forall>v\<in>set (dl_rolled_dice d). 1 \<le> v \<and> v \<le> de_sides e) \<and>
        dl_kept_dice d = kept_under (effective_mode c) (dl_rolled_dice d) \<and>
        dl_total d = de_constant e + int (sum_list (dl_kept_dice d)) \<and>
        -1000000 \<le> dl_total d \<and> dl_total d \<le> 1000000"
proof -
  obtain x r' where p: "rng_roll e c r = (x, r')" by (cases "rng_roll e c r")
  show ?thesis
  proof (cases x)
    case (Err y)
    with p rng_roll_Err [of e c r y r'] rng_roll_only_exhaustion [of e c r y r'] assms
    show ?thesis by simp
  next
    case (Ok d)
    from rng_roll_facts [OF p [unfolded Ok] assms(1)] p Ok show ?thesis by simp
  qed
qed

theorem rolls_are_exact_witness:
  "fst (rng_roll two_d6 rc_normal (ramp\<lparr>cursor := u64_max\<rparr>)) = Err CursorExhausted"
proof -
  have v: "expression_valid two_d6"
    by (simp add: two_d6_def expression_valid_def validate_expression_parts_iff)
  have m: "effective_mode rc_normal = NormalRoll \<or> de_count two_d6 = 1 \<and> de_sides two_d6 = 20"
    by (simp add: rc_normal_def effective_mode_def)
  show ?thesis
  proof (cases "fst (rng_roll two_d6 rc_normal (ramp\<lparr>cursor := u64_max\<rparr>))")
    case (Err x)
    with rolls_are_exact [OF v m, of "ramp\<lparr>cursor := u64_max\<rparr>"] show ?thesis
      by (auto split: prod.splits)
  next
    case (Ok d)
    then obtain r' where r: "rng_roll two_d6 rc_normal (ramp\<lparr>cursor := u64_max\<rparr>) = (Ok d, r')"
      by (metis prod.collapse)
    from rng_roll_cursor(4,5) [OF r] have False
      by (simp add: two_d6_def rc_normal_def effective_mode_def words_spent_def)
    then show ?thesis ..
  qed
qed

text \<open>The cursor is a budget: over any sequence of rolls the words consumed and the words left add
  up to the words there were, a failed roll consumes none, and the stream itself never changes.\<close>

theorem cursor_budget:
  assumes "cursor r \<le> u64_max"
  shows "(\<Sum>(i, d)\<leftarrow>outcomes rng_step is r. dl_cursor_after d - dl_cursor_before d)
      + (u64_max - cursor (run_steps rng_step is r)) = u64_max - cursor r \<and>
    inner (run_steps rng_step is r) = inner r \<and> cursor (run_steps rng_step is r) \<le> u64_max"
proof -
  have ok: "cursor_ok r" using assms by (simp add: cursor_ok_def)
  from rng.run_budget [OF ok, of "is"] rng_stream.run_kept [OF ok, of "is"] rng.run_valid [OF ok, of "is"]
  show ?thesis by (simp add: words_left_def span_of_def cursor_ok_def)
qed

theorem cursor_budget_witness:
  "inner (run_steps rng_step [(two_d6, rc_normal), (two_d6, rc_with_advantage)] ramp) = inner ramp"
proof -
  have "cursor ramp \<le> u64_max" by (simp add: ramp_def u64_max_def)
  from cursor_budget [OF this] show ?thesis by blast
qed

end
