(* ===== verification/Roll_Record.thy ===== *)
theory Roll_Record
  imports Rng Economy
begin

text \<open>
  The durable \<open>RollRecord\<close> of \<open>roll.rs\<close>: how it is made from a roll and what its validation
  recomputes. The last section holds the two roll sources of the server
  (\<open>crates/game-server/src/application.rs\<close>): one over the generator, one over stored records.
\<close>

section \<open>Records\<close>

datatype ruleset_id = Srd5_1
datatype roll_algorithm = ChaCha20V1

record modifier_component =
  mc_name :: string
  mc_value :: i32

record roll_metadata =
  rm_roll_id :: string
  rm_purpose :: string
  rm_actor_id :: string
  rm_target_id :: "string option"
  rm_ruleset :: ruleset_id
  rm_seed_reference :: string

record roll_record =
  rr_roll_id :: string
  rr_expression :: dice_expression
  rr_rolled_dice :: "u32 list"
  rr_kept_dice :: "u32 list"
  rr_modifier_components :: "modifier_component list"
  rr_total :: i32
  rr_purpose :: string
  rr_actor_id :: string
  rr_target_id :: "string option"
  rr_roll_mode :: roll_mode
  rr_ruleset :: ruleset_id
  rr_algorithm_id :: roll_algorithm
  rr_seed_reference :: string
  rr_cursor_before :: u64
  rr_cursor_after :: u64

text \<open>The \<open>try_fold\<close> over the modifiers, with the captured \<open>previous_name\<close>.\<close>

fun modifier_scan ::
  "string option \<Rightarrow> int \<Rightarrow> modifier_component list \<Rightarrow> (roll_error, int) result" where
  "modifier_scan prev acc [] = Ok acc"
| "modifier_scan prev acc (c # cs) =
     (if \<not> is_valid_opaque_id (mc_name c) then Err (InvalidRollRecord ModifierNameInvalid)
      else if (case prev of None \<Rightarrow> False | Some p \<Rightarrow> mc_name c \<le> p)
        then Err (InvalidRollRecord ModifierNamesUnsorted)
      else case checked_add_i64 acc (mc_value c) of
          None \<Rightarrow> Err (InvalidRollRecord ModifierTotalOverflow)
        | Some acc' \<Rightarrow> modifier_scan (Some (mc_name c)) acc' cs)"

definition record_shape :: "roll_record \<Rightarrow> (roll_error, nat) result" where
  "record_shape r =
     (if rr_roll_mode r = NormalRoll
      then (if length (rr_rolled_dice r) \<noteq> de_count (rr_expression r)
              \<or> rr_kept_dice r \<noteq> rr_rolled_dice r
            then Err (InvalidRollRecord NormalRollShape)
            else Ok (de_count (rr_expression r)))
      else if de_count (rr_expression r) \<noteq> 1 \<or> de_sides (rr_expression r) \<noteq> 20
           \<or> length (rr_rolled_dice r) \<noteq> 2 \<or> length (rr_kept_dice r) \<noteq> 1
      then Err (InvalidRollRecord TwoD20Shape)
      else (let a = rr_rolled_dice r ! 0; b = rr_rolled_dice r ! 1;
                expected = (if rr_roll_mode r = Advantage then max a b else min a b)
            in if rr_kept_dice r ! 0 \<noteq> expected then Err (InvalidRollRecord KeptD20Mismatch)
               else Ok 2))"

definition record_validate :: "roll_record \<Rightarrow> (roll_error, unit) result" where
  "record_validate r =
     (if \<not> is_valid_opaque_id (rr_roll_id r) then Err (InvalidRollRecord RollIdInvalid)
      else if \<not> is_valid_opaque_id (rr_purpose r) then Err (InvalidRollRecord PurposeInvalid)
      else if \<not> is_valid_opaque_id (rr_actor_id r) then Err (InvalidRollRecord ActorIdInvalid)
      else if \<not> is_valid_opaque_id (rr_seed_reference r)
        then Err (InvalidRollRecord SeedReferenceInvalid)
      else if (case rr_target_id r of None \<Rightarrow> False | Some i \<Rightarrow> \<not> is_valid_opaque_id i)
        then Err (InvalidRollRecord TargetIdInvalid)
      else if length (rr_modifier_components r) > max_modifier_components
        then Err (InvalidRollRecord TooManyModifiers)
      else and_then (modifier_scan None 0 (rr_modifier_components r)) (\<lambda>modifier_total.
        if modifier_total \<noteq> de_constant (rr_expression r)
          then Err (InvalidRollRecord ModifiersDifferFromConstant)
        else and_then (record_shape r) (\<lambda>minimum_words.
        if \<not> list_all (\<lambda>die. 1 \<le> die \<and> die \<le> de_sides (rr_expression r)) (rr_rolled_dice r)
          then Err (InvalidRollRecord RolledDieOutsideSides)
        else and_then (map_err (\<lambda>_. InvalidRollRecord RecordTotalOverflow)
               (sum_dice modifier_total (rr_kept_dice r))) (\<lambda>expected_total.
        if expected_total \<noteq> rr_total r then Err (InvalidRollRecord RecordTotalMismatch)
        else if \<bar>expected_total\<bar> > max_roll_absolute_total
          then Err (InvalidRollRecord RecordTotalRange)
        else case checked_sub (rr_cursor_after r) (rr_cursor_before r) of
            None \<Rightarrow> Err (InvalidRollRecord CursorBackwards)
          | Some spent \<Rightarrow>
              if spent < minimum_words then Err (InvalidRollRecord CursorSpanTooShort)
              else Ok ()))))"

definition record_from_roll ::
  "dice_roll \<Rightarrow> roll_metadata \<Rightarrow> modifier_component list \<Rightarrow> (roll_error, roll_record) result" where
  "record_from_roll d m modifiers =
     (let r = \<lparr>rr_roll_id = rm_roll_id m, rr_expression = dl_expression d,
               rr_rolled_dice = dl_rolled_dice d, rr_kept_dice = dl_kept_dice d,
               rr_modifier_components = sort_key mc_name modifiers, rr_total = dl_total d,
               rr_purpose = rm_purpose m, rr_actor_id = rm_actor_id m,
               rr_target_id = rm_target_id m, rr_roll_mode = dl_roll_mode d,
               rr_ruleset = rm_ruleset m, rr_algorithm_id = ChaCha20V1,
               rr_seed_reference = rm_seed_reference m,
               rr_cursor_before = dl_cursor_before d, rr_cursor_after = dl_cursor_after d\<rparr>
      in and_then (record_validate r) (\<lambda>_. Ok r))"

definition roll_record_of ::
  "dice_expression \<Rightarrow> roll_context \<Rightarrow> roll_metadata \<Rightarrow> modifier_component list
    \<Rightarrow> deterministic_rng \<Rightarrow> (roll_error, roll_record) result \<times> deterministic_rng" where
  "roll_record_of e c m modifiers rng =
     (case rng_roll e c rng of
        (Err x, _) \<Rightarrow> (Err x, rng)
      | (Ok d, rng') \<Rightarrow>
          (case record_from_roll d m modifiers of
             Err x \<Rightarrow> (Err x, rng)
           | Ok rec \<Rightarrow> (Ok rec, rng')))"

subsection \<open>What validation accepts\<close>

definition modifiers_total :: "modifier_component list \<Rightarrow> int" where
  "modifiers_total cs = sum_list (map mc_value cs)"

definition modifiers_fit :: "modifier_component list \<Rightarrow> bool" where
  "modifiers_fit cs \<longleftrightarrow> (\<forall>c\<in>set cs. is_i32 (mc_value c))"

lemma modifier_scan_iff:
  "modifiers_fit cs \<Longrightarrow> \<bar>acc\<bar> + int (length cs) * 2147483648 \<le> 9223372036854775807 \<Longrightarrow>
   modifier_scan prev acc cs = Ok t \<longleftrightarrow>
     (\<forall>c\<in>set cs. is_valid_opaque_id (mc_name c)) \<and>
     sorted_wrt (<) (map mc_name cs) \<and>
     (\<forall>p. prev = Some p \<longrightarrow> (\<forall>c\<in>set cs. p < mc_name c)) \<and>
     t = acc + modifiers_total cs"
proof (induction cs arbitrary: prev acc)
  case Nil
  then show ?case by (auto simp: modifiers_total_def)
next
  case (Cons c cs)
  from Cons.prems(1) have c: "is_i32 (mc_value c)" and fit: "modifiers_fit cs"
    by (auto simp: modifiers_fit_def)
  have b: "\<bar>acc + mc_value c\<bar> + int (length cs) * 2147483648 \<le> 9223372036854775807"
    using Cons.prems(2) c by (simp add: is_i32_def algebra_simps) linarith
  then have add: "checked_add_i64 acc (mc_value c) = Some (acc + mc_value c)"
    by (simp add: checked_add_i64_def) linarith
  show ?case
    using Cons.IH [OF fit b, of "Some (mc_name c)"]
    by (auto simp: add modifiers_total_def not_le split: option.splits intro: less_trans)
qed

definition record_sound :: "roll_record \<Rightarrow> bool" where
  "record_sound r \<longleftrightarrow>
     (\<forall>i\<in>{rr_roll_id r, rr_purpose r, rr_actor_id r, rr_seed_reference r}. is_valid_opaque_id i) \<and>
     (\<forall>i. rr_target_id r = Some i \<longrightarrow> is_valid_opaque_id i) \<and>
     length (rr_modifier_components r) \<le> 16 \<and>
     (\<forall>c\<in>set (rr_modifier_components r). is_valid_opaque_id (mc_name c)) \<and>
     sorted_wrt (<) (map mc_name (rr_modifier_components r)) \<and>
     modifiers_total (rr_modifier_components r) = de_constant (rr_expression r) \<and>
     (rr_roll_mode r = NormalRoll \<or> de_count (rr_expression r) = 1 \<and> de_sides (rr_expression r) = 20) \<and>
     length (rr_rolled_dice r) = words_spent (rr_expression r) (rr_roll_mode r) \<and>
     (\<forall>v\<in>set (rr_rolled_dice r). 1 \<le> v \<and> v \<le> de_sides (rr_expression r)) \<and>
     rr_kept_dice r = kept_under (rr_roll_mode r) (rr_rolled_dice r) \<and>
     rr_total r = de_constant (rr_expression r) + int (sum_list (rr_kept_dice r)) \<and>
     rr_cursor_before r + words_spent (rr_expression r) (rr_roll_mode r) \<le> rr_cursor_after r"

lemma length_1_nth: "length xs = Suc 0 \<Longrightarrow> xs ! 0 = x \<Longrightarrow> xs = [x]"
  by (cases xs) auto

lemma record_shape_iff:
  "record_shape r = Ok n \<longleftrightarrow>
     (rr_roll_mode r = NormalRoll \<or> de_count (rr_expression r) = 1 \<and> de_sides (rr_expression r) = 20) \<and>
     length (rr_rolled_dice r) = words_spent (rr_expression r) (rr_roll_mode r) \<and>
     rr_kept_dice r = kept_under (rr_roll_mode r) (rr_rolled_dice r) \<and>
     n = words_spent (rr_expression r) (rr_roll_mode r)"
  by (cases "rr_roll_mode r")
    (auto simp: record_shape_def words_spent_def Let_def length_1_nth)

text \<open>
  Validation is sound and complete for the declarative reading of a record, on records whose
  expression is one the parser admits.
\<close>

lemma record_validate_iff:
  assumes "expression_valid (rr_expression r)" "modifiers_fit (rr_modifier_components r)"
  shows "record_validate r = Ok () \<longleftrightarrow> record_sound r"
proof (cases "length (rr_modifier_components r) \<le> 16")
  case False
  then show ?thesis
    by (auto simp: record_validate_def record_sound_def max_modifier_components_def)
next
  case True
  then have scan: "modifier_scan None 0 (rr_modifier_components r) = Ok t \<longleftrightarrow>
      (\<forall>c\<in>set (rr_modifier_components r). is_valid_opaque_id (mc_name c)) \<and>
      sorted_wrt (<) (map mc_name (rr_modifier_components r)) \<and>
      t = modifiers_total (rr_modifier_components r)" for t
    using assms(2) by (subst modifier_scan_iff) auto
  have sum: "sum_dice (de_constant (rr_expression r)) (rr_kept_dice r) =
        Ok (de_constant (rr_expression r) + int (sum_list (rr_kept_dice r)))"
    "\<bar>de_constant (rr_expression r) + int (sum_list (rr_kept_dice r))\<bar> \<le> 1000000"
    if "record_shape r = Ok n" "\<forall>v\<in>set (rr_rolled_dice r). 1 \<le> v \<and> v \<le> de_sides (rr_expression r)" for n
  proof -
    note s = that(1) [unfolded record_shape_iff]
    have "-1000000 \<le> de_constant (rr_expression r)"
      using assms(1) by (auto simp: expression_valid_def validate_expression_parts_iff)
    moreover note b = kept_sum_bounds [OF assms(1) conjunct1 [OF s] _ that(2)]
    ultimately show "sum_dice (de_constant (rr_expression r)) (rr_kept_dice r) =
        Ok (de_constant (rr_expression r) + int (sum_list (rr_kept_dice r)))"
      "\<bar>de_constant (rr_expression r) + int (sum_list (rr_kept_dice r))\<bar> \<le> 1000000"
      using s by (auto intro!: sum_dice_eq)
  qed
  show ?thesis
  proof
    assume ok: "record_validate r = Ok ()"
    then obtain n where "record_shape r = Ok n"
      "\<forall>v\<in>set (rr_rolled_dice r). 1 \<le> v \<and> v \<le> de_sides (rr_expression r)"
      by (auto simp: record_validate_def list_all_iff split: if_splits option.splits)
    note facts = sum [OF this] this(1) [unfolded record_shape_iff]
    from ok facts show "record_sound r"
      by (auto simp: record_validate_def record_sound_def scan list_all_iff
          record_shape_iff max_modifier_components_def split: if_splits option.splits)
  next
    assume sound: "record_sound r"
    then have shape: "record_shape r = Ok (words_spent (rr_expression r) (rr_roll_mode r))"
      by (simp add: record_shape_iff record_sound_def)
    have dice: "\<forall>v\<in>set (rr_rolled_dice r). 1 \<le> v \<and> v \<le> de_sides (rr_expression r)"
      using sound by (simp add: record_sound_def)
    have "modifier_scan None 0 (rr_modifier_components r) = Ok (de_constant (rr_expression r))"
      using sound by (simp add: record_sound_def scan)
    with sound sum [OF shape dice] shape dice show "record_validate r = Ok ()"
      by (auto simp: record_validate_def record_sound_def list_all_iff not_less not_le
          max_modifier_components_def max_roll_absolute_total_def split: option.splits)
  qed
qed

lemma modifiers_total_insort: "modifiers_total (insort_key k c cs) = mc_value c + modifiers_total cs"
  by (induction cs) (simp_all add: modifiers_total_def)

lemma modifiers_total_sort: "modifiers_total (sort_key k cs) = modifiers_total cs"
  unfolding sort_key_def
  by (induction cs) (simp_all add: modifiers_total_insort, simp_all add: modifiers_total_def)

lemma roll_record_of_Err: "roll_record_of e c m ms rng = (Err x, rng') \<Longrightarrow> rng' = rng"
  by (auto simp: roll_record_of_def split: prod.splits result.splits)

text \<open>
  Completeness of the pipeline: with well-formed metadata and modifiers that explain the constant,
  every successful roll becomes a record.
\<close>

lemma roll_record_of_Ok:
  assumes roll: "rng_roll e c rng = (Ok d, rng')"
    and e: "expression_valid e"
    and ids: "is_valid_opaque_id (rm_roll_id m)" "is_valid_opaque_id (rm_purpose m)"
      "is_valid_opaque_id (rm_actor_id m)" "is_valid_opaque_id (rm_seed_reference m)"
      "\<forall>i. rm_target_id m = Some i \<longrightarrow> is_valid_opaque_id i"
    and ms: "length ms \<le> 16" "distinct (map mc_name ms)"
      "\<forall>x\<in>set ms. is_valid_opaque_id (mc_name x)" "modifiers_fit ms"
      "modifiers_total ms = de_constant e"
  shows "\<exists>rec. roll_record_of e c m ms rng = (Ok rec, rng') \<and> record_sound rec \<and>
    rr_expression rec = e \<and> rr_rolled_dice rec = dl_rolled_dice d \<and>
    rr_cursor_before rec = cursor rng \<and> rr_cursor_after rec = cursor rng'"
proof -
  define rec where "rec = \<lparr>rr_roll_id = rm_roll_id m, rr_expression = dl_expression d,
               rr_rolled_dice = dl_rolled_dice d, rr_kept_dice = dl_kept_dice d,
               rr_modifier_components = sort_key mc_name ms, rr_total = dl_total d,
               rr_purpose = rm_purpose m, rr_actor_id = rm_actor_id m,
               rr_target_id = rm_target_id m, rr_roll_mode = dl_roll_mode d,
               rr_ruleset = rm_ruleset m, rr_algorithm_id = ChaCha20V1,
               rr_seed_reference = rm_seed_reference m,
               rr_cursor_before = dl_cursor_before d, rr_cursor_after = dl_cursor_after d\<rparr>"
  note facts = rng_roll_facts [OF roll e] and cur = rng_roll_cursor [OF roll]
  have "sorted_wrt (<) (map mc_name (sort_key mc_name ms))"
    using ms(2) by (simp add: strict_sorted_iff distinct_map)
  with facts cur ids ms have sound: "record_sound rec"
    by (auto simp: record_sound_def rec_def modifiers_total_sort)
  have "expression_valid (rr_expression rec)" "modifiers_fit (rr_modifier_components rec)"
    using e ms(4) facts(1) by (auto simp: rec_def modifiers_fit_def)
  from record_validate_iff [OF this] sound have "record_from_roll d m ms = Ok rec"
    unfolding record_from_roll_def Let_def rec_def [symmetric] by simp
  then have "roll_record_of e c m ms rng = (Ok rec, rng')"
    by (simp add: roll_record_of_def roll)
  with sound facts(1) cur show ?thesis
    by (intro exI [of _ rec]) (simp add: rec_def)
qed

section \<open>The server's roll sources\<close>

record die_cursor_span =
  dc_sides :: u16
  dc_value :: u16
  dc_cursor_before :: u64
  dc_cursor_after :: u64

record encounter_rng_adapter =
  ad_rng :: deterministic_rng
  ad_spans :: "die_cursor_span list"
  ad_error :: "roll_error option"

definition adapter_new :: "deterministic_rng \<Rightarrow> encounter_rng_adapter" where
  "adapter_new r = \<lparr>ad_rng = r, ad_spans = [], ad_error = None\<rparr>"

definition adapter_roll :: "encounter_rng_adapter dice" where
  "adapter_roll sides a =
     (case ad_error a of
        Some _ \<Rightarrow> (0, a)
      | None \<Rightarrow>
          (case roll_die sides (ad_rng a) of
             (Ok v, rng') \<Rightarrow>
               if v \<le> u16_max
               then (v, a\<lparr>ad_rng := rng',
                          ad_spans := ad_spans a @
                            [\<lparr>dc_sides = sides, dc_value = v, dc_cursor_before = cursor (ad_rng a),
                              dc_cursor_after = cursor rng'\<rparr>]\<rparr>)
               else (0, a\<lparr>ad_rng := rng', ad_error := Some (InvalidRollRecord DieTooWideForRecord)\<rparr>)
           | (Err e, rng') \<Rightarrow> (0, a\<lparr>ad_rng := rng', ad_error := Some e\<rparr>)))"

record recorded_encounter_rolls =
  rec_dice :: "(u16 \<times> u16) list"
  rec_index :: nat
  rec_invalid :: bool

definition recorded_roll :: "recorded_encounter_rolls dice" where
  "recorded_roll sides r =
     (if rec_index r < length (rec_dice r)
      then (let (expected_sides, v) = rec_dice r ! rec_index r;
                r' = r\<lparr>rec_index := rec_index r + 1\<rparr>
            in if expected_sides \<noteq> sides then (0, r'\<lparr>rec_invalid := True\<rparr>) else (v, r'))
      else (0, r\<lparr>rec_invalid := True\<rparr>))"

lemma roll_die_range: "roll_die sides r = (Ok v, r') \<Longrightarrow> 1 \<le> v \<and> v \<le> sides"
  by (auto simp: roll_die_def split: if_splits prod.splits result.splits dest: roll_die_inner_range)

interpretation adapter: bounded_dice adapter_roll
proof unfold_locales
  fix n s
  show "fst (adapter_roll n s) \<le> n"
    by (auto simp: adapter_roll_def split: option.splits prod.splits result.splits
        dest: roll_die_range)
qed

text \<open>
  The spans an adapter collects are contiguous: each starts where the one before ended, the first
  at the cursor the adapter was made with and the last at the current cursor.
\<close>

fun contiguous :: "u64 \<Rightarrow> die_cursor_span list \<Rightarrow> u64 \<Rightarrow> bool" where
  "contiguous a [] b = (a = b)"
| "contiguous a (s # ss) b =
     (dc_cursor_before s = a \<and> a < dc_cursor_after s \<and> contiguous (dc_cursor_after s) ss b)"

lemma contiguous_snoc:
  "contiguous a (ss @ [s]) b \<longleftrightarrow>
     contiguous a ss (dc_cursor_before s) \<and> dc_cursor_before s < dc_cursor_after s \<and>
     dc_cursor_after s = b"
  by (induction ss arbitrary: a) auto

lemma roll_die_cursor:
  "roll_die sides r = (Ok v, r') \<Longrightarrow> cursor r < cursor r' \<and> inner r' = inner r"
  "roll_die sides r = (Err e, r') \<Longrightarrow> r' = r"
  by (auto simp: roll_die_def split: if_splits prod.splits result.splits dest: roll_die_inner_Ok)

definition adapter_inv :: "deterministic_rng \<Rightarrow> encounter_rng_adapter \<Rightarrow> bool" where
  "adapter_inv start a \<longleftrightarrow>
     inner (ad_rng a) = inner start \<and>
     contiguous (cursor start) (ad_spans a) (cursor (ad_rng a)) \<and>
     (\<forall>s\<in>set (ad_spans a). 1 \<le> dc_value s \<and> dc_value s \<le> dc_sides s)"

lemma adapter_inv_new: "adapter_inv r (adapter_new r)"
  by (simp add: adapter_inv_def adapter_new_def)

text \<open>On a 16-bit side count the die always fits its record, so the span invariant is kept.\<close>

lemma adapter_inv_roll:
  assumes "adapter_inv start a" "sides \<le> u16_max"
  shows "adapter_inv start (snd (adapter_roll sides a))"
proof (cases "ad_error a")
  case (Some e)
  with assms(1) show ?thesis by (simp add: adapter_roll_def)
next
  case None
  obtain x rng' where rd: "roll_die sides (ad_rng a) = (x, rng')"
    by (cases "roll_die sides (ad_rng a)")
  show ?thesis
  proof (cases x)
    case (Err e)
    with None rd assms(1) show ?thesis
      by (auto simp: adapter_roll_def adapter_inv_def dest: roll_die_cursor(2))
  next
    case (Ok v)
    with rd have "1 \<le> v" "v \<le> sides" "cursor (ad_rng a) < cursor rng'" "inner rng' = inner (ad_rng a)"
      by (auto dest: roll_die_range roll_die_cursor)
    with None rd Ok assms show ?thesis
      by (auto simp: adapter_roll_def adapter_inv_def contiguous_snoc)
  qed
qed

section \<open>Properties\<close>

text \<open>C27: A roll record is accepted exactly when it is right: for a record with an expression the parser
  admits and 32-bit modifiers, \<open>validate\<close> holds if and only if every identifier is well formed, the
  named modifiers are sorted and add up to the constant, the dice fit the expression and the mode, the
  kept dice follow from the rolled ones, the total is their sum and the cursor span is long enough.\<close>

theorem record_validation_exact:
  assumes "expression_valid (rr_expression r)" "modifiers_fit (rr_modifier_components r)"
  shows "record_validate r = Ok () \<longleftrightarrow> record_sound r"
  using assms by (rule record_validate_iff)

definition strike_record :: roll_record where
  "strike_record =
     \<lparr>rr_roll_id = ''roll-1'', rr_expression = \<lparr>de_count = 2, de_sides = 6, de_constant = 3\<rparr>,
      rr_rolled_dice = [2, 5], rr_kept_dice = [2, 5],
      rr_modifier_components = [\<lparr>mc_name = ''bless'', mc_value = 1\<rparr>, \<lparr>mc_name = ''str'', mc_value = 2\<rparr>],
      rr_total = 10, rr_purpose = ''damage'', rr_actor_id = ''hero-1'', rr_target_id = None,
      rr_roll_mode = NormalRoll, rr_ruleset = Srd5_1, rr_algorithm_id = ChaCha20V1,
      rr_seed_reference = ''seed-1'', rr_cursor_before = 4, rr_cursor_after = 6\<rparr>"

theorem record_validation_exact_witness:
  "record_sound strike_record \<and> record_validate strike_record = Ok () \<and>
   record_validate (strike_record\<lparr>rr_total := 11\<rparr>) \<noteq> Ok ()"
proof -
  have ids: "is_valid_opaque_id ''roll-1''" "is_valid_opaque_id ''damage''" "is_valid_opaque_id ''hero-1''"
    "is_valid_opaque_id ''seed-1''" "is_valid_opaque_id ''bless''" "is_valid_opaque_id ''str''"
    by code_simp+
  have lt: "''bless'' < ''str''" by code_simp
  have e: "expression_valid (rr_expression (strike_record\<lparr>rr_total := n\<rparr>))"
    "modifiers_fit (rr_modifier_components (strike_record\<lparr>rr_total := n\<rparr>))" for n
    by (simp_all add: strike_record_def expression_valid_def validate_expression_parts_iff modifiers_fit_def
      is_i32_def)
  have "record_sound strike_record" "\<not> record_sound (strike_record\<lparr>rr_total := 11\<rparr>)"
    using ids lt
    by (simp_all add: record_sound_def strike_record_def modifiers_total_def words_spent_def)
  with record_validation_exact [OF e, of 10] record_validation_exact [OF e, of 11] show ?thesis
    by (simp add: strike_record_def)
qed

text \<open>The encounter's dice leave a gapless trail: whatever sequence of dice is asked of the adapter,
  the cursor spans it records follow on from one another, from the cursor it was made with to the
  generator's, every recorded value is a face of its die, and the stream is untouched.\<close>

theorem adapter_trail_is_contiguous:
  assumes "list_all (\<lambda>sides. sides \<le> u16_max) asked"
  shows "contiguous (cursor rng)
      (ad_spans (fold (\<lambda>sides a. snd (adapter_roll sides a)) asked (adapter_new rng)))
      (cursor (ad_rng (fold (\<lambda>sides a. snd (adapter_roll sides a)) asked (adapter_new rng)))) \<and>
    list_all (\<lambda>s. 1 \<le> dc_value s \<and> dc_value s \<le> dc_sides s)
      (ad_spans (fold (\<lambda>sides a. snd (adapter_roll sides a)) asked (adapter_new rng))) \<and>
    inner (ad_rng (fold (\<lambda>sides a. snd (adapter_roll sides a)) asked (adapter_new rng))) = inner rng"
proof -
  have "adapter_inv rng (fold (\<lambda>sides a. snd (adapter_roll sides a)) asked a)"
    if "adapter_inv rng a" for a
    using that assms by (induction asked arbitrary: a) (auto intro: adapter_inv_roll)
  from this [OF adapter_inv_new] show ?thesis
    by (simp add: adapter_inv_def list_all_iff)
qed

theorem adapter_trail_is_contiguous_witness:
  "list_all (\<lambda>s. 1 \<le> dc_value s \<and> dc_value s \<le> dc_sides s)
     (ad_spans (fold (\<lambda>sides a. snd (adapter_roll sides a)) [20, 8, 0] (adapter_new ramp)))"
proof -
  have "list_all (\<lambda>sides. sides \<le> u16_max) [20, 8, 0]" by (simp add: u16_max_def)
  from adapter_trail_is_contiguous [OF this] show ?thesis by blast
qed

end
