(* ===== verification/Encounter_Types.thy ===== *)
theory Encounter_Types
  imports Turn_Flow Spells
begin

text \<open>
  The data of \<open>encounter.rs\<close>: the pinned identifiers, commands and intents, combatants, turn
  resources, initiative, objectives, the live state of schema version 3 and the state of an
  encounter, with the constructors that build it. A \<open>reason\<close> string of an error is a
  constructor of the fault type of the part it speaks of.
\<close>

section \<open>Pinned identifiers and constants\<close>

definition legacy_encounter_schema_version :: u16 where "legacy_encounter_schema_version = 1"
definition live_v2_encounter_schema_version :: u16 where "live_v2_encounter_schema_version = 2"
definition encounter_schema_version :: u16 where "encounter_schema_version = 3"
definition encounter_ruleset_id :: string where "encounter_ruleset_id = ''srd-5.1-cc''"
definition legacy_encounter_content_pack_id :: string where
  "legacy_encounter_content_pack_id = ''manchester-arcana-content:v1''"
definition encounter_content_pack_id :: string where
  "encounter_content_pack_id = ''manchester-arcana-content:v2''"
definition soot_wight_encounter_id :: string where
  "soot_wight_encounter_id = ''manchester-arcana-content:v1:encounter:soot-wight-at-viaduct''"
definition canal_warden_id :: string where
  "canal_warden_id = ''manchester-arcana-content:v1:hero:canal-warden''"
definition soot_wight_id :: string where
  "soot_wight_id = ''manchester-arcana-content:v1:creature:soot-wight''"
definition canal_warden_attack_id :: string where
  "canal_warden_attack_id = ''srd-5.1-cc:attack:canal-warden-longsword''"
definition soot_wight_attack_id :: string where
  "soot_wight_attack_id = ''manchester-arcana-content:v1:attack:soot-claw''"
definition soot_wight_policy_id :: string where
  "soot_wight_policy_id = ''manchester-arcana-content:v1:policy:soot-wight-closed-v1''"
definition release_sluice_action_id :: string where
  "release_sluice_action_id = ''manchester-arcana-content:v1:context:release-cleansing-sluice''"
definition second_wind_action_id :: string where
  "second_wind_action_id = ''srd-5.1-cc:feature:second-wind''"
definition defeat_soot_wight_objective_id :: string where
  "defeat_soot_wight_objective_id = ''manchester-arcana-content:v1:objective:defeat-soot-wight''"
definition release_sluice_objective_id :: string where
  "release_sluice_objective_id = ''manchester-arcana-content:v1:objective:release-cleansing-sluice''"
definition exploration_destination_id :: string where
  "exploration_destination_id = ''manchester-arcana-content:v1:scene:viaduct-aftermath''"
definition viaduct_rune_object_id :: string where
  "viaduct_rune_object_id = ''manchester-arcana-content:v2:object:viaduct-rune-stone''"
definition sluice_lever_object_id :: string where
  "sluice_lever_object_id = ''manchester-arcana-content:v2:object:cleansing-sluice-lever''"
definition mage_hand_id :: string where
  "mage_hand_id = ''manchester-arcana-content:v2:effect:mage-hand''"
definition post_encounter_rest_boundary_id :: string where
  "post_encounter_rest_boundary_id = ''manchester-arcana-content:v2:boundary:viaduct-aftermath-safe''"
definition hit_die_action_id :: string where
  "hit_die_action_id = ''srd-5.1-cc:rest:spend-hit-die''"

definition battlefield_min_feet :: u16 where "battlefield_min_feet = 0"
definition battlefield_max_feet :: u16 where "battlefield_max_feet = 60"
definition sluice_position_feet :: u16 where "sluice_position_feet = 10"
definition context_range_feet :: u16 where "context_range_feet = 5"
definition hero_maximum_hit_points :: u16 where "hero_maximum_hit_points = 12"
definition creature_maximum_hit_points :: u16 where "creature_maximum_hit_points = 9"
definition short_rest_minutes :: u64 where "short_rest_minutes = 60"
definition long_rest_minutes :: u64 where "long_rest_minutes = 480"

lemmas schema_versions = legacy_encounter_schema_version_def live_v2_encounter_schema_version_def
  encounter_schema_version_def

text \<open>The identifiers are opaque to the proofs: all that matters is that they differ and are valid.\<close>

lemma actor_ids_differ [simp]: "canal_warden_id \<noteq> soot_wight_id" "soot_wight_id \<noteq> canal_warden_id"
  by (simp_all add: canal_warden_id_def soot_wight_id_def)

lemma object_ids_differ [simp]:
  "viaduct_rune_object_id \<noteq> sluice_lever_object_id" "sluice_lever_object_id \<noteq> viaduct_rune_object_id"
  by (simp_all add: viaduct_rune_object_id_def sluice_lever_object_id_def)

lemma pinned_ids:
  "list_all is_valid_opaque_id
     [soot_wight_encounter_id, canal_warden_id, soot_wight_id, canal_warden_attack_id,
      soot_wight_attack_id, second_wind_action_id, hit_die_action_id, viaduct_rune_object_id,
      sluice_lever_object_id, mage_hand_id, release_sluice_action_id]"
  by code_simp

lemma pinned_ids_valid [simp]:
  "is_valid_opaque_id soot_wight_encounter_id" "is_valid_opaque_id canal_warden_id"
  "is_valid_opaque_id soot_wight_id" "is_valid_opaque_id canal_warden_attack_id"
  "is_valid_opaque_id soot_wight_attack_id" "is_valid_opaque_id second_wind_action_id"
  "is_valid_opaque_id hit_die_action_id" "is_valid_opaque_id viaduct_rune_object_id"
  "is_valid_opaque_id sluice_lever_object_id" "is_valid_opaque_id mage_hand_id"
  "is_valid_opaque_id release_sluice_action_id"
  using pinned_ids by simp_all

section \<open>Errors\<close>

datatype command_fault =
    SchemaUnsupported | IntentNeedsV2 | IntentNeedsV3 | CommandIdentifiers | AttackIdentifiers
  | ContextIdentifier | SpellTargetIdentifier | ObjectIdentifier | SchemaMismatch

datatype combatant_fault =
    AttackShape | HeroResourcesInvalid | ConstitutionOutOfRange | SpellcastingSnapshotInvalid
  | ClassSpellcastingMismatch | HeroProfileInvalid | CombatantShape | CombatantAttacks
  | StatusEffectsRepeated | ConsciousWithoutHitPoints | DownWithHitPoints | StableWithoutSaves
  | DeadWithoutFailures | CreatureHeroFields | CreatureLifeStatus | ConsciousWithDeathSaves
  | UnconsciousTerminalSaves

datatype encounter_fault =
    ReplaySchema | ContentPins | LegacyWithRules | HistoricalWithLive | FixedParticipants
  | HeroNeitherLegacyNorSnapshot | LegacyHeroWithRules | RulesNeedConstitution
  | OpeningOrObjective | PendingNeedsVeil | CompletedKeepsVeil | ReadyWithProgress
  | ActiveNeedsInitiative | ActiveNeedsActorIndex | ActiveShape | ActiveNeedsResources
  | MovementExceedsSpeed | ResourcesUnreachable | InitiativeCount | InitiativeUnknown
  | InitiativeEntryInvalid | InitiativeOrderInvalid | VictoryNeedsTransition | VictoryShape
  | DefeatNeedsTransition | DefeatShape | RecoveryRuntimeInvalid | RecoveryShape
  | RawDefeatShape | DestinationInvalid

datatype live_fault =
    LiveMissing | LiveObjectsCount | LiveObjectInvalid | HandInvalid | HandIdentity
  | HandWithoutPosition | HandPositionInconsistent | PositionOutlivesHand | SleepInconsistent
  | PendingNeedsResources | PendingNotAHit | WardInvalid | ShortRestOutsideBoundary
  | LongRestAhead | ReadyWithLiveProgress

datatype roll_facts_fault =
    RollIdentity | RollTooManyDice | RollKeptIndices | RollKeptWrong | RollModeInconsistent
  | RollModifierIds | RollTotalMismatch | RollModifiersOverflow | RollExpressionMismatch
  | RollNaturalMismatch | RollShape | RollAttackOutcome | RollDeathSaveOutcome | RollOutcome
  | RollRequestInvalid | RollsTooMany | RollsNotContiguous | EnvelopeInvalid
  | LegacyWithV2Mechanics | HistoricalWithV3Mechanics

datatype handler_fault =
    BonusActionResources | NoCurrentActor | ActorNeitherConsciousNorSaving | NoTurnResources
  | NoActorAttack | NoTarget | AvailabilityUnderivable | EffectOmitted | WrongEffect | SlotsAbsent
  | PoolOmitted | SleepRollOmitted | ArmorClassRange | AttackTotalRange | DamageOutOfRange
  | UnexpectedTarget | UnexpectedDamageType | MixedDamageTypes | SpellDamageOverflow
  | CampaignTimeOverflow | RecoveryNeedsTransition | RestNeedsConstitution | ActorIndexOutside
  | ActorNotParticipant | AdvanceNeedsInitiative | AdvanceNeedsActor

datatype intent_fault =
    AlreadyStarted | MustChangePosition | DeadTarget | ActionSpent | RulesUnavailable
  | ObjectUnavailable | NotALegalAction | NoRulesSnapshot | NoSpellcasting | SpellNotExposed
  | ContextUnavailable | SluiceReleased | TooFarFromSluice | InteractionSpent
  | NotADeathSave | NotActive | ActorCannotAct

datatype policy_fault = WightNotCurrent | PolicyWithoutAction

text \<open>
  The variant \<open>InvalidState { reason }\<close> is split by the part of the state its reason speaks of.
  \<open>EncPanic\<close> stands for the panics of \<open>expect\<close> and of indexing, which unwind out of the
  operation and leave no successor state.
\<close>

datatype encounter_error =
    InvalidCommand command_fault
  | InvalidCombatant combatant_fault
  | InvalidEncounter encounter_fault
  | InvalidLive live_fault
  | InvalidRollFacts roll_facts_fault
  | InvalidHandling handler_fault
  | WrongEncounter string string
  | RevisionConflict nat nat
  | RevisionOverflow
  | IllegalIntent intent_fault
  | PlayerControlUnavailable string
  | PolicyUnavailable policy_fault
  | AttackUnavailable string string
  | InvalidTarget string string
  | TargetOutOfRange u16 u16
  | InvalidDestination u16
  | MovementTooFar u16 u16
  | InvalidRoll u16 u16
  | RoundOverflow
  | InvalidCorrection
  | EncPanic

type_synonym 'a enc_result = "(encounter_error, 'a) result"

section \<open>Intents and commands\<close>

datatype encounter_intent =
    StartEncounter
  | MoveTo u16
  | AttackTarget string string
  | ContextAction string
  | CastSpell spell_id string
  | LightOn string
  | MageHandAt string
  | MoveMageHand string
  | DismissMageHand
  | SleepSpell
  | ShieldReaction
  | DeclineReaction
  | SecondWind
  | ActionSurge
  | BeginShortRest
  | SpendHitDie
  | UseArcaneRecovery
  | FinishShortRest
  | TakeLongRest
  | EndTurn
  | RollDeathSave

fun intent_requires_v3 :: "encounter_intent \<Rightarrow> bool" where
  "intent_requires_v3 (LightOn _) = True"
| "intent_requires_v3 (MageHandAt _) = True"
| "intent_requires_v3 (MoveMageHand _) = True"
| "intent_requires_v3 DismissMageHand = True"
| "intent_requires_v3 SleepSpell = True"
| "intent_requires_v3 ShieldReaction = True"
| "intent_requires_v3 DeclineReaction = True"
| "intent_requires_v3 BeginShortRest = True"
| "intent_requires_v3 SpendHitDie = True"
| "intent_requires_v3 UseArcaneRecovery = True"
| "intent_requires_v3 FinishShortRest = True"
| "intent_requires_v3 TakeLongRest = True"
| "intent_requires_v3 _ = False"

record encounter_command =
  ec_schema_version :: u16
  ec_encounter_id :: string
  ec_expected_revision :: u64
  ec_idempotency_key :: string
  ec_intent :: encounter_intent

definition command_new :: "u64 \<Rightarrow> string \<Rightarrow> encounter_intent \<Rightarrow> encounter_command" where
  "command_new expected_revision key intent =
     \<lparr>ec_schema_version = encounter_schema_version, ec_encounter_id = soot_wight_encounter_id,
      ec_expected_revision = expected_revision, ec_idempotency_key = key, ec_intent = intent\<rparr>"

definition supported_schema :: "u16 \<Rightarrow> bool" where
  "supported_schema v \<longleftrightarrow> v = legacy_encounter_schema_version \<or> v = live_v2_encounter_schema_version
     \<or> v = encounter_schema_version"

fun intent_requires_v2 :: "encounter_intent \<Rightarrow> bool" where
  "intent_requires_v2 (CastSpell _ _) = True"
| "intent_requires_v2 SecondWind = True"
| "intent_requires_v2 ActionSurge = True"
| "intent_requires_v2 _ = False"

fun intent_ids_validate :: "encounter_intent \<Rightarrow> unit enc_result" where
  "intent_ids_validate (AttackTarget attack_id target_id) =
     ensure (is_valid_opaque_id attack_id \<and> is_valid_opaque_id target_id) (InvalidCommand AttackIdentifiers)"
| "intent_ids_validate (ContextAction action_id) =
     ensure (is_valid_opaque_id action_id) (InvalidCommand ContextIdentifier)"
| "intent_ids_validate (CastSpell _ target_id) =
     ensure (is_valid_opaque_id target_id) (InvalidCommand SpellTargetIdentifier)"
| "intent_ids_validate (LightOn object_id) =
     ensure (is_valid_opaque_id object_id) (InvalidCommand ObjectIdentifier)"
| "intent_ids_validate (MageHandAt object_id) =
     ensure (is_valid_opaque_id object_id) (InvalidCommand ObjectIdentifier)"
| "intent_ids_validate (MoveMageHand object_id) =
     ensure (is_valid_opaque_id object_id) (InvalidCommand ObjectIdentifier)"
| "intent_ids_validate _ = Ok ()"

definition command_validate :: "encounter_command \<Rightarrow> unit enc_result" where
  "command_validate c =
     (if \<not> supported_schema (ec_schema_version c) then Err (InvalidCommand SchemaUnsupported)
      else if ec_schema_version c = legacy_encounter_schema_version \<and> intent_requires_v2 (ec_intent c)
      then Err (InvalidCommand IntentNeedsV2)
      else if ec_schema_version c < encounter_schema_version \<and> intent_requires_v3 (ec_intent c)
      then Err (InvalidCommand IntentNeedsV3)
      else if \<not> is_valid_opaque_id (ec_encounter_id c) \<or> \<not> is_valid_opaque_id (ec_idempotency_key c)
        \<or> ec_expected_revision c = 0
      then Err (InvalidCommand CommandIdentifiers)
      else intent_ids_validate (ec_intent c))"

section \<open>Combatants\<close>

datatype opening_consequence = RunesUnderstood | RunesMisread

datatype status_effect = RuneWard | SootVeil | MagicallyAsleep

datatype combatant_kind = HeroKind | CreatureKind

datatype life_status = LifeConscious | LifeUnconscious | LifeStable | LifeDead

datatype enc_damage_type =
    EncBludgeoning | EncPiercing | EncSlashing | EncNecrotic | EncFire | EncForce

record roll_modifier_fact =
  mf_source_id :: string
  mf_value :: i16

record hit_points =
  hp_current :: u16
  hp_maximum :: u16
  hp_temporary :: u16
  hp_death_saves :: death_save_tally

record encounter_attack =
  ea_attack_id :: string
  ea_range_feet :: u16
  ea_attack_modifiers :: "roll_modifier_fact list"
  ea_damage_die_sides :: u16
  ea_damage_modifier :: roll_modifier_fact
  ea_damage_type :: enc_damage_type

record combatant_state =
  cb_id :: string
  cb_name :: string
  cb_kind :: combatant_kind
  cb_source_character_id :: "string option"
  cb_armor_class :: u16
  cb_speed_feet :: u16
  cb_initiative_modifier :: i8
  cb_position_feet :: u16
  cb_hit_points :: hit_points
  cb_life_status :: life_status
  cb_status_effects :: "status_effect list"
  cb_attacks :: "encounter_attack list"

record hero_rules_profile =
  hrp_runtime_resources :: runtime_resources
  hrp_spellcasting :: "spellcasting_state option"
  hrp_constitution_modifier :: "i8 option"

record encounter_hero_profile =
  ehp_source_character_id :: string
  ehp_name :: string
  ehp_armor_class :: u16
  ehp_speed_feet :: u16
  ehp_initiative_modifier :: i8
  ehp_current_hit_points :: u16
  ehp_maximum_hit_points :: u16
  ehp_attacks :: "encounter_attack list"
  ehp_rules :: "hero_rules_profile option"

text \<open>\<open>try_fold\<close> of \<open>checked_add\<close> over the modifiers, in \<open>i16\<close> and \<open>i32\<close>.\<close>

fun modifier_total_i16 :: "int \<Rightarrow> roll_modifier_fact list \<Rightarrow> int option" where
  "modifier_total_i16 acc [] = Some acc"
| "modifier_total_i16 acc (m # ms) =
     Option.bind (checked_add_i16 acc (mf_value m)) (\<lambda>acc. modifier_total_i16 acc ms)"

definition attack_validate :: "encounter_attack \<Rightarrow> unit enc_result" where
  "attack_validate a =
     (if \<not> is_valid_opaque_id (ea_attack_id a) \<or> ea_range_feet a = 0 \<or> ea_range_feet a > 320
        \<or> ea_attack_modifiers a = [] \<or> length (ea_attack_modifiers a) > 4
        \<or> \<not> distinct (map mf_source_id (ea_attack_modifiers a))
        \<or> list_ex (\<lambda>m. \<not> is_valid_opaque_id (mf_source_id m)) (ea_attack_modifiers a)
        \<or> modifier_total_i16 0 (ea_attack_modifiers a) = None
        \<or> \<not> is_valid_opaque_id (mf_source_id (ea_damage_modifier a))
        \<or> ea_damage_die_sides a \<notin> {4, 6, 8, 10, 12}
      then Err (InvalidCombatant AttackShape) else Ok ())"

definition hero_rules_validate :: "hero_rules_profile \<Rightarrow> unit enc_result" where
  "hero_rules_validate r =
     and_then (map_err (\<lambda>_. InvalidCombatant HeroResourcesInvalid)
                (resources_validate (hrp_runtime_resources r))) (\<lambda>_.
       if (case hrp_constitution_modifier r of None \<Rightarrow> False | Some c \<Rightarrow> \<not> (-5 \<le> c \<and> c \<le> 10))
       then Err (InvalidCombatant ConstitutionOutOfRange)
       else (case (rs_class (hrp_runtime_resources r), hrp_spellcasting r) of
           (Fighter, None) \<Rightarrow> Ok ()
         | (Wizard, Some sc) \<Rightarrow>
             if sp_caster_id sc = canal_warden_id
             then map_err (\<lambda>_. InvalidCombatant SpellcastingSnapshotInvalid) (spellcasting_validate sc)
             else Err (InvalidCombatant ClassSpellcastingMismatch)
         | _ \<Rightarrow> Err (InvalidCombatant ClassSpellcastingMismatch)))"

definition hero_profile_validate :: "encounter_hero_profile \<Rightarrow> unit enc_result" where
  "hero_profile_validate p =
     (if \<not> is_valid_opaque_id (ehp_source_character_id p) \<or> is_blank (ehp_name p)
        \<or> chars_count (ehp_name p) > 120 \<or> ehp_armor_class p = 0 \<or> ehp_speed_feet p = 0
        \<or> \<not> 5 dvd ehp_speed_feet p \<or> ehp_current_hit_points p = 0
        \<or> ehp_current_hit_points p > ehp_maximum_hit_points p
        \<or> ehp_attacks p = [] \<or> length (ehp_attacks p) > 8
        \<or> \<not> distinct (map ea_attack_id (ehp_attacks p))
      then Err (InvalidCombatant HeroProfileInvalid)
      else and_then (check_each attack_validate (ehp_attacks p)) (\<lambda>_.
        case ehp_rules p of None \<Rightarrow> Ok () | Some r \<Rightarrow> hero_rules_validate r))"

record encounter_map =
  map_minimum_position_feet :: u16
  map_maximum_position_feet :: u16
  map_sluice_position_feet :: u16
  map_context_range_feet :: u16

definition hero_profile_fields_valid :: "combatant_state \<Rightarrow> bool" where
  "hero_profile_fields_valid c \<longleftrightarrow>
     cb_kind c = HeroKind \<and> cb_source_character_id c \<noteq> None \<and> cb_attacks c \<noteq> []"

text \<open>The conditions on life status, hit points and death saves that \<open>validate\<close> tests in turn.\<close>

definition combatant_life_validate :: "combatant_state \<Rightarrow> unit enc_result" where
  "combatant_life_validate c =
     (let hp = cb_hit_points c; life = cb_life_status c; saves = hp_death_saves hp in
      if life = LifeConscious \<and> hp_current hp = 0
      then Err (InvalidCombatant ConsciousWithoutHitPoints)
      else if life \<noteq> LifeConscious \<and> hp_current hp \<noteq> 0 then Err (InvalidCombatant DownWithHitPoints)
      else if life = LifeStable \<and> ds_successes saves \<noteq> 3 then Err (InvalidCombatant StableWithoutSaves)
      else if life = LifeDead \<and> cb_kind c = HeroKind \<and> ds_failures saves \<noteq> 3
      then Err (InvalidCombatant DeadWithoutFailures)
      else if cb_kind c = CreatureKind
        \<and> (cb_source_character_id c \<noteq> None \<or> cb_attacks c \<noteq> [] \<or> saves \<noteq> tally_default)
      then Err (InvalidCombatant CreatureHeroFields)
      else if cb_kind c = CreatureKind \<and> life \<noteq> LifeConscious \<and> life \<noteq> LifeDead
      then Err (InvalidCombatant CreatureLifeStatus)
      else if cb_kind c = HeroKind \<and> life = LifeConscious \<and> saves \<noteq> tally_default
      then Err (InvalidCombatant ConsciousWithDeathSaves)
      else if cb_kind c = HeroKind \<and> life = LifeUnconscious
        \<and> (ds_successes saves \<ge> 3 \<or> ds_failures saves \<ge> 3)
      then Err (InvalidCombatant UnconsciousTerminalSaves)
      else Ok ())"

definition combatant_validate :: "encounter_map \<Rightarrow> combatant_state \<Rightarrow> unit enc_result" where
  "combatant_validate mp c =
     (let hp = cb_hit_points c in
      if \<not> is_valid_opaque_id (cb_id c) \<or> is_blank (cb_name c) \<or> chars_count (cb_name c) > 120
        \<or> (case cb_source_character_id c of None \<Rightarrow> False | Some i \<Rightarrow> \<not> is_valid_opaque_id i)
        \<or> cb_armor_class c = 0 \<or> cb_speed_feet c = 0
        \<or> cb_position_feet c < map_minimum_position_feet mp
        \<or> cb_position_feet c > map_maximum_position_feet mp \<or> \<not> 5 dvd cb_position_feet c
        \<or> hp_maximum hp = 0 \<or> hp_current hp > hp_maximum hp \<or> hp_temporary hp > hp_maximum hp
        \<or> ds_successes (hp_death_saves hp) > 3 \<or> ds_failures (hp_death_saves hp) > 3
      then Err (InvalidCombatant CombatantShape)
      else if length (cb_attacks c) > 8 \<or> \<not> distinct (map ea_attack_id (cb_attacks c))
      then Err (InvalidCombatant CombatantAttacks)
      else and_then (check_each attack_validate (cb_attacks c)) (\<lambda>_.
        if \<not> distinct (cb_status_effects c) then Err (InvalidCombatant StatusEffectsRepeated)
        else combatant_life_validate c))"

section \<open>Turns, initiative, objectives and outcomes\<close>

record turn_resources =
  tr_action_available :: bool
  tr_movement_remaining_feet :: u16
  tr_bonus_action_available :: bool
  tr_reaction_available :: bool
  tr_object_interaction_available :: bool

definition turn_economy :: "turn_resources \<Rightarrow> action_economy" where
  "turn_economy r =
     \<lparr>action_available = tr_action_available r, bonus_action_available = tr_bonus_action_available r,
      reaction_available = tr_reaction_available r,
      object_interaction_available = tr_object_interaction_available r,
      movement_remaining_feet = tr_movement_remaining_feet r\<rparr>"

definition resources_from_economy :: "action_economy \<Rightarrow> turn_resources" where
  "resources_from_economy e =
     \<lparr>tr_action_available = action_available e, tr_movement_remaining_feet = movement_remaining_feet e,
      tr_bonus_action_available = bonus_action_available e,
      tr_reaction_available = reaction_available e,
      tr_object_interaction_available = object_interaction_available e\<rparr>"

definition turn_resources_fresh :: "u16 \<Rightarrow> hero_rules_profile option \<Rightarrow> turn_resources enc_result" where
  "turn_resources_fresh speed_feet rules =
     (let economy = economy_new speed_feet in
      case rules of
        None \<Rightarrow> Ok (resources_from_economy economy)
      | Some r \<Rightarrow>
          (case grant_supported_bonus_action (hrp_runtime_resources r) economy of
             (Err _, _) \<Rightarrow> Err (InvalidHandling BonusActionResources)
           | (Ok _, economy) \<Rightarrow> Ok (resources_from_economy economy)))"

record initiative_entry =
  ie_participant_id :: string
  ie_natural_roll :: u8
  ie_modifier :: i8
  ie_total :: i16
  ie_tie_break_rank :: u8

datatype initiative_tie_breaker = HigherModifierThenStableId | StableId

record initiative_tie =
  it_total :: i16
  it_participant_ids :: "string list"
  it_resolved_by :: initiative_tie_breaker

record initiative_state =
  in_entries :: "initiative_entry list"
  in_order :: "string list"
  in_ties :: "initiative_tie list"

datatype objective_status = ObjPending | ObjCompleted | ObjFailed

record encounter_objective =
  eo_objective_id :: string
  eo_status :: objective_status

record encounter_objectives =
  obj_primary :: encounter_objective
  obj_contextual :: encounter_objective

datatype encounter_status = EncReady | EncActive | EncVictory | EncDefeat

datatype reward_tier = MinorReward | MajorReward

datatype ineligibility_reason = EncounterDefeat

datatype reward_eligibility = RewardPending | Eligible reward_tier | Ineligible ineligibility_reason

datatype encounter_outcome = OutcomeVictory | OutcomeDefeat

datatype defeat_reason = HeroUnconscious | HeroStable | HeroDead

record exploration_transition =
  tn_destination_id :: string
  tn_outcome :: encounter_outcome
  tn_defeat_reason :: "defeat_reason option"
  tn_hero_current_hit_points :: u16
  tn_hero_life_status :: life_status
  tn_story_recovery_applied :: bool

section \<open>The live state of schema version 3\<close>

record encounter_object =
  ob_object_id :: string
  ob_position_feet :: u16
  ob_maximum_dimension_feet :: u8
  ob_weight_pounds :: u8
  ob_is_magic_item :: bool
  ob_light_remaining_rounds :: "u16 option"

record sleep_state =
  sls_target_id :: string
  sls_remaining_rounds :: u16

record pending_attack_reaction =
  pr_actor_id :: string
  pr_target_id :: string
  pr_attack_id :: string
  pr_natural_roll :: u8
  pr_attack_total :: i32
  pr_armor_class :: u16
  pr_critical :: bool

datatype shield_expiry = StartOfCasterTurn

record shield_ward_state =
  swd_caster_id :: string
  swd_armor_class_bonus :: u8
  swd_immune_to_magic_missile :: bool
  swd_expiry :: shield_expiry

record short_rest_state =
  sr_boundary_id :: string
  sr_started_at_campaign_minute :: u64
  sr_completes_at_campaign_minute :: u64
  sr_hit_dice_spent :: u8
  sr_arcane_recovery_used :: bool

record live_state =
  lv_objects :: "encounter_object list"
  lv_mage_hand :: "mage_hand_state option"
  lv_mage_hand_position_feet :: "u16 option"
  lv_sleep :: "sleep_state option"
  lv_pending :: "pending_attack_reaction option"
  lv_shield_ward :: "shield_ward_state option"
  lv_hero_reaction_available :: bool
  lv_campaign_time_minutes :: u64
  lv_active_short_rest :: "short_rest_state option"
  lv_last_long_rest_minute :: "u64 option"

definition authored_object_at :: "string \<Rightarrow> u16 \<Rightarrow> encounter_object" where
  "authored_object_at object_id position =
     \<lparr>ob_object_id = object_id, ob_position_feet = position, ob_maximum_dimension_feet = 5,
      ob_weight_pounds = 10, ob_is_magic_item = False, ob_light_remaining_rounds = None\<rparr>"

definition live_new :: live_state where
  "live_new =
     \<lparr>lv_objects = [authored_object_at viaduct_rune_object_id 0,
                    authored_object_at sluice_lever_object_id sluice_position_feet],
      lv_mage_hand = None, lv_mage_hand_position_feet = None, lv_sleep = None, lv_pending = None,
      lv_shield_ward = None, lv_hero_reaction_available = True, lv_campaign_time_minutes = 0,
      lv_active_short_rest = None, lv_last_long_rest_minute = None\<rparr>"

section \<open>The state of an encounter\<close>

record encounter_state =
  en_schema_version :: u16
  en_encounter_id :: string
  en_ruleset_id :: string
  en_content_pack_id :: string
  en_revision :: u64
  en_lethality_policy :: lethality_policy
  en_opening_consequence :: opening_consequence
  en_map :: encounter_map
  en_hero :: combatant_state
  en_hero_rules :: "hero_rules_profile option"
  en_creature :: combatant_state
  en_initiative :: "initiative_state option"
  en_round :: u32
  en_current_actor_index :: "u8 option"
  en_current_actor_id :: "string option"
  en_turn_resources :: "turn_resources option"
  en_objectives :: encounter_objectives
  en_status :: encounter_status
  en_reward_eligibility :: reward_eligibility
  en_transition :: "exploration_transition option"
  en_live :: "live_state option"

definition battlefield :: encounter_map where
  "battlefield =
     \<lparr>map_minimum_position_feet = battlefield_min_feet, map_maximum_position_feet = battlefield_max_feet,
      map_sluice_position_feet = sluice_position_feet, map_context_range_feet = context_range_feet\<rparr>"

fun opening_temporary :: "opening_consequence \<Rightarrow> u16 \<times> u16" where
  "opening_temporary RunesUnderstood = (2, 2)"
| "opening_temporary RunesMisread = (0, 4)"

fun opening_effects :: "opening_consequence \<Rightarrow> status_effect list" where
  "opening_effects RunesUnderstood = [RuneWard]"
| "opening_effects RunesMisread = []"

definition fixed_hero :: "opening_consequence \<Rightarrow> combatant_state" where
  "fixed_hero opening =
     \<lparr>cb_id = canal_warden_id, cb_name = ''Canal Warden'', cb_kind = HeroKind,
      cb_source_character_id = None, cb_armor_class = 18, cb_speed_feet = 30,
      cb_initiative_modifier = 2, cb_position_feet = 0,
      cb_hit_points = \<lparr>hp_current = hero_maximum_hit_points, hp_maximum = hero_maximum_hit_points,
                       hp_temporary = fst (opening_temporary opening), hp_death_saves = tally_default\<rparr>,
      cb_life_status = LifeConscious, cb_status_effects = opening_effects opening, cb_attacks = []\<rparr>"

definition fixed_creature :: "opening_consequence \<Rightarrow> combatant_state" where
  "fixed_creature opening =
     \<lparr>cb_id = soot_wight_id, cb_name = ''Soot Wight'', cb_kind = CreatureKind,
      cb_source_character_id = None, cb_armor_class = 12, cb_speed_feet = 25,
      cb_initiative_modifier = 1, cb_position_feet = 30,
      cb_hit_points = \<lparr>hp_current = creature_maximum_hit_points, hp_maximum = creature_maximum_hit_points,
                       hp_temporary = snd (opening_temporary opening), hp_death_saves = tally_default\<rparr>,
      cb_life_status = LifeConscious, cb_status_effects = [SootVeil], cb_attacks = []\<rparr>"

definition encounter_new :: "lethality_policy \<Rightarrow> opening_consequence \<Rightarrow> encounter_state" where
  "encounter_new policy opening =
     \<lparr>en_schema_version = encounter_schema_version, en_encounter_id = soot_wight_encounter_id,
      en_ruleset_id = encounter_ruleset_id, en_content_pack_id = encounter_content_pack_id,
      en_revision = 1, en_lethality_policy = policy, en_opening_consequence = opening,
      en_map = battlefield, en_hero = fixed_hero opening, en_hero_rules = None,
      en_creature = fixed_creature opening, en_initiative = None, en_round = 0,
      en_current_actor_index = None, en_current_actor_id = None, en_turn_resources = None,
      en_objectives =
        \<lparr>obj_primary = \<lparr>eo_objective_id = defeat_soot_wight_objective_id, eo_status = ObjPending\<rparr>,
         obj_contextual = \<lparr>eo_objective_id = release_sluice_objective_id, eo_status = ObjPending\<rparr>\<rparr>,
      en_status = EncReady, en_reward_eligibility = RewardPending, en_transition = None,
      en_live = Some live_new\<rparr>"

definition enc_hero_profile :: "encounter_state \<Rightarrow> encounter_hero_profile option" where
  "enc_hero_profile s =
     (case cb_source_character_id (en_hero s) of
        None \<Rightarrow> None
      | Some i \<Rightarrow> Some
          \<lparr>ehp_source_character_id = i, ehp_name = cb_name (en_hero s),
           ehp_armor_class = cb_armor_class (en_hero s), ehp_speed_feet = cb_speed_feet (en_hero s),
           ehp_initiative_modifier = cb_initiative_modifier (en_hero s),
           ehp_current_hit_points = hp_current (cb_hit_points (en_hero s)),
           ehp_maximum_hit_points = hp_maximum (cb_hit_points (en_hero s)),
           ehp_attacks = cb_attacks (en_hero s), ehp_rules = en_hero_rules s\<rparr>)"

definition current_actor :: "encounter_state \<Rightarrow> combatant_state option" where
  "current_actor s =
     (case en_current_actor_id s of
        None \<Rightarrow> None
      | Some i \<Rightarrow>
          if i = canal_warden_id then Some (en_hero s)
          else if i = soot_wight_id then Some (en_creature s) else None)"

end
