(* ===== verification/Encounter_Valid.thy ===== *)
theory Encounter_Valid
  imports Encounter_Types
begin

text \<open>
  \<open>EncounterState::validate\<close> of \<open>encounter.rs\<close>: the pins, the participants, the live state,
  initiative, and what each status of the encounter requires; and the constructors that end in it.
\<close>

section \<open>Initiative\<close>

text \<open>
  The comparison of \<open>sort_by\<close>: higher total, then higher modifier, then the smaller identifier.
  \<open>sort_by\<close> is stable, like \<open>sort_key\<close>; the key reverses the two numbers.
\<close>

definition initiative_key :: "initiative_entry \<Rightarrow> int \<times> int \<times> string" where
  "initiative_key e = (- ie_total e, - ie_modifier e, ie_participant_id e)"

definition sort_initiative_entries :: "initiative_entry list \<Rightarrow> initiative_entry list" where
  "sort_initiative_entries es = sort_key initiative_key es"

fun rank_entries :: "nat \<Rightarrow> initiative_entry list \<Rightarrow> initiative_entry list" where
  "rank_entries n [] = []"
| "rank_entries n (e # es) = e\<lparr>ie_tie_break_rank := as_u8 n\<rparr> # rank_entries (Suc n) es"

definition initiative_ties :: "initiative_entry list \<Rightarrow> initiative_tie list" where
  "initiative_ties es =
     (if length es = 2 \<and> ie_total (es ! 0) = ie_total (es ! 1)
      then [\<lparr>it_total = ie_total (es ! 0), it_participant_ids = map ie_participant_id es,
             it_resolved_by =
               (if ie_modifier (es ! 0) = ie_modifier (es ! 1) then StableId
                else HigherModifierThenStableId)\<rparr>]
      else [])"

definition initiative_entry_validate :: "encounter_state \<Rightarrow> initiative_entry \<Rightarrow> unit enc_result" where
  "initiative_entry_validate s e =
     and_then
       (if ie_participant_id e = canal_warden_id then Ok (cb_initiative_modifier (en_hero s))
        else if ie_participant_id e = soot_wight_id then Ok (cb_initiative_modifier (en_creature s))
        else Err (InvalidEncounter InitiativeUnknown)) (\<lambda>expected.
       if \<not> (1 \<le> ie_natural_roll e \<and> ie_natural_roll e \<le> 20) \<or> ie_modifier e \<noteq> expected
         \<or> ie_total e \<noteq> int (ie_natural_roll e) + ie_modifier e
       then Err (InvalidEncounter InitiativeEntryInvalid) else Ok ())"

definition validate_initiative :: "encounter_state \<Rightarrow> unit enc_result" where
  "validate_initiative s =
     (case en_initiative s of
        None \<Rightarrow> Ok ()
      | Some i \<Rightarrow>
          if length (in_entries i) \<noteq> 2 \<or> length (in_order i) \<noteq> 2
          then Err (InvalidEncounter InitiativeCount)
          else and_then (check_each (initiative_entry_validate s) (in_entries i)) (\<lambda>_.
            let expected = rank_entries 0 (sort_initiative_entries (in_entries i));
                order = map ie_participant_id expected
            in if card (set order) \<noteq> 2 \<or> canal_warden_id \<notin> set order \<or> soot_wight_id \<notin> set order
                 \<or> in_entries i \<noteq> expected \<or> in_order i \<noteq> order
                 \<or> in_ties i \<noteq> initiative_ties (in_entries i)
               then Err (InvalidEncounter InitiativeOrderInvalid) else Ok ()))"

section \<open>Completion\<close>

definition validate_transition_destination :: "exploration_transition \<Rightarrow> unit enc_result" where
  "validate_transition_destination t =
     ensure (tn_destination_id t = exploration_destination_id) (InvalidEncounter DestinationInvalid)"

definition is_safe_rest_boundary :: "encounter_state \<Rightarrow> bool" where
  "is_safe_rest_boundary s \<longleftrightarrow>
     en_status s = EncVictory \<or>
     en_status s = EncDefeat \<and> en_lethality_policy s = StoryRecovery \<and>
     (case en_transition s of None \<Rightarrow> False | Some t \<Rightarrow> tn_story_recovery_applied t)"

definition validate_victory :: "encounter_state \<Rightarrow> unit enc_result" where
  "validate_victory s =
     and_then (ok_or (en_transition s) (InvalidEncounter VictoryNeedsTransition)) (\<lambda>t.
       if en_initiative s = None \<or> en_current_actor_index s \<noteq> None \<or> en_current_actor_id s \<noteq> None
         \<or> en_turn_resources s \<noteq> None \<or> cb_life_status (en_creature s) \<noteq> LifeDead
         \<or> hp_current (cb_hit_points (en_creature s)) \<noteq> 0
         \<or> eo_status (obj_primary (en_objectives s)) \<noteq> ObjCompleted
         \<or> (case en_reward_eligibility s of Eligible _ \<Rightarrow> False | _ \<Rightarrow> True)
         \<or> tn_outcome t \<noteq> OutcomeVictory \<or> tn_defeat_reason t \<noteq> None
         \<or> tn_hero_current_hit_points t \<noteq> hp_current (cb_hit_points (en_hero s))
         \<or> tn_hero_life_status t \<noteq> cb_life_status (en_hero s)
         \<or> tn_story_recovery_applied t \<or> cb_life_status (en_hero s) \<noteq> LifeConscious
       then Err (InvalidEncounter VictoryShape)
       else validate_transition_destination t)"

text \<open>The hero of a defeat, by the lethality policy.\<close>

definition validate_defeat_hero :: "encounter_state \<Rightarrow> exploration_transition \<Rightarrow> unit enc_result" where
  "validate_defeat_hero s t =
     (let hero = en_hero s; hit_points_now = hp_current (cb_hit_points hero); life = cb_life_status hero in
      case en_lethality_policy s of
        StoryRecovery \<Rightarrow>
          if en_schema_version s = encounter_schema_version
            \<and> (case en_live s of None \<Rightarrow> False | Some l \<Rightarrow> lv_campaign_time_minutes l > 0)
          then ensure (\<not> (life \<noteq> LifeConscious \<or> hit_points_now = 0
                 \<or> tn_hero_current_hit_points t \<noteq> hit_points_now \<or> tn_hero_life_status t \<noteq> life
                 \<or> \<not> tn_story_recovery_applied t)) (InvalidEncounter RecoveryRuntimeInvalid)
          else ensure (\<not> (life \<noteq> LifeUnconscious \<or> hit_points_now \<noteq> 0
                 \<or> tn_hero_current_hit_points t \<noteq> 1 \<or> tn_hero_life_status t \<noteq> LifeConscious
                 \<or> \<not> tn_story_recovery_applied t)) (InvalidEncounter RecoveryShape)
      | RulesAsWritten \<Rightarrow>
          ensure (\<not> ((life \<noteq> LifeStable \<and> life \<noteq> LifeDead)
                 \<or> tn_hero_current_hit_points t \<noteq> hit_points_now \<or> tn_hero_life_status t \<noteq> life
                 \<or> tn_story_recovery_applied t)) (InvalidEncounter RawDefeatShape))"

definition validate_defeat :: "encounter_state \<Rightarrow> unit enc_result" where
  "validate_defeat s =
     and_then (ok_or (en_transition s) (InvalidEncounter DefeatNeedsTransition)) (\<lambda>t.
       if en_initiative s = None \<or> en_current_actor_index s \<noteq> None \<or> en_current_actor_id s \<noteq> None
         \<or> en_turn_resources s \<noteq> None \<or> eo_status (obj_primary (en_objectives s)) \<noteq> ObjFailed
         \<or> (case en_reward_eligibility s of Ineligible EncounterDefeat \<Rightarrow> False | _ \<Rightarrow> True)
         \<or> tn_outcome t \<noteq> OutcomeDefeat \<or> tn_defeat_reason t = None
       then Err (InvalidEncounter DefeatShape)
       else and_then (validate_defeat_hero s t) (\<lambda>_. validate_transition_destination t))"

section \<open>The live state\<close>

definition enc_distance :: "u16 \<Rightarrow> u16 \<Rightarrow> u16" where
  "enc_distance a b = abs_diff a b"

definition object_validate :: "encounter_object \<times> string \<times> u16 \<Rightarrow> unit enc_result" where
  "object_validate x =
     (let (ob, expected_id, expected_position) = x in
      if ob_object_id ob \<noteq> expected_id \<or> ob_position_feet ob \<noteq> expected_position
        \<or> ob_maximum_dimension_feet ob \<noteq> 5 \<or> ob_weight_pounds ob \<noteq> 10 \<or> ob_is_magic_item ob
        \<or> (case ob_light_remaining_rounds ob of None \<Rightarrow> False | Some n \<Rightarrow> \<not> (1 \<le> n \<and> n \<le> 600))
      then Err (InvalidLive LiveObjectInvalid) else Ok ())"

definition live_hand_validate :: "encounter_state \<Rightarrow> live_state \<Rightarrow> unit enc_result" where
  "live_hand_validate s l =
     (case lv_mage_hand l of
        None \<Rightarrow> ensure (lv_mage_hand_position_feet l = None) (InvalidLive PositionOutlivesHand)
      | Some hand \<Rightarrow>
          and_then (map_err (\<lambda>_. InvalidLive HandInvalid) (mage_hand_validate hand)) (\<lambda>_.
            if mh_hand_id hand \<noteq> mage_hand_id \<or> mh_caster_id hand \<noteq> canal_warden_id
            then Err (InvalidLive HandIdentity)
            else and_then (ok_or (lv_mage_hand_position_feet l) (InvalidLive HandWithoutPosition)) (\<lambda>p.
              if p < map_minimum_position_feet (en_map s) \<or> p > map_maximum_position_feet (en_map s)
                \<or> \<not> 5 dvd p
                \<or> enc_distance (cb_position_feet (en_hero s)) p \<noteq> mh_distance_from_caster_feet hand
              then Err (InvalidLive HandPositionInconsistent) else Ok ())))"

definition live_sleep_validate :: "encounter_state \<Rightarrow> live_state \<Rightarrow> unit enc_result" where
  "live_sleep_validate s l =
     (let asleep = (MagicallyAsleep \<in> set (cb_status_effects (en_creature s))) in
      ensure
       (case lv_sleep l of
          Some x \<Rightarrow> sls_target_id x = soot_wight_id \<and> 1 \<le> sls_remaining_rounds x
            \<and> sls_remaining_rounds x \<le> 10 \<and> asleep \<and> cb_life_status (en_creature s) = LifeConscious
        | None \<Rightarrow> \<not> asleep)
       (InvalidLive SleepInconsistent))"

definition live_pending_validate :: "encounter_state \<Rightarrow> live_state \<Rightarrow> unit enc_result" where
  "live_pending_validate s l =
     (case lv_pending l of
        None \<Rightarrow> Ok ()
      | Some p \<Rightarrow>
          and_then (ok_or (en_turn_resources s) (InvalidLive PendingNeedsResources)) (\<lambda>r.
            if en_status s \<noteq> EncActive \<or> en_current_actor_id s \<noteq> Some soot_wight_id
              \<or> pr_actor_id p \<noteq> soot_wight_id \<or> pr_target_id p \<noteq> canal_warden_id
              \<or> pr_attack_id p \<noteq> soot_wight_attack_id
              \<or> \<not> (1 \<le> pr_natural_roll p \<and> pr_natural_roll p \<le> 20) \<or> pr_natural_roll p = 1
              \<or> (pr_natural_roll p \<noteq> 20 \<and> pr_attack_total p < int (pr_armor_class p))
              \<or> pr_armor_class p \<noteq> cb_armor_class (en_hero s)
              \<or> pr_critical p \<noteq> (pr_natural_roll p = 20)
              \<or> tr_action_available r \<or> lv_shield_ward l \<noteq> None
            then Err (InvalidLive PendingNotAHit) else Ok ()))"

definition live_ward_validate :: "encounter_state \<Rightarrow> live_state \<Rightarrow> unit enc_result" where
  "live_ward_validate s l =
     (case lv_shield_ward l of
        None \<Rightarrow> Ok ()
      | Some w \<Rightarrow>
          if swd_caster_id w \<noteq> canal_warden_id \<or> swd_armor_class_bonus w \<noteq> 5
            \<or> \<not> swd_immune_to_magic_missile w \<or> swd_expiry w \<noteq> StartOfCasterTurn
            \<or> en_status s \<noteq> EncActive \<or> en_current_actor_id s \<noteq> Some soot_wight_id
          then Err (InvalidLive WardInvalid) else Ok ())"

definition live_rest_validate :: "encounter_state \<Rightarrow> live_state \<Rightarrow> unit enc_result" where
  "live_rest_validate s l =
     (case lv_active_short_rest l of
        None \<Rightarrow> Ok ()
      | Some r \<Rightarrow>
          if \<not> is_safe_rest_boundary s \<or> sr_boundary_id r \<noteq> post_encounter_rest_boundary_id
            \<or> checked_add u64_max (sr_started_at_campaign_minute r) short_rest_minutes
                \<noteq> Some (sr_completes_at_campaign_minute r)
            \<or> sr_completes_at_campaign_minute r \<noteq> lv_campaign_time_minutes l
          then Err (InvalidLive ShortRestOutsideBoundary) else Ok ())"

definition live_progressed :: "live_state \<Rightarrow> bool" where
  "live_progressed l \<longleftrightarrow>
     lv_mage_hand l \<noteq> None \<or> lv_mage_hand_position_feet l \<noteq> None \<or> lv_sleep l \<noteq> None
     \<or> lv_pending l \<noteq> None \<or> lv_shield_ward l \<noteq> None \<or> lv_active_short_rest l \<noteq> None
     \<or> lv_campaign_time_minutes l \<noteq> 0 \<or> lv_last_long_rest_minute l \<noteq> None
     \<or> list_ex (\<lambda>ob. ob_light_remaining_rounds ob \<noteq> None) (lv_objects l)"

definition validate_live :: "encounter_state \<Rightarrow> unit enc_result" where
  "validate_live s =
     and_then (ok_or (en_live s) (InvalidLive LiveMissing)) (\<lambda>l.
       if length (lv_objects l) \<noteq> 2 then Err (InvalidLive LiveObjectsCount)
       else and_then (check_each object_validate
              [(lv_objects l ! 0, viaduct_rune_object_id, 0),
               (lv_objects l ! 1, sluice_lever_object_id, sluice_position_feet)]) (\<lambda>_.
         and_then (live_hand_validate s l) (\<lambda>_. and_then (live_sleep_validate s l) (\<lambda>_.
         and_then (live_pending_validate s l) (\<lambda>_. and_then (live_ward_validate s l) (\<lambda>_.
         and_then (live_rest_validate s l) (\<lambda>_.
           if (case lv_last_long_rest_minute l of None \<Rightarrow> False
                 | Some m \<Rightarrow> m > lv_campaign_time_minutes l)
           then Err (InvalidLive LongRestAhead)
           else if en_status s = EncReady \<and> live_progressed l
           then Err (InvalidLive ReadyWithLiveProgress) else Ok ())))))))"

section \<open>The whole state\<close>

definition validate_pins :: "encounter_state \<Rightarrow> unit enc_result" where
  "validate_pins s =
     (if \<not> supported_schema (en_schema_version s) \<or> en_encounter_id s \<noteq> soot_wight_encounter_id
        \<or> en_ruleset_id s \<noteq> encounter_ruleset_id
        \<or> en_content_pack_id s \<noteq>
            (if en_schema_version s = encounter_schema_version then encounter_content_pack_id
             else legacy_encounter_content_pack_id)
        \<or> en_revision s = 0
        \<or> map_minimum_position_feet (en_map s) \<noteq> battlefield_min_feet
        \<or> map_maximum_position_feet (en_map s) \<noteq> battlefield_max_feet
        \<or> map_sluice_position_feet (en_map s) \<noteq> sluice_position_feet
        \<or> map_context_range_feet (en_map s) \<noteq> context_range_feet
      then Err (InvalidEncounter ContentPins)
      else if en_schema_version s = legacy_encounter_schema_version \<and> en_hero_rules s \<noteq> None
      then Err (InvalidEncounter LegacyWithRules)
      else if en_schema_version s = encounter_schema_version then validate_live s
      else if en_live s \<noteq> None then Err (InvalidEncounter HistoricalWithLive) else Ok ())"

definition validate_participants :: "encounter_state \<Rightarrow> unit enc_result" where
  "validate_participants s =
     (let hero = en_hero s; creature = en_creature s in
      if cb_id hero \<noteq> canal_warden_id \<or> cb_kind hero \<noteq> HeroKind \<or> cb_id creature \<noteq> soot_wight_id
        \<or> cb_kind creature \<noteq> CreatureKind \<or> cb_name creature \<noteq> ''Soot Wight''
        \<or> cb_source_character_id creature \<noteq> None \<or> cb_attacks creature \<noteq> []
        \<or> cb_armor_class creature \<noteq> 12 \<or> cb_speed_feet creature \<noteq> 25
        \<or> cb_initiative_modifier creature \<noteq> 1
        \<or> hp_maximum (cb_hit_points creature) \<noteq> creature_maximum_hit_points
        \<or> eo_objective_id (obj_primary (en_objectives s)) \<noteq> defeat_soot_wight_objective_id
        \<or> eo_objective_id (obj_contextual (en_objectives s)) \<noteq> release_sluice_objective_id
      then Err (InvalidEncounter FixedParticipants)
      else if \<not> (case cb_source_character_id hero of
            None \<Rightarrow> cb_name hero = ''Canal Warden'' \<and> cb_armor_class hero = 18 \<and> cb_speed_feet hero = 30
              \<and> cb_initiative_modifier hero = 2
              \<and> hp_maximum (cb_hit_points hero) = hero_maximum_hit_points \<and> cb_attacks hero = []
          | Some _ \<Rightarrow> hero_profile_fields_valid hero)
      then Err (InvalidEncounter HeroNeitherLegacyNorSnapshot)
      else and_then
        (case en_hero_rules s of
           None \<Rightarrow> Ok ()
         | Some rules \<Rightarrow>
             if cb_source_character_id hero = None then Err (InvalidEncounter LegacyHeroWithRules)
             else and_then (hero_rules_validate rules) (\<lambda>_.
               if en_schema_version s = encounter_schema_version
                 \<and> hrp_constitution_modifier rules = None
               then Err (InvalidEncounter RulesNeedConstitution) else Ok ()))
        (\<lambda>_. and_then (combatant_validate (en_map s) hero)
          (\<lambda>_. combatant_validate (en_map s) creature)))"

definition validate_opening :: "encounter_state \<Rightarrow> unit enc_result" where
  "validate_opening s =
     (let context = eo_status (obj_contextual (en_objectives s));
          veiled = (SootVeil \<in> set (cb_status_effects (en_creature s))) in
      if (RuneWard \<in> set (cb_status_effects (en_hero s))) \<noteq> (en_opening_consequence s = RunesUnderstood)
        \<or> context = ObjFailed
      then Err (InvalidEncounter OpeningOrObjective)
      else if context = ObjPending \<and> \<not> veiled then Err (InvalidEncounter PendingNeedsVeil)
      else if context = ObjCompleted
        \<and> (veiled \<or> hp_temporary (cb_hit_points (en_creature s)) \<noteq> 0)
      then Err (InvalidEncounter CompletedKeepsVeil) else Ok ())"

definition validate_ready :: "encounter_state \<Rightarrow> unit enc_result" where
  "validate_ready s =
     (let hero = en_hero s; creature = en_creature s in
      if en_initiative s \<noteq> None \<or> en_round s \<noteq> 0 \<or> en_current_actor_index s \<noteq> None
        \<or> en_current_actor_id s \<noteq> None \<or> en_turn_resources s \<noteq> None
        \<or> eo_status (obj_primary (en_objectives s)) \<noteq> ObjPending
        \<or> eo_status (obj_contextual (en_objectives s)) \<noteq> ObjPending
        \<or> en_reward_eligibility s \<noteq> RewardPending \<or> en_transition s \<noteq> None
        \<or> cb_life_status hero \<noteq> LifeConscious \<or> cb_life_status creature \<noteq> LifeConscious
        \<or> hp_current (cb_hit_points hero) \<noteq> hp_maximum (cb_hit_points hero)
        \<or> hp_current (cb_hit_points creature) \<noteq> hp_maximum (cb_hit_points creature)
        \<or> hp_temporary (cb_hit_points hero) \<noteq> fst (opening_temporary (en_opening_consequence s))
        \<or> hp_temporary (cb_hit_points creature) \<noteq> snd (opening_temporary (en_opening_consequence s))
      then Err (InvalidEncounter ReadyWithProgress) else Ok ())"

definition list_get :: "'a list \<Rightarrow> nat \<Rightarrow> 'a option" where
  "list_get xs i = (if i < length xs then Some (xs ! i) else None)"

definition second_wind_left :: "encounter_state \<Rightarrow> bool" where
  "second_wind_left s =
     (case en_hero_rules s of
        None \<Rightarrow> False
      | Some r \<Rightarrow> (case rs_second_wind (hrp_runtime_resources r) of
          None \<Rightarrow> False | Some c \<Rightarrow> ctr_current c > 0))"

definition validate_active_resources :: "encounter_state \<Rightarrow> combatant_state \<Rightarrow> turn_resources \<Rightarrow> unit enc_result" where
  "validate_active_resources s actor r =
     (let heroes_turn = (en_current_actor_id s = Some canal_warden_id) in
      if tr_movement_remaining_feet r > cb_speed_feet actor
      then Err (InvalidEncounter MovementExceedsSpeed)
      else if \<not> 5 dvd tr_movement_remaining_feet r
        \<or> (tr_bonus_action_available r \<and> \<not> (heroes_turn \<and> second_wind_left s))
        \<or> \<not> tr_reaction_available r
        \<or> (\<not> tr_object_interaction_available r
           \<and> (\<not> heroes_turn \<or> eo_status (obj_contextual (en_objectives s)) \<noteq> ObjCompleted))
      then Err (InvalidEncounter ResourcesUnreachable) else Ok ())"

definition validate_active :: "encounter_state \<Rightarrow> unit enc_result" where
  "validate_active s =
     and_then (ok_or (en_initiative s) (InvalidEncounter ActiveNeedsInitiative)) (\<lambda>i.
     and_then (ok_or (en_current_actor_index s) (InvalidEncounter ActiveNeedsActorIndex)) (\<lambda>index.
       case current_actor s of
         None \<Rightarrow> Err (InvalidEncounter ActiveShape)
       | Some actor \<Rightarrow>
           if en_round s = 0 \<or> list_get (in_order i) index \<noteq> en_current_actor_id s
             \<or> cb_life_status (en_creature s) \<noteq> LifeConscious
             \<or> (cb_life_status (en_hero s) \<noteq> LifeConscious \<and> cb_life_status (en_hero s) \<noteq> LifeUnconscious)
             \<or> eo_status (obj_primary (en_objectives s)) \<noteq> ObjPending
             \<or> en_reward_eligibility s \<noteq> RewardPending \<or> en_transition s \<noteq> None
           then Err (InvalidEncounter ActiveShape)
           else and_then (ok_or (en_turn_resources s) (InvalidEncounter ActiveNeedsResources)) (\<lambda>r.
             validate_active_resources s actor r)))"

definition encounter_validate :: "encounter_state \<Rightarrow> unit enc_result" where
  "encounter_validate s =
     and_then (validate_pins s) (\<lambda>_. and_then (validate_participants s) (\<lambda>_.
     and_then (validate_opening s) (\<lambda>_. and_then (validate_initiative s) (\<lambda>_.
       case en_status s of
         EncReady \<Rightarrow> validate_ready s
       | EncActive \<Rightarrow> validate_active s
       | EncVictory \<Rightarrow> validate_victory s
       | EncDefeat \<Rightarrow> validate_defeat s))))"

section \<open>Constructors that validate\<close>

definition pin_historical_schema_for_replay ::
  "u16 \<Rightarrow> encounter_state \<Rightarrow> unit enc_result \<times> encounter_state" where
  "pin_historical_schema_for_replay v s =
     (if v \<noteq> legacy_encounter_schema_version \<and> v \<noteq> live_v2_encounter_schema_version
      then (Err (InvalidEncounter ReplaySchema), s)
      else let s' = s\<lparr>en_schema_version := v, en_content_pack_id := legacy_encounter_content_pack_id,
                      en_live := None\<rparr>
           in (encounter_validate s', s'))"

definition new_for_hero_at_schema ::
  "lethality_policy \<Rightarrow> opening_consequence \<Rightarrow> encounter_hero_profile \<Rightarrow> u16 \<Rightarrow> encounter_state enc_result" where
  "new_for_hero_at_schema policy opening p v =
     and_then (hero_profile_validate p) (\<lambda>_.
     and_then
       (if v \<noteq> encounter_schema_version
        then (case pin_historical_schema_for_replay v (encounter_new policy opening) of
                (Err e, _) \<Rightarrow> Err e | (Ok _, s) \<Rightarrow> Ok s)
        else Ok (encounter_new policy opening)) (\<lambda>s.
       let hero = en_hero s;
           s' = s\<lparr>en_hero := hero
                   \<lparr>cb_source_character_id := Some (ehp_source_character_id p), cb_name := ehp_name p,
                    cb_armor_class := ehp_armor_class p, cb_speed_feet := ehp_speed_feet p,
                    cb_initiative_modifier := ehp_initiative_modifier p,
                    cb_hit_points := (cb_hit_points hero)
                      \<lparr>hp_current := ehp_current_hit_points p, hp_maximum := ehp_maximum_hit_points p\<rparr>,
                    cb_attacks := ehp_attacks p\<rparr>,
                  en_hero_rules := ehp_rules p\<rparr>
       in and_then (encounter_validate s') (\<lambda>_. Ok s')))"

definition new_for_hero ::
  "lethality_policy \<Rightarrow> opening_consequence \<Rightarrow> encounter_hero_profile \<Rightarrow> encounter_state enc_result" where
  "new_for_hero policy opening p = new_for_hero_at_schema policy opening p encounter_schema_version"

definition new_for_hero_for_historical_replay ::
  "lethality_policy \<Rightarrow> opening_consequence \<Rightarrow> encounter_hero_profile \<Rightarrow> u16 \<Rightarrow> encounter_state enc_result" where
  "new_for_hero_for_historical_replay policy opening p v =
     (if v \<noteq> legacy_encounter_schema_version \<and> v \<noteq> live_v2_encounter_schema_version
      then Err (InvalidEncounter ReplaySchema)
      else new_for_hero_at_schema policy opening p v)"

end
