(* ===== verification/Encounter_Rolls.thy ===== *)
theory Encounter_Rolls
  imports Encounter_Valid Dice_Notation
begin

text \<open>
  The raw rolls of an encounter: the fact that records a roll, its validation, the roll the
  handlers perform themselves, and the facts made from rolls of the rules matrix.
\<close>

section \<open>Raw roll facts\<close>

datatype enc_roll_mode = EncNormal | EncAdvantage | EncDisadvantage

datatype roll_purpose =
    PurposeInitiative | PurposeAttack | PurposeDamage | PurposeHealing | PurposeSleep
  | PurposeHitDie | PurposeDeathSave

record raw_die_fact =
  rd_sides :: u16
  rd_value :: u16

datatype roll_comparison_kind = ArmorClassComparison | DeathSaveComparison

record roll_comparison =
  rc_kind :: roll_comparison_kind
  rc_value :: i16

datatype enc_attack_outcome = EncAutomaticMiss | EncMiss | EncHit | EncCriticalHit

fun enc_is_hit :: "enc_attack_outcome \<Rightarrow> bool" where
  "enc_is_hit EncHit = True"
| "enc_is_hit EncCriticalHit = True"
| "enc_is_hit _ = False"

definition enc_is_critical :: "enc_attack_outcome \<Rightarrow> bool" where
  "enc_is_critical x \<longleftrightarrow> x = EncCriticalHit"

datatype raw_roll_outcome =
    RawTotal | RawAutomaticMiss | RawMiss | RawHit | RawCriticalHit | RawSuccess | RawFailure
  | RawNaturalOneFailure | RawNaturalTwentyRecovery

record raw_roll_facts =
  rf_sequence :: u16
  rf_purpose :: roll_purpose
  rf_actor_id :: string
  rf_target_id :: "string option"
  rf_action_id :: "string option"
  rf_expression :: string
  rf_mode :: enc_roll_mode
  rf_individual_dice :: "raw_die_fact list"
  rf_kept_die_indices :: "u16 list"
  rf_modifiers :: "roll_modifier_fact list"
  rf_natural_d20 :: "u8 option"
  rf_total :: i32
  rf_comparison :: "roll_comparison option"
  rf_outcome :: raw_roll_outcome

definition dice_expression_text :: "u16 \<Rightarrow> u16 \<Rightarrow> i32 \<Rightarrow> string" where
  "dice_expression_text dice_count sides modifier =
     show_nat dice_count @ ''d'' @ show_nat sides @
     (if modifier > 0 then ''+'' @ show_nat (nat modifier)
      else if modifier < 0 then ''-'' @ show_nat (nat (- modifier)) else [])"

fun checked_sum_i32 :: "int \<Rightarrow> int list \<Rightarrow> int option" where
  "checked_sum_i32 acc [] = Some acc"
| "checked_sum_i32 acc (v # vs) = Option.bind (checked_add_i32 acc v) (\<lambda>acc. checked_sum_i32 acc vs)"

text \<open>What a roll of its purpose and comparison must have come out as.\<close>

definition attack_roll_outcome :: "u8 \<Rightarrow> i32 \<Rightarrow> i16 \<Rightarrow> raw_roll_outcome" where
  "attack_roll_outcome natural tot armor_class =
     (if natural = 1 then RawAutomaticMiss else if natural = 20 then RawCriticalHit
      else if tot \<ge> armor_class then RawHit else RawMiss)"

definition death_save_roll_outcome :: "u8 \<Rightarrow> i32 \<Rightarrow> i16 \<Rightarrow> raw_roll_outcome" where
  "death_save_roll_outcome natural tot difficulty =
     (if natural = 1 then RawNaturalOneFailure else if natural = 20 then RawNaturalTwentyRecovery
      else if tot \<ge> difficulty then RawSuccess else RawFailure)"

definition raw_outcome_validate :: "raw_roll_facts \<Rightarrow> unit enc_result" where
  "raw_outcome_validate r =
     (case (rf_purpose r, rf_comparison r, rf_natural_d20 r) of
        (PurposeAttack, Some c, Some natural) \<Rightarrow>
          if rc_kind c = ArmorClassComparison
          then ensure (rf_outcome r = attack_roll_outcome natural (rf_total r) (rc_value c))
                 (InvalidRollFacts RollAttackOutcome)
          else Err (InvalidRollFacts RollOutcome)
      | (PurposeDeathSave, Some c, Some natural) \<Rightarrow>
          if rc_kind c = DeathSaveComparison
          then ensure (rf_outcome r = death_save_roll_outcome natural (rf_total r) (rc_value c))
                 (InvalidRollFacts RollDeathSaveOutcome)
          else Err (InvalidRollFacts RollOutcome)
      | (purpose, None, _) \<Rightarrow>
          ensure (purpose \<in> {PurposeInitiative, PurposeDamage, PurposeHealing, PurposeSleep, PurposeHitDie}
                  \<and> rf_outcome r = RawTotal) (InvalidRollFacts RollOutcome)
      | _ \<Rightarrow> Err (InvalidRollFacts RollOutcome))"

definition raw_mode_validate :: "raw_roll_facts \<Rightarrow> unit enc_result" where
  "raw_mode_validate r =
     (let dice = rf_individual_dice r; kept = rf_kept_die_indices r in
      if rf_mode r = EncNormal
      then ensure (kept = [0..<length dice]) (InvalidRollFacts RollModeInconsistent)
      else if length dice = 2 \<and> rd_sides (dice ! 0) = 20 \<and> length kept = 1
      then let first = rd_value (dice ! 0); second = rd_value (dice ! 1);
               expected = (if rf_mode r = EncAdvantage then max first second else min first second)
           in ensure (rd_value (dice ! (kept ! 0)) = expected) (InvalidRollFacts RollKeptWrong)
      else Err (InvalidRollFacts RollModeInconsistent))"

definition raw_shape :: "raw_roll_facts \<Rightarrow> bool" where
  "raw_shape r \<longleftrightarrow>
     (let n = length (rf_individual_dice r); natural = (rf_natural_d20 r \<noteq> None);
          on_self = (rf_target_id r = Some (rf_actor_id r)) in
      case rf_purpose r of
        PurposeInitiative \<Rightarrow> rf_target_id r = None \<and> rf_action_id r = None \<and> n = 1 \<and> natural
      | PurposeAttack \<Rightarrow> rf_target_id r \<noteq> None \<and> rf_action_id r \<noteq> None \<and> (n = 1 \<or> n = 2) \<and> natural
      | PurposeDamage \<Rightarrow> rf_target_id r \<noteq> None \<and> rf_action_id r \<noteq> None \<and> (n = 1 \<or> n = 2) \<and> \<not> natural
      | PurposeHealing \<Rightarrow> on_self \<and> rf_action_id r \<noteq> None \<and> n = 1 \<and> \<not> natural
      | PurposeSleep \<Rightarrow> rf_target_id r \<noteq> None \<and> rf_action_id r = Some (spell_mechanic_id Sleep)
          \<and> n = 5 \<and> \<not> natural
      | PurposeHitDie \<Rightarrow> on_self \<and> rf_action_id r = Some hit_die_action_id \<and> n = 1 \<and> \<not> natural
      | PurposeDeathSave \<Rightarrow> on_self \<and> rf_action_id r = None \<and> n = 1 \<and> natural)"

definition raw_roll_validate :: "raw_roll_facts \<Rightarrow> unit enc_result" where
  "raw_roll_validate r =
     (let dice = rf_individual_dice r; kept = rf_kept_die_indices r; mods = rf_modifiers r;
          kept_total = checked_sum_i32 0 (map (\<lambda>i. int (rd_value (dice ! i))) kept);
          modifier_total = checked_sum_i32 0 (map mf_value mods) in
      if rf_sequence r = 0 \<or> \<not> is_valid_opaque_id (rf_actor_id r)
        \<or> (case rf_target_id r of None \<Rightarrow> False | Some i \<Rightarrow> \<not> is_valid_opaque_id i)
        \<or> (case rf_action_id r of None \<Rightarrow> False | Some i \<Rightarrow> \<not> is_valid_opaque_id i)
        \<or> is_blank (rf_expression r) \<or> dice = []
        \<or> list_ex (\<lambda>d. rd_sides d = 0 \<or> rd_value d = 0 \<or> rd_value d > rd_sides d) dice
      then Err (InvalidRollFacts RollIdentity)
      else if length dice > u16_max then Err (InvalidRollFacts RollTooManyDice)
      else if \<not> distinct kept \<or> list_ex (\<lambda>i. i \<ge> length dice) kept
        \<or> list_ex (\<lambda>d. rd_sides d \<noteq> rd_sides (dice ! 0)) dice
      then Err (InvalidRollFacts RollKeptIndices)
      else and_then (raw_mode_validate r) (\<lambda>_.
        if \<not> distinct (map mf_source_id mods)
          \<or> list_ex (\<lambda>m. \<not> is_valid_opaque_id (mf_source_id m)) mods
        then Err (InvalidRollFacts RollModifierIds)
        else if Option.bind kept_total (\<lambda>a. Option.bind modifier_total (checked_add_i32 a))
          \<noteq> Some (rf_total r)
        then Err (InvalidRollFacts RollTotalMismatch)
        else and_then (ok_or modifier_total (InvalidRollFacts RollModifiersOverflow)) (\<lambda>m.
          if rf_expression r \<noteq> dice_expression_text (length dice) (rd_sides (dice ! 0)) m
          then Err (InvalidRollFacts RollExpressionMismatch)
          else if (case rf_natural_d20 r of
               None \<Rightarrow> False
             | Some natural \<Rightarrow>
                 Option.bind (list_get kept 0) (list_get dice)
                   \<noteq> Some \<lparr>rd_sides = 20, rd_value = natural\<rparr>)
          then Err (InvalidRollFacts RollNaturalMismatch)
          else if \<not> raw_shape r then Err (InvalidRollFacts RollShape)
          else raw_outcome_validate r)))"

section \<open>Rolls the handlers perform\<close>

fun roll_faces ::
  "nat \<Rightarrow> u16 \<Rightarrow> 's dice \<Rightarrow> 's \<Rightarrow> raw_die_fact list enc_result \<times> 's" where
  "roll_faces 0 sides roll d = (Ok [], d)"
| "roll_faces (Suc n) sides roll d =
     (let (v, d) = roll sides d in
      if v = 0 \<or> v > sides then (Err (InvalidRoll sides v), d)
      else and_then_st (roll_faces n sides roll d) (\<lambda>vs d.
        (Ok (\<lparr>rd_sides = sides, rd_value = v\<rparr> # vs), d)))"

definition performed_outcome ::
  "roll_purpose \<Rightarrow> roll_comparison option \<Rightarrow> u8 option \<Rightarrow> i32 \<Rightarrow> raw_roll_outcome enc_result" where
  "performed_outcome purpose comparison natural tot =
     (case (purpose, comparison, natural) of
        (PurposeAttack, Some c, Some n) \<Rightarrow> Ok (attack_roll_outcome n tot (rc_value c))
      | (PurposeDeathSave, Some c, Some n) \<Rightarrow> Ok (death_save_roll_outcome n tot (rc_value c))
      | (PurposeInitiative, None, _) \<Rightarrow> Ok RawTotal
      | (PurposeDamage, None, _) \<Rightarrow> Ok RawTotal
      | _ \<Rightarrow> Err (InvalidRollFacts RollRequestInvalid))"

definition perform_roll ::
  "raw_roll_facts list \<Rightarrow> roll_purpose \<Rightarrow> string \<Rightarrow> string option \<Rightarrow> string option \<Rightarrow> u16 \<Rightarrow> u16
    \<Rightarrow> roll_modifier_fact list \<Rightarrow> roll_comparison option \<Rightarrow> 's dice \<Rightarrow> 's
    \<Rightarrow> (raw_roll_facts \<times> raw_roll_facts list) enc_result \<times> 's" where
  "perform_roll rolls purpose actor_id target_id action_id dice_count sides modifiers comparison roll d =
     and_then_st (roll_faces dice_count sides roll d) (\<lambda>dice d.
       let modifier_total = sum_list (map mf_value modifiers);
           tot = sum_list (map (\<lambda>x. int (rd_value x)) dice) + modifier_total;
           natural = (if dice_count = 1 \<and> sides = 20 then Some (rd_value (dice ! 0)) else None)
       in (and_then (performed_outcome purpose comparison natural tot) (\<lambda>outcome.
           if length rolls \<ge> u16_max then Err (InvalidRollFacts RollsTooMany)
           else let r = \<lparr>rf_sequence = length rolls + 1, rf_purpose = purpose, rf_actor_id = actor_id,
                     rf_target_id = target_id, rf_action_id = action_id,
                     rf_expression = dice_expression_text dice_count sides modifier_total,
                     rf_mode = EncNormal, rf_individual_dice = dice,
                     rf_kept_die_indices = [0..<dice_count], rf_modifiers = modifiers,
                     rf_natural_d20 = natural, rf_total = tot, rf_comparison = comparison,
                     rf_outcome = outcome\<rparr>
                in and_then (raw_roll_validate r) (\<lambda>_. Ok (r, rolls @ [r]))), d))"

section \<open>Facts of rolls made by the rules matrix\<close>

fun spell_attack_outcome :: "d20_test_outcome \<Rightarrow> enc_attack_outcome" where
  "spell_attack_outcome TestAutomaticMiss = EncAutomaticMiss"
| "spell_attack_outcome TestFailure = EncMiss"
| "spell_attack_outcome TestSuccess = EncHit"
| "spell_attack_outcome TestCriticalHit = EncCriticalHit"

fun raw_attack_outcome :: "enc_attack_outcome \<Rightarrow> raw_roll_outcome" where
  "raw_attack_outcome EncAutomaticMiss = RawAutomaticMiss"
| "raw_attack_outcome EncMiss = RawMiss"
| "raw_attack_outcome EncHit = RawHit"
| "raw_attack_outcome EncCriticalHit = RawCriticalHit"

fun enc_mode :: "roll_mode \<Rightarrow> enc_roll_mode" where
  "enc_mode NormalRoll = EncNormal"
| "enc_mode Advantage = EncAdvantage"
| "enc_mode Disadvantage = EncDisadvantage"

definition raw_d20 :: "d20_roll \<Rightarrow> enc_roll_mode \<times> raw_die_fact list \<times> u16 list" where
  "raw_d20 r =
     (enc_mode (d20_mode r),
      \<lparr>rd_sides = 20, rd_value = d20_first r\<rparr> #
        (case d20_second r of None \<Rightarrow> [] | Some v \<Rightarrow> [\<lparr>rd_sides = 20, rd_value = v\<rparr>]),
      [if d20_first r = d20_selected r then 0 else 1])"

definition push_spell_attack_roll ::
  "raw_roll_facts list \<Rightarrow> spell_attack_resolution \<Rightarrow> string \<Rightarrow> spell_id \<Rightarrow> raw_roll_facts list" where
  "push_spell_attack_roll rolls a target_id spell =
     (let (mode, dice, kept) = raw_d20 (sar_roll a) in
      rolls @ [\<lparr>rf_sequence = length rolls + 1, rf_purpose = PurposeAttack,
        rf_actor_id = canal_warden_id, rf_target_id = Some target_id,
        rf_action_id = Some (spell_mechanic_id spell),
        rf_expression = dice_expression_text (length dice) 20 (sar_spell_attack_bonus a),
        rf_mode = mode, rf_individual_dice = dice, rf_kept_die_indices = kept,
        rf_modifiers = [\<lparr>mf_source_id = ''srd-5.1-cc:modifier:spell-attack'',
                         mf_value = sar_spell_attack_bonus a\<rparr>],
        rf_natural_d20 = Some (d20_selected (sar_roll a)), rf_total = sar_total a,
        rf_comparison = Some \<lparr>rc_kind = ArmorClassComparison, rc_value = int (sar_target_armor_class a)\<rparr>,
        rf_outcome = raw_attack_outcome (spell_attack_outcome (sar_outcome a))\<rparr>])"

definition raw_dice :: "damage_dice_resolution \<Rightarrow> raw_die_fact list" where
  "raw_dice x = map (\<lambda>v. \<lparr>rd_sides = ddr_sides x, rd_value = v\<rparr>) (ddr_dice x)"

definition push_spell_damage_roll ::
  "raw_roll_facts list \<Rightarrow> damage_dice_resolution \<Rightarrow> string \<Rightarrow> spell_id \<Rightarrow> raw_roll_facts list" where
  "push_spell_damage_roll rolls x target_id spell =
     (let dice = raw_dice x in
      rolls @ [\<lparr>rf_sequence = length rolls + 1, rf_purpose = PurposeDamage,
        rf_actor_id = canal_warden_id, rf_target_id = Some target_id,
        rf_action_id = Some (spell_mechanic_id spell),
        rf_expression = dice_expression_text (length dice) (ddr_sides x) (ddr_constant x),
        rf_mode = EncNormal, rf_individual_dice = dice, rf_kept_die_indices = [0..<length dice],
        rf_modifiers = (if ddr_constant x \<noteq> 0
          then [\<lparr>mf_source_id = ''srd-5.1-cc:modifier:spell-damage'', mf_value = ddr_constant x\<rparr>]
          else []),
        rf_natural_d20 = None, rf_total = int (ddr_total x), rf_comparison = None,
        rf_outcome = RawTotal\<rparr>])"

definition push_sleep_roll ::
  "raw_roll_facts list \<Rightarrow> damage_dice_resolution \<Rightarrow> raw_roll_facts list" where
  "push_sleep_roll rolls x =
     rolls @ [\<lparr>rf_sequence = length rolls + 1, rf_purpose = PurposeSleep,
       rf_actor_id = canal_warden_id, rf_target_id = Some soot_wight_id,
       rf_action_id = Some (spell_mechanic_id Sleep), rf_expression = dice_expression_text 5 8 0,
       rf_mode = EncNormal, rf_individual_dice = raw_dice x, rf_kept_die_indices = [0..<5],
       rf_modifiers = [], rf_natural_d20 = None, rf_total = int (ddr_total x),
       rf_comparison = None, rf_outcome = RawTotal\<rparr>]"

definition push_hit_die_roll ::
  "raw_roll_facts list \<Rightarrow> hit_die_spend_resolution \<Rightarrow> raw_roll_facts list enc_result" where
  "push_hit_die_roll rolls x =
     and_then (case hd_hit_die x of HitDiceD6 \<Rightarrow> Ok 6 | HitDiceD10 \<Rightarrow> Ok 10 | _ \<Rightarrow> Err EncPanic) (\<lambda>sides.
       Ok (rolls @ [\<lparr>rf_sequence = length rolls + 1, rf_purpose = PurposeHitDie,
         rf_actor_id = canal_warden_id, rf_target_id = Some canal_warden_id,
         rf_action_id = Some hit_die_action_id,
         rf_expression = dice_expression_text 1 sides (hd_constitution_modifier x),
         rf_mode = EncNormal, rf_individual_dice = [\<lparr>rd_sides = sides, rd_value = hd_roll x\<rparr>],
         rf_kept_die_indices = [0],
         rf_modifiers = [\<lparr>mf_source_id = ''srd-5.1-cc:modifier:constitution'',
                          mf_value = hd_constitution_modifier x\<rparr>],
         rf_natural_d20 = None, rf_total = int (hd_roll x) + hd_constitution_modifier x,
         rf_comparison = None, rf_outcome = RawTotal\<rparr>]))"

definition push_second_wind_roll ::
  "raw_roll_facts list \<Rightarrow> second_wind_resolution \<Rightarrow> string \<Rightarrow> raw_roll_facts list" where
  "push_second_wind_roll rolls x actor_id =
     rolls @ [\<lparr>rf_sequence = length rolls + 1, rf_purpose = PurposeHealing,
       rf_actor_id = actor_id, rf_target_id = Some actor_id, rf_action_id = Some second_wind_action_id,
       rf_expression = dice_expression_text 1 10 (int (sw_level_bonus x)),
       rf_mode = EncNormal, rf_individual_dice = [\<lparr>rd_sides = 10, rd_value = sw_healing_roll x\<rparr>],
       rf_kept_die_indices = [0],
       rf_modifiers = [\<lparr>mf_source_id = ''srd-5.1-cc:modifier:class-level'',
                        mf_value = int (sw_level_bonus x)\<rparr>],
       rf_natural_d20 = None, rf_total = int (hres_requested_healing (sw_healing x)),
       rf_comparison = None, rf_outcome = RawTotal\<rparr>]"

end
