(* ===== verification/Encounter_Actions.thy ===== *)
theory Encounter_Actions
  imports Encounter_Rolls
begin

text \<open>
  What may be done in an encounter: the attacks of the combatants, the legal actions the server
  derives, the boundary of player control, and the closed policy that plays the Soot Wight.
\<close>

section \<open>Attacks\<close>

text \<open>
  The enum \<open>ResolvedAttack\<close> distinguishes a fixed attack from a borrowed snapshot only for the
  borrow checker: both sides have the fields of \<open>encounter_attack\<close>.
\<close>

definition hero_attack :: encounter_attack where
  "hero_attack =
     \<lparr>ea_attack_id = canal_warden_attack_id, ea_range_feet = 5,
      ea_attack_modifiers =
        [\<lparr>mf_source_id = ''srd-5.1-cc:modifier:strength'', mf_value = 3\<rparr>,
         \<lparr>mf_source_id = ''srd-5.1-cc:modifier:proficiency'', mf_value = 2\<rparr>],
      ea_damage_die_sides = 8,
      ea_damage_modifier = \<lparr>mf_source_id = ''srd-5.1-cc:modifier:strength-damage'', mf_value = 3\<rparr>,
      ea_damage_type = EncSlashing\<rparr>"

definition creature_attack :: encounter_attack where
  "creature_attack =
     \<lparr>ea_attack_id = soot_wight_attack_id, ea_range_feet = 5,
      ea_attack_modifiers =
        [\<lparr>mf_source_id = ''manchester-arcana-content:v1:modifier:soot-wight-dexterity'', mf_value = 1\<rparr>,
         \<lparr>mf_source_id = ''srd-5.1-cc:modifier:proficiency'', mf_value = 2\<rparr>],
      ea_damage_die_sides = 6,
      ea_damage_modifier =
        \<lparr>mf_source_id = ''manchester-arcana-content:v1:modifier:soot-wight-damage'', mf_value = 1\<rparr>,
      ea_damage_type = EncNecrotic\<rparr>"

definition attacks_for_actor :: "encounter_state \<Rightarrow> string \<Rightarrow> encounter_attack list option" where
  "attacks_for_actor s actor_id =
     (if actor_id = canal_warden_id
      then Some (if cb_attacks (en_hero s) = [] then [hero_attack] else cb_attacks (en_hero s))
      else if actor_id = soot_wight_id then Some [creature_attack] else None)"

definition attack_for_actor :: "encounter_state \<Rightarrow> string \<Rightarrow> string \<Rightarrow> encounter_attack option" where
  "attack_for_actor s actor_id attack_id =
     Option.bind (attacks_for_actor s actor_id) (find (\<lambda>a. ea_attack_id a = attack_id))"

definition opposing_combatant :: "encounter_state \<Rightarrow> string \<Rightarrow> combatant_state option" where
  "opposing_combatant s actor_id =
     (if actor_id = canal_warden_id then Some (en_creature s)
      else if actor_id = soot_wight_id then Some (en_hero s) else None)"

definition combatant :: "encounter_state \<Rightarrow> string \<Rightarrow> combatant_state option" where
  "combatant s i =
     (if i = canal_warden_id then Some (en_hero s)
      else if i = soot_wight_id then Some (en_creature s) else None)"

text \<open>A write through \<open>combatant_mut\<close>.\<close>

definition update_combatant ::
  "string \<Rightarrow> (combatant_state \<Rightarrow> combatant_state) \<Rightarrow> encounter_state \<Rightarrow> encounter_state" where
  "update_combatant i f s =
     (if i = canal_warden_id then s\<lparr>en_hero := f (en_hero s)\<rparr>
      else if i = soot_wight_id then s\<lparr>en_creature := f (en_creature s)\<rparr> else s)"

section \<open>Legal actions\<close>

datatype legal_action =
    LegalStart
  | LegalMove u16 u16 u16                \<comment> \<open>minimum, maximum, movement left\<close>
  | LegalAttack string string u16        \<comment> \<open>attack, target, range\<close>
  | LegalContext string
  | LegalCast spell_id string u16        \<comment> \<open>spell, target, range\<close>
  | LegalLight string
  | LegalMageHand string
  | LegalMoveHand string
  | LegalDismissHand
  | LegalSleep
  | LegalShield
  | LegalDecline
  | LegalSecondWind
  | LegalActionSurge
  | LegalBeginRest
  | LegalHitDie
  | LegalArcaneRecovery
  | LegalFinishRest
  | LegalLongRest
  | LegalEndTurn
  | LegalDeathSave

text \<open>\<open>action_availability(...).map_err(...)?.is_available()\<close>, and an action pushed when it holds.\<close>

definition available :: "action_economy \<Rightarrow> action_context \<Rightarrow> bool enc_result" where
  "available eco context =
     (case action_availability_of eco condition_set_empty context of
        Err _ \<Rightarrow> Err (InvalidHandling AvailabilityUnderivable)
      | Ok a \<Rightarrow> Ok (is_available a))"

definition offer :: "bool enc_result \<Rightarrow> legal_action list \<Rightarrow> legal_action list enc_result" where
  "offer test actions = and_then test (\<lambda>b. Ok (if b then actions else []))"

fun collect :: "('a \<Rightarrow> ('e, 'b list) result) \<Rightarrow> 'a list \<Rightarrow> ('e, 'b list) result" where
  "collect f [] = Ok []"
| "collect f (x # xs) = and_then (f x) (\<lambda>ys. and_then (collect f xs) (\<lambda>zs. Ok (ys @ zs)))"

definition offered_cast ::
  "combatant_state \<Rightarrow> combatant_state \<Rightarrow> action_economy \<Rightarrow> hero_rules_profile \<Rightarrow> spellcasting_state
    \<Rightarrow> spell_id \<Rightarrow> legal_action list enc_result" where
  "offered_cast actor target eco rules sc spell =
     offer (available eco (CastContext spell
              (enc_distance (cb_position_feet actor) (cb_position_feet target) \<le> 120)
              (if spell_level spell = 0 then spell \<in> set (sp_cantrips sc) else spell \<in> set (sp_prepared sc))
              (has_spell_slot (hrp_runtime_resources rules))))
       [LegalCast spell (cb_id target) 120]"

definition offered_light ::
  "combatant_state \<Rightarrow> action_economy \<Rightarrow> spellcasting_state \<Rightarrow> encounter_object \<Rightarrow> legal_action list enc_result" where
  "offered_light actor eco sc ob =
     (if Light \<in> set (sp_cantrips sc) \<and> enc_distance (cb_position_feet actor) (ob_position_feet ob) \<le> 5
      then offer (available eco (CastContext Light True True True)) [LegalLight (ob_object_id ob)]
      else Ok [])"

definition offered_mage_hand ::
  "combatant_state \<Rightarrow> action_economy \<Rightarrow> spellcasting_state \<Rightarrow> live_state \<Rightarrow> legal_action list enc_result" where
  "offered_mage_hand actor eco sc live =
     (if MageHand \<in> set (sp_cantrips sc)
      then offer (available eco (CastContext MageHand True True True))
        (map (\<lambda>ob. LegalMageHand (ob_object_id ob))
          (filter (\<lambda>ob. enc_distance (cb_position_feet actor) (ob_position_feet ob) \<le> 30) (lv_objects live)))
      else Ok [])"

definition offered_hand_control ::
  "encounter_state \<Rightarrow> combatant_state \<Rightarrow> action_economy \<Rightarrow> live_state \<Rightarrow> legal_action list" where
  "offered_hand_control s actor eco live =
     (if lv_mage_hand live \<noteq> None \<and> action_available eco
      then (if eo_status (obj_contextual (en_objectives s)) = ObjPending
              \<and> enc_distance (cb_position_feet actor) sluice_position_feet \<le> 30
            then [LegalMoveHand sluice_lever_object_id] else []) @ [LegalDismissHand]
      else [])"

definition offered_sleep ::
  "encounter_state \<Rightarrow> combatant_state \<Rightarrow> action_economy \<Rightarrow> hero_rules_profile \<Rightarrow> spellcasting_state
    \<Rightarrow> live_state \<Rightarrow> legal_action list enc_result" where
  "offered_sleep s actor eco rules sc live =
     (if Sleep \<in> set (sp_prepared sc) \<and> cb_life_status (en_creature s) = LifeConscious
        \<and> lv_sleep live = None
      then offer (available eco (CastContext Sleep
             (enc_distance (cb_position_feet actor) (cb_position_feet (en_creature s)) \<le> 90) True
             (has_spell_slot (hrp_runtime_resources rules)))) [LegalSleep]
      else Ok [])"

definition offered_spells ::
  "encounter_state \<Rightarrow> combatant_state \<Rightarrow> combatant_state \<Rightarrow> action_economy \<Rightarrow> hero_rules_profile
    \<Rightarrow> spellcasting_state \<Rightarrow> legal_action list enc_result" where
  "offered_spells s actor target eco rules sc =
     and_then (collect (offered_cast actor target eco rules sc) [FireBolt, MagicMissile]) (\<lambda>casts.
       if en_schema_version s = encounter_schema_version
       then (case en_live s of
           None \<Rightarrow> Err EncPanic
         | Some live \<Rightarrow>
             and_then (collect (offered_light actor eco sc) (lv_objects live)) (\<lambda>lights.
             and_then (offered_mage_hand actor eco sc live) (\<lambda>hands.
             and_then (offered_sleep s actor eco rules sc live) (\<lambda>sleeps.
               Ok (casts @ lights @ hands @ offered_hand_control s actor eco live @ sleeps)))))
       else Ok casts)"

definition pool_left :: "resource_counter option \<Rightarrow> bool" where
  "pool_left c = (case c of None \<Rightarrow> False | Some c \<Rightarrow> ctr_current c > 0)"

definition offered_features ::
  "action_economy \<Rightarrow> hero_rules_profile \<Rightarrow> legal_action list enc_result" where
  "offered_features eco rules =
     (let res = hrp_runtime_resources rules in
      if rs_class res = Fighter
      then and_then (offer (available eco (SecondWindContext (pool_left (rs_second_wind res))))
             [LegalSecondWind]) (\<lambda>winds.
           and_then (offer (available eco (ActionSurgeContext
               (\<not> action_available eco \<and> pool_left (rs_action_surge res)))) [LegalActionSurge]) (\<lambda>surges.
             Ok (winds @ surges)))
      else Ok [])"

text \<open>What only the hero can do, and only with a rules snapshot.\<close>

definition offered_hero ::
  "encounter_state \<Rightarrow> combatant_state \<Rightarrow> combatant_state \<Rightarrow> turn_resources \<Rightarrow> legal_action list enc_result" where
  "offered_hero s actor target r =
     (if cb_id actor = canal_warden_id \<and> cb_life_status target \<noteq> LifeDead
      then (case en_hero_rules s of
          None \<Rightarrow> Ok []
        | Some rules \<Rightarrow>
            and_then (case hrp_spellcasting rules of
                None \<Rightarrow> Ok []
              | Some sc \<Rightarrow> offered_spells s actor target (turn_economy r) rules sc) (\<lambda>spells.
            and_then (offered_features (turn_economy r) rules) (\<lambda>features.
              Ok (spells @ features))))
      else Ok [])"

definition offered_move :: "encounter_state \<Rightarrow> combatant_state \<Rightarrow> turn_resources \<Rightarrow> legal_action list" where
  "offered_move s actor r =
     (let left = tr_movement_remaining_feet r in
      if left > 0
      then [LegalMove (max (cb_position_feet actor - left) (map_minimum_position_feet (en_map s)))
              (min (saturating_add u16_max (cb_position_feet actor) left)
                 (map_maximum_position_feet (en_map s))) left]
      else [])"

definition offered_attacks ::
  "combatant_state \<Rightarrow> combatant_state \<Rightarrow> turn_resources \<Rightarrow> encounter_attack list \<Rightarrow> legal_action list" where
  "offered_attacks actor target r attacks =
     (if tr_action_available r \<and> cb_life_status target \<noteq> LifeDead
      then map (\<lambda>a. LegalAttack (ea_attack_id a) (cb_id target) (ea_range_feet a))
        (filter (\<lambda>a. enc_distance (cb_position_feet actor) (cb_position_feet target) \<le> ea_range_feet a)
          attacks)
      else [])"

definition offered_context :: "encounter_state \<Rightarrow> combatant_state \<Rightarrow> turn_resources \<Rightarrow> legal_action list" where
  "offered_context s actor r =
     (if cb_id actor = canal_warden_id \<and> tr_object_interaction_available r
        \<and> eo_status (obj_contextual (en_objectives s)) = ObjPending
        \<and> enc_distance (cb_position_feet actor) (map_sluice_position_feet (en_map s))
            \<le> map_context_range_feet (en_map s)
      then [LegalContext release_sluice_action_id] else [])"

definition shield_spell_ready :: "encounter_state \<Rightarrow> bool" where
  "shield_spell_ready s =
     (case (en_live s, en_hero_rules s) of
        (Some live, Some rules) \<Rightarrow>
          lv_hero_reaction_available live \<and> lv_shield_ward live = None
          \<and> cb_life_status (en_hero s) = LifeConscious
          \<and> rs_class (hrp_runtime_resources rules) = Wizard
          \<and> has_spell_slot (hrp_runtime_resources rules)
          \<and> (case hrp_spellcasting rules of None \<Rightarrow> False | Some sc \<Rightarrow> ShieldSpell \<in> set (sp_prepared sc))
      | _ \<Rightarrow> False)"

definition reaction_pending :: "encounter_state \<Rightarrow> bool" where
  "reaction_pending s = (case en_live s of None \<Rightarrow> False | Some live \<Rightarrow> lv_pending live \<noteq> None)"

definition shield_reaction_available :: "encounter_state \<Rightarrow> bool" where
  "shield_reaction_available s \<longleftrightarrow> reaction_pending s \<and> shield_spell_ready s"

definition rest_legal_actions :: "encounter_state \<Rightarrow> legal_action list" where
  "rest_legal_actions s =
     (if en_schema_version s \<noteq> encounter_schema_version \<or> \<not> is_safe_rest_boundary s then []
      else case (en_live s, en_hero_rules s) of
        (Some live, Some rules) \<Rightarrow>
          (let res = hrp_runtime_resources rules; hp = cb_hit_points (en_hero s) in
           if hrp_constitution_modifier rules = None then []
           else case lv_active_short_rest live of
             Some rest \<Rightarrow>
               (if hp_current hp < hp_maximum hp \<and> ctr_current (rs_hit_dice res) > 0
                then [LegalHitDie] else []) @
               (if \<not> sr_arcane_recovery_used rest \<and> pool_left (rs_arcane_recovery res)
                  \<and> (case rs_spell_slots res of None \<Rightarrow> False | Some c \<Rightarrow> ctr_current c < ctr_maximum c)
                then [LegalArcaneRecovery] else []) @
               [LegalFinishRest]
           | None \<Rightarrow>
               LegalBeginRest #
               (if (case lv_last_long_rest_minute live of
                      None \<Rightarrow> True | Some m \<Rightarrow> lv_campaign_time_minutes live - m \<ge> 24 * 60)
                then [LegalLongRest] else []))
      | _ \<Rightarrow> [])"

definition active_legal_actions :: "encounter_state \<Rightarrow> legal_action list enc_result" where
  "active_legal_actions s =
     and_then (ok_or (current_actor s) (InvalidHandling NoCurrentActor)) (\<lambda>actor.
       if cb_life_status actor = LifeUnconscious then Ok [LegalDeathSave]
       else if cb_life_status actor \<noteq> LifeConscious
       then Err (InvalidHandling ActorNeitherConsciousNorSaving)
       else if cb_id actor = soot_wight_id
         \<and> (case en_live s of None \<Rightarrow> False | Some live \<Rightarrow> lv_sleep live \<noteq> None)
       then Ok [LegalEndTurn]
       else
         and_then (ok_or (en_turn_resources s) (InvalidHandling NoTurnResources)) (\<lambda>r.
         and_then (ok_or (attacks_for_actor s (cb_id actor)) (InvalidHandling NoActorAttack)) (\<lambda>attacks.
         and_then (ok_or (opposing_combatant s (cb_id actor)) (InvalidHandling NoTarget)) (\<lambda>target.
         and_then (offered_hero s actor target r) (\<lambda>heroics.
           Ok (offered_move s actor r @ offered_attacks actor target r attacks @ heroics @
               offered_context s actor r @ [LegalEndTurn]))))))"

definition legal_actions :: "encounter_state \<Rightarrow> legal_action list enc_result" where
  "legal_actions s =
     and_then (encounter_validate s) (\<lambda>_.
       if en_schema_version s = encounter_schema_version \<and> reaction_pending s
       then Ok ((if shield_reaction_available s then [LegalShield] else []) @ [LegalDecline])
       else case en_status s of
         EncReady \<Rightarrow> Ok [LegalStart]
       | EncVictory \<Rightarrow> Ok (rest_legal_actions s)
       | EncDefeat \<Rightarrow> Ok (rest_legal_actions s)
       | EncActive \<Rightarrow> active_legal_actions s)"

section \<open>The boundary of player control\<close>

definition player_legal_actions :: "encounter_state \<Rightarrow> legal_action list enc_result" where
  "player_legal_actions s =
     and_then (encounter_validate s) (\<lambda>_.
       if en_schema_version s < encounter_schema_version then Ok []
       else if reaction_pending s then legal_actions s
       else case en_status s of
         EncReady \<Rightarrow> Ok [LegalStart]
       | EncActive \<Rightarrow> if en_current_actor_id s = Some (cb_id (en_hero s)) then legal_actions s else Ok []
       | EncVictory \<Rightarrow> legal_actions s
       | EncDefeat \<Rightarrow> legal_actions s)"

definition require_player_control :: "encounter_state \<Rightarrow> unit enc_result" where
  "require_player_control s =
     and_then (encounter_validate s) (\<lambda>_.
       if en_schema_version s = encounter_schema_version \<and> (reaction_pending s \<or> is_safe_rest_boundary s)
       then Ok ()
       else if en_status s = EncActive \<and> en_current_actor_id s \<noteq> Some (cb_id (en_hero s))
       then (case en_current_actor_id s of
           None \<Rightarrow> Err (InvalidHandling NoCurrentActor)
         | Some i \<Rightarrow> Err (PlayerControlUnavailable i))
       else Ok ())"

section \<open>The policy of the Soot Wight\<close>

definition clamp :: "nat \<Rightarrow> nat \<Rightarrow> nat \<Rightarrow> nat enc_result" where
  "clamp lo hi x = (if lo > hi then Err EncPanic else Ok (max lo (min hi x)))"

fun move_bounds :: "legal_action list \<Rightarrow> (u16 \<times> u16) option" where
  "move_bounds [] = None"
| "move_bounds (a # as) = (case a of LegalMove lo hi _ \<Rightarrow> Some (lo, hi) | _ \<Rightarrow> move_bounds as)"

definition policy_desired :: "encounter_state \<Rightarrow> u16" where
  "policy_desired s =
     (let current = cb_position_feet (en_creature s); hero = cb_position_feet (en_hero s) in
      if current < hero then hero - 5
      else if current > hero
      then min (saturating_add u16_max hero 5) (map_maximum_position_feet (en_map s))
      else current)"

text \<open>The move of the policy, when there is one that brings the wight closer.\<close>

definition policy_move :: "encounter_state \<Rightarrow> legal_action list \<Rightarrow> u16 option enc_result" where
  "policy_move s actions =
     (case move_bounds actions of
        None \<Rightarrow> Ok None
      | Some (lo, hi) \<Rightarrow>
          and_then (clamp lo hi (policy_desired s)) (\<lambda>destination.
            let current = cb_position_feet (en_creature s); hero = cb_position_feet (en_hero s) in
            Ok (if destination \<noteq> current \<and> enc_distance destination hero < enc_distance current hero
                then Some destination else None)))"

definition select_soot_wight_policy_intent :: "encounter_state \<Rightarrow> encounter_intent enc_result" where
  "select_soot_wight_policy_intent s =
     and_then (encounter_validate s) (\<lambda>_.
       if en_status s \<noteq> EncActive \<or> en_current_actor_id s \<noteq> Some (cb_id (en_creature s))
         \<or> cb_id (en_creature s) \<noteq> soot_wight_id
       then Err (PolicyUnavailable WightNotCurrent)
       else and_then (legal_actions s) (\<lambda>actions.
         if list_ex (\<lambda>a. case a of
              LegalAttack attack_id target_id _ \<Rightarrow>
                attack_id = soot_wight_attack_id \<and> target_id = cb_id (en_hero s)
            | _ \<Rightarrow> False) actions
         then Ok (AttackTarget soot_wight_attack_id (cb_id (en_hero s)))
         else and_then (policy_move s actions) (\<lambda>m.
           case m of
             Some destination \<Rightarrow> Ok (MoveTo destination)
           | None \<Rightarrow>
               if LegalEndTurn \<in> set actions then Ok EndTurn
               else Err (PolicyUnavailable PolicyWithoutAction))))"

end
