(* ===== verification/Encounter_Facts.thy ===== *)
theory Encounter_Facts
  imports Encounter_Actions
begin

text \<open>
  What a resolved command reports: its facts, its narration, the resolution that carries them and
  its validation, and correction events.
\<close>

section \<open>Facts\<close>

datatype sleep_end_reason = SleepDamaged | SleepDurationExpired

text \<open>The arguments of a constructor are the fields of the source's variant, in its order.\<close>

datatype encounter_fact =
    EncounterStarted u32 "string list" string
  | Moved string u16 u16 u16 u16
  | AttackResolved string string string u16 u16 u16 i32 enc_attack_outcome
  | DamageApplied string string string enc_damage_type bool u16 u16 u16 u16 u16 u16
  | SpellCastResolved string string spell_id "u8 option" "u8 option" u16
  | LightApplied string string u16
  | LightExpired string
  | MageHandCreated string string string u16 u16
  | MageHandControlled string string string mage_hand_operation u16
  | MageHandDismissed string string
  | MageHandExpired string
  | SleepResolved string u16 "string list" "string list" u16
  | SleepEnded string sleep_end_reason
  | AttackReactionOpened string string string u8 i32 u16
  | ShieldResolved string string u8 i32 u16 u16 bool u8 u8
  | AttackReactionDeclined string string
  | ClassFeatureResolved string feature_id resource_kind u8 u8 bool bool
  | HealingApplied string feature_id u16 u16 u16 u16
  | RestStarted string rest_kind string u64 u64
  | HitDieSpent string resource_kind u8 i8 u16 u16 u8 u8
  | ArcaneRecoveryApplied string u8 u8 u8 u8
  | RestCompleted string rest_kind string u64 u16 u8 u8
  | LifeStatusChanged string life_status life_status u8 u8
  | ContextActionResolved string string u16 string
  | DeathSaveResolved string u8 u8 u8 u8 u8 life_status
  | TurnEnded string string u32
  | EncounterCompleted encounter_outcome "defeat_reason option" bool bool

fun fact_requires_v2 :: "encounter_fact \<Rightarrow> bool" where
  "fact_requires_v2 (SpellCastResolved _ _ _ _ _ _) = True"
| "fact_requires_v2 (ClassFeatureResolved _ _ _ _ _ _ _) = True"
| "fact_requires_v2 (HealingApplied _ _ _ _ _ _) = True"
| "fact_requires_v2 (DamageApplied _ _ _ kind _ _ _ _ _ _ _) = (kind = EncFire \<or> kind = EncForce)"
| "fact_requires_v2 _ = False"

fun fact_requires_v3 :: "encounter_fact \<Rightarrow> bool" where
  "fact_requires_v3 (LightApplied _ _ _) = True"
| "fact_requires_v3 (LightExpired _) = True"
| "fact_requires_v3 (MageHandCreated _ _ _ _ _) = True"
| "fact_requires_v3 (MageHandControlled _ _ _ _ _) = True"
| "fact_requires_v3 (MageHandDismissed _ _) = True"
| "fact_requires_v3 (MageHandExpired _) = True"
| "fact_requires_v3 (SleepResolved _ _ _ _ _) = True"
| "fact_requires_v3 (SleepEnded _ _) = True"
| "fact_requires_v3 (AttackReactionOpened _ _ _ _ _ _) = True"
| "fact_requires_v3 (ShieldResolved _ _ _ _ _ _ _ _ _) = True"
| "fact_requires_v3 (AttackReactionDeclined _ _) = True"
| "fact_requires_v3 (RestStarted _ _ _ _ _) = True"
| "fact_requires_v3 (HitDieSpent _ _ _ _ _ _ _ _) = True"
| "fact_requires_v3 (ArcaneRecoveryApplied _ _ _ _ _) = True"
| "fact_requires_v3 (RestCompleted _ _ _ _ _ _ _) = True"
| "fact_requires_v3 _ = False"

section \<open>Narration\<close>

record narration =
  na_narration_id :: string
  na_authored_text :: string
  na_fallback_text :: string

definition narrate :: "string \<Rightarrow> string \<Rightarrow> string \<Rightarrow> narration" where
  "narrate i authored fallback =
     \<lparr>na_narration_id = i, na_authored_text = authored, na_fallback_text = fallback\<rparr>"

definition show_int :: "int \<Rightarrow> string" where
  "show_int x = (if x < 0 then ''-'' @ show_nat (nat (- x)) else show_nat (nat x))"

definition hero_narrative_name :: "encounter_state \<Rightarrow> string" where
  "hero_narrative_name s =
     (if cb_source_character_id (en_hero s) = None then ''The '' @ cb_name (en_hero s)
      else cb_name (en_hero s))"

fun live_spell_label :: "spell_id \<Rightarrow> string" where
  "live_spell_label FireBolt = ''Fire Bolt''"
| "live_spell_label MagicMissile = ''Magic Missile''"
| "live_spell_label Light = ''Light''"
| "live_spell_label MageHand = ''Mage Hand''"
| "live_spell_label ShieldSpell = ''Shield''"
| "live_spell_label Sleep = ''Sleep''"

text \<open>The authored texts, one definition per handler.\<close>

definition start_narration :: "bool \<Rightarrow> string \<Rightarrow> narration" where
  "start_narration hero_first hero =
     (if hero_first
      then narrate ''encounter:start:canal-warden-first''
        (hero @ '' reads the soot's motion and acts before the Soot Wight can close.'')
        (''The encounter begins. '' @ hero @ '' acts first.'')
      else narrate ''encounter:start:soot-wight-first''
        ''The Soot Wight spills from the viaduct shadow and seizes the first move.''
        ''The encounter begins. The Soot Wight acts first.'')"

definition move_narration :: "string \<Rightarrow> u16 \<Rightarrow> u16 \<Rightarrow> narration" where
  "move_narration actor feet destination =
     narrate ''encounter:move''
       (actor @ '' crosses '' @ show_nat feet @ '' feet of the rain-slick towpath.'')
       (''The current actor moves to '' @ show_nat destination @ '' feet.'')"

definition miss_narration :: "bool \<Rightarrow> string \<Rightarrow> string \<Rightarrow> narration" where
  "miss_narration natural_one actor target =
     (if natural_one
      then narrate ''encounter:attack:natural-one''
        (actor @ '' overcommits, and '' @ target @ '' slips clear.'')
        (actor @ '' misses '' @ target @ '' on a natural 1.'')
      else narrate ''encounter:attack:miss''
        (actor @ '''s strike cuts rain, not '' @ target @ ''.'') (actor @ '' misses '' @ target @ ''.''))"

definition shield_window_narration :: "string \<Rightarrow> string \<Rightarrow> narration" where
  "shield_window_narration actor target =
     narrate ''encounter:reaction:shield-window''
       (actor @ '''s claw breaks through '' @ target @ '''s guard; a heartbeat remains to raise a Shield.'')
       ''The Soot Wight has hit. Shield or decline the reaction before damage is rolled.''"

definition victory_narration :: "string \<Rightarrow> narration" where
  "victory_narration actor =
     narrate ''encounter:complete:victory''
       (actor @ '''s blow breaks the Soot Wight apart; cleansing water carries the ash away.'')
       ''The Soot Wight is defeated. The encounter ends in victory.''"

definition defeat_narration :: "string \<Rightarrow> narration" where
  "defeat_narration hero =
     narrate ''encounter:complete:defeat''
       (hero @ '' falls beneath the viaduct as the encounter closes around them.'')
       (hero @ '' is defeated. The encounter ends with no reward.'')"

definition hit_narration :: "bool \<Rightarrow> string \<Rightarrow> string \<Rightarrow> u16 \<Rightarrow> narration" where
  "hit_narration critical actor target damage =
     (if critical
      then narrate ''encounter:attack:critical-hit''
        (actor @ '' finds the opening and lands a devastating blow on '' @ target @ '' for '' @
          show_nat damage @ '' damage.'')
        (''Critical hit: '' @ target @ '' takes '' @ show_nat damage @ '' damage.'')
      else narrate ''encounter:attack:hit''
        (actor @ '' strikes '' @ target @ '' for '' @ show_nat damage @ '' damage.'')
        (''Hit: '' @ target @ '' takes '' @ show_nat damage @ '' damage.''))"

definition light_narration :: "string \<Rightarrow> narration" where
  "light_narration object_id =
     narrate ''encounter:spell:light''
       ''Arcane light gathers on the old viaduct stone and holds against the soot-dark.''
       (''Light illuminates '' @ object_id @ '' for 600 rounds.'')"

definition mage_hand_narration :: narration where
  "mage_hand_narration =
     narrate ''encounter:spell:mage-hand''
       ''A spectral hand takes shape among the dripping ironwork.'' ''Mage Hand appears for 10 rounds.''"

definition hand_control_narration :: narration where
  "hand_control_narration =
     narrate ''encounter:spell:mage-hand-control''
       ''The spectral hand closes around the cleansing lever and drags it down; canal water answers.''
       ''Mage Hand manipulates the authored sluice lever.''"

definition hand_dismiss_narration :: narration where
  "hand_dismiss_narration =
     narrate ''encounter:spell:mage-hand-dismiss''
       ''The spectral hand thins into rain and is gone.'' ''Mage Hand is dismissed.''"

definition sleep_narration :: "bool \<Rightarrow> u16 \<Rightarrow> narration" where
  "sleep_narration resisted pool =
     (if resisted
      then narrate ''encounter:spell:sleep-resisted''
        ''Drowsing magic rolls through the soot, but the wight remains upright.''
        (''Sleep rolled a '' @ show_nat pool @ '' hit-point pool; no target was affected.'')
      else narrate ''encounter:spell:sleep''
        ''The Soot Wight folds into the wet stones under the weight of sudden slumber.''
        (''Sleep rolled a '' @ show_nat pool @ '' hit-point pool and affected the Soot Wight.''))"

definition shield_negates_narration :: narration where
  "shield_negates_narration =
     narrate ''encounter:spell:shield-negates-hit''
       ''A pane of force snaps into being and turns the claw aside before it can bite.''
       ''Shield negates the pending hit; no damage roll is made.''"

definition shield_fails_narration :: "bool \<Rightarrow> narration" where
  "shield_fails_narration critical =
     (if critical
      then narrate ''encounter:spell:shield-natural-twenty''
        ''The ward flares, but the wight's perfect strike punches through it.''
        ''Shield cannot negate the natural-20 hit; damage is applied.''
      else narrate ''encounter:spell:shield-hit-persists''
        ''The ward rises, but the claw was already driven too deep to turn aside.''
        ''Shield is active, but the triggering hit still deals damage.'')"

definition decline_narration :: "bool \<Rightarrow> narration" where
  "decline_narration defeated =
     (if defeated
      then narrate ''encounter:reaction:decline-defeat''
        ''The claw lands without a ward between it and the hero; the viaduct goes dark.''
        ''Shield was declined. The pending hit defeats the hero.''
      else narrate ''encounter:reaction:decline''
        ''The moment for a ward passes, and the soot-claw lands.''
        ''Shield was declined. The pending hit deals damage.'')"

definition short_rest_start_narration :: narration where
  "short_rest_start_narration =
     narrate ''encounter:rest:short-start''
       ''The aftermath is secured. An hour passes beneath the viaduct while the hero binds their wounds.''
       ''A trusted 60-minute short-rest boundary is active; confirm each hit die separately.''"

definition hit_die_narration :: "u8 \<Rightarrow> i8 \<Rightarrow> u16 \<Rightarrow> narration" where
  "hit_die_narration rolled con recovered =
     narrate ''encounter:rest:hit-die''
       (''The hero commits one hit die and recovers '' @ show_nat recovered @ '' hit points.'')
       (''Hit die '' @ show_nat rolled @ '' plus Constitution '' @ show_int con @ '' recovered '' @
         show_nat recovered @ '' hit points.'')"

definition arcane_recovery_narration :: narration where
  "arcane_recovery_narration =
     narrate ''encounter:rest:arcane-recovery''
       ''The wizard reconstructs one spent pattern from the quiet geometry of the runes.''
       ''Arcane Recovery restores one level-one spell slot.''"

definition short_rest_narration :: narration where
  "short_rest_narration =
     narrate ''encounter:rest:short-complete''
       ''The hour closes with gear reset and breath steadied; the hero chooses to move on.''
       ''Short rest completed. No additional hit die is spent automatically.''"

definition long_rest_narration :: narration where
  "long_rest_narration =
     narrate ''encounter:rest:long-complete''
       ''Eight guarded hours pass. At their end, the hero rises fully restored.''
       ''Long rest completed after 480 trusted campaign minutes; another requires 24 hours.''"

definition spell_victory_narration :: "string \<Rightarrow> narration" where
  "spell_victory_narration hero =
     narrate ''encounter:complete:spell-victory''
       (hero @ '''s magic tears the Soot Wight apart; cleansing water carries the ash away.'')
       ''The Soot Wight is defeated by a spell. The encounter ends in victory.''"

definition spell_narration :: "bool \<Rightarrow> string \<Rightarrow> spell_id \<Rightarrow> u16 \<Rightarrow> narration" where
  "spell_narration missed hero spell damage =
     (if missed
      then narrate ''encounter:spell:miss''
        (hero @ '' casts Fire Bolt, but the flame gutters past the Soot Wight.'')
        ''Fire Bolt misses the Soot Wight.''
      else narrate ''encounter:spell:damage''
        (hero @ '' casts '' @ live_spell_label spell @ '', dealing '' @ show_nat damage @
          '' damage to the Soot Wight.'')
        (live_spell_label spell @ '' deals '' @ show_nat damage @ '' damage to the Soot Wight.''))"

definition second_wind_narration :: "string \<Rightarrow> u16 \<Rightarrow> narration" where
  "second_wind_narration hero healed_by =
     narrate ''encounter:feature:second-wind''
       (hero @ '' catches a second wind and recovers '' @ show_nat healed_by @ '' hit points.'')
       (''Second Wind restores '' @ show_nat healed_by @ '' hit points.'')"

definition action_surge_narration :: "string \<Rightarrow> narration" where
  "action_surge_narration hero =
     narrate ''encounter:feature:action-surge''
       (hero @ '' surges through the opening and regains an action.'')
       ''Action Surge restores the hero's action for this turn.''"

definition sluice_narration :: narration where
  "sluice_narration =
     narrate ''encounter:context:release-sluice''
       (''The Warden throws the old lever. Canal water lashes through the chamber and tears away '' @
        ''the wight's soot veil.'')
       ''The cleansing sluice is released. The Soot Wight loses its temporary hit points.''"

definition end_turn_narration :: "string \<Rightarrow> string \<Rightarrow> string \<Rightarrow> narration" where
  "end_turn_narration ended_name next_name next_id =
     narrate ''encounter:turn:end''
       (ended_name @ '' yields the moment; '' @ next_name @ '' takes the next turn.'')
       (''Turn ended. '' @ next_id @ '' acts next.'')"

definition rise_narration :: "bool \<Rightarrow> string \<Rightarrow> narration" where
  "rise_narration legacy hero =
     narrate ''encounter:death-save:natural-twenty''
       (if legacy then ''The Warden drags in a breath and rises with one last chance to act.''
        else hero @ '' drags in a breath and rises with one last chance to act.'')
       (''Natural 20: '' @ hero @ '' regains 1 hit point.'')"

definition stable_defeat_narration :: narration where
  "stable_defeat_narration =
     narrate ''encounter:complete:stable-defeat''
       ''The Warden's breathing steadies, but the viaduct is lost for now.''
       ''Three successful death saves stabilize the hero. The encounter ends with no reward.''"

definition raw_death_narration :: narration where
  "raw_death_narration =
     narrate ''encounter:complete:raw-death''
       ''The last echo under the viaduct fades. The Warden does not rise.''
       ''Three failed death saves kill the hero. The encounter ends with no reward.''"

definition death_save_narration :: "u8 \<Rightarrow> narration" where
  "death_save_narration natural =
     (if natural = 1
      then narrate ''encounter:death-save:natural-one''
        ''The Warden's breath catches; the darkness draws much closer.''
        ''Natural 1: the hero records two failed death saves.''
      else if natural \<ge> 10
      then narrate ''encounter:death-save:success''
        ''The Warden holds to a thin, stubborn rhythm of breath.'' ''The hero succeeds on a death save.''
      else narrate ''encounter:death-save:failure''
        ''The Warden lies still as soot settles over the stones.'' ''The hero fails a death save.'')"

section \<open>Resolutions and corrections\<close>

record encounter_resolution =
  er_schema_version :: u16
  er_encounter_id :: string
  er_previous_revision :: u64
  er_result_revision :: u64
  er_state :: encounter_state
  er_rolls :: "raw_roll_facts list"
  er_facts :: "encounter_fact list"
  er_narration :: narration

fun validate_sequence :: "nat \<Rightarrow> raw_roll_facts list \<Rightarrow> unit enc_result" where
  "validate_sequence index [] = Ok ()"
| "validate_sequence index (r # rs) =
     (if index + 1 > u16_max then Err (InvalidRollFacts RollsTooMany)
      else if rf_sequence r \<noteq> index + 1 then Err (InvalidRollFacts RollsNotContiguous)
      else and_then (raw_roll_validate r) (\<lambda>_. validate_sequence (Suc index) rs))"

definition narration_ok :: "narration \<Rightarrow> bool" where
  "narration_ok n \<longleftrightarrow>
     is_valid_opaque_id (na_narration_id n) \<and> \<not> is_blank (na_authored_text n)
     \<and> \<not> is_blank (na_fallback_text n) \<and> chars_count (na_authored_text n) \<le> 4000
     \<and> chars_count (na_fallback_text n) \<le> 1000"

definition resolution_validate :: "encounter_resolution \<Rightarrow> unit enc_result" where
  "resolution_validate x =
     (if \<not> supported_schema (er_schema_version x)
        \<or> en_schema_version (er_state x) \<noteq> er_schema_version x
        \<or> er_encounter_id x \<noteq> soot_wight_encounter_id \<or> er_previous_revision x = 0
        \<or> checked_add u64_max (er_previous_revision x) 1 \<noteq> Some (er_result_revision x)
        \<or> en_encounter_id (er_state x) \<noteq> er_encounter_id x
        \<or> en_revision (er_state x) \<noteq> er_result_revision x
        \<or> er_facts x = [] \<or> \<not> narration_ok (er_narration x)
      then Err (InvalidRollFacts EnvelopeInvalid)
      else if er_schema_version x = legacy_encounter_schema_version
        \<and> (list_ex (\<lambda>r. rf_purpose r = PurposeHealing \<or> rf_mode r \<noteq> EncNormal) (er_rolls x)
           \<or> list_ex fact_requires_v2 (er_facts x))
      then Err (InvalidRollFacts LegacyWithV2Mechanics)
      else if er_schema_version x < encounter_schema_version
        \<and> (list_ex (\<lambda>r. rf_purpose r = PurposeSleep \<or> rf_purpose r = PurposeHitDie) (er_rolls x)
           \<or> list_ex fact_requires_v3 (er_facts x))
      then Err (InvalidRollFacts HistoricalWithV3Mechanics)
      else and_then (encounter_validate (er_state x)) (\<lambda>_. validate_sequence 0 (er_rolls x)))"

record correction_event =
  cv_schema_version :: u16
  cv_correction_id :: string
  cv_encounter_id :: string
  cv_previous_revision :: u64
  cv_result_revision :: u64
  cv_reason :: string
  cv_corrected_state :: encounter_state

definition correction_validate :: "correction_event \<Rightarrow> unit enc_result" where
  "correction_validate x =
     (if \<not> supported_schema (cv_schema_version x)
        \<or> en_schema_version (cv_corrected_state x) \<noteq> cv_schema_version x
        \<or> \<not> is_valid_opaque_id (cv_correction_id x) \<or> cv_encounter_id x \<noteq> soot_wight_encounter_id
        \<or> cv_previous_revision x = 0
        \<or> checked_add u64_max (cv_previous_revision x) 1 \<noteq> Some (cv_result_revision x)
        \<or> is_blank (cv_reason x) \<or> chars_count (cv_reason x) > 1000
        \<or> en_encounter_id (cv_corrected_state x) \<noteq> cv_encounter_id x
        \<or> en_revision (cv_corrected_state x) \<noteq> cv_result_revision x
      then Err InvalidCorrection
      else encounter_validate (cv_corrected_state x))"

end
