(* ===== verification/Encounter_Health.thy ===== *)
theory Encounter_Health
  imports Encounter_Facts
begin

text \<open>
  What the handlers of \<open>encounter.rs\<close> share: damage to a combatant, the completion of the
  encounter, the passing of turns and rounds, sleep, and the hero's health at a rest boundary.
\<close>

section \<open>Errors of the rules matrix\<close>

fun map_rules_resolution_error :: "rules_matrix_error \<Rightarrow> encounter_error" where
  "map_rules_resolution_error (CoreError (InvalidDieRoll sides v)) = InvalidRoll sides v"
| "map_rules_resolution_error _ = IllegalIntent RulesUnavailable"

section \<open>Damage\<close>

record damage_application =
  da_temporary_before :: u16
  da_temporary_absorbed :: u16
  da_temporary_after :: u16
  da_current_before :: u16
  da_current_after :: u16
  da_life_before :: life_status
  da_life_after :: life_status

text \<open>A raw-rules hit on a hero that is already down.\<close>

definition hit_downed_hero :: "u16 \<Rightarrow> bool \<Rightarrow> combatant_state \<Rightarrow> combatant_state" where
  "hit_downed_hero damage critical c =
     (let hp = cb_hit_points c; saves = hp_death_saves hp in
      if damage \<ge> hp_maximum hp
      then c\<lparr>cb_life_status := LifeDead,
             cb_hit_points := hp\<lparr>hp_death_saves := saves\<lparr>ds_failures := 3\<rparr>\<rparr>\<rparr>
      else
        let successes = (if cb_life_status c = LifeStable then 0 else ds_successes saves);
            failures = min (saturating_add u8_max (ds_failures saves) (if critical then 2 else 1)) 3
        in c\<lparr>cb_life_status :=
               (if failures = 3 then LifeDead
                else if cb_life_status c = LifeStable then LifeUnconscious else cb_life_status c),
             cb_hit_points := hp\<lparr>hp_death_saves :=
               \<lparr>ds_successes = successes, ds_failures = failures\<rparr>\<rparr>\<rparr>)"

definition damaged :: "u16 \<Rightarrow> bool \<Rightarrow> lethality_policy \<Rightarrow> combatant_state \<Rightarrow> combatant_state" where
  "damaged amount critical policy c0 =
     (let absorbed = min amount (hp_temporary (cb_hit_points c0));
          c = c0\<lparr>cb_hit_points := (cb_hit_points c0)
                 \<lparr>hp_temporary := hp_temporary (cb_hit_points c0) - absorbed\<rparr>\<rparr>;
          damage = amount - absorbed; hp = cb_hit_points c; left = hp_current hp - damage
      in if cb_kind c = CreatureKind
         then c\<lparr>cb_hit_points := hp\<lparr>hp_current := left\<rparr>,
                cb_life_status := (if left = 0 then LifeDead else cb_life_status c)\<rparr>
         else if policy = StoryRecovery
         then (if left = 0
               then c\<lparr>cb_hit_points := hp\<lparr>hp_current := 0, hp_death_saves := tally_default\<rparr>,
                      cb_life_status := LifeUnconscious\<rparr>
               else c\<lparr>cb_hit_points := hp\<lparr>hp_current := left\<rparr>\<rparr>)
         else if hp_current hp > 0
         then (if damage \<ge> hp_current hp
               then (if damage - hp_current hp \<ge> hp_maximum hp
                     then c\<lparr>cb_hit_points := hp\<lparr>hp_current := 0,
                              hp_death_saves := tally_default\<lparr>ds_failures := 3\<rparr>\<rparr>,
                            cb_life_status := LifeDead\<rparr>
                     else c\<lparr>cb_hit_points := hp\<lparr>hp_current := 0, hp_death_saves := tally_default\<rparr>,
                            cb_life_status := LifeUnconscious\<rparr>)
               else c\<lparr>cb_hit_points := hp\<lparr>hp_current := left\<rparr>\<rparr>)
         else if damage > 0 then hit_downed_hero damage critical c else c)"

definition enc_apply_damage ::
  "u16 \<Rightarrow> bool \<Rightarrow> lethality_policy \<Rightarrow> combatant_state \<Rightarrow> damage_application \<times> combatant_state" where
  "enc_apply_damage amount critical policy c =
     (let c' = damaged amount critical policy c; earlier = cb_hit_points c; after = cb_hit_points c' in
      (\<lparr>da_temporary_before = hp_temporary earlier,
        da_temporary_absorbed = min amount (hp_temporary earlier),
        da_temporary_after = hp_temporary after, da_current_before = hp_current earlier,
        da_current_after = hp_current after, da_life_before = cb_life_status c,
        da_life_after = cb_life_status c'\<rparr>, c'))"

section \<open>Completion\<close>

definition complete_victory ::
  "encounter_state \<Rightarrow> encounter_fact list \<Rightarrow> encounter_state \<times> encounter_fact list" where
  "complete_victory s facts =
     (s\<lparr>en_status := EncVictory, en_current_actor_index := None, en_current_actor_id := None,
        en_turn_resources := None,
        en_objectives := (en_objectives s)
          \<lparr>obj_primary := (obj_primary (en_objectives s))\<lparr>eo_status := ObjCompleted\<rparr>\<rparr>,
        en_reward_eligibility := Eligible MajorReward,
        en_transition := Some
          \<lparr>tn_destination_id = exploration_destination_id, tn_outcome = OutcomeVictory,
           tn_defeat_reason = None,
           tn_hero_current_hit_points = hp_current (cb_hit_points (en_hero s)),
           tn_hero_life_status = cb_life_status (en_hero s), tn_story_recovery_applied = False\<rparr>\<rparr>,
      facts @ [EncounterCompleted OutcomeVictory None True False])"

definition complete_defeat ::
  "defeat_reason \<Rightarrow> encounter_state \<Rightarrow> encounter_fact list \<Rightarrow> encounter_state \<times> encounter_fact list" where
  "complete_defeat reason s facts =
     (let story = (en_lethality_policy s = StoryRecovery) in
      (s\<lparr>en_status := EncDefeat, en_current_actor_index := None, en_current_actor_id := None,
         en_turn_resources := None,
         en_objectives := (en_objectives s)
           \<lparr>obj_primary := (obj_primary (en_objectives s))\<lparr>eo_status := ObjFailed\<rparr>\<rparr>,
         en_reward_eligibility := Ineligible EncounterDefeat,
         en_transition := Some
           \<lparr>tn_destination_id = exploration_destination_id, tn_outcome = OutcomeDefeat,
            tn_defeat_reason = Some reason,
            tn_hero_current_hit_points = (if story then 1 else hp_current (cb_hit_points (en_hero s))),
            tn_hero_life_status = (if story then LifeConscious else cb_life_status (en_hero s)),
            tn_story_recovery_applied = story\<rparr>\<rparr>,
       facts @ [EncounterCompleted OutcomeDefeat (Some reason) False story]))"

definition finish_for_health_transition ::
  "string \<Rightarrow> encounter_state \<Rightarrow> encounter_fact list
    \<Rightarrow> encounter_outcome option \<times> encounter_state \<times> encounter_fact list" where
  "finish_for_health_transition target_id s facts =
     (if target_id = soot_wight_id \<and> cb_life_status (en_creature s) = LifeDead
      then (Some OutcomeVictory, complete_victory s facts)
      else if target_id = canal_warden_id
      then (case (en_lethality_policy s, cb_life_status (en_hero s)) of
          (StoryRecovery, LifeUnconscious) \<Rightarrow>
            (Some OutcomeDefeat, complete_defeat HeroUnconscious s facts)
        | (RulesAsWritten, LifeDead) \<Rightarrow> (Some OutcomeDefeat, complete_defeat HeroDead s facts)
        | _ \<Rightarrow> (None, s, facts))
      else (None, s, facts))"

section \<open>Sleep\<close>

definition wake_creature :: "encounter_state \<Rightarrow> encounter_state" where
  "wake_creature s = s\<lparr>en_creature := (en_creature s)
     \<lparr>cb_status_effects := filter (\<lambda>e. e \<noteq> MagicallyAsleep) (cb_status_effects (en_creature s))\<rparr>\<rparr>"

definition wake_sleep_after_damage ::
  "string \<Rightarrow> u16 \<Rightarrow> encounter_state \<Rightarrow> encounter_fact list
    \<Rightarrow> (encounter_state \<times> encounter_fact list) enc_result" where
  "wake_sleep_after_damage target_id damage s facts =
     (if damage = 0 \<or> target_id \<noteq> soot_wight_id \<or> en_schema_version s \<noteq> encounter_schema_version
      then Ok (s, facts)
      else and_then (ok_or (en_live s) EncPanic) (\<lambda>live.
        case lv_sleep live of
          None \<Rightarrow> Ok (s, facts)
        | Some x \<Rightarrow>
            Ok ((wake_creature s)\<lparr>en_live := Some (live\<lparr>lv_sleep := None\<rparr>)\<rparr>,
                facts @ [SleepEnded (sls_target_id x) SleepDamaged])))"

section \<open>Turns and rounds\<close>

definition require_conscious_active_actor :: "encounter_state \<Rightarrow> string enc_result" where
  "require_conscious_active_actor s =
     (if en_status s \<noteq> EncActive then Err (IllegalIntent NotActive)
      else and_then (ok_or (current_actor s) (InvalidHandling NoCurrentActor)) (\<lambda>actor.
        if cb_life_status actor \<noteq> LifeConscious then Err (IllegalIntent ActorCannotAct)
        else Ok (cb_id actor)))"

definition set_current_turn :: "nat \<Rightarrow> encounter_state \<Rightarrow> encounter_state enc_result" where
  "set_current_turn index s =
     and_then (ok_or (Option.bind (en_initiative s) (\<lambda>i. list_get (in_order i) index))
        (InvalidHandling ActorIndexOutside)) (\<lambda>actor_id.
     and_then (ok_or (combatant s actor_id) (InvalidHandling ActorNotParticipant)) (\<lambda>actor.
     and_then (ensure (index \<le> u8_max) EncPanic) (\<lambda>_.
     and_then (turn_resources_fresh (cb_speed_feet actor)
        (if actor_id = canal_warden_id then en_hero_rules s else None)) (\<lambda>r.
       let s1 = s\<lparr>en_current_actor_index := Some index, en_current_actor_id := Some actor_id,
                  en_turn_resources := Some r\<rparr>
       in if en_schema_version s = encounter_schema_version \<and> actor_id = canal_warden_id
          then and_then (ok_or (en_live s) EncPanic) (\<lambda>live.
            Ok (s1\<lparr>en_live := Some (live\<lparr>lv_hero_reaction_available := True, lv_shield_ward := None\<rparr>)\<rparr>))
          else Ok s1))))"

fun tick_light :: "encounter_object \<Rightarrow> encounter_object \<times> encounter_fact list" where
  "tick_light ob =
     (case ob_light_remaining_rounds ob of
        None \<Rightarrow> (ob, [])
      | Some n \<Rightarrow>
          if n = 1 then (ob\<lparr>ob_light_remaining_rounds := None\<rparr>, [LightExpired (ob_object_id ob)])
          else (ob\<lparr>ob_light_remaining_rounds := Some (n - 1)\<rparr>, []))"

text \<open>
  One round passes for the live state. The facts of expired lights come after that of the hand,
  as the code collects them first and pushes them last.
\<close>

definition advance_live_round ::
  "encounter_state \<Rightarrow> encounter_fact list \<Rightarrow> (encounter_state \<times> encounter_fact list) enc_result" where
  "advance_live_round s facts =
     (if en_schema_version s \<noteq> encounter_schema_version then Ok (s, facts)
      else and_then (ok_or (en_live s) EncPanic) (\<lambda>live0.
        let ticked = map tick_light (lv_objects live0);
            live1 = live0\<lparr>lv_objects := map fst ticked\<rparr>
        in and_then
          (if lv_mage_hand live1 \<noteq> None
           then (case advance_mage_hand_duration (lv_mage_hand live1) of
               (Err e, _) \<Rightarrow> Err (map_rules_resolution_error e)
             | (Ok expired, hand) \<Rightarrow>
                 Ok (if expired
                     then (live1\<lparr>lv_mage_hand := hand, lv_mage_hand_position_feet := None\<rparr>,
                           facts @ [MageHandExpired mage_hand_id])
                     else (live1\<lparr>lv_mage_hand := hand\<rparr>, facts)))
           else Ok (live1, facts)) (\<lambda>(live2, facts1).
          let facts2 = facts1 @ concat (map snd ticked) in
          case lv_sleep live2 of
            None \<Rightarrow> Ok (s\<lparr>en_live := Some live2\<rparr>, facts2)
          | Some x \<Rightarrow>
              if sls_remaining_rounds x = 1
              then Ok ((wake_creature s)\<lparr>en_live := Some (live2\<lparr>lv_sleep := None\<rparr>)\<rparr>,
                       facts2 @ [SleepEnded (sls_target_id x) SleepDurationExpired])
              else Ok (s\<lparr>en_live := Some (live2\<lparr>lv_sleep :=
                         Some (x\<lparr>sls_remaining_rounds := sls_remaining_rounds x - 1\<rparr>)\<rparr>)\<rparr>, facts2))))"

definition advance_turn ::
  "encounter_state \<Rightarrow> encounter_fact list \<Rightarrow> (encounter_state \<times> encounter_fact list) enc_result" where
  "advance_turn s facts =
     and_then (ok_or (en_initiative s) (InvalidHandling AdvanceNeedsInitiative)) (\<lambda>i.
     and_then (ok_or (en_current_actor_index s) (InvalidHandling AdvanceNeedsActor)) (\<lambda>old_index.
     and_then (ok_or (en_current_actor_id s) (InvalidHandling AdvanceNeedsActor)) (\<lambda>ended.
     and_then (ensure (in_order i \<noteq> []) EncPanic) (\<lambda>_.
       let next_index = (old_index + 1) mod length (in_order i) in
       and_then
         (if next_index = 0
          then and_then (ok_or (checked_add u32_max (en_round s) 1) RoundOverflow) (\<lambda>n.
            advance_live_round (s\<lparr>en_round := n\<rparr>) facts)
          else Ok (s, facts)) (\<lambda>(s1, facts1).
       and_then (set_current_turn next_index s1) (\<lambda>s2.
       and_then (ok_or (en_current_actor_id s2) EncPanic) (\<lambda>next_id.
         Ok (s2, facts1 @ [TurnEnded ended next_id (en_round s2)]))))))))"

section \<open>Health at a rest boundary\<close>

definition recovery_health :: "encounter_state \<Rightarrow> health_state" where
  "recovery_health s =
     (let hp = cb_hit_points (en_hero s) in
      \<lparr>hs_schema_version = rules_matrix_schema_version, hs_maximum = hp_maximum hp,
       hs_current = hp_current hp, hs_temporary = hp_temporary hp,
       hs_vital_status =
         (if cb_life_status (en_hero s) = LifeDead then Dead
          else if hp_current hp = 0 then Dying else Active),
       hs_death_saves = hp_death_saves hp\<rparr>)"

fun life_of_vital :: "vital_status \<Rightarrow> life_status" where
  "life_of_vital Active = LifeConscious"
| "life_of_vital Dying = LifeUnconscious"
| "life_of_vital Stable = LifeStable"
| "life_of_vital Dead = LifeDead"

definition apply_recovery_health :: "health_state \<Rightarrow> encounter_state \<Rightarrow> encounter_state" where
  "apply_recovery_health h s =
     (let hero = (en_hero s)
            \<lparr>cb_hit_points := (cb_hit_points (en_hero s))
               \<lparr>hp_current := hs_current h, hp_temporary := hs_temporary h,
                hp_death_saves := hs_death_saves h\<rparr>,
             cb_life_status := life_of_vital (hs_vital_status h)\<rparr>
      in s\<lparr>en_hero := hero,
           en_transition :=
             (if en_status s = EncVictory \<or> en_status s = EncDefeat
              then map_option (\<lambda>t. t\<lparr>tn_hero_current_hit_points := hs_current h,
                                    tn_hero_life_status := life_of_vital (hs_vital_status h)\<rparr>)
                     (en_transition s)
              else en_transition s)\<rparr>)"

definition apply_story_recovery_boundary :: "encounter_state \<Rightarrow> encounter_state enc_result" where
  "apply_story_recovery_boundary s =
     (if en_status s = EncDefeat \<and> en_lethality_policy s = StoryRecovery
        \<and> cb_life_status (en_hero s) = LifeUnconscious
      then and_then (ok_or (en_transition s) (InvalidHandling RecoveryNeedsTransition)) (\<lambda>t.
        Ok (s\<lparr>en_hero := (en_hero s)
          \<lparr>cb_hit_points := (cb_hit_points (en_hero s))
             \<lparr>hp_current := tn_hero_current_hit_points t, hp_death_saves := tally_default\<rparr>,
           cb_life_status := tn_hero_life_status t\<rparr>\<rparr>))
      else Ok s)"

definition douse_light :: "encounter_object \<Rightarrow> encounter_object \<times> encounter_fact list" where
  "douse_light ob =
     (ob\<lparr>ob_light_remaining_rounds := None\<rparr>,
      if ob_light_remaining_rounds ob \<noteq> None then [LightExpired (ob_object_id ob)] else [])"

definition expire_effects_for_rest ::
  "encounter_state \<Rightarrow> encounter_fact list \<Rightarrow> (encounter_state \<times> encounter_fact list) enc_result" where
  "expire_effects_for_rest s facts =
     and_then (ok_or (en_live s) EncPanic) (\<lambda>live0.
       let doused = map douse_light (lv_objects live0);
           live1 = live0\<lparr>lv_objects := map fst doused\<rparr>;
           facts1 = facts @ concat (map snd doused);
           (live2, facts2) =
             (case lv_mage_hand live1 of
                None \<Rightarrow> (live1, facts1)
              | Some hand \<Rightarrow> (live1\<lparr>lv_mage_hand := None, lv_mage_hand_position_feet := None\<rparr>,
                              facts1 @ [MageHandExpired (mh_hand_id hand)]))
       in Ok (case lv_sleep live2 of
           None \<Rightarrow> (s\<lparr>en_live := Some live2\<rparr>, facts2)
         | Some x \<Rightarrow> ((wake_creature s)\<lparr>en_live := Some (live2\<lparr>lv_sleep := None\<rparr>)\<rparr>,
                     facts2 @ [SleepEnded (sls_target_id x) SleepDurationExpired])))"

end
