(* ===== verification/Encounter_Resolve.thy ===== *)
theory Encounter_Resolve
  imports Encounter_Health
begin

text \<open>
  The handlers of \<open>encounter.rs\<close>, one for each intent, and \<open>resolve_encounter\<close>, which runs one of
  them on a clone of the state. A handler returns the successor state with the rolls, the facts
  and the narration; its failure returns nothing, as the clone is dropped with the error.
\<close>

record handler_output =
  hn_state :: encounter_state
  hn_rolls :: "raw_roll_facts list"
  hn_facts :: "encounter_fact list"
  hn_narration :: narration

definition handled :: "encounter_state \<Rightarrow> raw_roll_facts list \<Rightarrow> encounter_fact list \<Rightarrow> narration \<Rightarrow> handler_output" where
  "handled s rolls facts n = \<lparr>hn_state = s, hn_rolls = rolls, hn_facts = facts, hn_narration = n\<rparr>"

section \<open>Start, move, attack\<close>

definition initiative_roll ::
  "raw_roll_facts list \<Rightarrow> string \<Rightarrow> string \<Rightarrow> i8 \<Rightarrow> 's dice \<Rightarrow> 's
    \<Rightarrow> (initiative_entry \<times> raw_roll_facts list) enc_result \<times> 's" where
  "initiative_roll rolls actor_id source modifier roll d =
     and_then_st
       (perform_roll rolls PurposeInitiative actor_id None None 1 20
          [\<lparr>mf_source_id = source, mf_value = modifier\<rparr>] None roll d) (\<lambda>(r, rolls) d.
       (and_then (ok_or (rf_natural_d20 r) EncPanic) (\<lambda>natural.
        and_then (ensure (-32768 \<le> rf_total r \<and> rf_total r \<le> 32767) EncPanic) (\<lambda>_.
          Ok (\<lparr>ie_participant_id = actor_id, ie_natural_roll = natural, ie_modifier = modifier,
               ie_total = rf_total r, ie_tie_break_rank = 0\<rparr>, rolls))), d))"

definition begin_combat ::
  "initiative_entry list \<Rightarrow> raw_roll_facts list \<Rightarrow> encounter_state \<Rightarrow> handler_output enc_result" where
  "begin_combat rolled rolls s =
     (let entries = rank_entries 0 (sort_initiative_entries rolled);
          order = map ie_participant_id entries;
          s1 = s\<lparr>en_initiative := Some \<lparr>in_entries = entries, in_order = order,
                                       in_ties = initiative_ties entries\<rparr>,
                 en_status := EncActive, en_round := 1\<rparr>
      in and_then (set_current_turn 0 s1) (\<lambda>s2.
         and_then (ok_or (en_current_actor_id s2) EncPanic) (\<lambda>first.
           Ok (handled s2 rolls [EncounterStarted 1 order first]
                (start_narration (first = canal_warden_id) (hero_narrative_name s2))))))"

definition resolve_start :: "encounter_state \<Rightarrow> 's dice \<Rightarrow> 's \<Rightarrow> handler_output enc_result \<times> 's" where
  "resolve_start s roll d =
     (if en_status s \<noteq> EncReady then (Err (IllegalIntent AlreadyStarted), d)
      else
        and_then_st (initiative_roll [] canal_warden_id ''srd-5.1-cc:modifier:dexterity-initiative''
          (cb_initiative_modifier (en_hero s)) roll d) (\<lambda>(hero, rolls) d.
        and_then_st (initiative_roll rolls soot_wight_id
          ''manchester-arcana-content:v1:modifier:soot-wight-initiative''
          (cb_initiative_modifier (en_creature s)) roll d) (\<lambda>(creature, rolls) d.
          (begin_combat [hero, creature] rolls s, d))))"

text \<open>A hand that the hero leaves behind: its distance is followed until it is out of range.\<close>

definition hand_follows ::
  "string \<Rightarrow> u16 \<Rightarrow> encounter_state \<Rightarrow> (encounter_state \<times> encounter_fact list) enc_result" where
  "hand_follows actor_id destination s =
     (case (if actor_id = canal_warden_id \<and> en_schema_version s = encounter_schema_version
            then Option.bind (en_live s) lv_mage_hand_position_feet else None) of
        None \<Rightarrow> Ok (s, [])
      | Some hand_position \<Rightarrow>
          and_then (ok_or (en_live s) EncPanic) (\<lambda>live.
            case reconcile_mage_hand_distance (enc_distance destination hand_position) (lv_mage_hand live) of
              (Err e, _) \<Rightarrow> Err (map_rules_resolution_error e)
            | (Ok expired, hand) \<Rightarrow>
                Ok (if expired
                    then (s\<lparr>en_live := Some (live\<lparr>lv_mage_hand := hand,
                                              lv_mage_hand_position_feet := None\<rparr>)\<rparr>,
                          [MageHandExpired mage_hand_id])
                    else (s\<lparr>en_live := Some (live\<lparr>lv_mage_hand := hand\<rparr>)\<rparr>, []))))"

definition resolve_move :: "encounter_state \<Rightarrow> u16 \<Rightarrow> handler_output enc_result" where
  "resolve_move s destination =
     and_then (require_conscious_active_actor s) (\<lambda>actor_id.
       if destination < map_minimum_position_feet (en_map s)
         \<or> destination > map_maximum_position_feet (en_map s) \<or> \<not> 5 dvd destination
       then Err (InvalidDestination destination)
       else and_then (ok_or (combatant s actor_id) EncPanic) (\<lambda>actor.
         let from_feet = cb_position_feet actor; requested = enc_distance from_feet destination in
         if destination = from_feet then Err (IllegalIntent MustChangePosition)
         else and_then (ok_or (en_turn_resources s) EncPanic) (\<lambda>r.
           let remaining = tr_movement_remaining_feet r in
           if requested > remaining then Err (MovementTooFar requested remaining)
           else
             let s1 = update_combatant actor_id (\<lambda>c. c\<lparr>cb_position_feet := destination\<rparr>)
                        (s\<lparr>en_turn_resources :=
                           Some (r\<lparr>tr_movement_remaining_feet := remaining - requested\<rparr>)\<rparr>)
             in and_then (hand_follows actor_id destination s1) (\<lambda>(s2, facts).
               Ok (handled s2 []
                    (facts @ [Moved actor_id from_feet destination requested (remaining - requested)])
                    (move_narration (cb_name actor) requested destination))))))"

definition fact_outcome :: "raw_roll_outcome \<Rightarrow> enc_attack_outcome enc_result" where
  "fact_outcome x =
     (case x of RawAutomaticMiss \<Rightarrow> Ok EncAutomaticMiss | RawMiss \<Rightarrow> Ok EncMiss
      | RawHit \<Rightarrow> Ok EncHit | RawCriticalHit \<Rightarrow> Ok EncCriticalHit | _ \<Rightarrow> Err EncPanic)"

text \<open>Everything that \<open>resolve_attack\<close> checks before the roll.\<close>

definition prepare_attack ::
  "encounter_state \<Rightarrow> string \<Rightarrow> string
    \<Rightarrow> (string \<times> encounter_attack \<times> combatant_state \<times> combatant_state \<times> turn_resources) enc_result" where
  "prepare_attack s attack_id target_id =
     and_then (require_conscious_active_actor s) (\<lambda>actor_id.
     and_then (ok_or (attack_for_actor s actor_id attack_id) (AttackUnavailable actor_id attack_id)) (\<lambda>a.
       if target_id \<noteq> (if actor_id = canal_warden_id then soot_wight_id else canal_warden_id)
       then Err (InvalidTarget actor_id target_id)
       else and_then (ok_or (combatant s target_id) EncPanic) (\<lambda>target.
         if cb_life_status target = LifeDead then Err (IllegalIntent DeadTarget)
         else and_then (ok_or (combatant s actor_id) EncPanic) (\<lambda>actor.
           let distance = enc_distance (cb_position_feet actor) (cb_position_feet target) in
           if distance > ea_range_feet a then Err (TargetOutOfRange distance (ea_range_feet a))
           else and_then (ok_or (en_turn_resources s) EncPanic) (\<lambda>r.
             if \<not> tr_action_available r then Err (IllegalIntent ActionSpent)
             else Ok (actor_id, a, actor, target, r))))))"

definition life_change_fact ::
  "string \<Rightarrow> damage_application \<Rightarrow> combatant_state \<Rightarrow> encounter_fact list" where
  "life_change_fact target_id x c =
     (if da_life_before x \<noteq> da_life_after x
      then [LifeStatusChanged target_id (da_life_before x) (da_life_after x)
              (ds_successes (hp_death_saves (cb_hit_points c)))
              (ds_failures (hp_death_saves (cb_hit_points c)))]
      else [])"

definition damage_fact ::
  "string \<Rightarrow> string \<Rightarrow> string \<Rightarrow> enc_damage_type \<Rightarrow> bool \<Rightarrow> u16 \<Rightarrow> damage_application \<Rightarrow> encounter_fact" where
  "damage_fact actor_id target_id attack_id kind critical amount x =
     DamageApplied actor_id target_id attack_id kind critical amount (da_temporary_before x)
       (da_temporary_absorbed x) (da_temporary_after x) (da_current_before x) (da_current_after x)"

text \<open>A damage total as the amount that is applied: \<open>u16::try_from(total.max(0))\<close>.\<close>

definition damage_amount :: "i32 \<Rightarrow> u16 enc_result" where
  "damage_amount tot =
     (if max tot 0 \<le> int u16_max then Ok (nat (max tot 0)) else Err (InvalidHandling DamageOutOfRange))"

text \<open>From the damage roll of a hit to the end of the handler.\<close>

definition land_hit ::
  "encounter_state \<Rightarrow> string \<Rightarrow> combatant_state \<Rightarrow> combatant_state \<Rightarrow> string \<Rightarrow> encounter_attack \<Rightarrow> bool
    \<Rightarrow> raw_roll_facts list \<Rightarrow> encounter_fact list \<Rightarrow> 's dice \<Rightarrow> 's \<Rightarrow> handler_output enc_result \<times> 's" where
  "land_hit s actor_id actor target target_id a critical rolls facts roll d =
     and_then_st
       (perform_roll rolls PurposeDamage actor_id (Some target_id) (Some (ea_attack_id a))
          (if critical then 2 else 1) (ea_damage_die_sides a) [ea_damage_modifier a] None roll d)
       (\<lambda>(damage_roll, rolls) d.
         (and_then (damage_amount (rf_total damage_roll)) (\<lambda>damage.
            let (x, target') = enc_apply_damage damage critical (en_lethality_policy s) target;
                s1 = update_combatant target_id (\<lambda>_. target') s;
                facts = facts @ [damage_fact actor_id target_id (ea_attack_id a) (ea_damage_type a)
                                   critical damage x]
            in and_then (wake_sleep_after_damage target_id damage s1 facts) (\<lambda>(s2, facts).
              let (completion, s3, facts) =
                    finish_for_health_transition target_id s2 (facts @ life_change_fact target_id x target')
              in Ok (handled s3 rolls facts
                  (case completion of
                     Some OutcomeVictory \<Rightarrow> victory_narration (cb_name actor)
                   | Some OutcomeDefeat \<Rightarrow> defeat_narration (hero_narrative_name s3)
                   | None \<Rightarrow> hit_narration critical (cb_name actor) (cb_name target) damage)))), d))"

definition open_shield_window ::
  "encounter_state \<Rightarrow> string \<Rightarrow> combatant_state \<Rightarrow> combatant_state \<Rightarrow> string \<Rightarrow> encounter_attack
    \<Rightarrow> raw_roll_facts \<Rightarrow> bool \<Rightarrow> raw_roll_facts list \<Rightarrow> encounter_fact list \<Rightarrow> handler_output enc_result" where
  "open_shield_window s actor_id actor target target_id a r critical rolls facts =
     and_then (ok_or (rf_natural_d20 r) EncPanic) (\<lambda>natural.
     and_then (ok_or (en_live s) EncPanic) (\<lambda>live.
       let pending = \<lparr>pr_actor_id = actor_id, pr_target_id = target_id, pr_attack_id = ea_attack_id a,
             pr_natural_roll = natural, pr_attack_total = rf_total r,
             pr_armor_class = cb_armor_class target, pr_critical = critical\<rparr>
       in Ok (handled (s\<lparr>en_live := Some (live\<lparr>lv_pending := Some pending\<rparr>)\<rparr>) rolls
            (facts @ [AttackReactionOpened actor_id target_id (ea_attack_id a) natural (rf_total r)
                        (cb_armor_class target)])
            (shield_window_narration (cb_name actor) (cb_name target)))))"

definition resolve_attack ::
  "encounter_state \<Rightarrow> string \<Rightarrow> string \<Rightarrow> 's dice \<Rightarrow> 's \<Rightarrow> handler_output enc_result \<times> 's" where
  "resolve_attack s attack_id target_id roll d =
     and_then_st (prepare_attack s attack_id target_id, d) (\<lambda>(actor_id, a, actor, target, r) d.
       if cb_armor_class target > 32767 then (Err EncPanic, d)
       else
         let s1 = s\<lparr>en_turn_resources := Some (r\<lparr>tr_action_available := False\<rparr>)\<rparr> in
         and_then_st
           (perform_roll [] PurposeAttack actor_id (Some target_id) (Some (ea_attack_id a)) 1 20
              (ea_attack_modifiers a)
              (Some \<lparr>rc_kind = ArmorClassComparison, rc_value = int (cb_armor_class target)\<rparr>) roll d)
           (\<lambda>(attack_roll, rolls) d.
             and_then_st (fact_outcome (rf_outcome attack_roll), d) (\<lambda>outcome d.
               let facts = [AttackResolved actor_id target_id (ea_attack_id a)
                     (enc_distance (cb_position_feet actor) (cb_position_feet target))
                     (ea_range_feet a) (cb_armor_class target) (rf_total attack_roll) outcome];
                   critical = enc_is_critical outcome
               in if \<not> enc_is_hit outcome
                  then (Ok (handled s1 rolls facts (miss_narration (outcome = EncAutomaticMiss)
                             (cb_name actor) (cb_name target))), d)
                  else if en_schema_version s1 = encounter_schema_version \<and> actor_id = soot_wight_id
                    \<and> shield_spell_ready s1
                  then (open_shield_window s1 actor_id actor target target_id a attack_roll critical
                          rolls facts, d)
                  else land_hit s1 actor_id actor target target_id a critical rolls facts roll d)))"

section \<open>Live spells\<close>

definition components_available :: spell_component_access where
  "components_available =
     \<lparr>sca_verbal_available = True, sca_somatic_available = True, sca_material_focus_available = True\<rparr>"

definition authored_object :: "encounter_state \<Rightarrow> string \<Rightarrow> encounter_object enc_result" where
  "authored_object s object_id =
     ok_or (Option.bind (en_live s) (\<lambda>live. find (\<lambda>ob. ob_object_id ob = object_id) (lv_objects live)))
       (IllegalIntent ObjectUnavailable)"

definition require_legal :: "encounter_state \<Rightarrow> legal_action \<Rightarrow> unit enc_result" where
  "require_legal s a =
     and_then (legal_actions s) (\<lambda>actions. ensure (a \<in> set actions) (IllegalIntent NotALegalAction))"

definition caster_snapshot ::
  "encounter_state \<Rightarrow> (hero_rules_profile \<times> spellcasting_state) enc_result" where
  "caster_snapshot s =
     and_then (ok_or (en_hero_rules s) (IllegalIntent NoRulesSnapshot)) (\<lambda>rules.
     and_then (ok_or (hrp_spellcasting rules) (IllegalIntent NoSpellcasting)) (\<lambda>sc. Ok (rules, sc)))"

definition economy_of_turn :: "encounter_state \<Rightarrow> action_economy enc_result" where
  "economy_of_turn s = and_then (ok_or (en_turn_resources s) EncPanic) (\<lambda>r. Ok (turn_economy r))"

text \<open>A spell resolved by the rules matrix on clones of the hero's snapshot and economy.\<close>

definition cast_live ::
  "hero_rules_profile \<Rightarrow> spellcasting_state \<Rightarrow> action_economy \<Rightarrow> supported_spell_intent \<Rightarrow> 's dice \<Rightarrow> 's
    \<Rightarrow> (spell_outcome \<times> hero_rules_profile \<times> action_economy) enc_result \<times> 's" where
  "cast_live rules sc eco intent roll d =
     (case resolve_supported_spell sc condition_set_empty components_available intent roll d
             (hrp_runtime_resources rules, eco) of
        (Err e, _, d) \<Rightarrow> (Err (map_rules_resolution_error e), d)
      | (Ok x, (res, eco), d) \<Rightarrow> (Ok (scr_outcome x, rules\<lparr>hrp_runtime_resources := res\<rparr>, eco), d))"

definition spell_slot_count :: "runtime_resources \<Rightarrow> u8 option" where
  "spell_slot_count r = map_option ctr_current (rs_spell_slots r)"

definition commit_cast ::
  "hero_rules_profile \<Rightarrow> action_economy \<Rightarrow> encounter_state \<Rightarrow> encounter_state" where
  "commit_cast rules eco s =
     s\<lparr>en_turn_resources := Some (resources_from_economy eco), en_hero_rules := Some rules\<rparr>"

fun light_duration :: "string \<Rightarrow> spell_effect list \<Rightarrow> u16 option" where
  "light_duration i [] = None"
| "light_duration i (e # es) =
     (case e of
        IlluminateObject x \<Rightarrow> if il_object_id x = i then Some (il_duration_rounds x) else light_duration i es
      | _ \<Rightarrow> light_duration i es)"

definition resolve_cast_light ::
  "encounter_state \<Rightarrow> string \<Rightarrow> 's dice \<Rightarrow> 's \<Rightarrow> handler_output enc_result \<times> 's" where
  "resolve_cast_light s object_id roll d =
     and_then_st
       (and_then (require_legal s (LegalLight object_id)) (\<lambda>_.
        and_then (authored_object s object_id) (\<lambda>ob.
        and_then (caster_snapshot s) (\<lambda>(rules, sc).
        and_then (economy_of_turn s) (\<lambda>eco. Ok (ob, rules, sc, eco))))), d)
       (\<lambda>(ob, rules, sc, eco) d.
     and_then_st
       (cast_live rules sc eco
         (CastLight \<lparr>lt_object_id = ob_object_id ob,
            lt_distance_feet = enc_distance (cb_position_feet (en_hero s)) (ob_position_feet ob),
            lt_object_maximum_dimension_feet = ob_maximum_dimension_feet ob,
            lt_hostile_carrier = None\<rparr>) roll d)
       (\<lambda>(outcome, rules, eco) d.
         (and_then (ok_or (light_duration object_id (so_effects outcome)) (InvalidHandling EffectOmitted))
           (\<lambda>duration.
          and_then (ok_or (en_live s) EncPanic) (\<lambda>live.
          and_then (ensure (list_ex (\<lambda>ob. ob_object_id ob = object_id) (lv_objects live)) EncPanic) (\<lambda>_.
            Ok (handled
              (commit_cast rules eco (s\<lparr>en_live := Some (live\<lparr>lv_objects :=
                 update_first (\<lambda>ob. ob_object_id ob = object_id)
                   (\<lambda>ob. ob\<lparr>ob_light_remaining_rounds := Some duration\<rparr>) (lv_objects live)\<rparr>)\<rparr>)) []
              [SpellCastResolved canal_warden_id object_id Light None None 0,
               LightApplied canal_warden_id object_id duration]
              (light_narration object_id))))), d)))"

fun created_hand :: "spell_effect list \<Rightarrow> mage_hand_state option" where
  "created_hand [] = None"
| "created_hand (e # es) = (case e of CreateMageHand h \<Rightarrow> Some h | _ \<Rightarrow> created_hand es)"

definition resolve_cast_mage_hand ::
  "encounter_state \<Rightarrow> string \<Rightarrow> 's dice \<Rightarrow> 's \<Rightarrow> handler_output enc_result \<times> 's" where
  "resolve_cast_mage_hand s anchor_id roll d =
     and_then_st
       (and_then (require_legal s (LegalMageHand anchor_id)) (\<lambda>_.
        and_then (authored_object s anchor_id) (\<lambda>ob.
        and_then (caster_snapshot s) (\<lambda>(rules, sc).
        and_then (economy_of_turn s) (\<lambda>eco. Ok (ob, rules, sc, eco))))), d)
       (\<lambda>(ob, rules, sc, eco) d.
         let distance = enc_distance (cb_position_feet (en_hero s)) (ob_position_feet ob) in
     and_then_st
       (cast_live rules sc eco
         (CastMageHand \<lparr>mg_hand_id = mage_hand_id, mg_distance_feet = distance\<rparr>) roll d)
       (\<lambda>(outcome, rules, eco) d.
         (and_then (ok_or (created_hand (so_effects outcome)) (InvalidHandling EffectOmitted)) (\<lambda>hand.
          and_then (ok_or (en_live s) EncPanic) (\<lambda>live.
            Ok (handled
              (commit_cast rules eco (s\<lparr>en_live := Some (live\<lparr>lv_mage_hand := Some hand,
                 lv_mage_hand_position_feet := Some (ob_position_feet ob)\<rparr>)\<rparr>)) []
              [SpellCastResolved canal_warden_id anchor_id MageHand None None 0,
               MageHandCreated canal_warden_id (mh_hand_id hand) anchor_id distance
                 (mh_remaining_rounds hand)]
              mage_hand_narration))), d)))"

section \<open>The mage hand\<close>

text \<open>The sluice is released: the veil and its temporary hit points go, the objective completes.\<close>

definition release_sluice :: "encounter_state \<Rightarrow> encounter_state" where
  "release_sluice s =
     s\<lparr>en_creature := (en_creature s)
          \<lparr>cb_hit_points := (cb_hit_points (en_creature s))\<lparr>hp_temporary := 0\<rparr>,
           cb_status_effects := filter (\<lambda>e. e \<noteq> SootVeil) (cb_status_effects (en_creature s))\<rparr>,
       en_objectives := (en_objectives s)
          \<lparr>obj_contextual := (obj_contextual (en_objectives s))\<lparr>eo_status := ObjCompleted\<rparr>\<rparr>\<rparr>"

definition pull_lever ::
  "string \<Rightarrow> encounter_state \<Rightarrow> encounter_state \<times> encounter_fact list" where
  "pull_lever object_id s =
     (if object_id = sluice_lever_object_id
        \<and> eo_status (obj_contextual (en_objectives s)) = ObjPending
      then (release_sluice s,
            [ContextActionResolved canal_warden_id sluice_lever_object_id
               (hp_temporary (cb_hit_points (en_creature s))) release_sluice_objective_id])
      else (s, []))"

definition resolve_control_mage_hand :: "encounter_state \<Rightarrow> string \<Rightarrow> handler_output enc_result" where
  "resolve_control_mage_hand s object_id =
     and_then (require_legal s (LegalMoveHand object_id)) (\<lambda>_.
     and_then (authored_object s object_id) (\<lambda>ob.
     and_then (ok_or (en_live s) EncPanic) (\<lambda>live.
     and_then (ok_or (lv_mage_hand live) EncPanic) (\<lambda>hand.
     and_then (economy_of_turn s) (\<lambda>eco.
       let resulting = enc_distance (cb_position_feet (en_hero s)) (ob_position_feet ob) in
       case resolve_mage_hand_action condition_set_empty
              (ControlHand \<lparr>mt_object_id = ob_object_id ob,
                 mt_hand_movement_feet = abs_diff (mh_distance_from_caster_feet hand) resulting,
                 mt_resulting_distance_feet = resulting, mt_object_weight_pounds = ob_weight_pounds ob,
                 mt_is_magic_item = ob_is_magic_item ob, mt_operation = ManipulateObject\<rparr>)
              (Some hand, eco) of
         (Err e, _) \<Rightarrow> Err (map_rules_resolution_error e)
       | (Ok x, (_, eco)) \<Rightarrow>
           (case mha_effect x of
              HandDismissed _ \<Rightarrow> Err (InvalidHandling WrongEffect)
            | HandControlled c \<Rightarrow>
                let s1 = s\<lparr>en_live := Some (live\<lparr>lv_mage_hand := mha_resulting_hand x,
                               lv_mage_hand_position_feet := Some (ob_position_feet ob)\<rparr>),
                           en_turn_resources := Some (resources_from_economy eco)\<rparr>;
                    (s2, facts) = pull_lever object_id s1
                in Ok (handled s2 []
                     (MageHandControlled canal_warden_id (mhc_hand_id c) object_id (mhc_operation c)
                        (mhc_resulting_distance_feet c) # facts)
                     hand_control_narration)))))))"

definition resolve_dismiss_mage_hand :: "encounter_state \<Rightarrow> handler_output enc_result" where
  "resolve_dismiss_mage_hand s =
     and_then (require_legal s LegalDismissHand) (\<lambda>_.
     and_then (ok_or (en_live s) EncPanic) (\<lambda>live.
     and_then (economy_of_turn s) (\<lambda>eco.
       case resolve_mage_hand_action condition_set_empty DismissHand (lv_mage_hand live, eco) of
         (Err e, _) \<Rightarrow> Err (map_rules_resolution_error e)
       | (Ok x, (_, eco)) \<Rightarrow>
           (case mha_effect x of
              HandControlled _ \<Rightarrow> Err (InvalidHandling WrongEffect)
            | HandDismissed hand_id \<Rightarrow>
                Ok (handled
                  (s\<lparr>en_live := Some (live\<lparr>lv_mage_hand := None, lv_mage_hand_position_feet := None\<rparr>),
                     en_turn_resources := Some (resources_from_economy eco)\<rparr>) []
                  [MageHandDismissed canal_warden_id hand_id] hand_dismiss_narration)))))"

end
