(* ===== verification/Encounter_Features.thy ===== *)
theory Encounter_Features
  imports Encounter_Resolve
begin

text \<open>
  The handlers of the spells that take effect over time or out of turn (sleep, shield), of the
  damaging spells, the class features, the rests at a safe boundary, the sluice, the end of a turn
  and the death saves.
\<close>

section \<open>Sleep\<close>

text \<open>The targets of the conditions an effect list applies, as the code's ordered set lists them.\<close>

fun condition_targets :: "spell_effect list \<Rightarrow> string list" where
  "condition_targets [] = []"
| "condition_targets (e # es) =
     (case e of ApplyCondition i _ \<Rightarrow> i # condition_targets es | _ \<Rightarrow> condition_targets es)"

definition put_to_sleep :: "string list \<Rightarrow> encounter_state \<Rightarrow> encounter_state enc_result" where
  "put_to_sleep affected s =
     (if soot_wight_id \<in> set affected
      then and_then (ok_or (en_live s) EncPanic) (\<lambda>live.
        Ok (s\<lparr>en_creature := (en_creature s)
               \<lparr>cb_status_effects := cb_status_effects (en_creature s) @ [MagicallyAsleep]\<rparr>,
              en_live := Some (live\<lparr>lv_sleep := Some \<lparr>sls_target_id = soot_wight_id,
                                                       sls_remaining_rounds = 10\<rparr>\<rparr>)\<rparr>))
      else Ok s)"

definition resolve_cast_sleep :: "encounter_state \<Rightarrow> 's dice \<Rightarrow> 's \<Rightarrow> handler_output enc_result \<times> 's" where
  "resolve_cast_sleep s roll d =
     and_then_st
       (and_then (require_legal s LegalSleep) (\<lambda>_.
        and_then (caster_snapshot s) (\<lambda>(rules, sc).
        and_then (ok_or (spell_slot_count (hrp_runtime_resources rules)) (InvalidHandling SlotsAbsent)) (\<lambda>slots.
        and_then (economy_of_turn s) (\<lambda>eco. Ok (rules, sc, slots, eco))))), d)
       (\<lambda>(rules, sc, slots_before, eco) d.
     and_then_st
       (cast_live rules sc eco
         (CastSleep (enc_distance (cb_position_feet (en_hero s)) (cb_position_feet (en_creature s)))
           [\<lparr>sl_target_id = soot_wight_id, sl_distance_from_point_feet = 0,
             sl_current_hit_points = hp_current (cb_hit_points (en_creature s)),
             sl_already_unconscious = False, sl_immune_to_magical_sleep = False\<rparr>]) roll d)
       (\<lambda>(outcome, rules, eco) d.
         (and_then (ok_or (so_sleep_hit_point_pool outcome) (InvalidHandling PoolOmitted)) (\<lambda>pool.
          and_then (case so_damage_rolls outcome of
              [] \<Rightarrow> Err (InvalidHandling SleepRollOmitted) | x # _ \<Rightarrow> Ok x) (\<lambda>pool_roll.
            let affected = remdups_adj (sort (condition_targets (so_effects outcome))) in
            and_then (put_to_sleep affected s) (\<lambda>s1.
            and_then (ok_or (spell_slot_count (hrp_runtime_resources rules)) EncPanic) (\<lambda>slots_after.
              Ok (handled (commit_cast rules eco s1) (push_sleep_roll [] pool_roll)
                [SpellCastResolved canal_warden_id soot_wight_id Sleep (Some slots_before)
                   (Some slots_after) 0,
                 SleepResolved canal_warden_id pool [soot_wight_id] affected 10]
                (sleep_narration (affected = []) pool)))))), d)))"

section \<open>The shield reaction\<close>

text \<open>The damage of a pending hit, on the hero, with the creature's attack.\<close>

definition resolve_pending_attack_damage ::
  "pending_attack_reaction \<Rightarrow> encounter_state \<Rightarrow> raw_roll_facts list \<Rightarrow> encounter_fact list \<Rightarrow> 's dice \<Rightarrow> 's
    \<Rightarrow> (encounter_outcome option \<times> encounter_state \<times> raw_roll_facts list \<times> encounter_fact list) enc_result
       \<times> 's" where
  "resolve_pending_attack_damage p s rolls facts roll d =
     and_then_st
       (perform_roll rolls PurposeDamage (pr_actor_id p) (Some (pr_target_id p)) (Some (pr_attack_id p))
          (if pr_critical p then 2 else 1) (ea_damage_die_sides creature_attack)
          [ea_damage_modifier creature_attack] None roll d)
       (\<lambda>(damage_roll, rolls) d.
         (and_then (damage_amount (rf_total damage_roll)) (\<lambda>damage.
            let (x, hero) = enc_apply_damage damage (pr_critical p) (en_lethality_policy s) (en_hero s);
                (completion, s1, facts) = finish_for_health_transition canal_warden_id
                  (s\<lparr>en_hero := hero\<rparr>)
                  (facts @ [damage_fact (pr_actor_id p) (pr_target_id p) (pr_attack_id p)
                              (ea_damage_type creature_attack) (pr_critical p) damage x]
                    @ life_change_fact canal_warden_id x hero)
            in Ok (completion, s1, rolls, facts)), d))"

definition reaction_economy :: "bool \<Rightarrow> action_economy" where
  "reaction_economy ready = (economy_new 0)\<lparr>reaction_available := ready\<rparr>"

fun ward_effect :: "spell_effect list \<Rightarrow> shield_ward option" where
  "ward_effect [] = None"
| "ward_effect (e # es) =
     (case e of
        ShieldWard w \<Rightarrow> if sw_until_start_of_caster_turn w then Some w else ward_effect es
      | _ \<Rightarrow> ward_effect es)"

text \<open>Everything up to the spell: the pending hit, the snapshots and the converted numbers.\<close>

definition prepare_shield ::
  "encounter_state \<Rightarrow>
    (live_state \<times> pending_attack_reaction \<times> hero_rules_profile \<times> spellcasting_state \<times> u8) enc_result" where
  "prepare_shield s =
     and_then (require_legal s LegalShield) (\<lambda>_.
     and_then (ok_or (en_live s) EncPanic) (\<lambda>live.
     and_then (ok_or (lv_pending live) EncPanic) (\<lambda>p.
     and_then (caster_snapshot s) (\<lambda>(rules, sc).
     and_then (ok_or (spell_slot_count (hrp_runtime_resources rules)) (InvalidHandling SlotsAbsent)) (\<lambda>slots.
     and_then (ensure (pr_armor_class p \<le> u8_max) (InvalidHandling ArmorClassRange)) (\<lambda>_.
     and_then (ensure (-32768 \<le> pr_attack_total p \<and> pr_attack_total p \<le> 32767)
                (InvalidHandling AttackTotalRange)) (\<lambda>_.
       Ok (live, p, rules, sc, slots))))))))"

definition resolve_shield_reaction :: "encounter_state \<Rightarrow> 's dice \<Rightarrow> 's \<Rightarrow> handler_output enc_result \<times> 's" where
  "resolve_shield_reaction s roll d =
     and_then_st (prepare_shield s, d) (\<lambda>(live, p, rules, sc, slots_before) d.
     and_then_st
       (cast_live rules sc (reaction_economy (lv_hero_reaction_available live))
         (CastShield (AttackHit (pr_natural_roll p) (pr_attack_total p) (pr_armor_class p))) roll d)
       (\<lambda>(outcome, rules, _) d.
     and_then_st
       (and_then (ok_or (ward_effect (so_effects outcome)) (InvalidHandling EffectOmitted)) (\<lambda>w.
        and_then (ok_or (spell_slot_count (hrp_runtime_resources rules)) EncPanic) (\<lambda>slots_after.
          Ok (w, slots_after))), d)
       (\<lambda>(w, slots_after) d.
         let s1 = s\<lparr>en_live := Some (live\<lparr>lv_pending := None, lv_hero_reaction_available := False,
                      lv_shield_ward := Some \<lparr>swd_caster_id = canal_warden_id,
                        swd_armor_class_bonus = sw_armor_class_bonus w,
                        swd_immune_to_magic_missile = sw_immune_to_magic_missile w,
                        swd_expiry = StartOfCasterTurn\<rparr>\<rparr>),
                    en_hero_rules := Some rules\<rparr>;
             facts = [SpellCastResolved canal_warden_id canal_warden_id ShieldSpell
                        (Some slots_before) (Some slots_after) 0,
                      ShieldResolved canal_warden_id (pr_attack_id p) (pr_natural_roll p)
                        (pr_attack_total p) (pr_armor_class p)
                        (pr_armor_class p + sw_armor_class_bonus w) (sw_negates_triggering_attack w)
                        slots_before slots_after]
         in if sw_negates_triggering_attack w
            then (Ok (handled s1 [] facts shield_negates_narration), d)
            else and_then_st (resolve_pending_attack_damage p s1 [] facts roll d)
              (\<lambda>(completion, s2, rolls, facts) d.
                (and_then
                   (if completion \<noteq> None
                    then and_then (ok_or (en_live s2) EncPanic) (\<lambda>live.
                      Ok (s2\<lparr>en_live := Some (live\<lparr>lv_shield_ward := None\<rparr>)\<rparr>))
                    else Ok s2) (\<lambda>s3.
                   Ok (handled s3 rolls facts (shield_fails_narration (pr_critical p)))), d)))))"

definition resolve_decline_reaction :: "encounter_state \<Rightarrow> 's dice \<Rightarrow> 's \<Rightarrow> handler_output enc_result \<times> 's" where
  "resolve_decline_reaction s roll d =
     and_then_st
       (and_then (require_legal s LegalDecline) (\<lambda>_.
        and_then (ok_or (en_live s) EncPanic) (\<lambda>live.
        and_then (ok_or (lv_pending live) EncPanic) (\<lambda>p. Ok (live, p)))), d)
       (\<lambda>(live, p) d.
         and_then_st
           (resolve_pending_attack_damage p (s\<lparr>en_live := Some (live\<lparr>lv_pending := None\<rparr>)\<rparr>) []
              [AttackReactionDeclined canal_warden_id (pr_attack_id p)] roll d)
           (\<lambda>(completion, s1, rolls, facts) d.
             (Ok (handled s1 rolls facts (decline_narration (completion = Some OutcomeDefeat))), d)))"

section \<open>Damaging spells\<close>

text \<open>The loop over the effects: their damage adds up, and they must agree on target and type.\<close>

fun spell_damage_sum ::
  "string \<Rightarrow> spell_effect list \<Rightarrow> u16 \<Rightarrow> enc_damage_type option
    \<Rightarrow> (u16 \<times> enc_damage_type option) enc_result" where
  "spell_damage_sum target_id [] acc kind = Ok (acc, kind)"
| "spell_damage_sum target_id (e # es) acc kind =
     (case e of
        DamageEffect x \<Rightarrow>
          if sd_target_id x \<noteq> target_id then Err (InvalidHandling UnexpectedTarget)
          else and_then (case sd_damage_type x of Fire \<Rightarrow> Ok EncFire | Force \<Rightarrow> Ok EncForce
                 | _ \<Rightarrow> Err (InvalidHandling UnexpectedDamageType)) (\<lambda>mapped.
            if kind \<noteq> None \<and> kind \<noteq> Some mapped then Err (InvalidHandling MixedDamageTypes)
            else and_then (ok_or (checked_add u16_max acc (sd_effective_damage x))
                (InvalidHandling SpellDamageOverflow)) (\<lambda>acc.
              spell_damage_sum target_id es acc (Some mapped)))
      | _ \<Rightarrow> spell_damage_sum target_id es acc kind)"

definition damage_profile_normal :: damage_profile where
  "damage_profile_normal = \<lparr>dp_resistances = [], dp_vulnerabilities = [], dp_immunities = []\<rparr>"

definition damaging_intent :: "spell_id \<Rightarrow> string \<Rightarrow> u16 \<Rightarrow> u8 \<Rightarrow> supported_spell_intent" where
  "damaging_intent spell target_id distance armor_class =
     (if spell = FireBolt
      then CastFireBolt
        \<lparr>fb_target_id = target_id, fb_distance_feet = distance, fb_visible = True,
         fb_armor_class = armor_class, fb_cover = NoCover, fb_threatened = (distance \<le> 5),
         fb_damage_profile = damage_profile_normal, fb_target_kind = CreatureTarget,
         fb_conditions = condition_set_empty\<rparr> rc_normal
      else
        let t = \<lparr>mm_target_id = target_id, mm_distance_feet = distance, mm_visible = True,
                 mm_shielded = False, mm_damage_profile = damage_profile_normal\<rparr>
        in CastMagicMissile t t t)"

text \<open>The attack and damage rolls of the outcome as raw facts.\<close>

definition spell_rolls :: "spell_outcome \<Rightarrow> string \<Rightarrow> spell_id \<Rightarrow> raw_roll_facts list" where
  "spell_rolls outcome target_id spell =
     fold (\<lambda>x rolls. push_spell_damage_roll rolls x target_id spell) (so_damage_rolls outcome)
       (case so_attack outcome of None \<Rightarrow> [] | Some a \<Rightarrow> push_spell_attack_roll [] a target_id spell)"

text \<open>From the summed damage to the end of the handler.\<close>

definition land_spell ::
  "encounter_state \<Rightarrow> string \<Rightarrow> string \<Rightarrow> spell_id \<Rightarrow> enc_attack_outcome option \<Rightarrow> u16
    \<Rightarrow> enc_damage_type option \<Rightarrow> raw_roll_facts list \<Rightarrow> encounter_fact list \<Rightarrow> handler_output enc_result" where
  "land_spell s actor_id target_id spell attack damage kind rolls facts =
     (let after = (\<lambda>s facts. Ok (handled s rolls facts
            (spell_narration (case attack of None \<Rightarrow> False | Some x \<Rightarrow> \<not> enc_is_hit x)
              (hero_narrative_name s) spell damage))) in
      if damage > 0
      then
        let critical = (case attack of None \<Rightarrow> False | Some x \<Rightarrow> enc_is_critical x) in
        and_then (ok_or (combatant s target_id) EncPanic) (\<lambda>target.
        and_then (ok_or kind EncPanic) (\<lambda>kind.
          let (x, target') = enc_apply_damage damage critical (en_lethality_policy s) target;
              s1 = update_combatant target_id (\<lambda>_. target') s;
              facts = facts @ [damage_fact actor_id target_id (spell_mechanic_id spell) kind critical damage x]
          in and_then (wake_sleep_after_damage target_id damage s1 facts) (\<lambda>(s2, facts).
            let (completion, s3, facts) = finish_for_health_transition target_id s2
                  (facts @ life_change_fact target_id x (en_creature s2))
            in if completion = Some OutcomeVictory
               then Ok (handled s3 rolls facts (spell_victory_narration (hero_narrative_name s3)))
               else after s3 facts)))
      else after s facts)"

definition prepare_cast ::
  "encounter_state \<Rightarrow> spell_id \<Rightarrow> string
    \<Rightarrow> (string \<times> hero_rules_profile \<times> spellcasting_state \<times> action_economy) enc_result" where
  "prepare_cast s spell target_id =
     (if spell \<noteq> FireBolt \<and> spell \<noteq> MagicMissile then Err (IllegalIntent SpellNotExposed)
      else and_then (require_conscious_active_actor s) (\<lambda>actor_id.
        if actor_id \<noteq> canal_warden_id then Err (IllegalIntent NotALegalAction)
        else and_then (legal_actions s) (\<lambda>actions.
          if \<not> list_ex (\<lambda>a. case a of LegalCast sp t _ \<Rightarrow> sp = spell \<and> t = target_id | _ \<Rightarrow> False) actions
          then Err (IllegalIntent NotALegalAction)
          else if cb_armor_class (en_creature s) > u8_max then Err (InvalidHandling ArmorClassRange)
          else and_then (caster_snapshot s) (\<lambda>(rules, sc).
            and_then (economy_of_turn s) (\<lambda>eco. Ok (actor_id, rules, sc, eco))))))"

definition resolve_cast_spell ::
  "encounter_state \<Rightarrow> spell_id \<Rightarrow> string \<Rightarrow> 's dice \<Rightarrow> 's \<Rightarrow> handler_output enc_result \<times> 's" where
  "resolve_cast_spell s spell target_id roll d =
     and_then_st (prepare_cast s spell target_id, d) (\<lambda>(actor_id, rules, sc, eco) d.
       let distance = enc_distance (cb_position_feet (en_hero s)) (cb_position_feet (en_creature s));
           slots_before = spell_slot_count (hrp_runtime_resources rules) in
     and_then_st
       (cast_live rules sc eco
          (damaging_intent spell target_id distance (cb_armor_class (en_creature s))) roll d)
       (\<lambda>(outcome, rules, eco) d.
         let attack = map_option (\<lambda>a. spell_attack_outcome (sar_outcome a)) (so_attack outcome);
             attack_facts = (case so_attack outcome of
                 None \<Rightarrow> []
               | Some a \<Rightarrow> [AttackResolved actor_id target_id (spell_mechanic_id spell) distance 120
                     (sar_target_armor_class a) (sar_total a) (spell_attack_outcome (sar_outcome a))])
         in (and_then (spell_damage_sum target_id (so_effects outcome) 0 None) (\<lambda>(damage, kind).
               land_spell (commit_cast rules eco s) actor_id target_id spell attack damage kind
                 (spell_rolls outcome target_id spell)
                 (attack_facts @ [SpellCastResolved actor_id target_id spell slots_before
                    (spell_slot_count (hrp_runtime_resources rules)) damage])), d)))"

section \<open>Class features\<close>

definition pool_current :: "resource_counter option \<Rightarrow> u8" where
  "pool_current c = (case c of None \<Rightarrow> 0 | Some c \<Rightarrow> ctr_current c)"

definition prepare_feature ::
  "encounter_state \<Rightarrow> legal_action \<Rightarrow> (string \<times> hero_rules_profile \<times> action_economy) enc_result" where
  "prepare_feature s a =
     and_then (require_conscious_active_actor s) (\<lambda>actor_id.
       if actor_id \<noteq> canal_warden_id then Err (IllegalIntent NotALegalAction)
       else and_then (require_legal s a) (\<lambda>_.
         and_then (ok_or (en_hero_rules s) (IllegalIntent NoRulesSnapshot)) (\<lambda>rules.
         and_then (economy_of_turn s) (\<lambda>eco. Ok (actor_id, rules, eco)))))"

definition second_wind_health :: "combatant_state \<Rightarrow> health_state" where
  "second_wind_health hero =
     \<lparr>hs_schema_version = rules_matrix_schema_version, hs_maximum = hp_maximum (cb_hit_points hero),
      hs_current = hp_current (cb_hit_points hero), hs_temporary = hp_temporary (cb_hit_points hero),
      hs_vital_status = Active, hs_death_saves = tally_default\<rparr>"

definition resolve_second_wind :: "encounter_state \<Rightarrow> 's dice \<Rightarrow> 's \<Rightarrow> handler_output enc_result \<times> 's" where
  "resolve_second_wind s roll d =
     and_then_st (prepare_feature s LegalSecondWind, d) (\<lambda>(actor_id, rules, eco) d.
       let res = hrp_runtime_resources rules; earlier = hp_current (cb_hit_points (en_hero s)) in
       case use_second_wind roll d (res, eco, second_wind_health (en_hero s)) of
         (Err e, _, d) \<Rightarrow> (Err (map_rules_resolution_error e), d)
       | (Ok x, (res', eco', health), d) \<Rightarrow>
           let s1 = s\<lparr>en_hero := (en_hero s)
                        \<lparr>cb_hit_points := (cb_hit_points (en_hero s))\<lparr>hp_current := hs_current health\<rparr>\<rparr>,
                      en_turn_resources := Some (resources_from_economy eco'),
                      en_hero_rules := Some (rules\<lparr>hrp_runtime_resources := res'\<rparr>)\<rparr>
           in (Ok (handled s1 (push_second_wind_roll [] x actor_id)
                [ClassFeatureResolved actor_id FeatureSecondWind SecondWindPool
                   (pool_current (rs_second_wind res)) (pool_current (rs_second_wind res'))
                   (action_available eco') (bonus_action_available eco'),
                 HealingApplied actor_id FeatureSecondWind (hres_requested_healing (sw_healing x))
                   (hres_effective_healing (sw_healing x)) earlier (hs_current health)]
                (second_wind_narration (hero_narrative_name s1)
                   (hres_effective_healing (sw_healing x)))), d))"

definition resolve_action_surge :: "encounter_state \<Rightarrow> handler_output enc_result" where
  "resolve_action_surge s =
     and_then (prepare_feature s LegalActionSurge) (\<lambda>(actor_id, rules, eco).
       let res = hrp_runtime_resources rules in
       case use_action_surge (res, eco) of
         (Err e, _) \<Rightarrow> Err (map_rules_resolution_error e)
       | (Ok _, (res', eco')) \<Rightarrow>
           Ok (handled
             (s\<lparr>en_turn_resources := Some (resources_from_economy eco'),
                en_hero_rules := Some (rules\<lparr>hrp_runtime_resources := res'\<rparr>)\<rparr>) []
             [ClassFeatureResolved actor_id FeatureActionSurge ActionSurgePool
                (pool_current (rs_action_surge res)) (pool_current (rs_action_surge res'))
                (action_available eco') (bonus_action_available eco')]
             (action_surge_narration (hero_narrative_name s))))"

section \<open>The sluice, the end of a turn, death saves\<close>

definition resolve_context_action :: "encounter_state \<Rightarrow> string \<Rightarrow> handler_output enc_result" where
  "resolve_context_action s action_id =
     and_then (require_conscious_active_actor s) (\<lambda>actor_id.
       if actor_id \<noteq> canal_warden_id \<or> action_id \<noteq> release_sluice_action_id
       then Err (IllegalIntent ContextUnavailable)
       else if eo_status (obj_contextual (en_objectives s)) \<noteq> ObjPending
       then Err (IllegalIntent SluiceReleased)
       else if enc_distance (cb_position_feet (en_hero s)) (map_sluice_position_feet (en_map s))
                 > map_context_range_feet (en_map s)
       then Err (IllegalIntent TooFarFromSluice)
       else and_then (ok_or (en_turn_resources s) EncPanic) (\<lambda>r.
         if \<not> tr_object_interaction_available r then Err (IllegalIntent InteractionSpent)
         else Ok (handled
           (release_sluice
             (s\<lparr>en_turn_resources := Some (r\<lparr>tr_object_interaction_available := False\<rparr>)\<rparr>)) []
           [ContextActionResolved actor_id release_sluice_action_id
              (hp_temporary (cb_hit_points (en_creature s))) release_sluice_objective_id]
           sluice_narration)))"

definition resolve_end_turn :: "encounter_state \<Rightarrow> handler_output enc_result" where
  "resolve_end_turn s =
     and_then (require_conscious_active_actor s) (\<lambda>_.
     and_then (ok_or (en_current_actor_id s) EncPanic) (\<lambda>ended.
     and_then (advance_turn s []) (\<lambda>(s1, facts).
     and_then (ok_or (en_current_actor_id s1) EncPanic) (\<lambda>next_id.
     and_then (ok_or (combatant s1 ended) EncPanic) (\<lambda>ended_actor.
     and_then (ok_or (combatant s1 next_id) EncPanic) (\<lambda>next_actor.
       Ok (handled s1 [] facts
         (end_turn_narration (cb_name ended_actor) (cb_name next_actor) next_id))))))))"

text \<open>What a death save of the given face does to the hero.\<close>

definition after_death_save :: "u8 \<Rightarrow> combatant_state \<Rightarrow> combatant_state" where
  "after_death_save natural hero =
     (let hp = cb_hit_points hero; saves = hp_death_saves hp;
          (hp1, life1) =
            (if natural = 20
             then (hp\<lparr>hp_current := 1, hp_death_saves := tally_default\<rparr>, LifeConscious)
             else if natural = 1
             then (hp\<lparr>hp_death_saves := saves
                     \<lparr>ds_failures := min (saturating_add u8_max (ds_failures saves) 2) 3\<rparr>\<rparr>,
                   cb_life_status hero)
             else if 10 \<le> natural \<and> natural \<le> 19
             then (hp\<lparr>hp_death_saves := saves
                     \<lparr>ds_successes := min (saturating_add u8_max (ds_successes saves) 1) 3\<rparr>\<rparr>,
                   cb_life_status hero)
             else (hp\<lparr>hp_death_saves := saves
                     \<lparr>ds_failures := min (saturating_add u8_max (ds_failures saves) 1) 3\<rparr>\<rparr>,
                   cb_life_status hero));
          life2 = (if ds_failures (hp_death_saves hp1) = 3 then LifeDead
                   else if ds_successes (hp_death_saves hp1) = 3 then LifeStable else life1)
      in hero\<lparr>cb_hit_points := hp1, cb_life_status := life2\<rparr>)"

definition finish_death_save ::
  "encounter_state \<Rightarrow> u8 \<Rightarrow> raw_roll_facts list \<Rightarrow> encounter_fact list \<Rightarrow> handler_output enc_result" where
  "finish_death_save s natural rolls facts =
     (case cb_life_status (en_hero s) of
        LifeConscious \<Rightarrow>
          Ok (handled s rolls facts
            (rise_narration (cb_source_character_id (en_hero s) = None) (hero_narrative_name s)))
      | LifeStable \<Rightarrow>
          (let (s1, facts) = complete_defeat HeroStable s facts in
           Ok (handled s1 rolls facts stable_defeat_narration))
      | LifeDead \<Rightarrow>
          (let (s1, facts) = complete_defeat HeroDead s facts in
           Ok (handled s1 rolls facts raw_death_narration))
      | LifeUnconscious \<Rightarrow>
          and_then (advance_turn s facts) (\<lambda>(s1, facts).
            Ok (handled s1 rolls facts (death_save_narration natural))))"

definition enc_resolve_death_save :: "encounter_state \<Rightarrow> 's dice \<Rightarrow> 's \<Rightarrow> handler_output enc_result \<times> 's" where
  "enc_resolve_death_save s roll d =
     (if en_status s \<noteq> EncActive \<or> en_current_actor_id s \<noteq> Some canal_warden_id
        \<or> cb_life_status (en_hero s) \<noteq> LifeUnconscious \<or> en_lethality_policy s \<noteq> RulesAsWritten
      then (Err (IllegalIntent NotADeathSave), d)
      else and_then_st
        (perform_roll [] PurposeDeathSave canal_warden_id (Some canal_warden_id) None 1 20 []
           (Some \<lparr>rc_kind = DeathSaveComparison, rc_value = 10\<rparr>) roll d) (\<lambda>(r, rolls) d.
          (and_then (ok_or (rf_natural_d20 r) EncPanic) (\<lambda>natural.
            let hero = after_death_save natural (en_hero s);
                earlier = hp_death_saves (cb_hit_points (en_hero s));
                after = hp_death_saves (cb_hit_points hero);
                facts = DeathSaveResolved canal_warden_id natural (ds_successes earlier)
                    (ds_successes after) (ds_failures earlier) (ds_failures after) (cb_life_status hero)
                  # (if cb_life_status (en_hero s) \<noteq> cb_life_status hero
                     then [LifeStatusChanged canal_warden_id (cb_life_status (en_hero s))
                             (cb_life_status hero) (ds_successes after) (ds_failures after)] else [])
            in finish_death_save (s\<lparr>en_hero := hero\<rparr>) natural rolls facts), d)))"

section \<open>Rests\<close>

definition resolve_begin_short_rest :: "encounter_state \<Rightarrow> handler_output enc_result" where
  "resolve_begin_short_rest s =
     and_then (require_legal s LegalBeginRest) (\<lambda>_.
     and_then (apply_story_recovery_boundary s) (\<lambda>s1.
     and_then (ok_or (en_live s1) EncPanic) (\<lambda>live0.
       let started = lv_campaign_time_minutes live0 in
     and_then (ok_or (checked_add u64_max started short_rest_minutes)
                (InvalidHandling CampaignTimeOverflow)) (\<lambda>completes.
     and_then (expire_effects_for_rest s1 []) (\<lambda>(s2, facts).
     and_then (ok_or (en_live s2) EncPanic) (\<lambda>live.
       Ok (handled
         (s2\<lparr>en_live := Some (live\<lparr>lv_campaign_time_minutes := completes,
            lv_active_short_rest := Some \<lparr>sr_boundary_id = post_encounter_rest_boundary_id,
              sr_started_at_campaign_minute = started, sr_completes_at_campaign_minute = completes,
              sr_hit_dice_spent = 0, sr_arcane_recovery_used = False\<rparr>\<rparr>)\<rparr>) []
         (facts @ [RestStarted canal_warden_id ShortRest post_encounter_rest_boundary_id started completes])
         short_rest_start_narration)))))))"

definition resolve_spend_hit_die :: "encounter_state \<Rightarrow> 's dice \<Rightarrow> 's \<Rightarrow> handler_output enc_result \<times> 's" where
  "resolve_spend_hit_die s roll d =
     and_then_st
       (and_then (require_legal s LegalHitDie) (\<lambda>_.
        and_then (ok_or (en_hero_rules s) (IllegalIntent NoRulesSnapshot)) (\<lambda>rules.
        and_then (ok_or (hrp_constitution_modifier rules) (InvalidHandling RestNeedsConstitution)) (\<lambda>con.
          Ok (rules, con)))), d)
       (\<lambda>(rules, con) d.
         let res = hrp_runtime_resources rules in
         case spend_hit_die con roll d (res, recovery_health s) of
           (Err e, _, d) \<Rightarrow> (Err (map_rules_resolution_error e), d)
         | (Ok x, (res', health), d) \<Rightarrow>
             (and_then (push_hit_die_roll [] x) (\<lambda>rolls.
                let s1 = (apply_recovery_health health s)
                      \<lparr>en_hero_rules := Some (rules\<lparr>hrp_runtime_resources := res'\<rparr>)\<rparr> in
                and_then (ok_or (en_live s1) EncPanic) (\<lambda>live.
                and_then (ok_or (lv_active_short_rest live) EncPanic) (\<lambda>rest.
                  Ok (handled
                    (s1\<lparr>en_live := Some (live\<lparr>lv_active_short_rest :=
                       Some (rest\<lparr>sr_hit_dice_spent := as_u8 (sr_hit_dice_spent rest + 1)\<rparr>)\<rparr>)\<rparr>) rolls
                    [HitDieSpent canal_warden_id (hd_hit_die x) (hd_roll x) con (hd_healing_total x)
                       (hd_hit_points_recovered x) (ctr_current (rs_hit_dice res))
                       (ctr_current (rs_hit_dice (hd_resulting_resources x)))]
                    (hit_die_narration (hd_roll x) con (hd_hit_points_recovered x)))))), d))"

definition resolve_arcane_recovery :: "encounter_state \<Rightarrow> 's dice \<Rightarrow> 's \<Rightarrow> handler_output enc_result \<times> 's" where
  "resolve_arcane_recovery s roll d =
     and_then_st
       (and_then (require_legal s LegalArcaneRecovery) (\<lambda>_.
        and_then (ok_or (en_hero_rules s) (IllegalIntent NoRulesSnapshot)) (\<lambda>rules.
        and_then (ok_or (rs_spell_slots (hrp_runtime_resources rules)) EncPanic) (\<lambda>slots.
        and_then (ok_or (rs_arcane_recovery (hrp_runtime_resources rules)) EncPanic) (\<lambda>recovery.
        and_then (ok_or (hrp_constitution_modifier rules) EncPanic) (\<lambda>con.
          Ok (rules, ctr_current slots, ctr_current recovery, con)))))), d)
       (\<lambda>(rules, slots_before, recovery_before, con) d.
         case take_short_rest con \<lparr>sq_hit_dice_to_spend = 0, sq_use_arcane_recovery = True\<rparr> roll d
                (hrp_runtime_resources rules, recovery_health s) of
           (Err e, _, d) \<Rightarrow> (Err (map_rules_resolution_error e), d)
         | (Ok x, (res', _), d) \<Rightarrow>
             (and_then (ok_or (rs_spell_slots (rest_resulting_resources x)) EncPanic) (\<lambda>slots.
              and_then (ok_or (rs_arcane_recovery (rest_resulting_resources x)) EncPanic) (\<lambda>recovery.
              and_then (ok_or (en_live s) EncPanic) (\<lambda>live.
              and_then (ok_or (lv_active_short_rest live) EncPanic) (\<lambda>rest.
                Ok (handled
                  (s\<lparr>en_hero_rules := Some (rules\<lparr>hrp_runtime_resources := res'\<rparr>),
                     en_live := Some (live\<lparr>lv_active_short_rest :=
                       Some (rest\<lparr>sr_arcane_recovery_used := True\<rparr>)\<rparr>)\<rparr>) []
                  [ArcaneRecoveryApplied canal_warden_id slots_before (ctr_current slots)
                     recovery_before (ctr_current recovery)]
                  arcane_recovery_narration))))), d))"

definition resolve_finish_short_rest :: "encounter_state \<Rightarrow> 's dice \<Rightarrow> 's \<Rightarrow> handler_output enc_result \<times> 's" where
  "resolve_finish_short_rest s roll d =
     and_then_st
       (and_then (require_legal s LegalFinishRest) (\<lambda>_.
        and_then (ok_or (Option.bind (en_live s) lv_active_short_rest) EncPanic) (\<lambda>rest.
        and_then (ok_or (en_hero_rules s) (IllegalIntent NoRulesSnapshot)) (\<lambda>rules.
        and_then (ok_or (hrp_constitution_modifier rules) EncPanic) (\<lambda>con. Ok (rest, rules, con))))), d)
       (\<lambda>(rest, rules, con) d.
         case take_short_rest con \<lparr>sq_hit_dice_to_spend = 0, sq_use_arcane_recovery = False\<rparr> roll d
                (hrp_runtime_resources rules, recovery_health s) of
           (Err e, _, d) \<Rightarrow> (Err (map_rules_resolution_error e), d)
         | (Ok x, (res', health), d) \<Rightarrow>
             (let s1 = (apply_recovery_health health s)
                    \<lparr>en_hero_rules := Some (rules\<lparr>hrp_runtime_resources := res'\<rparr>)\<rparr> in
              and_then (ok_or (en_live s1) EncPanic) (\<lambda>live.
                Ok (handled (s1\<lparr>en_live := Some (live\<lparr>lv_active_short_rest := None\<rparr>)\<rparr>) []
                  [RestCompleted canal_warden_id ShortRest (sr_boundary_id rest)
                     (sr_completes_at_campaign_minute rest) (rest_hit_points_recovered x) 0 0]
                  short_rest_narration)), d))"

definition resolve_long_rest :: "encounter_state \<Rightarrow> handler_output enc_result" where
  "resolve_long_rest s =
     and_then (require_legal s LegalLongRest) (\<lambda>_.
     and_then (apply_story_recovery_boundary s) (\<lambda>s1.
     and_then (ok_or (en_live s1) EncPanic) (\<lambda>live0.
       let started = lv_campaign_time_minutes live0 in
     and_then (ok_or (checked_add u64_max started long_rest_minutes)
                (InvalidHandling CampaignTimeOverflow)) (\<lambda>completes.
     and_then (ok_or (en_hero_rules s1) (IllegalIntent NoRulesSnapshot)) (\<lambda>rules.
       case take_long_rest (hrp_runtime_resources rules, recovery_health s1) of
         (Err e, _) \<Rightarrow> Err (map_rules_resolution_error e)
       | (Ok x, (res', health)) \<Rightarrow>
           and_then (expire_effects_for_rest s1 []) (\<lambda>(s2, facts).
           let s3 = (apply_recovery_health health s2)
                 \<lparr>en_hero_rules := Some (rules\<lparr>hrp_runtime_resources := res'\<rparr>)\<rparr> in
           and_then (ok_or (en_live s3) EncPanic) (\<lambda>live.
             Ok (handled
               (s3\<lparr>en_live := Some (live\<lparr>lv_campaign_time_minutes := completes,
                  lv_last_long_rest_minute := Some completes\<rparr>)\<rparr>) []
               (facts @
                [RestStarted canal_warden_id LongRest post_encounter_rest_boundary_id started completes,
                 RestCompleted canal_warden_id LongRest post_encounter_rest_boundary_id completes
                   (rest_hit_points_recovered x) (rest_hit_dice_recovered x)
                   (rest_spell_slots_recovered x)])
               long_rest_narration))))))))"

end
