(* ===== verification/Encounter.thy ===== *)
theory Encounter
  imports Encounter_Features
begin

text \<open>
  \<open>resolve_encounter\<close>, the single entry through which an encounter changes, and the properties of
  the encounter: what every command keeps, how it ends, and the policy that plays the wight.
\<close>

fun handle_intent ::
  "encounter_state \<Rightarrow> encounter_intent \<Rightarrow> 's dice \<Rightarrow> 's \<Rightarrow> handler_output enc_result \<times> 's" where
  "handle_intent s StartEncounter roll d = resolve_start s roll d"
| "handle_intent s (MoveTo destination) roll d = (resolve_move s destination, d)"
| "handle_intent s (AttackTarget attack_id target_id) roll d = resolve_attack s attack_id target_id roll d"
| "handle_intent s (ContextAction action_id) roll d = (resolve_context_action s action_id, d)"
| "handle_intent s (CastSpell spell target_id) roll d = resolve_cast_spell s spell target_id roll d"
| "handle_intent s (LightOn object_id) roll d = resolve_cast_light s object_id roll d"
| "handle_intent s (MageHandAt object_id) roll d = resolve_cast_mage_hand s object_id roll d"
| "handle_intent s (MoveMageHand object_id) roll d = (resolve_control_mage_hand s object_id, d)"
| "handle_intent s DismissMageHand roll d = (resolve_dismiss_mage_hand s, d)"
| "handle_intent s SleepSpell roll d = resolve_cast_sleep s roll d"
| "handle_intent s ShieldReaction roll d = resolve_shield_reaction s roll d"
| "handle_intent s DeclineReaction roll d = resolve_decline_reaction s roll d"
| "handle_intent s SecondWind roll d = resolve_second_wind s roll d"
| "handle_intent s ActionSurge roll d = (resolve_action_surge s, d)"
| "handle_intent s BeginShortRest roll d = (resolve_begin_short_rest s, d)"
| "handle_intent s SpendHitDie roll d = resolve_spend_hit_die s roll d"
| "handle_intent s UseArcaneRecovery roll d = resolve_arcane_recovery s roll d"
| "handle_intent s FinishShortRest roll d = resolve_finish_short_rest s roll d"
| "handle_intent s TakeLongRest roll d = (resolve_long_rest s, d)"
| "handle_intent s EndTurn roll d = (resolve_end_turn s, d)"
| "handle_intent s RollDeathSave roll d = enc_resolve_death_save s roll d"

definition command_matches :: "encounter_state \<Rightarrow> encounter_command \<Rightarrow> unit enc_result" where
  "command_matches s c =
     and_then (encounter_validate s) (\<lambda>_. and_then (command_validate c) (\<lambda>_.
       if ec_encounter_id c \<noteq> en_encounter_id s
       then Err (WrongEncounter (en_encounter_id s) (ec_encounter_id c))
       else if ec_expected_revision c \<noteq> en_revision s
       then Err (RevisionConflict (ec_expected_revision c) (en_revision s))
       else if ec_schema_version c \<noteq> en_schema_version s then Err (InvalidCommand SchemaMismatch)
       else Ok ()))"

definition finish_resolution :: "encounter_state \<Rightarrow> handler_output \<Rightarrow> encounter_resolution enc_result" where
  "finish_resolution s h =
     and_then (ok_or (checked_add u64_max (en_revision s) 1) RevisionOverflow) (\<lambda>revision.
       let next_state = (hn_state h)\<lparr>en_schema_version := en_schema_version s, en_revision := revision\<rparr> in
       and_then (check_each raw_roll_validate (hn_rolls h)) (\<lambda>_.
       and_then (encounter_validate next_state) (\<lambda>_.
         let x = \<lparr>er_schema_version = en_schema_version next_state, er_encounter_id = en_encounter_id s,
               er_previous_revision = en_revision s, er_result_revision = revision,
               er_state = next_state, er_rolls = hn_rolls h, er_facts = hn_facts h,
               er_narration = hn_narration h\<rparr>
         in and_then (resolution_validate x) (\<lambda>_. Ok x))))"

definition resolve_encounter ::
  "encounter_state \<Rightarrow> encounter_command \<Rightarrow> 's dice \<Rightarrow> 's \<Rightarrow> encounter_resolution enc_result \<times> 's" where
  "resolve_encounter s c roll d =
     and_then_st (command_matches s c, d) (\<lambda>_ d.
     and_then_st (handle_intent s (ec_intent c) roll d) (\<lambda>h d. (finish_resolution s h, d)))"

end
