(* ===== verification/Result_Logic.thy ===== *)
theory Result_Logic
  imports Prelude
begin

text \<open>
  A small calculus for fallible computations: \<open>on_ok r P\<close> says that \<open>P\<close> holds of the value whenever
  \<open>r\<close> succeeds, \<open>returns r P\<close> that \<open>r\<close> succeeds with a value of \<open>P\<close>. Both move through the
  \<open>?\<close> operator by rewriting, so that a handler is unfolded into the steps it is made of. The
  versions with \<open>_st\<close> are for computations that also carry the state of the dice.
\<close>

named_theorems outcomes_simps "rules that move on_ok and returns through the combinators"

definition on_ok :: "('e, 'a) result \<Rightarrow> ('a \<Rightarrow> bool) \<Rightarrow> bool" where
  "on_ok r P \<longleftrightarrow> (\<forall>x. r = Ok x \<longrightarrow> P x)"

definition returns :: "('e, 'a) result \<Rightarrow> ('a \<Rightarrow> bool) \<Rightarrow> bool" where
  "returns r P \<longleftrightarrow> (\<exists>x. r = Ok x \<and> P x)"

definition on_ok_st :: "('e, 'a) result \<times> 's \<Rightarrow> ('a \<Rightarrow> 's \<Rightarrow> bool) \<Rightarrow> bool" where
  "on_ok_st p P \<longleftrightarrow> (\<forall>x d. p = (Ok x, d) \<longrightarrow> P x d)"

definition returns_st :: "('e, 'a) result \<times> 's \<Rightarrow> ('a \<Rightarrow> 's \<Rightarrow> bool) \<Rightarrow> bool" where
  "returns_st p P \<longleftrightarrow> (\<exists>x d. p = (Ok x, d) \<and> P x d)"

lemma on_okD: "on_ok r P \<Longrightarrow> r = Ok x \<Longrightarrow> P x"
  by (simp add: on_ok_def)

lemma on_ok_stD: "on_ok_st p P \<Longrightarrow> p = (Ok x, d) \<Longrightarrow> P x d"
  by (simp add: on_ok_st_def)

lemma on_ok_mono: "on_ok r P \<Longrightarrow> (\<And>x. r = Ok x \<Longrightarrow> P x \<Longrightarrow> Q x) \<Longrightarrow> on_ok r Q"
  by (simp add: on_ok_def)

lemma on_ok_st_mono: "on_ok_st p P \<Longrightarrow> (\<And>x d. p = (Ok x, d) \<Longrightarrow> P x d \<Longrightarrow> Q x d) \<Longrightarrow> on_ok_st p Q"
  by (simp add: on_ok_st_def)

lemma returns_mono: "returns r P \<Longrightarrow> (\<And>x. r = Ok x \<Longrightarrow> P x \<Longrightarrow> Q x) \<Longrightarrow> returns r Q"
  by (auto simp: returns_def)

lemma returns_st_mono:
  "returns_st p P \<Longrightarrow> (\<And>x d. p = (Ok x, d) \<Longrightarrow> P x d \<Longrightarrow> Q x d) \<Longrightarrow> returns_st p Q"
  by (auto simp: returns_st_def)

lemma on_ok_Ok [outcomes_simps]: "on_ok (Ok x) P = P x" "on_ok (Err e) P = True"
  by (simp_all add: on_ok_def)

lemma on_ok_and_then [outcomes_simps]: "on_ok (and_then r k) P = on_ok r (\<lambda>x. on_ok (k x) P)"
  by (cases r) (simp_all add: on_ok_def)

lemma on_ok_guards [outcomes_simps]:
  "on_ok (ensure b e) P' = (b \<longrightarrow> P' ())" "on_ok (ok_or o' e) P = (\<forall>x. o' = Some x \<longrightarrow> P x)"
  by (auto simp: on_ok_def)

lemma on_ok_if [outcomes_simps]: "on_ok (if b then r else r') P = (if b then on_ok r P else on_ok r' P)"
  by simp

lemma returns_Ok [outcomes_simps]: "returns (Ok x) P = P x" "returns (Err e) P = False"
  by (simp_all add: returns_def)

lemma returns_and_then [outcomes_simps]: "returns (and_then r k) P = returns r (\<lambda>x. returns (k x) P)"
  by (auto simp: returns_def)

lemma returns_guards [outcomes_simps]:
  "returns (ensure b e) P' = (b \<and> P' ())" "returns (ok_or o' e) P = (\<exists>x. o' = Some x \<and> P x)"
  by (auto simp: returns_def)

lemma returns_if [outcomes_simps]: "returns (if b then r else r') P = (if b then returns r P else returns r' P)"
  by simp

lemma on_ok_st_pair [outcomes_simps]: "on_ok_st (r, d) Q = on_ok r (\<lambda>x. Q x d)"
  by (auto simp: on_ok_st_def on_ok_def)

lemma on_ok_st_and_then [outcomes_simps]:
  "on_ok_st (and_then_st p k) P = on_ok_st p (\<lambda>x d. on_ok_st (k x d) P)"
  by (auto simp: on_ok_st_def)

lemma on_ok_st_if [outcomes_simps]:
  "on_ok_st (if b then p else p') P = (if b then on_ok_st p P else on_ok_st p' P)"
  by simp

lemma returns_st_pair [outcomes_simps]: "returns_st (r, d) Q = returns r (\<lambda>x. Q x d)"
  by (auto simp: returns_st_def returns_def)

lemma returns_st_and_then [outcomes_simps]:
  "returns_st (and_then_st p k) P = returns_st p (\<lambda>x d. returns_st (k x d) P)"
  by (auto simp: returns_st_def)

lemma returns_st_if [outcomes_simps]:
  "returns_st (if b then p else p') P = (if b then returns_st p P else returns_st p' P)"
  by simp

lemma on_ok_check_each [outcomes_simps]: "on_ok (check_each f xs) P = ((\<forall>x\<in>set xs. f x = Ok ()) \<longrightarrow> P ())"
  by (auto simp: on_ok_def)

lemma returns_check_each [outcomes_simps]:
  "returns (check_each f xs) P = ((\<forall>x\<in>set xs. f x = Ok ()) \<and> P ())"
  by (auto simp: returns_def)

text \<open>A step whose effect is known is discharged by its own rule, the rest is left to its user.\<close>

lemma on_ok_trivial [simp]: "on_ok r (\<lambda>_. True)" "on_ok_st p (\<lambda>_ _. True)"
  by (simp_all add: on_ok_def on_ok_st_def)

lemma on_okI: "(\<And>x. r = Ok x \<Longrightarrow> P x) \<Longrightarrow> on_ok r P"
  by (simp add: on_ok_def)

lemma on_ok_stI: "(\<And>x d. p = (Ok x, d) \<Longrightarrow> P x d) \<Longrightarrow> on_ok_st p P"
  by (simp add: on_ok_st_def)

lemma returns_unit: "returns r P \<longleftrightarrow> r = Ok () \<and> P ()"
  by (auto simp: returns_def)

end
