(* ===== verification/Encounter_Laws.thy ===== *)
theory Encounter_Laws
  imports Encounter Result_Logic
begin

text \<open>
  What every handler of an encounter respects: the part of the state that no command may touch,
  what a legal action says of the state that offers it, and the order in which an encounter moves.
  A step of an encounter is \<open>resolve_encounter\<close> as its caller uses it: the state of an accepted
  resolution replaces the stored one, a refused command leaves it.
\<close>

declare tick_light.simps [simp del]

section \<open>The step of an encounter\<close>

definition encounter_step ::
  "'s dice \<Rightarrow> (encounter_command \<times> 's, encounter_state, encounter_error, encounter_resolution) step" where
  "encounter_step roll i s =
     (case resolve_encounter s (fst i) roll (snd i) of
        (Ok x, _) \<Rightarrow> (Ok x, er_state x)
      | (Err e, _) \<Rightarrow> (Err e, s))"

abbreviation encounter_valid :: "encounter_state \<Rightarrow> bool" where
  "encounter_valid s \<equiv> encounter_validate s = Ok ()"

section \<open>The fixed part of an encounter\<close>

definition combatant_fixed where
  "combatant_fixed c =
     (cb_id c, cb_name c, cb_kind c, cb_source_character_id c, cb_armor_class c, cb_speed_feet c,
      cb_initiative_modifier c, hp_maximum (cb_hit_points c), cb_attacks c)"

definition rules_fixed where
  "rules_fixed r =
     (rs_class (hrp_runtime_resources r), rs_level (hrp_runtime_resources r), hrp_spellcasting r,
      hrp_constitution_modifier r)"

definition encounter_fixed where
  "encounter_fixed s =
     ((en_schema_version s, en_encounter_id s, en_ruleset_id s, en_content_pack_id s, en_map s),
      (en_lethality_policy s, en_opening_consequence s),
      (combatant_fixed (en_hero s), map_option rules_fixed (en_hero_rules s)),
      combatant_fixed (en_creature s),
      eo_objective_id (obj_primary (en_objectives s)), eo_objective_id (obj_contextual (en_objectives s)))"

lemmas fixed_defs = encounter_fixed_def combatant_fixed_def rules_fixed_def

section \<open>What the rules matrix keeps of a hero\<close>

lemma cast_live_OkD:
  assumes "cast_live rules sc eco intent roll d = (Ok (x, rules', eco'), d')"
  shows "\<exists>res'. rules' = rules\<lparr>hrp_runtime_resources := res'\<rparr> \<and> resources_ok res' \<and>
    rules_fixed rules' = rules_fixed rules \<and>
    resource_flag (spell_resource (intent_spell intent)) eco \<and>
    eco' = clear_resource (spell_resource (intent_spell intent)) eco"
proof -
  obtain r st2 where
    r: "resolve_supported_spell sc condition_set_empty components_available intent roll d
          (hrp_runtime_resources rules, eco) = (r, st2)"
    by (cases "resolve_supported_spell sc condition_set_empty components_available intent roll d
          (hrp_runtime_resources rules, eco)")
  with assms obtain y res' where
    y: "resolve_supported_spell sc condition_set_empty components_available intent roll d
          (hrp_runtime_resources rules, eco) = (Ok y, ((res', eco'), d'))"
    and rules': "rules' = rules\<lparr>hrp_runtime_resources := res'\<rparr>"
    by (auto simp: cast_live_def split: result.splits prod.splits)
  from resolve_spell_OkD [OF y] obtain effects where
    "prepare_spell sc condition_set_empty components_available intent (hrp_runtime_resources rules, eco)
       = Ok (effects, (res', eco'))" "resources_ok res'"
    by blast
  with prepare_spell_OkD(2,8) [OF this(1)] spend_spell_OkD(1,2,3)
  show ?thesis using rules' by (fastforce simp: rules_fixed_def same_profile_def)
qed

lemma second_wind_fixed:
  assumes "use_second_wind roll d (res, eco, hp) = (Ok x, (res', eco', hp'), d')"
  shows "resources_ok res' \<and> rs_class res' = rs_class res \<and> rs_level res' = rs_level res"
proof -
  from use_second_wind_OkD(1,5) [OF assms] have "resources_ok res"
    "res' = res\<lparr>rs_second_wind := map_option (\<lambda>p. p\<lparr>ctr_current := ctr_current p - 1\<rparr>) (rs_second_wind res)\<rparr>"
    by (auto simp: second_wind_ready_def second_wind_spent_def)
  with same_profile_ok [OF _ second_wind_profile] show ?thesis by simp
qed

lemma action_surge_fixed:
  assumes "use_action_surge (res, eco) = (Ok u, (res', eco'))"
  shows "resources_ok res' \<and> rs_class res' = rs_class res \<and> rs_level res' = rs_level res"
proof -
  from use_action_surge_OkD [OF assms] obtain p where p: "resources_ok res"
    "rs_action_surge res = Some p" "0 < ctr_current p"
    "res' = res\<lparr>rs_action_surge := Some (p\<lparr>ctr_current := ctr_current p - 1\<rparr>)\<rparr>" by blast
  then have "same_profile res res'"
    using pools_okD [OF p(1)] by (auto simp: same_profile_def recount_def)
  with same_profile_ok p show ?thesis by auto
qed

lemma short_rest_fixed:
  assumes "take_short_rest con q roll d (res, hp) = (Ok x, (res', hp'), d')"
  shows "resources_ok res' \<and> rs_class res' = rs_class res \<and> rs_level res' = rs_level res \<and>
    hs_maximum hp' = hs_maximum hp"
  using take_short_rest_facts [OF assms] by simp

lemma long_rest_fixed:
  assumes "take_long_rest (res, hp) = (Ok x, (res', hp'))"
  shows "resources_ok res' \<and> rs_class res' = rs_class res \<and> rs_level res' = rs_level res \<and>
    hs_maximum hp' = hs_maximum hp"
proof -
  have ok: "resources_ok res" "health_ok hp" "hs_vital_status hp = Active"
    using take_long_rest_not [of res hp] assms by fastforce+
  from take_long_rest_eq [OF this] assms same_profile_ok [OF ok(1) long_rested_profile [OF ok(1)]]
  show ?thesis by (auto simp: long_rested_def fully_healed_def)
qed

section \<open>The direction of an encounter\<close>

fun phase_rank :: "encounter_status \<Rightarrow> nat" where
  "phase_rank EncReady = 0"
| "phase_rank EncActive = 1"
| "phase_rank EncVictory = 2"
| "phase_rank EncDefeat = 2"

definition settlement where
  "settlement s =
     (en_status s, en_reward_eligibility s,
      map_option (\<lambda>t. (tn_outcome t, tn_defeat_reason t, tn_story_recovery_applied t)) (en_transition s))"

definition campaign_minutes :: "encounter_state \<Rightarrow> u64" where
  "campaign_minutes s = (case en_live s of None \<Rightarrow> 0 | Some live \<Rightarrow> lv_campaign_time_minutes live)"

text \<open>
  \<open>s'\<close> comes later than \<open>s\<close>: the fixed part is the same, rounds and campaign time do not
  run back, campaign time passes only when the encounter is settled, the initiative is rolled once, a released sluice stays released, and a settled encounter
  keeps its outcome and its reward.
\<close>

definition forward :: "encounter_state \<Rightarrow> encounter_state \<Rightarrow> bool" where
  "forward s s' \<longleftrightarrow>
     encounter_fixed s' = encounter_fixed s \<and> en_round s \<le> en_round s' \<and>
     campaign_minutes s \<le> campaign_minutes s' \<and>
     (phase_rank (en_status s') < 2 \<longrightarrow> campaign_minutes s' = campaign_minutes s) \<and>
     phase_rank (en_status s) \<le> phase_rank (en_status s') \<and>
     (phase_rank (en_status s) = 2 \<longrightarrow> settlement s' = settlement s) \<and>
     (en_initiative s \<noteq> None \<longrightarrow> en_initiative s' = en_initiative s) \<and>
     (eo_status (obj_contextual (en_objectives s)) = ObjCompleted \<longrightarrow>
        eo_status (obj_contextual (en_objectives s')) = ObjCompleted)"

lemma forward_refl [simp]: "forward s s"
  by (simp add: forward_def)

lemma forward_trans: "forward s t \<Longrightarrow> forward t u \<Longrightarrow> forward s u"
  by (auto simp: forward_def settlement_def)

lemma forward_fixed: "forward s t \<Longrightarrow> encounter_fixed t = encounter_fixed s"
  by (simp add: forward_def)

text \<open>Writes that cannot take an encounter back.\<close>

lemma forward_writes [simp]:
  "forward s (s\<lparr>en_turn_resources := r\<rparr>)"
  "forward s (s\<lparr>en_current_actor_index := i\<rparr>)"
  "forward s (s\<lparr>en_current_actor_id := a\<rparr>)"
  "combatant_fixed c = combatant_fixed (en_hero s) \<Longrightarrow> forward s (s\<lparr>en_hero := c\<rparr>)"
  "combatant_fixed c = combatant_fixed (en_creature s) \<Longrightarrow> forward s (s\<lparr>en_creature := c\<rparr>)"
  "map_option rules_fixed rules = map_option rules_fixed (en_hero_rules s) \<Longrightarrow>
     forward s (s\<lparr>en_hero_rules := rules\<rparr>)"
  "campaign_minutes s = lv_campaign_time_minutes live \<Longrightarrow> forward s (s\<lparr>en_live := Some live\<rparr>)"
  "en_round s \<le> n \<Longrightarrow> forward s (s\<lparr>en_round := n\<rparr>)"
  by (simp_all add: forward_def settlement_def campaign_minutes_def encounter_fixed_def)

lemma damaged_fixed [simp]: "combatant_fixed (damaged n critical policy c) = combatant_fixed c"
  by (simp add: damaged_def hit_downed_hero_def combatant_fixed_def Let_def)

lemma apply_damage_snd [simp]:
  "snd (enc_apply_damage n critical policy c) = damaged n critical policy c"
  by (simp add: enc_apply_damage_def Let_def)

lemma apply_damage_eq:
  "enc_apply_damage n critical policy c = (x, c') \<Longrightarrow> c' = damaged n critical policy c"
  using apply_damage_snd [of n critical policy c] by simp

lemma forward_update_combatant [simp]:
  "(\<And>c. combatant_fixed (f c) = combatant_fixed c) \<Longrightarrow> forward s (update_combatant i f s)"
  by (simp add: update_combatant_def)

lemma forward_damage:
  "combatant s i = Some c \<Longrightarrow>
     forward s (update_combatant i (\<lambda>_. damaged n critical policy c) s)"
  by (auto simp: update_combatant_def combatant_def split: if_splits)

lemma forward_wake [simp]: "forward s (wake_creature s)"
  by (simp add: wake_creature_def combatant_fixed_def)

lemma forward_release [simp]: "forward s (release_sluice s)"
  by (simp add: release_sluice_def forward_def encounter_fixed_def combatant_fixed_def settlement_def
      campaign_minutes_def)

lemma forward_live_Some [simp]:
  "en_live s = Some live \<Longrightarrow> lv_campaign_time_minutes live = lv_campaign_time_minutes live' \<Longrightarrow>
     forward s (s\<lparr>en_live := Some live'\<rparr>)"
  by (simp add: campaign_minutes_def)

lemma forward_rest:
  "en_live s = Some live \<Longrightarrow> lv_campaign_time_minutes live \<le> lv_campaign_time_minutes live' \<Longrightarrow>
     phase_rank (en_status s) = 2 \<Longrightarrow> forward s (s\<lparr>en_live := Some live'\<rparr>)"
  by (simp add: forward_def settlement_def campaign_minutes_def encounter_fixed_def)

section \<open>The shared steps go forward\<close>

lemma wake_sleep_forward:
  assumes "wake_sleep_after_damage i n s facts = Ok (s', facts')"
  shows "forward s s' \<and> en_status s' = en_status s"
proof (cases "n = 0 \<or> i \<noteq> soot_wight_id \<or> en_schema_version s \<noteq> encounter_schema_version")
  case True
  with assms show ?thesis by (simp add: wake_sleep_after_damage_def)
next
  case False
  with assms obtain live where live: "en_live s = Some live"
    by (auto simp: wake_sleep_after_damage_def)
  show ?thesis
  proof (cases "lv_sleep live")
    case None
    with assms False live show ?thesis by (simp add: wake_sleep_after_damage_def)
  next
    case (Some x)
    with assms False live have s': "s' = (wake_creature s)\<lparr>en_live := Some (live\<lparr>lv_sleep := None\<rparr>)\<rparr>"
      by (simp add: wake_sleep_after_damage_def)
    have "forward (wake_creature s) s'" unfolding s'
      by (rule forward_live_Some) (simp_all add: wake_creature_def live)
    with forward_trans [OF forward_wake] s' show ?thesis by (simp add: wake_creature_def)
  qed
qed

lemma finish_forward:
  assumes "en_status s = EncActive" "finish_for_health_transition i s facts = (c, s', facts')"
  shows "forward s s'"
  using assms
  by (auto simp: finish_for_health_transition_def complete_victory_def complete_defeat_def Let_def
      forward_def encounter_fixed_def settlement_def campaign_minutes_def
      split: if_splits lethality_policy.splits life_status.splits)

lemma complete_defeat_forward:
  "en_status s = EncActive \<Longrightarrow> forward s (fst (complete_defeat reason s facts))"
  by (simp add: complete_defeat_def Let_def forward_def encounter_fixed_def settlement_def
      campaign_minutes_def)

text \<open>The turn of the given participant, as \<open>set_current_turn\<close> leaves it.\<close>

definition turn_set :: "nat \<Rightarrow> string \<Rightarrow> turn_resources \<Rightarrow> encounter_state \<Rightarrow> encounter_state" where
  "turn_set i a r s =
     (let s1 = s\<lparr>en_current_actor_index := Some i, en_current_actor_id := Some a, en_turn_resources := Some r\<rparr>
      in case en_live s of
           None \<Rightarrow> s1
         | Some live \<Rightarrow>
             if en_schema_version s = encounter_schema_version \<and> a = canal_warden_id
             then s1\<lparr>en_live := Some (live\<lparr>lv_hero_reaction_available := True, lv_shield_ward := None\<rparr>)\<rparr>
             else s1)"

lemma set_turn_OkD:
  assumes "set_current_turn i s = Ok s'"
  obtains init a c r where "en_initiative s = Some init" "list_get (in_order init) i = Some a"
    "combatant s a = Some c" "i \<le> u8_max"
    "turn_resources_fresh (cb_speed_feet c) (if a = canal_warden_id then en_hero_rules s else None) = Ok r"
    "s' = turn_set i a r s"
proof -
  obtain init a c r where 1: "en_initiative s = Some init" "list_get (in_order init) i = Some a"
    "combatant s a = Some c" "i \<le> u8_max"
    "turn_resources_fresh (cb_speed_feet c) (if a = canal_warden_id then en_hero_rules s else None) = Ok r"
    and 2: "(let s1 = s\<lparr>en_current_actor_index := Some i, en_current_actor_id := Some a,
                  en_turn_resources := Some r\<rparr>
       in if en_schema_version s = encounter_schema_version \<and> a = canal_warden_id
          then and_then (ok_or (en_live s) EncPanic) (\<lambda>live.
            Ok (s1\<lparr>en_live := Some (live\<lparr>lv_hero_reaction_available := True, lv_shield_ward := None\<rparr>)\<rparr>))
          else Ok s1) = Ok s'"
    using assms unfolding set_current_turn_def and_then_Ok_iff ok_or_Ok_iff ensure_Ok_iff bind_eq_Some_conv
    by blast
  from 2 have "s' = turn_set i a r s"
    by (cases "en_live s") (auto simp: turn_set_def Let_def split: if_splits)
  with 1 show thesis by (rule that)
qed

lemma turn_set_forward: "forward s (turn_set i a r s)"
  by (cases "en_live s")
    (simp_all add: turn_set_def Let_def forward_def encounter_fixed_def settlement_def campaign_minutes_def)

lemma set_turn_forward: "set_current_turn i s = Ok s' \<Longrightarrow> forward s s'"
  by (auto elim!: set_turn_OkD simp: turn_set_forward)

text \<open>The live state after a round, when its hand is sound.\<close>

definition hand_ticked :: "live_state \<Rightarrow> live_state" where
  "hand_ticked live =
     (case lv_mage_hand live of
        None \<Rightarrow> live
      | Some h \<Rightarrow>
          if mh_remaining_rounds h = 1
          then live\<lparr>lv_mage_hand := None, lv_mage_hand_position_feet := None\<rparr>
          else live\<lparr>lv_mage_hand := Some (h\<lparr>mh_remaining_rounds := mh_remaining_rounds h - 1\<rparr>)\<rparr>)"

definition sleep_ticked :: "live_state \<Rightarrow> live_state" where
  "sleep_ticked live =
     live\<lparr>lv_sleep :=
       (case lv_sleep live of
          None \<Rightarrow> None
        | Some x \<Rightarrow> if sls_remaining_rounds x = 1 then None
                    else Some (x\<lparr>sls_remaining_rounds := sls_remaining_rounds x - 1\<rparr>))\<rparr>"

definition live_ticked :: "live_state \<Rightarrow> live_state" where
  "live_ticked live =
     sleep_ticked (hand_ticked (live\<lparr>lv_objects := map (fst \<circ> tick_light) (lv_objects live)\<rparr>))"

definition sleep_ends :: "live_state \<Rightarrow> bool" where
  "sleep_ends live = (case lv_sleep live of None \<Rightarrow> False | Some x \<Rightarrow> sls_remaining_rounds x = 1)"

definition round_passed :: "live_state \<Rightarrow> encounter_state \<Rightarrow> encounter_state" where
  "round_passed live s =
     (if sleep_ends live then wake_creature s else s)\<lparr>en_live := Some (live_ticked live)\<rparr>"

definition round_facts :: "live_state \<Rightarrow> encounter_fact list" where
  "round_facts live =
     (case lv_mage_hand live of
        None \<Rightarrow> []
      | Some h \<Rightarrow> if mh_remaining_rounds h = 1 then [MageHandExpired mage_hand_id] else []) @
     concat (map (snd \<circ> tick_light) (lv_objects live)) @
     (case lv_sleep live of
        None \<Rightarrow> []
      | Some x \<Rightarrow> if sls_remaining_rounds x = 1 then [SleepEnded (sls_target_id x) SleepDurationExpired] else [])"

lemma live_round_eq:
  assumes "en_schema_version s = encounter_schema_version" "en_live s = Some live"
    and "pred_option mage_hand_ok (lv_mage_hand live)"
  shows "advance_live_round s facts = Ok (round_passed live s, facts @ round_facts live)"
proof (cases "lv_mage_hand live")
  case None
  then show ?thesis using assms
    by (cases "lv_sleep live")
      (simp_all add: advance_live_round_def round_passed_def live_ticked_def hand_ticked_def
        sleep_ticked_def sleep_ends_def round_facts_def wake_creature_def comp_def Let_def)
next
  case (Some h)
  note tick = advance_hand_eq [of h]
  show ?thesis
  proof (cases "mh_remaining_rounds h = 1")
    case True
    with Some assms tick show ?thesis
      by (cases "lv_sleep live")
        (simp_all add: advance_live_round_def round_passed_def live_ticked_def hand_ticked_def
          sleep_ticked_def sleep_ends_def round_facts_def wake_creature_def comp_def Let_def)
  next
    case False
    with Some assms tick show ?thesis
      by (cases "lv_sleep live")
        (simp_all add: advance_live_round_def round_passed_def live_ticked_def hand_ticked_def
          sleep_ticked_def sleep_ends_def round_facts_def wake_creature_def comp_def Let_def)
  qed
qed

lemma live_round_OkD:
  assumes "advance_live_round s facts = Ok (s', facts')"
    and v3: "en_schema_version s = encounter_schema_version"
  obtains live where "en_live s = Some live" "s' = round_passed live s" "facts' = facts @ round_facts live"
proof -
  from assms obtain live where live: "en_live s = Some live"
    by (auto simp: advance_live_round_def)
  have ok: "pred_option mage_hand_ok (lv_mage_hand live)"
  proof (rule ccontr)
    assume no: "\<not> pred_option mage_hand_ok (lv_mage_hand live)"
    then obtain h where h: "lv_mage_hand live = Some h" "\<not> mage_hand_ok h"
      by (cases "lv_mage_hand live") auto
    with advance_hand_not [of "Some h"] obtain e where
      "advance_mage_hand_duration (Some h) = (Err e, Some h)" by auto
    with assms(1) live v3 h show False by (simp add: advance_live_round_def Let_def)
  qed
  from live_round_eq [OF v3 live ok] assms(1) have "s' = round_passed live s" "facts' = facts @ round_facts live"
    by simp_all
  with live show thesis by (rule that)
qed

lemma live_ticked_minutes [simp]: "lv_campaign_time_minutes (live_ticked live) = lv_campaign_time_minutes live"
  by (simp add: live_ticked_def sleep_ticked_def hand_ticked_def split: option.splits)

lemma round_passed_forward: "en_live s = Some live \<Longrightarrow> forward s (round_passed live s)"
  by (simp add: round_passed_def wake_creature_def forward_def encounter_fixed_def combatant_fixed_def
      settlement_def campaign_minutes_def)

lemma live_round_forward:
  assumes "advance_live_round s facts = Ok (s', facts')"
  shows "forward s s'"
proof (cases "en_schema_version s = encounter_schema_version")
  case True
  with live_round_OkD [OF assms] round_passed_forward show ?thesis by metis
next
  case False
  with assms show ?thesis by (simp add: advance_live_round_def)
qed

lemma advance_turn_OkD:
  assumes "advance_turn s facts = Ok (s', facts')"
  obtains init index ended s1 facts1 next_id where
    "en_initiative s = Some init" "en_current_actor_index s = Some index"
    "en_current_actor_id s = Some ended" "in_order init \<noteq> []"
    "if (index + 1) mod length (in_order init) = 0
     then en_round s + 1 \<le> u32_max \<and>
       advance_live_round (s\<lparr>en_round := en_round s + 1\<rparr>) facts = Ok (s1, facts1)
     else s1 = s \<and> facts1 = facts"
    "set_current_turn ((index + 1) mod length (in_order init)) s1 = Ok s'"
    "en_current_actor_id s' = Some next_id"
    "facts' = facts1 @ [TurnEnded ended next_id (en_round s')]"
proof -
  from assms obtain init index ended p next_id where
    "en_initiative s = Some init" "en_current_actor_index s = Some index"
    "en_current_actor_id s = Some ended" "in_order init \<noteq> []"
    and p: "(if (index + 1) mod length (in_order init) = 0
      then and_then (ok_or (checked_add u32_max (en_round s) 1) RoundOverflow) (\<lambda>n.
        advance_live_round (s\<lparr>en_round := n\<rparr>) facts)
      else Ok (s, facts)) = Ok p"
    and "set_current_turn ((index + 1) mod length (in_order init)) (fst p) = Ok s'"
    "en_current_actor_id s' = Some next_id" "facts' = snd p @ [TurnEnded ended next_id (en_round s')]"
    unfolding advance_turn_def and_then_Ok_iff ok_or_Ok_iff ensure_Ok_iff Let_def case_prod_unfold
      result.inject prod.inject
    by blast
  moreover from p have "if (index + 1) mod length (in_order init) = 0
     then en_round s + 1 \<le> u32_max \<and>
       advance_live_round (s\<lparr>en_round := en_round s + 1\<rparr>) facts = Ok (fst p, snd p)
     else fst p = s \<and> snd p = facts"
    by (auto split: if_splits)
  ultimately show thesis by (metis that)
qed

lemma advance_turn_forward:
  assumes "advance_turn s facts = Ok (s', facts')"
  shows "forward s s'"
  using assms
proof (rule advance_turn_OkD)
  fix init index ended s1 facts1 next_id
  assume r: "if (index + 1) mod length (in_order init) = 0
     then en_round s + 1 \<le> u32_max \<and>
       advance_live_round (s\<lparr>en_round := en_round s + 1\<rparr>) facts = Ok (s1, facts1)
     else s1 = s \<and> facts1 = facts"
    and t: "set_current_turn ((index + 1) mod length (in_order init)) s1 = Ok s'"
  from r have "forward s s1"
    by (auto split: if_splits dest!: live_round_forward intro: forward_trans [OF forward_writes(8), rotated])
  with set_turn_forward [OF t] show ?thesis using forward_trans by blast
qed

section \<open>The validator, part by part\<close>

definition pins_ok :: "encounter_state \<Rightarrow> bool" where
  "pins_ok s \<longleftrightarrow>
     supported_schema (en_schema_version s) \<and> en_encounter_id s = soot_wight_encounter_id \<and>
     en_ruleset_id s = encounter_ruleset_id \<and>
     en_content_pack_id s =
       (if en_schema_version s = encounter_schema_version then encounter_content_pack_id
        else legacy_encounter_content_pack_id) \<and>
     en_revision s \<noteq> 0 \<and> en_map s = battlefield \<and>
     (en_schema_version s = legacy_encounter_schema_version \<longrightarrow> en_hero_rules s = None)"

definition live_ok :: "encounter_state \<Rightarrow> bool" where
  "live_ok s \<longleftrightarrow>
     (if en_schema_version s = encounter_schema_version then validate_live s = Ok () else en_live s = None)"

lemma validate_pins_iff: "validate_pins s = Ok u \<longleftrightarrow> pins_ok s \<and> live_ok s"
  by (cases "en_map s") (auto simp: validate_pins_def pins_ok_def live_ok_def battlefield_def)

definition phase_ok :: "encounter_state \<Rightarrow> bool" where
  "phase_ok s \<longleftrightarrow>
     (case en_status s of
        EncReady \<Rightarrow> validate_ready s
      | EncActive \<Rightarrow> validate_active s
      | EncVictory \<Rightarrow> validate_victory s
      | EncDefeat \<Rightarrow> validate_defeat s) = Ok ()"

lemma encounter_valid_iff:
  "encounter_validate s = Ok u \<longleftrightarrow>
     pins_ok s \<and> live_ok s \<and> validate_participants s = Ok () \<and> validate_opening s = Ok () \<and>
     validate_initiative s = Ok () \<and> phase_ok s"
  by (simp add: encounter_validate_def validate_pins_iff phase_ok_def)

lemma valid_live:
  assumes "encounter_valid s" "en_live s = Some live"
  shows "en_schema_version s = encounter_schema_version" "validate_live s = Ok ()"
  using assms by (auto simp: encounter_valid_iff live_ok_def split: if_splits)

definition authored_ok :: "encounter_object \<Rightarrow> string \<Rightarrow> u16 \<Rightarrow> bool" where
  "authored_ok ob i p \<longleftrightarrow>
     ob_object_id ob = i \<and> ob_position_feet ob = p \<and> ob_maximum_dimension_feet ob = 5 \<and>
     ob_weight_pounds ob = 10 \<and> \<not> ob_is_magic_item ob \<and>
     pred_option (\<lambda>n. 1 \<le> n \<and> n \<le> 600) (ob_light_remaining_rounds ob)"

lemma object_validate_iff: "object_validate (ob, i, p) = Ok u \<longleftrightarrow> authored_ok ob i p"
  by (auto simp: object_validate_def authored_ok_def split: option.splits)

definition objects_ok :: "encounter_object list \<Rightarrow> bool" where
  "objects_ok obs \<longleftrightarrow>
     (\<exists>stone lever. obs = [stone, lever] \<and> authored_ok stone viaduct_rune_object_id 0 \<and>
        authored_ok lever sluice_lever_object_id sluice_position_feet)"

lemma validate_live_iff:
  "validate_live s = Ok u \<longleftrightarrow>
     (\<exists>live. en_live s = Some live \<and> objects_ok (lv_objects live) \<and>
        live_hand_validate s live = Ok () \<and> live_sleep_validate s live = Ok () \<and>
        live_pending_validate s live = Ok () \<and> live_ward_validate s live = Ok () \<and>
        live_rest_validate s live = Ok () \<and>
        pred_option (\<lambda>m. m \<le> lv_campaign_time_minutes live) (lv_last_long_rest_minute live) \<and>
        (en_status s = EncReady \<longrightarrow> \<not> live_progressed live))"
proof -
  have two: "length obs = 2 \<longleftrightarrow> (\<exists>a b. obs = [a, b])" for obs :: "encounter_object list"
    by (auto simp: numeral_2_eq_2 length_Suc_conv)
  have late: "(case o' of None \<Rightarrow> False | Some m \<Rightarrow> n < m) \<longleftrightarrow> \<not> pred_option (\<lambda>m. m \<le> n) o'" for o' and n :: nat
    by (cases o') auto
  show ?thesis
    by (auto simp: validate_live_def objects_ok_def two object_validate_iff late)
qed

lemma valid_pending:
  assumes "encounter_valid s" "en_live s = Some live" "lv_pending live = Some p"
  shows "en_status s = EncActive" "en_current_actor_id s = Some soot_wight_id"
    "\<exists>r. en_turn_resources s = Some r \<and> \<not> tr_action_available r"
    "pr_attack_id p = soot_wight_attack_id" "pr_actor_id p = soot_wight_id" "pr_target_id p = canal_warden_id"
    "lv_shield_ward live = None"
  using valid_live [OF assms(1,2)] assms(2,3)
  by (auto simp: validate_live_iff live_pending_validate_def split: if_splits)

end
