(* ===== verification/Encounter_Forward.thy ===== *)
theory Encounter_Forward
  imports Encounter_Laws
begin

text \<open>
  Every handler of an encounter takes it forward: none of the twenty-one intents touches the fixed
  part, rolls initiative twice, runs time back or reopens a settled encounter. The history of an
  encounter follows by the contract of a transactional component.
\<close>

section \<open>What a legal action says of the state\<close>

fun combat_action :: "legal_action \<Rightarrow> bool" where
  "combat_action LegalStart = False"
| "combat_action LegalShield = False"
| "combat_action LegalDecline = False"
| "combat_action LegalBeginRest = False"
| "combat_action LegalHitDie = False"
| "combat_action LegalArcaneRecovery = False"
| "combat_action LegalFinishRest = False"
| "combat_action LegalLongRest = False"
| "combat_action _ = True"

lemma offer_combat: "list_all combat_action xs \<Longrightarrow> on_ok (offer t xs) (list_all combat_action)"
  by (auto simp: offer_def outcomes_simps on_ok_def)

lemma collect_combat:
  "(\<And>x. on_ok (f x) (list_all combat_action)) \<Longrightarrow> on_ok (collect f xs) (list_all combat_action)"
  by (induction xs) (auto simp: outcomes_simps intro!: on_okI dest: on_okD)

lemma offered_spells_combat: "on_ok (offered_spells s actor target eco rules sc) (list_all combat_action)"
proof -
  have cast: "on_ok (offered_cast actor target eco rules sc x) (list_all combat_action)" for x
    by (simp add: offered_cast_def offer_combat)
  have light: "on_ok (offered_light actor eco sc x) (list_all combat_action)" for x
    by (simp add: offered_light_def offer_combat outcomes_simps)
  have hand: "on_ok (offered_mage_hand actor eco sc live) (list_all combat_action)" for live
    by (simp add: offered_mage_hand_def outcomes_simps offer_combat list_all_iff)
  have sleep: "on_ok (offered_sleep s actor eco rules sc live) (list_all combat_action)" for live
    by (simp add: offered_sleep_def outcomes_simps offer_combat)
  have control: "list_all combat_action (offered_hand_control s actor eco live)" for live
    by (simp add: offered_hand_control_def)
  note facts = on_okD [OF collect_combat [OF cast]] on_okD [OF collect_combat [OF light]]
    on_okD [OF hand] on_okD [OF sleep]
  show ?thesis
    by (rule on_okI)
      (auto simp: offered_spells_def control facts simp del: collect.simps split: if_splits option.splits)
qed

lemma offered_features_combat: "on_ok (offered_features eco rules) (list_all combat_action)"
  by (auto simp: offered_features_def Let_def outcomes_simps intro!: on_okI dest!: on_okD [OF offer_combat, rotated])

lemma active_actions_combat: "on_ok (active_legal_actions s) (list_all combat_action)"
proof -
  have "on_ok (offered_hero s actor target r) (list_all combat_action)" for actor target r
    by (auto simp: offered_hero_def outcomes_simps intro!: on_okI split: option.splits
        dest!: on_okD [OF offered_features_combat] on_okD [OF offered_spells_combat])
  moreover have "list_all combat_action (offered_move s actor r)"
    "list_all combat_action (offered_attacks actor target r attacks)"
    "list_all combat_action (offered_context s actor r)" for actor r target attacks
    by (auto simp: offered_move_def offered_attacks_def offered_context_def Let_def list_all_iff)
  ultimately show ?thesis
    by (auto simp: active_legal_actions_def outcomes_simps intro!: on_okI dest: on_okD)
qed

lemma rest_actions_settled:
  assumes "require_legal s a = Ok u" "a \<in> {LegalBeginRest, LegalLongRest}"
  shows "phase_rank (en_status s) = 2"
proof -
  from assms obtain as where as: "legal_actions s = Ok as" "a \<in> set as"
    by (auto simp: require_legal_def)
  then show ?thesis
  proof (cases "en_status s")
    case EncActive
    with as have "(\<exists>b. as = (if b then [LegalShield] else []) @ [LegalDecline]) \<or> list_all combat_action as"
      using on_okD [OF active_actions_combat] by (auto simp: legal_actions_def split: if_splits)
    with as(2) assms(2) show ?thesis by (force simp: list_all_iff split: if_splits)
  qed (use assms(2) in \<open>auto simp: legal_actions_def split: if_splits\<close>)
qed

section \<open>Combat\<close>

lemma actor_active: "on_ok (require_conscious_active_actor s) (\<lambda>_. en_status s = EncActive)"
  by (simp add: require_conscious_active_actor_def on_ok_def)

lemma start_forward:
  assumes "encounter_valid s"
  shows "on_ok_st (resolve_start s roll d) (\<lambda>h _. forward s (hn_state h))"
proof -
  have combat: "on_ok (begin_combat rolled rolls s) (\<lambda>h. forward s (hn_state h))"
    if ready: "en_status s = EncReady" for rolled rolls
  proof -
    have "en_initiative s = None" "en_round s = 0"
      using assms ready by (auto simp: encounter_validate_def validate_ready_def Let_def split: if_splits)
    then have s1: "forward s (s\<lparr>en_initiative := Some init, en_status := EncActive, en_round := 1\<rparr>)" for init
      using ready by (simp add: forward_def encounter_fixed_def campaign_minutes_def)
    show ?thesis
      by (auto simp: begin_combat_def Let_def outcomes_simps handled_def
          intro!: on_okI intro: forward_trans [OF s1] dest!: set_turn_forward)
  qed
  show ?thesis
    by (auto simp: resolve_start_def outcomes_simps case_prod_beta combat intro!: on_ok_stI)
qed

lemma hand_follows_forward: "on_ok (hand_follows i p s) (\<lambda>r. forward s (fst r))"
  by (auto simp: hand_follows_def outcomes_simps split: option.splits if_splits prod.splits result.splits)

lemma moved_forward:
  "forward s (update_combatant i (\<lambda>c. c\<lparr>cb_position_feet := p\<rparr>) (s\<lparr>en_turn_resources := Some r\<rparr>))"
  by (rule forward_trans [of _ "s\<lparr>en_turn_resources := Some r\<rparr>"]) (simp_all add: combatant_fixed_def)

lemma move_forward: "on_ok (resolve_move s destination) (\<lambda>h. forward s (hn_state h))"
proof -
  have "on_ok (hand_follows i destination (update_combatant i (\<lambda>c. c\<lparr>cb_position_feet := destination\<rparr>)
      (s\<lparr>en_turn_resources := Some r\<rparr>))) (\<lambda>x. forward s (fst x))" for i r
    using hand_follows_forward by (rule on_ok_mono) (rule forward_trans [OF moved_forward])
  then show ?thesis
    by (simp add: resolve_move_def outcomes_simps Let_def case_prod_beta handled_def on_okI)
qed

lemma damage_forward:
  assumes "combatant s t = Some target" "en_status s = EncActive"
  shows "on_ok (wake_sleep_after_damage t n (update_combatant t (\<lambda>_. damaged n critical policy target) s) facts)
    (\<lambda>r. \<forall>facts'. forward s (fst (snd (finish_for_health_transition t (fst r) facts'))))"
proof -
  let ?s1 = "update_combatant t (\<lambda>_. damaged n critical policy target) s"
  have "forward s ?s1" by (rule forward_damage [OF assms(1)])
  moreover have "en_status ?s1 = EncActive" using assms(2) by (simp add: update_combatant_def)
  ultimately show ?thesis
  proof (intro on_okI allI)
    fix r facts'
    assume 1: "forward s ?s1" "en_status ?s1 = EncActive" and w: "wake_sleep_after_damage t n ?s1 facts = Ok r"
    obtain c s3 facts3 where f: "finish_for_health_transition t (fst r) facts' = (c, s3, facts3)"
      by (cases "finish_for_health_transition t (fst r) facts'")
    from w have w': "wake_sleep_after_damage t n ?s1 facts = Ok (fst r, snd r)" by simp
    from wake_sleep_forward [OF this] 1(2) finish_forward [OF _ f] have "forward ?s1 s3"
      by (auto intro: forward_trans)
    with 1(1) f show "forward s (fst (snd (finish_for_health_transition t (fst r) facts')))"
      by (auto intro: forward_trans)
  qed
qed

lemma land_hit_forward:
  assumes "combatant s t = Some target" "en_status s = EncActive"
  shows "on_ok_st (land_hit s i actor target t a critical rolls facts roll d) (\<lambda>h _. forward s (hn_state h))"
proof -
  have "on_ok (wake_sleep_after_damage t n (update_combatant t (\<lambda>_. damaged n critical policy target) s) facts)
    (\<lambda>r. forward s (fst (snd (finish_for_health_transition t (fst r) (f r)))))" for n policy facts f
    using damage_forward [OF assms] by (rule on_ok_mono) simp
  then show ?thesis
    unfolding land_hit_def outcomes_simps case_prod_beta Let_def handled_def
    by (auto intro!: on_ok_stI on_okI dest: on_okD)
qed

lemma prepare_attack_OkD:
  assumes "prepare_attack s attack_id t = Ok (i, a, actor, target, r)"
  shows "en_status s = EncActive" "combatant s t = Some target" "combatant s i = Some actor"
    "en_turn_resources s = Some r" "tr_action_available r" "attack_for_actor s i attack_id = Some a"
    "require_conscious_active_actor s = Ok i"
    "t = (if i = canal_warden_id then soot_wight_id else canal_warden_id)"
    "cb_life_status target \<noteq> LifeDead"
    "enc_distance (cb_position_feet actor) (cb_position_feet target) \<le> ea_range_feet a"
  using assms
  by (auto simp: prepare_attack_def Let_def split: if_splits dest: on_okD [OF actor_active])

lemma combatant_resources [simp]: "combatant (s\<lparr>en_turn_resources := r\<rparr>) i = combatant s i"
  by (simp add: combatant_def)

lemma shield_window_forward:
  "on_ok (open_shield_window s i actor target t a r critical rolls facts) (\<lambda>h. forward s (hn_state h))"
  by (auto simp: open_shield_window_def outcomes_simps Let_def handled_def intro!: on_okI)

lemma attack_forward: "on_ok_st (resolve_attack s attack_id t roll d) (\<lambda>h _. forward s (hn_state h))"
proof -
  have spent: "forward s (s\<lparr>en_turn_resources := Some r\<rparr>)" for r by simp
  have hit: "on_ok_st (land_hit (s\<lparr>en_turn_resources := Some r'\<rparr>) i actor target t a critical rolls facts roll d)
     (\<lambda>h _. forward s (hn_state h))"
    if "prepare_attack s attack_id t = Ok (i, a, actor, target, r)" for i a actor target r r' critical rolls facts d
    by (rule on_ok_st_mono [OF land_hit_forward])
      (use prepare_attack_OkD(1,2) [OF that] in \<open>auto intro: forward_trans [OF spent]\<close>)
  have window: "on_ok (open_shield_window (s\<lparr>en_turn_resources := Some r'\<rparr>) i actor target t a r critical rolls facts)
     (\<lambda>h. forward s (hn_state h))" for r' i actor target a r critical rolls facts
    using shield_window_forward by (rule on_ok_mono) (rule forward_trans [OF spent])
  have "on_ok (prepare_attack s attack_id t) (\<lambda>x. prepare_attack s attack_id t = Ok x)"
    by (simp add: on_ok_def)
  then show ?thesis
    unfolding resolve_attack_def outcomes_simps
    by (rule on_ok_mono)
      (auto simp: outcomes_simps Let_def handled_def case_prod_beta window intro!: on_ok_stI on_okI
        dest: on_ok_stD [OF hit] split: if_splits)
qed


section \<open>Spells and features\<close>

lemma caster_snapshot_rules:
  "on_ok (caster_snapshot s) (\<lambda>r. en_hero_rules s = Some (fst r) \<and> hrp_spellcasting (fst r) = Some (snd r))"
  by (auto simp: caster_snapshot_def outcomes_simps)

lemma cast_live_fixed:
  "on_ok_st (cast_live rules sc eco intent roll d) (\<lambda>r _. rules_fixed (fst (snd r)) = rules_fixed rules)"
  by (rule on_ok_stI) (auto dest!: cast_live_OkD)

lemma commit_forward:
  assumes "forward s s'" "en_hero_rules s = Some rules0" "rules_fixed rules = rules_fixed rules0"
  shows "forward s (commit_cast rules eco s')"
proof -
  have "map_option rules_fixed (en_hero_rules s') = Some (rules_fixed rules)"
    using assms forward_fixed [OF assms(1)] by (simp add: encounter_fixed_def)
  then have "forward s' (commit_cast rules eco s')"
    by (auto simp: commit_cast_def intro: forward_trans [OF forward_writes(1) forward_writes(6)])
  with assms(1) show ?thesis by (rule forward_trans)
qed

lemma light_forward: "on_ok_st (resolve_cast_light s object_id roll d) (\<lambda>h _. forward s (hn_state h))"
  by (auto simp: resolve_cast_light_def outcomes_simps case_prod_beta handled_def
      intro!: on_okI on_ok_stI commit_forward
      dest!: on_okD [OF caster_snapshot_rules] on_ok_stD [OF cast_live_fixed])

lemma mage_hand_forward: "on_ok_st (resolve_cast_mage_hand s anchor roll d) (\<lambda>h _. forward s (hn_state h))"
  by (auto simp: resolve_cast_mage_hand_def outcomes_simps case_prod_beta handled_def Let_def
      intro!: on_okI on_ok_stI commit_forward
      dest!: on_okD [OF caster_snapshot_rules] on_ok_stD [OF cast_live_fixed])

lemma pull_lever_forward: "forward s s' \<Longrightarrow> forward s (fst (pull_lever i s'))"
  by (auto simp: pull_lever_def intro: forward_trans)

lemma control_hand_forward: "on_ok (resolve_control_mage_hand s object_id) (\<lambda>h. forward s (hn_state h))"
  by (auto simp: resolve_control_mage_hand_def outcomes_simps case_prod_beta handled_def Let_def
      intro!: on_okI pull_lever_forward intro: forward_trans [OF forward_live_Some forward_writes(1)]
      split: prod.splits result.splits mage_hand_action_effect.splits)

lemma dismiss_hand_forward: "on_ok (resolve_dismiss_mage_hand s) (\<lambda>h. forward s (hn_state h))"
  by (auto simp: resolve_dismiss_mage_hand_def outcomes_simps case_prod_beta handled_def Let_def
      intro!: on_okI intro: forward_trans [OF forward_live_Some forward_writes(1)]
      split: prod.splits result.splits mage_hand_action_effect.splits)

lemma put_to_sleep_forward: "on_ok (put_to_sleep affected s) (forward s)"
  by (auto simp: put_to_sleep_def outcomes_simps combatant_fixed_def
      intro: forward_trans [OF forward_writes(5) forward_live_Some])

lemma sleep_forward: "on_ok_st (resolve_cast_sleep s roll d) (\<lambda>h _. forward s (hn_state h))"
  by (auto simp: resolve_cast_sleep_def outcomes_simps case_prod_beta handled_def Let_def
      intro!: on_okI on_ok_stI commit_forward
      dest!: on_okD [OF caster_snapshot_rules] on_ok_stD [OF cast_live_fixed] on_okD [OF put_to_sleep_forward])

lemma finish_forward':
  "forward s s' \<Longrightarrow> en_status s' = EncActive \<Longrightarrow>
     forward s (fst (snd (finish_for_health_transition i s' facts)))"
  by (cases "finish_for_health_transition i s' facts") (auto intro: forward_trans finish_forward)

lemma pending_damage_forward:
  assumes "en_status s = EncActive"
  shows "on_ok_st (resolve_pending_attack_damage p s rolls facts roll d) (\<lambda>r _. forward s (fst (snd r)))"
proof -
  have "forward s (fst (snd (finish_for_health_transition i (s\<lparr>en_hero := damaged n c pol (en_hero s)\<rparr>) f)))"
    for i n c pol f
    by (rule finish_forward') (simp_all add: assms)
  then show ?thesis
    by (auto simp: resolve_pending_attack_damage_def outcomes_simps case_prod_beta Let_def
        intro!: on_okI on_ok_stI)
qed

lemma decline_forward:
  assumes "encounter_valid s"
  shows "on_ok_st (resolve_decline_reaction s roll d) (\<lambda>h _. forward s (hn_state h))"
proof -
  have "on_ok_st (resolve_pending_attack_damage p (s\<lparr>en_live := Some (live\<lparr>lv_pending := None\<rparr>)\<rparr>) rolls facts roll d)
      (\<lambda>r _. forward s (fst (snd r)))"
    if live: "en_live s = Some live" "lv_pending live = Some p" for live p rolls facts d
  proof -
    have "forward s (s\<lparr>en_live := Some (live\<lparr>lv_pending := None\<rparr>)\<rparr>)" by (simp add: live)
    from forward_trans [OF this] show ?thesis
      by (auto intro: on_ok_st_mono [OF pending_damage_forward] simp: valid_pending(1) [OF assms live])
  qed
  then show ?thesis
    by (auto simp: resolve_decline_reaction_def outcomes_simps case_prod_beta handled_def
        intro!: on_okI on_ok_stI dest: on_ok_stD)
qed

lemma prepare_shield_OkD:
  "on_ok (prepare_shield s) (\<lambda>(live, p, rules, sc, slots). en_live s = Some live \<and> lv_pending live = Some p \<and>
     en_hero_rules s = Some rules)"
  by (auto simp: prepare_shield_def outcomes_simps case_prod_beta intro!: on_okI
      dest!: on_okD [OF caster_snapshot_rules])

lemma shield_forward:
  assumes "encounter_valid s"
  shows "on_ok_st (resolve_shield_reaction s roll d) (\<lambda>h _. forward s (hn_state h))"
proof -
  define warded where "warded live rules' w =
    s\<lparr>en_live := Some (live\<lparr>lv_pending := None, lv_hero_reaction_available := False,
        lv_shield_ward := Some w\<rparr>), en_hero_rules := Some rules'\<rparr>" for live rules' w
  have s1: "forward s (warded live rules' w)" "en_status (warded live rules' w) = EncActive"
    if "en_live s = Some live" "lv_pending live = Some p" "en_hero_rules s = Some rules"
      "rules_fixed rules' = rules_fixed rules" for live p rules rules' w
    using that valid_pending(1) [OF assms that(1,2)]
    by (simp_all add: warded_def forward_def encounter_fixed_def settlement_def campaign_minutes_def)
  have s2: "forward s s2"
    if r: "resolve_pending_attack_damage p (warded live rules' w) rolls facts roll d = (Ok (c, s2, rolls', facts'), d')"
      and live: "en_live s = Some live" "lv_pending live = Some p" "en_hero_rules s = Some rules"
      "rules_fixed rules' = rules_fixed rules" for live p rules rules' w rolls facts d c s2 rolls' facts' d'
    using on_ok_stD [OF pending_damage_forward [OF s1(2) [OF live]] r] forward_trans [OF s1(1) [OF live]]
    by simp
  have s3: "forward s (s2\<lparr>en_live := Some (live2\<lparr>lv_shield_ward := None\<rparr>)\<rparr>)"
    if "forward s s2" "en_live s2 = Some live2" for s2 live2
    by (rule forward_trans [OF that(1)]) (simp add: that(2))
  show ?thesis
    unfolding resolve_shield_reaction_def Let_def warded_def [symmetric]
    by (auto simp: outcomes_simps case_prod_beta handled_def
        intro!: on_okI on_ok_stI dest!: on_okD [OF prepare_shield_OkD] on_ok_stD [OF cast_live_fixed]
        intro: s1(1)) (rule s3 [OF s2] s2; assumption)+
qed

section \<open>Damaging spells and class features\<close>

lemma prepare_cast_OkD:
  "on_ok (prepare_cast s spell t) (\<lambda>(i, rules, sc, eco). en_status s = EncActive \<and> en_hero_rules s = Some rules)"
  by (auto simp: prepare_cast_def outcomes_simps case_prod_beta intro!: on_okI
      dest!: on_okD [OF caster_snapshot_rules] on_okD [OF actor_active])

lemma land_spell_forward:
  assumes "en_status s = EncActive"
  shows "on_ok (land_spell s i t spell attack damage kind rolls facts) (\<lambda>h. forward s (hn_state h))"
proof -
  have hit: "on_ok (wake_sleep_after_damage t n (update_combatant t (\<lambda>_. damaged n c pol target) s) f)
    (\<lambda>r. forward s (fst (snd (finish_for_health_transition t (fst r) (g r)))))"
    if "combatant s t = Some target" for n c pol target f g
    using damage_forward [OF that assms] by (rule on_ok_mono) simp
  show ?thesis
    by (auto simp: land_spell_def outcomes_simps case_prod_beta handled_def Let_def
        intro!: on_okI dest: on_okD [OF hit])
qed

lemma cast_spell_forward: "on_ok_st (resolve_cast_spell s spell t roll d) (\<lambda>h _. forward s (hn_state h))"
proof -
  have land: "on_ok (land_spell (commit_cast rules eco s) i t spell attack damage kind rolls facts)
      (\<lambda>h. forward s (hn_state h))"
    if "en_status s = EncActive" "en_hero_rules s = Some rules0" "rules_fixed rules = rules_fixed rules0"
    for rules rules0 eco i attack damage kind rolls facts
    using forward_trans [OF commit_forward [OF forward_refl that(2,3)]]
    by (auto intro: on_ok_mono [OF land_spell_forward] simp: commit_cast_def that(1))
  show ?thesis
    by (auto simp: resolve_cast_spell_def outcomes_simps case_prod_beta Let_def
        intro!: on_okI on_ok_stI dest!: on_okD [OF prepare_cast_OkD] on_ok_stD [OF cast_live_fixed]
        dest: on_okD [OF land])
qed

lemma prepare_feature_OkD:
  "on_ok (prepare_feature s a) (\<lambda>(i, rules, eco). en_status s = EncActive \<and> en_hero_rules s = Some rules)"
  by (auto simp: prepare_feature_def outcomes_simps case_prod_beta intro!: on_okI
      dest!: on_okD [OF actor_active])

lemma rules_forward:
  assumes "en_hero_rules s = Some rules" "rs_class res = rs_class (hrp_runtime_resources rules)"
    "rs_level res = rs_level (hrp_runtime_resources rules)"
  shows "forward s (s\<lparr>en_hero_rules := Some (rules\<lparr>hrp_runtime_resources := res\<rparr>)\<rparr>)"
  using assms by (simp add: rules_fixed_def)


lemma second_wind_forward: "on_ok_st (resolve_second_wind s roll d) (\<lambda>h _. forward s (hn_state h))"
proof -
  have "forward s (s\<lparr>en_hero := (en_hero s)\<lparr>cb_hit_points := (cb_hit_points (en_hero s))\<lparr>hp_current := n\<rparr>\<rparr>,
      en_turn_resources := r, en_hero_rules := Some (rules\<lparr>hrp_runtime_resources := res\<rparr>)\<rparr>)"
    if "en_hero_rules s = Some rules" "rs_class res = rs_class (hrp_runtime_resources rules)"
      "rs_level res = rs_level (hrp_runtime_resources rules)" for n r rules res
    using that by (simp add: forward_def fixed_defs settlement_def campaign_minutes_def)
  then show ?thesis
    by (auto simp: resolve_second_wind_def outcomes_simps Let_def handled_def
        intro!: on_okI on_ok_stI dest!: on_okD [OF prepare_feature_OkD] second_wind_fixed
        split: prod.splits result.splits)
qed

lemma action_surge_forward: "on_ok (resolve_action_surge s) (\<lambda>h. forward s (hn_state h))"
proof -
  have "forward s (s\<lparr>en_turn_resources := r, en_hero_rules := Some (rules\<lparr>hrp_runtime_resources := res\<rparr>)\<rparr>)"
    if "en_hero_rules s = Some rules" "rs_class res = rs_class (hrp_runtime_resources rules)"
      "rs_level res = rs_level (hrp_runtime_resources rules)" for r rules res
    using that by (simp add: forward_def fixed_defs settlement_def campaign_minutes_def)
  then show ?thesis
    by (auto simp: resolve_action_surge_def outcomes_simps Let_def handled_def
        intro!: on_okI dest!: on_okD [OF prepare_feature_OkD] action_surge_fixed
        split: prod.splits result.splits)
qed

section \<open>The sluice, turns, death saves and rests\<close>

lemma context_forward: "on_ok (resolve_context_action s i) (\<lambda>h. forward s (hn_state h))"
proof -
  have "forward s (release_sluice (s\<lparr>en_turn_resources := r\<rparr>))" for r
    by (rule forward_trans [OF forward_writes(1) forward_release])
  then show ?thesis
    by (auto simp: resolve_context_action_def outcomes_simps handled_def intro!: on_okI)
qed

lemma end_turn_forward: "on_ok (resolve_end_turn s) (\<lambda>h. forward s (hn_state h))"
  by (auto simp: resolve_end_turn_def outcomes_simps case_prod_beta handled_def intro!: on_okI
      dest!: advance_turn_forward)

lemma after_death_save_fixed [simp]: "combatant_fixed (after_death_save n c) = combatant_fixed c"
  by (simp add: after_death_save_def combatant_fixed_def Let_def)

lemma death_save_forward: "on_ok_st (enc_resolve_death_save s roll d) (\<lambda>h _. forward s (hn_state h))"
proof -
  have "on_ok (finish_death_save (s\<lparr>en_hero := after_death_save n (en_hero s)\<rparr>) n rolls facts)
      (\<lambda>h. forward s (hn_state h))"
    if "en_status s = EncActive" for n rolls facts
  proof -
    let ?s1 = "s\<lparr>en_hero := after_death_save n (en_hero s)\<rparr>"
    have s1: "forward s ?s1" by simp
    have "forward s (fst (complete_defeat reason ?s1 facts))" for reason
      by (rule forward_trans [OF s1 complete_defeat_forward]) (simp add: that)
    with s1 show ?thesis
      by (auto simp: finish_death_save_def outcomes_simps case_prod_beta handled_def
          intro!: on_okI dest!: advance_turn_forward intro: forward_trans [OF s1]
          split: life_status.splits)
  qed
  then show ?thesis
    by (auto simp: enc_resolve_death_save_def outcomes_simps case_prod_beta Let_def
        intro!: on_okI on_ok_stI dest: on_okD)
qed


lemma recovery_forward: "forward s (apply_recovery_health h s)"
  by (cases "en_transition s"; cases "en_status s")
    (simp_all add: apply_recovery_health_def Let_def forward_def encounter_fixed_def combatant_fixed_def
      settlement_def campaign_minutes_def)

lemma story_boundary_forward: "on_ok (apply_story_recovery_boundary s) (forward s)"
  by (auto simp: apply_story_recovery_boundary_def outcomes_simps combatant_fixed_def)

lemma expire_forward: "on_ok (expire_effects_for_rest s facts) (\<lambda>r. forward s (fst r))"
  by (auto simp: expire_effects_for_rest_def outcomes_simps Let_def forward_def encounter_fixed_def
      settlement_def campaign_minutes_def wake_creature_def combatant_fixed_def split: option.splits)

lemma live_forward:
  assumes "forward s s'" "en_live s' = Some live"
    "lv_campaign_time_minutes live = lv_campaign_time_minutes live'"
  shows "forward s (s'\<lparr>en_live := Some live'\<rparr>)"
  by (rule forward_trans [OF assms(1)]) (simp add: assms)

lemma live_rested:
  assumes "forward s s'" "en_live s' = Some live" "phase_rank (en_status s) = 2"
    "lv_campaign_time_minutes live \<le> lv_campaign_time_minutes live'"
  shows "forward s (s'\<lparr>en_live := Some live'\<rparr>)"
proof -
  have "settlement s' = settlement s" using assms(1,3) by (simp add: forward_def)
  then have "phase_rank (en_status s') = 2" using assms(3) by (simp add: settlement_def)
  from forward_rest [OF assms(2,4) this] assms(1) show ?thesis by (rule forward_trans [rotated])
qed

lemma begin_rest_forward: "on_ok (resolve_begin_short_rest s) (\<lambda>h. forward s (hn_state h))"
proof -
  have step: "forward s (s2\<lparr>en_live := Some (live2\<lparr>lv_campaign_time_minutes := n, lv_active_short_rest := r\<rparr>)\<rparr>)"
    if "apply_story_recovery_boundary s = Ok s1" "expire_effects_for_rest s1 [] = Ok (s2, facts)"
      "en_live s1 = Some live1" "n = lv_campaign_time_minutes live1 + short_rest_minutes"
      "en_live s2 = Some live2" "phase_rank (en_status s) = 2" for s1 s2 live1 live2 facts n r
  proof -
    have "lv_campaign_time_minutes live2 = lv_campaign_time_minutes live1"
      using that(2,3,5) by (auto simp: expire_effects_for_rest_def Let_def wake_creature_def split: option.splits)
    then show ?thesis
      using on_okD [OF story_boundary_forward that(1)] on_okD [OF expire_forward that(2)] that(4,5,6)
      by (auto intro!: live_rested [of s s2 live2] intro: forward_trans)
  qed
  show ?thesis
    by (auto simp: resolve_begin_short_rest_def outcomes_simps Let_def handled_def case_prod_beta
        intro!: on_okI step rest_actions_settled)
qed

lemma rest_state_forward:
  assumes "forward s s'" "en_hero_rules s = Some rules" "rs_class res = rs_class (hrp_runtime_resources rules)"
    "rs_level res = rs_level (hrp_runtime_resources rules)"
  shows "forward s (s'\<lparr>en_hero_rules := Some (rules\<lparr>hrp_runtime_resources := res\<rparr>)\<rparr>)"
proof (rule forward_trans [OF assms(1)])
  have "map_option rules_fixed (en_hero_rules s') = Some (rules_fixed rules)"
    using forward_fixed [OF assms(1)] assms(2) by (simp add: encounter_fixed_def)
  moreover have "rules_fixed (rules\<lparr>hrp_runtime_resources := res\<rparr>) = rules_fixed rules"
    using assms(3,4) by (simp add: rules_fixed_def)
  ultimately show "forward s' (s'\<lparr>en_hero_rules := Some (rules\<lparr>hrp_runtime_resources := res\<rparr>)\<rparr>)"
    by (intro forward_writes(6)) (simp only: option.map)
qed

lemma hit_die_forward: "on_ok_st (resolve_spend_hit_die s roll d) (\<lambda>h _. forward s (hn_state h))"
proof -
  have step: "forward s ((apply_recovery_health hp s)\<lparr>en_hero_rules := Some (rules\<lparr>hrp_runtime_resources := res'\<rparr>),
      en_live := Some (live\<lparr>lv_active_short_rest := r\<rparr>)\<rparr>)"
    if "spend_hit_die con roll d (hrp_runtime_resources rules, st) = (Ok x, (res', hp), d')"
      "en_hero_rules s = Some rules" "en_live (apply_recovery_health hp s) = Some live"
    for con st x res' hp d' d rules live r
  proof -
    have "rs_class res' = rs_class (hrp_runtime_resources rules)" "rs_level res' = rs_level (hrp_runtime_resources rules)"
      using spend_hit_die_OkD(2) [OF that(1)] by simp_all
    from live_forward [OF rest_state_forward [OF recovery_forward that(2) this], of hp live] that(3)
    show ?thesis by simp
  qed
  show ?thesis
    by (auto simp: resolve_spend_hit_die_def outcomes_simps Let_def handled_def
        intro!: on_okI on_ok_stI step split: prod.splits result.splits)
qed

lemma arcane_forward: "on_ok_st (resolve_arcane_recovery s roll d) (\<lambda>h _. forward s (hn_state h))"
proof -
  have step: "forward s (s\<lparr>en_hero_rules := Some (rules\<lparr>hrp_runtime_resources := res'\<rparr>),
      en_live := Some (live\<lparr>lv_active_short_rest := r\<rparr>)\<rparr>)"
    if "take_short_rest con q roll d (hrp_runtime_resources rules, st) = (Ok x, (res', hp), d')"
      "en_hero_rules s = Some rules" "en_live s = Some live"
    for con q st x res' hp d' d rules live r
  proof -
    have "rs_class res' = rs_class (hrp_runtime_resources rules)" "rs_level res' = rs_level (hrp_runtime_resources rules)"
      using short_rest_fixed [OF that(1)] by simp_all
    from live_forward [OF rest_state_forward [OF forward_refl that(2) this], of live] that(3)
    show ?thesis by simp
  qed
  show ?thesis
    by (auto simp: resolve_arcane_recovery_def outcomes_simps Let_def handled_def
        intro!: on_okI on_ok_stI step split: prod.splits result.splits)
qed

lemma finish_rest_forward: "on_ok_st (resolve_finish_short_rest s roll d) (\<lambda>h _. forward s (hn_state h))"
proof -
  have step: "forward s ((apply_recovery_health hp s)\<lparr>en_hero_rules := Some (rules\<lparr>hrp_runtime_resources := res'\<rparr>),
      en_live := Some (live\<lparr>lv_active_short_rest := r\<rparr>)\<rparr>)"
    if "take_short_rest con q roll d (hrp_runtime_resources rules, st) = (Ok x, (res', hp), d')"
      "en_hero_rules s = Some rules" "en_live (apply_recovery_health hp s) = Some live"
    for con q st x res' hp d' d rules live r
  proof -
    have "rs_class res' = rs_class (hrp_runtime_resources rules)" "rs_level res' = rs_level (hrp_runtime_resources rules)"
      using short_rest_fixed [OF that(1)] by simp_all
    from live_forward [OF rest_state_forward [OF recovery_forward that(2) this], of hp live] that(3)
    show ?thesis by simp
  qed
  show ?thesis
    by (auto simp: resolve_finish_short_rest_def outcomes_simps Let_def handled_def
        intro!: on_okI on_ok_stI step split: prod.splits result.splits)
qed

lemma long_rest_forward: "on_ok (resolve_long_rest s) (\<lambda>h. forward s (hn_state h))"
proof -
  have step: "forward s ((apply_recovery_health hp s2)\<lparr>en_hero_rules := Some (rules\<lparr>hrp_runtime_resources := res'\<rparr>),
      en_live := Some (live2\<lparr>lv_campaign_time_minutes := n, lv_last_long_rest_minute := m\<rparr>)\<rparr>)"
    if "apply_story_recovery_boundary s = Ok s1" "expire_effects_for_rest s1 [] = Ok (s2, facts)"
      "take_long_rest (hrp_runtime_resources rules, st) = (Ok x, (res', hp))"
      "en_hero_rules s1 = Some rules" "en_live s1 = Some live1"
      "n = lv_campaign_time_minutes live1 + long_rest_minutes"
      "en_live (apply_recovery_health hp s2) = Some live2" "phase_rank (en_status s) = 2"
    for s1 s2 live1 live2 facts n m rules res' hp st x
  proof -
    have l2: "en_live s2 = Some live2" using that(7) by (simp add: apply_recovery_health_def Let_def)
    then have "lv_campaign_time_minutes live2 = lv_campaign_time_minutes live1"
      using that(2,5) by (auto simp: expire_effects_for_rest_def Let_def wake_creature_def split: option.splits)
    moreover have "forward s s1" "forward s1 s2"
      using on_okD [OF story_boundary_forward that(1)] on_okD [OF expire_forward that(2)] by simp_all
    then have "forward s (apply_recovery_health hp s2)"
      using recovery_forward [of s2 hp] forward_trans by blast
    moreover have "en_hero_rules s1 = en_hero_rules s"
      using that(1) by (auto simp: apply_story_recovery_boundary_def split: if_splits)
    then have "en_hero_rules s = Some rules" using that(4) by simp
    moreover have "rs_class res' = rs_class (hrp_runtime_resources rules)" "rs_level res' = rs_level (hrp_runtime_resources rules)"
      using long_rest_fixed [OF that(3)] by simp_all
    ultimately show ?thesis
      using live_rested [OF rest_state_forward, of s "apply_recovery_health hp s2" rules res' live2] that(6,7,8)
      by simp
  qed
  show ?thesis
    by (auto simp: resolve_long_rest_def outcomes_simps Let_def handled_def
        intro!: on_okI step rest_actions_settled split: prod.splits result.splits)
qed

section \<open>Every intent\<close>

lemma intent_forward:
  assumes "encounter_valid s"
  shows "on_ok_st (handle_intent s i roll d) (\<lambda>h _. forward s (hn_state h))"
  using assms
  by (cases i)
    (simp_all add: start_forward attack_forward cast_spell_forward light_forward mage_hand_forward
      sleep_forward shield_forward decline_forward second_wind_forward hit_die_forward arcane_forward
      finish_rest_forward death_save_forward outcomes_simps move_forward context_forward
      control_hand_forward dismiss_hand_forward action_surge_forward begin_rest_forward
      long_rest_forward end_turn_forward)


section \<open>The history of an encounter\<close>

lemma resolve_encounter_OkD:
  assumes "resolve_encounter s c roll d = (Ok x, d')"
  obtains h where "handle_intent s (ec_intent c) roll d = (Ok h, d')"
    "er_state x = (hn_state h)\<lparr>en_schema_version := en_schema_version s, en_revision := en_revision s + 1\<rparr>"
    "encounter_valid s" "encounter_valid (er_state x)" "ec_expected_revision c = en_revision s"
    "en_revision s + 1 \<le> u64_max" "resolution_validate x = Ok ()" "er_rolls x = hn_rolls h"
    "er_facts x = hn_facts h"
  using assms
  by (auto simp: resolve_encounter_def command_matches_def finish_resolution_def Let_def split: if_splits)

lemma stamped_forward:
  "forward s s' \<Longrightarrow> forward s (s'\<lparr>en_schema_version := en_schema_version s, en_revision := n\<rparr>)"
  by (simp add: forward_def encounter_fixed_def settlement_def campaign_minutes_def)

lemma encounter_step_cases:
  assumes "encounter_step roll i s = (r, s')"
  obtains (refused) e where "r = Err e" "s' = s"
    | (accepted) x where "r = Ok x" "s' = er_state x" "encounter_valid s" "encounter_valid s'" "forward s s'"
      "en_revision s' = en_revision s + 1" "ec_expected_revision (fst i) = en_revision s"
proof -
  obtain q d' where q: "resolve_encounter s (fst i) roll (snd i) = (q, d')"
    by (cases "resolve_encounter s (fst i) roll (snd i)")
  show thesis
  proof (cases q)
    case (Err e)
    with q assms show ?thesis by (auto simp: encounter_step_def intro: refused)
  next
    case (Ok x)
    with q have x: "resolve_encounter s (fst i) roll (snd i) = (Ok x, d')" by simp
    from x obtain h where h: "handle_intent s (ec_intent (fst i)) roll (snd i) = (Ok h, d')"
      "er_state x = (hn_state h)\<lparr>en_schema_version := en_schema_version s, en_revision := en_revision s + 1\<rparr>"
      "encounter_valid s" "encounter_valid (er_state x)" "ec_expected_revision (fst i) = en_revision s"
      by (rule resolve_encounter_OkD)
    from stamped_forward [OF on_ok_stD [OF intent_forward [OF h(3)] h(1)]] h(2)
    have "forward s (er_state x)" by simp
    moreover have "en_revision (er_state x) = en_revision s + 1" using h(2) by simp
    moreover have "r = Ok x" "s' = er_state x" using assms x by (simp_all add: encounter_step_def)
    ultimately show ?thesis using h(3,4,5) by (intro accepted) simp_all
  qed
qed

interpretation enc: conserving encounter_valid "encounter_step roll" encounter_fixed for roll :: "'s dice"
proof unfold_locales
  fix s i x s'
  assume "encounter_valid s" "encounter_step roll i s = (Ok x, s')"
  from this(2) show "encounter_valid s'" "encounter_fixed s' = encounter_fixed s"
    by (cases rule: encounter_step_cases; simp add: forward_fixed)+
next
  fix s i e s'
  assume "encounter_step roll i s = (Err e, s')"
  then show "s' = s" by (cases rule: encounter_step_cases) simp_all
qed

lemma encounter_run_forward: "forward s (run_steps (encounter_step roll) is s)"
proof (induction "is" arbitrary: s)
  case Nil
  show ?case by simp
next
  case (Cons i "is")
  obtain r s' where "encounter_step roll i s = (r, s')" by (cases "encounter_step roll i s")
  moreover from this have "forward s s'" by (cases rule: encounter_step_cases) simp_all
  ultimately show ?case using forward_trans [OF _ Cons.IH] by simp
qed

lemma run_revision:
  "en_revision (run_steps (encounter_step roll) is s) =
     en_revision s + length (accepted (encounter_step roll) is s)"
proof (induction "is" arbitrary: s)
  case Nil
  show ?case by simp
next
  case (Cons i "is")
  obtain r s' where st: "encounter_step roll i s = (r, s')" by (cases "encounter_step roll i s")
  then show ?case
    by (cases rule: encounter_step_cases) (simp_all add: st Cons.IH)
qed

end
