(* ===== verification/Encounter_Checks.thy ===== *)
theory Encounter_Checks
  imports Encounter_Forward
begin

text \<open>
  What the validators need, split into the part that no handler changes (which \<open>forward\<close> carries
  over) and the part that each handler has to keep; what a roll needs to be recorded; and what a
  resolution needs to pass its own validation.
\<close>

section \<open>Participants\<close>

text \<open>The tests of \<open>combatant_validate\<close> on what is fixed, and on what moves.\<close>

definition combatant_static :: "combatant_state \<Rightarrow> bool" where
  "combatant_static c \<longleftrightarrow>
     is_valid_opaque_id (cb_id c) \<and> \<not> is_blank (cb_name c) \<and> chars_count (cb_name c) \<le> 120 \<and>
     pred_option is_valid_opaque_id (cb_source_character_id c) \<and> cb_armor_class c \<noteq> 0 \<and>
     cb_speed_feet c \<noteq> 0 \<and> hp_maximum (cb_hit_points c) \<noteq> 0 \<and> length (cb_attacks c) \<le> 8 \<and>
     distinct (map ea_attack_id (cb_attacks c)) \<and> (\<forall>a\<in>set (cb_attacks c). attack_validate a = Ok ())"

definition position_ok :: "u16 \<Rightarrow> bool" where
  "position_ok p \<longleftrightarrow> p \<le> 60 \<and> 5 dvd p"

definition hit_points_ok :: "hit_points \<Rightarrow> bool" where
  "hit_points_ok hp \<longleftrightarrow>
     hp_current hp \<le> hp_maximum hp \<and> hp_temporary hp \<le> hp_maximum hp \<and>
     ds_successes (hp_death_saves hp) \<le> 3 \<and> ds_failures (hp_death_saves hp) \<le> 3"

definition combatant_moving :: "combatant_state \<Rightarrow> bool" where
  "combatant_moving c \<longleftrightarrow>
     position_ok (cb_position_feet c) \<and> hit_points_ok (cb_hit_points c) \<and>
     distinct (cb_status_effects c) \<and> combatant_life_validate c = Ok ()"

lemma combatant_validate_iff:
  "combatant_validate battlefield c = Ok u \<longleftrightarrow> combatant_static c \<and> combatant_moving c"
proof -
  have src: "(case o' of None \<Rightarrow> False | Some i \<Rightarrow> \<not> is_valid_opaque_id i) \<longleftrightarrow> \<not> pred_option is_valid_opaque_id o'"
    for o' by (cases o') auto
  show ?thesis
    by (auto simp: combatant_validate_def combatant_static_def combatant_moving_def position_ok_def
        hit_points_ok_def src Let_def battlefield_def battlefield_min_feet_def battlefield_max_feet_def
        split: if_splits)
qed

lemma combatant_static_fixed:
  assumes "combatant_fixed c' = combatant_fixed c"
  shows "combatant_static c' = combatant_static c"
  using assms by (simp add: combatant_fixed_def combatant_static_def)

definition participants_static :: "encounter_state \<Rightarrow> bool" where
  "participants_static s \<longleftrightarrow>
     cb_id (en_hero s) = canal_warden_id \<and> cb_kind (en_hero s) = HeroKind \<and>
     cb_id (en_creature s) = soot_wight_id \<and> cb_kind (en_creature s) = CreatureKind \<and>
     cb_name (en_creature s) = ''Soot Wight'' \<and> cb_source_character_id (en_creature s) = None \<and>
     cb_attacks (en_creature s) = [] \<and> cb_armor_class (en_creature s) = 12 \<and>
     cb_speed_feet (en_creature s) = 25 \<and> cb_initiative_modifier (en_creature s) = 1 \<and>
     hp_maximum (cb_hit_points (en_creature s)) = creature_maximum_hit_points \<and>
     eo_objective_id (obj_primary (en_objectives s)) = defeat_soot_wight_objective_id \<and>
     eo_objective_id (obj_contextual (en_objectives s)) = release_sluice_objective_id \<and>
     (case cb_source_character_id (en_hero s) of
        None \<Rightarrow> cb_name (en_hero s) = ''Canal Warden'' \<and> cb_armor_class (en_hero s) = 18 \<and>
          cb_speed_feet (en_hero s) = 30 \<and> cb_initiative_modifier (en_hero s) = 2 \<and>
          hp_maximum (cb_hit_points (en_hero s)) = hero_maximum_hit_points \<and>
          cb_attacks (en_hero s) = [] \<and> en_hero_rules s = None
      | Some _ \<Rightarrow> cb_attacks (en_hero s) \<noteq> []) \<and>
     (en_schema_version s = encounter_schema_version \<longrightarrow>
        pred_option (\<lambda>r. hrp_constitution_modifier r \<noteq> None) (en_hero_rules s)) \<and>
     combatant_static (en_hero s) \<and> combatant_static (en_creature s)"

definition rules_ok :: "encounter_state \<Rightarrow> bool" where
  "rules_ok s \<longleftrightarrow> pred_option (\<lambda>r. hero_rules_validate r = Ok ()) (en_hero_rules s)"

lemma validate_participants_iff:
  assumes "en_map s = battlefield"
  shows "validate_participants s = Ok u \<longleftrightarrow>
    participants_static s \<and> rules_ok s \<and> combatant_moving (en_hero s) \<and> combatant_moving (en_creature s)"
  unfolding validate_participants_def Let_def assms
  by (cases "en_hero_rules s"; cases "cb_source_character_id (en_hero s)")
    (auto simp: participants_static_def rules_ok_def hero_profile_fields_valid_def combatant_validate_iff
      split: if_splits)

lemma participants_static_forward:
  assumes "encounter_fixed s' = encounter_fixed s" "participants_static s"
  shows "participants_static s'"
proof -
  have e: "combatant_fixed (en_hero s') = combatant_fixed (en_hero s)"
    "combatant_fixed (en_creature s') = combatant_fixed (en_creature s)"
    "map_option rules_fixed (en_hero_rules s') = map_option rules_fixed (en_hero_rules s)"
    "en_schema_version s' = en_schema_version s"
    "eo_objective_id (obj_primary (en_objectives s')) = eo_objective_id (obj_primary (en_objectives s))"
    "eo_objective_id (obj_contextual (en_objectives s')) = eo_objective_id (obj_contextual (en_objectives s))"
    using assms(1) by (simp_all add: encounter_fixed_def)
  from e(3) have r: "en_hero_rules s' = None \<longleftrightarrow> en_hero_rules s = None"
    "pred_option (\<lambda>r. hrp_constitution_modifier r \<noteq> None) (en_hero_rules s') \<longleftrightarrow>
     pred_option (\<lambda>r. hrp_constitution_modifier r \<noteq> None) (en_hero_rules s)"
    by (cases "en_hero_rules s"; cases "en_hero_rules s'"; simp add: rules_fixed_def)+
  have h: "cb_id (en_hero s') = cb_id (en_hero s)" "cb_kind (en_hero s') = cb_kind (en_hero s)"
    "cb_name (en_hero s') = cb_name (en_hero s)"
    "cb_source_character_id (en_hero s') = cb_source_character_id (en_hero s)"
    "cb_armor_class (en_hero s') = cb_armor_class (en_hero s)"
    "cb_speed_feet (en_hero s') = cb_speed_feet (en_hero s)"
    "cb_initiative_modifier (en_hero s') = cb_initiative_modifier (en_hero s)"
    "hp_maximum (cb_hit_points (en_hero s')) = hp_maximum (cb_hit_points (en_hero s))"
    "cb_attacks (en_hero s') = cb_attacks (en_hero s)"
    using e(1) by (simp_all add: combatant_fixed_def)
  have c: "cb_id (en_creature s') = cb_id (en_creature s)" "cb_kind (en_creature s') = cb_kind (en_creature s)"
    "cb_name (en_creature s') = cb_name (en_creature s)"
    "cb_source_character_id (en_creature s') = cb_source_character_id (en_creature s)"
    "cb_armor_class (en_creature s') = cb_armor_class (en_creature s)"
    "cb_speed_feet (en_creature s') = cb_speed_feet (en_creature s)"
    "cb_initiative_modifier (en_creature s') = cb_initiative_modifier (en_creature s)"
    "hp_maximum (cb_hit_points (en_creature s')) = hp_maximum (cb_hit_points (en_creature s))"
    "cb_attacks (en_creature s') = cb_attacks (en_creature s)"
    using e(2) by (simp_all add: combatant_fixed_def)
  from assms(2) show ?thesis
    unfolding participants_static_def h c e(4-6) r combatant_static_fixed [OF e(1)] combatant_static_fixed [OF e(2)] .
qed

section \<open>Pins, opening, initiative\<close>

lemma pins_forward:
  assumes "encounter_fixed s' = encounter_fixed s" "en_revision s' \<noteq> 0" "pins_ok s"
  shows "pins_ok s'"
proof -
  have "map_option rules_fixed (en_hero_rules s') = map_option rules_fixed (en_hero_rules s)"
    using assms(1) by (simp add: encounter_fixed_def)
  then have "en_hero_rules s = None \<Longrightarrow> en_hero_rules s' = None" by simp
  with assms show ?thesis by (auto simp: pins_ok_def encounter_fixed_def)
qed

definition opening_ok :: "encounter_state \<Rightarrow> bool" where
  "opening_ok s \<longleftrightarrow>
     (RuneWard \<in> set (cb_status_effects (en_hero s)) \<longleftrightarrow> en_opening_consequence s = RunesUnderstood) \<and>
     (case eo_status (obj_contextual (en_objectives s)) of
        ObjFailed \<Rightarrow> False
      | ObjPending \<Rightarrow> SootVeil \<in> set (cb_status_effects (en_creature s))
      | ObjCompleted \<Rightarrow> SootVeil \<notin> set (cb_status_effects (en_creature s)) \<and>
          hp_temporary (cb_hit_points (en_creature s)) = 0)"

lemma validate_opening_iff: "validate_opening s = Ok u \<longleftrightarrow> opening_ok s"
  by (auto simp: validate_opening_def opening_ok_def Let_def split: objective_status.splits if_splits)

lemma initiative_entry_forward:
  assumes "encounter_fixed s' = encounter_fixed s"
  shows "initiative_entry_validate s' = initiative_entry_validate s"
proof -
  have "cb_initiative_modifier (en_hero s') = cb_initiative_modifier (en_hero s)"
    "cb_initiative_modifier (en_creature s') = cb_initiative_modifier (en_creature s)"
    using assms by (simp_all add: encounter_fixed_def combatant_fixed_def)
  then show ?thesis by (simp add: fun_eq_iff initiative_entry_validate_def)
qed

lemma initiative_forward:
  assumes "encounter_fixed s' = encounter_fixed s" "en_initiative s' = en_initiative s"
  shows "validate_initiative s' = validate_initiative s"
  unfolding validate_initiative_def assms(2) initiative_entry_forward [OF assms(1)] ..

text \<open>The order of a valid initiative has the two participants, once each.\<close>

lemma valid_order:
  assumes "validate_initiative s = Ok ()" "en_initiative s = Some init"
  shows "length (in_order init) = 2" "set (in_order init) = {canal_warden_id, soot_wight_id}"
proof -
  let ?o = "in_order init"
  have two: "length ?o = 2" and in_: "card (set ?o) = 2" "canal_warden_id \<in> set ?o" "soot_wight_id \<in> set ?o"
    using assms by (auto simp: validate_initiative_def Let_def split: if_splits)
  show "length ?o = 2" by (rule two)
  show "set ?o = {canal_warden_id, soot_wight_id}"
  proof (rule card_subset_eq [symmetric])
    show "finite (set ?o)" by simp
    show "{canal_warden_id, soot_wight_id} \<subseteq> set ?o" using in_ by simp
    show "card {canal_warden_id, soot_wight_id} = card (set ?o)" using in_ by simp
  qed
qed

section \<open>The state as a whole\<close>

text \<open>Validity of a later state, from what its handler is responsible for.\<close>

lemma valid_after:
  assumes "encounter_valid s" "encounter_fixed s' = encounter_fixed s" "en_revision s' \<noteq> 0"
    and "en_initiative s' = en_initiative s" "live_ok s'" "rules_ok s'"
    and "combatant_moving (en_hero s')" "combatant_moving (en_creature s')" "opening_ok s'" "phase_ok s'"
  shows "encounter_valid s'"
proof -
  have m: "en_map s = battlefield" "en_map s' = battlefield"
    using assms(1,2) by (simp_all add: encounter_valid_iff pins_ok_def encounter_fixed_def)
  have "participants_static s'"
    using participants_static_forward [OF assms(2)] assms(1) by (simp add: encounter_valid_iff validate_participants_iff [OF m(1)])
  with assms m show ?thesis
    by (simp add: encounter_valid_iff validate_participants_iff validate_opening_iff
        pins_forward [OF assms(2,3)] initiative_forward [OF assms(2,4)])
qed

lemma validD:
  assumes "encounter_valid s"
  shows "pins_ok s" "live_ok s" "en_map s = battlefield" "participants_static s" "rules_ok s"
    "combatant_moving (en_hero s)" "combatant_moving (en_creature s)" "opening_ok s"
    "validate_initiative s = Ok ()" "phase_ok s" "cb_id (en_hero s) = canal_warden_id"
    "cb_id (en_creature s) = soot_wight_id" "cb_kind (en_hero s) = HeroKind"
    "cb_kind (en_creature s) = CreatureKind"
proof -
  show p: "pins_ok s" "live_ok s" and m: "en_map s = battlefield"
    using assms by (simp_all add: encounter_valid_iff pins_ok_def)
  show "participants_static s" "rules_ok s"
    "combatant_moving (en_hero s)" "combatant_moving (en_creature s)" "opening_ok s"
    "validate_initiative s = Ok ()" "phase_ok s"
    using assms by (simp_all add: encounter_valid_iff validate_participants_iff [OF m] validate_opening_iff)
  then show "cb_id (en_hero s) = canal_warden_id" "cb_id (en_creature s) = soot_wight_id"
    "cb_kind (en_hero s) = HeroKind" "cb_kind (en_creature s) = CreatureKind"
    by (simp_all add: participants_static_def)
qed

end
