(* ===== verification/Encounter_Records.thy ===== *)
theory Encounter_Records
  imports Encounter_Checks
begin

text \<open>
  What a handler records always passes the tests that \<open>resolve_encounter\<close> makes at the end: a roll
  of dice that show a face of theirs validates, and the authored texts fit their limits whatever
  the names and numbers in them.
\<close>

section \<open>Texts\<close>

definition has_letter :: "string \<Rightarrow> bool" where
  "has_letter s \<longleftrightarrow> list_ex (\<lambda>c. 97 \<le> byte c \<and> byte c \<le> 122) s"

definition letter_byte :: "nat \<Rightarrow> bool" where
  "letter_byte b \<longleftrightarrow> 97 \<le> b \<and> b \<le> 122"

lemma blank_bytes_no_letter: "is_blank_bytes bs \<Longrightarrow> \<forall>b\<in>set bs. \<not> letter_byte b"
proof (induction bs rule: is_blank_bytes.induct)
  case 1
  show ?case by simp
next
  case (2 a bs)
  show ?case
  proof (cases "a \<in> {9, 10, 11, 12, 13, 32}")
    case True
    with 2(1,4) show ?thesis by (auto simp: letter_byte_def)
  next
    case a: False
    with 2(4) obtain b cs where bs: "bs = b # cs" by (cases bs) simp_all
    show ?thesis
    proof (cases "a = 194 \<and> b \<in> {133, 160}")
      case True
      with 2(2) [OF a bs True] 2(4) a bs show ?thesis by (auto simp: letter_byte_def)
    next
      case b: False
      with 2(4) a bs obtain c ds where cs: "cs = c # ds" by (cases cs) (simp_all del: insert_iff)
      from 2(4) a b bs cs have d: "is_blank_bytes ds" and
        "a = 225 \<and> b = 154 \<and> c = 128 \<or>
         a = 226 \<and> b = 128 \<and> (128 \<le> c \<and> c \<le> 138 \<or> c = 168 \<or> c = 169 \<or> c = 175) \<or>
         a = 226 \<and> b = 129 \<and> c = 159 \<or> a = 227 \<and> b = 128 \<and> c = 128"
        by (simp_all del: insert_iff)
      then have "\<not> letter_byte a" "\<not> letter_byte b" "\<not> letter_byte c" by (auto simp: letter_byte_def)
      with 2(3) [OF a bs b cs] d bs cs show ?thesis by simp
    qed
  qed
qed

lemma has_letter_not_blank: "has_letter s \<Longrightarrow> \<not> is_blank s"
  using blank_bytes_no_letter [of "map byte s"]
  by (fastforce simp: has_letter_def is_blank_def list_ex_iff letter_byte_def)

lemma has_letter_append [simp]: "has_letter (s @ t) \<longleftrightarrow> has_letter s \<or> has_letter t"
  by (simp add: has_letter_def)

lemma chars_count_append [simp]: "chars_count (s @ t) = chars_count s + chars_count t"
  by (simp add: chars_count_def)

lemma chars_count_le: "chars_count s \<le> length s"
  by (simp add: chars_count_def)

lemma show_nat_chars: "n \<le> 65535 \<Longrightarrow> chars_count (show_nat n) \<le> 5"
  using length_show_nat [of n 5] chars_count_le [of "show_nat n"] by simp

lemma chars_count_Cons [simp]:
  "chars_count (c # s) = (if 128 \<le> byte c \<and> byte c \<le> 191 then 0 else 1) + chars_count s"
  "chars_count [] = 0"
  by (simp_all add: chars_count_def)

definition text_within :: "nat \<Rightarrow> string \<Rightarrow> bool" where
  "text_within n s \<longleftrightarrow> has_letter s \<and> chars_count s \<le> n"

lemma narrate_ok:
  "is_valid_opaque_id i \<Longrightarrow> text_within 4000 a \<Longrightarrow> text_within 1000 f \<Longrightarrow> narration_ok (narrate i a f)"
  by (simp add: narration_ok_def narrate_def text_within_def has_letter_not_blank)

definition name_ok :: "string \<Rightarrow> bool" where
  "name_ok s \<longleftrightarrow> chars_count s \<le> 124"

lemma narration_ids:
  "is_valid_opaque_id ''encounter:move''" "is_valid_opaque_id ''encounter:attack:natural-one''"
  "is_valid_opaque_id ''encounter:attack:miss''" "is_valid_opaque_id ''encounter:reaction:shield-window''"
  "is_valid_opaque_id ''encounter:complete:victory''" "is_valid_opaque_id ''encounter:complete:defeat''"
  "is_valid_opaque_id ''encounter:attack:critical-hit''" "is_valid_opaque_id ''encounter:attack:hit''"
  "is_valid_opaque_id ''encounter:turn:end''"
  by code_simp+

lemma text_withinI: "has_letter s \<Longrightarrow> chars_count s \<le> n \<Longrightarrow> text_within n s"
  by (simp add: text_within_def)

lemma move_text: "name_ok a \<Longrightarrow> n \<le> 65535 \<Longrightarrow> m \<le> 65535 \<Longrightarrow> narration_ok (move_narration a n m)"
  using show_nat_chars [of n] show_nat_chars [of m]
  by (auto simp: move_narration_def name_ok_def has_letter_def byte_def narration_ids
      intro!: narrate_ok text_withinI)

lemma miss_text: "name_ok a \<Longrightarrow> name_ok t \<Longrightarrow> narration_ok (miss_narration b a t)"
  by (auto simp: miss_narration_def name_ok_def has_letter_def byte_def narration_ids
      intro!: narrate_ok text_withinI)

lemma shield_window_text: "name_ok a \<Longrightarrow> name_ok t \<Longrightarrow> narration_ok (shield_window_narration a t)"
  by (auto simp: shield_window_narration_def name_ok_def has_letter_def byte_def narration_ids
      intro!: narrate_ok text_withinI)

lemma end_texts:
  "name_ok a \<Longrightarrow> narration_ok (victory_narration a)" "name_ok a \<Longrightarrow> narration_ok (defeat_narration a)"
  by (auto simp: victory_narration_def defeat_narration_def name_ok_def has_letter_def byte_def
      narration_ids intro!: narrate_ok text_withinI)

lemma hit_text: "name_ok a \<Longrightarrow> name_ok t \<Longrightarrow> n \<le> 65535 \<Longrightarrow> narration_ok (hit_narration b a t n)"
  using show_nat_chars [of n]
  by (auto simp: hit_narration_def name_ok_def has_letter_def byte_def narration_ids
      intro!: narrate_ok text_withinI)

lemma end_turn_text:
  "name_ok a \<Longrightarrow> name_ok b \<Longrightarrow> i \<in> {canal_warden_id, soot_wight_id} \<Longrightarrow>
     narration_ok (end_turn_narration a b i)"
proof -
  have "chars_count canal_warden_id \<le> 100" "chars_count soot_wight_id \<le> 100"
    by (simp_all add: canal_warden_id_def soot_wight_id_def byte_def)
  then show "name_ok a \<Longrightarrow> name_ok b \<Longrightarrow> i \<in> {canal_warden_id, soot_wight_id} \<Longrightarrow>
     narration_ok (end_turn_narration a b i)"
    by (auto simp: end_turn_narration_def name_ok_def has_letter_def byte_def narration_ids
        intro!: narrate_ok text_withinI)
qed

section \<open>Rolls\<close>

text \<open>Dice that show a face of theirs, which is what both adapters of the server guarantee.\<close>

definition fair_dice :: "'s dice \<Rightarrow> bool" where
  "fair_dice roll \<longleftrightarrow> (\<forall>sides d. 0 < sides \<longrightarrow> 1 \<le> fst (roll sides d) \<and> fst (roll sides d) \<le> sides)"

lemma roll_faces_returns:
  assumes "fair_dice roll" "0 < sides"
  shows "returns_st (roll_faces n sides roll d)
    (\<lambda>vs _. length vs = n \<and> (\<forall>x\<in>set vs. rd_sides x = sides \<and> 1 \<le> rd_value x \<and> rd_value x \<le> sides))"
proof (induction n arbitrary: d)
  case 0
  show ?case by (simp add: outcomes_simps)
next
  case (Suc n)
  obtain v d' where v: "roll sides d = (v, d')" by (cases "roll sides d")
  have "1 \<le> v" "v \<le> sides" using assms v by (metis fair_dice_def fst_conv)+
  with v show ?case
    by (auto simp: outcomes_simps intro!: returns_st_mono [OF Suc.IH])
qed

lemma checked_sum_bounded:
  assumes "\<forall>v\<in>set vs. - b \<le> v \<and> v \<le> b" "\<bar>acc\<bar> + b * int (length vs) \<le> 2147483647"
  shows "checked_sum_i32 acc vs = Some (acc + sum_list vs) \<and> \<bar>sum_list vs\<bar> \<le> b * int (length vs)"
  using assms
proof (induction vs arbitrary: acc)
  case Nil
  show ?case by simp
next
  case (Cons v vs)
  have "0 \<le> b" using Cons.prems(1) by auto
  then have "0 \<le> b * int (length vs)" by simp
  moreover have "\<bar>acc + v\<bar> \<le> \<bar>acc\<bar> + b" using Cons.prems(1) by auto
  ultimately have bnd: "\<bar>acc + v\<bar> + b * int (length vs) \<le> 2147483647" "\<bar>acc + v\<bar> \<le> 2147483647"
    using Cons.prems(2) by (simp_all add: algebra_simps)
  with Cons.IH [of "acc + v"] Cons.prems(1)
  show ?case by (auto simp: checked_add_i32_def algebra_simps)
qed

text \<open>What a modifier list must be, and what a request must ask for.\<close>

definition modifiers_sound :: "roll_modifier_fact list \<Rightarrow> bool" where
  "modifiers_sound ms \<longleftrightarrow>
     distinct (map mf_source_id ms) \<and>
     (\<forall>m\<in>set ms. is_valid_opaque_id (mf_source_id m) \<and> -32768 \<le> mf_value m \<and> mf_value m \<le> 32767) \<and>
     length ms \<le> 4"

fun request_sound ::
  "roll_purpose \<Rightarrow> string \<Rightarrow> string option \<Rightarrow> string option \<Rightarrow> u16 \<Rightarrow> u16 \<Rightarrow> roll_comparison option \<Rightarrow> bool" where
  "request_sound PurposeInitiative _ t a n sides c \<longleftrightarrow>
     t = None \<and> a = None \<and> n = 1 \<and> sides = 20 \<and> c = None"
| "request_sound PurposeAttack _ t a n sides c \<longleftrightarrow>
     t \<noteq> None \<and> a \<noteq> None \<and> n = 1 \<and> sides = 20 \<and> pred_option (\<lambda>c. rc_kind c = ArmorClassComparison) c \<and> c \<noteq> None"
| "request_sound PurposeDamage _ t a n sides c \<longleftrightarrow>
     t \<noteq> None \<and> a \<noteq> None \<and> (n = 1 \<or> n = 2) \<and> 0 < sides \<and> sides < 20 \<and> c = None"
| "request_sound PurposeDeathSave i t a n sides c \<longleftrightarrow>
     t = Some i \<and> a = None \<and> n = 1 \<and> sides = 20 \<and> pred_option (\<lambda>c. rc_kind c = DeathSaveComparison) c \<and> c \<noteq> None"
| "request_sound _ _ _ _ _ _ _ \<longleftrightarrow> False"

lemma expression_not_blank [simp]: "\<not> is_blank (dice_expression_text n sides m)"
  by (rule has_letter_not_blank) (simp add: dice_expression_text_def has_letter_def byte_def)


lemma roll_validates:
  fixes dice :: "raw_die_fact list"
  assumes dice: "(\<forall>x\<in>set dice. rd_sides x = sides \<and> 1 \<le> rd_value x \<and> rd_value x \<le> sides)"
    "length dice = n" "0 < sides" "sides \<le> 20"
    and request: "request_sound purpose i t a n sides c" "modifiers_sound ms"
    and ids: "is_valid_opaque_id i" "pred_option is_valid_opaque_id t" "pred_option is_valid_opaque_id a"
    and sequence: "q \<noteq> 0"
    and natural: "natural = (if n = 1 \<and> sides = 20 then Some (rd_value (dice ! 0)) else None)"
    and outcome: "performed_outcome purpose c natural tot = Ok outcome"
    and tot: "tot = sum_list (map (\<lambda>x. int (rd_value x)) dice) + sum_list (map mf_value ms)"
  shows "raw_roll_validate \<lparr>rf_sequence = q, rf_purpose = purpose, rf_actor_id = i, rf_target_id = t,
      rf_action_id = a, rf_expression = dice_expression_text n sides (sum_list (map mf_value ms)),
      rf_mode = EncNormal, rf_individual_dice = dice, rf_kept_die_indices = [0..<n], rf_modifiers = ms,
      rf_natural_d20 = natural, rf_total = tot, rf_comparison = c, rf_outcome = outcome\<rparr> = Ok ()"
    (is "raw_roll_validate ?r = _")
proof -
  have n: "n = 1 \<or> n = 2" using request(1) by (cases purpose) auto
  then have kept: "map (\<lambda>i. int (rd_value (dice ! i))) [0..<n] = map (\<lambda>x. int (rd_value x)) dice"
    using dice(2) by (simp add: list_eq_iff_nth_eq)
  have dvals: "\<forall>v\<in>set (map (\<lambda>x. int (rd_value x)) dice). - 20 \<le> v \<and> v \<le> 20"
    using dice(1,4) by fastforce
  have d: "checked_sum_i32 0 (map (\<lambda>x. int (rd_value x)) dice) = Some (sum_list (map (\<lambda>x. int (rd_value x)) dice))"
    "\<bar>sum_list (map (\<lambda>x. int (rd_value x)) dice)\<bar> \<le> 40"
    using checked_sum_bounded [OF dvals, of 0] n dice(2) by auto
  have mvals: "\<forall>v\<in>set (map mf_value ms). - 32768 \<le> v \<and> v \<le> 32768" and len: "length ms \<le> 4"
    using request(2) by (auto simp: modifiers_sound_def)
  have m: "checked_sum_i32 0 (map mf_value ms) = Some (sum_list (map mf_value ms))"
    "\<bar>sum_list (map mf_value ms)\<bar> \<le> 131072"
    using checked_sum_bounded [OF mvals, of 0] len by auto
  have sum: "Option.bind (checked_sum_i32 0 (map (\<lambda>x. int (rd_value x)) dice))
      (\<lambda>x. Option.bind (checked_sum_i32 0 (map mf_value ms)) (checked_add_i32 x)) = Some tot"
    using d m by (simp add: tot checked_add_i32_def abs_le_iff)
  have shape: "raw_shape ?r" using request(1) natural dice(2)
    by (cases purpose) (auto simp: raw_shape_def Let_def)
  have out: "raw_outcome_validate ?r = Ok ()"
    using request(1) natural outcome
    by (cases purpose) (auto simp: raw_outcome_validate_def performed_outcome_def)
  have ne: "dice \<noteq> []" using n dice(2) by auto
  have hd: "rd_sides (dice ! 0) = sides" using dice(1) nth_mem [of 0 dice] ne by auto
  have nat: "natural = Some v \<Longrightarrow> list_get dice 0 = Some \<lparr>rd_sides = 20, rd_value = v\<rparr>" for v
    using natural hd ne by (cases "dice ! 0") (auto simp: list_get_def split: if_splits)
  have k0: "n = 1 \<Longrightarrow> list_get [0..<n] 0 = Some 0" by (simp add: list_get_def)
  have opt: "\<not> (case o' of None \<Rightarrow> False | Some i \<Rightarrow> \<not> is_valid_opaque_id i)"
    if "pred_option is_valid_opaque_id o'" for o' using that by (cases o') auto
  have mode: "raw_mode_validate ?r = Ok ()" using dice(2) by (simp add: raw_mode_validate_def Let_def)
  have naturals: "\<not> (case natural of None \<Rightarrow> False
      | Some v \<Rightarrow> Option.bind (list_get [0..<n] 0) (list_get dice) \<noteq> Some \<lparr>rd_sides = 20, rd_value = v\<rparr>)"
    using nat k0 natural by (cases natural) (auto split: if_splits)
  have identity: "\<not> (q = 0 \<or> \<not> is_valid_opaque_id i
        \<or> (case t of None \<Rightarrow> False | Some i \<Rightarrow> \<not> is_valid_opaque_id i)
        \<or> (case a of None \<Rightarrow> False | Some i \<Rightarrow> \<not> is_valid_opaque_id i)
        \<or> is_blank (dice_expression_text n sides (sum_list (map mf_value ms))) \<or> dice = []
        \<or> list_ex (\<lambda>d. rd_sides d = 0 \<or> rd_value d = 0 \<or> rd_value d > rd_sides d) dice)"
    using sequence ids(1) opt [OF ids(2)] opt [OF ids(3)] ne dice(1,3) by (auto simp: list_ex_iff)
  have kept_ok: "\<not> (\<not> distinct [0..<n] \<or> list_ex (\<lambda>i. i \<ge> length dice) [0..<n]
        \<or> list_ex (\<lambda>d. rd_sides d \<noteq> rd_sides (dice ! 0)) dice)"
    using dice(1,2) hd by (auto simp: list_ex_iff)
  have modifiers: "\<not> (\<not> distinct (map mf_source_id ms) \<or> list_ex (\<lambda>m. \<not> is_valid_opaque_id (mf_source_id m)) ms)"
    using request(2) by (auto simp: list_ex_iff modifiers_sound_def)
  have few: "\<not> length dice > u16_max" using n dice(2) by (auto simp: u16_max_def)
  show ?thesis
    unfolding raw_roll_validate_def Let_def raw_roll_facts.select_convs
    using identity kept_ok modifiers few mode shape out naturals sum
    by (simp only: kept m(1) dice(2) hd raw_roll_facts.select_convs if_False and_then.simps ok_or_def
        option.case bind_simps not_True_eq_False refl simp_thms)
qed

lemma perform_roll_returns:
  assumes "fair_dice roll" "sides \<le> 20" "request_sound purpose i t a n sides c" "modifiers_sound ms"
    and "is_valid_opaque_id i" "pred_option is_valid_opaque_id t" "pred_option is_valid_opaque_id a"
    and "length rolls < u16_max"
  shows "returns_st (perform_roll rolls purpose i t a n sides ms c roll d) (\<lambda>(r, rolls') _.
    rolls' = rolls @ [r] \<and> raw_roll_validate r = Ok () \<and> rf_sequence r = length rolls + 1 \<and>
    rf_purpose r = purpose \<and> rf_mode r = EncNormal \<and>
    int n + sum_list (map mf_value ms) \<le> rf_total r \<and>
    rf_total r \<le> int (n * sides) + sum_list (map mf_value ms) \<and>
    (sides = 20 \<longrightarrow> (\<exists>v. rf_natural_d20 r = Some v \<and> 1 \<le> v \<and> v \<le> 20 \<and>
       rf_total r = int v + sum_list (map mf_value ms))) \<and>
    performed_outcome purpose c (rf_natural_d20 r) (rf_total r) = Ok (rf_outcome r))"
proof -
  have sides: "0 < sides" and n: "n = 1 \<or> n = 2" using assms(3) by (cases purpose; auto)+
  from roll_faces_returns [OF assms(1) sides, of n d] obtain dice d' where
    faces: "roll_faces n sides roll d = (Ok dice, d')"
    and dice: "length dice = n" "\<forall>x\<in>set dice. rd_sides x = sides \<and> 1 \<le> rd_value x \<and> rd_value x \<le> sides"
    by (auto simp: returns_st_def)
  define natural where "natural = (if n = 1 \<and> sides = 20 then Some (rd_value (dice ! 0)) else None)"
  define tot where "tot = sum_list (map (\<lambda>x. int (rd_value x)) dice) + sum_list (map mf_value ms)"
  obtain outcome where out: "performed_outcome purpose c natural tot = Ok outcome"
    using assms(3) by (cases purpose) (auto simp: performed_outcome_def natural_def)
  define r where "r = \<lparr>rf_sequence = length rolls + 1, rf_purpose = purpose, rf_actor_id = i, rf_target_id = t,
      rf_action_id = a, rf_expression = dice_expression_text n sides (sum_list (map mf_value ms)),
      rf_mode = EncNormal, rf_individual_dice = dice, rf_kept_die_indices = [0..<n], rf_modifiers = ms,
      rf_natural_d20 = natural, rf_total = tot, rf_comparison = c, rf_outcome = outcome\<rparr>"
  have valid: "raw_roll_validate r = Ok ()"
    unfolding r_def
    by (rule roll_validates [where purpose = purpose, OF dice(2,1) sides assms(2,3,4,5,6,7) _ natural_def out tot_def])
      simp
  have "perform_roll rolls purpose i t a n sides ms c roll d = (Ok (r, rolls @ [r]), d')"
    using valid out assms(8) unfolding r_def natural_def tot_def
    by (simp add: perform_roll_def faces Let_def)
  moreover obtain "int n \<le> sum_list (map (\<lambda>x. int (rd_value x)) dice)"
    "sum_list (map (\<lambda>x. int (rd_value x)) dice) \<le> int (n * sides)"
    "n = 1 \<Longrightarrow> sum_list (map (\<lambda>x. int (rd_value x)) dice) = int (rd_value (dice ! 0)) \<and>
       1 \<le> rd_value (dice ! 0) \<and> rd_value (dice ! 0) \<le> sides"
    using n
  proof
    assume n: "n = 1"
    with dice(1) obtain x where "dice = [x]" by (auto simp: length_Suc_conv)
    with dice(2) n that show thesis by auto
  next
    assume n: "n = 2"
    with dice(1) obtain x y where "dice = [x, y]" by (auto simp: numeral_2_eq_2 length_Suc_conv)
    with dice(2) n that show thesis by auto
  qed
  moreover have "sides = 20 \<Longrightarrow> n = 1" using assms(3) by (cases purpose) auto
  ultimately show ?thesis
    using valid out by (auto simp: returns_st_def r_def natural_def tot_def)
qed

text \<open>A recorded roll continues the sequence of the rolls before it.\<close>

lemma sequence_from_append:
  "validate_sequence k (rolls @ [r]) = Ok u \<longleftrightarrow>
     validate_sequence k rolls = Ok () \<and> k + length rolls + 1 \<le> u16_max \<and>
     rf_sequence r = k + length rolls + 1 \<and> raw_roll_validate r = Ok ()"
  by (induction rolls arbitrary: k) (auto split: if_splits)

text \<open>The rolls of a handler: all sound, in sequence, of the plain kinds.\<close>

definition rolls_sound :: "raw_roll_facts list \<Rightarrow> bool" where
  "rolls_sound rolls \<longleftrightarrow>
     validate_sequence 0 rolls = Ok () \<and> (\<forall>r\<in>set rolls. raw_roll_validate r = Ok () \<and> rf_mode r = EncNormal \<and>
       rf_purpose r \<in> {PurposeInitiative, PurposeAttack, PurposeDamage, PurposeDeathSave})"

lemma rolls_sound_Nil [simp]: "rolls_sound []"
  by (simp add: rolls_sound_def)

lemma rolls_sound_snoc:
  "rolls_sound rolls \<Longrightarrow> raw_roll_validate r = Ok () \<Longrightarrow> rf_sequence r = length rolls + 1 \<Longrightarrow>
     rf_mode r = EncNormal \<Longrightarrow>
     rf_purpose r \<in> {PurposeInitiative, PurposeAttack, PurposeDamage, PurposeDeathSave} \<Longrightarrow>
     length rolls < u16_max \<Longrightarrow> rolls_sound (rolls @ [r])"
  by (auto simp: rolls_sound_def sequence_from_append)

section \<open>Resolutions\<close>

text \<open>What is left to show of a handler for its command to be accepted.\<close>

definition output_sound :: "handler_output \<Rightarrow> bool" where
  "output_sound h \<longleftrightarrow>
     rolls_sound (hn_rolls h) \<and> hn_facts h \<noteq> [] \<and> narration_ok (hn_narration h) \<and>
     (\<forall>f\<in>set (hn_facts h). (fact_requires_v2 f \<longrightarrow> en_schema_version (hn_state h) \<noteq> legacy_encounter_schema_version) \<and>
        (fact_requires_v3 f \<longrightarrow> en_schema_version (hn_state h) = encounter_schema_version))"

definition stamped :: "encounter_state \<Rightarrow> encounter_state \<Rightarrow> encounter_state" where
  "stamped s s' = s'\<lparr>en_schema_version := en_schema_version s, en_revision := en_revision s + 1\<rparr>"

lemma finish_resolution_returns:
  assumes "encounter_valid s" "encounter_valid (stamped s (hn_state h))" "output_sound h"
    and "en_schema_version (hn_state h) = en_schema_version s" "en_revision s < u64_max"
  shows "returns (finish_resolution s h) (\<lambda>x. er_state x = stamped s (hn_state h) \<and> er_rolls x = hn_rolls h \<and>
    er_facts x = hn_facts h)"
proof -
  define x where "x = \<lparr>er_schema_version = en_schema_version s, er_encounter_id = en_encounter_id s,
    er_previous_revision = en_revision s, er_result_revision = en_revision s + 1,
    er_state = stamped s (hn_state h), er_rolls = hn_rolls h, er_facts = hn_facts h,
    er_narration = hn_narration h\<rparr>"
  have s: "supported_schema (en_schema_version s)" "en_encounter_id s = soot_wight_encounter_id" "en_revision s \<noteq> 0"
    and "en_encounter_id (stamped s (hn_state h)) = soot_wight_encounter_id"
    using validD(1) [OF assms(1)] validD(1) [OF assms(2)] by (simp_all add: pins_ok_def)
  moreover have "en_schema_version s = legacy_encounter_schema_version \<Longrightarrow> en_schema_version s \<noteq> encounter_schema_version"
    by (simp add: schema_versions)
  moreover have "en_schema_version s < encounter_schema_version \<Longrightarrow> en_schema_version s \<noteq> encounter_schema_version"
    by simp
  ultimately have "resolution_validate x = Ok ()"
    using assms(2-5) by (auto simp: resolution_validate_def x_def stamped_def output_sound_def rolls_sound_def list_ex_iff)
  moreover have "\<forall>r\<in>set (hn_rolls h). raw_roll_validate r = Ok ()"
    using assms(3) by (simp add: output_sound_def rolls_sound_def)
  ultimately have "finish_resolution s h = Ok x"
    using assms(2,5) by (simp add: finish_resolution_def Let_def x_def stamped_def checked_add_def)
  then show ?thesis by (simp add: returns_def x_def)
qed

end
