(* ===== verification/Encounter_Policy.thy ===== *)
theory Encounter_Policy
  imports Encounter_Records
begin

text \<open>
  The turn of the Soot Wight: whatever the closed policy selects is accepted by
  \<open>resolve_encounter\<close>, for all dice, and after at most three such commands the turn has passed, the
  encounter is over, or the hero holds a reaction.
\<close>

section \<open>States the wight acts in\<close>

text \<open>
  What a reachable encounter has beyond what the validator tests: the hero was built with a speed
  on the grid and an armor class that fits the comparison, no campaign time has passed before the
  encounter is settled, and a ward was raised against a hit that spent the wight's action.
\<close>

definition ward_spent :: "encounter_state \<Rightarrow> bool" where
  "ward_spent s \<longleftrightarrow>
     (\<forall>live r. en_live s = Some live \<and> lv_shield_ward live \<noteq> None \<and> en_turn_resources s = Some r \<longrightarrow>
        \<not> tr_action_available r)"

definition playable :: "encounter_state \<Rightarrow> bool" where
  "playable s \<longleftrightarrow>
     cb_armor_class (en_hero s) \<le> 32767 \<and> 5 dvd cb_speed_feet (en_hero s) \<and>
     (phase_rank (en_status s) < 2 \<longrightarrow> campaign_minutes s = 0) \<and> ward_spent s"

definition wight_acts :: "encounter_state \<Rightarrow> bool" where
  "wight_acts s \<longleftrightarrow>
     en_status s = EncActive \<and> en_current_actor_id s = Some soot_wight_id \<and> \<not> reaction_pending s"

definition wight_asleep :: "encounter_state \<Rightarrow> bool" where
  "wight_asleep s = (case en_live s of None \<Rightarrow> False | Some live \<Rightarrow> lv_sleep live \<noteq> None)"

lemma active_facts:
  assumes "encounter_valid s" "en_status s = EncActive"
  obtains init index i actor r where "en_initiative s = Some init" "en_current_actor_index s = Some index"
    "en_current_actor_id s = Some i" "list_get (in_order init) index = Some i" "current_actor s = Some actor"
    "en_turn_resources s = Some r" "validate_active_resources s actor r = Ok ()" "en_round s \<noteq> 0"
    "cb_life_status (en_creature s) = LifeConscious" "eo_status (obj_primary (en_objectives s)) = ObjPending"
    "cb_life_status (en_hero s) \<in> {LifeConscious, LifeUnconscious}"
    "en_reward_eligibility s = RewardPending" "en_transition s = None"
proof -
  have "validate_active s = Ok ()" using validD(10) [OF assms(1)] assms(2) by (simp add: phase_ok_def)
  then show thesis
    by (auto simp: validate_active_def current_actor_def split: option.splits if_splits intro: that)
qed

lemma phase_active_iff:
  "en_status s = EncActive \<Longrightarrow> phase_ok s \<longleftrightarrow>
     (\<exists>init index actor r. en_initiative s = Some init \<and> en_current_actor_index s = Some index \<and>
        current_actor s = Some actor \<and> en_round s \<noteq> 0 \<and>
        list_get (in_order init) index = en_current_actor_id s \<and>
        cb_life_status (en_creature s) = LifeConscious \<and>
        cb_life_status (en_hero s) \<in> {LifeConscious, LifeUnconscious} \<and>
        eo_status (obj_primary (en_objectives s)) = ObjPending \<and>
        en_reward_eligibility s = RewardPending \<and> en_transition s = None \<and>
        en_turn_resources s = Some r \<and> validate_active_resources s actor r = Ok ())"
  by (auto simp: phase_ok_def validate_active_def split: option.splits if_splits)

lemma resources_validate_iff':
  "validate_active_resources s actor r = Ok u \<longleftrightarrow>
     tr_movement_remaining_feet r \<le> cb_speed_feet actor \<and> 5 dvd tr_movement_remaining_feet r \<and>
     (tr_bonus_action_available r \<longrightarrow> en_current_actor_id s = Some canal_warden_id \<and> second_wind_left s) \<and>
     tr_reaction_available r \<and>
     (\<not> tr_object_interaction_available r \<longrightarrow> en_current_actor_id s = Some canal_warden_id \<and>
        eo_status (obj_contextual (en_objectives s)) = ObjCompleted)"
  by (auto simp: validate_active_resources_def Let_def)

section \<open>What the policy selects\<close>

lemma wight_actions:
  assumes "encounter_valid s" "wight_acts s" "en_turn_resources s = Some r"
  shows "legal_actions s = Ok (if wight_asleep s then [LegalEndTurn]
    else offered_move s (en_creature s) r @ offered_attacks (en_creature s) (en_hero s) r [creature_attack] @
      [LegalEndTurn])"
proof -
  from assms(1,2) have act: "en_status s = EncActive" by (simp add: wight_acts_def)
  obtain x where life: "cb_life_status (en_creature s) = LifeConscious"
    by (rule active_facts [OF assms(1) act]) simp
  from assms(2) have cur: "current_actor s = Some (en_creature s)" "\<not> reaction_pending s"
    by (simp_all add: wight_acts_def current_actor_def)
  show ?thesis
    using assms act life cur validD(11,12) [OF assms(1)]
    by (auto simp: legal_actions_def active_legal_actions_def wight_asleep_def attacks_for_actor_def
        opposing_combatant_def offered_hero_def offered_context_def split: option.splits)
qed

definition claw_ready :: "encounter_state \<Rightarrow> turn_resources \<Rightarrow> bool" where
  "claw_ready s r \<longleftrightarrow>
     \<not> wight_asleep s \<and> tr_action_available r \<and>
     enc_distance (cb_position_feet (en_creature s)) (cb_position_feet (en_hero s)) \<le> 5"

section \<open>Validity of what a handler leaves\<close>

lemma live_ok_cong:
  assumes "en_schema_version s' = en_schema_version s" "en_live s' = en_live s" "en_map s' = en_map s"
    "cb_position_feet (en_hero s') = cb_position_feet (en_hero s)"
    "cb_armor_class (en_hero s') = cb_armor_class (en_hero s)"
    "cb_status_effects (en_creature s') = cb_status_effects (en_creature s)"
    "cb_life_status (en_creature s') = cb_life_status (en_creature s)"
    "en_status s' = en_status s" "en_current_actor_id s' = en_current_actor_id s"
    "map_option tr_action_available (en_turn_resources s') = map_option tr_action_available (en_turn_resources s)"
    "en_lethality_policy s' = en_lethality_policy s" "en_transition s' = en_transition s"
  shows "live_ok s' = live_ok s"
proof -
  have p: "live_pending_validate s' live = live_pending_validate s live" for live
    using assms(5,8,9,10)
    by (cases "en_turn_resources s"; cases "en_turn_resources s'")
      (auto simp: live_pending_validate_def ok_or_def split: option.split)
  have h: "live_hand_validate s' live = live_hand_validate s live"
    "live_sleep_validate s' live = live_sleep_validate s live"
    "live_ward_validate s' live = live_ward_validate s live"
    "live_rest_validate s' live = live_rest_validate s live" for live
    unfolding live_hand_validate_def live_sleep_validate_def live_ward_validate_def live_rest_validate_def
      is_safe_rest_boundary_def assms by (rule refl)+
  show ?thesis
    unfolding live_ok_def validate_live_iff p h assms(1,2,8) ..
qed

lemma phase_ok_stamped:
  "en_schema_version s' = en_schema_version s \<Longrightarrow> phase_ok (stamped s s') = phase_ok s'"
  by (simp add: phase_ok_def stamped_def validate_ready_def validate_active_def validate_victory_def
      validate_defeat_def validate_defeat_hero_def validate_active_resources_def second_wind_left_def
      current_actor_def Let_def
      cong del: option.case_cong_weak encounter_status.case_cong_weak if_weak_cong
        lethality_policy.case_cong_weak)

lemma valid_stamped:
  assumes "encounter_valid s" "forward s s'" "en_initiative s' = en_initiative s" "live_ok s'" "rules_ok s'"
    "combatant_moving (en_hero s')" "combatant_moving (en_creature s')" "opening_ok s'" "phase_ok s'"
  shows "encounter_valid (stamped s s')"
proof -
  have v: "en_schema_version s' = en_schema_version s"
    using forward_fixed [OF assms(2)] by (simp add: encounter_fixed_def)
  show ?thesis
  proof (rule valid_after [OF assms(1)])
    show "encounter_fixed (stamped s s') = encounter_fixed s"
      using forward_fixed [OF stamped_forward [OF assms(2)]] by (simp add: stamped_def)
    show "live_ok (stamped s s')"
      using assms(4) v by (subst live_ok_cong [of _ s']) (simp_all add: stamped_def)
    show "phase_ok (stamped s s')" using assms(9) phase_ok_stamped [OF v] by simp
  qed (use assms in \<open>simp_all add: stamped_def rules_ok_def opening_ok_def cong: objective_status.case_cong\<close>)
qed

section \<open>The selection\<close>

lemma approach_bounds:
  fixes current hero left :: nat
  assumes "current \<le> 60" "hero \<le> 60" "5 dvd current" "5 dvd hero" "5 dvd left" "left \<le> 25"
    "desired = (if current < hero then hero - 5 else if current > hero then min (hero + 5) 60 else current)"
    "p = max (max (current - left) 0) (min (min (current + left) 60) desired)"
  shows "5 dvd p" "p \<le> 60" "abs_diff current p \<le> left"
    "abs_diff p hero < abs_diff current hero \<Longrightarrow>
       left - abs_diff current p = 0 \<or> abs_diff p hero = 5"
    "abs_diff current hero \<le> 5 \<Longrightarrow> \<not> abs_diff p hero < abs_diff current hero"
proof -
  obtain a b c where abc: "current = 5 * a" "hero = 5 * b" "left = 5 * c"
    using assms(3-5) by (auto elim!: dvdE)
  have bounds: "a \<le> 12" "b \<le> 12" "c \<le> 5" using assms(1,2,6) abc by auto
  define q where "q = (if a < b then min (a + c) (b - 1) else if a > b then max (a - c) (b + 1) else a)"
  have p: "p = 5 * q"
  proof -
    consider "a < b" | "b < a" | "a = b" by linarith
    then show ?thesis
    proof cases
      case 1
      then obtain e where e: "b = Suc e" "a \<le> e" by (cases b) auto
      then have "desired = 5 * e" using assms(7) abc by simp
      with 1 e show ?thesis using assms(8) abc bounds by (auto simp: q_def max_def min_def)
    next
      case 2
      then have "desired = 5 * (b + 1)" using assms(7) abc bounds by simp
      with 2 show ?thesis using assms(8) abc bounds
        by (auto simp: q_def max_def min_def simp flip: diff_mult_distrib2)
    next
      case 3
      then show ?thesis using assms(7,8) abc bounds by (simp add: q_def max_def min_def)
    qed
  qed
  have d5: "abs_diff (5 * x) (5 * y) = 5 * abs_diff x y" for x y :: nat
    by (auto simp: abs_diff_def diff_mult_distrib2)
  show "5 dvd p" using p by simp
  have q: "q \<le> 12 \<and> abs_diff a q \<le> c \<and>
      (abs_diff q b < abs_diff a b \<longrightarrow> c - abs_diff a q = 0 \<or> abs_diff q b = 1) \<and>
      (abs_diff a b \<le> 1 \<longrightarrow> \<not> abs_diff q b < abs_diff a b)"
  proof -
    consider "a + c < b" | "a < b" "b \<le> a + c" | "b + c < a" | "b < a" "a \<le> b + c" | "a = b"
      by linarith
    then show ?thesis
    proof cases
      case 1 then have "a < b" "a + c \<le> b - 1" by linarith+
      then have "q = a + c" unfolding q_def by (simp only: if_True min_absorb1)
      with 1 bounds show ?thesis by (simp add: abs_diff_def)
    next
      case 2 then have "q = b - 1" by (simp add: q_def min_def)
      with 2 bounds show ?thesis by (cases b) (auto simp: abs_diff_def)
    next
      case 3 then have "\<not> a < b" "b < a" "b + 1 \<le> a - c" by linarith+
      then have "q = a - c" unfolding q_def by (simp only: if_True if_False max_absorb1)
      with 3 bounds show ?thesis by (auto simp: abs_diff_def)
    next
      case 4 then have "q = b + 1" by (simp add: q_def max_def)
      with 4 bounds show ?thesis by (cases a) (auto simp: abs_diff_def)
    next
      case 5 then show ?thesis using bounds by (simp add: q_def abs_diff_def)
    qed
  qed
  show "p \<le> 60" using p q by simp
  show "abs_diff current p \<le> left" using q unfolding p abc d5 by simp
  show "abs_diff p hero < abs_diff current hero \<Longrightarrow> left - abs_diff current p = 0 \<or> abs_diff p hero = 5"
    using q unfolding p abc d5 by auto
  show "abs_diff current hero \<le> 5 \<Longrightarrow> \<not> abs_diff p hero < abs_diff current hero"
    using q unfolding p abc d5 by simp
qed


definition approach :: "encounter_state \<Rightarrow> turn_resources \<Rightarrow> u16" where
  "approach s r =
     (let current = cb_position_feet (en_creature s); left = tr_movement_remaining_feet r in
      max (max (current - left) 0) (min (min (current + left) 60) (policy_desired s)))"

definition approaches :: "encounter_state \<Rightarrow> turn_resources \<Rightarrow> bool" where
  "approaches s r \<longleftrightarrow>
     \<not> wight_asleep s \<and> 0 < tr_movement_remaining_feet r \<and>
     enc_distance (approach s r) (cb_position_feet (en_hero s)) <
       enc_distance (cb_position_feet (en_creature s)) (cb_position_feet (en_hero s))"

definition wight_choice :: "encounter_state \<Rightarrow> turn_resources \<Rightarrow> encounter_intent" where
  "wight_choice s r =
     (if claw_ready s r then AttackTarget soot_wight_attack_id canal_warden_id
      else if approaches s r then MoveTo (approach s r) else EndTurn)"

lemma wight_turn_facts:
  assumes "encounter_valid s" "wight_acts s"
  obtains r where "en_turn_resources s = Some r" "tr_movement_remaining_feet r \<le> 25"
    "5 dvd tr_movement_remaining_feet r" "cb_life_status (en_creature s) = LifeConscious"
    "position_ok (cb_position_feet (en_creature s))" "position_ok (cb_position_feet (en_hero s))"
    "current_actor s = Some (en_creature s)" "require_conscious_active_actor s = Ok soot_wight_id"
    "cb_life_status (en_hero s) \<noteq> LifeDead"
proof -
  from assms(2) have a: "en_status s = EncActive" "en_current_actor_id s = Some soot_wight_id"
    by (simp_all add: wight_acts_def)
  obtain r where r: "en_turn_resources s = Some r" "validate_active_resources s (en_creature s) r = Ok ()"
    "cb_life_status (en_creature s) = LifeConscious" "cb_life_status (en_hero s) \<noteq> LifeDead"
    by (rule active_facts [OF assms(1) a(1)]) (use a(2) in \<open>auto simp: current_actor_def\<close>)
  have speed: "cb_speed_feet (en_creature s) = 25"
    using validD(4) [OF assms(1)] by (simp add: participants_static_def)
  show thesis
    using r a speed validD(6,7,12) [OF assms(1)]
    by (intro that [of r])
      (auto simp: resources_validate_iff' current_actor_def require_conscious_active_actor_def combatant_moving_def)
qed

lemma approach_facts:
  assumes "encounter_valid s" "wight_acts s" "en_turn_resources s = Some r"
  shows "position_ok (approach s r)"
    "enc_distance (cb_position_feet (en_creature s)) (approach s r) \<le> tr_movement_remaining_feet r"
    "approaches s r \<Longrightarrow>
       tr_movement_remaining_feet r - enc_distance (cb_position_feet (en_creature s)) (approach s r) = 0 \<or>
       enc_distance (approach s r) (cb_position_feet (en_hero s)) = 5"
    "enc_distance (cb_position_feet (en_creature s)) (cb_position_feet (en_hero s)) \<le> 5 \<Longrightarrow> \<not> approaches s r"
proof -
  let ?c = "cb_position_feet (en_creature s)" and ?h = "cb_position_feet (en_hero s)"
  let ?l = "tr_movement_remaining_feet r"
  have b: "?c \<le> 60" "?h \<le> 60" "5 dvd ?c" "5 dvd ?h" "5 dvd ?l" "?l \<le> 25"
    by (rule wight_turn_facts [OF assms(1,2)]; use assms(3) in \<open>simp add: position_ok_def\<close>)+
  have m: "map_maximum_position_feet (en_map s) = 60"
    using validD(3) [OF assms(1)] by (simp add: battlefield_def battlefield_max_feet_def)
  have d: "policy_desired s = (if ?c < ?h then ?h - 5 else if ?c > ?h then min (?h + 5) 60 else ?c)"
    using b(2) by (simp add: policy_desired_def Let_def m saturating_add_def u16_max_def min_def)
  have p: "approach s r = max (max (?c - ?l) 0) (min (min (?c + ?l) 60) (policy_desired s))"
    by (simp add: approach_def Let_def)
  note B = approach_bounds [OF b d p]
  show "position_ok (approach s r)" using B(1,2) by (simp add: position_ok_def)
  show "enc_distance ?c (approach s r) \<le> ?l" using B(3) by (simp add: enc_distance_def)
  show "approaches s r \<Longrightarrow> ?l - enc_distance ?c (approach s r) = 0 \<or> enc_distance (approach s r) ?h = 5"
    using B(4) by (simp add: approaches_def enc_distance_def)
  show "enc_distance ?c ?h \<le> 5 \<Longrightarrow> \<not> approaches s r"
    using B(5) by (simp add: approaches_def enc_distance_def)
qed

lemma policy_selects:
  assumes "encounter_valid s" "wight_acts s" "en_turn_resources s = Some r"
  shows "select_soot_wight_policy_intent s = Ok (wight_choice s r)"
proof -
  have b: "cb_position_feet (en_creature s) \<le> 60" "tr_movement_remaining_feet r \<le> 25"
    "cb_life_status (en_hero s) \<noteq> LifeDead"
    by (rule wight_turn_facts [OF assms(1,2)]; use assms(3) in \<open>simp add: position_ok_def\<close>)+
  have m: "map_maximum_position_feet (en_map s) = 60" "map_minimum_position_feet (en_map s) = 0"
    using validD(3) [OF assms(1)] by (simp_all add: battlefield_def battlefield_max_feet_def battlefield_min_feet_def)
  have ids: "cb_id (en_hero s) = canal_warden_id" "cb_id (en_creature s) = soot_wight_id"
    using validD(11,12) [OF assms(1)] .
  have moves: "offered_move s (en_creature s) r =
    (if 0 < tr_movement_remaining_feet r
     then [LegalMove (max (cb_position_feet (en_creature s) - tr_movement_remaining_feet r) 0)
            (min (cb_position_feet (en_creature s) + tr_movement_remaining_feet r) 60)
            (tr_movement_remaining_feet r)] else [])"
    using b by (simp add: offered_move_def Let_def m saturating_add_def u16_max_def min_def)
  have attacks: "offered_attacks (en_creature s) (en_hero s) r [creature_attack] =
    (if tr_action_available r \<and>
        enc_distance (cb_position_feet (en_creature s)) (cb_position_feet (en_hero s)) \<le> 5
     then [LegalAttack soot_wight_attack_id canal_warden_id 5] else [])"
    using b ids by (simp add: offered_attacks_def creature_attack_def)
  have clamp: "clamp (cb_position_feet (en_creature s) - tr_movement_remaining_feet r)
      (min (cb_position_feet (en_creature s) + tr_movement_remaining_feet r) 60) (policy_desired s) =
      Ok (approach s r)"
    using b by (simp add: clamp_def approach_def Let_def)
  have ne: "approaches s r \<Longrightarrow> approach s r \<noteq> cb_position_feet (en_creature s)"
    by (auto simp: approaches_def)
  have sel: "select_soot_wight_policy_intent s =
    and_then (legal_actions s) (\<lambda>actions.
         if list_ex (\<lambda>a. case a of
              LegalAttack attack_id target_id _ \<Rightarrow>
                attack_id = soot_wight_attack_id \<and> target_id = cb_id (en_hero s)
            | _ \<Rightarrow> False) actions
         then Ok (AttackTarget soot_wight_attack_id (cb_id (en_hero s)))
         else and_then (policy_move s actions) (\<lambda>m.
           case m of
             Some destination \<Rightarrow> Ok (MoveTo destination)
           | None \<Rightarrow>
               if LegalEndTurn \<in> set actions then Ok EndTurn
               else Err (PolicyUnavailable PolicyWithoutAction)))"
    using assms(1,2)
    by (simp add: select_soot_wight_policy_intent_def wight_acts_def current_actor_def ids
        cong del: legal_action.case_cong_weak list.case_cong_weak)
  show ?thesis
    unfolding sel wight_actions [OF assms] and_then.simps ids
    using ne
    by (auto simp: moves attacks policy_move_def clamp wight_choice_def claw_ready_def approaches_def Let_def)
qed

end
