(* ===== verification/Encounter_Wight.thy ===== *)
theory Encounter_Wight
  imports Encounter_Policy
begin

text \<open>
  The commands of the wight's turn are accepted: its move, its claw (missed, landed, or held by the
  hero's reaction) and the end of its turn, for every dice source that shows faces of its dice.
\<close>

section \<open>From a handler to an accepted command\<close>

lemma command_new_matches:
  assumes "encounter_valid s" "en_schema_version s = encounter_schema_version"
    and "is_valid_opaque_id key" "intent_ids_validate i = Ok ()"
  shows "command_matches s (command_new (en_revision s) key i) = Ok ()"
proof -
  have "is_valid_opaque_id soot_wight_encounter_id" by code_simp
  moreover have "encounter_schema_version \<noteq> legacy_encounter_schema_version" by (simp add: schema_versions)
  ultimately show ?thesis
    using assms validD(1) [OF assms(1)]
    by (simp add: command_matches_def command_new_def command_validate_def supported_schema_def pins_ok_def)
qed

lemma handler_accepted:
  assumes "encounter_valid s" "en_schema_version s = encounter_schema_version" "en_revision s < u64_max"
    and "is_valid_opaque_id key" "intent_ids_validate i = Ok ()"
    and "returns_st (handle_intent s i roll d)
      (\<lambda>h _. rolls_sound (hn_rolls h) \<and> hn_facts h \<noteq> [] \<and> narration_ok (hn_narration h) \<and>
         forward s (hn_state h) \<and> encounter_valid (stamped s (hn_state h)) \<and> P (stamped s (hn_state h)) (hn_facts h))"
  shows "returns_st (resolve_encounter s (command_new (en_revision s) key i) roll d)
    (\<lambda>x _. encounter_valid (er_state x) \<and> P (er_state x) (er_facts x))"
proof -
  obtain h d' where h: "handle_intent s i roll d = (Ok h, d')"
    and o: "rolls_sound (hn_rolls h)" "hn_facts h \<noteq> []" "narration_ok (hn_narration h)"
    and f: "forward s (hn_state h)" and v: "encounter_valid (stamped s (hn_state h))"
    and p: "P (stamped s (hn_state h)) (hn_facts h)"
    using assms(6) by (auto simp: returns_st_def)
  have sv: "en_schema_version (hn_state h) = en_schema_version s"
    using forward_fixed [OF f] by (simp add: encounter_fixed_def)
  have "encounter_schema_version \<noteq> legacy_encounter_schema_version" by (simp add: schema_versions)
  with o sv assms(2) have "output_sound h" by (simp add: output_sound_def)
  from finish_resolution_returns [OF assms(1) v this sv assms(3)] obtain x where
    "finish_resolution s h = Ok x" "er_state x = stamped s (hn_state h)" "er_facts x = hn_facts h"
    by (auto simp: returns_def)
  with h p v command_new_matches [OF assms(1,2,4,5)] show ?thesis
    by (simp add: resolve_encounter_def command_new_def returns_st_def)
qed

section \<open>The move\<close>

definition wight_moved :: "u16 \<Rightarrow> turn_resources \<Rightarrow> encounter_state \<Rightarrow> encounter_state" where
  "wight_moved p r s =
     s\<lparr>en_creature := (en_creature s)\<lparr>cb_position_feet := p\<rparr>,
       en_turn_resources := Some (r\<lparr>tr_movement_remaining_feet :=
         tr_movement_remaining_feet r - enc_distance (cb_position_feet (en_creature s)) p\<rparr>)\<rparr>"

lemma life_validate_iff:
  "combatant_life_validate c = Ok u \<longleftrightarrow>
     (cb_life_status c = LifeConscious \<longleftrightarrow> hp_current (cb_hit_points c) \<noteq> 0) \<and>
     (cb_life_status c = LifeStable \<longrightarrow> ds_successes (hp_death_saves (cb_hit_points c)) = 3) \<and>
     (cb_life_status c = LifeDead \<and> cb_kind c = HeroKind \<longrightarrow>
        ds_failures (hp_death_saves (cb_hit_points c)) = 3) \<and>
     (cb_kind c = CreatureKind \<longrightarrow> cb_source_character_id c = None \<and> cb_attacks c = [] \<and>
        hp_death_saves (cb_hit_points c) = tally_default \<and> cb_life_status c \<in> {LifeConscious, LifeDead}) \<and>
     (cb_kind c = HeroKind \<and> cb_life_status c = LifeConscious \<longrightarrow>
        hp_death_saves (cb_hit_points c) = tally_default) \<and>
     (cb_kind c = HeroKind \<and> cb_life_status c = LifeUnconscious \<longrightarrow>
        ds_successes (hp_death_saves (cb_hit_points c)) < 3 \<and> ds_failures (hp_death_saves (cb_hit_points c)) < 3)"
  by (auto simp: combatant_life_validate_def Let_def)

lemma names_ok: "encounter_valid s \<Longrightarrow> name_ok (cb_name (en_hero s)) \<and> name_ok (cb_name (en_creature s))"
  using validD(4) [of s] by (simp add: participants_static_def combatant_static_def name_ok_def byte_def)

lemma dist_dvd: "5 dvd a \<Longrightarrow> 5 dvd b \<Longrightarrow> 5 dvd enc_distance a b"
  by (auto simp: enc_distance_def abs_diff_def)

lemma phase_stays_active:
  assumes "phase_ok s" "en_status s = EncActive" "en_status s' = EncActive"
    and "en_initiative s' = en_initiative s" "en_current_actor_index s' = en_current_actor_index s"
    and "en_current_actor_id s' = en_current_actor_id s" "en_round s' = en_round s"
    and "en_objectives s' = en_objectives s" "en_reward_eligibility s' = en_reward_eligibility s"
    and "en_transition s' = en_transition s" "cb_life_status (en_creature s') = cb_life_status (en_creature s)"
    and "cb_life_status (en_hero s') \<in> {LifeConscious, LifeUnconscious}"
    and "current_actor s' = Some actor" "en_turn_resources s' = Some r"
    and "validate_active_resources s' actor r = Ok ()"
  shows "phase_ok s'"
  using assms unfolding phase_active_iff [OF assms(2)] phase_active_iff [OF assms(3)] by auto

lemma wight_move_state:
  assumes "encounter_valid s" "en_status s = EncActive" "en_current_actor_id s = Some soot_wight_id"
    and "en_turn_resources s = Some r" "position_ok p"
  shows "forward s (wight_moved p r s)" "encounter_valid (stamped s (wight_moved p r s))"
proof -
  show f: "forward s (wight_moved p r s)"
    by (simp add: wight_moved_def forward_def encounter_fixed_def combatant_fixed_def settlement_def
        campaign_minutes_def)
  have c: "current_actor (wight_moved p r s) = Some (en_creature (wight_moved p r s))"
    using assms(3) by (simp add: wight_moved_def current_actor_def)
  have pos: "position_ok (cb_position_feet (en_creature s))"
    using validD(7) [OF assms(1)] by (simp add: combatant_moving_def)
  have phase: "phase_ok s" by (rule validD(10) [OF assms(1)])
  have cs: "current_actor s = Some (en_creature s)" using assms(3) by (simp add: current_actor_def)
  show "encounter_valid (stamped s (wight_moved p r s))"
  proof (rule valid_stamped [OF assms(1) f])
    show "en_initiative (wight_moved p r s) = en_initiative s" by (simp add: wight_moved_def)
    show "live_ok (wight_moved p r s)"
      using validD(2) [OF assms(1)] assms(4) by (subst live_ok_cong [of _ s]) (simp_all add: wight_moved_def)
    show "rules_ok (wight_moved p r s)"
      using validD(5) [OF assms(1)] by (simp add: wight_moved_def rules_ok_def)
    show "combatant_moving (en_hero (wight_moved p r s))"
      using validD(6) [OF assms(1)] by (simp add: wight_moved_def)
    show "combatant_moving (en_creature (wight_moved p r s))"
      using validD(7) [OF assms(1)] assms(5)
      by (auto simp: wight_moved_def combatant_moving_def life_validate_iff)
    show "opening_ok (wight_moved p r s)"
      using validD(8) [OF assms(1)] by (simp add: wight_moved_def opening_ok_def cong: objective_status.case_cong)
    let ?left = "tr_movement_remaining_feet r - enc_distance (cb_position_feet (en_creature s)) p"
    obtain q where res: "validate_active_resources s (en_creature s) r = Ok ()"
      and life: "cb_life_status (en_hero s) \<in> {LifeConscious, LifeUnconscious}"
      by (rule active_facts [OF assms(1,2)]) (use assms(4) cs in auto)
    have "5 dvd ?left" if "5 dvd tr_movement_remaining_feet r"
      using dist_dvd [of "cb_position_feet (en_creature s)" p] that pos assms(5)
      by (simp add: position_ok_def dvd_diff_nat)
    with res have left: "validate_active_resources (wight_moved p r s) (en_creature (wight_moved p r s))
        (r\<lparr>tr_movement_remaining_feet := ?left\<rparr>) = Ok ()"
      by (auto simp: resources_validate_iff' wight_moved_def second_wind_left_def assms(3))
    show "phase_ok (wight_moved p r s)"
      by (rule phase_stays_active [OF phase assms(2) _ _ _ _ _ _ _ _ _ _ c _ left])
        (use life in \<open>simp_all add: wight_moved_def assms(2)\<close>)
  qed
qed

lemma wight_move_handler:
  assumes "encounter_valid s" "en_status s = EncActive" "en_current_actor_id s = Some soot_wight_id"
    and "en_turn_resources s = Some r" "position_ok p" "p \<noteq> cb_position_feet (en_creature s)"
    and "enc_distance (cb_position_feet (en_creature s)) p \<le> tr_movement_remaining_feet r"
  shows "returns (resolve_move s p) (\<lambda>h. hn_state h = wight_moved p r s \<and> hn_rolls h = [] \<and> hn_facts h \<noteq> [] \<and>
    narration_ok (hn_narration h))"
proof -
  have m: "map_minimum_position_feet (en_map s) = 0" "map_maximum_position_feet (en_map s) = 60"
    using validD(3) [OF assms(1)] by (simp_all add: battlefield_def battlefield_min_feet_def battlefield_max_feet_def)
  obtain q where life: "cb_life_status (en_creature s) = LifeConscious"
    by (rule active_facts [OF assms(1,2)]) simp
  have "require_conscious_active_actor s = Ok soot_wight_id"
    using assms(2,3) life validD(12) [OF assms(1)]
    by (simp add: require_conscious_active_actor_def current_actor_def)
  moreover have "enc_distance (cb_position_feet (en_creature s)) p \<le> 65535" "p \<le> 65535"
    using validD(7) [OF assms(1)] assms(5)
    by (auto simp: combatant_moving_def position_ok_def enc_distance_def abs_diff_def)
  ultimately show ?thesis
    using assms(4-7) m names_ok [OF assms(1)]
    by (auto simp: resolve_move_def outcomes_simps Let_def combatant_def update_combatant_def hand_follows_def
        handled_def wight_moved_def position_ok_def returns_def intro!: move_text)
qed

lemma wight_move_accepted:
  assumes "encounter_valid s" "en_schema_version s = encounter_schema_version" "en_revision s < u64_max"
    and "en_status s = EncActive" "en_current_actor_id s = Some soot_wight_id"
    and "en_turn_resources s = Some r" "position_ok p" "p \<noteq> cb_position_feet (en_creature s)"
    and "enc_distance (cb_position_feet (en_creature s)) p \<le> tr_movement_remaining_feet r"
    and "is_valid_opaque_id key"
  shows "returns_st (resolve_encounter s (command_new (en_revision s) key (MoveTo p)) roll d)
    (\<lambda>x _. encounter_valid (er_state x) \<and> er_state x = stamped s (wight_moved p r s))"
proof (rule handler_accepted [OF assms(1-3,10)])
  show "returns_st (handle_intent s (MoveTo p) roll d)
      (\<lambda>h _. rolls_sound (hn_rolls h) \<and> hn_facts h \<noteq> [] \<and> narration_ok (hn_narration h) \<and>
         forward s (hn_state h) \<and> encounter_valid (stamped s (hn_state h)) \<and>
         stamped s (hn_state h) = stamped s (wight_moved p r s))"
    using wight_move_handler [OF assms(1,4-9)] wight_move_state [OF assms(1,4-7)]
    by (auto simp: outcomes_simps elim!: returns_mono)
qed simp

section \<open>The end of the turn\<close>

lemma tick_light_fst:
  "fst (tick_light ob) =
     ob\<lparr>ob_light_remaining_rounds :=
       (case ob_light_remaining_rounds ob of None \<Rightarrow> None | Some n \<Rightarrow> if n = 1 then None else Some (n - 1))\<rparr>"
  by (cases ob; cases "ob_light_remaining_rounds ob") (simp_all add: tick_light.simps)

lemma authored_tick: "authored_ok ob i p \<Longrightarrow> authored_ok (fst (tick_light ob)) i p"
  by (auto simp: authored_ok_def tick_light_fst split: option.splits)

lemma ticked_simps [simp]:
  "lv_objects (live_ticked live) = map (fst \<circ> tick_light) (lv_objects live)"
  "lv_pending (live_ticked live) = lv_pending live" "lv_shield_ward (live_ticked live) = lv_shield_ward live"
  "lv_active_short_rest (live_ticked live) = lv_active_short_rest live"
  "lv_last_long_rest_minute (live_ticked live) = lv_last_long_rest_minute live"
  by (simp_all add: live_ticked_def sleep_ticked_def hand_ticked_def split: option.splits)

lemma hand_ticked_valid:
  assumes "live_hand_validate s live = Ok ()"
    and "en_map s' = en_map s" "cb_position_feet (en_hero s') = cb_position_feet (en_hero s)"
  shows "live_hand_validate s' (live_ticked live) = Ok ()"
proof (cases "lv_mage_hand live")
  case None
  with assms show ?thesis
    by (simp add: live_hand_validate_def live_ticked_def sleep_ticked_def hand_ticked_def)
next
  case (Some h)
  show ?thesis
  proof (cases "mh_remaining_rounds h = 1")
    case True
    with Some show ?thesis
      by (simp add: live_hand_validate_def live_ticked_def sleep_ticked_def hand_ticked_def)
  next
    case False
    have l: "lv_mage_hand (live_ticked live) = Some (h\<lparr>mh_remaining_rounds := mh_remaining_rounds h - 1\<rparr>)"
      "lv_mage_hand_position_feet (live_ticked live) = lv_mage_hand_position_feet live"
      using Some False by (simp_all add: live_ticked_def sleep_ticked_def hand_ticked_def)
    have "mage_hand_ok h" using assms(1) Some by (auto simp: live_hand_validate_def)
    with False have "mage_hand_ok (h\<lparr>mh_remaining_rounds := mh_remaining_rounds h - 1\<rparr>)"
      by (auto simp: mage_hand_ok_def)
    with assms Some show ?thesis
      by (auto simp: live_hand_validate_def l split: if_splits)
  qed
qed

lemma live_ok_round:
  assumes "live_ok s" "en_schema_version s = encounter_schema_version" "en_live s = Some live"
    and "lv_pending live = None" "en_status s = EncActive"
  shows "live_ok (round_passed live s)"
proof -
  have v: "objects_ok (lv_objects live)" "live_hand_validate s live = Ok ()" "live_sleep_validate s live = Ok ()"
    "live_ward_validate s live = Ok ()" "live_rest_validate s live = Ok ()"
    "pred_option (\<lambda>m. m \<le> lv_campaign_time_minutes live) (lv_last_long_rest_minute live)"
    using assms(1-3) by (auto simp: live_ok_def validate_live_iff)
  have o: "objects_ok (map (fst \<circ> tick_light) (lv_objects live))"
    using v(1) by (auto simp: objects_ok_def intro: authored_tick)
  have h: "live_hand_validate (round_passed live s) (live_ticked live) = Ok ()"
    by (rule hand_ticked_valid [OF v(2)]) (simp_all add: round_passed_def wake_creature_def)
  have sl: "live_sleep_validate (round_passed live s) (live_ticked live) = Ok ()"
    using v(3)
    by (cases "lv_sleep live")
      (auto simp: live_sleep_validate_def round_passed_def sleep_ends_def wake_creature_def live_ticked_def
        sleep_ticked_def hand_ticked_def Let_def split: option.splits)
  have "live_pending_validate (round_passed live s) (live_ticked live) = Ok ()"
    using assms(4) by (simp add: live_pending_validate_def)
  moreover have "live_ward_validate (round_passed live s) (live_ticked live) = Ok ()"
    using v(4) by (simp add: live_ward_validate_def round_passed_def wake_creature_def cong del: option.case_cong_weak)
  moreover have "live_rest_validate (round_passed live s) (live_ticked live) = Ok ()"
    using v(5) by (simp add: live_rest_validate_def is_safe_rest_boundary_def round_passed_def wake_creature_def
        cong del: option.case_cong_weak)
  ultimately show ?thesis
    using o h sl v(6) assms(2,5)
    by (simp add: live_ok_def validate_live_iff) (simp add: round_passed_def wake_creature_def)
qed

lemma live_ok_turn:
  assumes "live_ok s" "en_schema_version s = encounter_schema_version" "en_live s = Some live"
    and "lv_pending live = None" "en_status s = EncActive"
  shows "live_ok (turn_set j canal_warden_id r s)"
proof -
  have v: "objects_ok (lv_objects live)" "live_hand_validate s live = Ok ()" "live_sleep_validate s live = Ok ()"
    "live_rest_validate s live = Ok ()"
    "pred_option (\<lambda>m. m \<le> lv_campaign_time_minutes live) (lv_last_long_rest_minute live)"
    using assms(1-3) by (auto simp: live_ok_def validate_live_iff)
  let ?l = "live\<lparr>lv_hero_reaction_available := True, lv_shield_ward := None\<rparr>"
  have "live_hand_validate (turn_set j canal_warden_id r s) ?l = Ok ()"
    "live_sleep_validate (turn_set j canal_warden_id r s) ?l = Ok ()"
    "live_rest_validate (turn_set j canal_warden_id r s) ?l = Ok ()"
    "live_ward_validate (turn_set j canal_warden_id r s) ?l = Ok ()"
    "live_pending_validate (turn_set j canal_warden_id r s) ?l = Ok ()"
    using v assms(2-4)
    by (simp_all add: live_hand_validate_def live_sleep_validate_def live_rest_validate_def turn_set_def
        live_ward_validate_def live_pending_validate_def is_safe_rest_boundary_def
        cong del: option.case_cong_weak if_weak_cong)
  with v assms show ?thesis
    by (simp add: live_ok_def validate_live_iff) (simp add: turn_set_def)
qed

lemma fresh_turn:
  assumes "rules_ok s"
  obtains r where "turn_resources_fresh speed (en_hero_rules s) = Ok r" "tr_movement_remaining_feet r = speed"
    "tr_reaction_available r" "tr_object_interaction_available r" "tr_bonus_action_available r \<longrightarrow> second_wind_left s"
proof (cases "en_hero_rules s")
  case None
  then show thesis
    by (intro that [of "resources_from_economy (economy_new speed)"])
      (simp_all add: turn_resources_fresh_def Let_def resources_from_economy_def economy_new_def)
next
  case (Some p)
  then have "resources_validate (hrp_runtime_resources p) = Ok ()"
    using assms by (auto simp: rules_ok_def hero_rules_validate_def)
  with Some show thesis
    by (intro that [of "resources_from_economy (if second_wind_left s then grant_bonus_action (economy_new speed)
          else economy_new speed)"])
      (auto simp: turn_resources_fresh_def Let_def resources_from_economy_def economy_new_def second_wind_left_def
        grant_supported_bonus_action_def grant_bonus_action_def split: option.splits)
qed

text \<open>The state the hero's turn starts in: one round later when the wight was last in the order.\<close>

definition round_over :: "live_state \<Rightarrow> bool \<Rightarrow> encounter_state \<Rightarrow> encounter_state" where
  "round_over live wrap s = (if wrap then round_passed live (s\<lparr>en_round := en_round s + 1\<rparr>) else s)"

lemma round_over_same [simp]:
  "en_hero (round_over live wrap s) = en_hero s" "en_hero_rules (round_over live wrap s) = en_hero_rules s"
  "en_status (round_over live wrap s) = en_status s" "en_initiative (round_over live wrap s) = en_initiative s"
  "en_schema_version (round_over live wrap s) = en_schema_version s"
  "en_objectives (round_over live wrap s) = en_objectives s"
  "en_reward_eligibility (round_over live wrap s) = en_reward_eligibility s"
  "en_transition (round_over live wrap s) = en_transition s"
  "cb_life_status (en_creature (round_over live wrap s)) = cb_life_status (en_creature s)"
  "cb_hit_points (en_creature (round_over live wrap s)) = cb_hit_points (en_creature s)"
  "cb_name (en_creature (round_over live wrap s)) = cb_name (en_creature s)"
  "SootVeil \<in> set (cb_status_effects (en_creature (round_over live wrap s))) \<longleftrightarrow>
     SootVeil \<in> set (cb_status_effects (en_creature s))"
  "en_opening_consequence (round_over live wrap s) = en_opening_consequence s"
  "combatant_moving (en_creature s) \<Longrightarrow> combatant_moving (en_creature (round_over live wrap s))"
  by (auto simp: round_over_def round_passed_def wake_creature_def combatant_moving_def life_validate_iff)

lemma turn_set_same [simp]:
  "en_hero (turn_set j a r s) = en_hero s" "en_hero_rules (turn_set j a r s) = en_hero_rules s"
  "en_status (turn_set j a r s) = en_status s" "en_initiative (turn_set j a r s) = en_initiative s"
  "en_schema_version (turn_set j a r s) = en_schema_version s"
  "en_objectives (turn_set j a r s) = en_objectives s"
  "en_reward_eligibility (turn_set j a r s) = en_reward_eligibility s"
  "en_transition (turn_set j a r s) = en_transition s" "en_creature (turn_set j a r s) = en_creature s"
  "en_opening_consequence (turn_set j a r s) = en_opening_consequence s"
  "en_current_actor_id (turn_set j a r s) = Some a" "en_current_actor_index (turn_set j a r s) = Some j"
  "en_turn_resources (turn_set j a r s) = Some r" "en_round (turn_set j a r s) = en_round s"
  by (cases "en_live s"; simp add: turn_set_def Let_def)+

lemma heroes_turn_valid:
  assumes "encounter_valid s" "en_status s = EncActive" "en_schema_version s = encounter_schema_version"
    and "en_live s = Some live" "lv_pending live = None" "5 dvd cb_speed_feet (en_hero s)"
    and "en_initiative s = Some init" "list_get (in_order init) j = Some canal_warden_id"
    and "tr_movement_remaining_feet r = cb_speed_feet (en_hero s)" "tr_reaction_available r"
    and "tr_object_interaction_available r" "tr_bonus_action_available r \<longrightarrow> second_wind_left s"
  shows "forward s (turn_set j canal_warden_id r (round_over live wrap s))"
    "encounter_valid (stamped s (turn_set j canal_warden_id r (round_over live wrap s)))"
proof -
  let ?s1 = "round_over live wrap s" and ?t = "turn_set j canal_warden_id r (round_over live wrap s)"
  have "forward s ?s1"
    using forward_trans [OF _ round_passed_forward [of "s\<lparr>en_round := en_round s + 1\<rparr>" live]] assms(4)
    by (simp add: round_over_def)
  then show f: "forward s ?t" by (rule forward_trans [OF _ turn_set_forward])
  have live1: "live_ok ?s1 \<and> (\<exists>l. en_live ?s1 = Some l \<and> lv_pending l = None)"
  proof (cases wrap)
    case True
    have "live_ok (s\<lparr>en_round := en_round s + 1\<rparr>)"
      using validD(2) [OF assms(1)] by (subst live_ok_cong [of _ s]) simp_all
    from live_ok_round [OF this, of live] True assms(2-5) show ?thesis
      by (simp add: round_over_def) (simp add: round_passed_def)
  next
    case False
    with validD(2) [OF assms(1)] assms(4,5) show ?thesis by (simp add: round_over_def)
  qed
  obtain x where life: "cb_life_status (en_creature s) = LifeConscious"
      "cb_life_status (en_hero s) \<in> {LifeConscious, LifeUnconscious}"
    and round: "en_round s \<noteq> 0" and pend: "eo_status (obj_primary (en_objectives s)) = ObjPending"
      "en_reward_eligibility s = RewardPending" "en_transition s = None"
    by (rule active_facts [OF assms(1,2)]) auto
  have r1: "en_round ?s1 \<noteq> 0" using round by (simp add: round_over_def round_passed_def wake_creature_def)
  have cur: "current_actor ?t = Some (en_hero s)" by (simp add: current_actor_def)
  have res: "validate_active_resources ?t (en_hero s) r = Ok ()"
    using assms(6,9-12) by (simp add: resources_validate_iff' second_wind_left_def)
  show "encounter_valid (stamped s ?t)"
  proof (rule valid_stamped [OF assms(1) f])
    show "live_ok ?t"
      using live1 live_ok_turn [of ?s1 _ j r] assms(2,3) by auto
    show "rules_ok ?t" using validD(5) [OF assms(1)] by (simp add: rules_ok_def)
    show "combatant_moving (en_hero ?t)" "combatant_moving (en_creature ?t)"
      using validD(6,7) [OF assms(1)] by simp_all
    show "opening_ok ?t"
      using validD(8) [OF assms(1)] by (simp add: opening_ok_def cong: objective_status.case_cong)
    have "en_status ?t = EncActive" using assms(2) by simp
    then show "phase_ok ?t"
      unfolding phase_active_iff [OF \<open>en_status ?t = EncActive\<close>]
      using assms(7,8) cur res life pend r1 by simp
  qed simp
qed

lemma advance_to_hero:
  assumes "encounter_valid s" "wight_acts s" "en_schema_version s = encounter_schema_version"
    and "en_round s < u32_max" "en_live s = Some live" "en_initiative s = Some init"
    and "turn_resources_fresh (cb_speed_feet (en_hero s)) (en_hero_rules s) = Ok r"
  obtains j wrap facts where "list_get (in_order init) j = Some canal_warden_id"
    "advance_turn s [] = Ok (turn_set j canal_warden_id r (round_over live wrap s), facts)" "facts \<noteq> []"
proof -
  have act: "en_status s = EncActive" "en_current_actor_id s = Some soot_wight_id"
    using assms(2) by (simp_all add: wight_acts_def)
  obtain index where index: "en_current_actor_index s = Some index"
    "list_get (in_order init) index = Some soot_wight_id"
    by (rule active_facts [OF assms(1) act(1)]) (use act(2) assms(6) in auto)
  note order = valid_order [OF validD(9) [OF assms(1)] assms(6)]
  then obtain a b where o: "in_order init = [a, b]" by (auto simp: numeral_2_eq_2 length_Suc_conv)
  with order(2) have ab: "{a, b} = {canal_warden_id, soot_wight_id}" by simp
  have ne: "canal_warden_id \<noteq> soot_wight_id" by simp
  have hand: "pred_option mage_hand_ok (lv_mage_hand live)"
    using valid_live(2) [OF assms(1,5)] assms(5)
    by (cases "lv_mage_hand live") (auto simp: validate_live_iff live_hand_validate_def)
  have round: "advance_live_round (s\<lparr>en_round := en_round s + 1\<rparr>) [] =
      Ok (round_passed live (s\<lparr>en_round := en_round s + 1\<rparr>), round_facts live)"
    using live_round_eq [of "s\<lparr>en_round := en_round s + 1\<rparr>" live "[]"] assms(3,5) hand by simp
  have turn: "set_current_turn j t = Ok (turn_set j canal_warden_id r t)"
    if "list_get (in_order init) j = Some canal_warden_id" "j \<le> 1" "t = round_over live wrap s" for j wrap t
  proof -
    have "en_schema_version t = encounter_schema_version" "\<exists>l. en_live t = Some l"
      using that(3) assms(3,5) by (simp_all add: round_over_def round_passed_def wake_creature_def)
    then show ?thesis
      using that assms(6,7)
      by (auto simp: set_current_turn_def turn_set_def combatant_def u8_max_def Let_def)
  qed
  from index(2) o ab ne consider "index = 0" "a = soot_wight_id" "b = canal_warden_id"
    | "index = 1" "b = soot_wight_id" "a = canal_warden_id"
    by (auto simp: list_get_def less_Suc_eq doubleton_eq_iff split: if_splits)
  then show thesis
  proof cases
    case 1
    then have g: "list_get (in_order init) 1 = Some canal_warden_id" by (simp add: o list_get_def)
    show ?thesis
      using turn [OF g _ refl, of False] act index assms(6) o 1
      by (intro that [OF g, of False]) (auto simp: advance_turn_def Let_def round_over_def)
  next
    case 2
    then have g: "list_get (in_order init) 0 = Some canal_warden_id" by (simp add: o list_get_def)
    show ?thesis
      using turn [OF g _ refl, of True] act index assms(4,6) o 2 round
      by (intro that [OF g, of True]) (auto simp: advance_turn_def Let_def round_over_def checked_add_def)
  qed
qed

lemma wight_end_turn_accepted:
  assumes "encounter_valid s" "en_schema_version s = encounter_schema_version" "en_revision s < u64_max"
    and "wight_acts s" "5 dvd cb_speed_feet (en_hero s)" "en_round s < u32_max" "is_valid_opaque_id key"
  shows "returns_st (resolve_encounter s (command_new (en_revision s) key EndTurn) roll d)
    (\<lambda>x _. encounter_valid (er_state x) \<and> \<not> wight_acts (er_state x))"
proof (rule handler_accepted [OF assms(1-3,7)])
  have act: "en_status s = EncActive" "en_current_actor_id s = Some soot_wight_id" "\<not> reaction_pending s"
    using assms(4) by (simp_all add: wight_acts_def)
  obtain init where init: "en_initiative s = Some init"
    by (rule active_facts [OF assms(1) act(1)]) auto
  obtain live where live: "en_live s = Some live" "lv_pending live = None"
    using validD(2) [OF assms(1)] assms(2) act(3)
    by (auto simp: live_ok_def validate_live_iff reaction_pending_def)
  obtain r where r: "turn_resources_fresh (cb_speed_feet (en_hero s)) (en_hero_rules s) = Ok r"
    "tr_movement_remaining_feet r = cb_speed_feet (en_hero s)" "tr_reaction_available r"
    "tr_object_interaction_available r" "tr_bonus_action_available r \<longrightarrow> second_wind_left s"
    using fresh_turn [OF validD(5) [OF assms(1)]] by blast
  obtain j wrap facts where j: "list_get (in_order init) j = Some canal_warden_id"
    and adv: "advance_turn s [] = Ok (turn_set j canal_warden_id r (round_over live wrap s), facts)" "facts \<noteq> []"
    using advance_to_hero [OF assms(1,4,2,6) live(1) init r(1)] by blast
  note next_turn = heroes_turn_valid [OF assms(1) act(1) assms(2) live assms(5) init j r(2-5), of wrap]
  obtain x where life: "require_conscious_active_actor s = Ok soot_wight_id"
    by (rule wight_turn_facts [OF assms(1,4)]) simp
  have "narration_ok (end_turn_narration (cb_name (en_creature s)) (cb_name (en_hero s)) canal_warden_id)"
    using names_ok [OF assms(1)] by (intro end_turn_text) simp_all
  then show "returns_st (handle_intent s EndTurn roll d)
      (\<lambda>h _. rolls_sound (hn_rolls h) \<and> hn_facts h \<noteq> [] \<and> narration_ok (hn_narration h) \<and>
         forward s (hn_state h) \<and> encounter_valid (stamped s (hn_state h)) \<and>
         \<not> wight_acts (stamped s (hn_state h)))"
    using life act(2) adv next_turn
    by (simp add: resolve_end_turn_def outcomes_simps combatant_def handled_def)
      (simp add: wight_acts_def stamped_def)
qed simp

end
