(* ===== verification/Encounter_Claw.thy ===== *)
theory Encounter_Claw
  imports Encounter_Wight
begin

text \<open>
  The claw of the Soot Wight: what a hit does to the hero stays within what the validators allow,
  and the attack is accepted whatever the dice show.
\<close>

section \<open>Damage to the hero\<close>

definition hurt_life :: "lethality_policy \<Rightarrow> life_status set" where
  "hurt_life policy =
     (if policy = StoryRecovery then {LifeConscious, LifeUnconscious}
      else {LifeConscious, LifeUnconscious, LifeDead})"

text \<open>The damage in terms of what is left of the hit points and of the temporary ones.\<close>

lemma damaged_by_parts:
  assumes "cb_kind c = HeroKind"
    and "t = hp_temporary (cb_hit_points c) - min n (hp_temporary (cb_hit_points c))"
    and "d = n - min n (hp_temporary (cb_hit_points c))" and "l = hp_current (cb_hit_points c) - d"
  shows "damaged n critical policy c =
    (if policy = StoryRecovery
     then (if l = 0
           then c\<lparr>cb_hit_points := ((cb_hit_points c)\<lparr>hp_temporary := t\<rparr>)\<lparr>hp_current := 0, hp_death_saves := tally_default\<rparr>,
                  cb_life_status := LifeUnconscious\<rparr>
           else c\<lparr>cb_hit_points := ((cb_hit_points c)\<lparr>hp_temporary := t\<rparr>)\<lparr>hp_current := l\<rparr>\<rparr>)
     else if hp_current (cb_hit_points c) > 0
     then (if l = 0
           then (if d - hp_current (cb_hit_points c) \<ge> hp_maximum (cb_hit_points c)
                 then c\<lparr>cb_hit_points := ((cb_hit_points c)\<lparr>hp_temporary := t\<rparr>)\<lparr>hp_current := 0,
                          hp_death_saves := tally_default\<lparr>ds_failures := 3\<rparr>\<rparr>, cb_life_status := LifeDead\<rparr>
                 else c\<lparr>cb_hit_points := ((cb_hit_points c)\<lparr>hp_temporary := t\<rparr>)\<lparr>hp_current := 0, hp_death_saves := tally_default\<rparr>,
                        cb_life_status := LifeUnconscious\<rparr>)
           else c\<lparr>cb_hit_points := ((cb_hit_points c)\<lparr>hp_temporary := t\<rparr>)\<lparr>hp_current := l\<rparr>\<rparr>)
     else if d > 0 then hit_downed_hero d critical (c\<lparr>cb_hit_points := ((cb_hit_points c)\<lparr>hp_temporary := t\<rparr>)\<rparr>)
     else c\<lparr>cb_hit_points := ((cb_hit_points c)\<lparr>hp_temporary := t\<rparr>)\<rparr>)"
proof -
  have l0: "hp_current (cb_hit_points c) \<le> d \<longleftrightarrow> l = 0" by (simp add: assms(4))
  have d_minus: "n - (min n (hp_temporary (cb_hit_points c)) + k) = d - k" for k by (simp add: assms(3))
  have d_pos: "min n (hp_temporary (cb_hit_points c)) < n \<longleftrightarrow> 0 < d" by (auto simp: assms(3))
  show ?thesis
    using assms(1)
    by (simp add: damaged_def Let_def assms(2-4) [symmetric] l0 d_minus d_pos
        split del: if_split cong del: if_weak_cong)
qed

lemma damaged_hero:
  assumes "combatant_moving c" "cb_kind c = HeroKind" "cb_life_status c \<in> {LifeConscious, LifeUnconscious}"
  shows "combatant_moving (damaged n critical policy c)"
    "cb_life_status (damaged n critical policy c) \<in> hurt_life policy"
proof -
  define t d l where "t = hp_temporary (cb_hit_points c) - min n (hp_temporary (cb_hit_points c))"
    and "d = n - min n (hp_temporary (cb_hit_points c))" and "l = hp_current (cb_hit_points c) - d"
  note eq = damaged_by_parts [OF assms(2) t_def d_def l_def, of critical policy]
  have c: "position_ok (cb_position_feet c)" "distinct (cb_status_effects c)"
    "hp_current (cb_hit_points c) \<le> hp_maximum (cb_hit_points c)"
    "hp_temporary (cb_hit_points c) \<le> hp_maximum (cb_hit_points c)"
    "cb_life_status c = LifeConscious \<longleftrightarrow> hp_current (cb_hit_points c) \<noteq> 0"
    "cb_life_status c = LifeConscious \<Longrightarrow> hp_death_saves (cb_hit_points c) = tally_default"
    "cb_life_status c = LifeUnconscious \<Longrightarrow> ds_successes (hp_death_saves (cb_hit_points c)) < 3 \<and>
       ds_failures (hp_death_saves (cb_hit_points c)) < 3"
    using assms(1,2) by (simp_all add: combatant_moving_def hit_points_ok_def life_validate_iff)
  have le: "t \<le> hp_maximum (cb_hit_points c)" "l \<le> hp_maximum (cb_hit_points c)"
    using c(3,4) by (simp_all add: t_def l_def)
  note defs = combatant_moving_def hit_points_ok_def life_validate_iff tally_default_def hit_downed_hero_def
    Let_def
  show "combatant_moving (damaged n critical policy c)"
  proof (cases "cb_life_status c = LifeConscious")
    case True
    with c(5,6) have "hp_current (cb_hit_points c) \<noteq> 0" "hp_death_saves (cb_hit_points c) = tally_default"
      by simp_all
    with True c(1,2) le assms(2) show ?thesis unfolding eq by (simp add: defs)
  next
    case False
    with assms(3) have life: "cb_life_status c = LifeUnconscious" by simp
    with c(5,7) have z: "hp_current (cb_hit_points c) = 0" "ds_successes (hp_death_saves (cb_hit_points c)) < 3"
      "ds_failures (hp_death_saves (cb_hit_points c)) < 3" by simp_all
    have "l = 0" using z(1) by (simp add: l_def)
    with z life c(1,2) le assms(2) show ?thesis unfolding eq by (simp add: defs) (auto simp: min_def)
  qed
  show "cb_life_status (damaged n critical policy c) \<in> hurt_life policy"
    unfolding eq using c(5) assms(2,3) by (auto simp: hit_downed_hero_def hurt_life_def Let_def)
qed

lemma damaged_same [simp]:
  "cb_position_feet (damaged n critical policy c) = cb_position_feet c"
  "cb_status_effects (damaged n critical policy c) = cb_status_effects c"
  "cb_armor_class (damaged n critical policy c) = cb_armor_class c"
  "cb_kind (damaged n critical policy c) = cb_kind c" "cb_name (damaged n critical policy c) = cb_name c"
  "cb_speed_feet (damaged n critical policy c) = cb_speed_feet c" "cb_id (damaged n critical policy c) = cb_id c"
  by (simp_all add: damaged_def hit_downed_hero_def Let_def)

section \<open>The states a claw can leave\<close>

definition action_spent :: "turn_resources \<Rightarrow> encounter_state \<Rightarrow> encounter_state" where
  "action_spent r s = s\<lparr>en_turn_resources := Some (r\<lparr>tr_action_available := False\<rparr>)\<rparr>"

lemma resources_spent:
  "validate_active_resources s actor r = Ok () \<Longrightarrow> second_wind_left s' = second_wind_left s \<Longrightarrow>
   en_current_actor_id s' = en_current_actor_id s \<Longrightarrow> en_objectives s' = en_objectives s \<Longrightarrow>
   validate_active_resources s' actor (r\<lparr>tr_action_available := False\<rparr>) = Ok ()"
  by (simp add: resources_validate_iff')

text \<open>The wight has acted, the hero has been hit for \<open>n\<close> (or not at all) and the fight goes on.\<close>

lemma claw_state_valid:
  assumes "encounter_valid s" "wight_acts s" "en_turn_resources s = Some r"
    and "s' = (action_spent r s)\<lparr>en_hero := hero\<rparr>" "hero = en_hero s \<or> hero = damaged n critical policy (en_hero s)"
    and "cb_life_status hero \<in> {LifeConscious, LifeUnconscious}"
  shows "forward s s'" "encounter_valid (stamped s s')"
proof -
  have act: "en_status s = EncActive" "en_current_actor_id s = Some soot_wight_id" "\<not> reaction_pending s"
    using assms(2) by (simp_all add: wight_acts_def)
  have cur: "current_actor s = Some (en_creature s)" using act by (simp add: current_actor_def)
  obtain q where res: "validate_active_resources s (en_creature s) r = Ok ()"
    and life: "cb_life_status (en_hero s) \<in> {LifeConscious, LifeUnconscious}"
    by (rule active_facts [OF assms(1) act(1)]) (use assms(3) cur in auto)
  have hero: "combatant_fixed hero = combatant_fixed (en_hero s)" "combatant_moving hero"
    "cb_position_feet hero = cb_position_feet (en_hero s)"
    "cb_armor_class hero = cb_armor_class (en_hero s)" "cb_status_effects hero = cb_status_effects (en_hero s)"
    using assms(5) validD(6) [OF assms(1)] damaged_hero(1) [OF validD(6) [OF assms(1)] validD(13) [OF assms(1)] life]
    by auto
  show f: "forward s s'"
    using hero(1) by (simp add: assms(4) action_spent_def forward_def encounter_fixed_def settlement_def campaign_minutes_def)
  show "encounter_valid (stamped s s')"
  proof (rule valid_stamped [OF assms(1) f])
    show "en_initiative s' = en_initiative s" by (simp add: assms(4) action_spent_def)
    have pend: "live_pending_validate s' l = live_pending_validate s l" if "en_live s = Some l" for l
      using act(3) that by (simp add: reaction_pending_def live_pending_validate_def)
    have "live_hand_validate s' l = live_hand_validate s l" "live_sleep_validate s' l = live_sleep_validate s l"
      "live_ward_validate s' l = live_ward_validate s l" "live_rest_validate s' l = live_rest_validate s l" for l
      using hero(3)
      by (simp_all add: live_hand_validate_def live_sleep_validate_def live_ward_validate_def live_rest_validate_def
          is_safe_rest_boundary_def assms(4) action_spent_def
          cong del: option.case_cong_weak if_weak_cong)
    moreover have "en_live s' = en_live s" "en_status s' = en_status s" "en_schema_version s' = en_schema_version s"
      by (simp_all add: assms(4) action_spent_def)
    ultimately show "live_ok s'"
      using validD(2) [OF assms(1)] pend
      by (auto simp: live_ok_def validate_live_iff split: if_splits)
    show "rules_ok s'" using validD(5) [OF assms(1)] by (simp add: rules_ok_def assms(4) action_spent_def)
    show "combatant_moving (en_hero s')" "combatant_moving (en_creature s')"
      using hero(2) validD(7) [OF assms(1)] by (simp_all add: assms(4) action_spent_def)
    show "opening_ok s'" using validD(8) [OF assms(1)] hero(5)
      by (simp add: opening_ok_def assms(4) action_spent_def cong: objective_status.case_cong)
    have "validate_active_resources s' (en_creature s) (r\<lparr>tr_action_available := False\<rparr>) = Ok ()"
      by (rule resources_spent [OF res]) (simp_all add: assms(4) action_spent_def second_wind_left_def)
    moreover have "current_actor s' = Some (en_creature s)"
      using act by (simp add: assms(4) action_spent_def current_actor_def)
    ultimately show "phase_ok s'"
      by (intro phase_stays_active [OF validD(10) [OF assms(1)] act(1)])
        (use assms(6) act in \<open>simp_all add: assms(4) action_spent_def\<close>)
  qed
qed

text \<open>The hero is down for good and the encounter is over.\<close>

lemma defeat_state_valid:
  assumes "encounter_valid s" "wight_acts s" "en_turn_resources s = Some r" "en_live s = Some live"
    and "lv_shield_ward live = None" "campaign_minutes s = 0"
    and "s1 = (action_spent r s)\<lparr>en_hero := damaged n critical (en_lethality_policy s) (en_hero s)\<rparr>"
    and "s' = fst (complete_defeat reason s1 facts)"
    and "(en_lethality_policy s, cb_life_status (en_hero s1)) \<in>
      {(StoryRecovery, LifeUnconscious), (RulesAsWritten, LifeDead)}"
  shows "forward s s'" "encounter_valid (stamped s s')"
proof -
  have act: "en_status s = EncActive" "en_current_actor_id s = Some soot_wight_id" "\<not> reaction_pending s"
    using assms(2) by (simp_all add: wight_acts_def)
  obtain q init where life: "cb_life_status (en_hero s) \<in> {LifeConscious, LifeUnconscious}"
    and init: "en_initiative s = Some init"
    by (rule active_facts [OF assms(1) act(1)]) auto
  let ?hero = "damaged n critical (en_lethality_policy s) (en_hero s)"
  note moving = damaged_hero(1) [OF validD(6) [OF assms(1)] validD(13) [OF assms(1)] life]
  have "forward s s1"
    by (simp add: assms(7) action_spent_def forward_def encounter_fixed_def settlement_def campaign_minutes_def)
  moreover have "forward s1 s'" unfolding assms(8)
    by (rule complete_defeat_forward) (simp add: assms(7) action_spent_def act)
  ultimately show f: "forward s s'" by (rule forward_trans)
  have s': "en_hero s' = ?hero" "en_creature s' = en_creature s" "en_live s' = en_live s" "en_map s' = en_map s"
    "en_status s' = EncDefeat" "en_schema_version s' = en_schema_version s" "en_hero_rules s' = en_hero_rules s"
    "en_lethality_policy s' = en_lethality_policy s" "en_initiative s' = en_initiative s"
    "en_opening_consequence s' = en_opening_consequence s"
    "eo_status (obj_contextual (en_objectives s')) = eo_status (obj_contextual (en_objectives s))"
    by (simp_all add: assms(7,8) complete_defeat_def Let_def action_spent_def)
  show "encounter_valid (stamped s s')"
  proof (rule valid_stamped [OF assms(1) f s'(9)])
    have "\<not> is_safe_rest_boundary s" using act(1) by (simp add: is_safe_rest_boundary_def)
    then have l: "objects_ok (lv_objects live)" "live_hand_validate s live = Ok ()" "live_sleep_validate s live = Ok ()"
      "lv_active_short_rest live = None" "en_schema_version s = encounter_schema_version"
      "pred_option (\<lambda>m. m \<le> lv_campaign_time_minutes live) (lv_last_long_rest_minute live)"
      using valid_live [OF assms(1,4)] assms(4)
      by (auto simp: validate_live_iff live_rest_validate_def split: option.splits)
    have "live_hand_validate s' live = Ok ()" "live_sleep_validate s' live = Ok ()"
      using l(2,3) by (simp_all add: live_hand_validate_def live_sleep_validate_def s'
          cong del: option.case_cong_weak if_weak_cong)
    then show "live_ok s'"
      using l assms(4,5) act(3)
      by (simp add: live_ok_def validate_live_iff s' live_pending_validate_def live_ward_validate_def
          live_rest_validate_def reaction_pending_def)
    show "rules_ok s'" using validD(5) [OF assms(1)] by (simp add: rules_ok_def s')
    show "combatant_moving (en_hero s')" "combatant_moving (en_creature s')"
      using moving validD(7) [OF assms(1)] by (simp_all add: s')
    show "opening_ok s'" using validD(8) [OF assms(1)]
      by (simp add: opening_ok_def s' cong: objective_status.case_cong)
    have "lv_campaign_time_minutes live = 0" using assms(4,6) by (simp add: campaign_minutes_def)
    moreover have "hp_current (cb_hit_points ?hero) = 0 \<or> cb_life_status ?hero = LifeConscious"
      using moving by (auto simp: combatant_moving_def life_validate_iff)
    ultimately show "phase_ok s'"
      using assms(4,9) init
      by (auto simp: phase_ok_def assms(7,8) complete_defeat_def Let_def action_spent_def validate_defeat_def
          validate_defeat_hero_def validate_transition_destination_def)
  qed
qed

text \<open>The hero may answer: the hit is held until the reaction is decided.\<close>

lemma window_state_valid:
  assumes "encounter_valid s" "wight_acts s" "en_turn_resources s = Some r" "en_live s = Some live"
    and "lv_shield_ward live = None" "1 \<le> v" "v \<le> 20" "v \<noteq> 1" "v = 20 \<or> int (cb_armor_class (en_hero s)) \<le> tot"
    and "s' = (action_spent r s)\<lparr>en_live := Some (live\<lparr>lv_pending := Some
      \<lparr>pr_actor_id = soot_wight_id, pr_target_id = canal_warden_id, pr_attack_id = soot_wight_attack_id,
       pr_natural_roll = v, pr_attack_total = tot, pr_armor_class = cb_armor_class (en_hero s),
       pr_critical = (v = 20)\<rparr>\<rparr>)\<rparr>"
  shows "forward s s'" "encounter_valid (stamped s s')"
proof -
  have act: "en_status s = EncActive" "en_current_actor_id s = Some soot_wight_id" "\<not> reaction_pending s"
    using assms(2) by (simp_all add: wight_acts_def)
  have cur: "current_actor s = Some (en_creature s)" using act by (simp add: current_actor_def)
  obtain q where res: "validate_active_resources s (en_creature s) r = Ok ()"
    and life: "cb_life_status (en_hero s) \<in> {LifeConscious, LifeUnconscious}"
    by (rule active_facts [OF assms(1) act(1)]) (use assms(3) cur in auto)
  show f: "forward s s'"
    using assms(4) by (simp add: assms(10) action_spent_def forward_def encounter_fixed_def settlement_def campaign_minutes_def)
  show "encounter_valid (stamped s s')"
  proof (rule valid_stamped [OF assms(1) f])
    show "en_initiative s' = en_initiative s" by (simp add: assms(10) action_spent_def)
    let ?l = "the (en_live s')"
    have "live_hand_validate s' ?l = live_hand_validate s live" "live_sleep_validate s' ?l = live_sleep_validate s live"
      "live_ward_validate s' ?l = live_ward_validate s live" "live_rest_validate s' ?l = live_rest_validate s live"
      by (simp_all add: live_hand_validate_def live_sleep_validate_def live_ward_validate_def live_rest_validate_def
          is_safe_rest_boundary_def assms(10) action_spent_def
          cong del: option.case_cong_weak if_weak_cong)
    moreover have "live_pending_validate s' ?l = Ok ()"
      using act assms(5-9) by (auto simp: live_pending_validate_def assms(10) action_spent_def)
    moreover have "en_live s' = Some ?l" "lv_objects ?l = lv_objects live"
      "lv_last_long_rest_minute ?l = lv_last_long_rest_minute live"
      "lv_campaign_time_minutes ?l = lv_campaign_time_minutes live"
      "en_status s' = EncActive" "en_schema_version s' = en_schema_version s"
      using act by (simp_all add: assms(10) action_spent_def)
    ultimately show "live_ok s'"
      using valid_live [OF assms(1,4)] assms(4) by (auto simp: live_ok_def validate_live_iff)
    show "rules_ok s'" using validD(5) [OF assms(1)] by (simp add: rules_ok_def assms(10) action_spent_def)
    show "combatant_moving (en_hero s')" "combatant_moving (en_creature s')"
      using validD(6,7) [OF assms(1)] by (simp_all add: assms(10) action_spent_def)
    show "opening_ok s'" using validD(8) [OF assms(1)]
      by (simp add: opening_ok_def assms(10) action_spent_def cong: objective_status.case_cong)
    have "validate_active_resources s' (en_creature s) (r\<lparr>tr_action_available := False\<rparr>) = Ok ()"
      by (rule resources_spent [OF res]) (simp_all add: assms(10) action_spent_def second_wind_left_def)
    moreover have "current_actor s' = Some (en_creature s)"
      using act by (simp add: assms(10) action_spent_def current_actor_def)
    ultimately show "phase_ok s'"
      by (intro phase_stays_active [OF validD(10) [OF assms(1)] act(1)])
        (use life act in \<open>simp_all add: assms(10) action_spent_def\<close>)
  qed
qed

section \<open>The attack is accepted\<close>

text \<open>What the state is after a claw: the wight has acted, or it is not to act.\<close>

definition claw_done :: "encounter_state \<Rightarrow> turn_resources \<Rightarrow> encounter_state \<Rightarrow> bool" where
  "claw_done s r s' \<longleftrightarrow>
     (wight_acts s' \<longrightarrow>
        en_turn_resources s' = Some (r\<lparr>tr_action_available := False\<rparr>) \<and> en_round s' = en_round s \<and>
        en_live s' = en_live s \<and> en_map s' = en_map s \<and> en_creature s' = en_creature s \<and>
        cb_position_feet (en_hero s') = cb_position_feet (en_hero s))"

lemma claw_modifiers: "modifiers_sound (ea_attack_modifiers creature_attack)" "modifiers_sound [ea_damage_modifier creature_attack]"
  and claw_ids: "is_valid_opaque_id soot_wight_id" "is_valid_opaque_id canal_warden_id"
    "is_valid_opaque_id soot_wight_attack_id"
  by code_simp+

lemma claw_values:
  "ea_attack_id creature_attack = soot_wight_attack_id" "ea_range_feet creature_attack = 5"
  "ea_damage_die_sides creature_attack = 6" "sum_list (map mf_value (ea_attack_modifiers creature_attack)) = 3"
  "mf_value (ea_damage_modifier creature_attack) = 1"
  by (simp_all add: creature_attack_def)

lemma prepare_claw:
  assumes "encounter_valid s" "wight_acts s" "en_turn_resources s = Some r" "claw_ready s r"
  shows "prepare_attack s soot_wight_attack_id canal_warden_id =
    Ok (soot_wight_id, creature_attack, en_creature s, en_hero s, r)"
proof -
  obtain q where "require_conscious_active_actor s = Ok soot_wight_id" "cb_life_status (en_hero s) \<noteq> LifeDead"
    by (rule wight_turn_facts [OF assms(1,2)]) simp
  with assms(3,4) show ?thesis
    by (simp add: prepare_attack_def attack_for_actor_def attacks_for_actor_def claw_values combatant_def
        claw_ready_def Let_def)
qed

lemma damaged_source [simp]:
  "cb_source_character_id (damaged n critical policy c) = cb_source_character_id c"
  by (simp add: damaged_def hit_downed_hero_def Let_def)

lemma hero_text_ok: "encounter_valid s \<Longrightarrow> name_ok (hero_narrative_name s)"
  using validD(4) [of s]
  by (simp add: hero_narrative_name_def name_ok_def participants_static_def combatant_static_def byte_def)

lemma land_hit_returns:
  assumes "encounter_valid s" "wight_acts s" "en_turn_resources s = Some r" "en_live s = Some live"
    and "lv_shield_ward live = None" "campaign_minutes s = 0" "fair_dice roll"
    and "rolls_sound rolls" "length rolls \<le> 1"
  shows "returns_st (land_hit (action_spent r s) soot_wight_id (en_creature s) (en_hero s) canal_warden_id
      creature_attack critical rolls facts roll d)
    (\<lambda>h _. rolls_sound (hn_rolls h) \<and> hn_facts h \<noteq> [] \<and> narration_ok (hn_narration h) \<and>
       forward s (hn_state h) \<and> encounter_valid (stamped s (hn_state h)) \<and>
       claw_done s r (stamped s (hn_state h)))"
proof -
  let ?n = "if critical then 2 else 1 :: nat"
  have roll: "returns_st (perform_roll rolls PurposeDamage soot_wight_id (Some canal_warden_id)
      (Some (ea_attack_id creature_attack)) ?n (ea_damage_die_sides creature_attack)
      [ea_damage_modifier creature_attack] None roll d)
    (\<lambda>(x, rolls') _. rolls' = rolls @ [x] \<and> rolls_sound rolls' \<and> 0 \<le> rf_total x \<and> rf_total x \<le> 13)"
    using perform_roll_returns [OF assms(7), of 6 PurposeDamage soot_wight_id "Some canal_warden_id"
        "Some soot_wight_attack_id" ?n None "[ea_damage_modifier creature_attack]" rolls d] assms(8,9)
    by (auto simp: claw_values claw_ids claw_modifiers u16_max_def elim!: returns_st_mono intro!: rolls_sound_snoc)
  have act: "en_status s = EncActive" using assms(2) by (simp add: wight_acts_def)
  obtain q where life: "cb_life_status (en_hero s) \<in> {LifeConscious, LifeUnconscious}"
    by (rule active_facts [OF assms(1) act]) auto
  have step: "let (completion, s3, facts3) = finish_for_health_transition canal_warden_id
        (update_combatant canal_warden_id (\<lambda>_. damaged damage critical (en_lethality_policy s) (en_hero s)) (action_spent r s))
        facts2
      in forward s s3 \<and> encounter_valid (stamped s s3) \<and> claw_done s r (stamped s s3) \<and>
         (facts2 \<noteq> [] \<longrightarrow> facts3 \<noteq> []) \<and> hero_narrative_name s3 = hero_narrative_name s \<and> completion \<noteq> Some OutcomeVictory"
    for damage facts2
  proof -
    define hero where "hero = damaged damage critical (en_lethality_policy s) (en_hero s)"
    define s1 where "s1 = (action_spent r s)\<lparr>en_hero := hero\<rparr>"
    have u: "update_combatant canal_warden_id (\<lambda>_. damaged damage critical (en_lethality_policy s) (en_hero s))
        (action_spent r s) = s1" by (simp add: update_combatant_def s1_def hero_def)
    have l: "cb_life_status hero \<in> hurt_life (en_lethality_policy s)"
      unfolding hero_def by (rule damaged_hero(2) [OF validD(6) [OF assms(1)] validD(13) [OF assms(1)] life])
    have p: "en_lethality_policy s1 = en_lethality_policy s" "en_hero s1 = hero" by (simp_all add: s1_def action_spent_def)
    have pos: "cb_position_feet hero = cb_position_feet (en_hero s)" by (simp add: hero_def)
    show ?thesis
    proof (cases "(en_lethality_policy s, cb_life_status hero) \<in>
        {(StoryRecovery, LifeUnconscious), (RulesAsWritten, LifeDead)}")
      case True
      then obtain reason where f: "finish_for_health_transition canal_warden_id s1 facts2 =
          (Some OutcomeDefeat, complete_defeat reason s1 facts2)"
        by (auto simp: finish_for_health_transition_def p)
      note d = defeat_state_valid [OF assms(1-6) s1_def [unfolded hero_def] refl, of reason facts2]
      have "\<not> wight_acts (stamped s (fst (complete_defeat reason s1 facts2)))"
        by (simp add: wight_acts_def stamped_def complete_defeat_def Let_def)
      moreover have "snd (complete_defeat reason s1 facts2) \<noteq> []" by (simp add: complete_defeat_def Let_def)
      moreover have "hero_narrative_name (fst (complete_defeat reason s1 facts2)) = hero_narrative_name s"
        by (simp add: complete_defeat_def Let_def s1_def action_spent_def hero_narrative_name_def hero_def)
      ultimately show ?thesis
        using d True by (simp add: u f p claw_done_def case_prod_unfold)
    next
      case False
      with l have f: "finish_for_health_transition canal_warden_id s1 facts2 = (None, s1, facts2)"
        by (auto simp: finish_for_health_transition_def p hurt_life_def split: lethality_policy.splits life_status.splits)
      have "cb_life_status hero \<in> {LifeConscious, LifeUnconscious}"
        using l False by (cases "en_lethality_policy s") (auto simp: hurt_life_def)
      from claw_state_valid [OF assms(1-3) s1_def disjI2 [OF hero_def] this]
      have "forward s s1" "encounter_valid (stamped s s1)" .
      moreover have "claw_done s r (stamped s s1)"
        by (simp add: claw_done_def stamped_def s1_def action_spent_def pos)
      moreover have "hero_narrative_name s1 = hero_narrative_name s"
        by (simp add: s1_def action_spent_def hero_narrative_name_def hero_def)
      ultimately show ?thesis by (simp add: u f)
    qed
  qed
  have amount: "damage_amount t = Ok (nat t) \<and> nat t \<le> 65535" if "0 \<le> t" "t \<le> 13" for t
    using that by (simp add: damage_amount_def u16_max_def)
  have names: "name_ok (cb_name (en_hero s))" "name_ok (cb_name (en_creature s))" "name_ok (hero_narrative_name s)"
    using names_ok [OF assms(1)] hero_text_ok [OF assms(1)] by simp_all
  have ending: "returns (and_then (damage_amount (rf_total x)) (\<lambda>damage.
            let (dx, target') = enc_apply_damage damage critical (en_lethality_policy (action_spent r s)) (en_hero s);
                s1 = update_combatant canal_warden_id (\<lambda>_. target') (action_spent r s);
                facts = facts @ [damage_fact soot_wight_id canal_warden_id (ea_attack_id creature_attack)
                   (ea_damage_type creature_attack) critical damage dx]
            in and_then (wake_sleep_after_damage canal_warden_id damage s1 facts) (\<lambda>(s2, facts).
              let (completion, s3, facts) =
                    finish_for_health_transition canal_warden_id s2 (facts @ life_change_fact canal_warden_id dx target')
              in Ok (handled s3 rolls' facts
                  (case completion of
                     Some OutcomeVictory \<Rightarrow> victory_narration (cb_name (en_creature s))
                   | Some OutcomeDefeat \<Rightarrow> defeat_narration (hero_narrative_name s3)
                   | None \<Rightarrow> hit_narration critical (cb_name (en_creature s)) (cb_name (en_hero s)) damage)))))
      (\<lambda>h. rolls_sound (hn_rolls h) \<and> hn_facts h \<noteq> [] \<and> narration_ok (hn_narration h) \<and>
         forward s (hn_state h) \<and> encounter_valid (stamped s (hn_state h)) \<and>
         claw_done s r (stamped s (hn_state h)))"
    if "0 \<le> rf_total x" "rf_total x \<le> 13" "rolls_sound rolls'" for x rolls'
  proof -
    define n where "n = nat (rf_total x)"
    have n: "damage_amount (rf_total x) = Ok n" "n \<le> 65535" using amount that(1,2) by (simp_all add: n_def)
    let ?target = "damaged n critical (en_lethality_policy s) (en_hero s)"
    obtain dx where dx: "enc_apply_damage n critical (en_lethality_policy s) (en_hero s) = (dx, ?target)"
      by (simp add: enc_apply_damage_def Let_def)
    define fs where "fs = (facts @ [damage_fact soot_wight_id canal_warden_id (ea_attack_id creature_attack)
                   (ea_damage_type creature_attack) critical n dx]) @ life_change_fact canal_warden_id dx ?target"
    obtain completion s3 facts3 where fin: "finish_for_health_transition canal_warden_id
        (update_combatant canal_warden_id (\<lambda>_. ?target) (action_spent r s)) fs = (completion, s3, facts3)"
      by (metis prod_cases3)
    have p: "en_lethality_policy (action_spent r s) = en_lethality_policy s" by (simp add: action_spent_def)
    from step [of n fs] fin have "forward s s3" "encounter_valid (stamped s s3)" "claw_done s r (stamped s s3)"
      "facts3 \<noteq> []" "hero_narrative_name s3 = hero_narrative_name s" "completion \<noteq> Some OutcomeVictory"
      by (simp_all add: fs_def)
    moreover from this(5,6) have "narration_ok (case completion of
                     Some OutcomeVictory \<Rightarrow> victory_narration (cb_name (en_creature s))
                   | Some OutcomeDefeat \<Rightarrow> defeat_narration (hero_narrative_name s3)
                   | None \<Rightarrow> hit_narration critical (cb_name (en_creature s)) (cb_name (en_hero s)) n)"
      using names n(2)
      by (cases completion) (auto intro: hit_text end_texts split: encounter_outcome.splits)
    ultimately show ?thesis
      using that(3) fin unfolding fs_def
      by (simp add: n p dx wake_sleep_after_damage_def handled_def outcomes_simps)
  qed
  show ?thesis
    unfolding land_hit_def returns_st_and_then
    by (rule returns_st_mono [OF roll]) (use ending in \<open>auto simp: returns_st_pair\<close>)
qed

lemma claw_handler:
  assumes "encounter_valid s" "wight_acts s" "en_turn_resources s = Some r" "claw_ready s r" "playable s"
    and "en_schema_version s = encounter_schema_version" "fair_dice roll"
  shows "returns_st (handle_intent s (AttackTarget soot_wight_attack_id canal_warden_id) roll d)
    (\<lambda>h _. rolls_sound (hn_rolls h) \<and> hn_facts h \<noteq> [] \<and> narration_ok (hn_narration h) \<and>
       forward s (hn_state h) \<and> encounter_valid (stamped s (hn_state h)) \<and>
       claw_done s r (stamped s (hn_state h)))"
proof -
  have act: "en_status s = EncActive" using assms(2) by (simp add: wight_acts_def)
  obtain live where live: "en_live s = Some live"
    using validD(2) [OF assms(1)] assms(6) by (auto simp: live_ok_def validate_live_iff)
  have ward: "lv_shield_ward live = None" and ac: "cb_armor_class (en_hero s) \<le> 32767" and mins: "campaign_minutes s = 0"
    using assms(3-5) live act by (auto simp: playable_def ward_spent_def claw_ready_def)
  obtain q where life: "cb_life_status (en_hero s) \<in> {LifeConscious, LifeUnconscious}"
    by (rule active_facts [OF assms(1) act]) auto
  have same: "action_spent r s = (action_spent r s)\<lparr>en_hero := en_hero s\<rparr>"
    by (cases s) (simp add: action_spent_def)
  note spent = claw_state_valid [OF assms(1-3) same disjI1 [OF refl] life]
  have spent': "forward s (action_spent r s)" "encounter_valid (stamped s (action_spent r s))"
    by (fact spent)+
  have sdone: "claw_done s r (stamped s (action_spent r s))" by (simp add: claw_done_def stamped_def action_spent_def)
  note names = names_ok [OF assms(1)]
  let ?c = "\<lparr>rc_kind = ArmorClassComparison, rc_value = int (cb_armor_class (en_hero s))\<rparr>"
  have roll: "returns_st (perform_roll [] PurposeAttack soot_wight_id (Some canal_warden_id)
      (Some (ea_attack_id creature_attack)) 1 20 (ea_attack_modifiers creature_attack) (Some ?c) roll d)
    (\<lambda>(x, rolls) _. rolls_sound rolls \<and> length rolls = 1 \<and>
      (\<exists>v. rf_natural_d20 x = Some v \<and> 1 \<le> v \<and> v \<le> 20 \<and>
         rf_outcome x = attack_roll_outcome v (rf_total x) (int (cb_armor_class (en_hero s)))))"
    using perform_roll_returns [OF assms(7), of 20 PurposeAttack soot_wight_id "Some canal_warden_id"
        "Some soot_wight_attack_id" 1 "Some ?c" "ea_attack_modifiers creature_attack" "[]" d]
    by (auto simp: claw_values claw_ids claw_modifiers u16_max_def performed_outcome_def rolls_sound_def
        elim!: returns_st_mono)
  have rest: "returns_st (and_then_st (fact_outcome (rf_outcome x), d) (\<lambda>outcome d.
      let facts = [AttackResolved soot_wight_id canal_warden_id (ea_attack_id creature_attack)
                     (enc_distance (cb_position_feet (en_creature s)) (cb_position_feet (en_hero s)))
                     (ea_range_feet creature_attack) (cb_armor_class (en_hero s)) (rf_total x) outcome];
                   critical = enc_is_critical outcome
               in if \<not> enc_is_hit outcome
                  then (Ok (handled (action_spent r s) rolls facts (miss_narration (outcome = EncAutomaticMiss)
                             (cb_name (en_creature s)) (cb_name (en_hero s)))), d)
                  else if en_schema_version (action_spent r s) = encounter_schema_version \<and> soot_wight_id = soot_wight_id
                    \<and> shield_spell_ready (action_spent r s)
                  then (open_shield_window (action_spent r s) soot_wight_id (en_creature s) (en_hero s) canal_warden_id
                          creature_attack x critical rolls facts, d)
                  else land_hit (action_spent r s) soot_wight_id (en_creature s) (en_hero s) canal_warden_id
                          creature_attack critical rolls facts roll d))
    (\<lambda>h _. rolls_sound (hn_rolls h) \<and> hn_facts h \<noteq> [] \<and> narration_ok (hn_narration h) \<and>
       forward s (hn_state h) \<and> encounter_valid (stamped s (hn_state h)) \<and>
       claw_done s r (stamped s (hn_state h)))"
    if x: "rolls_sound rolls" "length rolls = 1" "rf_natural_d20 x = Some v" "1 \<le> v" "v \<le> 20"
      "rf_outcome x = attack_roll_outcome v (rf_total x) (int (cb_armor_class (en_hero s)))"
    for x rolls v d
  proof -
    have miss: "narration_ok (miss_narration b (cb_name (en_creature s)) (cb_name (en_hero s)))" for b
      using names by (intro miss_text) simp_all
    have window: "returns (open_shield_window (action_spent r s) soot_wight_id (en_creature s) (en_hero s)
          canal_warden_id creature_attack x (v = 20) rolls facts)
        (\<lambda>h. rolls_sound (hn_rolls h) \<and> hn_facts h \<noteq> [] \<and> narration_ok (hn_narration h) \<and>
          forward s (hn_state h) \<and> encounter_valid (stamped s (hn_state h)) \<and>
          claw_done s r (stamped s (hn_state h)))"
      if "v \<noteq> 1" "v = 20 \<or> int (cb_armor_class (en_hero s)) \<le> rf_total x" for facts
    proof -
      note w = window_state_valid [OF assms(1-3) live ward x(4,5) that refl]
      have "narration_ok (shield_window_narration (cb_name (en_creature s)) (cb_name (en_hero s)))"
        using names by (intro shield_window_text) simp_all
      with w x(1,3) live show ?thesis
        by (simp add: open_shield_window_def outcomes_simps handled_def claw_values)
          (simp add: action_spent_def claw_done_def wight_acts_def stamped_def reaction_pending_def)
    qed
    note hit = land_hit_returns [OF assms(1-3) live ward mins assms(7) x(1)]
    show ?thesis
      using miss window hit x(1,2) spent' sdone
      by (auto simp: x(6) attack_roll_outcome_def fact_outcome_def enc_is_critical_def outcomes_simps handled_def Let_def)
  qed
  have armor: "(32767 < cb_armor_class (en_hero s)) = False" using ac by simp
  show ?thesis
    unfolding handle_intent.simps resolve_attack_def prepare_claw [OF assms(1-4)] and_then_st.simps prod.case
      armor if_False action_spent_def [symmetric] Let_def [of "action_spent r s"] returns_st_and_then [of "perform_roll _ _ _ _ _ _ _ _ _ _ _"]
    by (rule returns_st_mono [OF roll]) (use rest in \<open>auto simp del: and_then_st.simps\<close>)
qed

lemma claw_accepted:
  assumes "encounter_valid s" "en_schema_version s = encounter_schema_version" "en_revision s < u64_max"
    and "wight_acts s" "en_turn_resources s = Some r" "claw_ready s r" "playable s" "fair_dice roll"
    and "is_valid_opaque_id key"
  shows "returns_st (resolve_encounter s
      (command_new (en_revision s) key (AttackTarget soot_wight_attack_id canal_warden_id)) roll d)
    (\<lambda>x _. encounter_valid (er_state x) \<and> claw_done s r (er_state x) \<and> forward s (er_state x) \<and>
       en_revision (er_state x) = en_revision s + 1)"
proof (rule handler_accepted [OF assms(1-3,9)])
  show "intent_ids_validate (AttackTarget soot_wight_attack_id canal_warden_id) = Ok ()"
    using claw_ids by simp
  show "returns_st (handle_intent s (AttackTarget soot_wight_attack_id canal_warden_id) roll d)
    (\<lambda>h _. rolls_sound (hn_rolls h) \<and> hn_facts h \<noteq> [] \<and> narration_ok (hn_narration h) \<and>
       forward s (hn_state h) \<and> encounter_valid (stamped s (hn_state h)) \<and>
       claw_done s r (stamped s (hn_state h)) \<and> forward s (stamped s (hn_state h)) \<and>
       en_revision (stamped s (hn_state h)) = en_revision s + 1)"
    using claw_handler [OF assms(1,4-7,2,8), of d]
    by (auto simp: stamped_def intro: stamped_forward elim!: returns_st_mono)
qed

end
