(* ===== verification/Encounter_Turn.thy ===== *)
theory Encounter_Turn
  imports Encounter_Claw
begin

text \<open>
  The turn of the wight as the server plays it: the policy selects an intent, the intent becomes a
  command at the revision the client saw, and the engine resolves it; the client asks again while
  the wight is still to act.
\<close>

section \<open>Playing the wight\<close>

definition npc_command :: "encounter_state \<Rightarrow> u64 \<Rightarrow> string \<Rightarrow> encounter_command enc_result" where
  "npc_command s expected_revision key =
     and_then (select_soot_wight_policy_intent s) (\<lambda>i. Ok (command_new expected_revision key i))"

definition wight_advance ::
  "'s dice \<Rightarrow> string \<Rightarrow> encounter_state \<Rightarrow> 's \<Rightarrow> encounter_state enc_result \<times> 's" where
  "wight_advance roll key s d =
     and_then_st (npc_command s (en_revision s) key, d) (\<lambda>c d.
     and_then_st (resolve_encounter s c roll d) (\<lambda>x d. (Ok (er_state x), d)))"

fun wight_turn ::
  "'s dice \<Rightarrow> string list \<Rightarrow> encounter_state \<Rightarrow> 's \<Rightarrow> encounter_state enc_result \<times> 's" where
  "wight_turn roll [] s d = (Ok s, d)"
| "wight_turn roll (key # keys) s d =
     (if wight_acts s
      then and_then_st (wight_advance roll key s d) (\<lambda>s' d. wight_turn roll keys s' d)
      else (Ok s, d))"

lemma advance_with:
  assumes "encounter_valid s" "wight_acts s" "en_turn_resources s = Some r"
    and "returns_st (resolve_encounter s (command_new (en_revision s) key (wight_choice s r)) roll d)
      (\<lambda>x _. P (er_state x))"
  shows "returns_st (wight_advance roll key s d) (\<lambda>s' _. P s')"
  using policy_selects [OF assms(1-3)] assms(4)
  by (simp add: wight_advance_def npc_command_def outcomes_simps)

text \<open>What a turn needs of the state it goes on from.\<close>

definition turn_ready :: "nat \<Rightarrow> encounter_state \<Rightarrow> bool" where
  "turn_ready n s \<longleftrightarrow>
     encounter_valid s \<and> en_schema_version s = encounter_schema_version \<and>
     5 dvd cb_speed_feet (en_hero s) \<and> en_round s < u32_max \<and> en_revision s + n \<le> u64_max"

lemma end_step:
  assumes "turn_ready n s" "0 < n" "wight_acts s" "en_turn_resources s = Some r"
    and "\<not> claw_ready s r" "\<not> approaches s r" "is_valid_opaque_id key"
  shows "returns_st (wight_advance roll key s d) (\<lambda>s' _. encounter_valid s' \<and> \<not> wight_acts s')"
proof (rule advance_with [OF _ assms(3,4)])
  show "encounter_valid s" using assms(1) by (simp add: turn_ready_def)
  have "wight_choice s r = EndTurn" using assms(5,6) by (simp add: wight_choice_def)
  then show "returns_st (resolve_encounter s (command_new (en_revision s) key (wight_choice s r)) roll d)
      (\<lambda>x _. encounter_valid (er_state x) \<and> \<not> wight_acts (er_state x))"
    using wight_end_turn_accepted [of s key roll d] assms(1-3,7) by (simp add: turn_ready_def)
qed

lemma claw_step:
  assumes "turn_ready (Suc n) s" "playable s" "wight_acts s" "en_turn_resources s = Some r" "claw_ready s r"
    and "fair_dice roll" "is_valid_opaque_id key"
  shows "returns_st (wight_advance roll key s d) (\<lambda>s' _. encounter_valid s' \<and>
    (wight_acts s' \<longrightarrow> turn_ready n s' \<and>
       (\<exists>r'. en_turn_resources s' = Some r' \<and> \<not> claw_ready s' r' \<and> \<not> approaches s' r')))"
proof (rule advance_with [OF _ assms(3,4)])
  show valid: "encounter_valid s" using assms(1) by (simp add: turn_ready_def)
  have next_state: "wight_acts s' \<longrightarrow> turn_ready n s' \<and>
       (\<exists>r'. en_turn_resources s' = Some r' \<and> \<not> claw_ready s' r' \<and> \<not> approaches s' r')"
    if "encounter_valid s'" "claw_done s r s'" "forward s s'" "en_revision s' = en_revision s + 1" for s'
  proof
    assume acts: "wight_acts s'"
    let ?r = "r\<lparr>tr_action_available := False\<rparr>"
    from that(2) acts have d: "en_turn_resources s' = Some ?r" "en_round s' = en_round s"
      "en_creature s' = en_creature s" "cb_position_feet (en_hero s') = cb_position_feet (en_hero s)"
      by (simp_all add: claw_done_def)
    have near: "enc_distance (cb_position_feet (en_creature s')) (cb_position_feet (en_hero s')) \<le> 5"
      using assms(5) d by (simp add: claw_ready_def)
    have "turn_ready n s'"
      using assms(1) that(1,4) d(2) forward_fixed [OF that(3)]
      by (simp add: turn_ready_def encounter_fixed_def combatant_fixed_def)
    with d(1) approach_facts(4) [OF that(1) acts d(1) near]
    show "turn_ready n s' \<and> (\<exists>r'. en_turn_resources s' = Some r' \<and> \<not> claw_ready s' r' \<and> \<not> approaches s' r')"
      by (simp add: claw_ready_def)
  qed
  have "wight_choice s r = AttackTarget soot_wight_attack_id canal_warden_id"
    using assms(5) by (simp add: wight_choice_def)
  then show "returns_st (resolve_encounter s (command_new (en_revision s) key (wight_choice s r)) roll d)
      (\<lambda>x _. encounter_valid (er_state x) \<and> (wight_acts (er_state x) \<longrightarrow> turn_ready n (er_state x) \<and>
         (\<exists>r'. en_turn_resources (er_state x) = Some r' \<and> \<not> claw_ready (er_state x) r' \<and>
            \<not> approaches (er_state x) r')))"
    using claw_accepted [OF valid _ _ assms(3-5,2,6,7), of d] assms(1) next_state
    by (auto simp: turn_ready_def elim!: returns_st_mono)
qed

lemma move_step:
  assumes "turn_ready (Suc n) s" "playable s" "wight_acts s" "en_turn_resources s = Some r" "\<not> claw_ready s r"
    and "approaches s r" "is_valid_opaque_id key"
  shows "returns_st (wight_advance roll key s d) (\<lambda>s' _. turn_ready n s' \<and> playable s' \<and> wight_acts s' \<and>
    (\<exists>r'. en_turn_resources s' = Some r' \<and> \<not> approaches s' r'))"
proof (rule advance_with [OF _ assms(3,4)])
  show valid: "encounter_valid s" using assms(1) by (simp add: turn_ready_def)
  let ?p = "approach s r" and ?s' = "stamped s (wight_moved (approach s r) r s)"
  let ?left = "tr_movement_remaining_feet r - enc_distance (cb_position_feet (en_creature s)) ?p"
  let ?r = "r\<lparr>tr_movement_remaining_feet := ?left\<rparr>"
  note a = approach_facts [OF valid assms(3,4)]
  have act: "en_status s = EncActive" "en_current_actor_id s = Some soot_wight_id"
    using assms(3) by (simp_all add: wight_acts_def)
  note moved = wight_move_state [OF valid act assms(4) a(1)]
  have acts: "wight_acts ?s'"
    using assms(3) by (simp add: wight_acts_def stamped_def wight_moved_def reaction_pending_def)
  have r': "en_turn_resources ?s' = Some ?r" by (simp add: stamped_def wight_moved_def)
  have "\<not> approaches ?s' ?r"
  proof (cases "?left = 0")
    case True
    then show ?thesis by (simp add: approaches_def)
  next
    case False
    with a(3) [OF assms(6)] have "enc_distance ?p (cb_position_feet (en_hero s)) = 5" by simp
    then show ?thesis
      using approach_facts(4) [OF moved(2) acts r'] by (simp add: stamped_def wight_moved_def)
  qed
  moreover have "playable ?s'"
    using assms(2,4)
    by (auto simp: playable_def ward_spent_def stamped_def wight_moved_def campaign_minutes_def)
  moreover have "turn_ready n ?s'"
    using assms(1) moved(2) by (simp add: turn_ready_def stamped_def wight_moved_def)
  ultimately have goal: "turn_ready n ?s' \<and> playable ?s' \<and> wight_acts ?s' \<and>
      (\<exists>r'. en_turn_resources ?s' = Some r' \<and> \<not> approaches ?s' r')"
    using acts r' by simp
  have ne: "?p \<noteq> cb_position_feet (en_creature s)" using assms(6) by (auto simp: approaches_def)
  have "wight_choice s r = MoveTo ?p" using assms(5,6) by (simp add: wight_choice_def)
  then show "returns_st (resolve_encounter s (command_new (en_revision s) key (wight_choice s r)) roll d)
      (\<lambda>x _. turn_ready n (er_state x) \<and> playable (er_state x) \<and> wight_acts (er_state x) \<and>
         (\<exists>r'. en_turn_resources (er_state x) = Some r' \<and> \<not> approaches (er_state x) r'))"
    using wight_move_accepted [OF valid _ _ act assms(4) a(1) ne a(2) assms(7), of roll d] assms(1) goal
    by (auto simp: turn_ready_def elim!: returns_st_mono)
qed

lemma turn_done: "\<not> wight_acts s \<Longrightarrow> wight_turn roll keys s d = (Ok s, d)"
  by (cases keys) simp_all

text \<open>A wight that will not move any more ends its turn with two commands.\<close>

lemma turn_from_place:
  assumes "turn_ready (Suc (Suc n)) s" "playable s" "en_turn_resources s = Some r" "\<not> approaches s r"
    and "fair_dice roll" "is_valid_opaque_id k1" "is_valid_opaque_id k2"
  shows "returns_st (wight_turn roll (k1 # k2 # keys) s d) (\<lambda>s' _. encounter_valid s' \<and> \<not> wight_acts s')"
proof (cases "wight_acts s")
  case False
  with assms(1) show ?thesis by (simp add: outcomes_simps turn_ready_def)
next
  case acts: True
  show ?thesis
  proof (cases "claw_ready s r")
    case False
    have "returns_st (wight_advance roll k1 s d) (\<lambda>s' _. encounter_valid s' \<and> \<not> wight_acts s')"
      by (rule end_step [OF assms(1) _ acts assms(3) False assms(4,6)]) simp
    with acts show ?thesis
      by (auto simp: outcomes_simps turn_done simp del: wight_turn.simps(2) [of _ k2] elim!: returns_st_mono)
  next
    case True
    have second: "returns_st (wight_turn roll (k2 # keys) s' d') (\<lambda>s' _. encounter_valid s' \<and> \<not> wight_acts s')"
      if "encounter_valid s'" "wight_acts s' \<longrightarrow> turn_ready (Suc n) s' \<and>
        (\<exists>r'. en_turn_resources s' = Some r' \<and> \<not> claw_ready s' r' \<and> \<not> approaches s' r')" for s' d'
    proof (cases "wight_acts s'")
      case False
      with that(1) show ?thesis by (simp add: outcomes_simps)
    next
      case a: True
      with that(2) obtain r' where r': "turn_ready (Suc n) s'" "en_turn_resources s' = Some r'"
        "\<not> claw_ready s' r'" "\<not> approaches s' r'" by auto
      have "returns_st (wight_advance roll k2 s' d') (\<lambda>s' _. encounter_valid s' \<and> \<not> wight_acts s')"
        by (rule end_step [OF r'(1) _ a r'(2-4) assms(7)]) simp
      with a show ?thesis by (auto simp: outcomes_simps turn_done elim!: returns_st_mono)
    qed
    note first = claw_step [OF assms(1,2) acts assms(3) True assms(5,6), of d]
    show ?thesis
      unfolding wight_turn.simps(2) [of roll k1] if_P [OF acts] returns_st_and_then
      by (rule returns_st_mono [OF first]) (use second in blast)
  qed
qed

section \<open>The turn ends\<close>

lemma wight_turn_returns:
  assumes "turn_ready 3 s" "playable s" "fair_dice roll"
    and "is_valid_opaque_id k1" "is_valid_opaque_id k2" "is_valid_opaque_id k3"
  shows "returns_st (wight_turn roll [k1, k2, k3] s d) (\<lambda>s' _. encounter_valid s' \<and> \<not> wight_acts s')"
proof (cases "wight_acts s")
  case False
  with assms(1) show ?thesis by (simp add: outcomes_simps turn_ready_def)
next
  case acts: True
  have three: "turn_ready (Suc (Suc 1)) s" using assms(1) by (simp add: eval_nat_numeral)
  have valid: "encounter_valid s" using assms(1) by (simp add: turn_ready_def)
  obtain r where r: "en_turn_resources s = Some r" by (rule wight_turn_facts [OF valid acts])
  show ?thesis
  proof (cases "\<not> claw_ready s r \<and> approaches s r")
    case False
    then have "\<not> approaches s r"
      using approach_facts(4) [OF valid acts r] by (auto simp: claw_ready_def)
    then show ?thesis by (rule turn_from_place [OF three assms(2) r _ assms(3-5)])
  next
    case True
    have first: "returns_st (wight_advance roll k1 s d) (\<lambda>s' _. turn_ready (Suc (Suc 0)) s' \<and> playable s' \<and>
        wight_acts s' \<and> (\<exists>r'. en_turn_resources s' = Some r' \<and> \<not> approaches s' r'))"
      by (rule move_step [OF _ assms(2) acts r _ _ assms(4)]) (use three True in simp_all)
    show ?thesis
      unfolding wight_turn.simps(2) [of roll k1] if_P [OF acts] returns_st_and_then
      by (rule returns_st_mono [OF first])
        (use turn_from_place [OF _ _ _ _ assms(3,5,6), of 0 _ _ "[]"] in blast)
  qed
qed

end
