(* ===== verification/Encounter_Play.thy ===== *)
theory Encounter_Play
  imports Encounter_Turn
begin

text \<open>
  The encounter as a whole: sample states, the abstraction of a combatant to the health state of
  the rules matrix, and the properties of the encounter engine.
\<close>

section \<open>Bounds that evaluate\<close>

text \<open>
  Natural numbers evaluate in unary, integers in binary: a comparison with a large bound is
  evaluated over the integers.
\<close>

lemma checked_add_by_int [code_unfold]:
  "checked_add u64_max a b = (if int a + int b \<le> 18446744073709551615 then Some (a + b) else None)"
  by (simp add: checked_add_def u64_max_def)

section \<open>Sample states\<close>

definition sample_initiative :: initiative_state where
  "sample_initiative =
     \<lparr>in_entries =
        [\<lparr>ie_participant_id = soot_wight_id, ie_natural_roll = 15, ie_modifier = 1, ie_total = 16,
          ie_tie_break_rank = 0\<rparr>,
         \<lparr>ie_participant_id = canal_warden_id, ie_natural_roll = 10, ie_modifier = 2, ie_total = 12,
          ie_tie_break_rank = 1\<rparr>],
      in_order = [soot_wight_id, canal_warden_id], in_ties = []\<rparr>"

definition sample_ready :: encounter_state where
  "sample_ready = encounter_new StoryRecovery RunesMisread"

text \<open>The wight has won the initiative and is to act.\<close>

definition sample_turn :: encounter_state where
  "sample_turn = sample_ready
     \<lparr>en_initiative := Some sample_initiative, en_status := EncActive, en_round := 1,
      en_current_actor_index := Some 0, en_current_actor_id := Some soot_wight_id,
      en_turn_resources := Some \<lparr>tr_action_available = True, tr_movement_remaining_feet = 25,
        tr_bonus_action_available = False, tr_reaction_available = True,
        tr_object_interaction_available = True\<rparr>\<rparr>"

text \<open>Its claw has hit a hero 5 feet away, who may answer.\<close>

definition sample_window :: encounter_state where
  "sample_window = sample_turn
     \<lparr>en_creature := (en_creature sample_turn)\<lparr>cb_position_feet := 5\<rparr>,
      en_turn_resources := Some \<lparr>tr_action_available = False, tr_movement_remaining_feet = 25,
        tr_bonus_action_available = False, tr_reaction_available = True,
        tr_object_interaction_available = True\<rparr>,
      en_live := Some (live_new\<lparr>lv_pending := Some
        \<lparr>pr_actor_id = soot_wight_id, pr_target_id = canal_warden_id, pr_attack_id = soot_wight_attack_id,
         pr_natural_roll = 17, pr_attack_total = 20, pr_armor_class = 18, pr_critical = False\<rparr>\<rparr>)\<rparr>"

text \<open>The wight is dead.\<close>

definition sample_won :: encounter_state where
  "sample_won = fst (complete_victory (sample_turn
     \<lparr>en_creature := (en_creature sample_turn)
        \<lparr>cb_life_status := LifeDead,
         cb_hit_points := (cb_hit_points (en_creature sample_turn))\<lparr>hp_current := 0\<rparr>\<rparr>\<rparr>) [])"

lemma sample_ready_valid: "encounter_valid sample_ready"
  and sample_turn_valid: "encounter_valid sample_turn"
  and sample_window_valid: "encounter_valid sample_window"
  and sample_won_valid: "encounter_valid sample_won"
  and runes_understood_valid: "encounter_valid (encounter_new StoryRecovery RunesUnderstood)"
  by code_simp+

section \<open>Hit points as the rules matrix keeps them\<close>

fun vital_of :: "life_status \<Rightarrow> vital_status" where
  "vital_of LifeConscious = Active"
| "vital_of LifeUnconscious = Dying"
| "vital_of LifeStable = Stable"
| "vital_of LifeDead = Dead"

definition health_of :: "combatant_state \<Rightarrow> health_state" where
  "health_of c =
     \<lparr>hs_schema_version = rules_matrix_schema_version, hs_maximum = hp_maximum (cb_hit_points c),
      hs_current = hp_current (cb_hit_points c), hs_temporary = hp_temporary (cb_hit_points c),
      hs_vital_status = vital_of (cb_life_status c), hs_death_saves = hp_death_saves (cb_hit_points c)\<rparr>"

lemma life_of_vital_of [simp]: "life_of_vital (vital_of l) = l"
  by (cases l) simp_all

lemma health_of_ok:
  "combatant_moving c \<Longrightarrow> cb_kind c = HeroKind \<Longrightarrow> hp_maximum (cb_hit_points c) \<noteq> 0 \<Longrightarrow>
   cb_life_status c \<in> {LifeConscious, LifeUnconscious} \<Longrightarrow> health_validate (health_of c) = Ok ()"
  by (cases "cb_life_status c")
    (auto simp: health_validate_def health_of_def combatant_moving_def hit_points_ok_def life_validate_iff)

text \<open>The status part of the rules matrix's damage, on the abstraction of a hero.\<close>

lemma damage_status_refined:
  assumes "combatant_moving c" "cb_kind c = HeroKind" "0 < n"
    and "cb_life_status c = LifeConscious \<or> cb_life_status c = LifeUnconscious \<and>
      hp_temporary (cb_hit_points c) = 0 \<and> n < hp_maximum (cb_hit_points c)"
  shows "fst (damage_status (hp_current (cb_hit_points c)) n
      (n - min (hp_temporary (cb_hit_points c)) n -
        min (hp_current (cb_hit_points c)) (n - min (hp_temporary (cb_hit_points c)) n)) critical
      ((health_of c)\<lparr>hs_temporary := hp_temporary (cb_hit_points c) - min (hp_temporary (cb_hit_points c)) n,
        hs_current := hp_current (cb_hit_points c) -
          min (hp_current (cb_hit_points c)) (n - min (hp_temporary (cb_hit_points c)) n)\<rparr>)) =
    health_of (damaged n critical RulesAsWritten c)"
  using assms(4)
proof
  assume life: "cb_life_status c = LifeConscious"
  then have "0 < hp_current (cb_hit_points c)" "hp_death_saves (cb_hit_points c) = tally_default"
    using assms(1,2) by (auto simp: combatant_moving_def life_validate_iff)
  with life assms(2) show ?thesis
    by (cases "n - hp_temporary (cb_hit_points c) < hp_current (cb_hit_points c)")
      (auto simp: damage_status_def damaged_def health_of_def Let_def tally_default_def min_def)
next
  assume life: "cb_life_status c = LifeUnconscious \<and> hp_temporary (cb_hit_points c) = 0 \<and>
      n < hp_maximum (cb_hit_points c)"
  then have "hp_current (cb_hit_points c) = 0"
    using assms(1,2) by (auto simp: combatant_moving_def life_validate_iff)
  with life assms(2,3) show ?thesis
    by (auto simp: damage_status_def damaged_def hit_downed_hero_def health_of_def Let_def)
qed

lemma damaged_maximum: "hp_maximum (cb_hit_points (damaged n critical policy c)) = hp_maximum (cb_hit_points c)"
  by (simp add: damaged_def hit_downed_hero_def Let_def)

lemma damaged_current:
  "cb_kind c = HeroKind \<Longrightarrow> hp_current (cb_hit_points (damaged n critical RulesAsWritten c)) =
     hp_current (cb_hit_points c) - (n - min (hp_temporary (cb_hit_points c)) n)"
  by (simp add: damaged_def hit_downed_hero_def Let_def min.commute)

section \<open>Properties\<close>

text \<open>C1: The history of an encounter: from a valid state, whatever commands arrive with whatever
  dice, every state is valid; the participants, their armor, speed and maximum hit points, the map,
  the lethality policy and the class snapshot never change; the revision counts the accepted
  commands exactly, and the refused ones might as well not have been sent; no round, no campaign
  minute, no rolled initiative and no settled outcome is ever taken back.\<close>

theorem encounter_history:
  assumes "encounter_valid s"
  shows "encounter_valid (run_steps (encounter_step roll) is s) \<and>
    encounter_fixed (run_steps (encounter_step roll) is s) = encounter_fixed s \<and>
    en_revision (run_steps (encounter_step roll) is s) =
      en_revision s + length (accepted (encounter_step roll) is s) \<and>
    run_steps (encounter_step roll) (accepted (encounter_step roll) is s) s =
      run_steps (encounter_step roll) is s \<and>
    forward s (run_steps (encounter_step roll) is s)"
  by (intro conjI enc.run_valid [OF assms] enc.run_kept [OF assms] enc.run_accepted encounter_run_forward run_revision)

theorem encounter_history_witness:
  "encounter_valid (run_steps (encounter_step (\<lambda>sides d. (sides, d)))
     [(command_new 1 ''command-1'' StartEncounter, ())] sample_ready) \<and>
   forward sample_ready (run_steps (encounter_step (\<lambda>sides d. (sides, d)))
     [(command_new 1 ''command-1'' StartEncounter, ())] sample_ready)"
  using encounter_history [OF sample_ready_valid, of "\<lambda>sides d. (sides, d)"
      "[(command_new 1 ''command-1'' StartEncounter, ())]"]
  by simp

text \<open>C13: The reward is paid for a victory and for nothing else, and only once: at any point of any
  history where the hero is eligible for a reward the encounter is won, the wight is dead at zero hit
  points and the primary objective is completed, and no later command can revoke or change the
  reward, the outcome or the status.\<close>

theorem reward_needs_victory:
  assumes "encounter_valid s" "en_reward_eligibility (run_steps (encounter_step roll) is s) = Eligible tier"
  shows "let s' = run_steps (encounter_step roll) is s in
    en_status s' = EncVictory \<and> cb_life_status (en_creature s') = LifeDead \<and>
    hp_current (cb_hit_points (en_creature s')) = 0 \<and>
    eo_status (obj_primary (en_objectives s')) = ObjCompleted \<and>
    (let s'' = run_steps (encounter_step roll) is' s' in
       en_status s'' = EncVictory \<and> en_reward_eligibility s'' = Eligible tier)"
proof -
  let ?s' = "run_steps (encounter_step roll) is s"
  have "phase_ok ?s'" using validD(10) enc.run_valid [OF assms(1)] by blast
  then have won: "en_status ?s' = EncVictory \<and> cb_life_status (en_creature ?s') = LifeDead \<and>
    hp_current (cb_hit_points (en_creature ?s')) = 0 \<and>
    eo_status (obj_primary (en_objectives ?s')) = ObjCompleted"
    using assms(2)
    by (auto simp: phase_ok_def validate_ready_def validate_active_def validate_victory_def validate_defeat_def
        split: encounter_status.splits option.splits if_splits)
  then have "settlement (run_steps (encounter_step roll) is' ?s') = settlement ?s'"
    using encounter_run_forward [of ?s' roll is'] by (simp add: forward_def)
  with won assms(2) show ?thesis by (simp add: settlement_def Let_def)
qed

theorem reward_needs_victory_witness:
  "let s'' = run_steps (encounter_step (\<lambda>sides d. (sides, d)))
     [(command_new 1 ''command-9'' EndTurn, ())] sample_won in
   en_status s'' = EncVictory \<and> en_reward_eligibility s'' = Eligible MajorReward"
proof -
  have "en_reward_eligibility (run_steps (encounter_step (\<lambda>sides d. (sides, d))) [] sample_won) = Eligible MajorReward"
    by (simp add: sample_won_def complete_victory_def)
  from reward_needs_victory [OF sample_won_valid this, of "[(command_new 1 ''command-9'' EndTurn, ())]"]
  show ?thesis by (simp add: Let_def)
qed


lemma sample_turn_playable: "playable sample_turn"
  by (auto simp: playable_def ward_spent_def sample_turn_def sample_ready_def encounter_new_def fixed_hero_def
      campaign_minutes_def live_new_def)


text \<open>C20: While a hit of the wight waits for the hero's reaction, the player controls the encounter and
  is offered the reaction only; yet a Move intent is accepted and moves the wight, which is the
  current actor: the engine leaves the hero where it is and puts the wight at any place of the grid
  its movement reaches.\<close>

theorem player_moves_the_wight:
  assumes "encounter_valid s" "en_schema_version s = encounter_schema_version" "reaction_pending s"
    and "en_turn_resources s = Some r" "p \<le> 60" "5 dvd p" "p \<noteq> cb_position_feet (en_creature s)"
    and "enc_distance (cb_position_feet (en_creature s)) p \<le> tr_movement_remaining_feet r"
    and "is_valid_opaque_id key" "en_revision s < u64_max"
  shows "require_player_control s = Ok () \<and>
    (\<exists>actions. player_legal_actions s = Ok actions \<and> set actions \<subseteq> {LegalShield, LegalDecline}) \<and>
    (\<exists>x d'. resolve_encounter s (command_new (en_revision s) key (MoveTo p)) roll d = (Ok x, d') \<and>
       cb_position_feet (en_creature (er_state x)) = p \<and> en_hero (er_state x) = en_hero s)"
proof -
  obtain live q where live: "en_live s = Some live" "lv_pending live = Some q"
    using assms(3) by (auto simp: reaction_pending_def split: option.splits)
  note pend = valid_pending [OF assms(1) live]
  have "require_player_control s = Ok ()" using assms(1-3) by (simp add: require_player_control_def)
  moreover have "\<exists>actions. player_legal_actions s = Ok actions \<and> set actions \<subseteq> {LegalShield, LegalDecline}"
    using assms(1-3) by (auto simp: player_legal_actions_def legal_actions_def)
  moreover have "position_ok p" using assms(5,6) by (simp add: position_ok_def)
  ultimately show ?thesis
    using wight_move_accepted [OF assms(1,2,10) pend(1,2) assms(4) _ assms(7-9), of roll d]
    by (auto simp: returns_st_def stamped_def wight_moved_def)
qed

theorem player_moves_the_wight_witness:
  "\<exists>x d'. resolve_encounter sample_window (command_new 1 ''key-1'' (MoveTo 30)) (\<lambda>sides d. (sides, d)) () = (Ok x, d') \<and>
     cb_position_feet (en_creature (er_state x)) = 30 \<and> en_hero (er_state x) = en_hero sample_window"
proof -
  have w: "en_schema_version sample_window = encounter_schema_version" "reaction_pending sample_window"
    "en_turn_resources sample_window = Some \<lparr>tr_action_available = False, tr_movement_remaining_feet = 25,
        tr_bonus_action_available = False, tr_reaction_available = True,
        tr_object_interaction_available = True\<rparr>" "cb_position_feet (en_creature sample_window) = 5"
    "en_revision sample_window = 1"
    by (simp_all add: sample_window_def sample_turn_def sample_ready_def encounter_new_def reaction_pending_def)
  have "is_valid_opaque_id ''key-1''" by code_simp
  from player_moves_the_wight [OF sample_window_valid w(1-3) _ _ _ _ this, of 30 "\<lambda>sides d. (sides, d)" "()"]
  show ?thesis by (simp add: w enc_distance_def abs_diff_def u64_max_def)
qed

text \<open>C12: What the encounter does to a hero's hit points refines the rules matrix: under the raw
  lethality policy, for a hero on its feet, or down without temporary hit points and hit for less
  than its maximum, the damage of the encounter engine leaves exactly the hit points, temporary hit
  points, vital status and death saves that the damage operation of the rules matrix computes for
  the same hit, and reports the same losses.\<close>

theorem encounter_damage_refines_rules:
  assumes "combatant_moving c" "cb_kind c = HeroKind" "hp_maximum (cb_hit_points c) \<noteq> 0" "0 < n"
    and "cb_life_status c = LifeConscious \<or> cb_life_status c = LifeUnconscious \<and>
      hp_temporary (cb_hit_points c) = 0 \<and> n < hp_maximum (cb_hit_points c)"
    and "profile_validate p = Ok ()" "profile_interaction p ty = Ok NormalDamage"
    and "enc_apply_damage n critical RulesAsWritten c = (x, c')"
  shows "\<exists>y. apply_damage p \<lparr>dmg_amount = n, dmg_type = ty, dmg_critical_hit = critical\<rparr> (health_of c)
      = (Ok y, health_of c') \<and>
    dres_temporary_hit_points_lost y = da_temporary_absorbed x \<and>
    dres_current_hit_points_lost y = da_current_before x - da_current_after x \<and>
    dres_resulting_health y = health_of c'"
proof -
  have life: "cb_life_status c \<in> {LifeConscious, LifeUnconscious}" using assms(5) by auto
  have ok: "health_validate (health_of c) = Ok ()" by (rule health_of_ok [OF assms(1-3) life])
  have c': "c' = damaged n critical RulesAsWritten c" using assms(8) by (simp add: enc_apply_damage_def Let_def)
  have x: "da_temporary_absorbed x = min n (hp_temporary (cb_hit_points c))"
    "da_current_before x = hp_current (cb_hit_points c)" "da_current_after x = hp_current (cb_hit_points c')"
    using assms(8) by (auto simp: enc_apply_damage_def Let_def)
  have moving: "combatant_moving c'" "cb_life_status c' \<in> hurt_life RulesAsWritten"
    unfolding c' using damaged_hero [OF assms(1,2) life] by blast+
  have ok': "health_validate (health_of c') = Ok ()"
  proof (cases "cb_life_status c' = LifeDead")
    case True
    with moving(1) assms(2,3) show ?thesis
      by (auto simp: health_validate_def health_of_def combatant_moving_def hit_points_ok_def life_validate_iff c'
          damaged_maximum)
  next
    case False
    with moving(2) have "cb_life_status c' \<in> {LifeConscious, LifeUnconscious}" by (auto simp: hurt_life_def)
    with health_of_ok [OF moving(1)] assms(2,3) show ?thesis by (simp add: c' damaged_maximum)
  qed
  note st = damage_status_refined [OF assms(1,2,4,5), of critical, folded c']
  obtain h ch a where d: "damage_status (hp_current (cb_hit_points c)) n
      (n - min (hp_temporary (cb_hit_points c)) n -
        min (hp_current (cb_hit_points c)) (n - min (hp_temporary (cb_hit_points c)) n)) critical
      ((health_of c)\<lparr>hs_temporary := hp_temporary (cb_hit_points c) - min (hp_temporary (cb_hit_points c)) n,
        hs_current := hp_current (cb_hit_points c) -
          min (hp_current (cb_hit_points c)) (n - min (hp_temporary (cb_hit_points c)) n)\<rparr>) = (h, ch, a)"
    by (metis prod_cases3)
  with st have h: "h = health_of c'" by simp
  have lost: "hp_current (cb_hit_points c) - hp_current (cb_hit_points c') =
      min (hp_current (cb_hit_points c)) (n - min (hp_temporary (cb_hit_points c)) n)"
    using damaged_current [OF assms(2), of n critical] by (simp add: c' min_def)
  have "hs_vital_status (health_of c) \<noteq> Dead" using life by (auto simp: health_of_def)
  then show ?thesis
    using ok ok' assms(4,6,7) d h lost x
    by (simp add: apply_damage_def Let_def health_of_def)
qed

theorem encounter_damage_refines_rules_witness:
  "\<exists>x y c'. enc_apply_damage 5 True RulesAsWritten (fixed_hero RunesUnderstood) = (x, c') \<and>
     apply_damage \<lparr>dp_resistances = [], dp_vulnerabilities = [], dp_immunities = []\<rparr>
       \<lparr>dmg_amount = 5, dmg_type = Slashing, dmg_critical_hit = True\<rparr> (health_of (fixed_hero RunesUnderstood)) =
       (Ok y, health_of c') \<and> hp_current (cb_hit_points c') = 9"
proof -
  let ?c = "fixed_hero RunesUnderstood"
  let ?p = "\<lparr>dp_resistances = [], dp_vulnerabilities = [], dp_immunities = []\<rparr>"
  obtain x c' where e: "enc_apply_damage 5 True RulesAsWritten ?c = (x, c')"
    by (cases "enc_apply_damage 5 True RulesAsWritten ?c")
  have c: "combatant_moving ?c" "cb_kind ?c = HeroKind" "hp_maximum (cb_hit_points ?c) \<noteq> 0"
    "cb_life_status ?c = LifeConscious"
    by (simp_all add: fixed_hero_def combatant_moving_def position_ok_def hit_points_ok_def life_validate_iff
        tally_default_def hero_maximum_hit_points_def)
  have p: "profile_validate ?p = Ok ()" "profile_interaction ?p Slashing = Ok NormalDamage"
    by (simp_all add: profile_ok_def profile_interaction_def)
  have "hp_current (cb_hit_points c') = 9"
    using e by (auto simp: enc_apply_damage_def Let_def damaged_def fixed_hero_def hero_maximum_hit_points_def)
  with e encounter_damage_refines_rules [OF c(1-3) _ disjI1 [OF c(4)] p e] show ?thesis by auto
qed

text \<open>What the validators of a roll and of a sequence of rolls have established.\<close>

lemma checked_sum_Some: "checked_sum_i32 acc vs = Some t \<Longrightarrow> t = acc + sum_list vs"
proof (induction vs arbitrary: acc)
  case (Cons v vs)
  then have "checked_sum_i32 (acc + v) vs = Some t"
    by (auto simp: checked_add_i32_def split: if_splits)
  from Cons.IH [OF this] show ?case by simp
qed simp

lemma guard_Ok_iff: "(if b then Err e else r) = Ok u \<longleftrightarrow> \<not> b \<and> r = Ok u"
  by simp

lemma raw_roll_facts_sound:
  assumes "raw_roll_validate r = Ok u"
  shows "rf_individual_dice r \<noteq> [] \<and>
      list_all (\<lambda>die. 1 \<le> rd_value die \<and> rd_value die \<le> rd_sides die \<and>
        rd_sides die = rd_sides (rf_individual_dice r ! 0)) (rf_individual_dice r) \<and>
      distinct (rf_kept_die_indices r) \<and>
      list_all (\<lambda>i. i < length (rf_individual_dice r)) (rf_kept_die_indices r) \<and>
      distinct (map mf_source_id (rf_modifiers r)) \<and>
      rf_total r = (\<Sum>i\<leftarrow>rf_kept_die_indices r. int (rd_value (rf_individual_dice r ! i))) +
        sum_list (map mf_value (rf_modifiers r))"
proof -
  let ?kept = "checked_sum_i32 0 (map (\<lambda>i. int (rd_value (rf_individual_dice r ! i))) (rf_kept_die_indices r))"
  let ?mods = "checked_sum_i32 0 (map mf_value (rf_modifiers r))"
  from assms have guards:
    "\<not> (rf_sequence r = 0 \<or> \<not> is_valid_opaque_id (rf_actor_id r)
        \<or> (case rf_target_id r of None \<Rightarrow> False | Some i \<Rightarrow> \<not> is_valid_opaque_id i)
        \<or> (case rf_action_id r of None \<Rightarrow> False | Some i \<Rightarrow> \<not> is_valid_opaque_id i)
        \<or> is_blank (rf_expression r) \<or> rf_individual_dice r = []
        \<or> list_ex (\<lambda>d. rd_sides d = 0 \<or> rd_value d = 0 \<or> rd_value d > rd_sides d) (rf_individual_dice r))"
    "\<not> (\<not> distinct (rf_kept_die_indices r) \<or> list_ex (\<lambda>i. i \<ge> length (rf_individual_dice r)) (rf_kept_die_indices r)
        \<or> list_ex (\<lambda>d. rd_sides d \<noteq> rd_sides (rf_individual_dice r ! 0)) (rf_individual_dice r))"
    "\<not> (\<not> distinct (map mf_source_id (rf_modifiers r)) \<or>
        list_ex (\<lambda>m. \<not> is_valid_opaque_id (mf_source_id m)) (rf_modifiers r))"
    "\<not> Option.bind ?kept (\<lambda>a. Option.bind ?mods (checked_add_i32 a)) \<noteq> Some (rf_total r)"
    unfolding raw_roll_validate_def Let_def guard_Ok_iff and_then_Ok_iff by blast+
  have basic: "rf_individual_dice r \<noteq> []" "\<forall>die\<in>set (rf_individual_dice r). 0 < rd_value die \<and> rd_value die \<le> rd_sides die"
    using guards(1) by (auto simp: list_ex_iff not_le)
  have kept: "distinct (rf_kept_die_indices r)" "\<forall>i\<in>set (rf_kept_die_indices r). i < length (rf_individual_dice r)"
    "\<forall>die\<in>set (rf_individual_dice r). rd_sides die = rd_sides (rf_individual_dice r ! 0)"
    "distinct (map mf_source_id (rf_modifiers r))"
    using guards(2,3) by (auto simp: list_ex_iff not_le)
  from guards(4) obtain a b where "?kept = Some a" "?mods = Some b" "rf_total r = a + b"
    by (auto simp: bind_eq_Some_conv checked_add_i32_def split: if_splits)
  with checked_sum_Some [of 0 _ a] checked_sum_Some [of 0 _ b]
  have "rf_total r = (\<Sum>i\<leftarrow>rf_kept_die_indices r. int (rd_value (rf_individual_dice r ! i))) +
        sum_list (map mf_value (rf_modifiers r))" by simp
  with basic kept show ?thesis unfolding list_all_iff Suc_le_eq One_nat_def by blast
qed

lemma sequence_sound:
  "validate_sequence k rs = Ok u \<Longrightarrow>
     map rf_sequence rs = [Suc k..<Suc (k + length rs)] \<and> (\<forall>r\<in>set rs. raw_roll_validate r = Ok ())"
proof (induction rs arbitrary: k)
  case (Cons r rs)
  then have "rf_sequence r = Suc k" "raw_roll_validate r = Ok ()" "validate_sequence (Suc k) rs = Ok u"
    by (auto split: if_splits)
  moreover have "[Suc k..<Suc (k + length (r # rs))] = Suc k # [Suc (Suc k)..<Suc (Suc k + length rs)]"
    by (subst upt_conv_Cons) simp_all
  ultimately show ?case using Cons.IH [of "Suc k"] by (simp del: upt_Suc)
qed simp

text \<open>C21: The records of an accepted command are well formed: its rolls are numbered from one without a
  gap, every die shows a face it has, all dice of a roll have the same number of sides, the kept
  dice are among the rolled ones, and the recorded total is the sum of the kept dice and the listed
  modifiers, no two of them from the same source; the resolution carries the state it leaves, one
  revision on, and something for the table to be told.\<close>

theorem accepted_records_well_formed:
  assumes "resolve_encounter s c roll d = (Ok x, d')"
  shows "map rf_sequence (er_rolls x) = [1..<Suc (length (er_rolls x))] \<and>
    list_all (\<lambda>r. rf_individual_dice r \<noteq> [] \<and>
      list_all (\<lambda>die. 1 \<le> rd_value die \<and> rd_value die \<le> rd_sides die \<and>
        rd_sides die = rd_sides (rf_individual_dice r ! 0)) (rf_individual_dice r) \<and>
      distinct (rf_kept_die_indices r) \<and>
      list_all (\<lambda>i. i < length (rf_individual_dice r)) (rf_kept_die_indices r) \<and>
      distinct (map mf_source_id (rf_modifiers r)) \<and>
      rf_total r = (\<Sum>i\<leftarrow>rf_kept_die_indices r. int (rd_value (rf_individual_dice r ! i))) +
        sum_list (map mf_value (rf_modifiers r))) (er_rolls x) \<and>
    er_previous_revision x = en_revision s \<and> er_result_revision x = en_revision s + 1 \<and>
    en_revision (er_state x) = en_revision s + 1 \<and> er_facts x \<noteq> []"
proof -
  have h: "en_revision (er_state x) = en_revision s + 1" "resolution_validate x = Ok ()"
    by (rule resolve_encounter_OkD [OF assms]; simp)+
  have "validate_sequence 0 (er_rolls x) = Ok ()" "er_result_revision x = en_revision (er_state x)"
    "er_result_revision x = er_previous_revision x + 1" "er_facts x \<noteq> []"
    using h(2) by (auto simp: resolution_validate_def checked_add_def split: if_splits)
  moreover from this(1) have "map rf_sequence (er_rolls x) = [1..<Suc (length (er_rolls x))]"
    "\<forall>r\<in>set (er_rolls x). raw_roll_validate r = Ok ()"
    using sequence_sound [of 0 "er_rolls x" "()"] by simp_all
  ultimately show ?thesis
    unfolding list_all_iff [of _ "er_rolls x"] using raw_roll_facts_sound h(1) by auto
qed

theorem accepted_records_well_formed_witness:
  "\<exists>x d'. resolve_encounter sample_window (command_new 1 ''key-1'' (MoveTo 30)) (\<lambda>sides d. (sides, d)) () = (Ok x, d') \<and>
     er_previous_revision x = 1 \<and> er_result_revision x = 2"
proof -
  have "en_schema_version sample_window = encounter_schema_version" "en_revision sample_window = 1"
    "en_status sample_window = EncActive" "en_current_actor_id sample_window = Some soot_wight_id"
    "en_turn_resources sample_window = Some \<lparr>tr_action_available = False, tr_movement_remaining_feet = 25,
        tr_bonus_action_available = False, tr_reaction_available = True,
        tr_object_interaction_available = True\<rparr>" "cb_position_feet (en_creature sample_window) = 5"
    by (simp_all add: sample_window_def sample_turn_def sample_ready_def encounter_new_def)
  note w = this
  have "is_valid_opaque_id ''key-1''" by code_simp
  then obtain x d' where "resolve_encounter sample_window (command_new 1 ''key-1'' (MoveTo 30)) (\<lambda>sides d. (sides, d)) () = (Ok x, d')"
    using wight_move_accepted [OF sample_window_valid w(1) _ w(3-5), of 30 "''key-1''" "\<lambda>sides d. (sides, d)" "()"] w(2,6)
    by (auto simp: returns_st_def position_ok_def enc_distance_def abs_diff_def u64_max_def)
  with accepted_records_well_formed [OF this] w(2) show ?thesis by auto
qed

end
