(* ===== verification/Replay_Logic.thy ===== *)
theory Replay_Logic
  imports Result_Logic Dice_Check
begin

text \<open>
  How a computation depends on its dice. A transcript lists the dice a run asked for with the faces
  it was shown; \<open>follows\<close> says that a successful run with one source has a transcript, and that any
  other source which shows the same faces for the same questions leads to the same result. It moves
  through the combinators of the handlers, so that a handler is taken apart by introduction rules.
\<close>

type_synonym transcript = "(u16 \<times> u16) list"

fun asks :: "'s dice \<Rightarrow> transcript \<Rightarrow> 's \<Rightarrow> 's \<Rightarrow> bool" where
  "asks roll [] d d' \<longleftrightarrow> d' = d"
| "asks roll ((sides, v) # xs) d d' \<longleftrightarrow> fst (roll sides d) = v \<and> asks roll xs (snd (roll sides d)) d'"

lemma asks_append: "asks roll (xs @ ys) d d' \<longleftrightarrow> (\<exists>d1. asks roll xs d d1 \<and> asks roll ys d1 d')"
  by (induction xs arbitrary: d) auto

named_theorems follows_rules "introduction rules of follows for the combinators"

definition follows ::
  "'s dice \<Rightarrow> 't dice \<Rightarrow> 's \<Rightarrow> ('e, 'a) result \<times> 's \<Rightarrow> ('t \<Rightarrow> ('e, 'a) result \<times> 't)
    \<Rightarrow> ('a \<Rightarrow> transcript \<Rightarrow> bool) \<Rightarrow> bool" where
  "follows roll roll' d p q Q \<longleftrightarrow>
     (\<forall>x d'. p = (Ok x, d') \<longrightarrow>
        (\<exists>xs. asks roll xs d d' \<and> Q x xs \<and> (\<forall>e e'. asks roll' xs e e' \<longrightarrow> q e = (Ok x, e'))))"

lemma followsD:
  assumes "follows roll roll' d p q Q" "p = (Ok x, d')"
  obtains xs where "asks roll xs d d'" "Q x xs" "\<And>e e'. asks roll' xs e e' \<Longrightarrow> q e = (Ok x, e')"
  using assms unfolding follows_def by blast

lemma follows_mono:
  "follows roll roll' d p q Q \<Longrightarrow> (\<And>x xs. Q x xs \<Longrightarrow> Q' x xs) \<Longrightarrow> follows roll roll' d p q Q'"
  unfolding follows_def by blast

lemma follows_pure [follows_rules]:
  "(\<And>x. r = Ok x \<Longrightarrow> Q x []) \<Longrightarrow> follows roll roll' d (r, d) (\<lambda>e. (r, e)) Q"
  by (auto simp: follows_def intro: exI [of _ "[]"])

lemma follows_Err [follows_rules]: "follows roll roll' d (Err x, d') q Q"
  by (simp add: follows_def)

lemma follows_bind_pure [follows_rules]:
  "(\<And>x. r = Ok x \<Longrightarrow> follows roll roll' d (k x d) (k' x) Q) \<Longrightarrow>
   follows roll roll' d (and_then_st (r, d) k) (\<lambda>e. and_then_st (r, e) k') Q"
  by (cases r) (auto simp: follows_def)

lemma follows_bind:
  assumes "follows roll roll' d p q Q1"
    and "\<And>x d1 xs. Q1 x xs \<Longrightarrow> follows roll roll' d1 (k x d1) (k' x) (\<lambda>y ys. Q y (xs @ ys))"
  shows "follows roll roll' d (and_then_st p k) (\<lambda>e. and_then_st (q e) k') Q"
  unfolding follows_def
proof (intro allI impI)
  fix y d'
  assume "and_then_st p k = (Ok y, d')"
  then obtain x d1 where p: "p = (Ok x, d1)" and k: "k x d1 = (Ok y, d')" by auto
  obtain xs where xs: "asks roll xs d d1" "Q1 x xs"
    "\<And>e e'. asks roll' xs e e' \<Longrightarrow> q e = (Ok x, e')" using followsD [OF assms(1) p] by metis
  obtain ys where ys: "asks roll ys d1 d'" "Q y (xs @ ys)"
    "\<And>e e'. asks roll' ys e e' \<Longrightarrow> k' x e = (Ok y, e')" using followsD [OF assms(2) [OF xs(2)] k] by metis
  have "and_then_st (q e) k' = (Ok y, e')" if "asks roll' (xs @ ys) e e'" for e e'
    using that xs(3) ys(3) by (auto simp: asks_append)
  with xs(1) ys(1,2) show "\<exists>zs. asks roll zs d d' \<and> Q y zs \<and>
      (\<forall>e e'. asks roll' zs e e' \<longrightarrow> and_then_st (q e) k' = (Ok y, e'))"
    by (intro exI [of _ "xs @ ys"]) (auto simp: asks_append)
qed

lemma follows_if [follows_rules]:
  "(b \<Longrightarrow> follows roll roll' d p q Q) \<Longrightarrow> (\<not> b \<Longrightarrow> follows roll roll' d p2 q2 Q) \<Longrightarrow>
   follows roll roll' d (if b then p else p2) (\<lambda>e. if b then q e else q2 e) Q"
  by simp

text \<open>One die, and what is made of its face.\<close>

lemma follows_die:
  assumes "\<And>v d1. (v, d1) = roll n d \<Longrightarrow> follows roll roll' d1 (k v d1) (k' v) (\<lambda>y ys. Q y ((n, v) # ys))"
  shows "follows roll roll' d (k (fst (roll n d)) (snd (roll n d)))
    (\<lambda>e. k' (fst (roll' n e)) (snd (roll' n e))) Q"
  unfolding follows_def
proof (intro allI impI)
  fix y d'
  assume "k (fst (roll n d)) (snd (roll n d)) = (Ok y, d')"
  with assms [of "fst (roll n d)" "snd (roll n d)"] obtain ys where ys:
    "asks roll ys (snd (roll n d)) d'" "Q y ((n, fst (roll n d)) # ys)"
    "\<And>e e'. asks roll' ys e e' \<Longrightarrow> k' (fst (roll n d)) e = (Ok y, e')"
    by (auto elim: followsD)
  then show "\<exists>zs. asks roll zs d d' \<and> Q y zs \<and>
      (\<forall>e e'. asks roll' zs e e' \<longrightarrow> k' (fst (roll' n e)) (snd (roll' n e)) = (Ok y, e'))"
    by (intro exI [of _ "(n, fst (roll n d)) # ys"]) auto
qed

end
