(* ===== verification/Session_Types.thy ===== *)
theory Session_Types
  imports Encounter Dice_Check Scene Character_Xp Roll_Record
begin

text \<open>
  The documents that travel between the rules engines, the store and the browser
  (\<open>crates/game-core/src/exploration.rs\<close> and \<open>session.rs\<close>): the commands a player may send, the
  outcomes and views that answer them, the session with its events, and what \<open>validate\<close> demands of
  each. JSON decoding (\<open>serde\<close>) is left out: it builds these values and calls the same \<open>validate\<close>.
\<close>

section \<open>Errors\<close>

text \<open>The variants of \<open>GameCoreError\<close> these modules raise, one constructor per \<open>reason\<close>.\<close>

datatype command_reason =
    CheckCommandSchema            \<comment> \<open>schema version is unsupported\<close>
  | CheckCommandIdentity          \<comment> \<open>identifiers must be valid and expected revision must be positive\<close>
  | SocialCommandEnvelope         \<comment> \<open>social interaction schema, identifiers, or revision are invalid\<close>
  | EncounterCommitSchema         \<comment> \<open>encounter commit schema version is unsupported\<close>
  | EncounterCommitIdentity       \<comment> \<open>encounter campaign identity or revision is invalid\<close>
  | NestedEncounterCommand        \<comment> \<open>nested encounter command is invalid\<close>
  | NpcAdvanceSchema              \<comment> \<open>NPC advance schema version is unsupported\<close>
  | NpcAdvanceIdentity            \<comment> \<open>NPC advance identity and revisions are invalid\<close>

datatype outcome_reason =
    CheckOutcomeSchema            \<comment> \<open>schema version is unsupported\<close>
  | CheckOutcomeIdentity          \<comment> \<open>identifiers, result revision, or event sequence are invalid\<close>
  | CheckOutcomeRevision          \<comment> \<open>result revision must immediately follow the event sequence\<close>
  | SocialOutcomeEnvelope         \<comment> \<open>social interaction outcome envelope is invalid\<close>
  | SocialOutcomeCheck            \<comment> \<open>social interaction check is invalid\<close>
  | SocialOutcomeState            \<comment> \<open>social interaction state is invalid\<close>

datatype view_reason =
    SocialViewEnvelope | SocialViewState | SocialViewOutcome
  | EncounterOutcomeEnvelope | EncounterResolutionInvalid | HeroRevisionMismatch | RollCountMismatch
  | RollRecordInvalid | RollExpressionInvalid | RollRecordDiffers | RollCursorGap | RollSeedsDiffer
  | PlayerActionsUnderivable | LegacyActionsUnderivable | LegalActionsDiffer | NonPlayerActions
  | EncounterViewEnvelope | EncounterViewState | EncounterViewActions | EncounterViewOutcome
  | ProgressWithoutOutcome

datatype session_reason =
    SessionSchema                 \<comment> \<open>schema version is unsupported\<close>
  | SessionIdentity               \<comment> \<open>identity, title, timestamps, or party roster is invalid\<close>
  | SessionPartyRepeats           \<comment> \<open>party character ids must be unique\<close>

datatype event_reason =
    EventSchema | EventSequenceOrSession | EventPlayerId | LifecycleActor | IntentMismatch
  | DiceEventMismatch | CheckEventMismatch | SocialEventMismatch | EncounterEventMismatch
  | PolicyProvenance | NarrationMismatch | AwardEventMismatch | ProposalAccepted | ProposalRejected

datatype session_error =
    InvalidExplorationCheckCommand command_reason
  | InvalidExplorationCheckOutcome outcome_reason
  | InvalidLocalCampaignView view_reason
  | InvalidSession session_reason
  | InvalidSessionEvent event_reason
  | CoreFault game_core_error     \<comment> \<open>an error of the modules of \<open>Core_Base\<close>, passed on\<close>
  | SessionPanic                  \<comment> \<open>an index out of range\<close>

type_synonym 'a dto = "(session_error, 'a) result"

definition exploration_check_schema_version :: u16 where "exploration_check_schema_version = 1"
definition social_interaction_schema_version :: u16 where "social_interaction_schema_version = 1"
definition encounter_commit_schema_version :: u16 where "encounter_commit_schema_version = 1"
definition advance_npc_turn_schema_version :: u16 where "advance_npc_turn_schema_version = 1"
definition session_schema_version :: u16 where "session_schema_version = 1"

section \<open>Exploration checks\<close>

record attempt_exploration_check =
  ax_schema_version :: u16
  ax_campaign_session_id :: string
  ax_character_id :: string
  ax_action_id :: string
  ax_expected_revision :: u64
  ax_idempotency_key :: string

definition exploration_command_validate :: "attempt_exploration_check \<Rightarrow> unit dto" where
  "exploration_command_validate c =
     (if ax_schema_version c \<noteq> exploration_check_schema_version
      then Err (InvalidExplorationCheckCommand CheckCommandSchema)
      else if \<not> is_valid_opaque_id (ax_campaign_session_id c) \<or> \<not> is_valid_opaque_id (ax_character_id c)
        \<or> \<not> is_valid_opaque_id (ax_action_id c) \<or> \<not> is_valid_opaque_id (ax_idempotency_key c)
        \<or> ax_expected_revision c = 0
      then Err (InvalidExplorationCheckCommand CheckCommandIdentity)
      else Ok ())"

record exploration_outcome =
  xo_schema_version :: u16
  xo_campaign_session_id :: string
  xo_character_id :: string
  xo_action_id :: string
  xo_result_revision :: u64
  xo_event_sequence :: u64
  xo_result :: ability_check_result

definition exploration_outcome_validate :: "exploration_outcome \<Rightarrow> unit dto" where
  "exploration_outcome_validate x =
     (if xo_schema_version x \<noteq> exploration_check_schema_version
      then Err (InvalidExplorationCheckOutcome CheckOutcomeSchema)
      else if \<not> is_valid_opaque_id (xo_campaign_session_id x) \<or> \<not> is_valid_opaque_id (xo_character_id x)
        \<or> \<not> is_valid_opaque_id (xo_action_id x) \<or> xo_result_revision x = 0 \<or> xo_event_sequence x = 0
      then Err (InvalidExplorationCheckOutcome CheckOutcomeIdentity)
      else if checked_add u64_max (xo_event_sequence x) 1 \<noteq> Some (xo_result_revision x)
      then Err (InvalidExplorationCheckOutcome CheckOutcomeRevision)
      else map_err CoreFault (check_result_validate (xo_result x)))"

section \<open>Social interactions\<close>

record attempt_social_interaction =
  as_schema_version :: u16
  as_campaign_session_id :: string
  as_character_id :: string
  as_action_id :: string
  as_expected_revision :: u64
  as_idempotency_key :: string

definition social_command_validate :: "attempt_social_interaction \<Rightarrow> unit dto" where
  "social_command_validate c =
     (if as_schema_version c \<noteq> social_interaction_schema_version
        \<or> \<not> is_valid_opaque_id (as_campaign_session_id c) \<or> \<not> is_valid_opaque_id (as_character_id c)
        \<or> \<not> is_valid_opaque_id (as_action_id c) \<or> \<not> is_valid_opaque_id (as_idempotency_key c)
        \<or> as_expected_revision c = 0
      then Err (InvalidExplorationCheckCommand SocialCommandEnvelope)
      else Ok ())"

record social_outcome =
  io_schema_version :: u16
  io_campaign_session_id :: string
  io_character_id :: string
  io_action_id :: string
  io_result_revision :: u64
  io_event_sequence :: u64
  io_check :: trusted_check_resolution
  io_facts :: "exploration_social_fact list"
  io_resulting_state :: exploration_social_state

definition social_outcome_validate :: "social_outcome \<Rightarrow> unit dto" where
  "social_outcome_validate x =
     (if io_schema_version x \<noteq> social_interaction_schema_version
        \<or> \<not> is_valid_opaque_id (io_campaign_session_id x) \<or> \<not> is_valid_opaque_id (io_character_id x)
        \<or> \<not> is_valid_opaque_id (io_action_id x) \<or> io_result_revision x = 0 \<or> io_event_sequence x = 0
        \<or> checked_add u64_max (io_event_sequence x) 1 \<noteq> Some (io_result_revision x)
        \<or> io_facts x = [] \<or> length (io_facts x) > 8
      then Err (InvalidExplorationCheckOutcome SocialOutcomeEnvelope)
      else and_then (map_err (\<lambda>_. InvalidExplorationCheckOutcome SocialOutcomeCheck)
             (trusted_check_validate (io_check x))) (\<lambda>_.
           map_err (\<lambda>_. InvalidExplorationCheckOutcome SocialOutcomeState)
             (scene_validate (io_resulting_state x))))"

record social_view =
  sv_schema_version :: u16
  sv_campaign_session_id :: string
  sv_campaign_revision :: u64
  sv_last_event_sequence :: u64
  sv_state :: exploration_social_state
  sv_latest_outcome :: "social_outcome option"

definition social_view_validate :: "social_view \<Rightarrow> unit dto" where
  "social_view_validate v =
     (if sv_schema_version v \<noteq> social_interaction_schema_version
        \<or> \<not> is_valid_opaque_id (sv_campaign_session_id v) \<or> sv_campaign_revision v = 0
        \<or> checked_add u64_max (sv_last_event_sequence v) 1 \<noteq> Some (sv_campaign_revision v)
      then Err (InvalidLocalCampaignView SocialViewEnvelope)
      else and_then (map_err (\<lambda>_. InvalidLocalCampaignView SocialViewState) (scene_validate (sv_state v))) (\<lambda>_.
        case sv_latest_outcome v of
          None \<Rightarrow> Ok ()
        | Some x \<Rightarrow> and_then (social_outcome_validate x) (\<lambda>_.
            if io_campaign_session_id x \<noteq> sv_campaign_session_id v
              \<or> io_result_revision x > sv_campaign_revision v
              \<or> io_event_sequence x > sv_last_event_sequence v \<or> io_resulting_state x \<noteq> sv_state v
            then Err (InvalidLocalCampaignView SocialViewOutcome)
            else Ok ())))"

section \<open>Encounter commands\<close>

record commit_encounter_command =
  cc_schema_version :: u16
  cc_campaign_session_id :: string
  cc_expected_campaign_revision :: u64
  cc_command :: encounter_command

definition commit_command_validate :: "commit_encounter_command \<Rightarrow> unit dto" where
  "commit_command_validate c =
     (if cc_schema_version c \<noteq> encounter_commit_schema_version
      then Err (InvalidExplorationCheckCommand EncounterCommitSchema)
      else if \<not> is_valid_opaque_id (cc_campaign_session_id c) \<or> cc_expected_campaign_revision c = 0
      then Err (InvalidExplorationCheckCommand EncounterCommitIdentity)
      else map_err (\<lambda>_. InvalidExplorationCheckCommand NestedEncounterCommand)
             (command_validate (cc_command c)))"

record advance_npc_command =
  an_schema_version :: u16
  an_campaign_session_id :: string
  an_expected_campaign_revision :: u64
  an_expected_encounter_revision :: u64
  an_idempotency_key :: string

definition advance_command_validate :: "advance_npc_command \<Rightarrow> unit dto" where
  "advance_command_validate c =
     (if an_schema_version c \<noteq> advance_npc_turn_schema_version
      then Err (InvalidExplorationCheckCommand NpcAdvanceSchema)
      else if \<not> is_valid_opaque_id (an_campaign_session_id c)
        \<or> \<not> is_valid_opaque_id (an_idempotency_key c)
        \<or> an_expected_campaign_revision c = 0 \<or> an_expected_encounter_revision c = 0
      then Err (InvalidExplorationCheckCommand NpcAdvanceIdentity)
      else Ok ())"

section \<open>Committed outcomes\<close>

record committed_outcome =
  co_schema_version :: u16
  co_campaign_session_id :: string
  co_result_campaign_revision :: u64
  co_event_sequence :: u64
  co_result_hero_revision :: "u64 option"
  co_resolution :: encounter_resolution
  co_roll_records :: "roll_record list"
  co_legal_actions :: "legal_action list"

fun roll_purpose_id :: "roll_purpose \<Rightarrow> string" where
  "roll_purpose_id PurposeInitiative = ''encounter:initiative''"
| "roll_purpose_id PurposeAttack = ''encounter:attack''"
| "roll_purpose_id PurposeDamage = ''encounter:damage''"
| "roll_purpose_id PurposeHealing = ''encounter:healing''"
| "roll_purpose_id PurposeSleep = ''encounter:sleep-hit-points''"
| "roll_purpose_id PurposeHitDie = ''encounter:hit-die''"
| "roll_purpose_id PurposeDeathSave = ''encounter:death-save''"

fun canonical_roll_mode :: "enc_roll_mode \<Rightarrow> roll_mode" where
  "canonical_roll_mode EncNormal = NormalRoll"
| "canonical_roll_mode EncAdvantage = Advantage"
| "canonical_roll_mode EncDisadvantage = Disadvantage"

text \<open>\<open>format!("roll:{campaign_session_id}:{event_sequence}:{sequence}")\<close>\<close>

definition encounter_roll_id :: "string \<Rightarrow> u64 \<Rightarrow> raw_roll_facts \<Rightarrow> string" where
  "encounter_roll_id session_id sequence raw =
     ''roll:'' @ session_id @ '':'' @ show_nat sequence @ '':'' @ show_nat (rf_sequence raw)"

text \<open>\<open>raw.individual_dice[index]\<close> for each kept index; \<open>None\<close> when one is out of range.\<close>

fun kept_faces :: "raw_die_fact list \<Rightarrow> u16 list \<Rightarrow> u32 list option" where
  "kept_faces dice [] = Some []"
| "kept_faces dice (i # is) =
     (case list_get dice i of
        None \<Rightarrow> None
      | Some x \<Rightarrow> map_option (\<lambda>vs. rd_value x # vs) (kept_faces dice is))"

definition validate_roll_record_pair :: "string \<Rightarrow> u64 \<Rightarrow> raw_roll_facts \<times> roll_record \<Rightarrow> unit dto" where
  "validate_roll_record_pair session_id sequence p =
     (let (raw, r) = p in
      and_then (map_err (\<lambda>_. InvalidLocalCampaignView RollExpressionInvalid)
                  (expression_from_str (rf_expression raw))) (\<lambda>e.
      and_then (ok_or (kept_faces (rf_individual_dice raw) (rf_kept_die_indices raw)) SessionPanic) (\<lambda>kept.
        if rr_roll_id r \<noteq> encounter_roll_id session_id sequence raw \<or> rr_expression r \<noteq> e
          \<or> rr_rolled_dice r \<noteq> map rd_value (rf_individual_dice raw) \<or> rr_kept_dice r \<noteq> kept
          \<or> map (\<lambda>m. (mc_name m, mc_value m)) (rr_modifier_components r)
            \<noteq> sort_key fst (map (\<lambda>m. (mf_source_id m, mf_value m)) (rf_modifiers raw))
          \<or> rr_total r \<noteq> rf_total raw \<or> rr_purpose r \<noteq> roll_purpose_id (rf_purpose raw)
          \<or> rr_actor_id r \<noteq> rf_actor_id raw \<or> rr_target_id r \<noteq> rf_target_id raw
          \<or> rr_roll_mode r \<noteq> canonical_roll_mode (rf_mode raw) \<or> rr_ruleset r \<noteq> Srd5_1
        then Err (InvalidLocalCampaignView RollRecordDiffers)
        else Ok ())))"

text \<open>The loop over the pairs, with the cursor and the seed reference of the record before.\<close>

fun roll_trail_validate ::
  "string \<Rightarrow> u64 \<Rightarrow> u64 option \<Rightarrow> string option \<Rightarrow> (raw_roll_facts \<times> roll_record) list \<Rightarrow> unit dto" where
  "roll_trail_validate session_id sequence previous seed [] = Ok ()"
| "roll_trail_validate session_id sequence previous seed ((raw, r) # ps) =
     and_then (map_err (\<lambda>_. InvalidLocalCampaignView RollRecordInvalid) (record_validate r)) (\<lambda>_.
     and_then (validate_roll_record_pair session_id sequence (raw, r)) (\<lambda>_.
       if previous \<noteq> None \<and> previous \<noteq> Some (rr_cursor_before r)
       then Err (InvalidLocalCampaignView RollCursorGap)
       else if seed \<noteq> None \<and> seed \<noteq> Some (rr_seed_reference r)
       then Err (InvalidLocalCampaignView RollSeedsDiffer)
       else roll_trail_validate session_id sequence (Some (rr_cursor_after r))
              (Some (rr_seed_reference r)) ps))"

definition hero_revision_fits :: "encounter_state \<Rightarrow> u64 option \<Rightarrow> bool" where
  "hero_revision_fits s revision \<longleftrightarrow>
     (let v = en_schema_version s; created = (cb_source_character_id (en_hero s) \<noteq> None) in
      v = encounter_schema_version \<and> created = (revision \<noteq> None)
      \<or> (v = legacy_encounter_schema_version \<or> v = live_v2_encounter_schema_version) \<and> revision = None)"

definition outcome_validate :: "committed_outcome \<Rightarrow> unit dto" where
  "outcome_validate x =
     (let s = er_state (co_resolution x) in
      if co_schema_version x \<noteq> encounter_commit_schema_version
        \<or> \<not> is_valid_opaque_id (co_campaign_session_id x)
        \<or> co_result_campaign_revision x = 0 \<or> co_event_sequence x = 0
        \<or> checked_add u64_max (co_event_sequence x) 1 \<noteq> Some (co_result_campaign_revision x)
        \<or> er_encounter_id (co_resolution x) \<noteq> soot_wight_encounter_id
      then Err (InvalidLocalCampaignView EncounterOutcomeEnvelope)
      else and_then (map_err (\<lambda>_. InvalidLocalCampaignView EncounterResolutionInvalid)
                       (resolution_validate (co_resolution x))) (\<lambda>_.
        if \<not> hero_revision_fits s (co_result_hero_revision x)
        then Err (InvalidLocalCampaignView HeroRevisionMismatch)
        else if length (co_roll_records x) \<noteq> length (er_rolls (co_resolution x))
        then Err (InvalidLocalCampaignView RollCountMismatch)
        else and_then (roll_trail_validate (co_campaign_session_id x) (co_event_sequence x) None None
                         (zip (er_rolls (co_resolution x)) (co_roll_records x))) (\<lambda>_.
        and_then (map_err (\<lambda>_. InvalidLocalCampaignView PlayerActionsUnderivable) (player_legal_actions s))
          (\<lambda>expected.
        and_then (map_err (\<lambda>_. InvalidLocalCampaignView LegacyActionsUnderivable) (legal_actions s))
          (\<lambda>legacy.
          if co_legal_actions x \<noteq> expected \<and> co_legal_actions x \<noteq> legacy
          then Err (InvalidLocalCampaignView LegalActionsDiffer)
          else Ok ())))))"

definition outcome_boundary_validate :: "committed_outcome \<Rightarrow> unit dto" where
  "outcome_boundary_validate x =
     and_then (outcome_validate x) (\<lambda>_.
     and_then (map_err (\<lambda>_. InvalidLocalCampaignView PlayerActionsUnderivable)
                 (player_legal_actions (er_state (co_resolution x)))) (\<lambda>expected.
       if co_legal_actions x \<noteq> expected then Err (InvalidLocalCampaignView NonPlayerActions) else Ok ()))"

record encounter_view =
  ev_schema_version :: u16
  ev_campaign_session_id :: string
  ev_campaign_revision :: u64
  ev_last_event_sequence :: u64
  ev_state :: encounter_state
  ev_legal_actions :: "legal_action list"
  ev_latest_outcome :: "committed_outcome option"

definition encounter_view_validate :: "encounter_view \<Rightarrow> unit dto" where
  "encounter_view_validate v =
     (if ev_schema_version v \<noteq> encounter_commit_schema_version
        \<or> \<not> is_valid_opaque_id (ev_campaign_session_id v) \<or> ev_campaign_revision v = 0
        \<or> checked_add u64_max (ev_last_event_sequence v) 1 \<noteq> Some (ev_campaign_revision v)
      then Err (InvalidLocalCampaignView EncounterViewEnvelope)
      else and_then (map_err (\<lambda>_. InvalidLocalCampaignView EncounterViewState)
                       (encounter_validate (ev_state v))) (\<lambda>_.
        and_then (map_err (\<lambda>_. InvalidLocalCampaignView PlayerActionsUnderivable)
                    (player_legal_actions (ev_state v))) (\<lambda>expected.
        if ev_legal_actions v \<noteq> expected then Err (InvalidLocalCampaignView EncounterViewActions)
        else case ev_latest_outcome v of
          Some x \<Rightarrow> and_then (outcome_validate x) (\<lambda>_.
            if co_campaign_session_id x \<noteq> ev_campaign_session_id v
              \<or> co_result_campaign_revision x > ev_campaign_revision v
              \<or> co_event_sequence x > ev_last_event_sequence v
              \<or> er_state (co_resolution x) \<noteq> ev_state v \<or> co_legal_actions x \<noteq> ev_legal_actions v
            then Err (InvalidLocalCampaignView EncounterViewOutcome)
            else Ok ())
        | None \<Rightarrow>
            if en_status (ev_state v) = EncReady \<and> en_revision (ev_state v) = 1 then Ok ()
            else Err (InvalidLocalCampaignView ProgressWithoutOutcome))))"

end
