(* ===== verification/Session_Events.thy ===== *)
theory Session_Events
  imports Session_Types
begin

text \<open>
  The campaign session and its events (\<open>crates/game-core/src/session.rs\<close>): the session document, the
  envelope of an event, the payloads with what each must satisfy, and the provenance of encounter
  commands.
\<close>

section \<open>Sessions\<close>

datatype session_status = SessionActive | SessionCompleted

definition max_session_title_chars :: nat where "max_session_title_chars = 200"
definition max_party_characters :: nat where "max_party_characters = 64"

record session_dto =
  ss_schema_version :: u16
  ss_id :: string
  ss_ruleset :: ruleset_id
  ss_title :: string
  ss_status :: session_status
  ss_character_ids :: "string list"
  ss_created_at_unix_ms :: u64
  ss_updated_at_unix_ms :: u64
  ss_last_event_sequence :: u64

definition session_validate :: "session_dto \<Rightarrow> unit dto" where
  "session_validate s =
     (if ss_schema_version s \<noteq> session_schema_version then Err (InvalidSession SessionSchema)
      else if \<not> is_valid_opaque_id (ss_id s) \<or> is_blank (ss_title s)
        \<or> chars_count (ss_title s) > max_session_title_chars
        \<or> ss_updated_at_unix_ms s < ss_created_at_unix_ms s
        \<or> length (ss_character_ids s) > max_party_characters
        \<or> list_ex (\<lambda>i. \<not> is_valid_opaque_id i) (ss_character_ids s)
      then Err (InvalidSession SessionIdentity)
      else if \<not> distinct (ss_character_ids s) then Err (InvalidSession SessionPartyRepeats)
      else Ok ())"

section \<open>Events\<close>

datatype event_actor = PlayerActor string | AiGameMaster | SystemActor

datatype command_origin = LegacySystem | PlayerOrigin | DeterministicPolicy string

definition origin_validate :: "command_origin \<Rightarrow> unit dto" where
  "origin_validate x =
     (case x of
        DeterministicPolicy policy_id \<Rightarrow>
          if policy_id = soot_wight_policy_id then Ok () else Err (InvalidSessionEvent PolicyProvenance)
      | _ \<Rightarrow> Ok ())"

datatype event_payload =
    SessionStarted
  | PlayerIntent string string
  | DiceResolved string d20_roll i32 i32
  | AbilityCheckResolved string string ability_check_result
  | ExplorationSocialResolved attempt_social_interaction social_outcome
  | EncounterResolved commit_encounter_command committed_outcome command_origin
  | GmNarration string "string option" "string option"
  | ExperienceAwarded string experience_award_summary
  | AiProposalAccepted string sha256_digest
  | AiProposalRejected string sha256_digest string
  | SessionEnded

record session_event =
  se_schema_version :: u16
  se_session_id :: string
  se_sequence :: u64
  se_occurred_at_unix_ms :: u64
  se_actor :: event_actor
  se_payload :: event_payload

definition bounded_text :: "string \<Rightarrow> nat \<Rightarrow> bool" where
  "bounded_text s n \<longleftrightarrow> \<not> is_blank s \<and> chars_count s \<le> n"

definition encounter_event_fits ::
  "session_event \<Rightarrow> commit_encounter_command \<Rightarrow> committed_outcome \<Rightarrow> bool" where
  "encounter_event_fits e c x \<longleftrightarrow>
     se_actor e = SystemActor \<and> cc_campaign_session_id c = se_session_id e
     \<and> co_campaign_session_id x = se_session_id e \<and> co_event_sequence x = se_sequence e
     \<and> checked_add u64_max (cc_expected_campaign_revision c) 1 = Some (co_result_campaign_revision x)
     \<and> ec_encounter_id (cc_command c) = er_encounter_id (co_resolution x)
     \<and> ec_expected_revision (cc_command c) = er_previous_revision (co_resolution x)"

definition payload_validate :: "session_event \<Rightarrow> unit dto" where
  "payload_validate e =
     (case se_payload e of
        SessionStarted \<Rightarrow> ensure (se_actor e = SystemActor) (InvalidSessionEvent LifecycleActor)
      | SessionEnded \<Rightarrow> ensure (se_actor e = SystemActor) (InvalidSessionEvent LifecycleActor)
      | PlayerIntent character_id txt \<Rightarrow>
          ensure (se_actor e = PlayerActor character_id \<and> is_valid_opaque_id character_id
                  \<and> bounded_text txt 4000) (InvalidSessionEvent IntentMismatch)
      | DiceResolved purpose roll modifier tot \<Rightarrow>
          and_then (map_err CoreFault (d20_validate roll)) (\<lambda>_.
            ensure (se_actor e = SystemActor \<and> bounded_text purpose 500
                    \<and> checked_add_i32 (int (d20_selected roll)) modifier = Some tot)
              (InvalidSessionEvent DiceEventMismatch))
      | AbilityCheckResolved character_id action_id result \<Rightarrow>
          and_then (ensure (se_actor e = SystemActor \<and> is_valid_opaque_id character_id
                            \<and> is_valid_opaque_id action_id) (InvalidSessionEvent CheckEventMismatch)) (\<lambda>_.
            map_err CoreFault (check_result_validate result))
      | ExplorationSocialResolved c x \<Rightarrow>
          and_then (social_command_validate c) (\<lambda>_. and_then (social_outcome_validate x) (\<lambda>_.
            ensure (se_actor e = SystemActor \<and> as_campaign_session_id c = se_session_id e
                    \<and> io_campaign_session_id x = se_session_id e \<and> as_character_id c = io_character_id x
                    \<and> as_action_id c = io_action_id x
                    \<and> checked_add u64_max (as_expected_revision c) 1 = Some (io_result_revision x)
                    \<and> io_event_sequence x = se_sequence e) (InvalidSessionEvent SocialEventMismatch)))
      | EncounterResolved c x origin \<Rightarrow>
          and_then (commit_command_validate c) (\<lambda>_. and_then (outcome_validate x) (\<lambda>_.
          and_then (origin_validate origin) (\<lambda>_.
          and_then (if origin \<noteq> LegacySystem then outcome_boundary_validate x else Ok ()) (\<lambda>_.
            ensure (encounter_event_fits e c x) (InvalidSessionEvent EncounterEventMismatch)))))
      | GmNarration txt image_prompt source_prompt_id \<Rightarrow>
          ensure (se_actor e = AiGameMaster \<and> bounded_text txt 12000
                  \<and> (case image_prompt of None \<Rightarrow> True | Some p \<Rightarrow> bounded_text p 4000)
                  \<and> (case source_prompt_id of None \<Rightarrow> True | Some i \<Rightarrow> is_valid_opaque_id i))
            (InvalidSessionEvent NarrationMismatch)
      | ExperienceAwarded character_id summary \<Rightarrow>
          and_then (ensure (se_actor e = SystemActor \<and> is_valid_opaque_id character_id)
                      (InvalidSessionEvent AwardEventMismatch)) (\<lambda>_.
            map_err CoreFault (award_validate summary))
      | AiProposalAccepted proposal_id _ \<Rightarrow>
          ensure (se_actor e = SystemActor \<and> is_valid_opaque_id proposal_id)
            (InvalidSessionEvent ProposalAccepted)
      | AiProposalRejected proposal_id _ reason \<Rightarrow>
          ensure (se_actor e = SystemActor \<and> is_valid_opaque_id proposal_id \<and> bounded_text reason 1000)
            (InvalidSessionEvent ProposalRejected))"

definition event_validate :: "session_event \<Rightarrow> unit dto" where
  "event_validate e =
     (if se_schema_version e \<noteq> session_schema_version then Err (InvalidSessionEvent EventSchema)
      else if \<not> is_valid_opaque_id (se_session_id e) \<or> se_sequence e = 0
      then Err (InvalidSessionEvent EventSequenceOrSession)
      else if (case se_actor e of PlayerActor i \<Rightarrow> \<not> is_valid_opaque_id i | _ \<Rightarrow> False)
      then Err (InvalidSessionEvent EventPlayerId)
      else payload_validate e)"

end
