(* ===== verification/Session_Store.thy ===== *)
theory Session_Store
  imports Session_Events
begin

text \<open>
  How the server stores a campaign's session and commits its events
  (\<open>crates/game-server/src/repository.rs\<close>): the checks of a commit, and the transaction that writes
  the session, the characters, the turn event and the command receipt.

  The database is MongoDB. What the code relies on is that a transaction reads and writes one
  consistent state and that an error aborts it without a trace, so the transaction is a function of
  the stored documents that returns them unchanged on an error. The checks before the transaction
  read a snapshot, which may be older than the state the transaction finds: both are arguments.
  The hero aggregate and the encounter read model, which the same transaction may update, are left
  out, and so are the timestamps and the audit collection. Of the JSON text of a response (\<open>serde_json\<close>)
  only the test of \<open>validate_command_receipt_fields\<close> is used, an argument \<open>json_ok\<close>.
\<close>

section \<open>Documents\<close>

datatype entity = SessionEntity | EventEntity | CharacterEntity | ReceiptEntity | CampaignEntity
  | PlaySessionEntity | AccountEntity

datatype domain_reason =
    BadIdentifier            \<comment> \<open>identifier must be a valid opaque identifier\<close>
  | ReceiptIdentifiers       \<comment> \<open>campaign and idempotency identifiers must be valid\<close>
  | ReceiptKind              \<comment> \<open>command kind and audit identifiers must be valid\<close>
  | ReceiptRevision          \<comment> \<open>result revision must immediately follow a positive expected revision\<close>
  | ReceiptResponse          \<comment> \<open>response must be bounded valid JSON\<close>
  | ReceiptMismatch          \<comment> \<open>receipt must identify the committed campaign, audit, and revisions\<close>
  | NewSessionStarted        \<comment> \<open>a new session must be active and start before its first event\<close>
  | RosterRepeats            \<comment> \<open>initial character snapshots must have unique ids\<close>
  | RosterDiffers            \<comment> \<open>declared party ids must exactly match initial character snapshots\<close>
  | OneCharacter             \<comment> \<open>campaign creation accepts one player-owned runtime character per account\<close>
  | CorrelationId            \<comment> \<open>correlation id must be a valid opaque identifier\<close>
  | SnapshotMismatch         \<comment> \<open>session snapshot and event identity or sequence do not match\<close>
  | UnknownCharacter         \<comment> \<open>event references a character outside the campaign session\<close>
  | UpdatesNotMembers        \<comment> \<open>character updates must be unique members of the campaign\<close>
  | AwardNeedsUpdate         \<comment> \<open>an XP event requires exactly one matching character update\<close>
  | EventCannotMutate        \<comment> \<open>this event type cannot mutate a character\<close>
  | AwardDiffers             \<comment> \<open>character snapshot does not match the audited XP award\<close>
  | SequenceGap              \<comment> \<open>event sequence must immediately follow the stored session sequence\<close>
  | IdentityRewritten        \<comment> \<open>turn events cannot rewrite campaign identity, rules, or roster\<close>
  | StatusTransition         \<comment> \<open>session status transition is invalid for this event\<close>
  | TimeGoesBack             \<comment> \<open>event and session timestamps must advance monotonically\<close>

datatype repository_error =
    NotFound entity string
  | AlreadyExists entity string
  | StoreRevisionConflict entity string u64 u64
  | StoreIdempotencyConflict string string
  | NumericRange string
  | UnsupportedSchemaVersion entity nat nat
  | IdentityMismatch entity string string
  | CoreValidation entity string session_error
  | InvalidDomainState entity string domain_reason

type_synonym 'a repo = "(repository_error, 'a) result"

record 'j command_receipt =
  rp_actor_account_id :: string
  rp_campaign_session_id :: string
  rp_idempotency_key :: string
  rp_command_kind :: string
  rp_request_fingerprint :: sha256_digest
  rp_expected_revision :: u64
  rp_result_revision :: u64
  rp_audit_id :: string
  rp_response_json :: 'j

record character_update =
  cu_character :: character
  cu_expected_revision :: u64

datatype lifecycle = Open | Archived | Deleted

record 'j campaign_store =
  st_campaign_id :: string
  st_owner_account_id :: string
  st_members :: "string list"        \<comment> \<open>the accounts whose membership is active\<close>
  st_lifecycle :: lifecycle
  st_gameplay_revision :: u64
  st_session :: session_dto
  st_characters :: "string \<rightharpoonup> character \<times> u64"
  st_players :: "string list option" \<comment> \<open>the accounts of the active play session, if there is one\<close>
  st_events :: "session_event list"
  st_receipts :: "'j command_receipt list"

section \<open>Checks\<close>

definition validate_opaque :: "entity \<Rightarrow> string \<Rightarrow> unit repo" where
  "validate_opaque entity i =
     ensure (is_valid_opaque_id i) (InvalidDomainState entity i BadIdentifier)"

definition validate_account_id :: "string \<Rightarrow> unit repo" where
  "validate_account_id i = validate_opaque AccountEntity i"

definition validate_receipt_lookup :: "string \<Rightarrow> string \<Rightarrow> string \<Rightarrow> unit repo" where
  "validate_receipt_lookup actor campaign key =
     and_then (validate_account_id actor) (\<lambda>_.
       ensure (is_valid_opaque_id campaign \<and> is_valid_opaque_id key)
         (InvalidDomainState ReceiptEntity (campaign @ '':'' @ key) ReceiptIdentifiers))"

definition validate_receipt_fields :: "('j \<Rightarrow> bool) \<Rightarrow> 'j command_receipt \<Rightarrow> unit repo" where
  "validate_receipt_fields json_ok r =
     (let key = rp_idempotency_key r in
      and_then (validate_receipt_lookup (rp_actor_account_id r) (rp_campaign_session_id r) key) (\<lambda>_.
      and_then (ensure (is_valid_opaque_id (rp_command_kind r) \<and> is_valid_opaque_id (rp_audit_id r))
                  (InvalidDomainState ReceiptEntity key ReceiptKind)) (\<lambda>_.
      and_then (map_err (\<lambda>e. CoreValidation ReceiptEntity key (CoreFault e))
                  (digest_new (digest_str (rp_request_fingerprint r)))) (\<lambda>_.
      and_then (ok_or (checked_add u64_max (rp_expected_revision r) 1) (NumericRange ''revision'')) (\<lambda>next'.
      and_then (ensure (rp_expected_revision r \<noteq> 0 \<and> rp_result_revision r = next')
                  (InvalidDomainState ReceiptEntity key ReceiptRevision)) (\<lambda>_.
        ensure (json_ok (rp_response_json r)) (InvalidDomainState ReceiptEntity key ReceiptResponse)))))))"

definition validate_receipt_for_commit ::
  "('j \<Rightarrow> bool) \<Rightarrow> 'j command_receipt \<Rightarrow> string \<Rightarrow> session_dto \<Rightarrow> u64 \<Rightarrow> session_event \<Rightarrow> unit repo" where
  "validate_receipt_for_commit json_ok r audit_id session expected_revision event =
     and_then (validate_receipt_fields json_ok r) (\<lambda>_.
       ensure (rp_campaign_session_id r = ss_id session \<and> rp_campaign_session_id r = se_session_id event
               \<and> rp_audit_id r = audit_id \<and> rp_expected_revision r = expected_revision)
         (InvalidDomainState ReceiptEntity (rp_idempotency_key r) ReceiptMismatch))"

definition repo_validate_session :: "session_dto \<Rightarrow> unit repo" where
  "repo_validate_session s =
     (if ss_schema_version s \<noteq> session_schema_version
      then Err (UnsupportedSchemaVersion SessionEntity (ss_schema_version s) session_schema_version)
      else map_err (CoreValidation SessionEntity (ss_id s)) (session_validate s))"

definition event_name :: "session_event \<Rightarrow> string" where
  "event_name e = se_session_id e @ '':'' @ show_nat (se_sequence e)"

definition repo_validate_event :: "session_event \<Rightarrow> unit repo" where
  "repo_validate_event e =
     (if se_schema_version e \<noteq> session_schema_version
      then Err (UnsupportedSchemaVersion EventEntity (se_schema_version e) session_schema_version)
      else map_err (CoreValidation EventEntity (event_name e)) (event_validate e))"

text \<open>The loop over the characters of a new campaign, with the set of the ids seen so far.\<close>

fun scan_roster :: "string \<Rightarrow> string set \<Rightarrow> character list \<Rightarrow> string set repo" where
  "scan_roster session_id ids [] = Ok ids"
| "scan_roster session_id ids (c # cs) =
     and_then (map_err (\<lambda>e. CoreValidation CharacterEntity (ch_id c) (CoreFault e)) (character_validate c)) (\<lambda>_.
       if ch_id c \<in> ids then Err (InvalidDomainState SessionEntity session_id RosterRepeats)
       else scan_roster session_id (insert (ch_id c) ids) cs)"

definition validate_initial_roster :: "session_dto \<Rightarrow> character list \<Rightarrow> unit repo" where
  "validate_initial_roster s cs =
     and_then (scan_roster (ss_id s) {} cs) (\<lambda>ids.
       ensure (set (ss_character_ids s) = ids) (InvalidDomainState SessionEntity (ss_id s) RosterDiffers))"

definition event_character :: "event_payload \<Rightarrow> string option" where
  "event_character p =
     (case p of
        PlayerIntent i _ \<Rightarrow> Some i
      | AbilityCheckResolved i _ _ \<Rightarrow> Some i
      | ExplorationSocialResolved c _ \<Rightarrow> Some (as_character_id c)
      | ExperienceAwarded i _ \<Rightarrow> Some i
      | _ \<Rightarrow> None)"

definition event_references_unknown :: "session_dto \<Rightarrow> session_event \<Rightarrow> bool" where
  "event_references_unknown s e \<longleftrightarrow>
     (case se_actor e of PlayerActor i \<Rightarrow> i \<notin> set (ss_character_ids s) | _ \<Rightarrow> False) \<or>
     (case event_character (se_payload e) of Some i \<Rightarrow> i \<notin> set (ss_character_ids s) | None \<Rightarrow> False)"

fun scan_updates :: "session_dto \<Rightarrow> session_event \<Rightarrow> string set \<Rightarrow> character_update list \<Rightarrow> unit repo" where
  "scan_updates s e ids [] = Ok ()"
| "scan_updates s e ids (u # us) =
     (let i = ch_id (cu_character u) in
      and_then (map_err (\<lambda>x. CoreValidation CharacterEntity i (CoreFault x))
                  (character_validate (cu_character u))) (\<lambda>_.
        if i \<in> ids \<or> i \<notin> set (ss_character_ids s)
        then Err (InvalidDomainState EventEntity (event_name e) UpdatesNotMembers)
        else scan_updates s e (insert i ids) us))"

definition validate_update_set :: "session_dto \<Rightarrow> session_event \<Rightarrow> character_update list \<Rightarrow> unit repo" where
  "validate_update_set s e us =
     and_then (scan_updates s e {} us) (\<lambda>_.
       case se_payload e of
         ExperienceAwarded i _ \<Rightarrow>
           ensure (map (\<lambda>u. ch_id (cu_character u)) us = [i])
             (InvalidDomainState EventEntity (event_name e) AwardNeedsUpdate)
       | _ \<Rightarrow> ensure (us = []) (InvalidDomainState EventEntity (event_name e) EventCannotMutate))"

definition validate_session_successor ::
  "u64 \<Rightarrow> session_dto \<Rightarrow> session_dto \<Rightarrow> u64 \<Rightarrow> session_event \<Rightarrow> string \<Rightarrow> unit repo" where
  "validate_session_successor revision current submitted expected_revision event audit_id =
     and_then (ensure (revision = expected_revision)
       (StoreRevisionConflict SessionEntity (ss_id submitted) expected_revision revision)) (\<lambda>_.
     and_then (ok_or (checked_add u64_max (ss_last_event_sequence current) 1) (NumericRange ''event sequence''))
       (\<lambda>expected_sequence.
     and_then (ensure (se_sequence event = expected_sequence)
       (InvalidDomainState EventEntity audit_id SequenceGap)) (\<lambda>_.
     and_then (ensure (ss_ruleset submitted = ss_ruleset current
         \<and> ss_created_at_unix_ms submitted = ss_created_at_unix_ms current
         \<and> ss_title submitted = ss_title current \<and> ss_character_ids submitted = ss_character_ids current)
       (InvalidDomainState SessionEntity (ss_id submitted) IdentityRewritten)) (\<lambda>_.
     and_then (ensure (ss_status current = SessionActive \<and>
         ss_status submitted = (if se_payload event = SessionEnded then SessionCompleted else ss_status current))
       (InvalidDomainState SessionEntity (ss_id submitted) StatusTransition)) (\<lambda>_.
       ensure (ss_updated_at_unix_ms current \<le> se_occurred_at_unix_ms event
           \<and> ss_updated_at_unix_ms current \<le> ss_updated_at_unix_ms submitted
           \<and> se_occurred_at_unix_ms event \<le> ss_updated_at_unix_ms submitted)
         (InvalidDomainState SessionEntity (ss_id submitted) TimeGoesBack))))))"

definition validate_character_successor ::
  "character \<times> u64 \<Rightarrow> character_update \<Rightarrow> session_event \<Rightarrow> unit repo" where
  "validate_character_successor current u e =
     (let c = cu_character u; i = ch_id c in
      and_then (ensure (snd current = cu_expected_revision u)
        (StoreRevisionConflict CharacterEntity i (cu_expected_revision u) (snd current))) (\<lambda>_.
      case se_payload e of
        ExperienceAwarded character_id summary \<Rightarrow>
          (case award_experience (aw_awarded summary) (fst current) of
             (Err x, _) \<Rightarrow> Err (CoreValidation CharacterEntity i (CoreFault x))
           | (Ok expected_summary, expected) \<Rightarrow>
               ensure (character_id = i \<and> expected_summary = summary \<and> expected = c)
                 (InvalidDomainState CharacterEntity i AwardDiffers))
      | _ \<Rightarrow> Ok ()))"

end
