(* ===== verification/Session_Commit.thy ===== *)
theory Session_Commit
  imports Session_Store
begin

text \<open>
  Creating a campaign and committing an event to it (\<open>create_campaign\<close> and
  \<open>commit_session_event_internal\<close> of \<open>crates/game-server/src/repository.rs\<close>), and what every
  history of commits keeps: the events are numbered without a gap, each is valid, the revision
  counts them, and nothing but an audited award changes a character.
\<close>

section \<open>Access\<close>

definition accessible :: "string \<Rightarrow> 'j campaign_store \<Rightarrow> bool" where
  "accessible actor st \<longleftrightarrow>
     st_lifecycle st \<noteq> Deleted \<and> (actor = st_owner_account_id st \<or> actor \<in> set (st_members st))"

definition validate_stored_session :: "string \<Rightarrow> session_dto \<Rightarrow> session_dto repo" where
  "validate_stored_session i s =
     (if ss_schema_version s \<noteq> session_schema_version
      then Err (UnsupportedSchemaVersion SessionEntity (ss_schema_version s) session_schema_version)
      else if i \<noteq> ss_id s then Err (IdentityMismatch SessionEntity i (ss_id s))
      else and_then (repo_validate_session s) (\<lambda>_. Ok s))"

definition load_campaign_session ::
  "string \<Rightarrow> string \<Rightarrow> 'j campaign_store \<Rightarrow> (session_dto \<times> u64) option repo" where
  "load_campaign_session actor i st =
     and_then (validate_account_id actor) (\<lambda>_.
     and_then (validate_opaque SessionEntity i) (\<lambda>_.
       if i = st_campaign_id st \<and> accessible actor st
       then and_then (validate_stored_session i (st_session st)) (\<lambda>s. Ok (Some (s, st_gameplay_revision st)))
       else Ok None))"

definition load_character ::
  "string \<Rightarrow> string \<Rightarrow> string \<Rightarrow> 'j campaign_store \<Rightarrow> (character \<times> u64) option repo" where
  "load_character actor campaign i st =
     and_then (validate_account_id actor) (\<lambda>_.
     and_then (validate_opaque SessionEntity campaign) (\<lambda>_.
     and_then (validate_opaque CharacterEntity i) (\<lambda>_.
       if campaign \<noteq> st_campaign_id st \<or> \<not> accessible actor st then Err (NotFound CampaignEntity campaign)
       else case st_characters st i of
           None \<Rightarrow> Ok None
         | Some (c, revision) \<Rightarrow>
             if i \<noteq> ch_id c then Err (IdentityMismatch CharacterEntity i (ch_id c))
             else and_then (map_err (\<lambda>e. CoreValidation CharacterEntity i (CoreFault e)) (character_validate c))
               (\<lambda>_. Ok (Some (c, revision))))))"

definition load_command_receipt ::
  "string \<Rightarrow> string \<Rightarrow> string \<Rightarrow> 'j campaign_store \<Rightarrow> 'j command_receipt option repo" where
  "load_command_receipt actor campaign key st =
     and_then (validate_receipt_lookup actor campaign key) (\<lambda>_.
       if campaign \<noteq> st_campaign_id st \<or> \<not> accessible actor st then Err (NotFound CampaignEntity campaign)
       else Ok (List.find (\<lambda>r. rp_campaign_session_id r = campaign \<and> rp_actor_account_id r = actor
                  \<and> rp_idempotency_key r = key) (st_receipts st)))"

section \<open>Creation\<close>

definition create_campaign :: "string \<Rightarrow> session_dto \<Rightarrow> character list \<Rightarrow> 'j campaign_store repo" where
  "create_campaign actor s cs =
     and_then (validate_account_id actor) (\<lambda>_.
     and_then (repo_validate_session s) (\<lambda>_.
     and_then (ensure (ss_last_event_sequence s = 0 \<and> ss_status s = SessionActive)
       (InvalidDomainState SessionEntity (ss_id s) NewSessionStarted)) (\<lambda>_.
     and_then (validate_initial_roster s cs) (\<lambda>_.
     and_then (ensure (length cs \<le> 1) (InvalidDomainState SessionEntity (ss_id s) OneCharacter)) (\<lambda>_.
       Ok \<lparr>st_campaign_id = ss_id s, st_owner_account_id = actor, st_members = [actor], st_lifecycle = Open,
           st_gameplay_revision = 1, st_session = s,
           st_characters = map_of (map (\<lambda>c. (ch_id c, (c, 1))) cs), st_players = None,
           st_events = [], st_receipts = []\<rparr>)))))"

section \<open>Commits\<close>

text \<open>The loop that prepares the updates of the characters, each against its stored document.\<close>

fun prepare_updates ::
  "string \<Rightarrow> session_event \<Rightarrow> 'j campaign_store \<Rightarrow> character_update list \<Rightarrow> unit repo" where
  "prepare_updates actor e st [] = Ok ()"
| "prepare_updates actor e st (u # us) =
     (let i = ch_id (cu_character u) in
      and_then (load_character actor (se_session_id e) i st) (\<lambda>found.
      and_then (ok_or found (NotFound CharacterEntity i)) (\<lambda>current.
      and_then (validate_character_successor current u e) (\<lambda>_. prepare_updates actor e st us))))"

definition prepare_commit ::
  "string \<Rightarrow> string \<Rightarrow> session_dto \<Rightarrow> u64 \<Rightarrow> session_event \<Rightarrow> character_update list \<Rightarrow> string option
    \<Rightarrow> 'j campaign_store \<Rightarrow> unit repo" where
  "prepare_commit actor audit_id submitted expected_revision e us correlation snapshot =
     and_then (validate_account_id actor) (\<lambda>_.
     and_then (repo_validate_session submitted) (\<lambda>_.
     and_then (repo_validate_event e) (\<lambda>_.
     and_then (validate_opaque EventEntity audit_id) (\<lambda>_.
     and_then (ensure (case correlation of None \<Rightarrow> True | Some i \<Rightarrow> is_valid_opaque_id i)
       (InvalidDomainState EventEntity audit_id CorrelationId)) (\<lambda>_.
     and_then (ensure (ss_id submitted = se_session_id e \<and> ss_last_event_sequence submitted = se_sequence e)
       (InvalidDomainState EventEntity audit_id SnapshotMismatch)) (\<lambda>_.
     and_then (ensure (\<not> event_references_unknown submitted e)
       (InvalidDomainState EventEntity audit_id UnknownCharacter)) (\<lambda>_.
     and_then (validate_update_set submitted e us) (\<lambda>_.
     and_then (load_campaign_session actor (ss_id submitted) snapshot) (\<lambda>found.
     and_then (ok_or found (NotFound SessionEntity (ss_id submitted))) (\<lambda>(current, revision).
     and_then (validate_session_successor revision current submitted expected_revision e audit_id) (\<lambda>_.
     and_then (prepare_updates actor e snapshot us) (\<lambda>_.
     and_then (ok_or (checked_add u64_max expected_revision 1) (NumericRange ''revision'')) (\<lambda>_.
     and_then (ensure (expected_revision \<le> i64_max) (NumericRange ''revision'')) (\<lambda>_.
     and_then (ensure (se_sequence e \<le> i64_max) (NumericRange ''event sequence'')) (\<lambda>_.
       ensure (expected_revision + 1 \<le> i64_max) (NumericRange ''revision''))))))))))))))))"

definition reject_conflicting_receipt ::
  "'j command_receipt \<Rightarrow> 'j command_receipt list \<Rightarrow> unit repo" where
  "reject_conflicting_receipt r stored =
     (case List.find (\<lambda>x. rp_campaign_session_id x = rp_campaign_session_id r
                       \<and> rp_idempotency_key x = rp_idempotency_key r) stored of
        None \<Rightarrow> Ok ()
      | Some x \<Rightarrow>
          if rp_actor_account_id x \<noteq> rp_actor_account_id r \<or> rp_command_kind x \<noteq> rp_command_kind r
            \<or> rp_request_fingerprint x \<noteq> rp_request_fingerprint r
          then Err (StoreIdempotencyConflict (rp_campaign_session_id r) (rp_idempotency_key r))
          else Err (AlreadyExists ReceiptEntity (rp_idempotency_key r)))"

text \<open>The updates of the transaction: each filters on the revision it was prepared against.\<close>

fun write_characters ::
  "character_update list \<Rightarrow> (string \<rightharpoonup> character \<times> u64) \<Rightarrow> (string \<rightharpoonup> character \<times> u64) repo" where
  "write_characters [] cs = Ok cs"
| "write_characters (u # us) cs =
     (let i = ch_id (cu_character u) in
      case cs i of
        None \<Rightarrow> Err (NotFound CharacterEntity i)
      | Some (_, revision) \<Rightarrow>
          if revision \<noteq> cu_expected_revision u
          then Err (StoreRevisionConflict CharacterEntity i (cu_expected_revision u) revision)
          else write_characters us (cs(i \<mapsto> (cu_character u, revision + 1))))"

definition transact ::
  "string \<Rightarrow> session_dto \<Rightarrow> u64 \<Rightarrow> session_event \<Rightarrow> character_update list \<Rightarrow> 'j command_receipt option
    \<Rightarrow> 'j campaign_store \<Rightarrow> 'j campaign_store repo" where
  "transact actor submitted expected_revision e us receipt st =
     (let i = ss_id submitted in
      and_then (ensure (i = st_campaign_id st \<and> accessible actor st) (NotFound CampaignEntity i)) (\<lambda>_.
      and_then (ensure (case st_players st of None \<Rightarrow> False | Some ps \<Rightarrow> actor \<in> set ps)
        (NotFound PlaySessionEntity i)) (\<lambda>_.
      and_then (case receipt of None \<Rightarrow> Ok () | Some r \<Rightarrow> reject_conflicting_receipt r (st_receipts st)) (\<lambda>_.
      and_then (ensure (st_gameplay_revision st = expected_revision \<and> st_lifecycle st = Open)
        (StoreRevisionConflict SessionEntity i expected_revision (st_gameplay_revision st))) (\<lambda>_.
      and_then (write_characters us (st_characters st)) (\<lambda>cs.
        Ok (st\<lparr>st_session := submitted, st_gameplay_revision := expected_revision + 1,
               st_characters := cs, st_events := st_events st @ [e],
               st_receipts := (case receipt of None \<Rightarrow> st_receipts st | Some r \<Rightarrow> st_receipts st @ [r])\<rparr>)))))))"

definition commit_session_event ::
  "('j \<Rightarrow> bool) \<Rightarrow> string \<Rightarrow> string \<Rightarrow> session_dto \<Rightarrow> u64 \<Rightarrow> session_event \<Rightarrow> character_update list
    \<Rightarrow> 'j command_receipt option \<Rightarrow> string option \<Rightarrow> 'j campaign_store \<Rightarrow> 'j campaign_store
    \<Rightarrow> u64 repo \<times> 'j campaign_store" where
  "commit_session_event json_ok actor audit_id submitted expected_revision e us receipt correlation snapshot st =
     (case and_then (prepare_commit actor audit_id submitted expected_revision e us correlation snapshot) (\<lambda>_.
           and_then (case receipt of None \<Rightarrow> Ok () | Some r \<Rightarrow> validate_receipt_fields json_ok r) (\<lambda>_.
             transact actor submitted expected_revision e us receipt st)) of
        Err x \<Rightarrow> (Err x, st)
      | Ok st' \<Rightarrow> (Ok (expected_revision + 1), st'))"

definition commit_with_receipt ::
  "('j \<Rightarrow> bool) \<Rightarrow> session_dto \<Rightarrow> u64 \<Rightarrow> session_event \<Rightarrow> character_update list \<Rightarrow> 'j command_receipt
    \<Rightarrow> string \<Rightarrow> 'j campaign_store \<Rightarrow> 'j campaign_store \<Rightarrow> u64 repo \<times> 'j campaign_store" where
  "commit_with_receipt json_ok submitted expected_revision e us r correlation snapshot st =
     (case validate_receipt_for_commit json_ok r (rp_audit_id r) submitted expected_revision e of
        Err x \<Rightarrow> (Err x, st)
      | Ok _ \<Rightarrow> commit_session_event json_ok (rp_actor_account_id r) (rp_audit_id r) submitted expected_revision
          e us (Some r) (Some correlation) snapshot st)"

section \<open>Histories\<close>

text \<open>
  A history lists the states the store has been in. A commit may have prepared against any of them,
  and the operations of the lifecycle and of the memberships may come between.
\<close>

inductive history :: "('j \<Rightarrow> bool) \<Rightarrow> 'j campaign_store list \<Rightarrow> bool" for json_ok where
  created: "create_campaign actor s cs = Ok st \<Longrightarrow> history json_ok [st]"
| committed: "history json_ok h \<Longrightarrow> snapshot \<in> set h \<Longrightarrow>
    commit_session_event json_ok actor audit_id submitted expected_revision e us receipt correlation
      snapshot (last h) = (r, st) \<Longrightarrow> history json_ok (h @ [st])"
| administered: "history json_ok h \<Longrightarrow>
    st = (last h)\<lparr>st_members := members, st_lifecycle := lifecycle, st_players := players\<rparr> \<Longrightarrow>
    history json_ok (h @ [st])"

definition receipt_key :: "'j command_receipt \<Rightarrow> string \<times> string" where
  "receipt_key r = (rp_campaign_session_id r, rp_idempotency_key r)"

text \<open>What the events and the session say of each other.\<close>

definition log_ok :: "'j campaign_store \<Rightarrow> bool" where
  "log_ok st \<longleftrightarrow>
     (let s = st_session st; es = st_events st in
      session_validate s = Ok () \<and> ss_id s = st_campaign_id st
      \<and> length es = ss_last_event_sequence s \<and> st_gameplay_revision st = length es + 1
      \<and> map se_sequence es = [1..<length es + 1]
      \<and> (\<forall>e\<in>set es. event_validate e = Ok () \<and> se_session_id e = ss_id s)
      \<and> (ss_status s = SessionCompleted \<longleftrightarrow> (\<exists>e\<in>set es. se_payload e = SessionEnded))
      \<and> distinct (map receipt_key (st_receipts st))
      \<and> dom (st_characters st) = set (ss_character_ids s)
      \<and> (\<forall>i c n. st_characters st i = Some (c, n) \<longrightarrow> ch_id c = i \<and> character_valid c))"

text \<open>The parts of the store that only a commit writes.\<close>

definition committed_part :: "'j campaign_store \<Rightarrow>
    session_dto \<times> (string \<rightharpoonup> character \<times> u64) \<times> session_event list \<times> 'j command_receipt list" where
  "committed_part st = (st_session st, st_characters st, st_events st, st_receipts st)"

lemma commit_cases:
  assumes "commit_session_event json_ok actor audit_id submitted expected_revision e us receipt correlation
      snapshot st = (r, st')"
  obtains (rejected) x where "r = Err x" "st' = st"
  | (accepted) "r = Ok (expected_revision + 1)"
      "prepare_commit actor audit_id submitted expected_revision e us correlation snapshot = Ok ()"
      "transact actor submitted expected_revision e us receipt st = Ok st'"
      "\<And>x. receipt = Some x \<Longrightarrow> validate_receipt_fields json_ok x = Ok ()"
  using assms unfolding commit_session_event_def by (auto split: result.splits option.splits)

lemma transact_Ok:
  assumes "transact actor submitted expected_revision e us receipt st = Ok st'"
  shows "\<exists>cs. write_characters us (st_characters st) = Ok cs \<and> st_gameplay_revision st = expected_revision \<and>
    ss_id submitted = st_campaign_id st \<and> st_lifecycle st = Open \<and>
    (\<forall>x. receipt = Some x \<longrightarrow> reject_conflicting_receipt x (st_receipts st) = Ok ()) \<and>
    st' = st\<lparr>st_session := submitted, st_gameplay_revision := expected_revision + 1, st_characters := cs,
      st_events := st_events st @ [e],
      st_receipts := (case receipt of None \<Rightarrow> st_receipts st | Some r \<Rightarrow> st_receipts st @ [r])\<rparr>"
  using assms unfolding transact_def Let_def by (auto split: option.splits)

lemma prepare_Ok:
  assumes "prepare_commit actor audit_id submitted expected_revision e us correlation snapshot = Ok ()"
  shows "repo_validate_session submitted = Ok ()" "repo_validate_event e = Ok ()"
    "ss_id submitted = se_session_id e" "ss_last_event_sequence submitted = se_sequence e"
    "\<not> event_references_unknown submitted e" "validate_update_set submitted e us = Ok ()"
    "ss_id submitted = st_campaign_id snapshot"
    "validate_session_successor (st_gameplay_revision snapshot) (st_session snapshot) submitted
       expected_revision e audit_id = Ok ()"
    "prepare_updates actor e snapshot us = Ok ()" "expected_revision + 1 \<le> i64_max"
  using assms
  by (auto simp: prepare_commit_def load_campaign_session_def validate_stored_session_def split: if_splits)

lemma roster_ids:
  "scan_roster i ids cs = Ok ids' \<Longrightarrow>
   ids' = ids \<union> ch_id ` set cs \<and> distinct (map ch_id cs) \<and> (\<forall>c\<in>set cs. ch_id c \<notin> ids \<and> character_valid c)"
  by (induction cs arbitrary: ids) (fastforce split: if_splits)+

lemma create_log_ok:
  assumes "create_campaign actor s cs = Ok st"
  shows "log_ok st"
proof -
  from assms have v: "session_validate s = Ok ()" "ss_last_event_sequence s = 0" "ss_status s = SessionActive"
    and roster: "validate_initial_roster s cs = Ok ()"
    and st: "st = \<lparr>st_campaign_id = ss_id s, st_owner_account_id = actor, st_members = [actor],
           st_lifecycle = Open, st_gameplay_revision = 1, st_session = s,
           st_characters = map_of (map (\<lambda>c. (ch_id c, (c, 1))) cs), st_players = None,
           st_events = [], st_receipts = []\<rparr>"
    by (auto simp: create_campaign_def repo_validate_session_def split: if_splits)
  from roster obtain ids where ids: "scan_roster (ss_id s) {} cs = Ok ids" "set (ss_character_ids s) = ids"
    by (auto simp: validate_initial_roster_def)
  have "dom (st_characters st) = set (ss_character_ids s)"
    using roster_ids [OF ids(1)] ids(2) by (simp add: st dom_map_of_conv_image_fst image_image)
  moreover have "ch_id c = i \<and> character_valid c" if "st_characters st i = Some (c, n)" for i c n
    using map_of_SomeD [OF that [unfolded st campaign_store.simps]] roster_ids [OF ids(1)] by auto
  moreover have "st_session st = s" "st_campaign_id st = ss_id s" "st_events st = []"
    "st_gameplay_revision st = 1" "st_receipts st = []" by (simp_all add: st)
  ultimately show ?thesis using v unfolding log_ok_def Let_def by simp
qed

text \<open>An accepted commit on the state its snapshot shows.\<close>

lemma update_set_cases:
  assumes "validate_update_set s e us = Ok ()"
  shows "us = [] \<or> (\<exists>u i w. us = [u] \<and> se_payload e = ExperienceAwarded i w \<and> ch_id (cu_character u) = i \<and>
    character_valid (cu_character u))"
  using assms unfolding validate_update_set_def
  by (auto split: event_payload.splits simp: Let_def map_eq_Cons_conv)

lemma award_update:
  assumes "validate_update_set s e us = Ok ()" "prepare_updates actor e st us = Ok ()"
    "write_characters us (st_characters st) = Ok cs"
  shows "us = [] \<and> cs = st_characters st \<and> (\<forall>i w. se_payload e \<noteq> ExperienceAwarded i w) \<or>
    (\<exists>i w c n c'. se_payload e = ExperienceAwarded i w \<and> st_characters st i = Some (c, n) \<and>
       award_experience (aw_awarded w) c = (Ok w, c') \<and> character_valid c' \<and> ch_id c' = i \<and>
       cs = (st_characters st)(i \<mapsto> (c', n + 1)))"
proof (cases "us = []")
  case True
  with assms(1,3) show ?thesis by (auto simp: validate_update_set_def)
next
  case False
  with update_set_cases [OF assms(1)] obtain u i w where u: "us = [u]" "se_payload e = ExperienceAwarded i w"
    "ch_id (cu_character u) = i" "character_valid (cu_character u)" by auto
  from assms(2) u obtain current where current: "load_character actor (se_session_id e) i st = Ok (Some current)"
    "validate_character_successor current u e = Ok ()" by (auto simp: Let_def)
  from current(1) have found: "st_characters st i = Some current"
    by (auto simp: load_character_def split: if_splits option.splits prod.splits)
  moreover from current(2) u(2,3) have "award_experience (aw_awarded w) (fst current) = (Ok w, cu_character u)"
    by (auto simp: validate_character_successor_def Let_def split: result.splits prod.splits)
  moreover from assms(3) u found have "cs = (st_characters st)(i \<mapsto> (cu_character u, snd current + 1))"
    by (auto simp: Let_def split: prod.splits if_splits)
  ultimately show ?thesis using u by (cases current) auto
qed

lemma accepted_log_ok:
  assumes "log_ok st" "committed_part snapshot = committed_part st"
    and "prepare_commit actor audit_id submitted expected_revision e us correlation snapshot = Ok ()"
    and "transact actor submitted expected_revision e us receipt st = Ok st'"
  shows "log_ok st' \<and> st_campaign_id st' = st_campaign_id st \<and>
    st_gameplay_revision st' = st_gameplay_revision st + 1"
proof -
  note p = prepare_Ok [OF assms(3)]
  from transact_Ok [OF assms(4)] have rejected: "receipt = Some x \<Longrightarrow>
    reject_conflicting_receipt x (st_receipts st) = Ok ()" for x by blast
  from transact_Ok [OF assms(4)] obtain cs where t: "write_characters us (st_characters st) = Ok cs"
    "st_gameplay_revision st = expected_revision" "ss_id submitted = st_campaign_id st"
    "st' = st\<lparr>st_session := submitted, st_gameplay_revision := expected_revision + 1, st_characters := cs,
      st_events := st_events st @ [e],
      st_receipts := (case receipt of None \<Rightarrow> st_receipts st | Some r \<Rightarrow> st_receipts st @ [r])\<rparr>" by auto
  from assms(2) have same: "st_session snapshot = st_session st" "st_characters snapshot = st_characters st"
    by (simp_all add: committed_part_def)
  from p(8) same have succ: "se_sequence e = ss_last_event_sequence (st_session st) + 1"
    "ss_character_ids submitted = ss_character_ids (st_session st)" "ss_status (st_session st) = SessionActive"
    "ss_status submitted = (if se_payload e = SessionEnded then SessionCompleted else SessionActive)"
    by (auto simp: validate_session_successor_def checked_add_def split: if_splits)
  have valid: "session_validate submitted = Ok ()" "event_validate e = Ok ()"
    using p(1,2) by (auto simp: repo_validate_session_def repo_validate_event_def split: if_splits)
  have keys: "distinct (map receipt_key (st_receipts st'))"
  proof (cases receipt)
    case None
    with assms(1) t(4) show ?thesis by (simp add: log_ok_def Let_def)
  next
    case (Some x)
    with rejected have "receipt_key x \<notin> receipt_key ` set (st_receipts st)"
      by (auto simp: reject_conflicting_receipt_def receipt_key_def find_None_iff
          split: option.splits if_splits)
    with Some assms(1) t(4) show ?thesis by (auto simp: log_ok_def Let_def)
  qed
  have l: "length (st_events st) = ss_last_event_sequence (st_session st)"
    "st_gameplay_revision st = length (st_events st) + 1"
    "map se_sequence (st_events st) = [1..<length (st_events st) + 1]"
    "\<forall>e\<in>set (st_events st). event_validate e = Ok () \<and> se_session_id e = st_campaign_id st"
    "\<forall>e\<in>set (st_events st). se_payload e \<noteq> SessionEnded"
    "dom (st_characters st) = set (ss_character_ids (st_session st))"
    "\<And>i c n. st_characters st i = Some (c, n) \<Longrightarrow> ch_id c = i \<and> character_valid c"
    using assms(1) succ(3) unfolding log_ok_def Let_def by (simp_all, metis session_status.distinct(1))
  have chars: "dom cs = dom (st_characters st) \<and>
      (\<forall>i c n. cs i = Some (c, n) \<longrightarrow> ch_id c = i \<and> character_valid c)"
    using award_update [OF p(6) p(9) t(1) [folded same(2)]]
  proof (elim disjE exE conjE)
    fix i w c n c'
    assume c: "st_characters snapshot i = Some (c, n)" "character_valid c'" "ch_id c' = i"
      "cs = (st_characters snapshot)(i \<mapsto> (c', n + 1))"
    then have "dom cs = dom (st_characters st)" unfolding same by (simp add: insert_absorb domI)
    moreover from c l(7) have "\<forall>i c n. cs i = Some (c, n) \<longrightarrow> ch_id c = i \<and> character_valid c"
      unfolding same by (auto split: if_splits)
    ultimately show ?thesis by blast
  qed (use l(7) in \<open>simp_all add: same\<close>)
  have "st_session st' = submitted" "st_campaign_id st' = st_campaign_id st" "st_characters st' = cs"
    "st_events st' = st_events st @ [e]" "st_gameplay_revision st' = expected_revision + 1"
    by (simp_all add: t(4))
  then show ?thesis
    using l keys t(2,3) p(3,4) succ valid chars unfolding log_ok_def Let_def by simp
qed

definition history_ok :: "'j campaign_store list \<Rightarrow> bool" where
  "history_ok h \<longleftrightarrow> h \<noteq> [] \<and> (\<forall>a\<in>set h. log_ok a \<and> st_gameplay_revision a \<le> st_gameplay_revision (last h)) \<and>
     (\<forall>a\<in>set h. \<forall>b\<in>set h. st_gameplay_revision a = st_gameplay_revision b \<longrightarrow> committed_part a = committed_part b)"

lemma accepted_snapshot:
  assumes "history_ok h" "snapshot \<in> set h"
    and "prepare_commit actor audit_id submitted expected_revision e us correlation snapshot = Ok ()"
    and "transact actor submitted expected_revision e us receipt (last h) = Ok st"
  shows "committed_part snapshot = committed_part (last h)"
proof -
  from prepare_Ok(8) [OF assms(3)] have "st_gameplay_revision snapshot = expected_revision"
    by (auto simp: validate_session_successor_def)
  moreover from transact_Ok [OF assms(4)] have "st_gameplay_revision (last h) = expected_revision" by auto
  moreover have "last h \<in> set h" using assms(1) by (simp add: history_ok_def)
  ultimately show ?thesis using assms(1,2) unfolding history_ok_def by metis
qed

lemma history_ok_append:
  assumes "history_ok h" "log_ok st"
    and "st_gameplay_revision st = st_gameplay_revision (last h) \<and> committed_part st = committed_part (last h)
      \<or> st_gameplay_revision st = st_gameplay_revision (last h) + 1"
  shows "history_ok (h @ [st])"
proof -
  from assms(1) have h: "h \<noteq> []" "\<And>a. a \<in> set h \<Longrightarrow> log_ok a"
    "\<And>a. a \<in> set h \<Longrightarrow> st_gameplay_revision a \<le> st_gameplay_revision (last h)"
    "\<And>a b. a \<in> set h \<Longrightarrow> b \<in> set h \<Longrightarrow> st_gameplay_revision a = st_gameplay_revision b \<Longrightarrow>
      committed_part a = committed_part b" unfolding history_ok_def by blast+
  have same: "committed_part a = committed_part st"
    if "a \<in> set h" "st_gameplay_revision a = st_gameplay_revision st" for a
    using assms(3) h(3) [OF that(1)] h(4) [OF that(1) last_in_set [OF h(1)]] that(2) by auto
  have below: "st_gameplay_revision a \<le> st_gameplay_revision st" if "a \<in> set h" for a
    using h(3) [OF that] assms(3) by linarith
  have pairs: "committed_part a = committed_part b"
    if ab: "a \<in> set (h @ [st])" "b \<in> set (h @ [st])" "st_gameplay_revision a = st_gameplay_revision b" for a b
  proof -
    consider "a = st" "b = st" | "a = st" "b \<in> set h" | "a \<in> set h" "b = st" | "a \<in> set h" "b \<in> set h"
      using ab(1,2) by auto
    then show ?thesis
      by cases (use ab(3) h(4) [of a b] same [of a] same [of b] in simp_all)
  qed
  have "log_ok a \<and> st_gameplay_revision a \<le> st_gameplay_revision st" if "a \<in> set (h @ [st])" for a
  proof (cases "a = st")
    case True
    with assms(2) show ?thesis by simp
  next
    case False
    with that have "a \<in> set h" by simp
    with h(2) below show ?thesis by blast
  qed
  with pairs show ?thesis unfolding history_ok_def last_snoc by blast
qed

lemma history_invariant: "history json_ok h \<Longrightarrow> history_ok h"
proof (induction rule: history.induct)
  case (created actor s cs st)
  then show ?case by (simp add: history_ok_def create_log_ok)
next
  case (committed h snapshot actor audit_id submitted expected_revision e us receipt correlation r st)
  from committed(3) show ?case
  proof (cases rule: commit_cases)
    case (rejected x)
    have "log_ok (last h)" using committed.IH by (simp add: history_ok_def)
    with committed.IH rejected show ?thesis by (simp add: history_ok_append)
  next
    case accepted
    note same = accepted_snapshot [OF committed.IH committed(2) accepted(2,3)]
    have "log_ok (last h)" using committed.IH by (simp add: history_ok_def)
    from accepted_log_ok [OF this same accepted(2,3)] committed.IH show ?thesis
      by (simp add: history_ok_append)
  qed
next
  case (administered h st players lifecycle members)
  have "log_ok (last h)" using administered.IH by (simp add: history_ok_def)
  then have "log_ok st" by (simp add: administered(2) log_ok_def Let_def)
  with administered.IH administered(2) show ?case
    by (intro history_ok_append) (simp_all add: committed_part_def)
qed

section \<open>Experience\<close>

fun awarded :: "string \<Rightarrow> session_event list \<Rightarrow> nat" where
  "awarded i [] = 0"
| "awarded i (e # es) =
     (case se_payload e of
        ExperienceAwarded j w \<Rightarrow> if j = i then aw_awarded w + awarded i es else awarded i es
      | _ \<Rightarrow> awarded i es)"

lemma awarded_append [simp]: "awarded i (es @ fs) = awarded i es + awarded i fs"
  by (induction es) (simp_all split: event_payload.splits)

text \<open>The experience of a character before any award, by the events.\<close>

definition unawarded :: "'j campaign_store \<Rightarrow> string \<Rightarrow> nat option" where
  "unawarded st i =
     map_option (\<lambda>(c, n). ch_experience_points c - awarded i (st_events st)) (st_characters st i)"

definition audited :: "'j campaign_store \<Rightarrow> bool" where
  "audited st \<longleftrightarrow> (\<forall>i c n. st_characters st i = Some (c, n) \<longrightarrow>
     awarded i (st_events st) \<le> ch_experience_points c)"

lemma accepted_unawarded:
  assumes "audited st" "committed_part snapshot = committed_part st"
    and "prepare_commit actor audit_id submitted expected_revision e us correlation snapshot = Ok ()"
    and "transact actor submitted expected_revision e us receipt st = Ok st'"
  shows "audited st' \<and> unawarded st' = unawarded st"
proof -
  note p = prepare_Ok [OF assms(3)]
  from transact_Ok [OF assms(4)] obtain cs where t: "write_characters us (st_characters st) = Ok cs"
    "st_characters st' = cs" "st_events st' = st_events st @ [e]" by auto
  from assms(2) have same: "st_characters snapshot = st_characters st" by (simp add: committed_part_def)
  from award_update [OF p(6) p(9) t(1) [folded same]] show ?thesis
  proof (elim disjE exE conjE)
    assume cs: "cs = st_characters snapshot" and none: "\<forall>i w. se_payload e \<noteq> ExperienceAwarded i w"
    from none have "awarded i [e] = 0" for i by (simp split: event_payload.splits)
    with cs assms(1) t same show ?thesis by (simp add: audited_def unawarded_def fun_eq_iff)
  next
    fix i w c n c'
    assume c: "se_payload e = ExperienceAwarded i w" "st_characters snapshot i = Some (c, n)"
      "award_experience (aw_awarded w) c = (Ok w, c')" "cs = (st_characters snapshot)(i \<mapsto> (c', n + 1))"
    from c(3) have "ch_experience_points c' = ch_experience_points c + aw_awarded w"
      by (auto simp: award_experience_Ok_iff)
    moreover have "awarded j [e] = (if j = i then aw_awarded w else 0)" for j by (simp add: c(1))
    ultimately show ?thesis
      using assms(1) t c(2,4) same by (auto simp: audited_def unawarded_def fun_eq_iff split: if_splits)
  qed
qed

lemma history_audited:
  "history json_ok h \<Longrightarrow> \<forall>st\<in>set h. audited st \<and> unawarded st = unawarded (hd h)"
proof (induction rule: history.induct)
  case (created actor s cs st)
  then have "st_events st = []" by (auto simp: create_campaign_def)
  then show ?case by (simp add: audited_def)
next
  case (committed h snapshot actor audit_id submitted expected_revision e us receipt correlation r st)
  have ok: "history_ok h" by (rule history_invariant [OF committed(1)])
  then have h: "h \<noteq> []" "last h \<in> set h" by (simp_all add: history_ok_def)
  from committed(3) have "audited st \<and> unawarded st = unawarded (last h)"
  proof (cases rule: commit_cases)
    case (rejected x)
    with committed.IH h show ?thesis by blast
  next
    case accepted
    from accepted_unawarded [OF _ accepted_snapshot [OF ok committed(2) accepted(2,3)] accepted(2,3)]
      committed.IH h(2) show ?thesis by blast
  qed
  moreover have "unawarded (last h) = unawarded (hd h)" using committed.IH h(2) by blast
  ultimately have "audited st \<and> unawarded st = unawarded (hd h)" by simp
  with committed.IH h(1) show ?case unfolding set_append hd_append2 [OF h(1)] list.set by blast
next
  case (administered h st players lifecycle members)
  have h: "h \<noteq> []" using history_invariant [OF administered(1)] by (simp add: history_ok_def)
  have "st_characters st = st_characters (last h)" "st_events st = st_events (last h)"
    using administered.hyps(2) by simp_all
  then have same: "audited st = audited (last h)" "unawarded st = unawarded (last h)"
    unfolding audited_def unawarded_def [abs_def] by simp_all
  have "audited (last h) \<and> unawarded (last h) = unawarded (hd h)"
    using administered.IH last_in_set [OF h] by blast
  then have "audited st \<and> unawarded st = unawarded (hd h)" unfolding same .
  with administered.IH show ?case unfolding set_append hd_append2 [OF h] list.set by blast
qed

section \<open>A sample campaign\<close>

text \<open>A campaign is created, play begins, a character is awarded experience, the session ends.\<close>

definition sample_session :: "u64 \<Rightarrow> session_status \<Rightarrow> session_dto" where
  "sample_session n status =
     \<lparr>ss_schema_version = 1, ss_id = ''camp'', ss_ruleset = Srd5_1, ss_title = ''Runes'', ss_status = status,
      ss_character_ids = [''hero-1''], ss_created_at_unix_ms = 10, ss_updated_at_unix_ms = 10 + n,
      ss_last_event_sequence = n\<rparr>"

definition sample_event :: "u64 \<Rightarrow> event_payload \<Rightarrow> session_event" where
  "sample_event n p =
     \<lparr>se_schema_version = 1, se_session_id = ''camp'', se_sequence = n, se_occurred_at_unix_ms = 10 + n,
      se_actor = SystemActor, se_payload = p\<rparr>"

definition sample_award :: experience_award_summary where
  "sample_award = \<lparr>aw_awarded = 250, aw_previous_experience_points = 100, aw_experience_points = 350,
     aw_previous_level = Level 1, aw_level = Level 2, aw_levels_gained = [Level 2]\<rparr>"

definition sample_hero :: character where
  "sample_hero = novice\<lparr>ch_experience_points := 350, ch_level := Level 2\<rparr>"

definition sample_created :: "unit campaign_store" where
  "sample_created =
     \<lparr>st_campaign_id = ''camp'', st_owner_account_id = ''gm'', st_members = [''gm''], st_lifecycle = Open,
      st_gameplay_revision = 1, st_session = sample_session 0 SessionActive,
      st_characters = [''hero-1'' \<mapsto> (novice, 1)], st_players = None, st_events = [], st_receipts = []\<rparr>"

definition sample_open :: "unit campaign_store" where
  "sample_open = sample_created\<lparr>st_players := Some [''gm'']\<rparr>"

definition sample_awarded :: "unit campaign_store" where
  "sample_awarded = sample_open
     \<lparr>st_gameplay_revision := 2, st_session := sample_session 1 SessionActive,
      st_characters := [''hero-1'' \<mapsto> (sample_hero, 2)],
      st_events := [sample_event 1 (ExperienceAwarded ''hero-1'' sample_award)]\<rparr>"

definition sample_ended :: "unit campaign_store" where
  "sample_ended = sample_awarded
     \<lparr>st_gameplay_revision := 3, st_session := sample_session 2 SessionCompleted,
      st_events := st_events sample_awarded @ [sample_event 2 SessionEnded]\<rparr>"

lemma sample_texts: "is_valid_opaque_id ''camp''" "is_valid_opaque_id ''gm''" "is_valid_opaque_id ''hero-1''"
  "is_valid_opaque_id ''turn:1''" "is_valid_opaque_id ''turn:2''" "\<not> is_blank ''Runes''" "chars_count ''Runes'' = 5"
  by code_simp+

lemma sample_level: "level_from_experience 350 = Level 2" "level_from_experience 100 = Level 1"
  "levels_between (Level 1) (Level 2) = [Level 2]" 
  by (simp_all add: level_from_experience_def xp_thresholds_def) code_simp

lemma sample_session_valid: "n \<in> {0, 1, 2} \<Longrightarrow> repo_validate_session (sample_session n status) = Ok ()"
  by (auto simp: repo_validate_session_def session_validate_def sample_session_def sample_texts
      session_schema_version_def max_session_title_chars_def max_party_characters_def)

lemma sample_awarding: "award_experience 250 novice = (Ok sample_award, sample_hero)"
  using novice_valid
  by (simp add: award_experience_Ok_iff sample_award_def sample_hero_def u32_max_def)
    (simp add: novice_def sample_level [unfolded One_nat_def])

lemma sample_hero_valid: "character_valid sample_hero"
  using character_valid_award [OF novice_valid, of 350] by (simp add: sample_level sample_hero_def)

lemma sample_creates: "create_campaign ''gm'' (sample_session 0 SessionActive) [novice] = Ok sample_created"
  using sample_session_valid [of 0 SessionActive] novice_valid
  by (simp add: create_campaign_def validate_account_id_def validate_opaque_def ensure_def sample_texts
      validate_initial_roster_def)
    (simp add: sample_session_def novice_def sample_created_def)

lemma sample_loads:
  assumes "n \<in> {0, 1}" "st_session st = sample_session n SessionActive" "st_campaign_id st = ''camp''"
    "st_owner_account_id st = ''gm''" "st_lifecycle st = Open"
  shows "load_campaign_session ''gm'' ''camp'' st = Ok (Some (sample_session n SessionActive, st_gameplay_revision st))"
proof -
  have "repo_validate_session (sample_session n SessionActive) = Ok ()"
    using assms(1) by (intro sample_session_valid) auto
  then show ?thesis
    using assms(2-)
  by (simp del: One_nat_def add: load_campaign_session_def validate_stored_session_def validate_account_id_def validate_opaque_def
      ensure_def sample_texts accessible_def)
    (simp del: One_nat_def add: sample_session_def session_schema_version_def)
qed

lemma sample_awards:
  "commit_session_event (\<lambda>_. True) ''gm'' ''turn:1'' (sample_session 1 SessionActive) 1
     (sample_event 1 (ExperienceAwarded ''hero-1'' sample_award)) [\<lparr>cu_character = sample_hero, cu_expected_revision = 1\<rparr>]
     None None sample_open sample_open = (Ok 2, sample_awarded)"
proof -
  let ?e = "sample_event 1 (ExperienceAwarded ''hero-1'' sample_award)"
  have e: "repo_validate_event ?e = Ok ()"
    by (simp del: One_nat_def add: repo_validate_event_def event_validate_def payload_validate_def sample_event_def sample_texts
        session_schema_version_def ensure_def award_validate_def sample_award_def u32_max_def
        sample_level sample_level(3) [unfolded One_nat_def])
  have c: "load_character ''gm'' ''camp'' ''hero-1'' sample_open = Ok (Some (novice, 1))"
    using novice_valid
    by (simp del: One_nat_def add: load_character_def validate_account_id_def validate_opaque_def ensure_def sample_texts
        accessible_def sample_open_def sample_created_def)
      (simp del: One_nat_def add: novice_def)
  have id: "ch_id sample_hero = ''hero-1''" by (simp del: One_nat_def add: sample_hero_def novice_def)
  have u: "validate_update_set (sample_session 1 SessionActive) ?e [\<lparr>cu_character = sample_hero, cu_expected_revision = 1\<rparr>] = Ok ()"
    using sample_hero_valid by (simp del: One_nat_def add: validate_update_set_def id sample_event_def sample_session_def ensure_def)
  have v: "validate_character_successor (novice, 1) \<lparr>cu_character = sample_hero, cu_expected_revision = 1\<rparr> ?e = Ok ()"
    using sample_awarding by (simp del: One_nat_def add: validate_character_successor_def Let_def id sample_event_def ensure_def sample_award_def)
  have l: "load_campaign_session ''gm'' ''camp'' sample_open = Ok (Some (sample_session 0 SessionActive, 1))"
    using sample_loads [of 0 sample_open] by (simp del: One_nat_def add: sample_open_def sample_created_def)
  have s: "validate_session_successor 1 (sample_session 0 SessionActive) (sample_session 1 SessionActive) 1 ?e ''turn:1'' = Ok ()"
    by (simp del: One_nat_def add: validate_session_successor_def sample_session_def sample_event_def ensure_def checked_add_def u64_max_def)
  have f: "ss_id (sample_session n status) = ''camp''" "ss_last_event_sequence (sample_session n status) = n"
    "se_session_id ?e = ''camp''" "se_sequence ?e = 1" "\<not> event_references_unknown (sample_session 1 SessionActive) ?e" for n status
    by (simp_all del: One_nat_def add: sample_session_def sample_event_def event_references_unknown_def event_character_def)
  have "prepare_commit ''gm'' ''turn:1'' (sample_session 1 SessionActive) 1 ?e
    [\<lparr>cu_character = sample_hero, cu_expected_revision = 1\<rparr>] None sample_open = Ok ()"
    using sample_session_valid [of 1 SessionActive]
    by (simp del: One_nat_def add: prepare_commit_def Let_def e u l s f c v id sample_texts validate_account_id_def validate_opaque_def ensure_def
        checked_add_def u64_max_def i64_max_def)
  moreover have "transact ''gm'' (sample_session 1 SessionActive) 1 ?e
    [\<lparr>cu_character = sample_hero, cu_expected_revision = 1\<rparr>] None sample_open = Ok sample_awarded"
    by (simp del: One_nat_def add: transact_def f ensure_def id)
     (simp del: One_nat_def add: sample_open_def sample_created_def sample_awarded_def accessible_def numeral_2_eq_2)
  ultimately show ?thesis by (simp del: One_nat_def add: commit_session_event_def)
qed

lemma sample_ends:
  "commit_session_event (\<lambda>_. True) ''gm'' ''turn:2'' (sample_session 2 SessionCompleted) 2
     (sample_event 2 SessionEnded) [] None None sample_awarded sample_awarded = (Ok 3, sample_ended)"
proof -
  let ?e = "sample_event 2 SessionEnded"
  have e: "repo_validate_event ?e = Ok ()"
    by (simp del: One_nat_def add: repo_validate_event_def event_validate_def payload_validate_def sample_event_def sample_texts
        session_schema_version_def ensure_def)
  have l: "load_campaign_session ''gm'' ''camp'' sample_awarded = Ok (Some (sample_session 1 SessionActive, 2))"
    using sample_loads [of 1 sample_awarded] by (simp del: One_nat_def add: sample_awarded_def sample_open_def sample_created_def)
  have s: "validate_session_successor 2 (sample_session 1 SessionActive) (sample_session 2 SessionCompleted) 2 ?e ''turn:2'' = Ok ()"
    by (simp del: One_nat_def add: validate_session_successor_def sample_session_def sample_event_def ensure_def checked_add_def u64_max_def)
  have f: "ss_id (sample_session n status) = ''camp''" "ss_last_event_sequence (sample_session n status) = n"
    "se_session_id ?e = ''camp''" "se_sequence ?e = 2" "\<not> event_references_unknown (sample_session 2 SessionCompleted) ?e"
    "validate_update_set (sample_session 2 SessionCompleted) ?e [] = Ok ()" for n status
    by (simp_all del: One_nat_def add: sample_session_def sample_event_def event_references_unknown_def event_character_def
        validate_update_set_def ensure_def)
  have "prepare_commit ''gm'' ''turn:2'' (sample_session 2 SessionCompleted) 2 ?e [] None sample_awarded = Ok ()"
    using sample_session_valid [of 2 SessionCompleted]
    by (simp del: One_nat_def add: prepare_commit_def e l s f sample_texts validate_account_id_def validate_opaque_def ensure_def
        checked_add_def u64_max_def i64_max_def)
  moreover have "transact ''gm'' (sample_session 2 SessionCompleted) 2 ?e [] None sample_awarded = Ok sample_ended"
    by (simp del: One_nat_def add: transact_def f ensure_def)
     (simp del: One_nat_def add: sample_open_def sample_created_def sample_awarded_def sample_ended_def accessible_def)
  ultimately show ?thesis by (simp del: One_nat_def add: commit_session_event_def)
qed

lemma sample_history:
  "history (\<lambda>_. True) [sample_created]" "history (\<lambda>_. True) [sample_created, sample_open]"
  "history (\<lambda>_. True) [sample_created, sample_open, sample_awarded]"
  "history (\<lambda>_. True) [sample_created, sample_open, sample_awarded, sample_ended]"
proof -
  show a: "history (\<lambda>_. True) [sample_created]" by (rule history.created [OF sample_creates])
  have "sample_open = (last [sample_created])\<lparr>st_members := [''gm''], st_lifecycle := Open, st_players := Some [''gm'']\<rparr>"
    by (simp add: sample_open_def sample_created_def)
  from history.administered [OF a this] show b: "history (\<lambda>_. True) [sample_created, sample_open]" by simp
  from history.committed [OF b, of sample_open] sample_awards
  show c: "history (\<lambda>_. True) [sample_created, sample_open, sample_awarded]" by simp
  from history.committed [OF c, of sample_awarded] sample_ends
  show "history (\<lambda>_. True) [sample_created, sample_open, sample_awarded, sample_ended]" by simp
qed

section \<open>Properties\<close>

text \<open>C3: In every state a campaign's store goes through - created, committed to from any earlier snapshot by
  any requests in any order, its memberships, lifecycle and play session administered in between - the log
  is sound: the session passes \<open>validate\<close>, the events are numbered 1, 2, ... without a gap or a
  repetition, each passes \<open>validate\<close> and names the session, the session's last sequence and the
  gameplay revision count them, the campaign is completed exactly when an event ended it, no two receipts
  answer the same key, and the stored characters are exactly the declared party, each valid.
\<close>

theorem campaign_log_is_sound:
  assumes "history json_ok h" "st \<in> set h"
  shows "log_ok st"
  using history_invariant [OF assms(1)] assms(2) by (simp add: history_ok_def)

theorem campaign_log_is_sound_witness: "log_ok sample_ended \<and> length (st_events sample_ended) = 2"
  using campaign_log_is_sound [OF sample_history(4), of sample_ended]
  by (simp add: sample_ended_def sample_awarded_def)

text \<open>C7: No lost update: a commit that is accepted was prepared against a snapshot whose session, characters,
  events and receipts are those the transaction finds, whatever happened between the two reads; it advances
  the gameplay revision by one and appends exactly its own event.
\<close>

theorem stale_snapshot_never_writes:
  assumes "history json_ok h" "snapshot \<in> set h"
    and "commit_session_event json_ok actor audit_id submitted expected_revision e us receipt correlation
      snapshot (last h) = (Ok n, st)"
  shows "committed_part snapshot = committed_part (last h) \<and>
    st_gameplay_revision st = st_gameplay_revision (last h) + 1 \<and> st_events st = st_events (last h) @ [e]"
proof -
  have ok: "history_ok h" by (rule history_invariant [OF assms(1)])
  from assms(3) obtain "prepare_commit actor audit_id submitted expected_revision e us correlation snapshot = Ok ()"
    "transact actor submitted expected_revision e us receipt (last h) = Ok st"
    by (cases rule: commit_cases) auto
  from accepted_snapshot [OF ok assms(2) this] transact_Ok [OF this(2)] show ?thesis by auto
qed

theorem stale_snapshot_never_writes_witness:
  "st_gameplay_revision sample_ended = st_gameplay_revision sample_awarded + 1 \<and>
   st_events sample_ended = st_events sample_awarded @ [sample_event 2 SessionEnded]"
  using stale_snapshot_never_writes [OF sample_history(3), of sample_awarded] sample_ends by simp

text \<open>Once an event has ended a campaign's session, every commit is refused, from any snapshot, with any
  event and receipt, and leaves the store unchanged.
\<close>

theorem completed_campaign_is_final:
  assumes "history json_ok h" "snapshot \<in> set h" "SessionEnded \<in> se_payload ` set (st_events (last h))"
  shows "\<exists>x. commit_session_event json_ok actor audit_id submitted expected_revision e us receipt correlation
    snapshot (last h) = (Err x, last h)"
proof -
  have ok: "history_ok h" by (rule history_invariant [OF assms(1)])
  then have "log_ok (last h)" by (simp add: history_ok_def)
  with assms(3) have ended: "ss_status (st_session (last h)) = SessionCompleted"
    unfolding log_ok_def Let_def by (metis (full_types) imageE)
  obtain r st where c: "commit_session_event json_ok actor audit_id submitted expected_revision e us receipt
    correlation snapshot (last h) = (r, st)" by fastforce
  then show ?thesis
  proof (cases rule: commit_cases)
    case (rejected x)
    with c show ?thesis by simp
  next
    case accepted
    from accepted_snapshot [OF ok assms(2) accepted(2,3)] ended
    have "ss_status (st_session snapshot) = SessionCompleted" by (simp add: committed_part_def)
    with prepare_Ok(8) [OF accepted(2)] show ?thesis by (auto simp: validate_session_successor_def)
  qed
qed

theorem completed_campaign_is_final_witness:
  "\<exists>x. commit_session_event (\<lambda>_. True) ''gm'' ''turn:2'' (sample_session 2 SessionCompleted) 2
     (sample_event 2 SessionEnded) [] None None sample_ended sample_ended = (Err x, sample_ended)"
  using completed_campaign_is_final [OF sample_history(4), of sample_ended]
  by (simp add: sample_ended_def sample_event_def)

text \<open>C15: No experience without an audited award: in every state of a campaign a character's experience is what
  it had when the campaign was created plus the sum of the awards its events record for it.
\<close>

theorem experience_is_audited:
  assumes "history json_ok h" "st \<in> set h"
    and "st_characters (hd h) i = Some (c0, n0)" "st_characters st i = Some (c, n)"
  shows "ch_experience_points c = ch_experience_points c0 + awarded i (st_events st)"
proof -
  from history_audited [OF assms(1)] assms(2) have "audited st" "unawarded st = unawarded (hd h)" by auto
  moreover have "st_events (hd h) = []"
    using assms(1)
  proof (induction rule: history.induct)
    case (created actor s cs st)
    then show ?case by (auto simp: create_campaign_def)
  qed (auto dest!: history_invariant simp: history_ok_def)
  with assms(3) have "unawarded (hd h) i = Some (ch_experience_points c0)" by (simp add: unawarded_def)
  moreover from assms(4) have "unawarded st i = Some (ch_experience_points c - awarded i (st_events st))"
    by (simp add: unawarded_def)
  moreover from \<open>audited st\<close> assms(4) have "awarded i (st_events st) \<le> ch_experience_points c"
    by (simp add: audited_def)
  ultimately show ?thesis by simp
qed

theorem experience_is_audited_witness:
  "ch_experience_points sample_hero = 350 \<and> ch_experience_points novice = 100 \<and>
   awarded ''hero-1'' (st_events sample_awarded) = 250"
proof -
  have n: "ch_experience_points sample_hero = 350" "ch_experience_points novice = 100"
    by (simp_all add: sample_hero_def novice_def)
  have "ch_experience_points sample_hero = ch_experience_points novice + awarded ''hero-1'' (st_events sample_awarded)"
    by (rule experience_is_audited [OF sample_history(3), of _ _ _ 1 _ 2])
      (simp_all add: sample_awarded_def sample_created_def)
  with n show ?thesis by simp
qed

end
