(* ===== verification/Encounter_Replay.thy ===== *)
theory Encounter_Replay
  imports Replay_Logic Encounter
begin

text \<open>
  Every command of an encounter can be replayed from the dice in its own rolls: the dice that the
  resolution of a command asked for are, in order, the individual dice of the rolls it recorded, and
  any source that shows them again leads to the same resolution.
\<close>

section \<open>The dice of the rules matrix\<close>

definition faces_of :: "raw_roll_facts list \<Rightarrow> transcript" where
  "faces_of rolls = concat (map (\<lambda>r. map (\<lambda>x. (rd_sides x, rd_value x)) (rf_individual_dice r)) rolls)"

lemma faces_of_append [simp]: "faces_of (rs @ ss) = faces_of rs @ faces_of ss"
  by (simp add: faces_of_def)

lemma faces_of_Nil [simp]: "faces_of [] = []"
  by (simp add: faces_of_def)

definition d20_faces :: "d20_roll \<Rightarrow> transcript" where
  "d20_faces r = (20, d20_first r) # (case d20_second r of None \<Rightarrow> [] | Some v \<Rightarrow> [(20, v)])"

definition damage_faces :: "damage_dice_resolution \<Rightarrow> transcript" where
  "damage_faces x = map (Pair (ddr_sides x)) (ddr_dice x)"

definition outcome_faces :: "spell_outcome \<Rightarrow> transcript" where
  "outcome_faces x =
     (case so_attack x of None \<Rightarrow> [] | Some a \<Rightarrow> d20_faces (sar_roll a)) @
     concat (map damage_faces (so_damage_rolls x))"

lemma follows_validated:
  "follows roll roll' d (roll_validated roll n d) (roll_validated roll' n) (\<lambda>v xs. xs = [(n, v)] \<and> 1 \<le> v \<and> v \<le> n)"
  by (auto simp: follows_def roll_validated_def split: prod.splits if_splits
      intro!: exI [of _ "[(n, fst (roll n d))]"])

lemma resolve_d20_steps:
  "resolve_d20 roll c s =
     and_then_st (roll_validated roll 20 s) (\<lambda>f s.
       if effective_mode c = NormalRoll
       then (Ok \<lparr>d20_mode = effective_mode c, d20_first = as_u8 f, d20_second = None,
               d20_selected = as_u8 f\<rparr>, s)
       else and_then_st (roll_validated roll 20 s) (\<lambda>v s.
         (Ok \<lparr>d20_mode = effective_mode c, d20_first = as_u8 f, d20_second = Some (as_u8 v),
               d20_selected = (if effective_mode c = Advantage then max (as_u8 f) (as_u8 v)
                               else min (as_u8 f) (as_u8 v))\<rparr>, s)))"
  by (auto simp: resolve_d20_def Let_def split: prod.splits result.splits)

lemma follows_d20:
  "follows roll roll' d (resolve_d20 roll c d) (resolve_d20 roll' c) (\<lambda>r xs. xs = d20_faces r)"
  unfolding resolve_d20_steps [abs_def]
  by (intro follows_rules follows_bind [OF follows_validated]) (auto simp: d20_faces_def as_u8_def)

lemma follows_map_err:
  "follows roll roll' d p q Q \<Longrightarrow>
   follows roll roll' d (apfst (map_err f) p) (\<lambda>e. apfst (map_err f) (q e)) Q"
  unfolding follows_def
proof (intro allI impI)
  fix x d'
  assume f: "\<forall>x d'. p = (Ok x, d') \<longrightarrow>
      (\<exists>xs. asks roll xs d d' \<and> Q x xs \<and> (\<forall>e e'. asks roll' xs e e' \<longrightarrow> q e = (Ok x, e')))"
    and "apfst (map_err f) p = (Ok x, d')"
  then have "p = (Ok x, d')" by (cases p; cases "fst p") auto
  with f obtain xs where "asks roll xs d d'" "Q x xs" "\<forall>e e'. asks roll' xs e e' \<longrightarrow> q e = (Ok x, e')"
    by blast
  then show "\<exists>xs. asks roll xs d d' \<and> Q x xs \<and>
      (\<forall>e e'. asks roll' xs e e' \<longrightarrow> apfst (map_err f) (q e) = (Ok x, e'))"
    by (intro exI [of _ xs]) auto
qed

lemma follows_roll_damage:
  "follows roll roll' d (roll_damage n sides roll d) (roll_damage n sides roll') (\<lambda>vs xs. xs = map (Pair sides) vs)"
proof (induction n arbitrary: d)
  case 0
  show ?case by (simp add: follows_def exI [of _ "[]"])
next
  case (Suc n)
  show ?case
    unfolding follows_def
  proof (intro allI impI)
    fix vs d'
    assume "roll_damage (Suc n) sides roll d = (Ok vs, d')"
    then obtain v d1 ws where v: "roll sides d = (v, d1)" "\<not> v > u8_max" "1 \<le> v" "v \<le> sides"
      "roll_damage n sides roll d1 = (Ok ws, d')" "vs = v # ws"
      by (auto simp: Let_def split: prod.splits if_splits)
    from followsD [OF Suc.IH v(5)] obtain xs where xs: "asks roll xs d1 d'" "xs = map (Pair sides) ws"
      "\<And>e e'. asks roll' xs e e' \<Longrightarrow> roll_damage n sides roll' e = (Ok ws, e')" by metis
    show "\<exists>xs. asks roll xs d d' \<and> xs = map (Pair sides) vs \<and>
        (\<forall>e e'. asks roll' xs e e' \<longrightarrow> roll_damage (Suc n) sides roll' e = (Ok vs, e'))"
      using v xs by (intro exI [of _ "(sides, v) # xs"]) (auto simp: Let_def split: prod.splits)
  qed
qed

lemma follows_damage_dice:
  "follows roll roll' d (resolve_damage_dice n sides k critical roll d) (resolve_damage_dice n sides k critical roll')
     (\<lambda>x xs. xs = damage_faces x)"
  unfolding resolve_damage_dice_def [abs_def] Let_def
  by (intro follows_rules follows_bind [OF follows_roll_damage]) (auto simp: damage_faces_def split: if_splits)

section \<open>Spells\<close>

lemma follows_fire_bolt:
  "follows roll roll' d (cast_fire_bolt sc es t c roll d) (cast_fire_bolt sc es t c roll')
     (\<lambda>x xs. xs = outcome_faces x)"
  unfolding cast_fire_bolt_def [abs_def] Let_def lift_core_def [abs_def]
  by (intro follows_rules follows_bind [OF follows_map_err [OF follows_d20]] follows_bind [OF follows_damage_dice])
    (auto simp: outcome_faces_def no_outcome_def)

lemma follows_light:
  "lt_hostile_carrier t = None \<Longrightarrow>
   follows roll roll' d (cast_light sc t roll d) (cast_light sc t roll') (\<lambda>x xs. xs = outcome_faces x)"
  unfolding cast_light_def [abs_def] Let_def
  by (auto intro!: follows_rules simp: outcome_faces_def no_outcome_def)

lemma follows_darts:
  "follows roll roll' d (cast_darts ts roll d) (cast_darts ts roll')
     (\<lambda>x xs. xs = concat (map damage_faces (fst x)))"
proof (induction ts arbitrary: d)
  case Nil
  show ?case by (simp add: follows_def exI [of _ "[]"])
next
  case (Cons t ts)
  have eq: "cast_darts (t # ts) r = (\<lambda>d. and_then_st (resolve_damage_dice 1 4 1 False r d) (\<lambda>damage d.
     and_then_st
       ((if mm_shielded t then Ok (MagicMissileNegated (mm_target_id t))
         else damage_effect (mm_target_id t) Force (mm_damage_profile t) damage), d) (\<lambda>e d.
     and_then_st (cast_darts ts r d) (\<lambda>x d. (Ok (damage # fst x, e # snd x), d)))))" for r :: "'x dice"
    by (simp add: fun_eq_iff case_prod_unfold)
  show ?case unfolding eq
    by (intro follows_rules follows_bind [OF follows_damage_dice] follows_bind [OF Cons.IH]) auto
qed

lemma follows_cast_sleep:
  "follows roll roll' d (cast_sleep sc cs roll d) (cast_sleep sc cs roll') (\<lambda>x xs. xs = outcome_faces x)"
  unfolding cast_sleep_def [abs_def]
  by (intro follows_rules follows_bind [OF follows_damage_dice]) (auto simp: outcome_faces_def no_outcome_def)

definition carried :: "supported_spell_intent \<Rightarrow> bool" where
  "carried i \<longleftrightarrow> (case i of CastLight t \<Rightarrow> lt_hostile_carrier t \<noteq> None | _ \<Rightarrow> False)"

lemma cast_effects_eqs:
  "cast_effects sc es (CastFireBolt t c) r = cast_fire_bolt sc es t c r"
  "cast_effects sc es (CastLight l) r = cast_light sc l r"
  "cast_effects sc es (CastSleep p cs) r = cast_sleep sc cs r"
  "cast_effects sc es (CastMagicMissile x y z) r = (\<lambda>d. and_then_st (cast_darts [x, y, z] r d)
      (\<lambda>x d. (Ok (no_outcome\<lparr>so_damage_rolls := fst x, so_effects := snd x\<rparr>), d)))"
  by (simp_all add: fun_eq_iff case_prod_unfold)

lemma follows_effects:
  assumes "\<not> carried i"
  shows "follows roll roll' d (cast_effects sc es i roll d) (cast_effects sc es i roll') (\<lambda>x xs. xs = outcome_faces x)"
proof (cases i)
  case (CastFireBolt t c)
  show ?thesis unfolding CastFireBolt cast_effects_eqs by (rule follows_fire_bolt)
next
  case (CastLight l)
  with assms have l: "lt_hostile_carrier l = None" by (simp add: carried_def)
  show ?thesis unfolding CastLight cast_effects_eqs by (rule follows_light [OF l])
next
  case (CastMagicMissile a b c)
  show ?thesis unfolding CastMagicMissile cast_effects_eqs
    by (intro follows_rules follows_bind [OF follows_darts]) (auto simp: outcome_faces_def no_outcome_def)
next
  case (CastSleep a b)
  show ?thesis unfolding CastSleep cast_effects_eqs by (rule follows_cast_sleep)
qed (auto simp: follows_def outcome_faces_def no_outcome_def intro!: exI [of _ "[]"])

text \<open>An operation of the rules matrix returns its states next to the result.\<close>

definition paired :: "('e, 'a) result \<times> 'st \<times> 's \<Rightarrow> ('e, 'a \<times> 'st) result \<times> 's" where
  "paired p = (case p of (r, st, d) \<Rightarrow> (case r of Err e \<Rightarrow> Err e | Ok x \<Rightarrow> Ok (x, st), d))"

lemma paired_step:
  "(case p of (Err e, st, d) \<Rightarrow> (Err (f e), d) | (Ok x, st, d) \<Rightarrow> k x st d) =
   and_then_st (apfst (map_err f) (paired p)) (\<lambda>y d. k (fst y) (snd y) d)"
  by (cases p; cases "fst p") (auto simp: paired_def)

lemma cast_live_steps:
  "cast_live rules sc eco intent roll d =
   and_then_st (map_err map_rules_resolution_error (prepare_spell sc condition_set_empty components_available
       intent (hrp_runtime_resources rules, eco)), d) (\<lambda>y d.
   and_then_st (apfst (map_err map_rules_resolution_error) (cast_effects sc (fst y) intent roll d)) (\<lambda>x d.
     (and_then (map_err map_rules_resolution_error (resources_validate (fst (snd y)))) (\<lambda>_.
        Ok (x, rules\<lparr>hrp_runtime_resources := fst (snd y)\<rparr>, snd (snd y))), d)))"
proof (cases "prepare_spell sc condition_set_empty components_available intent (hrp_runtime_resources rules, eco)")
  case (Err e)
  then show ?thesis by (simp add: cast_live_def resolve_supported_spell_def)
next
  case (Ok y)
  obtain x d1 where c: "cast_effects sc (fst y) intent roll d = (x, d1)" by fastforce
  show ?thesis
    by (cases x; cases "resources_validate (fst (snd y))")
      (simp_all add: Ok c cast_live_def resolve_supported_spell_def case_prod_unfold)
qed

lemma follows_cast_live:
  "\<not> carried i \<Longrightarrow> follows roll roll' d (cast_live rules sc eco i roll d) (cast_live rules sc eco i roll')
     (\<lambda>x xs. xs = outcome_faces (fst x))"
  unfolding cast_live_steps [abs_def]
  by (intro follows_rules follows_bind [OF follows_map_err [OF follows_effects]]) auto

section \<open>Class features and rests\<close>

lemma second_wind_one_die:
  assumes "paired (use_second_wind roll d st) = (Ok x, d')"
  shows "asks roll [(10, sw_healing_roll (fst x))] d d'"
    "asks roll' [(10, sw_healing_roll (fst x))] e e' \<Longrightarrow> paired (use_second_wind roll' e st) = (Ok x, e')"
proof -
  obtain res eco hp where st: "st = (res, eco, hp)" by (cases st)
  obtain v d1 where v: "roll 10 d = (v, d1)" by fastforce
  let ?pre = "and_then (resources_validate res) (\<lambda>_. and_then (health_validate hp) (\<lambda>_.
          if rs_class res \<noteq> Fighter then Err (unsupported_error ''feature.second-wind'')
          else if \<not> bonus_action_available eco
          then Err (InvalidIntent (ResourceFault SecondWindNeedsBonusAction))
          else case rs_second_wind res of
            None \<Rightarrow> Err (InvalidIntent (ResourceFault SecondWindUnavailable))
          | Some pool \<Rightarrow>
              if ctr_current pool = 0 then Err (InvalidIntent (ResourceFault SecondWindUnavailable))
              else Ok pool))"
  obtain pool where pool: "?pre = Ok pool"
    using assms by (cases ?pre) (simp_all add: use_second_wind_def st paired_def Let_def)
  obtain sp pool' where sp: "counter_spend pool = (sp, pool')" by fastforce
  obtain he hp' where he: "apply_healing (v + supported_level_value (rs_level res)) hp = (he, hp')" by fastforce
  obtain ec eco' where ec: "economy_spend BonusAction eco = (ec, eco')" by fastforce
  note run = use_second_wind_def st Let_def pool sp he ec paired_def
  have 1: "\<not> v > u8_max" "1 \<le> v \<and> v \<le> 10" using assms by (auto simp: run v split: if_splits)
  obtain a where a: "sp = Ok a" using assms 1 by (cases sp) (simp_all add: run v)
  obtain b where b: "he = Ok b" using assms 1 a by (cases he) (simp_all add: run v)
  obtain c where c: "ec = Ok c" using assms 1 a b by (cases ec) (simp_all add: run v)
  show "asks roll [(10, sw_healing_roll (fst x))] d d'" using assms 1 by (auto simp: run v a b c)
  show "paired (use_second_wind roll' e st) = (Ok x, e')" if "asks roll' [(10, sw_healing_roll (fst x))] e e'"
  proof -
    have "sw_healing_roll (fst x) = v" using assms 1 by (auto simp: run v a b c)
    with that have "roll' 10 e = (v, e')" by (simp add: prod_eq_iff)
    with assms 1 show ?thesis by (simp add: run v a b c)
  qed
qed

lemma follows_second_wind:
  "follows roll roll' d (paired (use_second_wind roll d st)) (\<lambda>e. paired (use_second_wind roll' e st))
     (\<lambda>x xs. xs = [(10, sw_healing_roll (fst x))])"
  unfolding follows_def using second_wind_one_die by fast

lemma hit_die_one_die:
  assumes "paired (spend_hit_die con roll d st) = (Ok x, d')"
  shows "\<exists>n. hit_die_sides (fst st) = Ok n \<and> hd_hit_die (fst x) = ctr_kind (rs_hit_dice (fst st)) \<and>
    asks roll [(n, hd_roll (fst x))] d d' \<and>
    (\<forall>e e'. asks roll' [(n, hd_roll (fst x))] e e' \<longrightarrow> paired (spend_hit_die con roll' e st) = (Ok x, e'))"
proof -
  obtain res hp where st: "st = (res, hp)" by (cases st)
  obtain n where n: "validate_hit_die_spend res hp con = Ok n"
    using assms by (cases "validate_hit_die_spend res hp con") (simp_all add: spend_hit_die_def st paired_def)
  then have sides: "hit_die_sides res = Ok n" by (auto simp: validate_hit_die_spend_def split: if_splits)
  then have "n \<le> 12" by (auto simp: hit_die_sides_def split: resource_kind.splits)
  obtain v d1 where v: "roll n d = (v, d1)" by fastforce
  let ?t = "nat (max (int v + con) 0)"
  let ?res' = "res\<lparr>rs_hit_dice := (rs_hit_dice res)\<lparr>ctr_current := ctr_current (rs_hit_dice res) - 1\<rparr>\<rparr>"
  obtain h hp' where h: "(if ?t = 0 then (Ok (0, []), hp) else and_then_st (apply_healing ?t hp)
      (\<lambda>x hp. (Ok (hres_effective_healing x, hres_condition_changes x), hp))) = (h, hp')" by fastforce
  obtain o' where o': "and_then h (\<lambda>x. and_then (resources_validate ?res') (\<lambda>_. and_then (health_validate hp') (\<lambda>_. Ok x))) = o'"
    by blast
  define F where "F y = (\<lparr>hd_hit_die = ctr_kind (rs_hit_dice ?res'), hd_roll = as_u8 v,
      hd_constitution_modifier = con, hd_healing_total = ?t, hd_hit_points_recovered = fst y,
      hd_condition_changes = snd y, hd_resulting_health = hp', hd_resulting_resources = ?res'\<rparr>, ?res', hp')" for y
  have main: "paired (spend_hit_die con r e st) =
    (if 1 \<le> v \<and> v \<le> n then case o' of Err f \<Rightarrow> Err f | Ok y \<Rightarrow> Ok (F y) else Err (CoreError (InvalidDieRoll n v)), e1)"
    if "r n e = (v, e1)" for r :: "'x dice" and e e1
    unfolding spend_hit_die_def st Let_def prod.case n and_then_st.simps that h o' paired_def
    by (cases o') (simp_all add: F_def case_prod_unfold)
  have x: "1 \<le> v \<and> v \<le> n" "d' = d1" "hd_roll (fst x) = v" "hd_hit_die (fst x) = ctr_kind (rs_hit_dice res)"
    using assms \<open>n \<le> 12\<close> unfolding main [of roll d d1, OF v] F_def
    by (auto simp: as_u8_def split: if_splits result.splits)
  have "paired (spend_hit_die con roll' e st) = (Ok x, e')" if "asks roll' [(n, v)] e e'" for e e'
  proof -
    from that have "roll' n e = (v, e')" by (simp add: prod_eq_iff)
    from main [of roll' e e', OF this] main [of roll d d1, OF v] assms show ?thesis by simp
  qed
  with sides x v show ?thesis by (auto simp: st)
qed

lemma follows_hit_die:
  "follows roll roll' d (paired (spend_hit_die con roll d st)) (\<lambda>e. paired (spend_hit_die con roll' e st))
     (\<lambda>x xs. \<exists>n. hit_die_sides (fst st) = Ok n \<and> hd_hit_die (fst x) = ctr_kind (rs_hit_dice (fst st)) \<and>
        xs = [(n, hd_roll (fst x))])"
  unfolding follows_def using hit_die_one_die [of con roll d st _ _ roll'] by blast

lemma idle_rest:
  assumes "sq_hit_dice_to_spend q = 0"
  shows "paired (take_short_rest con q roll d st) =
    (fst (paired (take_short_rest con q (\<lambda>_ u. (0, u)) () st)), d)"
proof -
  obtain res hp where st: "st = (res, hp)" by (cases st)
  let ?pre = "and_then (resources_validate res) (\<lambda>_. and_then (health_validate hp) (\<lambda>_.
          if hs_vital_status hp = Dead \<or> sq_hit_dice_to_spend q > ctr_current (rs_hit_dice res)
          then Err (InvalidIntent (ResourceFault ShortRestInvalid))
          else if \<not> (-5 \<le> con \<and> con \<le> 10)
          then Err (InvalidIntent (ResourceFault ConstitutionRange))
          else and_then (hit_die_sides res) (\<lambda>_.
               validate_arcane_recovery_request res (sq_use_arcane_recovery q))))"
  let ?post = "and_then
       (if sq_use_arcane_recovery q then recover_slot (restore_fighter_pools res) else Ok (restore_fighter_pools res))
       (\<lambda>res2. and_then (resources_validate res2) (\<lambda>_. and_then (health_validate hp) (\<lambda>_. Ok res2)))"
  show ?thesis
    by (cases ?pre; cases ?post)
      (simp_all add: take_short_rest_def st assms paired_def Let_def del: and_then_Ok_iff and_then_Err_iff)
qed

lemma follows_idle_rest:
  "sq_hit_dice_to_spend q = 0 \<Longrightarrow>
   follows roll roll' d (paired (take_short_rest con q roll d st)) (\<lambda>e. paired (take_short_rest con q roll' e st))
     (\<lambda>x xs. xs = [])"
  using idle_rest [of q con roll d st] idle_rest [of q con roll' _ st]
  by (auto simp: follows_def intro!: exI [of _ "[]"])

section \<open>Rolls\<close>

lemma follows_faces:
  "follows roll roll' d (roll_faces n sides roll d) (roll_faces n sides roll')
     (\<lambda>ds xs. xs = map (\<lambda>x. (rd_sides x, rd_value x)) ds)"
proof (induction n arbitrary: d)
  case 0
  show ?case by (simp add: follows_def exI [of _ "[]"])
next
  case (Suc n)
  show ?case
    unfolding follows_def
  proof (intro allI impI)
    fix vs d'
    assume "roll_faces (Suc n) sides roll d = (Ok vs, d')"
    then obtain v d1 ws where v: "roll sides d = (v, d1)" "\<not> (v = 0 \<or> v > sides)"
      "roll_faces n sides roll d1 = (Ok ws, d')" "vs = \<lparr>rd_sides = sides, rd_value = v\<rparr> # ws"
      by (auto simp: Let_def split: prod.splits if_splits)
    from Suc.IH [of d1] v(3) obtain xs where xs: "asks roll xs d1 d'"
      "xs = map (\<lambda>x. (rd_sides x, rd_value x)) ws"
      "\<forall>e e'. asks roll' xs e e' \<longrightarrow> roll_faces n sides roll' e = (Ok ws, e')"
      unfolding follows_def by blast
    have "roll_faces (Suc n) sides roll' e = (Ok vs, e')" if "asks roll' ((sides, v) # xs) e e'" for e e'
      using that xs(3) v(2,4) by (cases "roll' sides e") simp
    with v xs(1,2) show "\<exists>xs. asks roll xs d d' \<and> xs = map (\<lambda>x. (rd_sides x, rd_value x)) vs \<and>
        (\<forall>e e'. asks roll' xs e e' \<longrightarrow> roll_faces (Suc n) sides roll' e = (Ok vs, e'))"
      by (intro exI [of _ "(sides, v) # xs"]) simp
  qed
qed

lemma follows_perform:
  "follows roll roll' d (perform_roll rolls p a t i n sides ms c roll d) (perform_roll rolls p a t i n sides ms c roll')
     (\<lambda>y xs. snd y = rolls @ [fst y] \<and> xs = faces_of [fst y])"
  unfolding perform_roll_def [abs_def] Let_def
  by (intro follows_rules follows_bind [OF follows_faces]) (auto simp: faces_of_def split: if_splits)

text \<open>What a handler must leave: its rolls list the dice it asked for.\<close>

definition listed :: "handler_output \<Rightarrow> transcript \<Rightarrow> bool" where
  "listed h xs \<longleftrightarrow> faces_of (hn_rolls h) = xs"

lemma follows_initiative:
  "follows roll roll' d (initiative_roll rolls a src m roll d) (initiative_roll rolls a src m roll')
     (\<lambda>y xs. faces_of (snd y) = faces_of rolls @ xs)"
  unfolding initiative_roll_def [abs_def] case_prod_unfold
  by (intro follows_rules follows_bind [OF follows_perform]) auto

lemma follows_start:
  "follows roll roll' d (resolve_start s roll d) (resolve_start s roll') listed"
  unfolding resolve_start_def [abs_def] case_prod_unfold
  by (intro follows_rules follows_bind [OF follows_initiative])
    (auto simp: listed_def begin_combat_def Let_def handled_def)

lemma follows_land_hit:
  "follows roll roll' d (land_hit s i a t j k c rolls facts roll d) (land_hit s i a t j k c rolls facts roll')
     (\<lambda>h xs. faces_of (hn_rolls h) = faces_of rolls @ xs)"
  unfolding land_hit_def [abs_def] case_prod_unfold
  by (intro follows_rules follows_bind [OF follows_perform]) (auto simp: Let_def handled_def)

lemma follows_attack:
  "follows roll roll' d (resolve_attack s i t roll d) (resolve_attack s i t roll') listed"
  unfolding resolve_attack_def [abs_def] case_prod_unfold Let_def
  by (intro follows_rules follows_bind [OF follows_perform] follows_mono [OF follows_land_hit])
    (auto simp: listed_def handled_def open_shield_window_def Let_def)

section \<open>Handlers of spells and features\<close>

lemma not_carried [simp]:
  "\<not> carried (CastLight \<lparr>lt_object_id = i, lt_distance_feet = n, lt_object_maximum_dimension_feet = m,
     lt_hostile_carrier = None\<rparr>)"
  "\<not> carried (CastMageHand m')" "\<not> carried (CastSleep p cs)" "\<not> carried (CastShield t)"
  "\<not> carried (damaging_intent sp tid dist ac)"
  by (simp_all add: carried_def damaging_intent_def Let_def)

lemma map_err_run: "apfst (map_err f) p = (Ok x, d) \<longleftrightarrow> p = (Ok x, d)"
  by (cases p) auto

text \<open>Three of the spells roll nothing in the encounter.\<close>

definition quiet :: "supported_spell_intent \<Rightarrow> bool" where
  "quiet i \<longleftrightarrow> \<not> carried i \<and> i \<in> range CastLight \<union> range CastMageHand \<union> range CastShield"

lemma quiet_intents [simp]:
  "quiet (CastLight \<lparr>lt_object_id = i, lt_distance_feet = n, lt_object_maximum_dimension_feet = m,
     lt_hostile_carrier = None\<rparr>)"
  "quiet (CastMageHand t)" "quiet (CastShield g)"
  by (simp_all add: quiet_def)

lemma quiet_effects:
  "cast_effects sc es i roll d = (Ok x, d') \<Longrightarrow> quiet i \<Longrightarrow> outcome_faces x = []"
  by (auto simp: quiet_def carried_def cast_light_def outcome_faces_def no_outcome_def split: option.splits)

lemma follows_quiet:
  assumes "quiet i"
  shows "follows roll roll' d (cast_live rules sc eco i roll d) (cast_live rules sc eco i roll') (\<lambda>x xs. xs = [])"
proof -
  have "outcome_faces (fst x) = []" if "cast_live rules sc eco i roll d = (Ok x, d')" for x d'
    using that quiet_effects [OF _ assms] unfolding cast_live_steps
    by (auto simp: map_err_run)
  moreover have "\<not> carried i" using assms by (simp add: quiet_def)
  ultimately show ?thesis
    using follows_cast_live [of i roll roll' d rules sc eco] unfolding follows_def by fastforce
qed

lemma follows_cast_light:
  "follows roll roll' d (resolve_cast_light s i roll d) (resolve_cast_light s i roll') listed"
  unfolding resolve_cast_light_def [abs_def] case_prod_unfold
  by (intro follows_rules follows_bind [OF follows_quiet]) (auto simp: listed_def handled_def)

lemma follows_cast_mage_hand:
  "follows roll roll' d (resolve_cast_mage_hand s i roll d) (resolve_cast_mage_hand s i roll') listed"
  unfolding resolve_cast_mage_hand_def [abs_def] case_prod_unfold Let_def
  by (intro follows_rules follows_bind [OF follows_quiet]) (auto simp: listed_def handled_def)

lemma follows_when:
  "follows roll roll' d p q Q \<Longrightarrow> (\<And>x d'. p = (Ok x, d') \<Longrightarrow> R x) \<Longrightarrow>
   follows roll roll' d p q (\<lambda>x xs. Q x xs \<and> R x)"
  unfolding follows_def by blast

lemma cast_live_outcome:
  "cast_live rules sc eco i roll d = (Ok x, d') \<Longrightarrow> \<exists>es. cast_effects sc es i roll d = (Ok (fst x), d')"
  unfolding cast_live_steps by (auto simp: map_err_run)

lemma sleep_rolls_once:
  "cast_live rules sc eco (CastSleep p cs) roll d = (Ok x, d') \<Longrightarrow>
   so_attack (fst x) = None \<and> (\<exists>y. so_damage_rolls (fst x) = [y])"
  by (cases "fst x") (auto dest!: cast_live_outcome simp: cast_sleep_def no_outcome_def)

lemma faces_of_raw_dice: "map (\<lambda>x. (rd_sides x, rd_value x)) (raw_dice x) = damage_faces x"
  by (simp add: raw_dice_def damage_faces_def)

lemma faces_of_sleep: "faces_of (push_sleep_roll rolls x) = faces_of rolls @ damage_faces x"
  by (simp add: push_sleep_roll_def faces_of_def faces_of_raw_dice)

lemma follows_sleep:
  "follows roll roll' d (resolve_cast_sleep s roll d) (resolve_cast_sleep s roll') listed"
  unfolding resolve_cast_sleep_def [abs_def] case_prod_unfold Let_def
  by (intro follows_rules follows_bind [OF follows_when [OF follows_cast_live sleep_rolls_once]])
    (auto simp: listed_def handled_def outcome_faces_def faces_of_sleep)

lemma follows_pending:
  "follows roll roll' d (resolve_pending_attack_damage p s rolls facts roll d)
     (resolve_pending_attack_damage p s rolls facts roll')
     (\<lambda>y xs. faces_of (fst (snd (snd y))) = faces_of rolls @ xs)"
  unfolding resolve_pending_attack_damage_def [abs_def] case_prod_unfold Let_def
  by (intro follows_rules follows_bind [OF follows_perform]) auto

lemma follows_shield:
  "follows roll roll' d (resolve_shield_reaction s roll d) (resolve_shield_reaction s roll') listed"
  unfolding resolve_shield_reaction_def [abs_def] case_prod_unfold Let_def
  by (intro follows_rules follows_bind [OF follows_quiet] follows_bind [OF follows_pending])
    (auto simp: listed_def handled_def)

lemma follows_decline:
  "follows roll roll' d (resolve_decline_reaction s roll d) (resolve_decline_reaction s roll') listed"
  unfolding resolve_decline_reaction_def [abs_def] case_prod_unfold Let_def
  by (intro follows_rules follows_bind [OF follows_pending]) (auto simp: listed_def handled_def)

lemma faces_of_spell_damage: "faces_of (push_spell_damage_roll rolls x t sp) = faces_of rolls @ damage_faces x"
  by (simp add: push_spell_damage_roll_def Let_def faces_of_def faces_of_raw_dice)

lemma faces_of_spell_attack: "faces_of (push_spell_attack_roll rolls a t sp) = faces_of rolls @ d20_faces (sar_roll a)"
  by (simp add: push_spell_attack_roll_def raw_d20_def faces_of_def d20_faces_def split: option.splits)

lemma faces_of_spell_rolls: "faces_of (spell_rolls x t sp) = outcome_faces x"
proof -
  have "faces_of (fold (\<lambda>y rolls. push_spell_damage_roll rolls y t sp) ys rolls) =
      faces_of rolls @ concat (map damage_faces ys)" for ys rolls
    by (induction ys arbitrary: rolls) (simp_all add: faces_of_spell_damage)
  then show ?thesis by (simp add: spell_rolls_def outcome_faces_def faces_of_spell_attack split: option.splits)
qed

lemma land_spell_rolls: "on_ok (land_spell s a t sp atk n k rolls facts) (\<lambda>h. hn_rolls h = rolls)"
  by (auto simp: land_spell_def Let_def outcomes_simps handled_def case_prod_unfold)

lemma follows_cast_spell:
  "follows roll roll' d (resolve_cast_spell s sp t roll d) (resolve_cast_spell s sp t roll') listed"
  unfolding resolve_cast_spell_def [abs_def] case_prod_unfold Let_def
  by (intro follows_rules follows_bind [OF follows_cast_live])
    (auto simp: listed_def faces_of_spell_rolls dest!: on_okD [OF land_spell_rolls])

section \<open>Handlers of rests, turns and death saves\<close>

lemma follows_second_wind_handler:
  "follows roll roll' d (resolve_second_wind s roll d) (resolve_second_wind s roll') listed"
  unfolding resolve_second_wind_def [abs_def] Let_def
  unfolding paired_step
  unfolding case_prod_unfold
  by (intro follows_rules follows_bind [OF follows_map_err [OF follows_second_wind]])
    (auto simp: listed_def handled_def push_second_wind_roll_def faces_of_def)

lemma finish_death_save_rolls: "on_ok (finish_death_save s n rolls facts) (\<lambda>h. hn_rolls h = rolls)"
  by (auto simp: finish_death_save_def outcomes_simps handled_def case_prod_unfold Let_def split: life_status.splits)

lemma follows_death_save:
  "follows roll roll' d (enc_resolve_death_save s roll d) (enc_resolve_death_save s roll') listed"
  unfolding enc_resolve_death_save_def [abs_def] Let_def case_prod_unfold
  by (intro follows_rules follows_bind [OF follows_perform])
    (auto simp: listed_def dest!: on_okD [OF finish_death_save_rolls])

lemma push_hit_die_faces:
  "hit_die_sides res = Ok n \<Longrightarrow> hd_hit_die x = ctr_kind (rs_hit_dice res) \<Longrightarrow>
   push_hit_die_roll [] x = Ok rolls \<Longrightarrow> faces_of rolls = [(n, hd_roll x)]"
  by (auto simp: push_hit_die_roll_def hit_die_sides_def faces_of_def split: resource_kind.splits)

lemma follows_spend_hit_die:
  "follows roll roll' d (resolve_spend_hit_die s roll d) (resolve_spend_hit_die s roll') listed"
  unfolding resolve_spend_hit_die_def [abs_def] Let_def
  unfolding paired_step
  unfolding case_prod_unfold
  by (intro follows_rules follows_bind [OF follows_map_err [OF follows_hit_die]])
    (auto simp: listed_def handled_def dest: push_hit_die_faces)

lemma follows_arcane_recovery:
  "follows roll roll' d (resolve_arcane_recovery s roll d) (resolve_arcane_recovery s roll') listed"
  unfolding resolve_arcane_recovery_def [abs_def] Let_def
  unfolding paired_step
  unfolding case_prod_unfold
  by (intro follows_rules follows_bind [OF follows_map_err [OF follows_idle_rest]])
    (auto simp: listed_def handled_def)

lemma follows_finish_short_rest:
  "follows roll roll' d (resolve_finish_short_rest s roll d) (resolve_finish_short_rest s roll') listed"
  unfolding resolve_finish_short_rest_def [abs_def] Let_def
  unfolding paired_step
  unfolding case_prod_unfold
  by (intro follows_rules follows_bind [OF follows_map_err [OF follows_idle_rest]])
    (auto simp: listed_def handled_def)

lemma follows_diceless:
  "on_ok r (\<lambda>h. hn_rolls h = []) \<Longrightarrow> follows roll roll' d (r, d) (Pair r) listed"
  by (rule follows_pure) (auto simp: listed_def dest: on_okD)

lemma diceless:
  "on_ok (resolve_move s i) (\<lambda>h. hn_rolls h = [])"
  "on_ok (resolve_context_action s a) (\<lambda>h. hn_rolls h = [])"
  "on_ok (resolve_control_mage_hand s a) (\<lambda>h. hn_rolls h = [])"
  "on_ok (resolve_dismiss_mage_hand s) (\<lambda>h. hn_rolls h = [])"
  "on_ok (resolve_action_surge s) (\<lambda>h. hn_rolls h = [])"
  "on_ok (resolve_begin_short_rest s) (\<lambda>h. hn_rolls h = [])"
  "on_ok (resolve_long_rest s) (\<lambda>h. hn_rolls h = [])"
  "on_ok (resolve_end_turn s) (\<lambda>h. hn_rolls h = [])"
  by (auto simp: resolve_move_def resolve_context_action_def resolve_control_mage_hand_def
      resolve_dismiss_mage_hand_def resolve_action_surge_def resolve_begin_short_rest_def
      resolve_long_rest_def resolve_end_turn_def handled_def Let_def outcomes_simps case_prod_unfold
      intro!: on_okI split: prod.splits result.splits option.splits mage_hand_action_effect.splits)

lemma handle_intent_handlers:
  "handle_intent s StartEncounter r = resolve_start s r"
  "handle_intent s (MoveTo n) r = Pair (resolve_move s n)"
  "handle_intent s (AttackTarget a t) r = resolve_attack s a t r"
  "handle_intent s (ContextAction a) r = Pair (resolve_context_action s a)"
  "handle_intent s (CastSpell sp t) r = resolve_cast_spell s sp t r"
  "handle_intent s (LightOn a) r = resolve_cast_light s a r"
  "handle_intent s (MageHandAt a) r = resolve_cast_mage_hand s a r"
  "handle_intent s (MoveMageHand a) r = Pair (resolve_control_mage_hand s a)"
  "handle_intent s DismissMageHand r = Pair (resolve_dismiss_mage_hand s)"
  "handle_intent s SleepSpell r = resolve_cast_sleep s r"
  "handle_intent s ShieldReaction r = resolve_shield_reaction s r"
  "handle_intent s DeclineReaction r = resolve_decline_reaction s r"
  "handle_intent s SecondWind r = resolve_second_wind s r"
  "handle_intent s ActionSurge r = Pair (resolve_action_surge s)"
  "handle_intent s BeginShortRest r = Pair (resolve_begin_short_rest s)"
  "handle_intent s SpendHitDie r = resolve_spend_hit_die s r"
  "handle_intent s UseArcaneRecovery r = resolve_arcane_recovery s r"
  "handle_intent s FinishShortRest r = resolve_finish_short_rest s r"
  "handle_intent s TakeLongRest r = Pair (resolve_long_rest s)"
  "handle_intent s EndTurn r = Pair (resolve_end_turn s)"
  "handle_intent s RollDeathSave r = enc_resolve_death_save s r"
  by (simp_all add: fun_eq_iff)

lemma follows_handle_intent:
  "follows roll roll' d (handle_intent s i roll d) (handle_intent s i roll') listed"
  by (cases i)
    (simp_all only: handle_intent_handlers follows_start follows_attack follows_cast_spell
      follows_cast_light follows_cast_mage_hand follows_sleep follows_shield follows_decline
      follows_second_wind_handler follows_spend_hit_die follows_arcane_recovery
      follows_finish_short_rest follows_death_save diceless [THEN follows_diceless])

lemma follows_resolve_encounter:
  "follows roll roll' d (resolve_encounter s c roll d) (resolve_encounter s c roll')
     (\<lambda>x xs. faces_of (er_rolls x) = xs)"
  unfolding resolve_encounter_def [abs_def]
  by (intro follows_rules follows_bind [OF follows_handle_intent])
    (auto simp: listed_def finish_resolution_def Let_def)

end
