(* ===== verification/Encounter_Service.thy ===== *)
theory Encounter_Service
  imports Session_Commit Encounter_Replay
begin

text \<open>
  The encounter operations of the application service (\<open>crates/game-server/src/application.rs\<close>):
  deriving the command of a mutation, resolving it with dice drawn from the campaign's seed, the
  canonical roll records, the receipt of a retried request, and the projection that rebuilds the
  encounter from the stored events and verifies every die of it.

  The seed vault, the ChaCha20 stream, the SHA-256 digest of a normalised command, the JSON text of
  an outcome, the clock and the random audit id are arguments. So are the two operations on the hero
  document (\<open>ensure_hero_runtime_matches_encounter\<close>, \<open>synchronize_hero_after_encounter\<close>), of which
  only the verdict and the hero revision matter here. One request at a time reaches the store: the
  service holds a lock from the first read to the commit.
\<close>

section \<open>Errors\<close>

datatype application_error =
    AppInvalidCommand session_error
  | AppInvalidOutcome session_error
  | AppRules game_core_error
  | EncounterUnavailable
  | AppInvalidEncounterCommand encounter_error
  | NotPlayerTurn
  | NpcTurnUnavailable
  | EncounterRules encounter_error
  | RollFailed roll_error
  | WrongCampaign
  | WrongCharacter
  | UnknownAction string
  | CampaignArchived
  | CampaignCompleted
  | AppRevisionConflict u64 u64
  | EncounterRevisionConflict u64 u64
  | AppIdempotencyConflict
  | InvalidStoredState
  | AppRepository repository_error
  | AppPanic

type_synonym 'a app = "(application_error, 'a) result"

fun map_encounter_error :: "encounter_error \<Rightarrow> application_error" where
  "map_encounter_error (PlayerControlUnavailable _) = NotPlayerTurn"
| "map_encounter_error (PolicyUnavailable _) = NpcTurnUnavailable"
| "map_encounter_error (RevisionConflict expected actual) = EncounterRevisionConflict expected actual"
| "map_encounter_error (InvalidCommand x) = AppInvalidEncounterCommand (InvalidCommand x)"
| "map_encounter_error (WrongEncounter x y) = AppInvalidEncounterCommand (WrongEncounter x y)"
| "map_encounter_error (IllegalIntent x) = AppInvalidEncounterCommand (IllegalIntent x)"
| "map_encounter_error (AttackUnavailable x y) = AppInvalidEncounterCommand (AttackUnavailable x y)"
| "map_encounter_error (InvalidTarget x y) = AppInvalidEncounterCommand (InvalidTarget x y)"
| "map_encounter_error (TargetOutOfRange x y) = AppInvalidEncounterCommand (TargetOutOfRange x y)"
| "map_encounter_error (InvalidDestination x) = AppInvalidEncounterCommand (InvalidDestination x)"
| "map_encounter_error (MovementTooFar x y) = AppInvalidEncounterCommand (MovementTooFar x y)"
| "map_encounter_error EncPanic = AppPanic"
| "map_encounter_error x = EncounterRules x"

section \<open>Stored documents\<close>

record stored_session =
  sd_id :: string
  sd_revision :: u64
  sd_value :: session_dto

record turn_audit =
  ta_campaign_session_id :: string
  ta_turn_number :: u64
  ta_payload :: session_event

definition local_hero_owner_key :: string where "local_hero_owner_key = ''local-owner''"
definition local_campaign_session_id :: string where "local_campaign_session_id = ''local-campaign''"
definition local_character_id :: string where "local_character_id = ''local-hero''"
definition local_exploration_action_id :: string where "local_exploration_action_id = ''inspect-viaduct-runes''"

fun validate_stream_from :: "stored_session \<Rightarrow> u64 \<Rightarrow> turn_audit list \<Rightarrow> unit app" where
  "validate_stream_from s n [] = Ok ()"
| "validate_stream_from s n (a # as) =
     (if ta_campaign_session_id a \<noteq> sd_id s \<or> ta_turn_number a \<noteq> n
        \<or> se_session_id (ta_payload a) \<noteq> sd_id s \<or> se_sequence (ta_payload a) \<noteq> n
      then Err InvalidStoredState
      else validate_stream_from s (n + 1) as)"

definition validate_event_stream :: "stored_session \<Rightarrow> turn_audit list \<Rightarrow> unit app" where
  "validate_event_stream s events =
     (if length events \<noteq> ss_last_event_sequence (sd_value s) then Err InvalidStoredState
      else validate_stream_from s 1 events)"

definition check_of_audit :: "turn_audit \<Rightarrow> exploration_outcome option app" where
  "check_of_audit a =
     (case se_payload (ta_payload a) of
        AbilityCheckResolved character_id action_id result \<Rightarrow>
          and_then (ok_or (checked_add u64_max (ta_turn_number a) 1) InvalidStoredState) (\<lambda>revision.
            let x = \<lparr>xo_schema_version = exploration_check_schema_version,
                     xo_campaign_session_id = ta_campaign_session_id a, xo_character_id = character_id,
                     xo_action_id = action_id, xo_result_revision = revision,
                     xo_event_sequence = ta_turn_number a, xo_result = result\<rparr>
            in and_then (map_err (\<lambda>_. InvalidStoredState) (exploration_outcome_validate x)) (\<lambda>_. Ok (Some x)))
      | _ \<Rightarrow> Ok None)"

fun first_check :: "turn_audit list \<Rightarrow> exploration_outcome option app" where
  "first_check [] = Ok None"
| "first_check (a # as) =
     and_then (check_of_audit a) (\<lambda>x. case x of Some _ \<Rightarrow> Ok x | None \<Rightarrow> first_check as)"

definition latest_exploration_check :: "turn_audit list \<Rightarrow> exploration_outcome option app" where
  "latest_exploration_check events = first_check (rev events)"

section \<open>Projection\<close>

fun first_encounter_profile :: "turn_audit list \<Rightarrow> (u16 \<times> encounter_hero_profile option) option" where
  "first_encounter_profile [] = None"
| "first_encounter_profile (a # as) =
     (case se_payload (ta_payload a) of
        EncounterResolved _ x _ \<Rightarrow>
          (let s = er_state (co_resolution x) in Some (en_schema_version s, enc_hero_profile s))
      | _ \<Rightarrow> first_encounter_profile as)"

definition initial_encounter ::
  "opening_consequence \<Rightarrow> (u16 \<times> encounter_hero_profile option) option \<Rightarrow> encounter_hero_profile option
    \<Rightarrow> encounter_state app" where
  "initial_encounter opening found current =
     (case found of
        Some (v, Some p) \<Rightarrow>
          map_err (\<lambda>_. InvalidStoredState)
            (if v = encounter_schema_version then new_for_hero StoryRecovery opening p
             else new_for_hero_for_historical_replay StoryRecovery opening p v)
      | Some (v, None) \<Rightarrow>
          (let s = encounter_new StoryRecovery opening in
           if v \<noteq> encounter_schema_version
           then (case pin_historical_schema_for_replay v s of
               (Err _, _) \<Rightarrow> Err InvalidStoredState
             | (Ok _, s') \<Rightarrow> Ok s')
           else Ok s)
      | None \<Rightarrow>
          (case current of
             Some p \<Rightarrow> map_err (\<lambda>_. InvalidStoredState) (new_for_hero StoryRecovery opening p)
           | None \<Rightarrow> Ok (encounter_new StoryRecovery opening)))"

text \<open>The dice of a stored roll, drawn again from the seed.\<close>

fun regenerate_dice :: "raw_die_fact list \<Rightarrow> deterministic_rng \<Rightarrow> deterministic_rng app" where
  "regenerate_dice [] rng = Ok rng"
| "regenerate_dice (x # xs) rng =
     (case roll_die (rd_sides x) rng of
        (Err _, _) \<Rightarrow> Err InvalidStoredState
      | (Ok v, rng') \<Rightarrow> if v \<noteq> rd_value x then Err InvalidStoredState else regenerate_dice xs rng')"

fun verify_rolls :: "string \<Rightarrow> (raw_roll_facts \<times> roll_record) list \<Rightarrow> deterministic_rng \<Rightarrow> deterministic_rng app" where
  "verify_rolls seed_reference [] rng = Ok rng"
| "verify_rolls seed_reference ((raw, r) # ps) rng =
     (if rr_seed_reference r \<noteq> seed_reference \<or> rr_cursor_before r \<noteq> cursor rng then Err InvalidStoredState
      else and_then (regenerate_dice (rf_individual_dice raw) rng) (\<lambda>rng'.
        if rr_cursor_after r \<noteq> cursor rng' then Err InvalidStoredState
        else verify_rolls seed_reference ps rng'))"

definition recorded_from_resolution :: "encounter_resolution \<Rightarrow> recorded_encounter_rolls" where
  "recorded_from_resolution x = \<lparr>rec_dice = faces_of (er_rolls x), rec_index = 0, rec_invalid = False\<rparr>"

definition check_origin :: "encounter_state \<Rightarrow> encounter_intent \<Rightarrow> command_origin \<Rightarrow> unit app" where
  "check_origin s intent origin =
     (case origin of
        LegacySystem \<Rightarrow> Ok ()
      | PlayerOrigin \<Rightarrow> map_err (\<lambda>_. InvalidStoredState) (require_player_control s)
      | DeterministicPolicy policy_id \<Rightarrow>
          if policy_id = soot_wight_policy_id
          then and_then (map_err (\<lambda>_. InvalidStoredState) (select_soot_wight_policy_intent s)) (\<lambda>selected.
            if selected \<noteq> intent then Err InvalidStoredState else Ok ())
          else Err InvalidStoredState)"

text \<open>Resolving the stored command again, with the dice of the stored rolls.\<close>

definition replay_resolution :: "encounter_state \<Rightarrow> encounter_command \<Rightarrow> encounter_resolution \<Rightarrow> unit app" where
  "replay_resolution s c x =
     (case resolve_encounter s c recorded_roll (recorded_from_resolution x) of
        (Err _, _) \<Rightarrow> Err InvalidStoredState
      | (Ok y, d) \<Rightarrow>
          if rec_invalid d \<or> rec_index d \<noteq> length (rec_dice d) \<or> y \<noteq> x then Err InvalidStoredState else Ok ())"

record projection =
  pj_state :: encounter_state
  pj_latest :: "committed_outcome option"
  pj_rng :: deterministic_rng
  pj_started :: bool

definition project_resolved ::
  "string \<Rightarrow> u64 \<Rightarrow> u64 \<Rightarrow> commit_encounter_command \<Rightarrow> committed_outcome \<Rightarrow> command_origin \<Rightarrow> projection
    \<Rightarrow> projection app" where
  "project_resolved seed_reference check_sequence turn_number c x origin p =
     (let s = pj_state p; y = co_resolution x in
      if turn_number \<le> check_sequence \<or> cc_expected_campaign_revision c \<noteq> turn_number
        \<or> ec_expected_revision (cc_command c) \<noteq> en_revision s
        \<or> ec_encounter_id (cc_command c) \<noteq> en_encounter_id s \<or> er_previous_revision y \<noteq> en_revision s
      then Err InvalidStoredState
      else and_then (check_origin s (ec_intent (cc_command c)) origin) (\<lambda>_.
        and_then (verify_rolls seed_reference (zip (er_rolls y) (co_roll_records x)) (pj_rng p)) (\<lambda>rng.
        and_then (replay_resolution s (cc_command c) y) (\<lambda>_.
        and_then (map_err (\<lambda>_. InvalidStoredState) (player_legal_actions (er_state y))) (\<lambda>actions.
          let public = x\<lparr>co_legal_actions := actions\<rparr> in
          and_then (map_err (\<lambda>_. InvalidStoredState) (outcome_boundary_validate public)) (\<lambda>_.
            Ok \<lparr>pj_state = er_state y, pj_latest = Some public, pj_rng = rng, pj_started = True\<rparr>))))))"

definition project_event :: "string \<Rightarrow> u64 \<Rightarrow> turn_audit \<Rightarrow> projection \<Rightarrow> projection app" where
  "project_event seed_reference check_sequence a p =
     (case se_payload (ta_payload a) of
        AbilityCheckResolved _ _ _ \<Rightarrow> if pj_started p then Err InvalidStoredState else Ok p
      | EncounterResolved c x origin \<Rightarrow>
          project_resolved seed_reference check_sequence (ta_turn_number a) c x origin p
      | _ \<Rightarrow> Ok p)"

fun project_events :: "string \<Rightarrow> u64 \<Rightarrow> turn_audit list \<Rightarrow> projection \<Rightarrow> projection app" where
  "project_events seed_reference check_sequence [] p = Ok p"
| "project_events seed_reference check_sequence (a # as) p =
     and_then (project_event seed_reference check_sequence a p)
       (project_events seed_reference check_sequence as)"

definition encounter_view_of :: "stored_session \<Rightarrow> projection \<Rightarrow> encounter_view app" where
  "encounter_view_of s p =
     and_then (map_err (\<lambda>_. InvalidStoredState) (player_legal_actions (pj_state p))) (\<lambda>actions.
       let v = \<lparr>ev_schema_version = encounter_commit_schema_version, ev_campaign_session_id = sd_id s,
                ev_campaign_revision = sd_revision s,
                ev_last_event_sequence = ss_last_event_sequence (sd_value s), ev_state = pj_state p,
                ev_legal_actions = actions, ev_latest_outcome = pj_latest p\<rparr>
       in and_then (map_err (\<lambda>_. InvalidStoredState) (encounter_view_validate v)) (\<lambda>_. Ok v))"

definition project_encounter ::
  "('seed \<Rightarrow> stream) \<Rightarrow> stored_session \<Rightarrow> exploration_outcome \<Rightarrow> turn_audit list \<Rightarrow> 'seed \<Rightarrow> string
    \<Rightarrow> encounter_hero_profile option \<Rightarrow> (encounter_view \<times> u64) app" where
  "project_encounter chacha s check events seed seed_reference current =
     (if xo_campaign_session_id check \<noteq> sd_id s \<or> xo_character_id check \<noteq> local_character_id
        \<or> xo_action_id check \<noteq> local_exploration_action_id
        \<or> xo_event_sequence check > ss_last_event_sequence (sd_value s)
      then Err InvalidStoredState
      else and_then
        (initial_encounter (if cr_success (xo_result check) then RunesUnderstood else RunesMisread)
           (first_encounter_profile events) current) (\<lambda>start.
        and_then (project_events seed_reference (xo_event_sequence check) events
           \<lparr>pj_state = start, pj_latest = None, pj_rng = rng_new chacha seed, pj_started = False\<rparr>) (\<lambda>p.
        and_then (encounter_view_of s p) (\<lambda>v. Ok (v, cursor (pj_rng p))))))"

end
