(* ===== verification/Encounter_Commit.thy ===== *)
theory Encounter_Commit
  imports Encounter_Service
begin

text \<open>
  Committing an encounter command (\<open>commit_encounter_mutation\<close> of
  \<open>crates/game-server/src/application.rs\<close>): from the mutation a request carries to the event and the
  receipt in the store.
\<close>

section \<open>Mutations\<close>

datatype encounter_mutation =
    PlayerMutation commit_encounter_command
  | NpcMutation advance_npc_command

fun mutation_validate :: "encounter_mutation \<Rightarrow> unit app" where
  "mutation_validate (PlayerMutation c) = map_err AppInvalidCommand (commit_command_validate c)"
| "mutation_validate (NpcMutation c) = map_err AppInvalidCommand (advance_command_validate c)"

fun mutation_campaign :: "encounter_mutation \<Rightarrow> string" where
  "mutation_campaign (PlayerMutation c) = cc_campaign_session_id c"
| "mutation_campaign (NpcMutation c) = an_campaign_session_id c"

fun mutation_campaign_revision :: "encounter_mutation \<Rightarrow> u64" where
  "mutation_campaign_revision (PlayerMutation c) = cc_expected_campaign_revision c"
| "mutation_campaign_revision (NpcMutation c) = an_expected_campaign_revision c"

fun mutation_encounter_revision :: "encounter_mutation \<Rightarrow> u64" where
  "mutation_encounter_revision (PlayerMutation c) = ec_expected_revision (cc_command c)"
| "mutation_encounter_revision (NpcMutation c) = an_expected_encounter_revision c"

fun mutation_key :: "encounter_mutation \<Rightarrow> string" where
  "mutation_key (PlayerMutation c) = ec_idempotency_key (cc_command c)"
| "mutation_key (NpcMutation c) = an_idempotency_key c"

fun mutation_kind :: "encounter_mutation \<Rightarrow> string" where
  "mutation_kind (PlayerMutation _) = ''commit-encounter-command''"
| "mutation_kind (NpcMutation _) = ''advance-npc-turn''"

text \<open>What the fingerprint of a request covers: everything but its idempotency key.\<close>

datatype normalized_mutation =
    NormalizedCommand u16 string u64 u16 string u64 encounter_intent
  | NormalizedAdvance u16 string u64 u64

fun normalized :: "encounter_mutation \<Rightarrow> normalized_mutation" where
  "normalized (PlayerMutation c) =
     NormalizedCommand (cc_schema_version c) (cc_campaign_session_id c) (cc_expected_campaign_revision c)
       (ec_schema_version (cc_command c)) (ec_encounter_id (cc_command c))
       (ec_expected_revision (cc_command c)) (ec_intent (cc_command c))"
| "normalized (NpcMutation c) =
     NormalizedAdvance (an_schema_version c) (an_campaign_session_id c) (an_expected_campaign_revision c)
       (an_expected_encounter_revision c)"

definition validate_local_encounter_command ::
  "commit_encounter_command \<Rightarrow> stored_session \<Rightarrow> encounter_view \<Rightarrow> unit app" where
  "validate_local_encounter_command c s v =
     (if cc_campaign_session_id c \<noteq> sd_id s then Err WrongCampaign
      else if ss_status (sd_value s) \<noteq> SessionActive then Err CampaignCompleted
      else if cc_expected_campaign_revision c \<noteq> sd_revision s
      then Err (AppRevisionConflict (cc_expected_campaign_revision c) (sd_revision s))
      else if ec_encounter_id (cc_command c) \<noteq> soot_wight_encounter_id
      then Err (AppInvalidEncounterCommand
        (WrongEncounter soot_wight_encounter_id (ec_encounter_id (cc_command c))))
      else if ec_expected_revision (cc_command c) \<noteq> en_revision (ev_state v)
      then Err (EncounterRevisionConflict (ec_expected_revision (cc_command c)) (en_revision (ev_state v)))
      else Ok ())"

definition validate_local_npc_command ::
  "advance_npc_command \<Rightarrow> stored_session \<Rightarrow> encounter_view \<Rightarrow> unit app" where
  "validate_local_npc_command c s v =
     (if an_campaign_session_id c \<noteq> sd_id s then Err WrongCampaign
      else if ss_status (sd_value s) \<noteq> SessionActive then Err CampaignCompleted
      else if an_expected_campaign_revision c \<noteq> sd_revision s
      then Err (AppRevisionConflict (an_expected_campaign_revision c) (sd_revision s))
      else if an_expected_encounter_revision c \<noteq> en_revision (ev_state v)
      then Err (EncounterRevisionConflict (an_expected_encounter_revision c) (en_revision (ev_state v)))
      else Ok ())"

fun derive_command ::
  "encounter_mutation \<Rightarrow> stored_session \<Rightarrow> encounter_view \<Rightarrow> (commit_encounter_command \<times> command_origin) app" where
  "derive_command (PlayerMutation c) s v =
     and_then (validate_local_encounter_command c s v) (\<lambda>_.
     and_then (map_err map_encounter_error (require_player_control (ev_state v))) (\<lambda>_.
       Ok (c, PlayerOrigin)))"
| "derive_command (NpcMutation c) s v =
     and_then (validate_local_npc_command c s v) (\<lambda>_.
     and_then (map_err map_encounter_error (select_soot_wight_policy_intent (ev_state v))) (\<lambda>intent.
       Ok (\<lparr>cc_schema_version = encounter_commit_schema_version,
            cc_campaign_session_id = an_campaign_session_id c,
            cc_expected_campaign_revision = an_expected_campaign_revision c,
            cc_command = command_new (an_expected_encounter_revision c) (an_idempotency_key c) intent\<rparr>,
          DeterministicPolicy soot_wight_policy_id)))"

section \<open>Canonical roll records\<close>

text \<open>
  One record per roll, from the spans the dice of the roll left in the adapter. A kept index past
  the dice would panic; the resolution's own validation has ruled it out.
\<close>

definition canonical_record ::
  "string \<Rightarrow> u64 \<Rightarrow> string \<Rightarrow> raw_roll_facts \<Rightarrow> die_cursor_span list \<Rightarrow> roll_record app" where
  "canonical_record session_id sequence seed_reference raw spans =
     (let dice = rf_individual_dice raw in
      if length spans \<noteq> length dice \<or> spans = [] then Err InvalidStoredState
      else if list_ex (\<lambda>(x, sp). rd_sides x \<noteq> dc_sides sp \<or> rd_value x \<noteq> dc_value sp) (zip dice spans)
      then Err InvalidStoredState
      else and_then (map_err RollFailed (expression_from_str (rf_expression raw))) (\<lambda>e.
        and_then (ok_or (kept_faces dice (rf_kept_die_indices raw)) AppPanic) (\<lambda>kept.
          map_err RollFailed (record_from_roll
            \<lparr>dl_expression = e, dl_rolled_dice = map rd_value dice, dl_kept_dice = kept,
             dl_total = rf_total raw, dl_roll_mode = canonical_roll_mode (rf_mode raw),
             dl_cursor_before = dc_cursor_before (hd spans), dl_cursor_after = dc_cursor_after (last spans)\<rparr>
            \<lparr>rm_roll_id = encounter_roll_id session_id sequence raw,
             rm_purpose = roll_purpose_id (rf_purpose raw), rm_actor_id = rf_actor_id raw,
             rm_target_id = rf_target_id raw, rm_ruleset = Srd5_1, rm_seed_reference = seed_reference\<rparr>
            (map (\<lambda>m. \<lparr>mc_name = mf_source_id m, mc_value = mf_value m\<rparr>) (rf_modifiers raw))))))"

fun canonical_roll_records ::
  "string \<Rightarrow> u64 \<Rightarrow> string \<Rightarrow> raw_roll_facts list \<Rightarrow> die_cursor_span list \<Rightarrow> roll_record list app" where
  "canonical_roll_records session_id sequence seed_reference [] spans =
     (if spans = [] then Ok [] else Err InvalidStoredState)"
| "canonical_roll_records session_id sequence seed_reference (raw # raws) spans =
     (let n = length (rf_individual_dice raw) in
      and_then (canonical_record session_id sequence seed_reference raw (take n spans)) (\<lambda>r.
      and_then (canonical_roll_records session_id sequence seed_reference raws (drop n spans)) (\<lambda>rs.
        Ok (r # rs))))"

section \<open>The commit\<close>

text \<open>What a request needs from outside the program.\<close>

record ('seed, 'j) environment =
  ve_chacha :: "'seed \<Rightarrow> stream"
  ve_seed :: 'seed
  ve_seed_reference :: string
  ve_digest :: "normalized_mutation \<Rightarrow> sha256_digest"
  ve_encode :: "committed_outcome \<Rightarrow> 'j"
  ve_decode :: "'j \<Rightarrow> committed_outcome option"
  ve_json_ok :: "'j \<Rightarrow> bool"
  ve_profile :: "encounter_hero_profile option"
  ve_matches :: "encounter_state \<Rightarrow> unit app"
  ve_synchronize :: "encounter_state \<Rightarrow> u64 option app"

fun stored_turn_event :: "string \<Rightarrow> session_event \<Rightarrow> turn_audit app" where
  "stored_turn_event campaign e =
     and_then (map_err AppRepository (repo_validate_event e)) (\<lambda>_.
       if campaign \<noteq> se_session_id e
       then Err (AppRepository (InvalidDomainState EventEntity campaign SnapshotMismatch))
       else Ok \<lparr>ta_campaign_session_id = campaign, ta_turn_number = se_sequence e, ta_payload = e\<rparr>)"

fun list_session_events :: "string \<Rightarrow> session_event list \<Rightarrow> turn_audit list app" where
  "list_session_events campaign [] = Ok []"
| "list_session_events campaign (e # es) =
     and_then (stored_turn_event campaign e) (\<lambda>a.
     and_then (list_session_events campaign es) (\<lambda>as. Ok (a # as)))"

definition validate_local_documents :: "stored_session \<Rightarrow> character \<Rightarrow> unit app" where
  "validate_local_documents s c =
     and_then (ok_or (checked_add u64_max (ss_last_event_sequence (sd_value s)) 1) InvalidStoredState)
       (\<lambda>expected_revision.
         ensure (sd_id s = local_campaign_session_id \<and> ch_id c = local_character_id
           \<and> ss_character_ids (sd_value s) = [local_character_id] \<and> sd_revision s = expected_revision)
           InvalidStoredState)"

text \<open>
  \<open>load_or_create_local_campaign\<close>, once the campaign has been created: it is not created again
  after a deletion, and an archived one is not played.
\<close>

definition load_local_campaign :: "'j campaign_store \<Rightarrow> (stored_session \<times> character) app" where
  "load_local_campaign st =
     and_then (map_err AppRepository
       (load_campaign_session local_hero_owner_key local_campaign_session_id st)) (\<lambda>found.
     and_then (ensure (found \<noteq> None \<and> st_owner_account_id st = local_hero_owner_key) WrongCampaign) (\<lambda>_.
     and_then (ensure (st_lifecycle st \<noteq> Archived) CampaignArchived) (\<lambda>_.
     and_then (ok_or found InvalidStoredState) (\<lambda>(value, revision).
     and_then (map_err AppRepository
       (load_character local_hero_owner_key local_campaign_session_id local_character_id st)) (\<lambda>found'.
     and_then (ok_or found' InvalidStoredState) (\<lambda>(c, _).
       let s = \<lparr>sd_id = st_campaign_id st, sd_revision = revision, sd_value = value\<rparr> in
       and_then (validate_local_documents s c) (\<lambda>_. Ok (s, c))))))))"

definition load_local_session :: "'j campaign_store \<Rightarrow> stored_session app" where
  "load_local_session st = and_then (load_local_campaign st) (\<lambda>(s, _). Ok s)"

definition project_store ::
  "('seed, 'j) environment \<Rightarrow> 'j campaign_store \<Rightarrow> (stored_session \<times> encounter_view \<times> u64) app" where
  "project_store env st =
     and_then (load_local_session st) (\<lambda>s.
     and_then (list_session_events (st_campaign_id st) (sort_key se_sequence (st_events st))) (\<lambda>events.
     and_then (validate_event_stream s events) (\<lambda>_.
     and_then (latest_exploration_check events) (\<lambda>found.
     and_then (ok_or found EncounterUnavailable) (\<lambda>check.
     and_then (project_encounter (ve_chacha env) s check events (ve_seed env) (ve_seed_reference env)
       (ve_profile env)) (\<lambda>(v, next_cursor). Ok (s, v, next_cursor)))))))"

text \<open>The match on the resolution and the adapter's error.\<close>

definition resolve_with_seed ::
  "('seed, 'j) environment \<Rightarrow> encounter_state \<Rightarrow> encounter_command \<Rightarrow> u64
    \<Rightarrow> (encounter_resolution \<times> die_cursor_span list) app" where
  "resolve_with_seed env s c next_cursor =
     (let (r, a) = resolve_encounter s c adapter_roll
            (adapter_new (rng_at_cursor (ve_chacha env) (ve_seed env) next_cursor))
      in if r = Err EncPanic then Err AppPanic
         else case ad_error a of
           Some e \<Rightarrow> Err (RollFailed e)
         | None \<Rightarrow> and_then (map_err map_encounter_error r) (\<lambda>x. Ok (x, ad_spans a)))"

definition outcome_from_receipt ::
  "('seed, 'j) environment \<Rightarrow> encounter_mutation \<Rightarrow> 'j command_receipt \<Rightarrow> committed_outcome app" where
  "outcome_from_receipt env m r =
     (if rp_request_fingerprint r \<noteq> ve_digest env (normalized m) then Err AppIdempotencyConflict
      else if rp_command_kind r \<noteq> mutation_kind m \<or> rp_campaign_session_id r \<noteq> mutation_campaign m
        \<or> rp_idempotency_key r \<noteq> mutation_key m \<or> rp_expected_revision r \<noteq> mutation_campaign_revision m
        \<or> checked_add u64_max (rp_expected_revision r) 1 \<noteq> Some (rp_result_revision r)
      then Err InvalidStoredState
      else and_then (ok_or (ve_decode env (rp_response_json r)) InvalidStoredState) (\<lambda>x.
        if co_campaign_session_id x \<noteq> mutation_campaign m
          \<or> co_result_campaign_revision x \<noteq> rp_result_revision r
          \<or> er_encounter_id (co_resolution x) \<noteq> soot_wight_encounter_id
          \<or> er_previous_revision (co_resolution x) \<noteq> mutation_encounter_revision m
        then Err InvalidStoredState
        else and_then (map_err (\<lambda>_. InvalidStoredState)
               (player_legal_actions (er_state (co_resolution x)))) (\<lambda>actions.
          let public = x\<lparr>co_legal_actions := actions\<rparr> in
          and_then (map_err (\<lambda>_. InvalidStoredState) (outcome_boundary_validate public)) (\<lambda>_. Ok public))))"

text \<open>From the projection to the outcome, the event and the session that are to be stored.\<close>

definition prepare_outcome ::
  "('seed, 'j) environment \<Rightarrow> u64 \<Rightarrow> encounter_mutation \<Rightarrow> stored_session \<Rightarrow> encounter_view \<Rightarrow> u64
    \<Rightarrow> (committed_outcome \<times> session_event \<times> session_dto) app" where
  "prepare_outcome env now m s v next_cursor =
     (if en_schema_version (ev_state v) \<noteq> encounter_schema_version then Err EncounterUnavailable
      else and_then (ve_matches env (ev_state v)) (\<lambda>_.
        and_then (derive_command m s v) (\<lambda>(c, origin).
        and_then (ok_or (checked_add u64_max (sd_revision s) 1) InvalidStoredState) (\<lambda>next_revision.
        and_then (ok_or (checked_add u64_max (ss_last_event_sequence (sd_value s)) 1) InvalidStoredState)
          (\<lambda>next_sequence.
        and_then (resolve_with_seed env (ev_state v) (cc_command c) next_cursor) (\<lambda>(x, spans).
        and_then (canonical_roll_records (sd_id s) next_sequence (ve_seed_reference env) (er_rolls x) spans)
          (\<lambda>records.
        and_then (map_err map_encounter_error (player_legal_actions (er_state x))) (\<lambda>actions.
        and_then (ve_synchronize env (er_state x)) (\<lambda>hero_revision.
          let occurred = max now (ss_updated_at_unix_ms (sd_value s));
              y = \<lparr>co_schema_version = encounter_commit_schema_version, co_campaign_session_id = sd_id s,
                   co_result_campaign_revision = next_revision, co_event_sequence = next_sequence,
                   co_result_hero_revision = hero_revision, co_resolution = x, co_roll_records = records,
                   co_legal_actions = actions\<rparr>;
              e = \<lparr>se_schema_version = session_schema_version, se_session_id = sd_id s,
                   se_sequence = next_sequence, se_occurred_at_unix_ms = occurred, se_actor = SystemActor,
                   se_payload = EncounterResolved c y origin\<rparr>
          in and_then (map_err AppInvalidOutcome (outcome_boundary_validate y)) (\<lambda>_.
             and_then (map_err AppInvalidOutcome (event_validate e)) (\<lambda>_.
               Ok (y, e, (sd_value s)\<lparr>ss_updated_at_unix_ms := occurred,
                                      ss_last_event_sequence := next_sequence\<rparr>))))))))))))"

definition encounter_receipt ::
  "('seed, 'j) environment \<Rightarrow> string \<Rightarrow> encounter_mutation \<Rightarrow> stored_session \<Rightarrow> committed_outcome
    \<Rightarrow> 'j command_receipt" where
  "encounter_receipt env audit_id m s y =
     \<lparr>rp_actor_account_id = local_hero_owner_key, rp_campaign_session_id = sd_id s,
      rp_idempotency_key = mutation_key m, rp_command_kind = mutation_kind m,
      rp_request_fingerprint = ve_digest env (normalized m),
      rp_expected_revision = mutation_campaign_revision m,
      rp_result_revision = co_result_campaign_revision y, rp_audit_id = audit_id,
      rp_response_json = ve_encode env y\<rparr>"

definition receipt_or ::
  "('seed, 'j) environment \<Rightarrow> encounter_mutation \<Rightarrow> 'j campaign_store \<Rightarrow> application_error \<Rightarrow> committed_outcome app"
where
  "receipt_or env m st e =
     and_then (map_err AppRepository
       (load_command_receipt local_hero_owner_key (mutation_campaign m) (mutation_key m) st)) (\<lambda>found.
       case found of Some r \<Rightarrow> outcome_from_receipt env m r | None \<Rightarrow> Err e)"

definition commit_encounter_mutation ::
  "('seed, 'j) environment \<Rightarrow> u64 \<Rightarrow> string \<Rightarrow> string \<Rightarrow> encounter_mutation \<Rightarrow> 'j campaign_store
    \<Rightarrow> committed_outcome app \<times> 'j campaign_store" where
  "commit_encounter_mutation env now audit_id correlation m st =
     (case and_then (ensure (is_valid_opaque_id correlation) InvalidStoredState) (\<lambda>_.
           and_then (mutation_validate m) (\<lambda>_.
           and_then (load_local_session st) (\<lambda>_.
             map_err AppRepository
               (load_command_receipt local_hero_owner_key (mutation_campaign m) (mutation_key m) st)))) of
        Err e \<Rightarrow> (Err e, st)
      | Ok (Some r) \<Rightarrow> (outcome_from_receipt env m r, st)
      | Ok None \<Rightarrow>
          (case and_then (project_store env st) (\<lambda>(s, v, next_cursor).
                and_then (prepare_outcome env now m s v next_cursor) (\<lambda>(y, e, post). Ok (s, y, e, post))) of
             Err e \<Rightarrow> (Err e, st)
           | Ok (s, y, e, post) \<Rightarrow>
               (case commit_with_receipt (ve_json_ok env) post (mutation_campaign_revision m) e []
                       (encounter_receipt env audit_id m s y) correlation st st of
                  (Ok revision, st') \<Rightarrow>
                    (if revision = co_result_campaign_revision y then Ok y else Err InvalidStoredState, st')
                | (Err (StoreRevisionConflict _ _ _ actual), st') \<Rightarrow>
                    (receipt_or env m st' (AppRevisionConflict (mutation_campaign_revision m) actual), st')
                | (Err (AlreadyExists ReceiptEntity _), st') \<Rightarrow>
                    (receipt_or env m st' InvalidStoredState, st')
                | (Err x, st') \<Rightarrow> (Err (AppRepository x), st'))))"

end
