(* ===== verification/Local_Campaign.thy ===== *)
theory Local_Campaign
  imports Encounter_Commit
begin

text \<open>
  The two operations of the local campaign outside the encounter
  (\<open>crates/game-server/src/application.rs\<close>): the authored exploration check and the authored social
  interaction, each from the request to the receipt, and the projection of the social scene.

  The dice are a source as in the engines; the seals of the campaign's pins are not modelled, and the
  hero document is given by the sheet and the level these operations read. Both normalised commands
  have the same fields, so that one type stands for their JSON text.
\<close>

section \<open>Authored content\<close>

definition local_social_action_id :: string where "local_social_action_id = ''parley-lockkeeper''"
definition social_objective_id :: string where "social_objective_id = ''earn-lockkeepers-trust''"
definition social_clock_id :: string where "social_clock_id = ''soot-tide-rises''"
definition social_npc_id :: string where "social_npc_id = ''lockkeeper-elin''"

definition authored_exploration_check :: "string \<Rightarrow> proficiency \<Rightarrow> ability_check option" where
  "authored_exploration_check action_id perception_proficiency =
     (if action_id = local_exploration_action_id
      then Some \<lparr>ck_ability = Wisdom, ck_proficiency = perception_proficiency, ck_difficulty_class = 13,
                ck_situational_modifier = 0, ck_roll_context = rc_normal\<rparr>
      else None)"

definition initial_social_state :: exploration_social_state where
  "initial_social_state =
     \<lparr>es_schema_version = rules_matrix_schema_version, es_turn = 1,
      es_objectives = [\<lparr>ob_objective_id = social_objective_id, ob_progress = 0, ob_target = 1,
                        ob_status = ObjectiveActive\<rparr>],
      es_clocks = [\<lparr>ck_clock_id = social_clock_id, ck_kind = ThreatClock, ck_filled = 0, ck_segments = 4\<rparr>],
      es_npcs = [\<lparr>npc_id = social_npc_id, npc_attitude = Indifferent\<rparr>]\<rparr>"

text \<open>Commands applied in a row, with the facts they leave.\<close>

fun apply_all ::
  "exploration_social_command list \<Rightarrow> exploration_social_state
    \<Rightarrow> (exploration_social_state \<times> exploration_social_fact list) app" where
  "apply_all [] s = Ok (s, [])"
| "apply_all (c # cs) s =
     (case apply_exploration_social_command c s of
        (Err _, _) \<Rightarrow> Err InvalidStoredState
      | (Ok x, s') \<Rightarrow> and_then (apply_all cs s') (\<lambda>(s'', xs). Ok (s'', x # xs)))"

definition resolve_authored_social_state ::
  "trusted_check_resolution \<Rightarrow> (exploration_social_state \<times> exploration_social_fact list) app" where
  "resolve_authored_social_state check =
     and_then (map_err (\<lambda>_. InvalidStoredState) (trusted_check_validate check)) (\<lambda>_.
       if td_band (tc_difficulty check) \<noteq> Moderate \<or> td_stakes (tc_difficulty check) \<noteq> NoStakes
         \<or> dr_ability (tc_result check) \<noteq> Charisma
       then Err InvalidStoredState
       else apply_all
         (AdvanceClock social_clock_id 1 #
          (if dr_outcome (tc_result check) = TestSuccess
           then [AdvanceObjective social_objective_id 1, ShiftNpcAttitude social_npc_id OneStepBetter]
           else [FailObjective social_objective_id, ShiftNpcAttitude social_npc_id OneStepWorse]) @
          [EndTurn]) initial_social_state)"

definition validate_authored_social_outcome :: "social_outcome \<Rightarrow> unit app" where
  "validate_authored_social_outcome x =
     and_then (map_err (\<lambda>_. InvalidStoredState) (social_outcome_validate x)) (\<lambda>_.
       if io_action_id x \<noteq> local_social_action_id then Err InvalidStoredState
       else and_then (resolve_authored_social_state (io_check x)) (\<lambda>(s, facts).
         if io_resulting_state x \<noteq> s \<or> io_facts x \<noteq> facts then Err InvalidStoredState else Ok ()))"

section \<open>Actors\<close>

type_synonym local_hero = "(derived_hero_sheet \<times> supported_level) option"

definition skilled :: "skill_summary \<Rightarrow> proficiency" where
  "skilled k = (if sk_proficient k then Proficient else NoProficiency)"

definition exploration_actor :: "character \<Rightarrow> local_hero \<Rightarrow> (ability_scores \<times> level \<times> proficiency) app" where
  "exploration_actor legacy hero =
     (case hero of
        None \<Rightarrow> Ok (ch_ability_scores legacy, ch_level legacy, Proficient)
      | Some (sheet, l) \<Rightarrow>
          and_then (ok_or (find (\<lambda>k. sk_skill k = Perception) (sh_skills sheet)) InvalidStoredState) (\<lambda>k.
          and_then (map_err (\<lambda>e. AppInvalidOutcome (CoreFault e)) (level_new (supported_level_value l))) (\<lambda>level.
            Ok (sh_ability_scores sheet, level, skilled k))))"

definition social_actor :: "character \<Rightarrow> local_hero \<Rightarrow> (ability_scores \<times> level \<times> proficiency) app" where
  "social_actor legacy hero =
     and_then (exploration_actor legacy hero) (\<lambda>(scores, level, _).
       Ok (scores, level,
         (case hero of
            None \<Rightarrow> Proficient
          | Some (sheet, _) \<Rightarrow>
              (case find (\<lambda>k. sk_skill k = Persuasion) (sh_skills sheet) of
                 None \<Rightarrow> Proficient
               | Some k \<Rightarrow> skilled k))))"

section \<open>Requests\<close>

datatype normalized_local = NormalizedLocal u16 string string string u64

record 'j local_environment =
  le_digest :: "normalized_local \<Rightarrow> sha256_digest"
  le_json_ok :: "'j \<Rightarrow> bool"
  le_encode_check :: "exploration_outcome \<Rightarrow> 'j"
  le_decode_check :: "'j \<Rightarrow> exploration_outcome option"
  le_encode_social :: "social_outcome \<Rightarrow> 'j"
  le_decode_social :: "'j \<Rightarrow> social_outcome option"

definition fingerprint_command :: "'j local_environment \<Rightarrow> attempt_exploration_check \<Rightarrow> sha256_digest" where
  "fingerprint_command env c =
     le_digest env (NormalizedLocal (ax_schema_version c) (ax_campaign_session_id c) (ax_character_id c)
       (ax_action_id c) (ax_expected_revision c))"

definition fingerprint_social_command :: "'j local_environment \<Rightarrow> attempt_social_interaction \<Rightarrow> sha256_digest" where
  "fingerprint_social_command env c =
     le_digest env (NormalizedLocal (as_schema_version c) (as_campaign_session_id c) (as_character_id c)
       (as_action_id c) (as_expected_revision c))"

definition exploration_command_kind :: string where "exploration_command_kind = ''attempt-exploration-check''"
definition social_command_kind :: string where "social_command_kind = ''attempt-social-interaction''"

definition check_outcome_from_receipt ::
  "'j local_environment \<Rightarrow> attempt_exploration_check \<Rightarrow> 'j command_receipt \<Rightarrow> exploration_outcome app" where
  "check_outcome_from_receipt env c r =
     (if rp_request_fingerprint r \<noteq> fingerprint_command env c then Err AppIdempotencyConflict
      else if rp_command_kind r \<noteq> exploration_command_kind
        \<or> rp_campaign_session_id r \<noteq> ax_campaign_session_id c
        \<or> rp_idempotency_key r \<noteq> ax_idempotency_key c \<or> rp_expected_revision r \<noteq> ax_expected_revision c
      then Err InvalidStoredState
      else and_then (ok_or (le_decode_check env (rp_response_json r)) InvalidStoredState) (\<lambda>x.
        if xo_campaign_session_id x \<noteq> ax_campaign_session_id c \<or> xo_character_id x \<noteq> ax_character_id c
          \<or> xo_action_id x \<noteq> ax_action_id c \<or> xo_result_revision x \<noteq> rp_result_revision r
        then Err InvalidStoredState else Ok x))"

definition social_outcome_from_receipt ::
  "'j local_environment \<Rightarrow> attempt_social_interaction \<Rightarrow> 'j command_receipt \<Rightarrow> social_outcome app" where
  "social_outcome_from_receipt env c r =
     (if rp_request_fingerprint r \<noteq> fingerprint_social_command env c then Err AppIdempotencyConflict
      else if rp_command_kind r \<noteq> social_command_kind
        \<or> rp_campaign_session_id r \<noteq> as_campaign_session_id c
        \<or> rp_idempotency_key r \<noteq> as_idempotency_key c \<or> rp_expected_revision r \<noteq> as_expected_revision c
      then Err InvalidStoredState
      else and_then (ok_or (le_decode_social env (rp_response_json r)) InvalidStoredState) (\<lambda>x.
        if io_campaign_session_id x \<noteq> as_campaign_session_id c \<or> io_character_id x \<noteq> as_character_id c
          \<or> io_action_id x \<noteq> as_action_id c \<or> io_result_revision x \<noteq> rp_result_revision r
        then Err InvalidStoredState
        else and_then (validate_authored_social_outcome x) (\<lambda>_. Ok x)))"

definition validate_local_command ::
  "attempt_exploration_check \<Rightarrow> stored_session \<Rightarrow> character \<Rightarrow> unit app" where
  "validate_local_command c s hero =
     (if ax_campaign_session_id c \<noteq> sd_id s then Err WrongCampaign
      else if ax_character_id c \<noteq> ch_id hero then Err WrongCharacter
      else if authored_exploration_check (ax_action_id c) Proficient = None
      then Err (UnknownAction (ax_action_id c))
      else if ss_status (sd_value s) \<noteq> SessionActive then Err CampaignCompleted
      else if ax_expected_revision c \<noteq> sd_revision s
      then Err (AppRevisionConflict (ax_expected_revision c) (sd_revision s))
      else Ok ())"

definition validate_social_command ::
  "attempt_social_interaction \<Rightarrow> stored_session \<Rightarrow> character \<Rightarrow> unit app" where
  "validate_social_command c s hero =
     (if as_campaign_session_id c \<noteq> sd_id s then Err WrongCampaign
      else if as_character_id c \<noteq> ch_id hero then Err WrongCharacter
      else if as_action_id c \<noteq> local_social_action_id then Err (UnknownAction (as_action_id c))
      else if ss_status (sd_value s) \<noteq> SessionActive then Err CampaignCompleted
      else if as_expected_revision c \<noteq> sd_revision s
      then Err (AppRevisionConflict (as_expected_revision c) (sd_revision s))
      else Ok ())"

section \<open>The commit\<close>

definition successor_session :: "u64 \<Rightarrow> stored_session \<Rightarrow> u64 \<Rightarrow> session_dto" where
  "successor_session now s next_sequence = (sd_value s)
     \<lparr>ss_updated_at_unix_ms := max now (ss_updated_at_unix_ms (sd_value s)),
      ss_last_event_sequence := next_sequence\<rparr>"

definition successor_event :: "u64 \<Rightarrow> stored_session \<Rightarrow> string \<Rightarrow> u64 \<Rightarrow> event_payload \<Rightarrow> session_event" where
  "successor_event now s campaign next_sequence p =
     \<lparr>se_schema_version = session_schema_version, se_session_id = campaign, se_sequence = next_sequence,
      se_occurred_at_unix_ms = max now (ss_updated_at_unix_ms (sd_value s)), se_actor = SystemActor,
      se_payload = p\<rparr>"

text \<open>The match on what the repository answers, with what a found receipt answers.\<close>

definition settle ::
  "('j \<Rightarrow> bool) \<Rightarrow> session_dto \<Rightarrow> u64 \<Rightarrow> session_event \<Rightarrow> 'j command_receipt \<Rightarrow> string \<Rightarrow> u64 \<Rightarrow> 'a
    \<Rightarrow> ('j command_receipt \<Rightarrow> 'a app) \<Rightarrow> 'j campaign_store \<Rightarrow> 'a app \<times> 'j campaign_store" where
  "settle json_ok post expected_revision e r correlation next_revision x again st =
     (case commit_with_receipt json_ok post expected_revision e [] r correlation st st of
        (Ok revision, st') \<Rightarrow> (if revision = next_revision then Ok x else Err InvalidStoredState, st')
      | (Err (StoreRevisionConflict _ _ _ actual), st') \<Rightarrow>
          (Err (AppRevisionConflict expected_revision actual), st')
      | (Err (AlreadyExists ReceiptEntity _), st') \<Rightarrow>
          (and_then (map_err AppRepository (load_command_receipt local_hero_owner_key
              (rp_campaign_session_id r) (rp_idempotency_key r) st')) (\<lambda>found.
           and_then (ok_or found InvalidStoredState) again), st')
      | (Err y, st') \<Rightarrow> (Err (AppRepository y), st'))"

section \<open>The exploration check\<close>

definition is_encounter :: "turn_audit \<Rightarrow> bool" where
  "is_encounter a \<longleftrightarrow> (case se_payload (ta_payload a) of EncounterResolved _ _ _ \<Rightarrow> True | _ \<Rightarrow> False)"

definition load_events :: "stored_session \<Rightarrow> 'j campaign_store \<Rightarrow> turn_audit list app" where
  "load_events s st =
     and_then (list_session_events (sd_id s) (sort_key se_sequence (st_events st))) (\<lambda>events.
     and_then (validate_event_stream s events) (\<lambda>_. Ok events))"

definition next_numbers :: "stored_session \<Rightarrow> (u64 \<times> u64) app" where
  "next_numbers s =
     and_then (ok_or (checked_add u64_max (sd_revision s) 1) InvalidStoredState) (\<lambda>next_revision.
     and_then (ok_or (checked_add u64_max (ss_last_event_sequence (sd_value s)) 1) InvalidStoredState)
       (\<lambda>next_sequence. Ok (next_revision, next_sequence)))"

text \<open>The requests of the local campaign begin alike: the campaign, and the receipt if there is one.\<close>

definition open_request ::
  "string \<Rightarrow> unit dto \<Rightarrow> string \<Rightarrow> string \<Rightarrow> 'j campaign_store
    \<Rightarrow> (stored_session \<times> character \<times> 'j command_receipt option) app" where
  "open_request correlation valid campaign key st =
     and_then (ensure (is_valid_opaque_id correlation) InvalidStoredState) (\<lambda>_.
     and_then (map_err AppInvalidCommand valid) (\<lambda>_.
     and_then (load_local_campaign st) (\<lambda>(s, legacy).
     and_then (map_err AppRepository (load_command_receipt local_hero_owner_key campaign key st)) (\<lambda>found.
       Ok (s, legacy, found)))))"

definition plan_check ::
  "local_hero \<Rightarrow> attempt_exploration_check \<Rightarrow> stored_session \<Rightarrow> character \<Rightarrow> 'j campaign_store
    \<Rightarrow> (u64 \<times> u64 \<times> ability_scores \<times> level \<times> ability_check) app" where
  "plan_check hero c s legacy st =
     and_then (validate_local_command c s legacy) (\<lambda>_.
     and_then (load_events s st) (\<lambda>events.
     and_then (if list_ex is_encounter events then Err (UnknownAction (ax_action_id c)) else Ok ()) (\<lambda>_.
     and_then (next_numbers s) (\<lambda>(next_revision, next_sequence).
     and_then (exploration_actor legacy hero) (\<lambda>(scores, level, proficiency).
     and_then (ok_or (authored_exploration_check (ax_action_id c) proficiency) (UnknownAction (ax_action_id c)))
       (\<lambda>check. Ok (next_revision, next_sequence, scores, level, check)))))))"

definition finish_check ::
  "'j local_environment \<Rightarrow> u64 \<Rightarrow> string \<Rightarrow> string \<Rightarrow> attempt_exploration_check \<Rightarrow> stored_session \<Rightarrow> u64 \<Rightarrow> u64
    \<Rightarrow> ability_check_result \<Rightarrow> 'j campaign_store \<Rightarrow> exploration_outcome app \<times> 'j campaign_store" where
  "finish_check env now audit_id correlation c s next_revision next_sequence result st =
     (let x = \<lparr>xo_schema_version = exploration_check_schema_version,
               xo_campaign_session_id = ax_campaign_session_id c, xo_character_id = ax_character_id c,
               xo_action_id = ax_action_id c, xo_result_revision = next_revision,
               xo_event_sequence = next_sequence, xo_result = result\<rparr>;
          e = successor_event now s (ax_campaign_session_id c) next_sequence
                (AbilityCheckResolved (ax_character_id c) (ax_action_id c) result)
      in case and_then (map_err AppInvalidOutcome (exploration_outcome_validate x)) (\<lambda>_.
                map_err AppInvalidOutcome (event_validate e)) of
           Err y \<Rightarrow> (Err y, st)
         | Ok _ \<Rightarrow> settle (le_json_ok env) (successor_session now s next_sequence) (ax_expected_revision c) e
             \<lparr>rp_actor_account_id = local_hero_owner_key, rp_campaign_session_id = ax_campaign_session_id c,
              rp_idempotency_key = ax_idempotency_key c, rp_command_kind = exploration_command_kind,
              rp_request_fingerprint = fingerprint_command env c,
              rp_expected_revision = ax_expected_revision c, rp_result_revision = next_revision,
              rp_audit_id = audit_id, rp_response_json = le_encode_check env x\<rparr>
             correlation next_revision x (check_outcome_from_receipt env c) st)"

definition attempt_exploration_check_with_correlation ::
  "'j local_environment \<Rightarrow> local_hero \<Rightarrow> u64 \<Rightarrow> string \<Rightarrow> string \<Rightarrow> attempt_exploration_check \<Rightarrow> 'd dice \<Rightarrow> 'd
    \<Rightarrow> 'j campaign_store \<Rightarrow> exploration_outcome app \<times> 'j campaign_store \<times> 'd" where
  "attempt_exploration_check_with_correlation env hero now audit_id correlation c roll d st =
     (case open_request correlation (exploration_command_validate c) (ax_campaign_session_id c)
             (ax_idempotency_key c) st of
        Err e \<Rightarrow> (Err e, st, d)
      | Ok (_, _, Some r) \<Rightarrow> (check_outcome_from_receipt env c r, st, d)
      | Ok (s, legacy, None) \<Rightarrow>
          (case plan_check hero c s legacy st of
             Err e \<Rightarrow> (Err e, st, d)
           | Ok (next_revision, next_sequence, scores, level, check) \<Rightarrow>
               (case ability_check_resolve roll check scores level d of
                  (Err e, d') \<Rightarrow> (Err (AppRules e), st, d')
                | (Ok result, d') \<Rightarrow>
                    (let (x, st') = finish_check env now audit_id correlation c s next_revision next_sequence result st
                     in (x, st', d')))))"

section \<open>The social interaction\<close>

definition decides_opening :: "event_payload \<Rightarrow> bool" where
  "decides_opening p \<longleftrightarrow>
     (case p of
        ExplorationSocialResolved _ _ \<Rightarrow> True
      | AbilityCheckResolved _ _ _ \<Rightarrow> True
      | EncounterResolved _ _ _ \<Rightarrow> True
      | _ \<Rightarrow> False)"

definition social_request :: "proficiency \<Rightarrow> trusted_check_request" where
  "social_request proficiency =
     \<lparr>tq_schema_version = rules_matrix_schema_version, tq_ability = Charisma, tq_skill = Some Persuasion,
      tq_proficiency = proficiency, tq_difficulty = Moderate, tq_stakes = NoStakes,
      tq_player_confirmed = False, tq_roll_context = rc_normal, tq_situational_modifiers = []\<rparr>"

definition plan_social ::
  "local_hero \<Rightarrow> attempt_social_interaction \<Rightarrow> stored_session \<Rightarrow> character \<Rightarrow> 'j campaign_store
    \<Rightarrow> (ability_scores \<times> level \<times> proficiency) app" where
  "plan_social hero c s legacy st =
     and_then (validate_social_command c s legacy) (\<lambda>_.
     and_then (load_events s st) (\<lambda>events.
     and_then (if list_ex (\<lambda>a. decides_opening (se_payload (ta_payload a))) events
               then Err (UnknownAction (as_action_id c)) else Ok ()) (\<lambda>_.
       social_actor legacy hero)))"

definition finish_social ::
  "'j local_environment \<Rightarrow> u64 \<Rightarrow> string \<Rightarrow> string \<Rightarrow> attempt_social_interaction \<Rightarrow> stored_session
    \<Rightarrow> trusted_check_resolution \<Rightarrow> 'j campaign_store \<Rightarrow> social_outcome app \<times> 'j campaign_store" where
  "finish_social env now audit_id correlation c s check st =
     (case and_then (resolve_authored_social_state check) (\<lambda>(state, facts).
           and_then (next_numbers s) (\<lambda>(next_revision, next_sequence).
           let x = \<lparr>io_schema_version = social_interaction_schema_version,
                    io_campaign_session_id = as_campaign_session_id c, io_character_id = as_character_id c,
                    io_action_id = as_action_id c, io_result_revision = next_revision,
                    io_event_sequence = next_sequence, io_check = check, io_facts = facts,
                    io_resulting_state = state\<rparr>;
               e = successor_event now s (as_campaign_session_id c) next_sequence (ExplorationSocialResolved c x)
           in and_then (map_err AppInvalidOutcome (social_outcome_validate x)) (\<lambda>_.
              and_then (validate_authored_social_outcome x) (\<lambda>_.
              and_then (map_err AppInvalidOutcome (event_validate e)) (\<lambda>_.
                Ok (x, e, next_revision, next_sequence)))))) of
        Err y \<Rightarrow> (Err y, st)
      | Ok (x, e, next_revision, next_sequence) \<Rightarrow>
          settle (le_json_ok env) (successor_session now s next_sequence) (as_expected_revision c) e
            \<lparr>rp_actor_account_id = local_hero_owner_key, rp_campaign_session_id = as_campaign_session_id c,
             rp_idempotency_key = as_idempotency_key c, rp_command_kind = social_command_kind,
             rp_request_fingerprint = fingerprint_social_command env c,
             rp_expected_revision = as_expected_revision c, rp_result_revision = next_revision,
             rp_audit_id = audit_id, rp_response_json = le_encode_social env x\<rparr>
            correlation next_revision x (social_outcome_from_receipt env c) st)"

definition attempt_social_interaction_with_correlation ::
  "'j local_environment \<Rightarrow> local_hero \<Rightarrow> u64 \<Rightarrow> string \<Rightarrow> string \<Rightarrow> attempt_social_interaction \<Rightarrow> 'd dice \<Rightarrow> 'd
    \<Rightarrow> 'j campaign_store \<Rightarrow> social_outcome app \<times> 'j campaign_store \<times> 'd" where
  "attempt_social_interaction_with_correlation env hero now audit_id correlation c roll d st =
     (case open_request correlation (social_command_validate c) (as_campaign_session_id c)
             (as_idempotency_key c) st of
        Err e \<Rightarrow> (Err e, st, d)
      | Ok (_, _, Some r) \<Rightarrow> (social_outcome_from_receipt env c r, st, d)
      | Ok (s, legacy, None) \<Rightarrow>
          (case plan_social hero c s legacy st of
             Err e \<Rightarrow> (Err e, st, d)
           | Ok (scores, level, proficiency) \<Rightarrow>
               (case resolve_trusted_check roll scores level (social_request proficiency) d of
                  (Err _, d') \<Rightarrow> (Err InvalidStoredState, st, d')
                | (Ok check, d') \<Rightarrow>
                    (let (x, st') = finish_social env now audit_id correlation c s check st in (x, st', d')))))"

section \<open>The social scene\<close>

fun latest_social :: "turn_audit list \<Rightarrow> social_outcome option" where
  "latest_social [] = None"
| "latest_social (a # as) =
     (case latest_social as of
        Some x \<Rightarrow> Some x
      | None \<Rightarrow>
          (case se_payload (ta_payload a) of ExplorationSocialResolved _ x \<Rightarrow> Some x | _ \<Rightarrow> None))"

definition project_social_scene :: "stored_session \<Rightarrow> turn_audit list \<Rightarrow> social_view app" where
  "project_social_scene s events =
     (let latest = latest_social events in
      and_then (case latest of None \<Rightarrow> Ok () | Some x \<Rightarrow> validate_authored_social_outcome x) (\<lambda>_.
        let v = \<lparr>sv_schema_version = social_interaction_schema_version, sv_campaign_session_id = sd_id s,
                 sv_campaign_revision = sd_revision s,
                 sv_last_event_sequence = ss_last_event_sequence (sd_value s),
                 sv_state = (case latest of None \<Rightarrow> initial_social_state | Some x \<Rightarrow> io_resulting_state x),
                 sv_latest_outcome = latest\<rparr>
        in and_then (map_err (\<lambda>_. InvalidStoredState) (social_view_validate v)) (\<lambda>_. Ok v)))"

end
