(* ===== verification/Encounter_Trail.thy ===== *)
theory Encounter_Trail
  imports Encounter_Commit
begin

text \<open>
  From the dice an encounter command draws to the proof that its record replays: the adapter leaves
  one cursor span per die, the canonical records join these spans, a generator set to the first
  cursor draws the same dice again, and the stored dice lead the engine to the same resolution.
\<close>

section \<open>The adapter\<close>

text \<open>The dice a generator draws for the questions of a transcript, and the spans they leave.\<close>

fun draws :: "transcript \<Rightarrow> deterministic_rng \<Rightarrow> die_cursor_span list \<Rightarrow> deterministic_rng \<Rightarrow> bool" where
  "draws [] r ss r' \<longleftrightarrow> ss = [] \<and> r' = r"
| "draws ((n, v) # xs) r ss r' \<longleftrightarrow>
     (case roll_die n r of
        (Err _, _) \<Rightarrow> False
      | (Ok w, r1) \<Rightarrow> w = v \<and> (case ss of [] \<Rightarrow> False
          | sp # ss \<Rightarrow> sp = \<lparr>dc_sides = n, dc_value = v, dc_cursor_before = cursor r, dc_cursor_after = cursor r1\<rparr>
              \<and> draws xs r1 ss r'))"

lemma draws_length: "draws xs r ss r' \<Longrightarrow> length ss = length xs"
  by (induction xs arbitrary: r ss) (auto split: prod.splits result.splits list.splits)

lemma draws_inner: "draws xs r ss r' \<Longrightarrow> inner r' = inner r"
  by (induction xs arbitrary: r ss)
    (auto split: prod.splits result.splits list.splits dest!: roll_die_cursor(1))

lemma draws_append:
  "draws (xs @ ys) r ss r' \<longleftrightarrow>
     (\<exists>r1. draws xs r (take (length xs) ss) r1 \<and> draws ys r1 (drop (length xs) ss) r')"
proof (induction xs arbitrary: r ss)
  case Nil
  then show ?case by simp
next
  case (Cons x xs)
  obtain n v where x: "x = (n, v)" by (cases x)
  obtain res r1 where r1: "roll_die n r = (res, r1)" by fastforce
  show ?case
  proof (cases res)
    case (Err e)
    then show ?thesis by (simp add: x r1)
  next
    case (Ok w)
    show ?thesis by (cases ss) (auto simp: x r1 Ok Cons.IH)
  qed
qed

lemma draws_first_last:
  assumes "draws xs r ss r'" "xs \<noteq> []"
  shows "dc_cursor_before (hd ss) = cursor r" "dc_cursor_after (last ss) = cursor r'"
  using assms
proof (induction xs arbitrary: r ss)
  case (Cons x xs)
  {
    case 1
    then show ?case by (cases x; cases ss) (auto split: prod.splits result.splits)
  next
    case 2
    from 2(1) obtain n v sp ss1 r1 where d: "x = (n, v)" "ss = sp # ss1" "roll_die n r = (Ok v, r1)"
      "dc_cursor_after sp = cursor r1" "draws xs r1 ss1 r'"
      by (cases x; cases ss) (auto split: prod.splits result.splits)
    show ?case
    proof (cases "xs = []")
      case True
      with d show ?thesis by simp
    next
      case False
      with d Cons.IH(2) [OF d(5)] draws_length [OF d(5)] show ?thesis by (cases ss1) auto
    qed
  }
qed simp_all

lemma adapter_roll_sound:
  assumes "ad_error (snd (adapter_roll n a)) = None"
  shows "ad_error a = None \<and> (\<exists>r1. roll_die n (ad_rng a) = (Ok (fst (adapter_roll n a)), r1) \<and>
    ad_rng (snd (adapter_roll n a)) = r1 \<and>
    ad_spans (snd (adapter_roll n a)) = ad_spans a @ [\<lparr>dc_sides = n, dc_value = fst (adapter_roll n a),
      dc_cursor_before = cursor (ad_rng a), dc_cursor_after = cursor r1\<rparr>])"
  using assms by (auto simp: adapter_roll_def split: option.splits prod.splits result.splits if_splits)

lemma adapter_trail:
  assumes "asks adapter_roll xs a a'" "ad_error a' = None"
  shows "ad_error a = None \<and>
    (\<exists>ss. ad_spans a' = ad_spans a @ ss \<and> draws xs (ad_rng a) ss (ad_rng a'))"
  using assms
proof (induction xs arbitrary: a)
  case Nil
  then show ?case by simp
next
  case (Cons x xs)
  obtain n v where x: "x = (n, v)" by (cases x)
  obtain a1 where a1: "adapter_roll n a = (v, a1)" "asks adapter_roll xs a1 a'"
    using Cons.prems(1) by (cases "adapter_roll n a") (auto simp: x)
  from Cons.IH [OF a1(2) Cons.prems(2)] obtain ss where ss: "ad_error a1 = None"
    "ad_spans a' = ad_spans a1 @ ss" "draws xs (ad_rng a1) ss (ad_rng a')" by blast
  from adapter_roll_sound [of n a] a1(1) ss(1) obtain r1 where r1: "ad_error a = None"
    "roll_die n (ad_rng a) = (Ok v, r1)" "ad_rng a1 = r1"
    "ad_spans a1 = ad_spans a @ [\<lparr>dc_sides = n, dc_value = v, dc_cursor_before = cursor (ad_rng a),
      dc_cursor_after = cursor r1\<rparr>]" by auto
  with ss show ?case by (intro conjI exI [of _ "\<lparr>dc_sides = n, dc_value = v,
      dc_cursor_before = cursor (ad_rng a), dc_cursor_after = cursor r1\<rparr> # ss"]) (simp_all add: x)
qed

section \<open>The stored dice\<close>

lemma recorded_trail:
  "asks recorded_roll xs \<lparr>rec_dice = pre @ xs @ post, rec_index = length pre, rec_invalid = b\<rparr>
     \<lparr>rec_dice = pre @ xs @ post, rec_index = length pre + length xs, rec_invalid = b\<rparr>"
proof (induction xs arbitrary: pre)
  case (Cons x xs)
  obtain n v where x: "x = (n, v)" by (cases x)
  from Cons.IH [of "pre @ [x]"] show ?case
    by (simp add: x recorded_roll_def nth_append)
qed simp

lemma recorded_all:
  "asks recorded_roll (faces_of (er_rolls x)) (recorded_from_resolution x)
     ((recorded_from_resolution x)\<lparr>rec_index := length (faces_of (er_rolls x))\<rparr>)"
  using recorded_trail [of "faces_of (er_rolls x)" "[]" "[]" False]
  by (simp add: recorded_from_resolution_def)

lemma seeded_resolution_replays:
  assumes "resolve_encounter s c roll d = (Ok x, d')"
  shows "replay_resolution s c x = Ok ()"
proof -
  from followsD [OF follows_resolve_encounter assms] have
    "resolve_encounter s c recorded_roll (recorded_from_resolution x) =
      (Ok x, (recorded_from_resolution x)\<lparr>rec_index := length (faces_of (er_rolls x))\<rparr>)"
    using recorded_all by (metis (no_types, lifting))
  then show ?thesis by (simp add: replay_resolution_def recorded_from_resolution_def)
qed

section \<open>The canonical records\<close>

lemma regenerate_draws:
  "draws (map (\<lambda>x. (rd_sides x, rd_value x)) dice) r ss r' \<Longrightarrow> regenerate_dice dice r = Ok r'"
  by (induction dice arbitrary: r ss) (auto split: prod.splits result.splits list.splits)

lemma record_from_roll_fields:
  "record_from_roll d m ms = Ok r \<Longrightarrow>
   rr_seed_reference r = rm_seed_reference m \<and> rr_cursor_before r = dl_cursor_before d \<and>
   rr_cursor_after r = dl_cursor_after d"
  by (auto simp: record_from_roll_def Let_def)

lemma canonical_record_trail:
  assumes "canonical_record i q ref raw ss = Ok rec"
    and "draws (map (\<lambda>x. (rd_sides x, rd_value x)) (rf_individual_dice raw)) r ss r'"
  shows "rr_seed_reference rec = ref \<and> rr_cursor_before rec = cursor r \<and> rr_cursor_after rec = cursor r'"
proof -
  from assms(1) have "ss \<noteq> []" "length ss = length (rf_individual_dice raw)"
    "rr_seed_reference rec = ref \<and> rr_cursor_before rec = dc_cursor_before (hd ss) \<and>
     rr_cursor_after rec = dc_cursor_after (last ss)"
    unfolding canonical_record_def Let_def by (auto split: if_splits dest!: record_from_roll_fields)
  moreover from this(1,2) have "rf_individual_dice raw \<noteq> []" by auto
  ultimately show ?thesis using draws_first_last [OF assms(2)] by simp
qed

lemma faces_of_Cons: "faces_of (raw # raws) =
    map (\<lambda>x. (rd_sides x, rd_value x)) (rf_individual_dice raw) @ faces_of raws"
  by (simp add: faces_of_def)

lemma canonical_records_verify:
  "canonical_roll_records i q ref raws ss = Ok recs \<Longrightarrow> draws (faces_of raws) r ss r' \<Longrightarrow>
   length recs = length raws \<and> verify_rolls ref (zip raws recs) r = Ok r'"
proof (induction raws arbitrary: ss recs r)
  case Nil
  then show ?case by (auto split: if_splits)
next
  case (Cons raw raws)
  let ?n = "length (rf_individual_dice raw)"
  let ?xs = "map (\<lambda>x. (rd_sides x, rd_value x)) (rf_individual_dice raw)"
  from Cons.prems(2) obtain r1 where r1: "draws ?xs r (take ?n ss) r1" "draws (faces_of raws) r1 (drop ?n ss) r'"
    by (auto simp: faces_of_Cons draws_append)
  from Cons.prems(1) obtain rec recs' where rec: "canonical_record i q ref raw (take ?n ss) = Ok rec"
    "canonical_roll_records i q ref raws (drop ?n ss) = Ok recs'" "recs = rec # recs'"
    by (auto simp: Let_def)
  from canonical_record_trail [OF rec(1) r1(1)] regenerate_draws [OF r1(1)] Cons.IH [OF rec(2) r1(2)] rec(3)
  show ?case by simp
qed

section \<open>A roll that cannot be recorded\<close>

text \<open>A spell attack writes the number of d20s it rolled into its expression, so under advantage or
  disadvantage the text reads as two dice. A stored record of such a roll must name one die.\<close>

lemma two_dice_expression:
  assumes "\<bar>b\<bar> \<le> 100000"
  shows "expression_from_str (dice_expression_text 2 20 b) = Ok \<lparr>de_count = 2, de_sides = 20, de_constant = b\<rparr>"
proof -
  let ?e = "\<lparr>de_count = 2, de_sides = 20, de_constant = b\<rparr>"
  have "dice_expression_text 2 20 b = expression_display ?e"
    by (simp add: dice_expression_text_def expression_display_def)
  moreover have "expression_valid ?e"
    using assms by (auto simp: expression_valid_def validate_expression_parts_iff)
  ultimately show ?thesis by (simp add: from_str_display)
qed

lemma many_dice_unrecordable:
  assumes "dl_roll_mode d \<noteq> NormalRoll" "de_count (dl_expression d) \<noteq> 1"
  shows "\<exists>x. record_from_roll d m ms = Err x"
proof (cases "record_from_roll d m ms")
  case (Ok r)
  then have "record_validate r = Ok ()" "rr_roll_mode r = dl_roll_mode d" "rr_expression r = dl_expression d"
    by (auto simp: record_from_roll_def Let_def)
  then have "is_ok (record_shape r)" "rr_roll_mode r \<noteq> NormalRoll" "de_count (rr_expression r) \<noteq> 1"
    using assms by (auto simp: record_validate_def split: if_splits)
  then show ?thesis by (auto simp: record_shape_def split: roll_mode.splits if_splits)
qed simp

lemma fold_spell_damage: "\<exists>rest. fold (\<lambda>x rolls. push_spell_damage_roll rolls x target_id spell) xs rolls = rolls @ rest"
proof (induction xs arbitrary: rolls)
  case (Cons x xs)
  obtain r where "push_spell_damage_roll rolls x target_id spell = rolls @ r"
    by (auto simp: push_spell_damage_roll_def Let_def)
  with Cons [of "rolls @ r"] show ?case by auto
qed simp


text \<open>A Fire Bolt thrown at the wight within five feet: the dice fall 12 and 7, the lower is kept.\<close>

definition close_bolt :: spell_attack_resolution where
  "close_bolt =
     \<lparr>sar_roll = \<lparr>d20_mode = Disadvantage, d20_first = 12, d20_second = Some 7, d20_selected = 7\<rparr>,
      sar_spell_attack_bonus = 5, sar_total = 12, sar_target_armor_class = 12,
      sar_outcome = TestSuccess\<rparr>"


end
