(* ===== verification/Encounter_Journal.thy ===== *)
theory Encounter_Journal
  imports Encounter_Trail Encounter_Laws
begin

text \<open>
  The journal of an encounter: whatever the service commits, the projection accepts, and it shows
  the committed outcome; a request that is repeated is answered from its receipt.
\<close>

section \<open>The first command\<close>

lemma profile_cong:
  "en_hero s' = en_hero s \<Longrightarrow> en_hero_rules s' = en_hero_rules s \<Longrightarrow> enc_hero_profile s' = enc_hero_profile s"
  unfolding enc_hero_profile_def by (cases "cb_source_character_id (en_hero s)") simp_all

lemma set_current_turn_keeps_hero:
  "on_ok (set_current_turn n s) (\<lambda>s'. en_hero s' = en_hero s \<and> en_hero_rules s' = en_hero_rules s)"
  by (auto simp: set_current_turn_def Let_def outcomes_simps intro!: on_okI)

lemma begin_combat_keeps_profile:
  "on_ok (begin_combat rolled rolls s) (\<lambda>h. enc_hero_profile (hn_state h) = enc_hero_profile s)"
  by (auto simp: begin_combat_def Let_def handled_def outcomes_simps
      intro!: on_okI profile_cong dest!: on_okD [OF set_current_turn_keeps_hero])

lemma start_keeps_profile:
  "resolve_start s roll d = (Ok h, d') \<Longrightarrow> enc_hero_profile (hn_state h) = enc_hero_profile s"
  by (auto simp: resolve_start_def case_prod_unfold split: if_splits
      dest!: on_okD [OF begin_combat_keeps_profile])

lemma ready_quiet:
  assumes "encounter_validate s = Ok ()" "en_schema_version s = encounter_schema_version"
    "en_status s = EncReady"
  shows "\<not> reaction_pending s"
proof -
  from assms obtain live where "en_live s = Some live" "\<not> live_progressed live"
    by (auto simp: encounter_valid_iff live_ok_def validate_live_iff)
  then show ?thesis by (simp add: reaction_pending_def live_progressed_def)
qed

lemma ready_only_starts:
  assumes "encounter_validate s = Ok ()" "en_schema_version s = encounter_schema_version"
    "en_status s = EncReady" "handle_intent s i roll d = (Ok h, d')"
  shows "i = StartEncounter"
proof -
  have actor: "require_conscious_active_actor s = Err (IllegalIntent NotActive)"
    using assms(3) by (simp add: require_conscious_active_actor_def)
  have legal: "require_legal s a = Err (IllegalIntent NotALegalAction)" if "a \<noteq> LegalStart" for a
    using assms(1,3) ready_quiet [OF assms(1-3)] that
    by (simp add: require_legal_def legal_actions_def ensure_def)
  show ?thesis
    using assms(3,4)
    by (cases i)
      (simp_all add: actor legal resolve_move_def resolve_attack_def prepare_attack_def
        resolve_context_action_def resolve_cast_spell_def prepare_cast_def resolve_cast_light_def
        resolve_cast_mage_hand_def resolve_control_mage_hand_def resolve_dismiss_mage_hand_def
        resolve_cast_sleep_def resolve_shield_reaction_def prepare_shield_def resolve_decline_reaction_def
        resolve_second_wind_def prepare_feature_def resolve_action_surge_def resolve_begin_short_rest_def
        resolve_spend_hit_die_def resolve_arcane_recovery_def resolve_finish_short_rest_def
        resolve_long_rest_def resolve_end_turn_def enc_resolve_death_save_def split: if_splits)
qed

lemma resolution_parts:
  assumes "resolve_encounter s c roll d = (Ok x, d')"
  obtains h where "handle_intent s (ec_intent c) roll d = (Ok h, d')" "finish_resolution s h = Ok x"
    "encounter_validate s = Ok ()" "ec_encounter_id c = en_encounter_id s" "ec_expected_revision c = en_revision s"
  using assms unfolding resolve_encounter_def command_matches_def by (auto split: if_splits)

lemma finished_state:
  "finish_resolution s h = Ok x \<Longrightarrow>
   er_previous_revision x = en_revision s \<and> en_schema_version (er_state x) = en_schema_version s \<and>
   enc_hero_profile (er_state x) = enc_hero_profile (hn_state h) \<and> resolution_validate x = Ok () \<and>
   encounter_validate (er_state x) = Ok () \<and> er_encounter_id x = en_encounter_id s"
  by (auto simp: finish_resolution_def Let_def intro!: profile_cong)

lemma first_command_keeps_profile:
  assumes "resolve_encounter s c roll d = (Ok x, d')"
    "en_schema_version s = encounter_schema_version" "en_status s = EncReady"
  shows "enc_hero_profile (er_state x) = enc_hero_profile s"
proof -
  from assms(1) obtain h where h: "handle_intent s (ec_intent c) roll d = (Ok h, d')"
    "finish_resolution s h = Ok x" "encounter_validate s = Ok ()" by (rule resolution_parts)
  from ready_only_starts [OF h(3) assms(2,3) h(1)] h(1) have "resolve_start s roll d = (Ok h, d')" by simp
  from start_keeps_profile [OF this] finished_state [OF h(2)] show ?thesis by simp
qed

lemma new_for_hero_profile:
  assumes "new_for_hero policy opening p = Ok s"
  shows "enc_hero_profile s = Some p \<and> en_status s = EncReady"
  using assms
  by (cases p) (auto simp: new_for_hero_def new_for_hero_at_schema_def Let_def enc_hero_profile_def encounter_new_def)

lemma encounter_new_profile:
  "enc_hero_profile (encounter_new policy opening) = None" "en_status (encounter_new policy opening) = EncReady"
  by (simp_all add: enc_hero_profile_def encounter_new_def fixed_hero_def)

text \<open>The state an encounter starts from can be read off the state its first command leaves.\<close>

lemma initial_encounter_again:
  assumes "initial_encounter opening None current = Ok s" "en_schema_version s = encounter_schema_version"
    and "resolve_encounter s c roll d = (Ok x, d')"
  shows "initial_encounter opening (Some (en_schema_version (er_state x), enc_hero_profile (er_state x))) current = Ok s"
proof -
  from assms(3) obtain h where "finish_resolution s h = Ok x" by (rule resolution_parts)
  with finished_state assms(2) have v: "en_schema_version (er_state x) = encounter_schema_version" by metis
  show ?thesis
  proof (cases current)
    case None
    with assms(1) have s: "s = encounter_new StoryRecovery opening" by (simp add: initial_encounter_def)
    with first_command_keeps_profile [OF assms(3,2)] encounter_new_profile
    have "enc_hero_profile (er_state x) = None" by metis
    with v s show ?thesis by (simp add: initial_encounter_def Let_def)
  next
    case (Some p)
    with assms(1) have s: "new_for_hero StoryRecovery opening p = Ok s" by (simp add: initial_encounter_def)
    with first_command_keeps_profile [OF assms(3,2)] new_for_hero_profile [OF s]
    have "enc_hero_profile (er_state x) = Some p" by simp
    with v s show ?thesis by (simp add: initial_encounter_def)
  qed
qed

section \<open>The projection of a longer journal\<close>

lemma first_profile_append:
  "first_encounter_profile (as @ bs) =
     (case first_encounter_profile as of None \<Rightarrow> first_encounter_profile bs | Some f \<Rightarrow> Some f)"
  by (induction as) (auto simp: Let_def split: event_payload.splits)

lemma project_events_append:
  "project_events ref k (as @ bs) p = and_then (project_events ref k as p) (project_events ref k bs)"
proof (induction as arbitrary: p)
  case (Cons a as)
  then show ?case by (cases "project_event ref k a p") simp_all
qed simp

lemma project_without_encounter:
  "first_encounter_profile as = None \<Longrightarrow> project_events ref k as p = Ok p' \<Longrightarrow> p' = p"
  by (induction as arbitrary: p)
    (auto simp: project_event_def Let_def split: event_payload.splits if_splits)

lemma regenerate_inner: "regenerate_dice dice r = Ok r' \<Longrightarrow> inner r' = inner r"
  by (induction dice arbitrary: r)
    (auto split: prod.splits result.splits if_splits dest!: roll_die_cursor(1))

lemma verify_inner: "verify_rolls ref ps r = Ok r' \<Longrightarrow> inner r' = inner r"
  by (induction ps arbitrary: r) (auto split: if_splits dest!: regenerate_inner)

lemma project_inner: "project_events ref k as p = Ok p' \<Longrightarrow> inner (pj_rng p') = inner (pj_rng p)"
  by (induction as arbitrary: p)
    (fastforce simp: project_event_def project_resolved_def Let_def dest!: verify_inner
      split: event_payload.splits if_splits)+

lemma first_check_skip:
  "check_of_audit a = Ok None \<Longrightarrow> latest_exploration_check (as @ [a]) = latest_exploration_check as"
  by (simp add: latest_exploration_check_def)

section \<open>What a commit prepares\<close>

lemma derived:
  assumes "derive_command m s v = Ok (c, origin)"
  shows "cc_expected_campaign_revision c = sd_revision s" "cc_campaign_session_id c = sd_id s"
    "check_origin (ev_state v) (ec_intent (cc_command c)) origin = Ok ()"
    "mutation_campaign m = sd_id s" "mutation_campaign_revision m = sd_revision s"
    "mutation_encounter_revision m = en_revision (ev_state v)"
    "ss_status (sd_value s) = SessionActive"
  using assms
  by (cases m; force simp: validate_local_encounter_command_def validate_local_npc_command_def check_origin_def
      command_new_def split: if_splits)+

lemma seeded_parts:
  assumes "resolve_with_seed env s c n = Ok (x, spans)"
  obtains a where "resolve_encounter s c adapter_roll
      (adapter_new (rng_at_cursor (ve_chacha env) (ve_seed env) n)) = (Ok x, a)"
    "ad_error a = None" "spans = ad_spans a"
  using assms unfolding resolve_with_seed_def by (auto simp: Let_def split: prod.splits if_splits option.splits)

lemma prepared:
  assumes "prepare_outcome env now m s v n = Ok (y, e, post)"
  obtains c origin spans where
    "derive_command m s v = Ok (c, origin)" "en_schema_version (ev_state v) = encounter_schema_version"
    "resolve_with_seed env (ev_state v) (cc_command c) n = Ok (co_resolution y, spans)"
    "canonical_roll_records (sd_id s) (ss_last_event_sequence (sd_value s) + 1) (ve_seed_reference env)
       (er_rolls (co_resolution y)) spans = Ok (co_roll_records y)"
    "player_legal_actions (er_state (co_resolution y)) = Ok (co_legal_actions y)"
    "outcome_boundary_validate y = Ok ()" "event_validate e = Ok ()"
    "se_payload e = EncounterResolved c y origin" "se_sequence e = ss_last_event_sequence (sd_value s) + 1"
    "se_session_id e = sd_id s" "co_campaign_session_id y = sd_id s"
    "co_event_sequence y = ss_last_event_sequence (sd_value s) + 1"
    "co_result_campaign_revision y = sd_revision s + 1" "sd_revision s + 1 \<le> u64_max"
    "ss_last_event_sequence post = ss_last_event_sequence (sd_value s) + 1" "ss_id post = ss_id (sd_value s)"
    "ss_character_ids post = ss_character_ids (sd_value s)"
  using assms unfolding prepare_outcome_def Let_def
  by (auto split: if_splits)

lemma projected:
  assumes "project_encounter chacha s check events seed ref current = Ok (v, n)"
  obtains start p where
    "xo_campaign_session_id check = sd_id s" "xo_character_id check = local_character_id"
    "xo_action_id check = local_exploration_action_id"
    "xo_event_sequence check \<le> ss_last_event_sequence (sd_value s)"
    "initial_encounter (if cr_success (xo_result check) then RunesUnderstood else RunesMisread)
       (first_encounter_profile events) current = Ok start"
    "project_events ref (xo_event_sequence check) events
       \<lparr>pj_state = start, pj_latest = None, pj_rng = rng_new chacha seed, pj_started = False\<rparr> = Ok p"
    "encounter_view_of s p = Ok v" "n = cursor (pj_rng p)"
  using assms unfolding project_encounter_def by (auto split: if_splits)

lemma viewed:
  assumes "encounter_view_of s p = Ok v"
  shows "ev_state v = pj_state p" "is_valid_opaque_id (sd_id s)"
    "ss_last_event_sequence (sd_value s) + 1 = sd_revision s"
  using assms
  by (auto simp: encounter_view_of_def encounter_view_validate_def Let_def checked_add_def split: if_splits)

lemma view_of_outcome:
  assumes "outcome_boundary_validate y = Ok ()" "player_legal_actions (er_state (co_resolution y)) = Ok (co_legal_actions y)"
    and "is_valid_opaque_id (sd_id s)" "co_campaign_session_id y = sd_id s"
    and "co_result_campaign_revision y = sd_revision s" "co_event_sequence y = ss_last_event_sequence (sd_value s)"
    and "pj_state p = er_state (co_resolution y)" "pj_latest p = Some y"
  shows "\<exists>v. encounter_view_of s p = Ok v \<and> ev_state v = er_state (co_resolution y) \<and>
    ev_latest_outcome v = Some y \<and> ev_legal_actions v = co_legal_actions y"
proof -
  have valid: "outcome_validate y = Ok ()" using assms(1) by (auto simp: outcome_boundary_validate_def)
  then have numbers: "co_result_campaign_revision y \<noteq> 0"
    "checked_add u64_max (co_event_sequence y) 1 = Some (co_result_campaign_revision y)"
    by (auto simp: outcome_validate_def Let_def split: if_splits)
  have state: "encounter_validate (er_state (co_resolution y)) = Ok ()"
    using assms(2) by (auto simp: player_legal_actions_def)
  show ?thesis
    using assms(2-) valid numbers state
    by (simp add: encounter_view_of_def encounter_view_validate_def Let_def)
qed

lemma projection_extends:
  assumes p: "project_encounter (ve_chacha env) s check events (ve_seed env) (ve_seed_reference env) current = Ok (v, n)"
    and o: "prepare_outcome env now m s v n = Ok (y, e, post)"
  shows "\<exists>v' n'. project_encounter (ve_chacha env)
      \<lparr>sd_id = sd_id s, sd_revision = sd_revision s + 1, sd_value = post\<rparr> check
      (events @ [\<lparr>ta_campaign_session_id = sd_id s, ta_turn_number = se_sequence e, ta_payload = e\<rparr>])
      (ve_seed env) (ve_seed_reference env) current = Ok (v', n') \<and>
    ev_state v' = er_state (co_resolution y) \<and> ev_latest_outcome v' = Some y \<and>
    ev_legal_actions v' = co_legal_actions y"
proof -
  let ?a = "\<lparr>ta_campaign_session_id = sd_id s, ta_turn_number = se_sequence e, ta_payload = e\<rparr>"
  let ?s = "\<lparr>sd_id = sd_id s, sd_revision = sd_revision s + 1, sd_value = post\<rparr>"
  let ?opening = "if cr_success (xo_result check) then RunesUnderstood else RunesMisread"
  let ?k = "xo_event_sequence check" and ?x = "co_resolution y"
  obtain start p where p': "xo_campaign_session_id check = sd_id s" "xo_character_id check = local_character_id"
    "xo_action_id check = local_exploration_action_id" "?k \<le> ss_last_event_sequence (sd_value s)"
    "initial_encounter ?opening (first_encounter_profile events) current = Ok start"
    "project_events (ve_seed_reference env) ?k events
       \<lparr>pj_state = start, pj_latest = None, pj_rng = rng_new (ve_chacha env) (ve_seed env), pj_started = False\<rparr> = Ok p"
    "encounter_view_of s p = Ok v" "n = cursor (pj_rng p)" by (rule projected [OF p])
  obtain c origin spans where o': "derive_command m s v = Ok (c, origin)"
    "en_schema_version (ev_state v) = encounter_schema_version"
    "resolve_with_seed env (ev_state v) (cc_command c) n = Ok (?x, spans)"
    "canonical_roll_records (sd_id s) (ss_last_event_sequence (sd_value s) + 1) (ve_seed_reference env)
       (er_rolls ?x) spans = Ok (co_roll_records y)"
    "player_legal_actions (er_state ?x) = Ok (co_legal_actions y)"
    "outcome_boundary_validate y = Ok ()" "event_validate e = Ok ()"
    "se_payload e = EncounterResolved c y origin" "se_sequence e = ss_last_event_sequence (sd_value s) + 1"
    "se_session_id e = sd_id s" "co_campaign_session_id y = sd_id s"
    "co_event_sequence y = ss_last_event_sequence (sd_value s) + 1"
    "co_result_campaign_revision y = sd_revision s + 1" "sd_revision s + 1 \<le> u64_max"
    "ss_last_event_sequence post = ss_last_event_sequence (sd_value s) + 1" "ss_id post = ss_id (sd_value s)"
    by (rule prepared [OF o])
  note vw = viewed [OF p'(7)] and dv = derived [OF o'(1)]
  obtain a where a: "resolve_encounter (pj_state p) (cc_command c) adapter_roll
      (adapter_new (rng_at_cursor (ve_chacha env) (ve_seed env) n)) = (Ok ?x, a)"
    "ad_error a = None" "spans = ad_spans a" using seeded_parts [OF o'(3)] vw(1) by metis
  have rng: "rng_at_cursor (ve_chacha env) (ve_seed env) n = pj_rng p"
    using project_inner [OF p'(6)] by (simp add: p'(8) rng_at_cursor_def rng_new_def)
  obtain h where h: "finish_resolution (pj_state p) h = Ok ?x"
    "ec_encounter_id (cc_command c) = en_encounter_id (pj_state p)"
    "ec_expected_revision (cc_command c) = en_revision (pj_state p)" by (rule resolution_parts [OF a(1)])
  from followsD [OF follows_resolve_encounter a(1)]
  have "asks adapter_roll (faces_of (er_rolls ?x)) (adapter_new (pj_rng p)) a" by (metis rng)
  from adapter_trail [OF this a(2)] have "draws (faces_of (er_rolls ?x)) (pj_rng p) spans (ad_rng a)"
    by (auto simp: adapter_new_def a(3))
  from canonical_records_verify [OF o'(4) this]
  have verified: "verify_rolls (ve_seed_reference env) (zip (er_rolls ?x) (co_roll_records y)) (pj_rng p) = Ok (ad_rng a)"
    by blast
  let ?p = "\<lparr>pj_state = er_state ?x, pj_latest = Some y, pj_rng = ad_rng a, pj_started = True\<rparr>"
  have "project_resolved (ve_seed_reference env) ?k (se_sequence e) c y origin p = Ok ?p"
    using p'(4) o'(5,6,9) h(2,3) finished_state [OF h(1)] dv(1,3) vw verified
      seeded_resolution_replays [OF a(1)]
    by (simp add: project_resolved_def Let_def)
  then have events: "project_events (ve_seed_reference env) ?k (events @ [?a])
       \<lparr>pj_state = start, pj_latest = None, pj_rng = rng_new (ve_chacha env) (ve_seed env), pj_started = False\<rparr> = Ok ?p"
    by (simp add: project_events_append p'(6) project_event_def o'(8))
  have initial: "initial_encounter ?opening (first_encounter_profile (events @ [?a])) current = Ok start"
  proof (cases "first_encounter_profile events")
    case None
    with project_without_encounter [OF None p'(6)] have start: "pj_state p = start" by simp
    from initial_encounter_again [OF p'(5) [unfolded None] _ a(1) [unfolded start]] o'(2) vw(1) start
    show ?thesis by (simp add: first_profile_append None o'(8) Let_def split del: if_split)
  next
    case (Some f)
    with p'(5) show ?thesis by (simp add: first_profile_append)
  qed
  obtain v' where "encounter_view_of ?s ?p = Ok v'" "ev_state v' = er_state ?x" "ev_latest_outcome v' = Some y"
    "ev_legal_actions v' = co_legal_actions y"
    using view_of_outcome [of y ?s ?p] o' vw(2) by auto
  with events initial p'(1-4) o'(15) show ?thesis by (simp add: project_encounter_def)
qed

section \<open>The stored events\<close>

lemma insort_before_last: "f y \<le> f x \<Longrightarrow> insort_key f y (zs @ [x]) = insort_key f y zs @ [x]"
  by (induction zs) simp_all

lemma sort_key_snoc: "\<forall>y\<in>set ys. f y \<le> f x \<Longrightarrow> sort_key f (ys @ [x]) = sort_key f ys @ [x]"
  by (induction ys) (simp_all add: insort_before_last)

lemma list_events_append:
  "list_session_events c (as @ bs) =
     and_then (list_session_events c as) (\<lambda>xs. and_then (list_session_events c bs) (\<lambda>ys. Ok (xs @ ys)))"
proof (induction as)
  case Nil
  then show ?case by (cases "list_session_events c bs") simp_all
next
  case (Cons a as)
  then show ?case
    by (cases "stored_turn_event c a"; cases "list_session_events c as"; cases "list_session_events c bs")
      (simp_all del: stored_turn_event.simps)
qed

lemma listed_sequences:
  "list_session_events c es = Ok as \<Longrightarrow> map ta_turn_number as = map se_sequence es"
  by (induction es arbitrary: as) (auto split: if_splits)

lemma stream_numbers:
  "validate_stream_from s n as = Ok () \<Longrightarrow> map ta_turn_number as = [n..<n + length as]"
  by (induction as arbitrary: n) (auto split: if_splits simp: upt_conv_Cons simp del: upt.simps)

lemma stream_append:
  "validate_stream_from s n (as @ bs) = and_then (validate_stream_from s n as) (\<lambda>_. validate_stream_from s (n + length as) bs)"
  by (induction as arbitrary: n) (auto split: if_splits)

lemma stream_same_id: "sd_id s = sd_id s' \<Longrightarrow> validate_stream_from s n as = validate_stream_from s' n as"
  by (induction as arbitrary: n) auto

text \<open>An event that follows the last one is read back at the end.\<close>

lemma events_extend:
  assumes "list_session_events c (sort_key se_sequence es) = Ok as" "validate_event_stream s as = Ok ()"
    and "se_sequence e = ss_last_event_sequence (sd_value s) + 1" "se_session_id e = c" "sd_id s = c"
    and "repo_validate_event e = Ok ()" "sd_id s' = c" "ss_last_event_sequence (sd_value s') = se_sequence e"
  shows "list_session_events c (sort_key se_sequence (es @ [e])) =
      Ok (as @ [\<lparr>ta_campaign_session_id = c, ta_turn_number = se_sequence e, ta_payload = e\<rparr>])"
    and "validate_event_stream s' (as @ [\<lparr>ta_campaign_session_id = c, ta_turn_number = se_sequence e, ta_payload = e\<rparr>]) = Ok ()"
proof -
  from assms(2) have as: "length as = ss_last_event_sequence (sd_value s)" "validate_stream_from s 1 as = Ok ()"
    by (auto simp: validate_event_stream_def split: if_splits)
  with listed_sequences [OF assms(1)] stream_numbers have "map se_sequence (sort_key se_sequence es) = [1..<1 + length as]"
    by metis
  then have "set (map se_sequence (sort_key se_sequence es)) = {1..<1 + length as}" by (metis set_upt)
  then have numbers: "se_sequence ` set es = {1..<1 + length as}" by simp
  have "\<forall>y\<in>set es. se_sequence y \<le> se_sequence e"
  proof
    fix y assume "y \<in> set es"
    then have "se_sequence y \<in> {1..<1 + length as}" unfolding numbers [symmetric] by (rule imageI)
    then show "se_sequence y \<le> se_sequence e" using as(1) assms(3) by simp
  qed
  from sort_key_snoc [OF this] assms(1,4,6)
  show "list_session_events c (sort_key se_sequence (es @ [e])) =
      Ok (as @ [\<lparr>ta_campaign_session_id = c, ta_turn_number = se_sequence e, ta_payload = e\<rparr>])"
    by (simp add: list_events_append)
  have "validate_stream_from s' 1 as = Ok ()" using as(2) stream_same_id [of s' s] assms(5,7) by metis
  then show "validate_event_stream s' (as @ [\<lparr>ta_campaign_session_id = c, ta_turn_number = se_sequence e, ta_payload = e\<rparr>]) = Ok ()"
    using as(1) assms(3,4,7,8) by (simp add: validate_event_stream_def stream_append)
qed

section \<open>The commit on the store\<close>

lemma find_append: "List.find P (xs @ ys) = (case List.find P xs of None \<Rightarrow> List.find P ys | Some x \<Rightarrow> Some x)"
  by (induction xs) simp_all

lemma loaded_session:
  assumes "load_local_session st = Ok s"
  shows "sd_id s = st_campaign_id st" "sd_revision s = st_gameplay_revision st" "sd_value s = st_session st"
    "ss_id (sd_value s) = st_campaign_id st" "accessible local_hero_owner_key st"
    "is_valid_opaque_id (st_campaign_id st)"
    "sd_revision s = ss_last_event_sequence (sd_value s) + 1"
  using assms
  by (auto simp: load_local_session_def load_local_campaign_def load_campaign_session_def validate_stored_session_def
      validate_opaque_def validate_local_documents_def checked_add_def Let_def split: if_splits)

lemma load_character_same:
  assumes "st_campaign_id st' = st_campaign_id st" "accessible actor st' = accessible actor st"
    "st_characters st' = st_characters st"
  shows "load_character actor campaign i st' = load_character actor campaign i st"
  unfolding load_character_def assms ..

text \<open>A commit that keeps the roster and the characters leaves the local campaign playable.\<close>

lemma load_again:
  assumes ld: "load_local_session st = Ok s" and post: "repo_validate_session post = Ok ()" "ss_id post = st_campaign_id st"
    and st': "st_campaign_id st' = st_campaign_id st" "st_session st' = post"
      "st_owner_account_id st' = st_owner_account_id st" "st_lifecycle st' = st_lifecycle st"
      "accessible local_hero_owner_key st' = accessible local_hero_owner_key st"
      "st_characters st' = st_characters st"
    and next': "ss_character_ids post = ss_character_ids (sd_value s)"
      "ss_last_event_sequence post = ss_last_event_sequence (sd_value s) + 1"
      "st_gameplay_revision st' = sd_revision s + 1" "sd_revision s + 1 \<le> u64_max"
  shows "load_local_session st' = Ok \<lparr>sd_id = st_campaign_id st, sd_revision = st_gameplay_revision st', sd_value = post\<rparr>"
proof -
  let ?s = "\<lparr>sd_id = st_campaign_id st, sd_revision = st_gameplay_revision st', sd_value = post\<rparr>"
  from ld obtain q c n where l:
    "load_campaign_session local_hero_owner_key local_campaign_session_id st = Ok (Some q)"
    "st_owner_account_id st = local_hero_owner_key" "st_lifecycle st \<noteq> Archived"
    "load_character local_hero_owner_key local_campaign_session_id local_character_id st = Ok (Some (c, n))"
    "validate_local_documents s c = Ok ()"
    unfolding load_local_session_def load_local_campaign_def Let_def by (auto split: if_splits)
  have "load_campaign_session local_hero_owner_key local_campaign_session_id st' = Ok (Some (post, st_gameplay_revision st'))"
    using l(1) post st'(1,2,5)
    by (auto simp: load_campaign_session_def validate_stored_session_def repo_validate_session_def split: if_splits)
  moreover have "load_character local_hero_owner_key local_campaign_session_id local_character_id st' = Ok (Some (c, n))"
    unfolding load_character_same [OF st'(1,5,6)] by (rule l(4))
  moreover have "validate_local_documents ?s c = Ok ()"
    using l(5) next' loaded_session(1,7) [OF ld] by (auto simp: validate_local_documents_def checked_add_def)
  ultimately show ?thesis
    using l(2,3) st'(1,3,4) by (simp add: load_local_session_def load_local_campaign_def)
qed

lemma committed_session:
  assumes ld: "load_local_session st = Ok s" and o: "prepare_outcome env now m s v n = Ok (y, e, post)"
    and c: "prepare_commit local_hero_owner_key audit_id post (mutation_campaign_revision m) e [] (Some correlation) st = Ok ()"
    and t: "transact local_hero_owner_key post (mutation_campaign_revision m) e [] (Some rcpt) st = Ok st'"
  shows "load_local_session st' = Ok \<lparr>sd_id = sd_id s, sd_revision = sd_revision s + 1, sd_value = post\<rparr>"
proof -
  obtain c0 origin where o': "derive_command m s v = Ok (c0, origin)" "sd_revision s + 1 \<le> u64_max"
    "ss_last_event_sequence post = ss_last_event_sequence (sd_value s) + 1"
    "ss_character_ids post = ss_character_ids (sd_value s)" by (rule prepared [OF o])
  from transact_Ok [OF t] have st': "st_session st' = post" "st_gameplay_revision st' = sd_revision s + 1"
    "st_campaign_id st' = st_campaign_id st" "ss_id post = st_campaign_id st"
    "st_owner_account_id st' = st_owner_account_id st" "st_lifecycle st' = st_lifecycle st"
    "st_characters st' = st_characters st"
    "accessible local_hero_owner_key st' = accessible local_hero_owner_key st"
    using derived(5) [OF o'(1)] by (auto simp: accessible_def)
  from load_again [OF ld prepare_Ok(1) [OF c] st'(4,3,1,5,6,8,7) o'(4,3) st'(2) o'(2)]
  show ?thesis by (simp add: st'(2) loaded_session(1) [OF ld])
qed

text \<open>A commit that is not answered from a receipt, taken apart.\<close>

lemma committed_afresh:
  assumes "commit_encounter_mutation env now audit_id correlation m st = (r, st')"
  obtains (answered) x where "st' = st"
      "load_command_receipt local_hero_owner_key (mutation_campaign m) (mutation_key m) st = Ok (Some x)"
      "r = outcome_from_receipt env m x" "mutation_validate m = Ok ()" "\<exists>s. load_local_session st = Ok s"
  | (refused) e where "st' = st" "r = Err e"
  | (stored) s v n y e post where
      "project_store env st = Ok (s, v, n)" "prepare_outcome env now m s v n = Ok (y, e, post)"
      "prepare_commit local_hero_owner_key audit_id post (mutation_campaign_revision m) e [] (Some correlation) st = Ok ()"
      "transact local_hero_owner_key post (mutation_campaign_revision m) e []
         (Some (encounter_receipt env audit_id m s y)) st = Ok st'"
      "load_command_receipt local_hero_owner_key (mutation_campaign m) (mutation_key m) st = Ok None"
      "mutation_validate m = Ok ()" "r = Ok y" "\<exists>s. load_local_session st = Ok s"
proof -
  let ?lookup = "and_then (ensure (is_valid_opaque_id correlation) InvalidStoredState) (\<lambda>_.
           and_then (mutation_validate m) (\<lambda>_.
           and_then (load_local_session st) (\<lambda>_.
             map_err AppRepository
               (load_command_receipt local_hero_owner_key (mutation_campaign m) (mutation_key m) st))))"
  let ?prepared = "and_then (project_store env st) (\<lambda>(s, v, next_cursor).
                and_then (prepare_outcome env now m s v next_cursor) (\<lambda>(y, e, post). Ok (s, y, e, post)))"
  note run = assms [unfolded commit_encounter_mutation_def]
  show thesis
  proof (cases ?lookup)
    case (Err e)
    with run have "st' = st" "r = Err e" by simp_all
    then show thesis by (rule refused)
  next
    case (Ok found)
    show thesis
    proof (cases found)
      case (Some x)
      with run Ok answered [of x] show thesis by auto
    next
      case None
      show thesis
      proof (cases ?prepared)
        case (Err e)
        with run Ok None have "st' = st" "r = Err e" by simp_all
        then show thesis by (rule refused)
      next
        case (Ok q)
        then obtain s v n y e post where q: "q = (s, y, e, post)" "project_store env st = Ok (s, v, n)"
          "prepare_outcome env now m s v n = Ok (y, e, post)" by auto
        obtain c st1 where c: "commit_with_receipt (ve_json_ok env) post (mutation_campaign_revision m) e []
            (encounter_receipt env audit_id m s y) correlation st st = (c, st1)" by fastforce
        note run' = run [unfolded \<open>?lookup = Ok found\<close> None result.case option.case Ok q(1) prod.case c]
        show thesis
        proof (cases c)
          case (Err x)
          then have same: "st1 = st" using c
            by (auto simp: commit_with_receipt_def commit_session_event_def split: result.splits)
          have none: "receipt_or env m st x = Err x" for x
            using \<open>?lookup = Ok found\<close> None by (auto simp: receipt_or_def)
          show thesis
            using run' refused none same Err by (cases x) (auto split: entity.splits)
        next
          case (Ok revision)
          from c Ok have "commit_session_event (ve_json_ok env) local_hero_owner_key audit_id post
              (mutation_campaign_revision m) e [] (Some (encounter_receipt env audit_id m s y)) (Some correlation) st st
              = (Ok revision, st1)"
            by (auto simp: commit_with_receipt_def encounter_receipt_def split: result.splits)
          then have done': "revision = mutation_campaign_revision m + 1"
            "prepare_commit local_hero_owner_key audit_id post (mutation_campaign_revision m) e [] (Some correlation) st = Ok ()"
            "transact local_hero_owner_key post (mutation_campaign_revision m) e []
               (Some (encounter_receipt env audit_id m s y)) st = Ok st1"
            by (cases rule: commit_cases; simp)+
          have "co_result_campaign_revision y = mutation_campaign_revision m + 1"
            using prepared [OF q(3)] derived(5) by metis
          with run' Ok done' stored [OF q(2,3)] \<open>?lookup = Ok found\<close> None show thesis by auto
        qed
      qed
    qed
  qed
qed

text \<open>A stored commit, read back.\<close>

lemma stored_commit_projects:
  assumes p: "project_store env st = Ok (s, v, n)" and o: "prepare_outcome env now m s v n = Ok (y, e, post)"
    and c: "prepare_commit local_hero_owner_key audit_id post (mutation_campaign_revision m) e [] (Some correlation) st = Ok ()"
    and t: "transact local_hero_owner_key post (mutation_campaign_revision m) e [] (Some rcpt) st = Ok st'"
  shows "\<exists>s' v' n'. project_store env st' = Ok (s', v', n') \<and> sd_revision s' = co_result_campaign_revision y \<and>
    ev_state v' = er_state (co_resolution y) \<and> ev_latest_outcome v' = Some y \<and>
    ev_legal_actions v' = co_legal_actions y"
proof -
  from p obtain events check where p': "load_local_session st = Ok s"
    "list_session_events (st_campaign_id st) (sort_key se_sequence (st_events st)) = Ok events"
    "validate_event_stream s events = Ok ()" "latest_exploration_check events = Ok (Some check)"
    "project_encounter (ve_chacha env) s check events (ve_seed env) (ve_seed_reference env) (ve_profile env) = Ok (v, n)"
    unfolding project_store_def by auto
  obtain c origin where o': "derive_command m s v = Ok (c, origin)" "se_payload e = EncounterResolved c y origin"
    "se_sequence e = ss_last_event_sequence (sd_value s) + 1" "se_session_id e = sd_id s"
    "co_result_campaign_revision y = sd_revision s + 1"
    "ss_last_event_sequence post = ss_last_event_sequence (sd_value s) + 1" by (rule prepared [OF o])
  note ld = loaded_session [OF p'(1)] and pc = prepare_Ok [OF c]
  from transact_Ok [OF t] have st': "st_session st' = post" "st_gameplay_revision st' = sd_revision s + 1"
    "st_events st' = st_events st @ [e]" "st_campaign_id st' = st_campaign_id st" "ss_id post = st_campaign_id st"
    "accessible local_hero_owner_key st' = accessible local_hero_owner_key st"
    using derived(5) [OF o'(1)] by (auto simp: accessible_def)
  let ?s = "\<lparr>sd_id = sd_id s, sd_revision = sd_revision s + 1, sd_value = post\<rparr>"
  note session = committed_session [OF p'(1) o c t]
  let ?a = "\<lparr>ta_campaign_session_id = sd_id s, ta_turn_number = se_sequence e, ta_payload = e\<rparr>"
  note ext = events_extend [OF p'(2,3) o'(3) _ _ pc(2), of ?s]
  have events: "list_session_events (st_campaign_id st') (sort_key se_sequence (st_events st')) = Ok (events @ [?a])"
    "validate_event_stream ?s (events @ [?a]) = Ok ()"
    using ext o'(3,4,6) ld(1) st'(3,4) by simp_all
  have "check_of_audit ?a = Ok None" by (simp add: check_of_audit_def o'(2))
  then have check: "latest_exploration_check (events @ [?a]) = Ok (Some check)"
    using first_check_skip p'(4) by simp
  from projection_extends [OF p'(5) o] obtain v' n' where
    "project_encounter (ve_chacha env) ?s check (events @ [?a]) (ve_seed env) (ve_seed_reference env) (ve_profile env) = Ok (v', n')"
    "ev_state v' = er_state (co_resolution y)" "ev_latest_outcome v' = Some y" "ev_legal_actions v' = co_legal_actions y"
    by blast
  with session events check o'(5) st'(4) ld(1) show ?thesis
    unfolding project_store_def by simp
qed

text \<open>A command that was stored is answered from its receipt.\<close>

lemma stored_command_answers:
  assumes "project_store env st = Ok (s, v, n)" "prepare_outcome env now m s v n = Ok (y, e, post)"
    "prepare_commit local_hero_owner_key audit_id post (mutation_campaign_revision m) e [] (Some correlation) st = Ok ()"
    "transact local_hero_owner_key post (mutation_campaign_revision m) e []
       (Some (encounter_receipt env audit_id m s y)) st = Ok st'"
    "load_command_receipt local_hero_owner_key (mutation_campaign m) (mutation_key m) st = Ok None"
    "mutation_validate m = Ok ()" and decode: "\<And>x. ve_decode env (ve_encode env x) = Some x"
    and correlation': "is_valid_opaque_id correlation'"
  shows "commit_encounter_mutation env now' audit_id' correlation' m st' = (Ok y, st')"
proof -
  let ?r = "encounter_receipt env audit_id m s y"
  from assms(1) have ld: "load_local_session st = Ok s" unfolding project_store_def by auto
  note ld' = loaded_session [OF ld] and pc = prepare_Ok [OF assms(3)]
  obtain c origin spans where o': "derive_command m s v = Ok (c, origin)"
    "resolve_with_seed env (ev_state v) (cc_command c) n = Ok (co_resolution y, spans)"
    "player_legal_actions (er_state (co_resolution y)) = Ok (co_legal_actions y)"
    "outcome_boundary_validate y = Ok ()" "co_campaign_session_id y = sd_id s"
    "co_result_campaign_revision y = sd_revision s + 1" "sd_revision s + 1 \<le> u64_max"
    by (rule prepared [OF assms(2)])
  note dv = derived [OF o'(1)]
  from transact_Ok [OF assms(4)] have st': "st_session st' = post"
    "st_campaign_id st' = st_campaign_id st" "ss_id post = st_campaign_id st"
    "accessible local_hero_owner_key st' = accessible local_hero_owner_key st"
    "st_receipts st' = st_receipts st @ [?r]" by (auto simp: accessible_def)
  note session = committed_session [OF ld assms(2-4)]
  have "load_command_receipt local_hero_owner_key (mutation_campaign m) (mutation_key m) st' = Ok (Some ?r)"
    using assms(5) st' dv(4)
    by (auto simp: load_command_receipt_def encounter_receipt_def find_append split: if_splits)
  moreover have "outcome_from_receipt env m ?r = Ok y"
  proof -
    obtain a where "resolve_encounter (ev_state v) (cc_command c) adapter_roll
        (adapter_new (rng_at_cursor (ve_chacha env) (ve_seed env) n)) = (Ok (co_resolution y), a)"
      by (rule seeded_parts [OF o'(2)])
    then obtain h where "finish_resolution (ev_state v) h = Ok (co_resolution y)" by (rule resolution_parts)
    from finished_state [OF this] have "er_previous_revision (co_resolution y) = mutation_encounter_revision m"
      using dv(6) by simp
    moreover have "er_encounter_id (co_resolution y) = soot_wight_encounter_id"
      using o'(4) by (auto simp: outcome_boundary_validate_def outcome_validate_def Let_def split: if_splits)
    ultimately show ?thesis
      using o' dv(4,5) decode by (simp add: outcome_from_receipt_def encounter_receipt_def Let_def checked_add_def)
  qed
  ultimately show ?thesis
    using session assms(6) correlation' by (auto simp: commit_encounter_mutation_def ensure_def)
qed

section \<open>A sample journal\<close>

text \<open>The runes have been read; the encounter is about to start.\<close>

definition journal_session :: session_dto where
  "journal_session =
     \<lparr>ss_schema_version = 1, ss_id = ''local-campaign'', ss_ruleset = Srd5_1,
      ss_title = ''The Runes Beneath the Viaduct'', ss_status = SessionActive,
      ss_character_ids = [''local-hero''], ss_created_at_unix_ms = 1000,
      ss_updated_at_unix_ms = 1000, ss_last_event_sequence = 1\<rparr>"

definition journal_check :: session_event where
  "journal_check =
     \<lparr>se_schema_version = 1, se_session_id = ''local-campaign'', se_sequence = 1,
      se_occurred_at_unix_ms = 1000, se_actor = SystemActor,
      se_payload = AbilityCheckResolved ''local-hero'' ''inspect-viaduct-runes''
        \<lparr>cr_roll = \<lparr>d20_mode = NormalRoll, d20_first = 15, d20_second = None, d20_selected = 15\<rparr>,
         cr_ability = Wisdom, cr_ability_modifier = 2, cr_proficiency_modifier = 2,
         cr_situational_modifier = 0, cr_total = 19, cr_difficulty_class = 13, cr_success = True\<rparr>\<rparr>"

definition journal_store :: "committed_outcome campaign_store" where
  "journal_store =
     \<lparr>st_campaign_id = ''local-campaign'', st_owner_account_id = ''local-owner'',
      st_members = [''local-owner''], st_lifecycle = Open, st_gameplay_revision = 2,
      st_session = journal_session, st_characters = [''local-hero'' \<mapsto> (novice\<lparr>ch_id := ''local-hero''\<rparr>, 1)], st_players = Some [''local-owner''],
      st_events = [journal_check], st_receipts = []\<rparr>"

definition journal_env :: "(unit, committed_outcome) environment" where
  "journal_env =
     \<lparr>ve_chacha = (\<lambda>_ n. word_of_nat (7 * n + 3)), ve_seed = (), ve_seed_reference = ''seed:1'',
      ve_digest = (\<lambda>_. digest_from_bytes (replicate 32 7)),
      ve_encode = (\<lambda>x. x), ve_decode = Some, ve_json_ok = (\<lambda>_. True),
      ve_profile = None, ve_matches = (\<lambda>_. Ok ()), ve_synchronize = (\<lambda>_. Ok None)\<rparr>"

definition journal_start :: encounter_mutation where
  "journal_start = PlayerMutation \<lparr>cc_schema_version = 1, cc_campaign_session_id = ''local-campaign'',
     cc_expected_campaign_revision = 2, cc_command = command_new 1 ''key-1'' StartEncounter\<rparr>"

section \<open>Properties\<close>

text \<open>C2: The encounter journal is transactional and replays. A command that is answered with an error
  leaves the whole store as it was. One that is answered with an outcome either found the receipt
  of an earlier request, and then changes nothing, or appended one event; from the stored events
  the projection - which checks the numbering, draws every die again from the campaign's seed, and
  resolves every command again with the stored dice - then accepts the longer journal and shows
  exactly that outcome: its revision, its state, and the actions it offers.\<close>

theorem commit_is_journaled:
  "case commit_encounter_mutation env now audit_id correlation m st of
     (Err _, st') \<Rightarrow> st' = st
   | (Ok y, st') \<Rightarrow>
       st' = st \<and> (\<exists>r. load_command_receipt local_hero_owner_key (mutation_campaign m) (mutation_key m) st = Ok (Some r) \<and>
         outcome_from_receipt env m r = Ok y) \<or>
       length (st_events st') = length (st_events st) + 1 \<and>
       (\<exists>s v n. project_store env st' = Ok (s, v, n) \<and> sd_revision s = co_result_campaign_revision y \<and>
         ev_state v = er_state (co_resolution y) \<and> ev_latest_outcome v = Some y \<and>
         ev_legal_actions v = co_legal_actions y)"
proof -
  obtain r st' where c: "commit_encounter_mutation env now audit_id correlation m st = (r, st')" by fastforce
  then show ?thesis
  proof (cases rule: committed_afresh)
    case (answered x)
    show ?thesis
    proof (cases r)
      case (Err e)
      with c answered(1) show ?thesis by simp
    next
      case (Ok y)
      with answered(3) have "outcome_from_receipt env m x = Ok y" by simp
      with answered(2) show ?thesis unfolding c Ok answered(1) prod.case result.case by blast
    qed
  next
    case (stored s v n y e post)
    from transact_Ok [OF stored(4)] have "length (st_events st') = length (st_events st) + 1" by auto
    with stored_commit_projects [OF stored(1-4)] show ?thesis by (simp add: c stored(7))
  qed (simp add: c)
qed

text \<open>C8: Requests are idempotent. After a command has been answered with an outcome, the same request -
  at a later time, with another audit and correlation id - is answered with the same outcome and
  changes nothing, provided the stored response decodes to what was encoded.\<close>

theorem repeated_command_is_answered:
  assumes "\<And>x. ve_decode env (ve_encode env x) = Some x" and "is_valid_opaque_id correlation'"
  shows "case commit_encounter_mutation env now audit_id correlation m st of
     (Err _, st') \<Rightarrow> st' = st
   | (Ok y, st') \<Rightarrow> commit_encounter_mutation env now' audit_id' correlation' m st' = (Ok y, st')"
proof -
  obtain r st' where c: "commit_encounter_mutation env now audit_id correlation m st = (r, st')" by fastforce
  then show ?thesis
  proof (cases rule: committed_afresh)
    case (answered x)
    with assms(2) have "commit_encounter_mutation env now' audit_id' correlation' m st' = (r, st')"
      by (auto simp: commit_encounter_mutation_def ensure_def)
    with c answered(1) show ?thesis by (cases r) simp_all
  next
    case (stored s v n y e post)
    from stored_command_answers [OF stored(1-6) assms] show ?thesis by (simp add: c stored(7))
  qed (simp add: c)
qed

theorem repeated_command_is_answered_witness:
  "case commit_encounter_mutation journal_env 2000 ''turn:1'' ''request:1'' journal_start journal_store of
     (Err _, st') \<Rightarrow> st' = journal_store
   | (Ok y, st') \<Rightarrow>
       commit_encounter_mutation journal_env 3000 ''turn:2'' ''request:2'' journal_start st' = (Ok y, st')"
proof -
  have "ve_decode journal_env (ve_encode journal_env x) = Some x" for x by (simp add: journal_env_def)
  moreover have "is_valid_opaque_id ''request:2''" by code_simp
  ultimately show ?thesis by (rule repeated_command_is_answered)
qed

end
