(* ===== verification/Local_Journal.thy ===== *)
theory Local_Journal
  imports Local_Campaign Encounter_Journal Encounter_Play
begin

text \<open>
  The local campaign's journal: what an accepted exploration check or social interaction leaves in the
  store, and what the projections of the encounter and of the social scene read from it.
\<close>

section \<open>The authored scene\<close>

text \<open>How the scene stands after the interaction, by its success.\<close>

definition social_scene :: "bool \<Rightarrow> exploration_social_state" where
  "social_scene success =
     \<lparr>es_schema_version = rules_matrix_schema_version, es_turn = 2,
      es_objectives = [\<lparr>ob_objective_id = social_objective_id, ob_progress = (if success then 1 else 0),
        ob_target = 1, ob_status = (if success then ObjectiveCompleted else ObjectiveFailed)\<rparr>],
      es_clocks = [\<lparr>ck_clock_id = social_clock_id, ck_kind = ThreatClock, ck_filled = 1, ck_segments = 4\<rparr>],
      es_npcs = [\<lparr>npc_id = social_npc_id, npc_attitude = (if success then Friendly else Hostile)\<rparr>]\<rparr>"

definition social_facts :: "bool \<Rightarrow> exploration_social_fact list" where
  "social_facts success =
     [ClockAdvanced social_clock_id 1 False,
      if success then ObjectiveAdvanced social_objective_id 1 True else ObjectiveFailedFact social_objective_id,
      NpcAttitudeChanged social_npc_id (if success then Friendly else Hostile), TurnEnded 2]"

lemma scene_ids: "is_valid_opaque_id social_objective_id" "is_valid_opaque_id social_clock_id"
  "is_valid_opaque_id social_npc_id" "is_valid_opaque_id local_social_action_id"
  by code_simp+

lemma initial_social_state_ok: "scene_ok initial_social_state"
  using scene_validate_iff [of initial_social_state "()"] by code_simp

lemma apply_all_step:
  assumes "scene_ok s" "apply_to_clone c s = Ok (x, s')"
  shows "apply_all (c # cs) s = and_then (apply_all cs s') (\<lambda>(s'', xs). Ok (s'', x # xs))" "scene_ok s'"
  using assms apply_to_clone_ok [OF assms(1), of c] by (simp_all add: apply_command_eq)

lemma authored_steps:
  "apply_all (AdvanceClock social_clock_id 1 #
     (if success then [AdvanceObjective social_objective_id 1, ShiftNpcAttitude social_npc_id OneStepBetter]
      else [FailObjective social_objective_id, ShiftNpcAttitude social_npc_id OneStepWorse]) @ [EndTurn])
     initial_social_state = Ok (social_scene success, social_facts success)"
proof -
  note defs = apply_to_clone_def require_id_def scene_ids clock_advance_def clock_validate_def max_clock_segments_def
    initial_social_state_def npc_apply_shift_def advance_objective_def Let_def ok_or_def checked_add_def u32_max_def
  define s1 where "s1 = initial_social_state\<lparr>es_clocks :=
    [\<lparr>ck_clock_id = social_clock_id, ck_kind = ThreatClock, ck_filled = 1, ck_segments = 4\<rparr>]\<rparr>"
  define s2 where "s2 = s1\<lparr>es_objectives := es_objectives (social_scene success)\<rparr>"
  define s3 where "s3 = s2\<lparr>es_npcs := es_npcs (social_scene success)\<rparr>"
  have c1: "apply_to_clone (AdvanceClock social_clock_id 1) initial_social_state = Ok (ClockAdvanced social_clock_id 1 False, s1)"
    by (simp add: defs s1_def)
  have c2: "apply_to_clone (if success then AdvanceObjective social_objective_id 1 else FailObjective social_objective_id) s1 =
    Ok (if success then ObjectiveAdvanced social_objective_id 1 True else ObjectiveFailedFact social_objective_id, s2)"
    by (simp add: defs s1_def s2_def social_scene_def)
  have c3: "apply_to_clone (ShiftNpcAttitude social_npc_id (if success then OneStepBetter else OneStepWorse)) s2 =
    Ok (NpcAttitudeChanged social_npc_id (if success then Friendly else Hostile), s3)"
    by (simp add: defs s1_def s2_def s3_def social_scene_def)
  have c4: "apply_to_clone EndTurn s3 = Ok (TurnEnded 2, social_scene success)"
    by (simp add: defs s1_def s2_def s3_def social_scene_def)
  note a1 = apply_all_step [OF initial_social_state_ok c1]
  note a2 = apply_all_step [OF a1(2) c2]
  note a3 = apply_all_step [OF a2(2) c3]
  note a4 = apply_all_step [OF a3(2) c4]
  have "(if success then [AdvanceObjective social_objective_id 1, ShiftNpcAttitude social_npc_id OneStepBetter]
      else [FailObjective social_objective_id, ShiftNpcAttitude social_npc_id OneStepWorse]) @ [EndTurn] =
    [if success then AdvanceObjective social_objective_id 1 else FailObjective social_objective_id,
     ShiftNpcAttitude social_npc_id (if success then OneStepBetter else OneStepWorse), EndTurn]" by simp
  then show ?thesis
    unfolding social_facts_def by (simp only: a1(1) a2(1) a3(1) a4(1) apply_all.simps(1)) simp
qed

lemma authored_scene:
  "resolve_authored_social_state t = Ok (s, facts) \<longleftrightarrow>
     trusted_check_validate t = Ok () \<and> td_band (tc_difficulty t) = Moderate \<and>
     td_stakes (tc_difficulty t) = NoStakes \<and> dr_ability (tc_result t) = Charisma \<and>
     s = social_scene (dr_outcome (tc_result t) = TestSuccess) \<and>
     facts = social_facts (dr_outcome (tc_result t) = TestSuccess)"
  unfolding resolve_authored_social_state_def authored_steps by (auto split: if_split_asm)

section \<open>Accepted commits\<close>

lemma settle_cases:
  assumes "settle json_ok post expected e rc correlation nr x again st = (r, st')"
    and "load_command_receipt local_hero_owner_key (rp_campaign_session_id rc) (rp_idempotency_key rc) st = Ok None"
    and "rp_actor_account_id rc = local_hero_owner_key" "nr = expected + 1"
  obtains (refused) y where "st' = st" "r = Err y"
  | (stored) "r = Ok x"
      "prepare_commit local_hero_owner_key (rp_audit_id rc) post expected e [] (Some correlation) st = Ok ()"
      "transact local_hero_owner_key post expected e [] (Some rc) st = Ok st'"
proof -
  obtain c st1 where c: "commit_with_receipt json_ok post expected e [] rc correlation st st = (c, st1)" by fastforce
  note run = assms(1) [unfolded settle_def c prod.case]
  have none: "and_then (ok_or None InvalidStoredState) again = Err InvalidStoredState" by (simp add: ok_or_def)
  show thesis
  proof (cases c)
    case (Err y)
    then have same: "st1 = st" using c
      by (auto simp: commit_with_receipt_def commit_session_event_def split: result.splits)
    show thesis
      using run refused same assms(2) Err by (cases y) (auto simp: none split: entity.splits)
  next
    case (Ok revision)
    from c Ok have "commit_session_event json_ok local_hero_owner_key (rp_audit_id rc) post expected e []
        (Some rc) (Some correlation) st st = (Ok revision, st1)"
      by (auto simp: commit_with_receipt_def assms(3) split: result.splits)
    then have "revision = expected + 1"
      "prepare_commit local_hero_owner_key (rp_audit_id rc) post expected e [] (Some correlation) st = Ok ()"
      "transact local_hero_owner_key post expected e [] (Some rc) st = Ok st1"
      by (cases rule: commit_cases; simp)+
    with run Ok stored assms(4) show thesis by simp
  qed
qed

text \<open>The local campaign after an accepted event: one more event, read back in its place.\<close>

lemma settled_session:
  assumes ld: "load_local_session st = Ok s" and nn: "next_numbers s = Ok (nr, ns)"
    and ev: "load_events s st = Ok events"
    and c: "prepare_commit local_hero_owner_key audit (successor_session now s ns) (sd_revision s) e [] (Some correlation) st = Ok ()"
    and t: "transact local_hero_owner_key (successor_session now s ns) (sd_revision s) e [] (Some rc) st = Ok st'"
    and e: "e = successor_event now s (sd_id s) ns p"
  defines "s' \<equiv> \<lparr>sd_id = sd_id s, sd_revision = nr, sd_value = successor_session now s ns\<rparr>"
  shows "load_local_session st' = Ok s'"
    "load_events s' st' = Ok (events @ [\<lparr>ta_campaign_session_id = sd_id s, ta_turn_number = ns, ta_payload = e\<rparr>])"
    "st_events st' = st_events st @ [e]"
proof -
  from nn have n: "nr = sd_revision s + 1" "sd_revision s + 1 \<le> u64_max"
    "ns = ss_last_event_sequence (sd_value s) + 1"
    by (auto simp: next_numbers_def checked_add_def split: if_splits)
  from transact_Ok [OF t] have st': "st_session st' = successor_session now s ns"
    "st_gameplay_revision st' = sd_revision s + 1" "st_campaign_id st' = st_campaign_id st"
    "ss_id (successor_session now s ns) = st_campaign_id st"
    "st_owner_account_id st' = st_owner_account_id st" "st_lifecycle st' = st_lifecycle st"
    "st_characters st' = st_characters st" "st_events st' = st_events st @ [e]"
    "accessible local_hero_owner_key st' = accessible local_hero_owner_key st"
    by (auto simp: accessible_def)
  have post: "ss_character_ids (successor_session now s ns) = ss_character_ids (sd_value s)"
    "ss_last_event_sequence (successor_session now s ns) = ss_last_event_sequence (sd_value s) + 1"
    by (simp_all add: successor_session_def n(3))
  from load_again [OF ld prepare_Ok(1) [OF c] st'(4,3,1,5,6,9,7) post st'(2) n(2)]
  show "load_local_session st' = Ok s'" by (simp add: s'_def st'(2) n(1) loaded_session(1) [OF ld])
  from ev have l: "list_session_events (sd_id s) (sort_key se_sequence (st_events st)) = Ok events"
    "validate_event_stream s events = Ok ()" by (auto simp: load_events_def)
  have se: "se_sequence e = ns" "se_session_id e = sd_id s" by (simp_all add: e successor_event_def)
  from events_extend [OF l, of e s'] se n(3) prepare_Ok(2) [OF c] post(2)
  show "load_events s' st' = Ok (events @ [\<lparr>ta_campaign_session_id = sd_id s, ta_turn_number = ns, ta_payload = e\<rparr>])"
    by (simp add: load_events_def s'_def st'(8))
  show "st_events st' = st_events st @ [e]" by (rule st'(8))
qed

section \<open>Requests that were not answered before\<close>

lemma opened:
  assumes "open_request correlation valid campaign key st = Ok (s, legacy, found)"
  shows "load_local_session st = Ok s" "validate_local_documents s legacy = Ok ()"
    "load_command_receipt local_hero_owner_key campaign key st = Ok found"
  using assms unfolding open_request_def load_local_session_def load_local_campaign_def Let_def by auto

lemma local_ids:
  assumes "validate_local_documents s legacy = Ok ()"
  shows "ch_id legacy = local_character_id"
  using assms by (auto simp: validate_local_documents_def)

lemma numbered:
  assumes "next_numbers s = Ok (nr, ns)"
  shows "nr = sd_revision s + 1" "ns = ss_last_event_sequence (sd_value s) + 1" "nr \<le> u64_max" "ns \<le> u64_max"
  using assms by (auto simp: next_numbers_def checked_add_def split: if_splits)

lemma planned_check:
  assumes "plan_check hero c s legacy st = Ok (nr, ns, scores, level, check)"
  obtains events where "load_events s st = Ok events" "\<not> list_ex is_encounter events" "next_numbers s = Ok (nr, ns)"
    "ax_campaign_session_id c = sd_id s" "ax_character_id c = ch_id legacy"
    "ax_action_id c = local_exploration_action_id" "ax_expected_revision c = sd_revision s"
  using assms unfolding plan_check_def validate_local_command_def
  by (auto simp: authored_exploration_check_def split: if_splits)

lemma check_finished:
  assumes f: "finish_check env now audit_id correlation c s nr ns result st = (r, st')"
    and p: "plan_check hero c s legacy st = Ok (nr, ns, scores, level, check)"
    and o: "open_request correlation valid (ax_campaign_session_id c) (ax_idempotency_key c) st = Ok (s, legacy, None)"
  obtains (refused) y where "st' = st" "r = Err y"
  | (stored) x events where "r = Ok x" "xo_result x = result" "exploration_outcome_validate x = Ok ()"
      "\<not> list_ex is_encounter events" "next_numbers s = Ok (nr, ns)"
      "x = \<lparr>xo_schema_version = exploration_check_schema_version, xo_campaign_session_id = sd_id s,
            xo_character_id = local_character_id, xo_action_id = local_exploration_action_id,
            xo_result_revision = nr, xo_event_sequence = ns, xo_result = result\<rparr>"
      "load_local_session st' = Ok \<lparr>sd_id = sd_id s, sd_revision = nr, sd_value = successor_session now s ns\<rparr>"
      "load_events \<lparr>sd_id = sd_id s, sd_revision = nr, sd_value = successor_session now s ns\<rparr> st' =
        Ok (events @ [\<lparr>ta_campaign_session_id = sd_id s, ta_turn_number = ns, ta_payload =
          successor_event now s (sd_id s) ns (AbilityCheckResolved local_character_id local_exploration_action_id result)\<rparr>])"
      "length (st_events st') = length (st_events st) + 1" "st_campaign_id st' = sd_id s"
proof -
  note op = opened [OF o]
  obtain events where pl: "load_events s st = Ok events" "\<not> list_ex is_encounter events" "next_numbers s = Ok (nr, ns)"
    "ax_campaign_session_id c = sd_id s" "ax_character_id c = local_character_id"
    "ax_action_id c = local_exploration_action_id" "ax_expected_revision c = sd_revision s"
    using planned_check [OF p] local_ids [OF op(2)] by metis
  let ?x = "\<lparr>xo_schema_version = exploration_check_schema_version, xo_campaign_session_id = sd_id s,
      xo_character_id = local_character_id, xo_action_id = local_exploration_action_id,
      xo_result_revision = nr, xo_event_sequence = ns, xo_result = result\<rparr>"
  let ?e = "successor_event now s (sd_id s) ns (AbilityCheckResolved local_character_id local_exploration_action_id result)"
  let ?rc = "\<lparr>rp_actor_account_id = local_hero_owner_key, rp_campaign_session_id = sd_id s,
      rp_idempotency_key = ax_idempotency_key c, rp_command_kind = exploration_command_kind,
      rp_request_fingerprint = fingerprint_command env c, rp_expected_revision = sd_revision s,
      rp_result_revision = nr, rp_audit_id = audit_id, rp_response_json = le_encode_check env ?x\<rparr>"
  show thesis
  proof (cases "and_then (map_err AppInvalidOutcome (exploration_outcome_validate ?x)) (\<lambda>_. map_err AppInvalidOutcome (event_validate ?e))")
    case (Err y)
    with f have "st' = st" "r = Err y" by (simp_all add: finish_check_def Let_def pl(4-7))
    then show thesis by (rule refused)
  next
    case (Ok u)
    then have valid: "exploration_outcome_validate ?x = Ok ()" by auto
    from f Ok have "settle (le_json_ok env) (successor_session now s ns) (sd_revision s) ?e ?rc correlation nr ?x
        (check_outcome_from_receipt env c) st = (r, st')"
      by (simp add: finish_check_def Let_def pl(4-7))
    moreover have "load_command_receipt local_hero_owner_key (rp_campaign_session_id ?rc) (rp_idempotency_key ?rc) st = Ok None"
      using op(3) pl(4) by simp
    moreover have "rp_actor_account_id ?rc = local_hero_owner_key" by simp
    ultimately show thesis
    proof (cases rule: settle_cases [OF _ _ _ numbered(1) [OF pl(3)], case_names refused stored, consumes 3])
      case stored
      note se = settled_session [OF op(1) pl(3,1) stored(2,3) refl]
      from se(1) loaded_session(1) [OF se(1)] have "st_campaign_id st' = sd_id s" by simp
      with stored(1) valid pl(2,3) se that(2) [of ?x events] show thesis by simp
    qed (rule refused)
  qed
qed

section \<open>What the encounter starts from\<close>

lemma encounter_new_valid: "encounter_validate (encounter_new StoryRecovery oc) = Ok ()"
  using runes_understood_valid sample_ready_valid by (cases oc) (simp_all add: sample_ready_def)

lemma encounter_new_actions: "player_legal_actions (encounter_new StoryRecovery oc) = Ok [LegalStart]"
  using encounter_new_valid [of oc]
  by (simp add: player_legal_actions_def) (simp add: encounter_new_def reaction_pending_def live_new_def)

lemma quiet_projection:
  "\<not> list_ex is_encounter as \<Longrightarrow> \<not> pj_started p \<Longrightarrow> project_events ref k as p = Ok p"
  by (induction as) (auto simp: project_event_def is_encounter_def split: event_payload.splits)

lemma quiet_profile: "\<not> list_ex is_encounter as \<Longrightarrow> first_encounter_profile as = None"
  by (induction as) (auto simp: is_encounter_def split: event_payload.splits)

lemma fresh_view:
  assumes "is_valid_opaque_id (sd_id s)" "sd_revision s = ss_last_event_sequence (sd_value s) + 1" "sd_revision s \<le> u64_max"
    and "pj_state p = encounter_new StoryRecovery oc" "pj_latest p = None"
  shows "\<exists>v. encounter_view_of s p = Ok v \<and> ev_state v = encounter_new StoryRecovery oc"
  using assms encounter_new_valid [of oc] encounter_new_actions [of oc]
  by (simp add: encounter_view_of_def encounter_view_validate_def Let_def checked_add_def)
    (simp add: encounter_new_def)

text \<open>The last event is an exploration check and no encounter command was stored.\<close>

lemma project_after_check:
  assumes quiet: "\<not> list_ex is_encounter events" and profile: "ve_profile env = None"
    and x: "exploration_outcome_validate x = Ok ()" "ns + 1 = nr" "nr \<le> u64_max"
      "x = \<lparr>xo_schema_version = exploration_check_schema_version, xo_campaign_session_id = sd_id s,
            xo_character_id = local_character_id, xo_action_id = local_exploration_action_id,
            xo_result_revision = nr, xo_event_sequence = ns, xo_result = result\<rparr>"
    and ld: "load_local_session st = Ok s" and s: "ss_last_event_sequence (sd_value s) = ns" "sd_revision s = nr"
    and a: "ta_campaign_session_id a = sd_id s" "ta_turn_number a = ns"
      "se_payload (ta_payload a) = AbilityCheckResolved local_character_id local_exploration_action_id result"
    and ev: "load_events s st = Ok (events @ [a])"
  shows "\<exists>v. project_store env st = Ok (s, v, 0) \<and>
    ev_state v = encounter_new StoryRecovery (if cr_success result then RunesUnderstood else RunesMisread)"
proof -
  let ?o = "if cr_success result then RunesUnderstood else RunesMisread"
  let ?p = "\<lparr>pj_state = encounter_new StoryRecovery ?o, pj_latest = None, pj_rng = rng_new (ve_chacha env) (ve_seed env), pj_started = False\<rparr>"
  have quiet': "\<not> list_ex is_encounter (events @ [a])" using quiet a(3) by (simp add: is_encounter_def)
  have "check_of_audit a = Ok (Some x)"
    using x a by (simp add: check_of_audit_def checked_add_def)
  then have check: "latest_exploration_check (events @ [a]) = Ok (Some x)" by (simp add: latest_exploration_check_def)
  obtain v where v: "encounter_view_of s ?p = Ok v" "ev_state v = encounter_new StoryRecovery ?o"
    using fresh_view [of s ?p ?o] loaded_session(1,6,7) [OF ld] s(2) x(3) by auto
  have "project_encounter (ve_chacha env) s x (events @ [a]) (ve_seed env) (ve_seed_reference env) None = Ok (v, 0)"
    using quiet_projection [OF quiet', of ?p] v(1)
    by (simp add: project_encounter_def x(4) s(1) quiet_profile [OF quiet'] initial_encounter_def rng_new_def rng_at_cursor_def
        split del: if_split)
  with ev check ld v(2) show ?thesis
    by (simp add: project_store_def profile load_events_def loaded_session(1) [OF ld, symmetric] split del: if_split)
qed

section \<open>The social interaction\<close>

lemma listed_payloads: "list_session_events c es = Ok as \<Longrightarrow> map ta_payload as = es"
  by (induction es arbitrary: as) (auto split: if_splits)

lemma loaded_payloads:
  assumes "load_events s st = Ok events"
  shows "list_ex (\<lambda>a. P (ta_payload a)) events \<longleftrightarrow> list_ex P (st_events st)"
proof -
  from assms have "map ta_payload events = sort_key se_sequence (st_events st)"
    by (auto simp: load_events_def dest: listed_payloads)
  then have "set (st_events st) = ta_payload ` set events" by (metis set_map set_sort)
  then show ?thesis by (simp add: list_ex_iff)
qed

lemma latest_social_snoc:
  "latest_social (as @ [a]) =
     (case se_payload (ta_payload a) of ExplorationSocialResolved _ x \<Rightarrow> Some x | _ \<Rightarrow> latest_social as)"
  by (induction as) (auto split: event_payload.splits option.splits)

lemma planned_social:
  assumes "plan_social hero c s legacy st = Ok (scores, level, proficiency)"
  obtains events where "load_events s st = Ok events"
    "\<not> list_ex (\<lambda>a. decides_opening (se_payload (ta_payload a))) events"
    "as_campaign_session_id c = sd_id s" "as_character_id c = ch_id legacy"
    "as_action_id c = local_social_action_id" "as_expected_revision c = sd_revision s"
  using assms unfolding plan_social_def validate_social_command_def by (auto split: if_splits)

lemma social_prepared:
  assumes "and_then (resolve_authored_social_state check) (\<lambda>(state, facts).
           and_then (next_numbers s) (\<lambda>(next_revision, next_sequence).
           let x = \<lparr>io_schema_version = social_interaction_schema_version,
                    io_campaign_session_id = campaign, io_character_id = i,
                    io_action_id = act, io_result_revision = next_revision,
                    io_event_sequence = next_sequence, io_check = check, io_facts = facts,
                    io_resulting_state = state\<rparr>;
               e = successor_event now s campaign next_sequence (ExplorationSocialResolved c x)
           in and_then (map_err AppInvalidOutcome (social_outcome_validate x)) (\<lambda>_.
              and_then (validate_authored_social_outcome x) (\<lambda>_.
              and_then (map_err AppInvalidOutcome (event_validate e)) (\<lambda>_.
                Ok (x, e, next_revision, next_sequence)))))) = Ok (x, e, nr, ns)"
  shows "next_numbers s = Ok (nr, ns)" "validate_authored_social_outcome x = Ok ()"
    "social_outcome_validate x = Ok ()"
    "e = successor_event now s campaign ns (ExplorationSocialResolved c x)"
    "io_campaign_session_id x = campaign" "io_result_revision x = nr" "io_event_sequence x = ns"
    "io_resulting_state x = social_scene (dr_outcome (tc_result (io_check x)) = TestSuccess)"
  using assms by (auto simp: Let_def authored_scene)

lemma scene_after_social:
  assumes x: "validate_authored_social_outcome x = Ok ()" "social_outcome_validate x = Ok ()"
    "io_campaign_session_id x = sd_id s" "io_result_revision x = sd_revision s"
    "io_event_sequence x = ss_last_event_sequence (sd_value s)"
    and s: "is_valid_opaque_id (sd_id s)" "sd_revision s = ss_last_event_sequence (sd_value s) + 1" "sd_revision s \<le> u64_max"
    and a: "se_payload (ta_payload a) = ExplorationSocialResolved c x"
  shows "\<exists>v. project_social_scene s (events @ [a]) = Ok v \<and> sv_latest_outcome v = Some x \<and>
    sv_state v = io_resulting_state x"
proof -
  from x(2) have "scene_validate (io_resulting_state x) = Ok ()"
    by (auto simp: social_outcome_validate_def split: if_splits)
  with x s show ?thesis
    by (simp add: project_social_scene_def latest_social_snoc a Let_def social_view_validate_def checked_add_def)
qed

lemma social_finished:
  assumes f: "finish_social env now audit_id correlation c s check st = (r, st')"
    and p: "plan_social hero c s legacy st = Ok (scores, level, proficiency)"
    and o: "open_request correlation valid (as_campaign_session_id c) (as_idempotency_key c) st = Ok (s, legacy, None)"
  obtains (refused) y where "st' = st" "r = Err y"
  | (stored) x s' events where "r = Ok x" "\<not> list_ex (\<lambda>e. decides_opening (se_payload e)) (st_events st)"
      "length (st_events st') = length (st_events st) + 1"
      "load_local_session st' = Ok s'" "load_events s' st' = Ok events"
      "\<exists>v. project_social_scene s' events = Ok v \<and> sv_latest_outcome v = Some x \<and>
        sv_state v = social_scene (dr_outcome (tc_result (io_check x)) = TestSuccess)"
proof -
  note op = opened [OF o]
  obtain events where pl: "load_events s st = Ok events"
    "\<not> list_ex (\<lambda>a. decides_opening (se_payload (ta_payload a))) events"
    "as_campaign_session_id c = sd_id s" "as_expected_revision c = sd_revision s"
    using planned_social [OF p] by metis
  show thesis
  proof (cases "and_then (resolve_authored_social_state check) (\<lambda>(state, facts).
           and_then (next_numbers s) (\<lambda>(next_revision, next_sequence).
           let x = \<lparr>io_schema_version = social_interaction_schema_version,
                    io_campaign_session_id = as_campaign_session_id c, io_character_id = as_character_id c,
                    io_action_id = as_action_id c, io_result_revision = next_revision,
                    io_event_sequence = next_sequence, io_check = check, io_facts = facts,
                    io_resulting_state = state\<rparr>;
               e = successor_event now s (as_campaign_session_id c) next_sequence (ExplorationSocialResolved c x)
           in and_then (map_err AppInvalidOutcome (social_outcome_validate x)) (\<lambda>_.
              and_then (validate_authored_social_outcome x) (\<lambda>_.
              and_then (map_err AppInvalidOutcome (event_validate e)) (\<lambda>_.
                Ok (x, e, next_revision, next_sequence))))))")
    case (Err y)
    with f have "st' = st" "r = Err y" unfolding finish_social_def by simp_all
    then show thesis by (rule refused)
  next
    case (Ok q)
    obtain x e nr ns where q: "q = (x, e, nr, ns)" by (cases q)
    note pr = social_prepared [OF Ok [unfolded q]] and nn = numbered [OF social_prepared(1) [OF Ok [unfolded q]]]
    let ?rc = "\<lparr>rp_actor_account_id = local_hero_owner_key, rp_campaign_session_id = as_campaign_session_id c,
             rp_idempotency_key = as_idempotency_key c, rp_command_kind = social_command_kind,
             rp_request_fingerprint = fingerprint_social_command env c,
             rp_expected_revision = as_expected_revision c, rp_result_revision = nr,
             rp_audit_id = audit_id, rp_response_json = le_encode_social env x\<rparr>"
    from f Ok q have "settle (le_json_ok env) (successor_session now s ns) (as_expected_revision c) e ?rc correlation nr x
        (social_outcome_from_receipt env c) st = (r, st')"
      unfolding finish_social_def by simp
    moreover have "load_command_receipt local_hero_owner_key (rp_campaign_session_id ?rc) (rp_idempotency_key ?rc) st = Ok None"
      using op(3) by simp
    moreover have "rp_actor_account_id ?rc = local_hero_owner_key" by simp
    moreover have "nr = as_expected_revision c + 1" using nn(1) pl(4) by simp
    ultimately show thesis
    proof (cases rule: settle_cases [case_names refused stored, consumes 4])
      case stored
      let ?s = "\<lparr>sd_id = sd_id s, sd_revision = nr, sd_value = successor_session now s ns\<rparr>"
      note se = settled_session [OF op(1) pr(1) pl(1) stored(2,3) [unfolded pl(4)] pr(4) [unfolded pl(3)]]
      have sid: "is_valid_opaque_id (sd_id ?s)" "sd_revision ?s = ss_last_event_sequence (sd_value ?s) + 1"
        using loaded_session(1,6,7) [OF se(1)] by simp_all
      have scene: "\<exists>v. project_social_scene ?s (events @ [\<lparr>ta_campaign_session_id = sd_id s, ta_turn_number = ns, ta_payload = e\<rparr>]) = Ok v \<and>
          sv_latest_outcome v = Some x \<and> sv_state v = io_resulting_state x"
        by (rule scene_after_social [OF pr(2,3) _ _ _ sid])
          (simp_all add: pr(4-7) pl(3) nn(3) successor_session_def successor_event_def)
      have none: "\<not> list_ex (\<lambda>e. decides_opening (se_payload e)) (st_events st)"
        using pl(2) loaded_payloads [OF pl(1), of "\<lambda>e. decides_opening (se_payload e)"] by simp
      show thesis
        by (rule that(2) [OF stored(1) none _ se(1,2) scene [unfolded pr(8)]]) (simp add: se(3))
    qed (rule refused)
  qed
qed

section \<open>A sample campaign before its first event\<close>

text \<open>The responses a receipt can hold.\<close>

datatype stored_response =
    CheckResponse exploration_outcome
  | SocialResponse social_outcome
  | EncounterResponse committed_outcome

definition local_env :: "stored_response local_environment" where
  "local_env =
     \<lparr>le_digest = (\<lambda>_. digest_from_bytes (replicate 32 7)), le_json_ok = (\<lambda>_. True),
      le_encode_check = CheckResponse, le_decode_check = (\<lambda>j. case j of CheckResponse x \<Rightarrow> Some x | _ \<Rightarrow> None),
      le_encode_social = SocialResponse, le_decode_social = (\<lambda>j. case j of SocialResponse x \<Rightarrow> Some x | _ \<Rightarrow> None)\<rparr>"

definition served_env :: "(unit, stored_response) environment" where
  "served_env =
     \<lparr>ve_chacha = (\<lambda>_ n. word_of_nat (7 * n + 3)), ve_seed = (), ve_seed_reference = ''seed:1'',
      ve_digest = (\<lambda>_. digest_from_bytes (replicate 32 8)), ve_encode = EncounterResponse,
      ve_decode = (\<lambda>j. case j of EncounterResponse x \<Rightarrow> Some x | _ \<Rightarrow> None), ve_json_ok = (\<lambda>_. True),
      ve_profile = None, ve_matches = (\<lambda>_. Ok ()), ve_synchronize = (\<lambda>_. Ok None)\<rparr>"

definition local_store :: "stored_response campaign_store" where
  "local_store =
     \<lparr>st_campaign_id = ''local-campaign'', st_owner_account_id = ''local-owner'',
      st_members = [''local-owner''], st_lifecycle = Open, st_gameplay_revision = 1,
      st_session = journal_session\<lparr>ss_last_event_sequence := 0\<rparr>,
      st_characters = [''local-hero'' \<mapsto> (novice\<lparr>ch_id := ''local-hero''\<rparr>, 1)],
      st_players = Some [''local-owner''], st_events = [], st_receipts = []\<rparr>"

definition local_check :: attempt_exploration_check where
  "local_check =
     \<lparr>ax_schema_version = 1, ax_campaign_session_id = ''local-campaign'', ax_character_id = ''local-hero'',
      ax_action_id = ''inspect-viaduct-runes'', ax_expected_revision = 1, ax_idempotency_key = ''key-1''\<rparr>"

section \<open>Properties\<close>

text \<open>How an attempt can go: refused, answered from its receipt, or planned, rolled and finished.\<close>

lemma attempted_check:
  assumes run: "attempt_exploration_check_with_correlation env hero now audit_id correlation c roll d st = (out, st', d')"
  obtains (refused) e where "out = Err e" "st' = st"
  | (answered) r x where "out = Ok x" "st' = st"
      "load_command_receipt local_hero_owner_key (ax_campaign_session_id c) (ax_idempotency_key c) st = Ok (Some r)"
      "check_outcome_from_receipt env c r = Ok x"
  | (planned) s legacy nr ns scores level check result where
      "open_request correlation (exploration_command_validate c) (ax_campaign_session_id c) (ax_idempotency_key c) st
         = Ok (s, legacy, None)"
      "plan_check hero c s legacy st = Ok (nr, ns, scores, level, check)"
      "finish_check env now audit_id correlation c s nr ns result st = (out, st')"
proof (cases "open_request correlation (exploration_command_validate c) (ax_campaign_session_id c) (ax_idempotency_key c) st")
  case (Err e)
  with run refused show ?thesis by (auto simp: attempt_exploration_check_with_correlation_def)
next
  case (Ok q)
  then obtain s legacy found where o: "open_request correlation (exploration_command_validate c)
      (ax_campaign_session_id c) (ax_idempotency_key c) st = Ok (s, legacy, found)" by (cases q) auto
  show ?thesis
  proof (cases found)
    case (Some r)
    from run have same: "st' = st" "out = check_outcome_from_receipt env c r"
      by (auto simp: attempt_exploration_check_with_correlation_def o Some)
    show ?thesis
    proof (cases out)
      case (Err e)
      then show ?thesis using same(1) by (rule refused)
    next
      case (Ok x)
      then show ?thesis using same opened(3) [OF o] Some by (intro answered [of x r]) auto
    qed
  next
    case None
    from run show ?thesis
      by (auto simp: attempt_exploration_check_with_correlation_def o None split: result.splits prod.splits
        intro: refused planned [OF o [unfolded None]])
  qed
qed

lemma attempted_social:
  assumes run: "attempt_social_interaction_with_correlation env hero now audit_id correlation c roll d st = (out, st', d')"
  obtains (refused) e where "out = Err e" "st' = st"
  | (answered) r x where "out = Ok x" "st' = st"
      "load_command_receipt local_hero_owner_key (as_campaign_session_id c) (as_idempotency_key c) st = Ok (Some r)"
      "social_outcome_from_receipt env c r = Ok x"
  | (planned) s legacy scores level proficiency check where
      "open_request correlation (social_command_validate c) (as_campaign_session_id c) (as_idempotency_key c) st
         = Ok (s, legacy, None)"
      "plan_social hero c s legacy st = Ok (scores, level, proficiency)"
      "finish_social env now audit_id correlation c s check st = (out, st')"
proof (cases "open_request correlation (social_command_validate c) (as_campaign_session_id c) (as_idempotency_key c) st")
  case (Err e)
  with run refused show ?thesis by (auto simp: attempt_social_interaction_with_correlation_def)
next
  case (Ok q)
  then obtain s legacy found where o: "open_request correlation (social_command_validate c)
      (as_campaign_session_id c) (as_idempotency_key c) st = Ok (s, legacy, found)" by (cases q) auto
  show ?thesis
  proof (cases found)
    case (Some r)
    from run have same: "st' = st" "out = social_outcome_from_receipt env c r"
      by (auto simp: attempt_social_interaction_with_correlation_def o Some)
    show ?thesis
    proof (cases out)
      case (Err e)
      then show ?thesis using same(1) by (rule refused)
    next
      case (Ok x)
      then show ?thesis using same opened(3) [OF o] Some by (intro answered [of x r]) auto
    qed
  next
    case None
    from run show ?thesis
      by (auto simp: attempt_social_interaction_with_correlation_def o None split: result.splits prod.splits
        intro: refused planned [OF o [unfolded None]])
  qed
qed



text \<open>C11: The social interaction is settled once, by its check. A refused one leaves the store as it was. An
  accepted one - unless it is the repetition of an answered request - finds neither a check nor an
  interaction nor an encounter command among the events, appends one event, and from then on the
  scene is shown as the check left it: on a success the objective is completed and the lockkeeper
  friendly, on a failure the objective has failed and he is hostile; either way the threat has grown by
  one segment and it is the second turn.\<close>

theorem social_interaction_settles_scene:
  "case attempt_social_interaction_with_correlation env hero now audit_id correlation c roll d st of
     (Err _, st', _) \<Rightarrow> st' = st
   | (Ok x, st', _) \<Rightarrow>
       st' = st \<and> (\<exists>r. load_command_receipt local_hero_owner_key (as_campaign_session_id c) (as_idempotency_key c) st
         = Ok (Some r) \<and> social_outcome_from_receipt env c r = Ok x) \<or>
       list_all (\<lambda>e. \<not> decides_opening (se_payload e)) (st_events st) \<and>
       length (st_events st') = length (st_events st) + 1 \<and>
       (\<exists>s events v. load_local_session st' = Ok s \<and> load_events s st' = Ok events \<and>
         project_social_scene s events = Ok v \<and> sv_latest_outcome v = Some x \<and>
         sv_state v = social_scene (dr_outcome (tc_result (io_check x)) = TestSuccess))"
proof -
  obtain out st' d' where run:
    "attempt_social_interaction_with_correlation env hero now audit_id correlation c roll d st = (out, st', d')"
    by (metis prod.exhaust)
  then show ?thesis
  proof (cases rule: attempted_social)
    case (planned s legacy scores level proficiency check)
    from planned(3,2,1) show ?thesis
    proof (cases rule: social_finished [case_names refused stored, consumes 3])
      case (stored x s' events)
      then show ?thesis by (simp add: run list_all_iff list_ex_iff)
    qed (simp add: run)
  qed (simp_all add: run)
qed

end
