(* ===== verification/Spec2Isabelle.thy ===== *)
theory Spec2Isabelle
  imports Attack Turn_Flow Inventory Scene Spells Character_Xp Economy Roll_Record Encounter_Play Replay_Logic Local_Journal
begin

text \<open>
  A verification development for Manchester D\&D: the rules and encounter engines of the crate
  \<open>src/crates/game-core\<close>, which decide every roll, resource, condition, hit point, coin and scene
  change of the game, and the part of the server \<open>src/crates/game-server\<close> that turns a command of the
  encounter into a stored event and proves a stored journal by replaying it.

  The program. The server turns player intents (and proposals of a language model, which are never
  trusted with numbers) into calls of the engines. The engines are pure Rust: every operation
  validates the states it is given, works on clones, and writes its results back only when it
  succeeds. Randomness enters through one trait, a source of dice; production uses a generator over
  a ChaCha20 word stream with an explicit cursor, so that every roll can be replayed from its
  recorded cursor span. A campaign is a session document, its characters, an append-only list of
  events and the receipts of the commands answered so far; a commit checks a snapshot and then
  writes all of them in one transaction that filters on the revision of the snapshot.

  How the model corresponds to the code:
  \<^item> a struct is a \<open>record\<close>, an enum a \<open>datatype\<close> with the source's constructors; \<open>Prelude\<close> holds the
    result type (\<open>Ok\<close>, \<open>Err\<close>), its bind \<open>and_then\<close>, integers at their width with the checked,
    saturating and wrapping operations the code calls, and runs of steps over a list of inputs;
  \<^item> a method with \<open>&mut self\<close> takes and returns the state: the result and the states it leaves, so
    that what a failing call leaves behind is part of the model;
  \<^item> a panic (\<open>unwrap\<close>, \<open>expect\<close>, an index out of range) is an error value of its own (\<open>EncPanic\<close>,
    \<open>SessionPanic\<close>, \<open>AppPanic\<close>), so that its absence can be proved;
  \<^item> a dice source is a function from sides and a state to a face and the next state; the theorems
    hold for every such function, biased or hostile ones included;
  \<^item> text is a list of characters; lengths that the code takes in UTF-8 bytes are of ASCII text;
  \<^item> u8, u16, i32 and the like are numbers kept in range by the checks the code has; where the code
    casts with \<open>as\<close> the wrap-around is written out;
  \<^item> a database transaction is a function from the stored documents to an error or the new documents.

  The theories, in the order of their imports:
  \<^item> \<open>Core_Base\<close> (\<open>error.rs\<close>, \<open>identifier.rs\<close>, \<open>digest.rs\<close>, \<open>ability.rs\<close>, \<open>proficiency.rs\<close>,
    \<open>progression.rs\<close>), \<open>Dice_Check\<close> (\<open>dice.rs\<close>, \<open>check.rs\<close>), \<open>Economy\<close> (\<open>action.rs\<close>,
    \<open>action_points.rs\<close>), \<open>Character_Xp\<close> (\<open>character.rs\<close>), \<open>Hero_Types\<close> (the vocabulary and the
    derived sheet of \<open>hero.rs\<close>);
  \<^item> \<open>Dice_Notation\<close>, \<open>Rng\<close>, \<open>Roll_Record\<close> (\<open>roll.rs\<close> and the two dice adapters of the server's
    \<open>application.rs\<close>): the parser and printer of dice notation, the generator with its rejection
    sampling, the self-validating record of a roll;
  \<^item> the rules matrix (\<open>rules_matrix.rs\<close>), a theory per part: \<open>Rules_Base\<close>, \<open>Conditions\<close>,
    \<open>D20_Tests\<close> (with the trusted difficulty of \<open>ai.rs\<close>), \<open>Health\<close>, \<open>Resources\<close>, \<open>Turn_Flow\<close>,
    \<open>Attack\<close>, \<open>Inventory\<close>, \<open>Scene\<close>, \<open>Spells\<close>;
  \<^item> the encounter engine (\<open>encounter.rs\<close>): \<open>Encounter_Types\<close> (state, intents, facts),
    \<open>Encounter_Valid\<close> (\<open>EncounterState::validate\<close>), \<open>Encounter_Rolls\<close> (raw roll facts and their
    validation), \<open>Encounter_Actions\<close> (the actions offered, the policy of the wight),
    \<open>Encounter_Facts\<close> (facts, narration, the resolution), \<open>Encounter_Health\<close> (damage, death saves,
    turns and rounds), \<open>Encounter_Resolve\<close> and \<open>Encounter_Features\<close> (the handlers of the 21 intents),
    \<open>Encounter\<close> (\<open>resolve_encounter\<close>), \<open>Encounter_Turn\<close> (the command of the wight and its turn);
  \<^item> lemmas about it: \<open>Result_Logic\<close> (\<open>on_ok\<close>: what a successful result satisfies, one rule per
    combinator), \<open>Encounter_Checks\<close> (validation as predicates), \<open>Encounter_Laws\<close>, \<open>Encounter_Forward\<close>
    (revision, round and status only move forward), \<open>Encounter_Records\<close> (the records of every
    handler), \<open>Encounter_Policy\<close>, \<open>Encounter_Wight\<close> and \<open>Encounter_Claw\<close> (a whole turn of the wight),
    \<open>Encounter_Play\<close> (sample states and the properties of the engine);
  \<^item> \<open>Replay_Logic\<close> (what a computation asks of a dice source, and that it follows a transcript of
    answers) and \<open>Encounter_Replay\<close> (every handler follows the faces it records);
  \<^item> \<open>Session_Types\<close> (\<open>exploration.rs\<close>), \<open>Session_Events\<close> (\<open>session.rs\<close>): the documents that travel
    between engines, store and browser and what \<open>validate\<close> demands of each;
  \<^item> \<open>Session_Store\<close>, \<open>Session_Commit\<close> (\<open>crates/game-server/src/repository.rs\<close>): the checks of a commit,
    the transaction, and histories of a campaign's store as an inductive predicate;
  \<^item> \<open>Encounter_Service\<close>, \<open>Encounter_Commit\<close> (\<open>application.rs\<close>): the projection that rebuilds and
    verifies an encounter from its events, and \<open>commit_encounter_mutation\<close> from the request to the
    receipt; \<open>Encounter_Trail\<close> and \<open>Encounter_Journal\<close>: the adapter's spans verify, the stored dice
    lead to the same resolution, and whatever the service commits the projection accepts;
  \<^item> \<open>Local_Campaign\<close> (\<open>application.rs\<close>): the exploration check and the social interaction from the
    request to the receipt; \<open>Local_Journal\<close>: what the encounter and the social scene start from.
  Each theory of definitions gives its states and operations, then mostly a predicate \<open>..._ok\<close> that
  characterises \<open>validate\<close>, then for every operation what it does on success and that a failure
  leaves its arguments alone. Locales state the contracts shared by many operations (an operation
  that keeps an invariant and rolls back on failure, one that moreover keeps a frame, one that spends
  from a budget); the operations of each component interpret them. The properties, last in each
  theory, rest on these.

  What the properties show: that every component's states stay valid under any history of
  operations and that refused operations change nothing; that budgets (movement, actions, hit dice,
  spell slots, coins) are never exceeded; that attacks, tests, damage, sleep and the effects of
  conditions are decided as the rules say; that the optimised or batched forms agree with the plain
  ones (the short rest, roll records, the replay of a roll); that the die is fair and dice notation
  round trips; that the encounter engine never panics or leaves its invariant, that its damage is the
  damage of the rules matrix, that a reward needs a victory and that the wight's turn ends; that the
  log of a campaign is gapless and sound under concurrent and stale requests, that experience only
  comes from audited awards, that a committed encounter journal always replays, die for die, and that
  a repeated request is answered from its receipt; that the exploration check decides how the encounter
  opens and the social interaction is settled once. Four of them exhibit behaviour the code does not
  intend: cover makes Dexterity saves harder, a wallet can be unable to pay what it covers, standing
  up breaks the movement state of creatures whose speed is no multiple of ten, and while an attack
  waits for the hero's Shield reaction the player can move the attacker.

  Bounds and fuel. The only loop that need not end by its own structure is rejection sampling;
  every iteration consumes a word of the cursor, which is bounded, so it is a recursion on the words
  left and its only failure is the exhausted cursor. No other definition has fuel.

  Not modelled. The ChaCha20 stream, SHA-256, the JSON text of a document, the clock and the random
  audit ids are code of libraries: parameters. Serde forms, tracing and display strings of errors are
  left out. Of the server, the creation of the local campaign on first use and its pins, the hero
  document a commit may update (a parameter: its verdict and its revision), the read models, the other repositories and their queries,
  job queues, model providers, content loading and the web application are not modelled; nor are
  hero creation and level-up, which rest on long authored tables, and the shape checks of model
  proposals. The manifest lists each with its reason.
\<close>

end
